(* ===== verification/Prelude.thy ===== *)
theory Prelude
  imports Main "HOL-Library.Word"
begin

text \<open>
  Shared vocabulary of the development: results with errors as values, state-passing
  transactions that may fail, the text operations of the Rust standard library that the
  code uses on byte strings, hexadecimal digits, and the hint collections that the
  component theories extend.
\<close>

named_theorems tx_simps \<open>unfolding rules of the result and transaction combinators\<close>
named_theorems keeps_intros \<open>invariance of transactions, one rule per combinator\<close>

section \<open>Results\<close>

text \<open>
  \<open>Result<T, E>\<close> is the sum \<open>'e + 'a\<close> with \<open>Inl\<close> for \<open>Err\<close>. The operator \<open>?\<close> of
  the source is \<open>bindR\<close>.
\<close>

fun bindR :: "'e + 'a \<Rightarrow> ('a \<Rightarrow> 'e + 'b) \<Rightarrow> 'e + 'b" where
  "bindR (Inl e) k = Inl e"
| "bindR (Inr x) k = k x"

fun map_err :: "('e \<Rightarrow> 'f) \<Rightarrow> 'e + 'a \<Rightarrow> 'f + 'a" where
  "map_err g (Inl e) = Inl (g e)"
| "map_err g (Inr x) = Inr x"

fun map_ok :: "('a \<Rightarrow> 'b) \<Rightarrow> 'e + 'a \<Rightarrow> 'e + 'b" where
  "map_ok g (Inl e) = Inl e"
| "map_ok g (Inr x) = Inr (g x)"

definition ensureR :: "bool \<Rightarrow> 'e \<Rightarrow> 'e + unit" where
  "ensureR b e = (if b then Inr () else Inl e)"

fun ok_or :: "'e \<Rightarrow> 'a option \<Rightarrow> 'e + 'a" where
  "ok_or e None = Inl e"
| "ok_or e (Some x) = Inr x"

fun is_ok :: "'e + 'a \<Rightarrow> bool" where
  "is_ok (Inl e) = False"
| "is_ok (Inr x) = True"

lemma bindR_Inr_iff: "bindR m k = Inr y \<longleftrightarrow> (\<exists>x. m = Inr x \<and> k x = Inr y)"
  by (cases m) auto

lemma map_err_Inr_iff [simp]: "map_err g m = Inr y \<longleftrightarrow> m = Inr y"
  by (cases m) auto

lemma map_err_Inl_iff: "map_err g m = Inl y \<longleftrightarrow> (\<exists>e. m = Inl e \<and> y = g e)"
  by (cases m) auto

lemma map_ok_Inr_iff: "map_ok g m = Inr y \<longleftrightarrow> (\<exists>x. m = Inr x \<and> y = g x)"
  by (cases m) auto

lemma ensureR_Inr_iff [simp]: "ensureR b e = Inr u \<longleftrightarrow> b"
  by (simp add: ensureR_def)

lemma ensureR_simps [tx_simps, simp]:
  "ensureR True e = Inr ()"
  "ensureR False e = Inl e"
  by (simp_all add: ensureR_def)

lemma ok_or_Inr_iff [simp]: "ok_or e m = Inr y \<longleftrightarrow> m = Some y"
  by (cases m) auto

lemma is_ok_iff: "is_ok r \<longleftrightarrow> (\<exists>x. r = Inr x)"
  by (cases r) auto

section \<open>Transactions\<close>

text \<open>
  A function that reads and writes the state directory takes the directory and returns the
  result with the directory it leaves. An error keeps the effects made before it, as the
  code does: the directory of an \<open>Inl\<close> result is the one at the point of the failure.
\<close>

type_synonym ('d, 'e, 'a) tx = "'d \<Rightarrow> ('e + 'a) \<times> 'd"

definition returnT :: "'a \<Rightarrow> ('d, 'e, 'a) tx" where
  "returnT x = (\<lambda>d. (Inr x, d))"

definition failT :: "'e \<Rightarrow> ('d, 'e, 'a) tx" where
  "failT e = (\<lambda>d. (Inl e, d))"

definition liftR :: "'e + 'a \<Rightarrow> ('d, 'e, 'a) tx" where
  "liftR r = (\<lambda>d. (r, d))"

definition readT :: "('d \<Rightarrow> 'e + 'a) \<Rightarrow> ('d, 'e, 'a) tx" where
  "readT f = (\<lambda>d. (f d, d))"

definition bindT :: "('d, 'e, 'a) tx \<Rightarrow> ('a \<Rightarrow> ('d, 'e, 'b) tx) \<Rightarrow> ('d, 'e, 'b) tx" where
  "bindT m k = (\<lambda>d. case m d of (Inl e, d') \<Rightarrow> (Inl e, d') | (Inr x, d') \<Rightarrow> k x d')"

definition map_errT :: "('e \<Rightarrow> 'f) \<Rightarrow> ('d, 'e, 'a) tx \<Rightarrow> ('d, 'f, 'a) tx" where
  "map_errT g m = (\<lambda>d. case m d of (r, d') \<Rightarrow> (map_err g r, d'))"

lemma returnT_apply [tx_simps]: "returnT x d = (Inr x, d)"
  by (simp add: returnT_def)

lemma failT_apply [tx_simps]: "failT e d = (Inl e, d)"
  by (simp add: failT_def)

lemma liftR_apply [tx_simps]: "liftR r d = (r, d)"
  by (simp add: liftR_def)

lemma readT_apply [tx_simps]: "readT f d = (f d, d)"
  by (simp add: readT_def)

lemma bindT_apply:
  "bindT m k d = (case m d of (Inl e, d') \<Rightarrow> (Inl e, d') | (Inr x, d') \<Rightarrow> k x d')"
  by (simp add: bindT_def)

lemma bindT_Inl: "m d = (Inl e, d') \<Longrightarrow> bindT m k d = (Inl e, d')"
  by (simp add: bindT_def)

lemma bindT_Inr: "m d = (Inr x, d') \<Longrightarrow> bindT m k d = k x d'"
  by (simp add: bindT_def)

lemma bindT_simps [tx_simps]:
  "bindT (returnT x) k d = k x d"
  "bindT (failT e) k d = (Inl e, d)"
  "bindT (liftR (Inl e)) k d = (Inl e, d)"
  "bindT (liftR (Inr x)) k d = k x d"
  by (simp_all add: bindT_def returnT_def failT_def liftR_def)

lemma bindT_readT: "bindT (readT f) k d = (case f d of Inl e \<Rightarrow> (Inl e, d) | Inr x \<Rightarrow> k x d)"
  by (simp add: bindT_def readT_def split: sum.splits)

lemma bindT_liftR: "bindT (liftR r) k d = (case r of Inl e \<Rightarrow> (Inl e, d) | Inr x \<Rightarrow> k x d)"
  by (simp add: bindT_def liftR_def split: sum.splits)

lemma map_errT_apply [tx_simps]:
  "map_errT g m d = (map_err g (fst (m d)), snd (m d))"
  by (simp add: map_errT_def split: prod.splits)

lemma bindT_ok_iff:
  "bindT m k d = (Inr y, d2) \<longleftrightarrow> (\<exists>x d1. m d = (Inr x, d1) \<and> k x d1 = (Inr y, d2))"
  by (auto simp: bindT_def split: prod.splits sum.splits)

lemma bindT_okE:
  assumes "bindT m k d = (Inr y, d2)"
  obtains x d1 where "m d = (Inr x, d1)" and "k x d1 = (Inr y, d2)"
  using assms by (auto simp: bindT_ok_iff)

lemma map_errT_ok_iff: "map_errT g m d = (Inr y, d2) \<longleftrightarrow> m d = (Inr y, d2)"
  by (auto simp: map_errT_def split: prod.splits)

text \<open>
  \<open>keeps P m\<close>: the transaction preserves \<open>P\<close> whatever it returns, an error included.
  Since an error result carries the directory at the point of failure, this is also what
  survives a crash between any two steps.
\<close>

definition keeps :: "('d \<Rightarrow> bool) \<Rightarrow> ('d, 'e, 'a) tx \<Rightarrow> bool" where
  "keeps P m \<longleftrightarrow> (\<forall>d. P d \<longrightarrow> P (snd (m d)))"

lemma keepsI: "(\<And>d. P d \<Longrightarrow> P (snd (m d))) \<Longrightarrow> keeps P m"
  by (simp add: keeps_def)

lemma keepsD: "keeps P m \<Longrightarrow> P d \<Longrightarrow> P (snd (m d))"
  by (simp add: keeps_def)

lemma keeps_returnT [keeps_intros]: "keeps P (returnT x)"
  by (simp add: keeps_def returnT_def)

lemma keeps_failT [keeps_intros]: "keeps P (failT e)"
  by (simp add: keeps_def failT_def)

lemma keeps_liftR [keeps_intros]: "keeps P (liftR r)"
  by (simp add: keeps_def liftR_def)

lemma keeps_readT [keeps_intros]: "keeps P (readT f)"
  by (simp add: keeps_def readT_def)

lemma keeps_bindT [keeps_intros]:
  "keeps P m \<Longrightarrow> (\<And>x. keeps P (k x)) \<Longrightarrow> keeps P (bindT m k)"
  by (fastforce simp: keeps_def bindT_def split: prod.splits sum.splits)

lemma keeps_map_errT [keeps_intros]: "keeps P m \<Longrightarrow> keeps P (map_errT g m)"
  by (simp add: keeps_def map_errT_apply)

lemma keeps_if [keeps_intros]: "keeps P m \<Longrightarrow> keeps P n \<Longrightarrow> keeps P (if b then m else n)"
  by simp

text \<open>
  A triple for transactions that can stop half way: from \<open>P\<close>, the transaction establishes
  \<open>Q\<close> when it succeeds, and leaves \<open>F\<close> at whatever point it fails.
\<close>

definition triple ::
  "('d \<Rightarrow> bool) \<Rightarrow> ('d \<Rightarrow> bool) \<Rightarrow> ('d, 'e, 'a) tx \<Rightarrow> ('a \<Rightarrow> 'd \<Rightarrow> bool) \<Rightarrow> bool" where
  "triple F P m Q \<longleftrightarrow>
     (\<forall>d. P d \<longrightarrow> (\<forall>e d'. m d = (Inl e, d') \<longrightarrow> F d') \<and> (\<forall>x d'. m d = (Inr x, d') \<longrightarrow> Q x d'))"

named_theorems triple_intros \<open>triples of the combinators\<close>

lemma tripleI:
  assumes "\<And>d e d'. P d \<Longrightarrow> m d = (Inl e, d') \<Longrightarrow> F d'"
    and "\<And>d x d'. P d \<Longrightarrow> m d = (Inr x, d') \<Longrightarrow> Q x d'"
  shows "triple F P m Q"
  using assms by (auto simp: triple_def)

lemma triple_ok: "triple F P m Q \<Longrightarrow> P d \<Longrightarrow> m d = (Inr x, d') \<Longrightarrow> Q x d'"
  by (simp add: triple_def)

lemma triple_err: "triple F P m Q \<Longrightarrow> P d \<Longrightarrow> m d = (Inl e, d') \<Longrightarrow> F d'"
  by (simp add: triple_def)

lemma triple_any: "triple F P m (\<lambda>_. F) \<Longrightarrow> P d \<Longrightarrow> F (snd (m d))"
  by (cases "m d"; cases "fst (m d)") (auto simp: triple_def)

lemma triple_returnT [triple_intros]: "(\<And>d. P d \<Longrightarrow> Q x d) \<Longrightarrow> triple F P (returnT x) Q"
  by (simp add: triple_def returnT_def)

lemma triple_failT [triple_intros]: "(\<And>d. P d \<Longrightarrow> F d) \<Longrightarrow> triple F P (failT e) Q"
  by (simp add: triple_def failT_def)

lemma triple_bindT:
  assumes m: "triple F P m Q" and k: "\<And>x. triple F (Q x) (k x) R"
  shows "triple F P (bindT m k) R"
proof (rule tripleI)
  fix d e d'
  assume P: "P d" and r: "bindT m k d = (Inl e, d')"
  show "F d'"
  proof (cases "m d")
    case (Pair a d1)
    with r P triple_err [OF m] triple_ok [OF m] triple_err [OF k] show ?thesis
      by (cases a) (simp_all add: bindT_def, blast)
  qed
next
  fix d x d'
  assume P: "P d" and r: "bindT m k d = (Inr x, d')"
  from r obtain y d1 where y: "m d = (Inr y, d1)" and x: "k y d1 = (Inr x, d')"
    by (rule bindT_okE)
  from m P y have "Q y d1" by (rule triple_ok)
  from k this x show "R x d'" by (rule triple_ok)
qed

lemma triple_readT:
  assumes "\<And>d e. P d \<Longrightarrow> f d = Inl e \<Longrightarrow> F d"
    and "\<And>x. triple F (\<lambda>d. P d \<and> f d = Inr x) (k x) R"
  shows "triple F P (bindT (readT f) k) R"
  by (rule triple_bindT [where Q = "\<lambda>x d. P d \<and> f d = Inr x"])
    (use assms in \<open>auto simp: triple_def readT_def\<close>)

lemma triple_liftR:
  assumes "\<And>d e. P d \<Longrightarrow> r = Inl e \<Longrightarrow> F d"
    and "\<And>x. r = Inr x \<Longrightarrow> triple F P (k x) R"
  shows "triple F P (bindT (liftR r) k) R"
  using assms by (cases r) (auto simp: triple_def bindT_liftR)

lemma triple_conseq:
  assumes "triple F P' m Q'" and "\<And>d. P d \<Longrightarrow> P' d" and "\<And>x d. Q' x d \<Longrightarrow> Q x d"
  shows "triple F P m Q"
  using assms unfolding triple_def by blast

lemma triple_pre: "triple F P' m Q \<Longrightarrow> (\<And>d. P d \<Longrightarrow> P' d) \<Longrightarrow> triple F P m Q"
  by (rule triple_conseq)

lemma triple_false: "(\<And>d. \<not> P d) \<Longrightarrow> triple F P m Q"
  by (simp add: triple_def)

lemma triple_cases:
  "triple F (\<lambda>d. P d \<and> B d) m Q \<Longrightarrow> triple F (\<lambda>d. P d \<and> \<not> B d) m Q \<Longrightarrow> triple F P m Q"
  unfolding triple_def by blast

lemma triple_post: "triple F P m Q' \<Longrightarrow> (\<And>x d. Q' x d \<Longrightarrow> Q x d) \<Longrightarrow> triple F P m Q"
  by (rule triple_conseq)

lemma triple_weaken:
  "triple F' P m Q \<Longrightarrow> (\<And>d. F' d \<Longrightarrow> F d) \<Longrightarrow> triple F P m Q"
  unfolding triple_def by blast

lemma triple_invariant_readT:
  "(\<And>x. triple F (\<lambda>d. F d \<and> f d = Inr x) (k x) R) \<Longrightarrow> triple F F (bindT (readT f) k) R"
  by (rule triple_readT)

lemma triple_map_errT: "triple F P m Q \<Longrightarrow> triple F P (map_errT g m) Q"
  by (auto simp: triple_def map_errT_apply map_err_Inl_iff prod_eq_iff)

lemma triple_if: "triple F (\<lambda>d. P d \<and> b) m Q \<Longrightarrow> triple F (\<lambda>d. P d \<and> \<not> b) n Q \<Longrightarrow>
    triple F P (if b then m else n) Q"
  by (auto simp: triple_def)

section \<open>Text\<close>

text \<open>
  A Rust \<open>str\<close> is a UTF-8 byte string: a \<open>char\<close> of HOL is a byte. \<open>str::trim\<close> removes
  Unicode white space, whose encodings are listed here; UTF-8 is self-synchronising, so
  matching encodings at the two ends of the byte string is the same as matching code points.
\<close>

definition whitespace_encodings :: "string list" where
  "whitespace_encodings =
     map (map char_of)
       ([[9], [10], [11], [12], [13], [32], [0xC2, 0x85], [0xC2, 0xA0], [0xE1, 0x9A, 0x80],
         [0xE2, 0x80, 0xA8], [0xE2, 0x80, 0xA9], [0xE2, 0x80, 0xAF], [0xE2, 0x81, 0x9F],
         [0xE3, 0x80, 0x80],
         [0xE2, 0x80, 0x80], [0xE2, 0x80, 0x81], [0xE2, 0x80, 0x82], [0xE2, 0x80, 0x83],
         [0xE2, 0x80, 0x84], [0xE2, 0x80, 0x85], [0xE2, 0x80, 0x86], [0xE2, 0x80, 0x87],
         [0xE2, 0x80, 0x88], [0xE2, 0x80, 0x89], [0xE2, 0x80, 0x8A :: nat]])"

definition starts_with :: "string \<Rightarrow> string \<Rightarrow> bool" where
  "starts_with p s \<longleftrightarrow> take (length p) s = p"

definition ends_with :: "string \<Rightarrow> string \<Rightarrow> bool" where
  "ends_with p s \<longleftrightarrow> starts_with (rev p) (rev s)"

definition strip_suffix :: "string \<Rightarrow> string \<Rightarrow> string option" where
  "strip_suffix p s = (if ends_with p s then Some (take (length s - length p) s) else None)"

lemma whitespace_encodings_nonempty: "e \<in> set whitespace_encodings \<Longrightarrow> 0 < length e"
  by (auto simp: whitespace_encodings_def)

lemma find_whitespace_pos:
  "find (\<lambda>e. starts_with e s) whitespace_encodings = Some e \<Longrightarrow> 0 < length e \<and> s \<noteq> []"
  by (auto simp: find_Some_iff starts_with_def dest: whitespace_encodings_nonempty [OF nth_mem])

lemma find_whitespace_rev_pos:
  "find (\<lambda>e. starts_with (rev e) s) whitespace_encodings = Some e \<Longrightarrow> 0 < length e \<and> s \<noteq> []"
  by (auto simp: find_Some_iff starts_with_def dest: whitespace_encodings_nonempty [OF nth_mem])

function trim_start :: "string \<Rightarrow> string" where
  "trim_start s =
     (case find (\<lambda>e. starts_with e s) whitespace_encodings of
        None \<Rightarrow> s
      | Some e \<Rightarrow> trim_start (drop (length e) s))"
  by pat_completeness auto
termination
  by (relation "measure length") (auto dest: find_whitespace_pos)

declare trim_start.simps [simp del]

function trim_end_rev :: "string \<Rightarrow> string" where
  "trim_end_rev s =
     (case find (\<lambda>e. starts_with (rev e) s) whitespace_encodings of
        None \<Rightarrow> s
      | Some e \<Rightarrow> trim_end_rev (drop (length e) s))"
  by pat_completeness auto
termination
  by (relation "measure length") (auto dest: find_whitespace_rev_pos)

declare trim_end_rev.simps [simp del]

definition trim :: "string \<Rightarrow> string" where
  "trim s = rev (trim_end_rev (rev (trim_start s)))"

definition blank_edge :: "string \<Rightarrow> bool" where
  "blank_edge s \<longleftrightarrow>
     find (\<lambda>e. starts_with e s) whitespace_encodings \<noteq> None \<or>
     find (\<lambda>e. starts_with (rev e) (rev s)) whitespace_encodings \<noteq> None"

lemma trim_id: "\<not> blank_edge s \<Longrightarrow> trim s = s"
  by (simp add: blank_edge_def trim_def trim_start.simps trim_end_rev.simps)

lemma length_trim_start: "length (trim_start s) \<le> length s"
proof (induction s rule: trim_start.induct)
  case (1 s)
  then show ?case
    by (subst trim_start.simps) (fastforce split: option.splits)
qed

lemma length_trim_end_rev: "length (trim_end_rev s) \<le> length s"
proof (induction s rule: trim_end_rev.induct)
  case (1 s)
  then show ?case
    by (subst trim_end_rev.simps) (fastforce split: option.splits)
qed

lemma length_trim: "length (trim s) \<le> length s"
  using length_trim_end_rev [of "rev (trim_start s)"] length_trim_start [of s]
  by (simp add: trim_def)

text \<open>ASCII classes and case folding, on bytes.\<close>

definition byte :: "char \<Rightarrow> nat" where
  "byte c = of_char c"

definition is_ascii_digit :: "char \<Rightarrow> bool" where
  "is_ascii_digit c \<longleftrightarrow> 48 \<le> byte c \<and> byte c \<le> 57"

definition is_ascii_alphanumeric :: "char \<Rightarrow> bool" where
  "is_ascii_alphanumeric c \<longleftrightarrow>
     is_ascii_digit c \<or> (65 \<le> byte c \<and> byte c \<le> 90) \<or> (97 \<le> byte c \<and> byte c \<le> 122)"

definition to_ascii_lower :: "char \<Rightarrow> char" where
  "to_ascii_lower c = (if 65 \<le> byte c \<and> byte c \<le> 90 then char_of (byte c + 32) else c)"

definition eq_ignore_ascii_case :: "string \<Rightarrow> string \<Rightarrow> bool" where
  "eq_ignore_ascii_case s t \<longleftrightarrow> map to_ascii_lower s = map to_ascii_lower t"

text \<open>\<open>value.split(';').next()\<close>: the text before the first separator.\<close>

definition before_first :: "char \<Rightarrow> string \<Rightarrow> string" where
  "before_first c s = takeWhile (\<lambda>x. x \<noteq> c) s"

definition trim_end_matches :: "char \<Rightarrow> string \<Rightarrow> string" where
  "trim_end_matches c s = rev (dropWhile (\<lambda>x. x = c) (rev s))"

fun contains_text :: "string \<Rightarrow> string \<Rightarrow> bool" where
  "contains_text p [] = (p = [])"
| "contains_text p (c # s) = (starts_with p (c # s) \<or> contains_text p s)"

text \<open>\<open>std::str::from_utf8\<close>: well-formed UTF-8, on byte values.\<close>

definition continuation :: "nat \<Rightarrow> bool" where
  "continuation b \<longleftrightarrow> 0x80 \<le> b \<and> b \<le> 0xBF"

fun utf8_bytes :: "nat list \<Rightarrow> bool" where
  "utf8_bytes [] = True"
| "utf8_bytes [a] = (a < 0x80)"
| "utf8_bytes [a, b] =
     ((a < 0x80 \<and> utf8_bytes [b]) \<or> (0xC2 \<le> a \<and> a \<le> 0xDF \<and> continuation b))"
| "utf8_bytes [a, b, c] =
     ((a < 0x80 \<and> utf8_bytes [b, c]) \<or>
      (0xC2 \<le> a \<and> a \<le> 0xDF \<and> continuation b \<and> utf8_bytes [c]) \<or>
      (0xE0 \<le> a \<and> a \<le> 0xEF \<and> (if a = 0xE0 then 0xA0 \<le> b \<and> b \<le> 0xBF
         else if a = 0xED then 0x80 \<le> b \<and> b \<le> 0x9F else continuation b) \<and> continuation c))"
| "utf8_bytes (a # b # c # e # s) =
     ((a < 0x80 \<and> utf8_bytes (b # c # e # s)) \<or>
      (0xC2 \<le> a \<and> a \<le> 0xDF \<and> continuation b \<and> utf8_bytes (c # e # s)) \<or>
      (0xE0 \<le> a \<and> a \<le> 0xEF \<and> (if a = 0xE0 then 0xA0 \<le> b \<and> b \<le> 0xBF
         else if a = 0xED then 0x80 \<le> b \<and> b \<le> 0x9F else continuation b) \<and> continuation c
         \<and> utf8_bytes (e # s)) \<or>
      (0xF0 \<le> a \<and> a \<le> 0xF4 \<and> (if a = 0xF0 then 0x90 \<le> b \<and> b \<le> 0xBF
         else if a = 0xF4 then 0x80 \<le> b \<and> b \<le> 0x8F else continuation b) \<and> continuation c
         \<and> continuation e \<and> utf8_bytes s))"

definition utf8_valid :: "string \<Rightarrow> bool" where
  "utf8_valid s = utf8_bytes (map byte s)"

lemma utf8_bytes_ascii: "list_all (\<lambda>b. b < 0x80) bs \<Longrightarrow> utf8_bytes bs"
  by (induction bs rule: utf8_bytes.induct) auto

lemma utf8_valid_ascii: "list_all (\<lambda>c. byte c < 0x80) s \<Longrightarrow> utf8_valid s"
  by (simp add: utf8_valid_def utf8_bytes_ascii list_all_length)

definition plain_byte :: "char \<Rightarrow> bool" where
  "plain_byte c \<longleftrightarrow> 32 < byte c \<and> byte c < 128"

lemma utf8_valid_plain: "list_all plain_byte s \<Longrightarrow> utf8_valid s"
  by (rule utf8_valid_ascii) (simp add: plain_byte_def list_all_length)

text \<open>Checked and saturating arithmetic on \<open>usize\<close> values, kept at 64 bits.\<close>

definition checked_add64 :: "nat \<Rightarrow> nat \<Rightarrow> nat option" where
  "checked_add64 a b = (if a + b < 2 ^ 64 then Some (a + b) else None)"

definition saturating_add64 :: "64 word \<Rightarrow> 64 word \<Rightarrow> 64 word" where
  "saturating_add64 a b = (if unat a + unat b < 2 ^ 64 then a + b else - 1)"

lemma saturating_add64_ge: "unat a \<le> unat (saturating_add64 a b)"
proof (cases "unat a + unat b < 2 ^ 64")
  case True
  then show ?thesis by (simp add: saturating_add64_def unat_word_ariths)
next
  case False
  have "a \<le> - 1" by simp
  with False show ?thesis by (simp add: saturating_add64_def word_le_nat_alt)
qed

end
