(* ===== verification/State_Store.thy ===== *)
theory State_Store
  imports Prelude
begin

text \<open>
  The private state directory: \<open>src/state_store.rs\<close>. The file-system primitives of the
  crate \<open>xcsc\<close> (\<open>PrivateDirectory\<close>, \<open>AtomicFile\<close>, \<open>AdvisoryLock\<close>) are not part of the
  repository: they are the fields of the record \<open>fs_ops\<close>, over an abstract directory type
  \<open>'d\<close>, and what the code relies on is the locale \<open>private_directory\<close>. The five state files,
  their names and budgets, the reader, the write transaction and the archive operation are
  translated; their contract for the pairing component is the locale \<open>state_store\<close>.
\<close>

section \<open>State files\<close>

datatype state_file = Identity | Credential | Pairing | Authorization | Binding

fun file_name :: "state_file \<Rightarrow> string" where
  "file_name Identity = ''host-id''"
| "file_name Credential = ''client-token''"
| "file_name Pairing = ''pairing-state.json''"
| "file_name Authorization = ''auth-state.json''"
| "file_name Binding = ''active-binding.json''"

fun max_bytes :: "state_file \<Rightarrow> nat" where
  "max_bytes Identity = 128"
| "max_bytes Credential = 4096"
| "max_bytes Pairing = 64 * 1024"
| "max_bytes Authorization = 16 * 1024"
| "max_bytes Binding = 16 * 1024"

definition lock_name :: string where
  "lock_name = ''.credential-state.lock''"

lemma file_name_inject [simp]: "file_name f = file_name g \<longleftrightarrow> f = g"
  by (cases f; cases g) simp_all

lemma file_name_not_lock [simp]: "file_name f \<noteq> lock_name" "lock_name \<noteq> file_name f"
  by (cases f; simp add: lock_name_def)+

section \<open>Errors and the file-system interface\<close>

datatype io_error_kind = NotFound | PermissionDenied | InvalidData | InvalidInput | OtherKind

datatype io_error = Io_Error (io_kind: io_error_kind) (io_message: string)

text \<open>
  \<open>xcsc::fs_safety::Error\<close>: the code distinguishes the \<open>Io\<close> variant from every other one.
\<close>

datatype fs_error = Fs_Io io_error | Fs_Unsafe string

fun to_io_error :: "fs_error \<Rightarrow> io_error" where
  "to_io_error (Fs_Io e) = e"
| "to_io_error (Fs_Unsafe m) = Io_Error InvalidData m"

record 'd fs_ops =
  fs_open :: "'d \<Rightarrow> fs_error + unit"
  fs_create_dir :: "('d, fs_error, unit) tx"
  fs_lock :: "string \<Rightarrow> ('d, fs_error, unit) tx"
  fs_read :: "string \<Rightarrow> nat \<Rightarrow> 'd \<Rightarrow> fs_error + string"
  fs_replace :: "string \<Rightarrow> string \<Rightarrow> ('d, fs_error, unit) tx"
  fs_create :: "string \<Rightarrow> string \<Rightarrow> ('d, fs_error, unit) tx"
  fs_remove :: "string \<Rightarrow> ('d, fs_error, unit) tx"
  fs_entry_name :: "string \<Rightarrow> fs_error + string"

section \<open>Reader and transaction\<close>

definition reader_open :: "'d fs_ops \<Rightarrow> 'd \<Rightarrow> io_error + unit" where
  "reader_open D d = map_err to_io_error (fs_open D d)"

definition read_file :: "'d fs_ops \<Rightarrow> state_file \<Rightarrow> 'd \<Rightarrow> io_error + string" where
  "read_file D f d = map_err to_io_error (fs_read D (file_name f) (max_bytes f) d)"

definition begin_transaction :: "'d fs_ops \<Rightarrow> ('d, io_error, unit) tx" where
  "begin_transaction D =
     bindT (map_errT to_io_error (fs_create_dir D)) (\<lambda>_.
     map_errT to_io_error (fs_lock D lock_name))"

definition write_file :: "'d fs_ops \<Rightarrow> state_file \<Rightarrow> string \<Rightarrow> ('d, io_error, unit) tx" where
  "write_file D f value =
     (let bytes = trim value in
      if bytes = [] \<or> max_bytes f < length bytes
      then failT (Io_Error InvalidInput ''private state is empty or exceeds its byte budget'')
      else map_errT to_io_error (fs_replace D (file_name f) bytes))"

definition archive_file :: "'d fs_ops \<Rightarrow> state_file \<Rightarrow> string \<Rightarrow> ('d, io_error, string option) tx" where
  "archive_file D f archive_name = (\<lambda>d.
     case read_file D f d of
       Inl e \<Rightarrow> (if io_kind e = NotFound then (Inr None, d) else (Inl e, d))
     | Inr bytes \<Rightarrow>
         bindT (liftR (map_err to_io_error (fs_entry_name D archive_name))) (\<lambda>archive.
         bindT (map_errT to_io_error (fs_create D archive bytes)) (\<lambda>_.
         bindT (map_errT to_io_error (fs_remove D (file_name f))) (\<lambda>_.
         returnT (Some archive_name)))) d)"

section \<open>What the code relies on\<close>

text \<open>
  The documented behaviour of the primitives, over the contents \<open>files\<close> of the directory:
  a read returns the whole file or fails; \<open>NotFound\<close> means there is no such entry;
  \<open>AtomicFile::replace\<close> is atomic (a failed call may or may not have published the new
  bytes, never a mixture) and touches one entry; \<open>create\<close> refuses an existing entry; opening
  and locking touch no state file. Nothing is said of when a call fails.
\<close>

locale private_directory =
  fixes D :: "'d fs_ops" and files :: "'d \<Rightarrow> string \<Rightarrow> string option"
  assumes read_ok: "fs_read D n m d = Inr b \<Longrightarrow> files d n = Some b"
    and read_missing: "fs_read D n m d = Inl e \<Longrightarrow> io_kind (to_io_error e) = NotFound \<Longrightarrow> files d n = None"
    and create_dir_frame: "files (snd (fs_create_dir D d)) = files d"
    and lock_frame: "n \<noteq> l \<Longrightarrow> files (snd (fs_lock D l d)) n = files d n"
    and replace_ok: "fs_replace D n b d = (Inr u, d') \<Longrightarrow> files d' n = Some b"
    and replace_atomic: "files (snd (fs_replace D n b d)) n \<in> {files d n, Some b}"
    and replace_frame: "n' \<noteq> n \<Longrightarrow> files (snd (fs_replace D n b d)) n' = files d n'"
    and create_ok: "fs_create D n b d = (Inr u, d') \<Longrightarrow> files d n = None \<and> files d' n = Some b"
    and create_atomic: "files (snd (fs_create D n b d)) n \<in> {files d n, Some b}"
    and create_exclusive: "files d n = Some c \<Longrightarrow> files (snd (fs_create D n b d)) n = Some c"
    and create_frame: "n' \<noteq> n \<Longrightarrow> files (snd (fs_create D n b d)) n' = files d n'"
    and remove_ok: "fs_remove D n d = (Inr u, d') \<Longrightarrow> files d' n = None"
    and remove_atomic: "files (snd (fs_remove D n d)) n \<in> {files d n, None}"
    and remove_frame: "n' \<noteq> n \<Longrightarrow> files (snd (fs_remove D n d)) n' = files d n'"
    and entry_name_ok: "fs_entry_name D s = Inr n \<Longrightarrow> n = s"

text \<open>
  A directory in which the calls do succeed: \<open>healthy\<close> is kept by every call, and in a
  healthy directory reads within the budget and all writes go through. Statements that an
  operation completes use it; statements about what is left on disk do not.
\<close>

locale healthy_directory = private_directory +
  fixes healthy :: "'a \<Rightarrow> bool"
  assumes healthy_read:
      "healthy d \<Longrightarrow> files d n = Some b \<Longrightarrow> length b \<le> m \<Longrightarrow> fs_read D n m d = Inr b"
    and healthy_missing:
      "healthy d \<Longrightarrow> files d n = None \<Longrightarrow> \<exists>msg. fs_read D n m d = Inl (Fs_Io (Io_Error NotFound msg))"
    and healthy_open: "healthy d \<Longrightarrow> fs_open D d = Inr ()"
    and healthy_begin:
      "healthy d \<Longrightarrow> \<exists>d1 d2. fs_create_dir D d = (Inr (), d1) \<and> fs_lock D l d1 = (Inr (), d2) \<and> healthy d2"
    and healthy_replace: "healthy d \<Longrightarrow> \<exists>d'. fs_replace D n b d = (Inr (), d') \<and> healthy d'"
    and healthy_create:
      "healthy d \<Longrightarrow> files d n = None \<Longrightarrow> \<exists>d'. fs_create D n b d = (Inr (), d') \<and> healthy d'"
    and healthy_remove:
      "healthy d \<Longrightarrow> files d n \<noteq> None \<Longrightarrow> \<exists>d'. fs_remove D n d = (Inr (), d') \<and> healthy d'"
    and healthy_entry: "\<exists>n. fs_entry_name D s = Inr n"

section \<open>The contract of the state store\<close>

text \<open>
  What the pairing component sees: one slot per state file, read as a whole, replaced one at
  a time, with trimmed text. \<open>view d f\<close> is the content of the slot.
\<close>

locale state_store =
  fixes sread :: "state_file \<Rightarrow> 'd \<Rightarrow> io_error + string"
    and swrite :: "state_file \<Rightarrow> string \<Rightarrow> ('d, io_error, unit) tx"
    and sbegin :: "('d, io_error, unit) tx"
    and view :: "'d \<Rightarrow> state_file \<Rightarrow> string option"
  assumes sread_ok: "sread f d = Inr b \<Longrightarrow> view d f = Some b"
    and sread_missing: "sread f d = Inl e \<Longrightarrow> io_kind e = NotFound \<Longrightarrow> view d f = None"
    and sbegin_frame: "view (snd (sbegin d)) = view d"
    and swrite_ok: "swrite f v d = (Inr u, d') \<Longrightarrow> view d' f = Some (trim v)"
    and swrite_atomic: "view (snd (swrite f v d)) f \<in> {view d f, Some (trim v)}"
    and swrite_frame: "g \<noteq> f \<Longrightarrow> view (snd (swrite f v d)) g = view d g"
    and swrite_budget: "swrite f v d = (Inr u, d') \<Longrightarrow> trim v \<noteq> [] \<and> length (trim v) \<le> max_bytes f"

definition slot :: "('d \<Rightarrow> string \<Rightarrow> string option) \<Rightarrow> 'd \<Rightarrow> state_file \<Rightarrow> string option" where
  "slot files d f = files d (file_name f)"

context state_store
begin

lemma swrite_view: "swrite f v d = (Inr u, d') \<Longrightarrow> view d' = (view d)(f \<mapsto> trim v)"
  using swrite_ok swrite_frame by (metis (no_types, lifting) fun_upd_apply snd_conv ext)

lemma swrite_view_any:
  "view (snd (swrite f v d)) = view d \<or> view (snd (swrite f v d)) = (view d)(f \<mapsto> trim v)"
proof -
  have other: "\<And>g. g \<noteq> f \<Longrightarrow> view (snd (swrite f v d)) g = view d g"
    by (rule swrite_frame)
  from swrite_atomic [of f v d] consider
    "view (snd (swrite f v d)) f = view d f" | "view (snd (swrite f v d)) f = Some (trim v)"
    by blast
  then show ?thesis
    by cases (use other in \<open>fastforce simp: fun_eq_iff\<close>)+
qed

end

context private_directory
begin

lemma begin_frame: "slot files (snd (begin_transaction D d)) = slot files d"
proof
  fix f
  obtain r d1 where dir: "fs_create_dir D d = (r, d1)" by fastforce
  then have frame: "files d1 = files d"
    using create_dir_frame [of d] by simp
  show "slot files (snd (begin_transaction D d)) f = slot files d f"
    by (cases r) (simp_all add: begin_transaction_def bindT_def map_errT_def dir slot_def frame
        lock_frame split: prod.splits, metis frame lock_frame file_name_not_lock(1) snd_conv)
qed

lemma write_ok_replace:
  "write_file D f v d = (Inr u, d') \<Longrightarrow> fs_replace D (file_name f) (trim v) d = (Inr (), d')"
  by (auto simp: write_file_def Let_def failT_def map_errT_ok_iff split: if_splits)

lemma write_snd:
  "snd (write_file D f v d) = d \<or>
   snd (write_file D f v d) = snd (fs_replace D (file_name f) (trim v) d)"
  by (auto simp: write_file_def Let_def failT_def map_errT_apply)

end

sublocale private_directory \<subseteq> store: state_store "read_file D" "write_file D" "begin_transaction D" "slot files"
proof
  fix f d b e v u d' g
  show "read_file D f d = Inr b \<Longrightarrow> slot files d f = Some b"
    by (auto simp: read_file_def slot_def dest: read_ok)
  show "read_file D f d = Inl e \<Longrightarrow> io_kind e = NotFound \<Longrightarrow> slot files d f = None"
    by (auto simp: read_file_def slot_def map_err_Inl_iff dest: read_missing)
  show "slot files (snd (begin_transaction D d)) = slot files d"
    by (rule begin_frame)
  show "write_file D f v d = (Inr u, d') \<Longrightarrow> slot files d' f = Some (trim v)"
    by (auto simp: slot_def dest!: write_ok_replace replace_ok)
  show "slot files (snd (write_file D f v d)) f \<in> {slot files d f, Some (trim v)}"
    using write_snd [of f v d] replace_atomic [of "file_name f" "trim v" d] by (auto simp: slot_def)
  show "g \<noteq> f \<Longrightarrow> slot files (snd (write_file D f v d)) g = slot files d g"
    using write_snd [of f v d] by (auto simp: slot_def replace_frame)
  show "write_file D f v d = (Inr u, d') \<Longrightarrow> trim v \<noteq> [] \<and> length (trim v) \<le> max_bytes f"
    by (auto simp: write_file_def Let_def failT_def split: if_splits)
qed

section \<open>Archiving\<close>

text \<open>
  Of the pair (state file, archive entry) at least one holds the bytes at every point of the
  operation, whichever call fails or is interrupted.
\<close>

definition held_somewhere ::
  "('d \<Rightarrow> string \<Rightarrow> string option) \<Rightarrow> state_file \<Rightarrow> string \<Rightarrow> string \<Rightarrow> 'd \<Rightarrow> bool" where
  "held_somewhere files f archive_name bytes d \<longleftrightarrow>
     files d (file_name f) = Some bytes \<or> files d archive_name = Some bytes"

context private_directory
begin

lemma archive_file_cases:
  assumes "read_file D f d = Inr bytes"
  shows "archive_file D f an d =
     bindT (map_errT to_io_error (fs_create D an bytes)) (\<lambda>_.
     bindT (map_errT to_io_error (fs_remove D (file_name f))) (\<lambda>_.
     returnT (Some an))) d \<or> snd (archive_file D f an d) = d"
  using assms entry_name_ok [of an]
  by (cases "fs_entry_name D an") (auto simp: archive_file_def bindT_liftR)

lemma archive_never_loses:
  assumes name: "an \<noteq> file_name f" and held: "files d (file_name f) = Some bytes"
  shows "held_somewhere files f an bytes (snd (archive_file D f an d))"
proof (cases "read_file D f d")
  case (Inl e)
  then show ?thesis
    by (simp add: archive_file_def held_somewhere_def held)
next
  case (Inr b)
  then have b: "b = bytes"
    using held by (auto simp: read_file_def dest: read_ok)
  obtain r d1 where cr: "fs_create D an b d = (r, d1)" by fastforce
  have keep: "files d1 (file_name f) = Some bytes"
    using create_frame [OF name [symmetric], of b d] held cr by simp
  have new: "r = Inr () \<Longrightarrow> files d1 an = Some bytes"
    using create_ok cr b by blast
  have after: "held_somewhere files f an bytes (snd (bindT (map_errT to_io_error (fs_create D an b)) (\<lambda>_.
     bindT (map_errT to_io_error (fs_remove D (file_name f))) (\<lambda>_. returnT (Some an))) d))"
  proof (cases r)
    case (Inl e)
    with keep cr show ?thesis
      by (simp add: bindT_def map_errT_def held_somewhere_def)
  next
    case (Inr u)
    obtain r2 d2 where rm: "fs_remove D (file_name f) d1 = (r2, d2)" by fastforce
    have "files d2 an = Some bytes"
      using remove_frame [OF name, of d1] rm new Inr by simp
    then show ?thesis
      using cr rm Inr by (cases r2) (simp_all add: bindT_def map_errT_def returnT_def held_somewhere_def)
  qed
  show ?thesis
    using archive_file_cases [OF Inr, of an] after
    by (auto simp: held_somewhere_def held)
qed

lemma archive_done:
  assumes name: "an \<noteq> file_name f" and ok: "archive_file D f an d = (Inr (Some p), d')"
  shows "p = an \<and> slot files d' f = None \<and> files d' an = slot files d f \<and> files d an = None"
proof -
  obtain b where rd: "read_file D f d = Inr b"
    using ok by (cases "read_file D f d") (auto simp: archive_file_def split: if_splits)
  from ok rd obtain d1 where cr: "fs_create D an b d = (Inr (), d1)"
    and rm: "fs_remove D (file_name f) d1 = (Inr (), d')" and p: "p = an"
    by (auto simp: archive_file_def bindT_ok_iff liftR_def map_errT_ok_iff returnT_def
        dest: entry_name_ok)
  have "files d' an = Some b"
    using create_ok [OF cr] remove_frame [OF name, of d1] rm by simp
  moreover have "slot files d f = Some b"
    using rd by (rule store.sread_ok)
  ultimately show ?thesis
    using create_ok [OF cr] remove_ok [OF rm] p by (simp add: slot_def)
qed

lemma archive_frame:
  assumes "file_name g \<noteq> an" and "g \<noteq> f"
  shows "slot files (snd (archive_file D f an d)) g = slot files d g"
proof (cases "read_file D f d")
  case (Inl e)
  then show ?thesis by (simp add: archive_file_def)
next
  case (Inr b)
  obtain r d1 where cr: "fs_create D an b d = (r, d1)" by fastforce
  obtain r2 d2 where rm: "fs_remove D (file_name f) d1 = (r2, d2)" by fastforce
  have k1: "files d1 (file_name g) = files d (file_name g)"
    using create_frame [OF assms(1), of b d] cr by simp
  have k2: "files d2 (file_name g) = files d (file_name g)"
    using remove_frame [of "file_name g" "file_name f" d1] rm k1 assms(2) by simp
  show ?thesis
    using archive_file_cases [OF Inr, of an] cr rm k1 k2
    by (cases r; cases r2) (auto simp: bindT_def map_errT_def returnT_def slot_def)
qed

end

context healthy_directory
begin

lemma read_file_healthy:
  "healthy d \<Longrightarrow> slot files d f = Some b \<Longrightarrow> length b \<le> max_bytes f \<Longrightarrow> read_file D f d = Inr b"
  by (simp add: read_file_def slot_def healthy_read)

lemma read_file_healthy_missing:
  assumes "healthy d" and "slot files d f = None"
  obtains msg where "read_file D f d = Inl (Io_Error NotFound msg)"
  using healthy_missing [of d "file_name f" "max_bytes f"] assms
  by (auto simp: read_file_def slot_def)

lemma begin_healthy:
  assumes "healthy d"
  obtains d' where "begin_transaction D d = (Inr (), d')" and "healthy d'"
  using healthy_begin [OF assms, of lock_name]
  by (auto simp: begin_transaction_def bindT_def map_errT_def)

lemma write_file_healthy:
  assumes "healthy d" and "trim v \<noteq> []" and "length (trim v) \<le> max_bytes f"
  obtains d' where "write_file D f v d = (Inr (), d')" and "healthy d'"
  using healthy_replace [OF assms(1), of "file_name f" "trim v"] assms(2,3)
  by (auto simp: write_file_def Let_def map_errT_def)

end

end
