(* ===== verification/Memory_Directory.thy ===== *)
theory Memory_Directory
  imports State_Store
begin

text \<open>
  A private directory held in memory, with a plan of faults for the calls to come. It
  implements the interface that \<open>State_Store\<close> assumes of \<open>xcsc\<close>, so that every statement
  of the development that rests on it applies to a concrete directory, with and without
  failing calls.
\<close>

datatype fault = Proceed | Fail_Before | Fail_After

record memory_dir =
  mem_files :: "string \<Rightarrow> string option"
  mem_faults :: "fault list"

definition mem_error :: fs_error where
  "mem_error = Fs_Io (Io_Error OtherKind ''injected fault'')"

definition mem_missing :: fs_error where
  "mem_missing = Fs_Io (Io_Error NotFound ''no such entry'')"

text \<open>One mutating call: the head of the plan decides whether it fails, and on which side.\<close>

definition mem_call ::
  "((string \<Rightarrow> string option) \<Rightarrow> (string \<Rightarrow> string option)) \<Rightarrow> (memory_dir, fs_error, unit) tx" where
  "mem_call effect m =
     (case mem_faults m of
        [] \<Rightarrow> (Inr (), m\<lparr>mem_files := effect (mem_files m)\<rparr>)
      | Proceed # fs \<Rightarrow> (Inr (), m\<lparr>mem_files := effect (mem_files m), mem_faults := fs\<rparr>)
      | Fail_Before # fs \<Rightarrow> (Inl mem_error, m\<lparr>mem_faults := fs\<rparr>)
      | Fail_After # fs \<Rightarrow> (Inl mem_error, m\<lparr>mem_files := effect (mem_files m), mem_faults := fs\<rparr>))"

definition mem_read :: "string \<Rightarrow> nat \<Rightarrow> memory_dir \<Rightarrow> fs_error + string" where
  "mem_read n k m =
     (case mem_files m n of
        None \<Rightarrow> Inl mem_missing
      | Some b \<Rightarrow> if length b \<le> k then Inr b else Inl (Fs_Unsafe ''entry exceeds its budget''))"

definition mem_ops :: "memory_dir fs_ops" where
  "mem_ops = \<lparr>
     fs_open = (\<lambda>m. Inr ()),
     fs_create_dir = mem_call (\<lambda>fs. fs),
     fs_lock = (\<lambda>l. mem_call (\<lambda>fs. fs(l \<mapsto> [])) ),
     fs_read = mem_read,
     fs_replace = (\<lambda>n b. mem_call (\<lambda>fs. fs(n \<mapsto> b))),
     fs_create = (\<lambda>n b m. if mem_files m n = None then mem_call (\<lambda>fs. fs(n \<mapsto> b)) m
                          else (Inl (Fs_Unsafe ''entry exists''), m)),
     fs_remove = (\<lambda>n m. if mem_files m n = None then (Inl mem_missing, m)
                        else mem_call (\<lambda>fs. fs(n := None)) m),
     fs_entry_name = Inr \<rparr>"

definition mem_healthy :: "memory_dir \<Rightarrow> bool" where
  "mem_healthy m \<longleftrightarrow> mem_faults m = []"

lemma mem_call_ok: "mem_call g m = (Inr u, m') \<Longrightarrow> mem_files m' = g (mem_files m)"
  by (auto simp: mem_call_def split: list.splits fault.splits)

lemma mem_call_files:
  "mem_files (snd (mem_call g m)) = mem_files m \<or> mem_files (snd (mem_call g m)) = g (mem_files m)"
  by (auto simp: mem_call_def split: list.splits fault.splits)

lemma mem_call_at:
  "mem_files (snd (mem_call g m)) n = mem_files m n \<or> mem_files (snd (mem_call g m)) n = g (mem_files m) n"
  using mem_call_files [of g m] by auto

lemma mem_call_frame:
  "g (mem_files m) n = mem_files m n \<Longrightarrow> mem_files (snd (mem_call g m)) n = mem_files m n"
  using mem_call_at [of g m n] by auto

lemma mem_call_id: "mem_files (snd (mem_call (\<lambda>fs. fs) m)) = mem_files m"
  using mem_call_files [of "\<lambda>fs. fs" m] by simp

lemma mem_call_healthy:
  "mem_healthy m \<Longrightarrow> \<exists>m'. mem_call g m = (Inr (), m') \<and> mem_healthy m'"
  by (simp add: mem_call_def mem_healthy_def)

lemmas mem_defs = mem_ops_def mem_read_def mem_missing_def mem_error_def

interpretation mem: healthy_directory mem_ops mem_files mem_healthy
proof
  fix d n m b e l u d' n' c s
  show "fs_read mem_ops n m d = Inr b \<Longrightarrow> mem_files d n = Some b"
    by (auto simp: mem_defs split: option.splits if_splits)
  show "fs_read mem_ops n m d = Inl e \<Longrightarrow> io_kind (to_io_error e) = NotFound \<Longrightarrow> mem_files d n = None"
    by (auto simp: mem_defs split: option.splits if_splits)
  show "mem_files (snd (fs_create_dir mem_ops d)) = mem_files d"
    by (simp add: mem_ops_def mem_call_id)
  show "n \<noteq> l \<Longrightarrow> mem_files (snd (fs_lock mem_ops l d)) n = mem_files d n"
    by (simp add: mem_ops_def mem_call_frame)
  show "fs_replace mem_ops n b d = (Inr u, d') \<Longrightarrow> mem_files d' n = Some b"
    by (auto simp: mem_ops_def dest!: mem_call_ok)
  show "mem_files (snd (fs_replace mem_ops n b d)) n \<in> {mem_files d n, Some b}"
    using mem_call_at [of "\<lambda>fs. fs(n \<mapsto> b)" d n] by (simp add: mem_ops_def)
  show "n' \<noteq> n \<Longrightarrow> mem_files (snd (fs_replace mem_ops n b d)) n' = mem_files d n'"
    by (simp add: mem_ops_def mem_call_frame)
  show "fs_create mem_ops n b d = (Inr u, d') \<Longrightarrow> mem_files d n = None \<and> mem_files d' n = Some b"
    by (auto simp: mem_ops_def split: if_splits dest!: mem_call_ok)
  show "mem_files (snd (fs_create mem_ops n b d)) n \<in> {mem_files d n, Some b}"
    using mem_call_at [of "\<lambda>fs. fs(n \<mapsto> b)" d n] by (auto simp: mem_ops_def)
  show "mem_files d n = Some c \<Longrightarrow> mem_files (snd (fs_create mem_ops n b d)) n = Some c"
    by (simp add: mem_ops_def)
  show "n' \<noteq> n \<Longrightarrow> mem_files (snd (fs_create mem_ops n b d)) n' = mem_files d n'"
    by (auto simp: mem_ops_def intro!: mem_call_frame)
  show "fs_remove mem_ops n d = (Inr u, d') \<Longrightarrow> mem_files d' n = None"
    by (auto simp: mem_ops_def split: if_splits dest!: mem_call_ok)
  show "mem_files (snd (fs_remove mem_ops n d)) n \<in> {mem_files d n, None}"
    using mem_call_at [of "\<lambda>fs. fs(n := None)" d n] by (auto simp: mem_ops_def)
  show "n' \<noteq> n \<Longrightarrow> mem_files (snd (fs_remove mem_ops n d)) n' = mem_files d n'"
    by (auto simp: mem_ops_def intro!: mem_call_frame)
  show "fs_entry_name mem_ops s = Inr n \<Longrightarrow> n = s"
    by (simp add: mem_ops_def)
  show "mem_healthy d \<Longrightarrow> mem_files d n = Some b \<Longrightarrow> length b \<le> m \<Longrightarrow> fs_read mem_ops n m d = Inr b"
    by (simp add: mem_defs)
  show "mem_healthy d \<Longrightarrow> mem_files d n = None \<Longrightarrow>
      \<exists>msg. fs_read mem_ops n m d = Inl (Fs_Io (Io_Error NotFound msg))"
    by (simp add: mem_defs)
  show "mem_healthy d \<Longrightarrow> fs_open mem_ops d = Inr ()"
    by (simp add: mem_ops_def)
  show "mem_healthy d \<Longrightarrow> \<exists>d1 d2. fs_create_dir mem_ops d = (Inr (), d1) \<and>
      fs_lock mem_ops l d1 = (Inr (), d2) \<and> mem_healthy d2"
    by (simp add: mem_ops_def mem_call_def mem_healthy_def)
  show "mem_healthy d \<Longrightarrow> \<exists>d'. fs_replace mem_ops n b d = (Inr (), d') \<and> mem_healthy d'"
    by (simp add: mem_ops_def mem_call_healthy)
  show "mem_healthy d \<Longrightarrow> mem_files d n = None \<Longrightarrow>
      \<exists>d'. fs_create mem_ops n b d = (Inr (), d') \<and> mem_healthy d'"
    by (simp add: mem_ops_def mem_call_healthy)
  show "mem_healthy d \<Longrightarrow> mem_files d n \<noteq> None \<Longrightarrow>
      \<exists>d'. fs_remove mem_ops n d = (Inr (), d') \<and> mem_healthy d'"
    by (auto simp: mem_ops_def mem_call_healthy)
  show "\<exists>n. fs_entry_name mem_ops s = Inr n"
    by (simp add: mem_ops_def)
qed

end
