(* ===== verification/Config.thy ===== *)
theory Config
  imports State_Store
begin

text \<open>
  Errors, identifiers and the client configuration: \<open>src/config.rs\<close> (the parts that pairing
  and delivery use), \<open>src/pairing_input.rs\<close> and the error types of \<open>src/pairing/mod.rs\<close> and
  \<open>src/transport.rs\<close>. URL syntax is the crate \<open>url\<close> and the wire constants are the crate
  \<open>xsos_protocol\<close>: both are records of parameters.
\<close>

section \<open>Identifiers and errors\<close>

type_synonym uuid = "128 word"
type_synonym time = int

definition is_nil :: "uuid \<Rightarrow> bool" where
  "is_nil u \<longleftrightarrow> u = 0"

datatype pairing_http_operation = Create_Op | Activate_Op | Poll_Op

record pairing_http_error =
  he_operation :: pairing_http_operation
  he_status :: nat
  he_code :: "string option"
  he_received :: "16 word option"
  he_supported :: "16 word list"
  he_request_id :: "uuid option"

datatype http_transport_error = Connection | Timeout | Tls | Response_Too_Large | Transport_Failed

text \<open>
  \<open>anyhow::Error\<close>: the typed errors that the code recovers with \<open>downcast_ref\<close>, plain
  messages, panics of \<open>expect\<close>, and \<open>context\<close>, through which \<open>downcast_ref\<close> looks.
\<close>

datatype client_error =
    Message string
  | Io io_error
  | Unsupported string string string
  | Corrupt string
  | Superseded
  | Http_Rejected pairing_http_error
  | Http_Transport http_transport_error
  | Credential_Corrupt
  | Identity_Invalid
  | Identity_State io_error
  | Panic string
  | Context string client_error

type_synonym 'a res = "client_error + 'a"

fun root_cause :: "client_error \<Rightarrow> client_error" where
  "root_cause (Context m e) = root_cause e"
| "root_cause e = e"

definition with_context :: "string \<Rightarrow> 'a res \<Rightarrow> 'a res" where
  "with_context m = map_err (Context m)"

fun downcast_io :: "client_error \<Rightarrow> io_error option" where
  "downcast_io (Context m e) = downcast_io e"
| "downcast_io (Io e) = Some e"
| "downcast_io e = None"

fun downcast_http :: "client_error \<Rightarrow> pairing_http_error option" where
  "downcast_http (Context m e) = downcast_http e"
| "downcast_http (Http_Rejected h) = Some h"
| "downcast_http e = None"

definition is_superseded :: "client_error \<Rightarrow> bool" where
  "is_superseded e \<longleftrightarrow> root_cause e = Superseded"

lemma with_context_Inr_iff [simp]: "with_context m r = Inr x \<longleftrightarrow> r = Inr x"
  by (simp add: with_context_def)

definition transaction_missing :: "pairing_http_error \<Rightarrow> bool" where
  "transaction_missing h \<longleftrightarrow>
     (he_operation h = Activate_Op \<or> he_operation h = Poll_Op) \<and> he_status h = 404 \<and>
     he_code h = Some ''pairing_transaction_not_found'' \<and> he_request_id h \<noteq> None"

definition transaction_expired :: "pairing_http_error \<Rightarrow> bool" where
  "transaction_expired h \<longleftrightarrow>
     (he_operation h = Activate_Op \<or> he_operation h = Poll_Op) \<and> he_status h = 410 \<and>
     he_code h = Some ''pairing_transaction_expired'' \<and> he_request_id h \<noteq> None"

definition transaction_ended_for :: "pairing_http_error \<Rightarrow> uuid \<Rightarrow> bool" where
  "transaction_ended_for h expected \<longleftrightarrow>
     (transaction_missing h \<or> transaction_expired h) \<and> he_request_id h = Some expected"

section \<open>The libraries \<open>url\<close> and \<open>xsos_protocol\<close>\<close>

text \<open>The accessors of a parsed \<open>url::Url\<close> that the code reads.\<close>

record url =
  u_text :: string
  u_scheme :: string
  u_username :: string
  u_password :: "string option"
  u_host :: "string option"
  u_port :: "16 word option"
  u_port_or_default :: "16 word option"
  u_path :: string
  u_query :: "string option"
  u_fragment :: "string option"
  u_cannot_be_a_base :: bool
  u_origin :: string

record url_ops =
  url_parse :: "string \<Rightarrow> url option"
  url_join :: "url \<Rightarrow> string \<Rightarrow> url option"
  url_set_path :: "string \<Rightarrow> url \<Rightarrow> url"
  url_set_query :: "string option \<Rightarrow> url \<Rightarrow> url"
  url_set_fragment :: "string option \<Rightarrow> url \<Rightarrow> url"
  url_pop_if_empty :: "url \<Rightarrow> url"
  url_push :: "string \<Rightarrow> url \<Rightarrow> url"

record protocol =
  client_report_path :: string
  client_pairing_requests_path :: string
  browser_activation_path_prefix :: string
  host_pairing_protocol_version :: "16 word"
  client_report_schema_version :: "64 word"
  client_report_max_body_bytes :: nat

section \<open>Configuration\<close>

datatype output_mode = Json | Human

record smart_config =
  smart_enabled :: bool
  smart_interval_seconds :: "64 word"
  smart_executable :: "string option"

record client_config =
  endpoint :: string
  pairing_endpoint_field :: "string option"
  otlp_endpoint :: "string option"
  otlp_token :: "string option"
  interval_seconds :: "64 word"
  slow_interval_seconds :: "64 word"
  smart :: smart_config
  request_timeout_seconds :: "64 word"
  jitter_percent :: "8 word"
  state_dir :: string
  spool_max_bytes :: "64 word"
  tls_identity_pem :: "string option"
  tls_identity_pkcs12 :: "string option"
  tls_identity_password :: "string option"
  tls_ca_pem :: "string option"
  config_path :: "string option"
  server_override :: "string option"
  endpoint_override :: "string option"
  replace_pending_pairing :: bool
  output_mode_field :: output_mode
  doctor_delivery :: bool
  config_issue :: "string option"

definition validate_endpoint :: "url_ops \<Rightarrow> string \<Rightarrow> unit res" where
  "validate_endpoint U e =
     bindR (with_context ''invalid telemetry endpoint'' (ok_or (Message ''URL'') (url_parse U e))) (\<lambda>u.
     ensureR (u_scheme u = ''https'' \<and> u_host u \<noteq> None \<and> u_username u = [] \<and> u_password u = None
       \<and> u_fragment u = None \<and> u_port_or_default u \<noteq> None)
       (Message ''telemetry endpoint must use trusted HTTPS''))"

definition validate_pairing_endpoint :: "url_ops \<Rightarrow> string \<Rightarrow> unit res" where
  "validate_pairing_endpoint U e =
     bindR (with_context ''browser pairing requires HTTPS'' (validate_endpoint U e)) (\<lambda>_.
     bindR (ok_or (Panic ''validate_endpoint accepted the URL'') (url_parse U e)) (\<lambda>u.
     if u_query u \<noteq> None \<or> u_fragment u \<noteq> None
     then Inl (Message ''pairing_endpoint must not contain a query or fragment'')
     else Inr ()))"

definition validate_durable_report_endpoint :: "url_ops \<Rightarrow> client_config \<Rightarrow> string \<Rightarrow> unit res" where
  "validate_durable_report_endpoint U c report_endpoint = validate_endpoint U report_endpoint"

text \<open>
  \<open>ClientConfig::pairing_endpoint\<close>: the configured endpoint, or the one derived from the
  report endpoint; a report endpoint that does not parse is the panic of \<open>expect\<close>.
\<close>

definition pairing_endpoint :: "url_ops \<Rightarrow> protocol \<Rightarrow> client_config \<Rightarrow> string res" where
  "pairing_endpoint U X c =
     (case pairing_endpoint_field c of
        Some e \<Rightarrow> Inr e
      | None \<Rightarrow>
          (case strip_suffix (client_report_path X) (endpoint c) of
             Some base \<Rightarrow> Inr (base @ client_pairing_requests_path X)
           | None \<Rightarrow>
               (case url_parse U (endpoint c) of
                  None \<Rightarrow> Inl (Panic ''endpoint was validated before pairing_endpoint is used'')
                | Some u \<Rightarrow> Inr (trim_end_matches CHR ''/''
                    (u_text (url_set_fragment U None (url_set_query U None
                       (url_set_path U (client_pairing_requests_path X) u))))))))"

definition packaged_placeholder_host :: string where
  "packaged_placeholder_host = ''xsos.example.com''"

definition uses_packaged_placeholder_server :: "url_ops \<Rightarrow> protocol \<Rightarrow> client_config \<Rightarrow> bool res" where
  "uses_packaged_placeholder_server U X c =
     bindR (pairing_endpoint U X c) (\<lambda>p.
     Inr (list_ex (\<lambda>u. u_host u = Some packaged_placeholder_host)
       (List.map_filter (url_parse U) [endpoint c, p])))"

text \<open>Operator input: \<open>src/pairing_input.rs\<close>.\<close>

definition validate_server_base :: "url_ops \<Rightarrow> string \<Rightarrow> string res" where
  "validate_server_base U value =
     (let value = trim value in
     bindR (ensureR (value \<noteq> []) (Message ''server URL is required'')) (\<lambda>_.
     bindR (ensureR (length value \<le> 2048) (Message ''server URL is too long'')) (\<lambda>_.
     bindR (with_context ''invalid server URL'' (ok_or (Message ''URL'') (url_parse U value))) (\<lambda>u.
     bindR (ensureR (\<not> u_cannot_be_a_base u) (Message ''server URL must be hierarchical'')) (\<lambda>_.
     bindR (ensureR (u_host u \<noteq> None) (Message ''server URL must contain a host'')) (\<lambda>_.
     bindR (ensureR (u_port u \<noteq> Some 0) (Message ''server URL must not use port zero'')) (\<lambda>_.
     bindR (ensureR (u_username u = [] \<and> u_password u = None)
       (Message ''server URL must not embed credentials'')) (\<lambda>_.
     bindR (ensureR (u_query u = None \<and> u_fragment u = None)
       (Message ''server URL must not contain a query string or fragment'')) (\<lambda>_.
     bindR (ensureR (u_path u = ''/'')
       (Message ''server URL must be a complete management-console origin without a path'')) (\<lambda>_.
     bindR (ensureR (u_scheme u = ''https'') (Message ''server URL must use HTTPS'')) (\<lambda>_.
     Inr (trim_end_matches CHR ''/'' (u_text u)))))))))))))"

text \<open>
  A control or white-space code point of a UTF-8 text: an ASCII one is a byte, C1 controls
  are \<open>C2 80\<close> to \<open>C2 9F\<close>, the other spaces are those of \<open>whitespace_encodings\<close>.
\<close>

definition ascii_control :: "char \<Rightarrow> bool" where
  "ascii_control c \<longleftrightarrow> byte c < 32 \<or> byte c = 127"

fun has_c1_control :: "string \<Rightarrow> bool" where
  "has_c1_control (a # b # s) =
     ((byte a = 0xC2 \<and> 0x80 \<le> byte b \<and> byte b \<le> 0x9F) \<or> has_c1_control (b # s))"
| "has_c1_control s = False"

definition has_control_or_whitespace :: "string \<Rightarrow> bool" where
  "has_control_or_whitespace s \<longleftrightarrow>
     list_ex ascii_control s \<or> has_c1_control s \<or> list_ex (\<lambda>e. contains_text e s) whitespace_encodings"

definition validate_activation_code :: "string \<Rightarrow> string res" where
  "validate_activation_code value =
     bindR (ensureR (value \<noteq> []) (Message ''authorization key is required'')) (\<lambda>_.
     bindR (ensureR (length value \<le> 256) (Message ''authorization key must not exceed 256 bytes'')) (\<lambda>_.
     bindR (ensureR (\<not> has_control_or_whitespace value)
       (Message ''authorization key must not contain whitespace or control characters'')) (\<lambda>_.
     Inr value)))"

text \<open>\<open>pairing/commit.rs\<close>: after pairing, the configuration follows the committed endpoint.\<close>

definition apply_active_config :: "string \<Rightarrow> client_config \<Rightarrow> client_config" where
  "apply_active_config report_endpoint c = c\<lparr>endpoint := report_endpoint, pairing_endpoint_field := None\<rparr>"

definition apply_pair_options :: "url_ops \<Rightarrow> protocol \<Rightarrow> client_config \<Rightarrow> client_config res" where
  "apply_pair_options U X c =
     (if server_override c \<noteq> None \<and> endpoint_override c \<noteq> None
      then Inl (Message ''pair accepts either --server or --endpoint, not both'')
      else case server_override c of
        Some server \<Rightarrow>
          bindR (with_context ''invalid --server URL'' (validate_server_base U server)) (\<lambda>server.
          Inr (c\<lparr>endpoint := trim_end_matches CHR ''/'' server @ client_report_path X,
                 pairing_endpoint_field :=
                   Some (trim_end_matches CHR ''/'' server @ client_pairing_requests_path X)\<rparr>))
      | None \<Rightarrow>
          (case endpoint_override c of
             Some e \<Rightarrow> Inr (c\<lparr>endpoint := e, pairing_endpoint_field := None, endpoint_override := None\<rparr>)
           | None \<Rightarrow> Inr c))"

section \<open>Facts about endpoints\<close>

definition trusted_https :: "url_ops \<Rightarrow> string \<Rightarrow> bool" where
  "trusted_https U e \<longleftrightarrow> (\<exists>u. url_parse U e = Some u \<and> u_scheme u = ''https'' \<and> u_host u \<noteq> None
     \<and> u_username u = [] \<and> u_password u = None \<and> u_fragment u = None \<and> u_port_or_default u \<noteq> None)"

lemma validate_endpoint_ok_iff: "validate_endpoint U e = Inr u \<longleftrightarrow> trusted_https U e"
  by (auto simp: validate_endpoint_def trusted_https_def bindR_Inr_iff)

lemma validate_pairing_endpoint_ok_iff:
  "validate_pairing_endpoint U e = Inr u \<longleftrightarrow>
     trusted_https U e \<and> u_query (the (url_parse U e)) = None"
  by (auto simp: validate_pairing_endpoint_def bindR_Inr_iff validate_endpoint_ok_iff trusted_https_def
      split: if_splits)

lemma validate_pairing_endpoint_no_panic:
  "validate_pairing_endpoint U e \<noteq> Inl (Panic m)"
  by (cases "url_parse U e")
    (auto simp: validate_pairing_endpoint_def validate_endpoint_def with_context_def ensureR_def)

lemma strip_suffix_append: "strip_suffix p (b @ p) = Some b"
  by (simp add: strip_suffix_def ends_with_def starts_with_def)

lemma apply_active_config_endpoint [simp]:
  "endpoint (apply_active_config e c) = e"
  "pairing_endpoint_field (apply_active_config e c) = None"
  by (simp_all add: apply_active_config_def)

lemma validate_server_base_https:
  assumes "validate_server_base U v = Inr s"
  obtains u where "url_parse U (trim v) = Some u" and "u_scheme u = ''https''" and "u_path u = ''/''"
    and "u_username u = []" and "u_password u = None" and "s = trim_end_matches CHR ''/'' (u_text u)"
  using assms by (auto simp: validate_server_base_def Let_def bindR_Inr_iff)

text \<open>After \<open>pair --server\<close> the derived and the configured pairing endpoints agree.\<close>

lemma apply_pair_options_consistent:
  assumes "server_override c = Some s" and "apply_pair_options U X c = Inr c'"
  shows "pairing_endpoint U X (c'\<lparr>pairing_endpoint_field := None\<rparr>) = pairing_endpoint U X c'"
  using assms
  by (auto simp: apply_pair_options_def bindR_Inr_iff pairing_endpoint_def strip_suffix_append
      split: if_splits)

lemma root_cause_with_context: "with_context m r = Inl e \<Longrightarrow> \<exists>e'. r = Inl e' \<and> root_cause e = root_cause e'"
  by (auto simp: with_context_def map_err_Inl_iff)

end
