(* ===== verification/Http.thy ===== *)
theory Http
  imports Config
begin

text \<open>
  The bounded HTTP layer of \<open>src/transport.rs\<close> and \<open>src/tls_input.rs\<close>: request and
  response limits, error classification, client construction, header and token checks.
  The crate \<open>reqwest\<close> is the parameter \<open>net\<close> (one exchange: the outcome of sending a
  request, with the body as the sequence of chunks that \<open>chunk()\<close> yields); header encoding,
  TLS material and the error envelope of \<open>xcsc\<close> are the record \<open>http_ops\<close>.
\<close>

section \<open>JSON values and the error envelope\<close>

text \<open>The variants of \<open>serde_json::Value\<close> that the code looks into; the rest is \<open>J_Other\<close>.\<close>

datatype json = J_String string | J_Unsigned "64 word" | J_Array "json list" | J_Other

fun as_str :: "json \<Rightarrow> string option" where
  "as_str (J_String s) = Some s"
| "as_str j = None"

fun as_u64 :: "json \<Rightarrow> 64 word option" where
  "as_u64 (J_Unsigned n) = Some n"
| "as_u64 j = None"

fun as_array :: "json \<Rightarrow> json list option" where
  "as_array (J_Array js) = Some js"
| "as_array j = None"

definition u16_try_from :: "64 word \<Rightarrow> 16 word option" where
  "u16_try_from n = (if unat n < 2 ^ 16 then Some (ucast n) else None)"

record error_envelope =
  ee_code :: string
  ee_retryable :: bool
  ee_details :: "string \<Rightarrow> json option"

text \<open>The list of versions: elements that are not 16-bit numbers are skipped.\<close>

definition u16_elements :: "json list \<Rightarrow> 16 word list" where
  "u16_elements js = List.map_filter (\<lambda>j. Option.bind (as_u64 j) u16_try_from) js"

section \<open>Requests and responses\<close>

datatype request_body = Body_Bytes string | Body_Stream

record http_request =
  rq_method :: string
  rq_url :: string
  rq_headers :: "(string \<times> string) list"
  rq_body :: "request_body option"

record reqwest_error =
  re_timeout :: bool
  re_sources :: "string list"
  re_connect :: bool

record raw_response =
  rr_status :: nat
  rr_headers :: "(string \<times> string) list"
  rr_content_length :: "64 word option"
  rr_chunks :: "(reqwest_error + string) list"

record http_response =
  hs_status :: nat
  hs_headers :: "(string \<times> string) list"
  hs_body :: string

type_synonym network = "http_request \<Rightarrow> reqwest_error + raw_response"

record http_ops =
  header_value_ok :: "string \<Rightarrow> bool"
  header_to_str :: "string \<Rightarrow> string option"
  request_builds :: "http_request \<Rightarrow> bool"
  parse_envelope :: "string \<Rightarrow> error_envelope option"
  tls_read_input :: "string \<Rightarrow> bool \<Rightarrow> nat \<Rightarrow> string res"
  identity_from_pem_ok :: "string \<Rightarrow> bool"
  certificates_in_bundle :: "string \<Rightarrow> nat option"
  client_builds :: bool

definition max_error_response_bytes :: nat where
  "max_error_response_bytes = 64 * 1024"

definition max_request_bytes :: nat where
  "max_request_bytes = 1024 * 1024"

definition max_header_bytes :: nat where
  "max_header_bytes = 64 * 1024"

definition max_tls_input_bytes :: nat where
  "max_tls_input_bytes = 1024 * 1024"

definition tls_markers :: "string list" where
  "tls_markers = [''certificate'', ''tls'', ''ssl'', ''handshake'']"

definition classify_reqwest_error :: "reqwest_error \<Rightarrow> http_transport_error" where
  "classify_reqwest_error e =
     (if re_timeout e then Timeout
      else if list_ex (\<lambda>m. list_ex (\<lambda>k. contains_text k (map to_ascii_lower m)) tls_markers) (re_sources e)
      then Tls
      else if re_connect e then Connection
      else Transport_Failed)"

fun header_bytes :: "nat \<Rightarrow> (string \<times> string) list \<Rightarrow> nat option" where
  "header_bytes acc [] = Some acc"
| "header_bytes acc ((n, v) # hs) =
     Option.bind (checked_add64 acc (length n)) (\<lambda>t.
     Option.bind (checked_add64 t (length v)) (\<lambda>t. header_bytes t hs))"

fun collect_body ::
  "nat \<Rightarrow> string \<Rightarrow> (reqwest_error + string) list \<Rightarrow> http_transport_error + string" where
  "collect_body maximum body [] = Inr body"
| "collect_body maximum body (Inl e # cs) = Inl (classify_reqwest_error e)"
| "collect_body maximum body (Inr chunk # cs) =
     (case checked_add64 (length body) (length chunk) of
        None \<Rightarrow> Inl Response_Too_Large
      | Some n \<Rightarrow> if maximum < n then Inl Response_Too_Large
                  else collect_body maximum (body @ chunk) cs)"

fun body_refused :: "request_body option \<Rightarrow> bool" where
  "body_refused None = False"
| "body_refused (Some (Body_Bytes b)) = (max_request_bytes < length b)"
| "body_refused (Some Body_Stream) = True"

definition execute_bounded ::
  "network \<Rightarrow> http_request \<Rightarrow> nat \<Rightarrow> http_transport_error + http_response" where
  "execute_bounded net request maximum =
     (if body_refused (rq_body request) then Inl Transport_Failed
      else
        bindR (map_err classify_reqwest_error (net request)) (\<lambda>response.
        if (case header_bytes 0 (rr_headers response) of None \<Rightarrow> True | Some n \<Rightarrow> max_header_bytes < n)
           \<or> (case rr_content_length response of None \<Rightarrow> False | Some n \<Rightarrow> maximum < unat n)
        then Inl Response_Too_Large
        else
          bindR (collect_body maximum [] (rr_chunks response)) (\<lambda>body.
          Inr \<lparr>hs_status = rr_status response, hs_headers = rr_headers response, hs_body = body\<rparr>)))"

definition post_bounded ::
  "http_ops \<Rightarrow> network \<Rightarrow> string \<Rightarrow> (string \<times> string) list \<Rightarrow> string \<Rightarrow> http_transport_error + http_response" where
  "post_bounded H net target headers body =
     (let request = \<lparr>rq_method = ''POST'', rq_url = target, rq_headers = headers,
                     rq_body = Some (Body_Bytes body)\<rparr> in
      if request_builds H request then execute_bounded net request max_error_response_bytes
      else Inl Transport_Failed)"

section \<open>Headers\<close>

definition header_get :: "string \<Rightarrow> (string \<times> string) list \<Rightarrow> string option" where
  "header_get n hs = map_of hs n"

definition content_type_of :: "http_ops \<Rightarrow> http_response \<Rightarrow> string option" where
  "content_type_of H r = Option.bind (header_get ''content-type'' (hs_headers r)) (header_to_str H)"

definition is_application_json :: "string \<Rightarrow> bool" where
  "is_application_json value \<longleftrightarrow>
     eq_ignore_ascii_case (trim (before_first CHR '';'' value)) ''application/json''"

definition authenticated_headers ::
  "http_ops \<Rightarrow> string \<Rightarrow> string \<Rightarrow> (string \<times> string) list res" where
  "authenticated_headers H token content_type =
     (let value = ''Bearer '' @ token in
      if header_value_ok H value
      then Inr [(''authorization'', value), (''content-type'', content_type)]
      else Inl (Message ''invalid authorization header''))"

section \<open>Tokens\<close>

definition is_token_byte :: "char \<Rightarrow> bool" where
  "is_token_byte c \<longleftrightarrow> is_ascii_digit c \<or> (97 \<le> byte c \<and> byte c \<le> 102)"

definition validate_current_token :: "string \<Rightarrow> unit res" where
  "validate_current_token token =
     (if length token = 64 \<and> list_all is_token_byte token then Inr () else Inl Credential_Corrupt)"

definition token_ok :: "string \<Rightarrow> bool" where
  "token_ok t \<longleftrightarrow> length t = 64 \<and> list_all is_token_byte t"

lemma validate_current_token_iff [simp]: "validate_current_token t = Inr u \<longleftrightarrow> token_ok t"
  by (auto simp: validate_current_token_def token_ok_def)

section \<open>Client construction (Linux build)\<close>

datatype tls_input = Tls_Identity | Tls_Trust_Anchor

definition read_tls_input :: "http_ops \<Rightarrow> string \<Rightarrow> tls_input \<Rightarrow> string res" where
  "read_tls_input H path kind =
     bindR (tls_read_input H path (kind = Tls_Identity) max_tls_input_bytes) (\<lambda>bytes.
     bindR (ensureR (bytes \<noteq> []) (Message ''TLS input is empty'')) (\<lambda>_.
     Inr bytes))"

record http_client =
  hc_timeout :: nat
  hc_connect_timeout :: nat
  hc_follows_redirects :: bool
  hc_max_header_list :: nat
  hc_identity :: "string option"
  hc_extra_roots :: "string option"

definition build_client_with_timeout :: "http_ops \<Rightarrow> client_config \<Rightarrow> nat \<Rightarrow> http_client res" where
  "build_client_with_timeout H c timeout =
     (if tls_identity_password c \<noteq> None \<and> tls_identity_pkcs12 c = None
      then Inl (Message ''tls_identity_password requires tls_identity_pkcs12'')
      else if tls_identity_pkcs12 c \<noteq> None
      then Inl (Message ''tls_identity_pkcs12 is supported only on Windows and macOS'')
      else
        bindR (case tls_identity_pem c of
            None \<Rightarrow> Inr None
          | Some path \<Rightarrow>
              bindR (with_context ''failed to read TLS identity'' (read_tls_input H path Tls_Identity)) (\<lambda>bytes.
              if identity_from_pem_ok H bytes then Inr (Some bytes)
              else Inl (Message ''invalid TLS PEM identity''))) (\<lambda>identity.
        bindR (case tls_ca_pem c of
            None \<Rightarrow> Inr None
          | Some path \<Rightarrow>
              bindR (with_context ''failed to read TLS CA'' (read_tls_input H path Tls_Trust_Anchor)) (\<lambda>bytes.
              case certificates_in_bundle H bytes of
                None \<Rightarrow> Inl (Message ''invalid TLS CA certificate'')
              | Some n \<Rightarrow> if n = 0 then Inl (Message ''TLS CA input contains no certificates'')
                          else Inr (Some bytes))) (\<lambda>roots.
        if client_builds H
        then Inr \<lparr>hc_timeout = timeout, hc_connect_timeout = min timeout 10,
                   hc_follows_redirects = False, hc_max_header_list = max_header_bytes,
                   hc_identity = identity, hc_extra_roots = roots\<rparr>
        else Inl (Message ''client builder''))))"

definition build_client :: "http_ops \<Rightarrow> client_config \<Rightarrow> http_client res" where
  "build_client H c = build_client_with_timeout H c (unat (request_timeout_seconds c))"

section \<open>Bounds\<close>

lemma collect_body_bound:
  "collect_body maximum body cs = Inr b \<Longrightarrow> length body \<le> maximum \<Longrightarrow> length b \<le> maximum"
proof (induction maximum body cs rule: collect_body.induct)
  case (3 maximum body chunk cs)
  then show ?case
    by (auto simp: checked_add64_def split: option.splits if_splits)
qed simp_all

lemma collect_body_concat:
  "collect_body maximum body (map Inr cs) = Inr b \<Longrightarrow> b = body @ concat cs"
  by (induction cs arbitrary: body) (fastforce split: option.splits if_splits)+

lemma collect_body_complete:
  assumes "length body + length (concat cs) \<le> maximum" and "maximum < 2 ^ 64"
  shows "collect_body maximum body (map Inr cs) = Inr (body @ concat cs)"
  using assms
proof (induction cs arbitrary: body)
  case Nil
  then show ?case by simp
next
  case (Cons c cs)
  then show ?case by (simp add: checked_add64_def)
qed

lemma header_bytes_sum:
  "header_bytes t hs = Some n \<Longrightarrow> n = t + sum_list (map (\<lambda>(a, b). length a + length b) hs)"
proof (induction t hs rule: header_bytes.induct)
  case (2 acc na v hs)
  from "2.prems" have
    "header_bytes (acc + length na + length v) hs = Some n"
    by (auto simp: checked_add64_def bind_eq_Some_conv split: if_splits)
  moreover have "checked_add64 acc (length na) = Some (acc + length na)"
    "checked_add64 (acc + length na) (length v) = Some (acc + length na + length v)"
    using "2.prems" by (auto simp: checked_add64_def bind_eq_Some_conv split: if_splits)
  ultimately show ?case
    using "2.IH" by fastforce
qed simp

lemma execute_bounded_limits:
  assumes "execute_bounded net request maximum = Inr r"
  shows "length (hs_body r) \<le> maximum
    \<and> sum_list (map (\<lambda>(a, b). length a + length b) (hs_headers r)) \<le> max_header_bytes
    \<and> (\<forall>b. rq_body request = Some (Body_Bytes b) \<longrightarrow> length b \<le> max_request_bytes)"
  using assms
  by (auto simp: execute_bounded_def bindR_Inr_iff dest: header_bytes_sum
      intro: collect_body_bound [where body = "[]"] split: if_splits option.splits)

lemma build_client_no_redirects:
  "build_client_with_timeout H c t = Inr k \<Longrightarrow>
     \<not> hc_follows_redirects k \<and> hc_connect_timeout k \<le> 10 \<and> hc_timeout k = t"
  by (auto simp: build_client_with_timeout_def bindR_Inr_iff split: if_splits)

end
