(* ===== verification/Pairing_State.thy ===== *)
theory Pairing_State
  imports Http
begin

text \<open>
  The persisted pairing state: \<open>src/pairing/state.rs\<close>, \<open>state_io.rs\<close> and
  \<open>state_storage.rs\<close>. The journal \<open>stored_pairing_state\<close>, the active binding and the
  authorization state are documents of the state directory; reading, validating, persisting
  and compare-and-swap are translated. JSON syntax (\<open>serde_json\<close>), UUID syntax, hashing and
  the other crates are fields of the record \<open>env\<close>, and the locale \<open>pairing_env\<close> states what
  the code relies on: what is encoded decodes to itself.
\<close>

section \<open>Documents\<close>

datatype pairing_state_version = Pairing_State_Version

record host_identity =
  hi_id :: string
  hi_os :: string
  hi_os_version :: "string option"
  hi_kernel_version :: "string option"
  hi_arch :: string
  hi_client_version :: string

text \<open>
  \<open>StoredPairingState\<close>, fields in the order of the source. \<open>Creating\<close>: version, generation,
  pairing endpoint, report endpoint, host, bearer secret, polling secret. \<open>Pending\<close>: version,
  generation, request, activation URL, expiry, poll interval, pairing endpoint, report
  endpoint, bearer secret, polling secret. \<open>Activating\<close>: version, generation, request,
  activation URL, expiry, poll interval, instance, pairing endpoint, report endpoint, bearer
  secret. \<open>Active\<close>: version, generation, request, activation URL, instance, report endpoint,
  completion time. \<open>Denied\<close> and \<open>Expired\<close>: the same without the instance.
\<close>

datatype stored_pairing_state =
    Creating pairing_state_version uuid string string host_identity string string
  | Pending pairing_state_version uuid uuid string time "64 word" string string string string
  | Activating pairing_state_version uuid uuid string time "64 word" uuid string string string
  | Active pairing_state_version uuid uuid string uuid string time
  | Denied pairing_state_version uuid uuid string string time
  | Expired pairing_state_version uuid uuid string string time

record active_binding =
  ab_version :: pairing_state_version
  ab_generation :: uuid
  ab_request_id :: uuid
  ab_instance_id :: uuid
  ab_report_endpoint :: string

datatype credential_authorization = Authorized | Reauthorization_Required

record local_auth_state =
  la_version :: pairing_state_version
  la_status :: credential_authorization
  la_reason :: string
  la_changed_at :: time

record pairing_session =
  ps_generation :: uuid
  ps_request_id :: uuid
  ps_activation_url :: string
  ps_expires_at :: time
  ps_poll_interval :: "64 word"

text \<open>
  \<open>PairingProgress\<close>: generation and report endpoint; the session; generation, request,
  instance and report endpoint; generation, request and activation URL.
\<close>

datatype pairing_progress =
    P_Creating uuid string
  | P_Waiting pairing_session
  | P_Active uuid uuid uuid string
  | P_Denied uuid uuid string
  | P_Expired uuid uuid string

fun active_request_id :: "pairing_progress \<Rightarrow> uuid option" where
  "active_request_id (P_Active g r i e) = Some r"
| "active_request_id p = None"

record client_identity =
  ci_product_id :: string
  ci_instance_id :: string
  ci_contract_id :: string

definition persisted_state_format :: string where
  "persisted_state_format = ''1.0.0''"

section \<open>The environment\<close>

record create_response =
  cr_request_id :: string
  cr_activation_url :: string
  cr_expires_in :: "64 word"
  cr_poll_interval :: "64 word"

datatype pairing_status = S_Waiting | S_Active | S_Denied | S_Expired

record status_response =
  sr_status :: pairing_status
  sr_instance_id :: "string option"

datatype pair_mode = Fresh | Recover_Identity

record create_request =
  cq_protocol_version :: "16 word"
  cq_mode :: pair_mode
  cq_host :: host_identity
  cq_token_hash :: string
  cq_polling_secret_hash :: string

record 'd env =
  env_fs :: "'d fs_ops"
  env_url :: url_ops
  env_proto :: protocol
  env_http :: http_ops
  json_version :: "string \<Rightarrow> json option"
  encode_state :: "stored_pairing_state \<Rightarrow> string option"
  decode_state :: "string \<Rightarrow> stored_pairing_state option"
  encode_binding :: "active_binding \<Rightarrow> string option"
  decode_binding :: "string \<Rightarrow> active_binding option"
  encode_auth :: "local_auth_state \<Rightarrow> string option"
  decode_auth :: "string \<Rightarrow> local_auth_state option"
  uuid_text :: "uuid \<Rightarrow> string"
  uuid_parse :: "string \<Rightarrow> uuid option"
  contract_new :: "string \<Rightarrow> string option"
  identity_new :: "string \<Rightarrow> string \<Rightarrow> string \<Rightarrow> client_identity option"
  identity_matches :: "client_identity \<Rightarrow> client_identity \<Rightarrow> bool"
  os_details :: host_identity
  sha256 :: "string \<Rightarrow> string"
  add_seconds :: "time \<Rightarrow> 64 word \<Rightarrow> time option"
  encode_create_request :: "create_request \<Rightarrow> string option"
  encode_activate_request :: "string \<Rightarrow> string \<Rightarrow> string option"
  parse_create_response :: "string \<Rightarrow> create_response option"
  parse_status_response :: "string \<Rightarrow> status_response option"
  parse_activate_response :: "string \<Rightarrow> string option"

section \<open>Decoding\<close>

text \<open>
  \<open>decode_pairing_document\<close>: the version is inspected before the body, so that a document of
  another format is reported as unsupported and not as corrupt.
\<close>

definition recognizable_version :: "string \<Rightarrow> bool" where
  "recognizable_version v \<longleftrightarrow>
     length v \<le> 64 \<and> list_all (\<lambda>c. is_ascii_alphanumeric c \<or> c \<in> set ''.-_'') v"

definition decode_pairing_document ::
  "'d env \<Rightarrow> (string \<Rightarrow> 'a option) \<Rightarrow> string \<Rightarrow> string \<Rightarrow> 'a res" where
  "decode_pairing_document E decode bytes artifact =
     bindR (ok_or (Corrupt artifact) (json_version E bytes)) (\<lambda>version.
     bindR (ok_or (Corrupt artifact) (as_str version)) (\<lambda>version.
     if version \<noteq> persisted_state_format
     then Inl (Unsupported artifact
       (if recognizable_version version then version else ''unrecognized'') persisted_state_format)
     else ok_or (Corrupt artifact) (decode bytes)))"

definition validate_state_version :: "pairing_state_version \<Rightarrow> unit res" where
  "validate_state_version v =
     (if v \<noteq> Pairing_State_Version
      then Inl (Message ''pairing state does not belong to the current Client package'')
      else Inr ())"

fun state_version :: "stored_pairing_state \<Rightarrow> pairing_state_version" where
  "state_version (Creating v g pe re h bs ps) = v"
| "state_version (Pending v g r au ex pi pe re bs ps) = v"
| "state_version (Activating v g r au ex pi i pe re bs) = v"
| "state_version (Active v g r au i re t) = v"
| "state_version (Denied v g r au re t) = v"
| "state_version (Expired v g r au re t) = v"

fun state_generation :: "stored_pairing_state \<Rightarrow> uuid" where
  "state_generation (Creating v g pe re h bs ps) = g"
| "state_generation (Pending v g r au ex pi pe re bs ps) = g"
| "state_generation (Activating v g r au ex pi i pe re bs) = g"
| "state_generation (Active v g r au i re t) = g"
| "state_generation (Denied v g r au re t) = g"
| "state_generation (Expired v g r au re t) = g"

definition load_state :: "'d env \<Rightarrow> 'd \<Rightarrow> stored_pairing_state option res" where
  "load_state E d =
     (case read_file (env_fs E) Pairing d of
        Inl e \<Rightarrow> (if io_kind e = NotFound then Inr None
                  else Inl (Context ''failed to read pairing state'' (Io e)))
      | Inr bytes \<Rightarrow>
          bindR (decode_pairing_document E (decode_state E) bytes ''pairing-state'') (\<lambda>state.
          bindR (validate_state_version (state_version state)) (\<lambda>_.
          if is_nil (state_generation state) then Inl (Corrupt ''pairing-state'')
          else Inr (Some state))))"

definition validate_active_binding :: "'d env \<Rightarrow> client_config \<Rightarrow> active_binding \<Rightarrow> unit res" where
  "validate_active_binding E c b =
     bindR (validate_state_version (ab_version b)) (\<lambda>_.
     if is_nil (ab_generation b) \<or> is_nil (ab_request_id b) \<or> is_nil (ab_instance_id b)
     then Inl (Message ''active binding contains a nil UUID'')
     else with_context ''active binding report endpoint is unsafe''
            (validate_durable_report_endpoint (env_url E) c (ab_report_endpoint b)))"

definition load_active_binding :: "'d env \<Rightarrow> client_config \<Rightarrow> 'd \<Rightarrow> active_binding option res" where
  "load_active_binding E c d =
     (case read_file (env_fs E) Binding d of
        Inl e \<Rightarrow> (if io_kind e = NotFound then Inr None
                  else Inl (Context ''failed to read active binding'' (Io e)))
      | Inr bytes \<Rightarrow>
          bindR (decode_pairing_document E (decode_binding E) bytes ''active-binding'') (\<lambda>binding.
          bindR (map_err (\<lambda>_. Corrupt ''active-binding'') (validate_active_binding E c binding)) (\<lambda>_.
          Inr (Some binding))))"

fun binding_from_active_state :: "stored_pairing_state \<Rightarrow> active_binding res" where
  "binding_from_active_state (Active v g r au i re t) =
     Inr \<lparr>ab_version = v, ab_generation = g, ab_request_id = r, ab_instance_id = i, ab_report_endpoint = re\<rparr>"
| "binding_from_active_state s = Inl (Message ''internal error: expected an Active pairing state'')"

definition load_current_active_binding ::
  "'d env \<Rightarrow> client_config \<Rightarrow> active_binding \<Rightarrow> 'd \<Rightarrow> active_binding res" where
  "load_current_active_binding E c expected d =
     bindR (load_active_binding E c d) (\<lambda>b.
     case b of
       Some binding \<Rightarrow>
         if binding = expected then Inr binding
         else Inl (Context ''active binding does not match the current Active pairing state''
                (Corrupt ''active-binding''))
     | None \<Rightarrow> Inl (Context ''active binding is missing; pair xsoc again'' (Corrupt ''active-binding'')))"

definition local_auth_state_unlocked :: "'d env \<Rightarrow> 'd \<Rightarrow> local_auth_state option res" where
  "local_auth_state_unlocked E d =
     (case read_file (env_fs E) Authorization d of
        Inr bytes \<Rightarrow> map_ok Some (decode_pairing_document E (decode_auth E) bytes ''authorization-state'')
      | Inl e \<Rightarrow> (if io_kind e = NotFound then Inr None
                  else Inl (Context ''failed to read'' (Io e))))"

definition is_authorized :: "local_auth_state option \<Rightarrow> bool" where
  "is_authorized a \<longleftrightarrow> (case a of None \<Rightarrow> False | Some s \<Rightarrow> la_status s = Authorized)"

section \<open>Writing\<close>

definition lock_state :: "'d env \<Rightarrow> ('d, client_error, unit) tx" where
  "lock_state E =
     map_errT (\<lambda>e. Context ''failed to open private credential state transaction'' (Io e))
       (begin_transaction (env_fs E))"

definition store_write :: "'d env \<Rightarrow> state_file \<Rightarrow> string \<Rightarrow> ('d, client_error, unit) tx" where
  "store_write E f v = map_errT Io (write_file (env_fs E) f v)"

definition serialized :: "string option \<Rightarrow> (string \<Rightarrow> ('d, client_error, unit) tx) \<Rightarrow> ('d, client_error, unit) tx" where
  "serialized doc k = (case doc of None \<Rightarrow> failT (Message ''serialization failed'') | Some b \<Rightarrow> k b)"

definition persist_state_unlocked :: "'d env \<Rightarrow> stored_pairing_state \<Rightarrow> ('d, client_error, unit) tx" where
  "persist_state_unlocked E s =
     serialized (encode_state E s) (\<lambda>b.
       map_errT (Context ''failed to persist browser pairing state'') (store_write E Pairing b))"

definition persist_active_binding_unlocked ::
  "'d env \<Rightarrow> client_config \<Rightarrow> active_binding \<Rightarrow> ('d, client_error, unit) tx" where
  "persist_active_binding_unlocked E c binding =
     bindT (liftR (validate_active_binding E c binding)) (\<lambda>_.
     serialized (encode_binding E binding) (\<lambda>b.
       map_errT (Context ''failed to persist active binding'') (store_write E Binding b)))"

definition persist_auth_state_unlocked :: "'d env \<Rightarrow> local_auth_state \<Rightarrow> ('d, client_error, unit) tx" where
  "persist_auth_state_unlocked E s =
     serialized (encode_auth E s) (\<lambda>b.
       map_errT (Context ''failed to persist authorization state'') (store_write E Authorization b))"

fun creating_matches :: "uuid \<Rightarrow> string \<Rightarrow> string \<Rightarrow> string \<Rightarrow> stored_pairing_state option \<Rightarrow> bool" where
  "creating_matches g pe re ps (Some (Creating v g' pe' re' h bs ps')) =
     (g' = g \<and> pe' = pe \<and> re' = re \<and> ps' = ps)"
| "creating_matches g pe re ps s = False"

fun pending_matches :: "uuid \<Rightarrow> uuid \<Rightarrow> string \<Rightarrow> string \<Rightarrow> string \<Rightarrow> stored_pairing_state option \<Rightarrow> bool" where
  "pending_matches g r pe re ps (Some (Pending v g' r' au ex pi pe' re' bs ps')) =
     (g' = g \<and> r' = r \<and> pe' = pe \<and> re' = re \<and> ps' = ps)"
| "pending_matches g r pe re ps s = False"

definition compare_and_persist_creating ::
  "'d env \<Rightarrow> uuid \<Rightarrow> string \<Rightarrow> string \<Rightarrow> string \<Rightarrow> stored_pairing_state \<Rightarrow> ('d, client_error, unit) tx" where
  "compare_and_persist_creating E g pe re ps next =
     bindT (lock_state E) (\<lambda>_.
     bindT (readT (load_state E)) (\<lambda>current.
     if creating_matches g pe re ps current then persist_state_unlocked E next
     else failT Superseded))"

definition ensure_pending_is_current ::
  "'d env \<Rightarrow> uuid \<Rightarrow> uuid \<Rightarrow> string \<Rightarrow> string \<Rightarrow> string \<Rightarrow> 'd \<Rightarrow> unit res" where
  "ensure_pending_is_current E g r pe re ps d =
     bindR (load_state E d) (\<lambda>current.
     if pending_matches g r pe re ps current then Inr () else Inl Superseded)"

definition compare_and_persist_pending ::
  "'d env \<Rightarrow> uuid \<Rightarrow> uuid \<Rightarrow> string \<Rightarrow> string \<Rightarrow> string \<Rightarrow> stored_pairing_state \<Rightarrow> ('d, client_error, unit) tx" where
  "compare_and_persist_pending E g r pe re ps next =
     bindT (lock_state E) (\<lambda>_.
     bindT (readT (ensure_pending_is_current E g r pe re ps)) (\<lambda>_.
     persist_state_unlocked E next))"

text \<open>
  \<open>archive_incompatible_account_state\<close>: the four account files, in this order; the identity
  is not among them. \<open>archive_id\<close> is the fresh UUID of the call.
\<close>

definition account_files :: "state_file list" where
  "account_files = [Pairing, Authorization, Binding, Credential]"

definition archive_entry :: "string \<Rightarrow> state_file \<Rightarrow> string" where
  "archive_entry archive_id f = file_name f @ ''.incompatible-'' @ archive_id"

fun archive_files :: "'d env \<Rightarrow> string \<Rightarrow> state_file list \<Rightarrow> ('d, client_error, string list) tx" where
  "archive_files E archive_id [] = returnT []"
| "archive_files E archive_id (f # fs) =
     bindT (map_errT (\<lambda>e. Context ''failed to archive incompatible'' (Io e))
       (archive_file (env_fs E) f (archive_entry archive_id f))) (\<lambda>p.
     bindT (archive_files E archive_id fs) (\<lambda>ps.
     returnT (case p of None \<Rightarrow> ps | Some path \<Rightarrow> path # ps)))"

definition archive_incompatible_account_state ::
  "'d env \<Rightarrow> string \<Rightarrow> ('d, client_error, string list) tx" where
  "archive_incompatible_account_state E archive_id =
     bindT (lock_state E) (\<lambda>_. archive_files E archive_id account_files)"

section \<open>What the code relies on\<close>

text \<open>
  A document format: what \<open>encode\<close> writes carries the current format in its header, has no
  white space at its ends (so that trimming keeps it) and decodes to the value written.
\<close>

locale document_codec =
  fixes header :: "string \<Rightarrow> json option"
    and encode :: "'a \<Rightarrow> string option"
    and decode :: "string \<Rightarrow> 'a option"
  assumes codec_header: "encode x = Some b \<Longrightarrow> header b = Some (J_String persisted_state_format)"
    and codec_decode: "encode x = Some b \<Longrightarrow> decode b = Some x"
    and codec_edges: "encode x = Some b \<Longrightarrow> b \<noteq> [] \<and> \<not> blank_edge b"

locale pairing_env =
  private_directory "env_fs E" files +
  st: document_codec "json_version E" "encode_state E" "decode_state E" +
  bi: document_codec "json_version E" "encode_binding E" "decode_binding E" +
  au: document_codec "json_version E" "encode_auth E" "decode_auth E"
  for E :: "'d env" and files :: "'d \<Rightarrow> string \<Rightarrow> string option" +
  assumes uuid_round: "uuid_parse E (uuid_text E u) = Some u"
    and uuid_plain: "list_all plain_byte (uuid_text E u)"
    and uuid_length: "uuid_text E u \<noteq> [] \<and> length (uuid_text E u) \<le> 128"
    and contract_ok: "contract_new E s = Some t \<Longrightarrow> t = s"
    and identity_new_ok: "identity_new E p i k = Some ci \<Longrightarrow>
      ci = \<lparr>ci_product_id = p, ci_instance_id = i, ci_contract_id = k\<rparr>"
    and identity_matches_iff: "identity_matches E a b \<longleftrightarrow> a = b"

locale healthy_pairing_env =
  pairing_env E files + healthy_directory "env_fs E" files healthy
  for E :: "'d env" and files :: "'d \<Rightarrow> string \<Rightarrow> string option" and healthy :: "'d \<Rightarrow> bool"

end
