(* ===== verification/Account.thy ===== *)
theory Account
  imports Pairing_State
begin

text \<open>
  The account: the abstract content of the five state files, and what every primitive read
  and write of \<open>Pairing_State\<close> does to it. Each write leaves the account as it was or with
  exactly one component replaced; which of the two is known only when the call succeeds. The
  invariant \<open>intact\<close> is what the order of the writes of the pairing protocol preserves.
\<close>

section \<open>Abstraction\<close>

datatype 'a doc = Absent | Unreadable | Present 'a

definition doc_of :: "(string \<Rightarrow> json option) \<Rightarrow> (string \<Rightarrow> 'a option) \<Rightarrow> string option \<Rightarrow> 'a doc" where
  "doc_of header decode s =
     (case s of
        None \<Rightarrow> Absent
      | Some b \<Rightarrow>
          if header b = Some (J_String persisted_state_format)
          then (case decode b of None \<Rightarrow> Unreadable | Some x \<Rightarrow> Present x)
          else Unreadable)"

record account =
  ac_state :: "stored_pairing_state doc"
  ac_binding :: "active_binding doc"
  ac_auth :: "local_auth_state doc"
  ac_token :: "string option"
  ac_identity :: "string option"

definition account_of :: "'d env \<Rightarrow> (state_file \<Rightarrow> string option) \<Rightarrow> account" where
  "account_of E v =
     \<lparr>ac_state = doc_of (json_version E) (decode_state E) (v Pairing),
      ac_binding = doc_of (json_version E) (decode_binding E) (v Binding),
      ac_auth = doc_of (json_version E) (decode_auth E) (v Authorization),
      ac_token = v Credential,
      ac_identity = v Identity\<rparr>"

definition acct :: "'d env \<Rightarrow> ('d \<Rightarrow> string \<Rightarrow> string option) \<Rightarrow> 'd \<Rightarrow> account" where
  "acct E files d = account_of E (slot files d)"

section \<open>The invariant\<close>

fun is_activating :: "stored_pairing_state doc \<Rightarrow> bool" where
  "is_activating (Present (Activating v g r au ex pi i pe re bs)) = True"
| "is_activating s = False"

fun is_active :: "stored_pairing_state doc \<Rightarrow> bool" where
  "is_active (Present (Active v g r au i re t)) = True"
| "is_active s = False"

definition bound_to :: "'d env \<Rightarrow> account \<Rightarrow> active_binding \<Rightarrow> bool" where
  "bound_to E a b \<longleftrightarrow> ac_binding a = Present b \<and> ac_identity a = Some (uuid_text E (ab_instance_id b))
     \<and> (\<exists>t. ac_token a = Some t \<and> token_ok t)"

definition authorized_doc :: "local_auth_state doc \<Rightarrow> bool" where
  "authorized_doc a \<longleftrightarrow> (\<exists>s. a = Present s \<and> la_status s = Authorized)"

text \<open>
  An account is intact when (1) an Active journal is bound: the binding on disk is the one of
  the journal and identity and token are there with it; and (2) whenever the authorization
  state says Authorized and no commit is in progress, some binding is in force with its
  identity and a well-formed token.
\<close>

definition intact :: "'d env \<Rightarrow> account \<Rightarrow> bool" where
  "intact E a \<longleftrightarrow>
     (\<forall>s b. ac_state a = Present s \<longrightarrow> binding_from_active_state s = Inr b \<longrightarrow> bound_to E a b) \<and>
     (authorized_doc (ac_auth a) \<longrightarrow> \<not> is_activating (ac_state a) \<longrightarrow> (\<exists>b. bound_to E a b))"

definition empty_account :: account where
  "empty_account = \<lparr>ac_state = Absent, ac_binding = Absent, ac_auth = Absent, ac_token = None, ac_identity = None\<rparr>"

lemma intact_empty: "intact E empty_account"
  by (simp add: intact_def empty_account_def authorized_doc_def)

lemma intact_activating: "is_activating (ac_state a) \<Longrightarrow> intact E a"
  by (cases "ac_state a" rule: is_activating.cases) (auto simp: intact_def)

lemma binding_from_active_state_Inr:
  "binding_from_active_state s = Inr b \<Longrightarrow> is_active (Present s)"
  by (cases s) simp_all

text \<open>Replacing the journal by one that is neither Active nor written over a commit.\<close>

lemma intact_new_journal:
  assumes "intact E a" and "\<not> is_activating (ac_state a)" and "\<not> is_active (Present s)"
  shows "intact E (a\<lparr>ac_state := Present s\<rparr>)"
  using assms by (auto simp: intact_def bound_to_def dest: binding_from_active_state_Inr)

lemma intact_reauthorization:
  assumes "intact E a" and "la_status s = Reauthorization_Required"
  shows "intact E (a\<lparr>ac_auth := Present s\<rparr>)"
  using assms by (auto simp: intact_def bound_to_def authorized_doc_def)

lemma intact_drop_state: "intact E a \<Longrightarrow> \<not> is_activating (ac_state a) \<Longrightarrow> intact E (a\<lparr>ac_state := Absent\<rparr>)"
  by (auto simp: intact_def bound_to_def)

lemma intact_drop_auth: "intact E a \<Longrightarrow> intact E (a\<lparr>ac_auth := Absent\<rparr>)"
  by (auto simp: intact_def bound_to_def authorized_doc_def)

lemma intact_unauthorized_inactive:
  "\<not> authorized_doc (ac_auth a) \<Longrightarrow> \<not> is_active (ac_state a) \<Longrightarrow> intact E a"
  by (auto simp: intact_def dest: binding_from_active_state_Inr)

section \<open>Byte-level facts\<close>

lemma whitespace_ends:
  assumes "e \<in> set whitespace_encodings"
  shows "\<not> plain_byte (hd e)" and "\<not> plain_byte (last e)"
  using assms by (auto simp: whitespace_encodings_def plain_byte_def byte_def)

lemma plain_edges:
  assumes "s \<noteq> []" and "plain_byte (hd s)" and "plain_byte (last s)"
  shows "\<not> blank_edge s"
proof -
  have a: "\<not> starts_with e s" if e: "e \<in> set whitespace_encodings" for e
  proof
    assume "starts_with e s"
    then have "hd e = hd s"
      using whitespace_encodings_nonempty [OF e] assms(1)
      by (metis hd_take length_0_conv less_numeral_extra(3) starts_with_def)
    with whitespace_ends(1) [OF e] assms(2) show False by simp
  qed
  have b: "\<not> starts_with (rev e) (rev s)" if e: "e \<in> set whitespace_encodings" for e
  proof
    assume "starts_with (rev e) (rev s)"
    then have "hd (rev e) = hd (rev s)"
      using whitespace_encodings_nonempty [OF e] assms(1)
      by (metis hd_take length_0_conv length_rev less_numeral_extra(3) starts_with_def)
    then have "last e = last s"
      using whitespace_encodings_nonempty [OF e] assms(1) by (simp add: hd_rev)
    with whitespace_ends(2) [OF e] assms(3) show False by simp
  qed
  show ?thesis
    using a b by (auto simp: blank_edge_def find_None_iff)
qed

lemma token_byte_plain: "is_token_byte c \<Longrightarrow> plain_byte c"
  by (auto simp: is_token_byte_def is_ascii_digit_def plain_byte_def)

lemma token_trim: "token_ok t \<Longrightarrow> trim t = t"
proof -
  assume t: "token_ok t"
  then have ne: "t \<noteq> []" by (auto simp: token_ok_def)
  then have "hd t \<in> set t" and "last t \<in> set t" by simp_all
  with t ne have "\<not> blank_edge t"
    by (intro plain_edges) (auto simp: token_ok_def list_all_iff intro: token_byte_plain)
  then show ?thesis by (rule trim_id)
qed

lemma plain_text_edges: "list_all plain_byte s \<Longrightarrow> s \<noteq> [] \<Longrightarrow> \<not> blank_edge s"
  by (rule plain_edges) (auto simp: list_all_iff)

section \<open>Reads and writes of an account\<close>

lemma decode_pairing_document_Inr_iff:
  "decode_pairing_document E decode b art = Inr x \<longleftrightarrow>
     doc_of (json_version E) decode (Some b) = Present x"
  by (auto simp: decode_pairing_document_def doc_of_def bindR_Inr_iff split: option.splits if_splits
      elim!: as_str.elims)

lemma validate_state_version_trivial [simp]: "validate_state_version v = Inr ()"
  by (cases v) (simp add: validate_state_version_def)

context pairing_env
begin

lemma load_state_Some:
  "load_state E d = Inr (Some s) \<Longrightarrow> ac_state (acct E files d) = Present s \<and> \<not> is_nil (state_generation s)"
  by (auto simp: load_state_def acct_def account_of_def bindR_Inr_iff decode_pairing_document_Inr_iff
      dest!: store.sread_ok split: sum.splits if_splits)

lemma load_state_None: "load_state E d = Inr None \<Longrightarrow> ac_state (acct E files d) = Absent"
  by (auto simp: load_state_def acct_def account_of_def bindR_Inr_iff doc_of_def
      dest!: store.sread_missing split: sum.splits if_splits)

lemma load_active_binding_Some:
  "load_active_binding E c d = Inr (Some b) \<Longrightarrow>
     ac_binding (acct E files d) = Present b \<and> validate_active_binding E c b = Inr ()"
  by (auto simp: load_active_binding_def acct_def account_of_def bindR_Inr_iff decode_pairing_document_Inr_iff
      dest!: store.sread_ok split: sum.splits if_splits)

lemma load_active_binding_None:
  "load_active_binding E c d = Inr None \<Longrightarrow> ac_binding (acct E files d) = Absent"
  by (auto simp: load_active_binding_def acct_def account_of_def bindR_Inr_iff doc_of_def
      dest!: store.sread_missing split: sum.splits if_splits)

lemma local_auth_Some:
  "local_auth_state_unlocked E d = Inr (Some s) \<Longrightarrow> ac_auth (acct E files d) = Present s"
  by (auto simp: local_auth_state_unlocked_def acct_def account_of_def map_ok_Inr_iff
      decode_pairing_document_Inr_iff dest!: store.sread_ok split: sum.splits if_splits)

lemma local_auth_None:
  "local_auth_state_unlocked E d = Inr None \<Longrightarrow> ac_auth (acct E files d) = Absent"
  by (auto simp: local_auth_state_unlocked_def acct_def account_of_def map_ok_Inr_iff doc_of_def
      dest!: store.sread_missing split: sum.splits if_splits)

lemma local_auth_authorized:
  "local_auth_state_unlocked E d = Inr a \<Longrightarrow> is_authorized a \<longleftrightarrow> authorized_doc (ac_auth (acct E files d))"
  by (cases a) (auto simp: is_authorized_def authorized_doc_def dest: local_auth_Some local_auth_None)

lemma load_current_active_binding_ok:
  "load_current_active_binding E c x d = Inr b \<Longrightarrow>
     b = x \<and> ac_binding (acct E files d) = Present b \<and> validate_active_binding E c b = Inr ()"
  by (auto simp: load_current_active_binding_def bindR_Inr_iff dest!: load_active_binding_Some
      split: option.splits if_splits)

lemma lock_state_frame [simp]: "acct E files (snd (lock_state E d)) = acct E files d"
  by (simp add: lock_state_def map_errT_apply acct_def store.sbegin_frame)

lemma lock_state_slot [simp]: "slot files (snd (lock_state E d)) = slot files d"
  by (simp add: lock_state_def map_errT_apply store.sbegin_frame)

lemma slot_after_write:
  "slot files (snd (store_write E f v d)) \<in> {slot files d, (slot files d)(f \<mapsto> trim v)}"
  using store.swrite_view_any [of f v d] by (simp add: store_write_def map_errT_apply)

lemma slot_after_write_ok:
  "store_write E f v d = (Inr u, d') \<Longrightarrow> slot files d' = (slot files d)(f \<mapsto> trim v)"
  by (auto simp: store_write_def map_errT_ok_iff dest: store.swrite_view)

lemma persist_state_account:
  "acct E files (snd (persist_state_unlocked E s d))
     \<in> {acct E files d, (acct E files d)\<lparr>ac_state := Present s\<rparr>}"
proof (cases "encode_state E s")
  case None
  then show ?thesis by (simp add: persist_state_unlocked_def serialized_def failT_def)
next
  case (Some b)
  then have "doc_of (json_version E) (decode_state E) (Some (trim b)) = Present s"
    by (simp add: doc_of_def trim_id st.codec_header st.codec_decode st.codec_edges)
  with Some slot_after_write [of Pairing b d] show ?thesis
    by (auto simp: persist_state_unlocked_def serialized_def map_errT_apply acct_def account_of_def)
qed

lemma persist_state_account_ok:
  assumes "persist_state_unlocked E s d = (Inr u, d')"
  shows "acct E files d' = (acct E files d)\<lparr>ac_state := Present s\<rparr>"
proof (cases "encode_state E s")
  case None
  with assms show ?thesis by (simp add: persist_state_unlocked_def serialized_def failT_def)
next
  case (Some b)
  then have "doc_of (json_version E) (decode_state E) (Some (trim b)) = Present s"
    by (simp add: doc_of_def trim_id st.codec_header st.codec_decode st.codec_edges)
  with Some assms show ?thesis
    by (auto simp: persist_state_unlocked_def serialized_def map_errT_ok_iff acct_def account_of_def
        dest!: slot_after_write_ok)
qed

lemma persist_binding_account:
  "acct E files (snd (persist_active_binding_unlocked E c x d))
     \<in> {acct E files d, (acct E files d)\<lparr>ac_binding := Present x\<rparr>}"
proof (cases "validate_active_binding E c x"; cases "encode_binding E x")
  fix u b
  assume v: "validate_active_binding E c x = Inr u" and b: "encode_binding E x = Some b"
  then have "doc_of (json_version E) (decode_binding E) (Some (trim b)) = Present x"
    by (simp add: doc_of_def trim_id bi.codec_header bi.codec_decode bi.codec_edges)
  with v b slot_after_write [of Binding b d] show ?thesis
    by (auto simp: persist_active_binding_unlocked_def tx_simps serialized_def acct_def account_of_def)
qed (simp_all add: persist_active_binding_unlocked_def tx_simps serialized_def)

lemma persist_binding_account_ok:
  assumes "persist_active_binding_unlocked E c x d = (Inr u, d')"
  shows "acct E files d' = (acct E files d)\<lparr>ac_binding := Present x\<rparr>"
proof -
  from assms obtain b where b: "encode_binding E x = Some b"
    and w: "store_write E Binding b d = (Inr (), d')"
    by (auto simp: persist_active_binding_unlocked_def bindT_ok_iff liftR_def serialized_def failT_def
        map_errT_ok_iff split: option.splits)
  then have "doc_of (json_version E) (decode_binding E) (Some (trim b)) = Present x"
    by (simp add: doc_of_def trim_id bi.codec_header bi.codec_decode bi.codec_edges)
  with slot_after_write_ok [OF w] show ?thesis
    by (simp add: acct_def account_of_def)
qed

lemma persist_auth_account:
  "acct E files (snd (persist_auth_state_unlocked E x d))
     \<in> {acct E files d, (acct E files d)\<lparr>ac_auth := Present x\<rparr>}"
proof (cases "encode_auth E x")
  case None
  then show ?thesis by (simp add: persist_auth_state_unlocked_def serialized_def failT_def)
next
  case (Some b)
  then have "doc_of (json_version E) (decode_auth E) (Some (trim b)) = Present x"
    by (simp add: doc_of_def trim_id au.codec_header au.codec_decode au.codec_edges)
  with Some slot_after_write [of Authorization b d] show ?thesis
    by (auto simp: persist_auth_state_unlocked_def serialized_def map_errT_apply acct_def account_of_def)
qed

lemma persist_auth_account_ok:
  assumes "persist_auth_state_unlocked E x d = (Inr u, d')"
  shows "acct E files d' = (acct E files d)\<lparr>ac_auth := Present x\<rparr>"
proof -
  from assms obtain b where b: "encode_auth E x = Some b"
    and w: "store_write E Authorization b d = (Inr (), d')"
    by (auto simp: persist_auth_state_unlocked_def serialized_def failT_def map_errT_ok_iff
        split: option.splits)
  then have "doc_of (json_version E) (decode_auth E) (Some (trim b)) = Present x"
    by (simp add: doc_of_def trim_id au.codec_header au.codec_decode au.codec_edges)
  with slot_after_write_ok [OF w] show ?thesis
    by (simp add: acct_def account_of_def)
qed

lemma write_token_account:
  "token_ok t \<Longrightarrow> acct E files (snd (store_write E Credential t d))
     \<in> {acct E files d, (acct E files d)\<lparr>ac_token := Some t\<rparr>}"
  using slot_after_write [of Credential t d] by (auto simp: acct_def account_of_def token_trim)

lemma write_token_account_ok:
  "token_ok t \<Longrightarrow> store_write E Credential t d = (Inr u, d') \<Longrightarrow>
     acct E files d' = (acct E files d)\<lparr>ac_token := Some t\<rparr>"
  by (drule slot_after_write_ok) (simp add: acct_def account_of_def token_trim)

lemma uuid_edges: "\<not> blank_edge (uuid_text E u)"
  using uuid_plain uuid_length by (simp add: plain_text_edges)

lemma write_identity_account:
  "acct E files (snd (store_write E Identity (uuid_text E i) d))
     \<in> {acct E files d, (acct E files d)\<lparr>ac_identity := Some (uuid_text E i)\<rparr>}"
  using slot_after_write [of Identity "uuid_text E i" d]
  by (auto simp: acct_def account_of_def trim_id uuid_edges)

lemma write_identity_account_ok:
  "store_write E Identity (uuid_text E i) d = (Inr u, d') \<Longrightarrow>
     acct E files d' = (acct E files d)\<lparr>ac_identity := Some (uuid_text E i)\<rparr>"
  by (drule slot_after_write_ok) (simp add: acct_def account_of_def trim_id uuid_edges)

text \<open>
  The writes as triples over the account: \<open>F\<close> must hold both before and after the write,
  since a failing write may have published its bytes.
\<close>

lemma triple_account:
  assumes "\<And>d. acct E files (snd (m d)) \<in> {acct E files d, upd (acct E files d)}"
    and "\<And>d x d'. m d = (Inr x, d') \<Longrightarrow> acct E files d' = upd (acct E files d)"
    and "\<And>a. P a \<Longrightarrow> F a \<and> F (upd a) \<and> Q (upd a)"
  shows "triple (\<lambda>d. F (acct E files d)) (\<lambda>d. P (acct E files d)) m (\<lambda>_ d. Q (acct E files d))"
proof (rule tripleI)
  fix d e d'
  assume "P (acct E files d)" and "m d = (Inl e, d')"
  then show "F (acct E files d')"
    using assms(1) [of d] assms(3) [of "acct E files d"] by auto
next
  fix d x d'
  assume "P (acct E files d)" and "m d = (Inr x, d')"
  then show "Q (acct E files d')"
    using assms(2) [of d x d'] assms(3) [of "acct E files d"] by simp
qed

lemma triple_persist_state:
  assumes "\<And>a. P a \<Longrightarrow> F a \<and> F (a\<lparr>ac_state := Present s\<rparr>) \<and> Q (a\<lparr>ac_state := Present s\<rparr>)"
  shows "triple (\<lambda>d. F (acct E files d)) (\<lambda>d. P (acct E files d)) (persist_state_unlocked E s) (\<lambda>_ d. Q (acct E files d))"
  by (rule triple_account [where upd = "\<lambda>a. a\<lparr>ac_state := Present s\<rparr>", OF persist_state_account persist_state_account_ok]) (use assms in auto)

lemma triple_persist_binding:
  assumes "\<And>a. P a \<Longrightarrow> F a \<and> F (a\<lparr>ac_binding := Present s\<rparr>) \<and> Q (a\<lparr>ac_binding := Present s\<rparr>)"
  shows "triple (\<lambda>d. F (acct E files d)) (\<lambda>d. P (acct E files d)) (persist_active_binding_unlocked E c s) (\<lambda>_ d. Q (acct E files d))"
  by (rule triple_account [where upd = "\<lambda>a. a\<lparr>ac_binding := Present s\<rparr>", OF persist_binding_account persist_binding_account_ok]) (use assms in auto)

lemma triple_persist_auth:
  assumes "\<And>a. P a \<Longrightarrow> F a \<and> F (a\<lparr>ac_auth := Present s\<rparr>) \<and> Q (a\<lparr>ac_auth := Present s\<rparr>)"
  shows "triple (\<lambda>d. F (acct E files d)) (\<lambda>d. P (acct E files d)) (persist_auth_state_unlocked E s) (\<lambda>_ d. Q (acct E files d))"
  by (rule triple_account [where upd = "\<lambda>a. a\<lparr>ac_auth := Present s\<rparr>", OF persist_auth_account persist_auth_account_ok]) (use assms in auto)

lemma triple_write_token:
  assumes "token_ok s" and "\<And>a. P a \<Longrightarrow> F a \<and> F (a\<lparr>ac_token := Some s\<rparr>) \<and> Q (a\<lparr>ac_token := Some s\<rparr>)"
  shows "triple (\<lambda>d. F (acct E files d)) (\<lambda>d. P (acct E files d)) (store_write E Credential s) (\<lambda>_ d. Q (acct E files d))"
  by (rule triple_account [where upd = "\<lambda>a. a\<lparr>ac_token := Some s\<rparr>", OF write_token_account write_token_account_ok]) (use assms in auto)

lemma triple_write_identity:
  assumes "\<And>a. P a \<Longrightarrow> F a \<and> F (a\<lparr>ac_identity := Some (uuid_text E i)\<rparr>) \<and> Q (a\<lparr>ac_identity := Some (uuid_text E i)\<rparr>)"
  shows "triple (\<lambda>d. F (acct E files d)) (\<lambda>d. P (acct E files d)) (store_write E Identity (uuid_text E i)) (\<lambda>_ d. Q (acct E files d))"
  by (rule triple_account [where upd = "\<lambda>a. a\<lparr>ac_identity := Some (uuid_text E i)\<rparr>", OF write_identity_account write_identity_account_ok]) (use assms in auto)

lemma triple_lock:
  assumes "\<And>a. P a \<Longrightarrow> F a \<and> Q a"
  shows "triple (\<lambda>d. F (acct E files d)) (\<lambda>d. P (acct E files d)) (lock_state E) (\<lambda>_ d. Q (acct E files d))"
proof (rule tripleI)
  fix d e d'
  assume "P (acct E files d)" and "lock_state E d = (Inl e, d')"
  then show "F (acct E files d')"
    using lock_state_frame [of d] assms by simp
next
  fix d x d'
  assume "P (acct E files d)" and "lock_state E d = (Inr x, d')"
  then show "Q (acct E files d')"
    using lock_state_frame [of d] assms by simp
qed

end

end
