(* ===== verification/Credentials.thy ===== *)
theory Credentials
  imports Account
begin

text \<open>
  Identity, credential store and the commit of a pairing: \<open>src/client_identity.rs\<close>,
  \<open>src/pairing/credentials.rs\<close>, \<open>src/pairing/commit_flow.rs\<close>, the token reader of
  \<open>src/transport.rs\<close> and \<open>progress_from_terminal\<close> of \<open>src/pairing/local.rs\<close>. The commit
  writes token, identity, binding and authorization state, and the Active journal last; the
  lemmas follow it through every point at which a write can fail.
\<close>

section \<open>Identity\<close>

definition host_report_contract :: string where
  "host_report_contract = ''xsos.client-report.current''"

definition invalid_identity :: client_error where
  "invalid_identity = Io (Io_Error InvalidData ''host identity must be a canonical lowercase hyphenated UUID'')"

definition for_instance :: "'d env \<Rightarrow> string \<Rightarrow> client_identity res" where
  "for_instance E value =
     bindR (ok_or invalid_identity (uuid_parse E value)) (\<lambda>u.
     if uuid_text E u \<noteq> value then Inl invalid_identity
     else
       bindR (ok_or (Io (Io_Error OtherKind ''contract'')) (contract_new E host_report_contract)) (\<lambda>contract.
       ok_or (Io (Io_Error OtherKind ''identity'')) (identity_new E ''xsos'' value contract)))"

definition identity_from_state :: "'d env \<Rightarrow> 'd \<Rightarrow> client_identity res" where
  "identity_from_state E d =
     bindR (map_err Identity_State (read_file (env_fs E) Identity d)) (\<lambda>bytes.
     if \<not> utf8_valid bytes then Inl Identity_Invalid
     else map_err (\<lambda>_. Identity_Invalid) (for_instance E (trim bytes)))"

definition load_identity :: "'d env \<Rightarrow> 'd \<Rightarrow> client_identity res" where
  "load_identity E d =
     bindR (map_err Identity_State (reader_open (env_fs E) d)) (\<lambda>_. identity_from_state E d)"

definition ensure_matches :: "'d env \<Rightarrow> client_identity \<Rightarrow> client_identity \<Rightarrow> unit res" where
  "ensure_matches E a b = ensureR (identity_matches E a b) (Message ''client identity mismatch'')"

definition host_details :: "'d env \<Rightarrow> string \<Rightarrow> host_identity" where
  "host_details E i = (os_details E)\<lparr>hi_id := i\<rparr>"

definition load_host_identity_from :: "'d env \<Rightarrow> 'd \<Rightarrow> host_identity res" where
  "load_host_identity_from E d =
     bindR (identity_from_state E d) (\<lambda>ci. Inr (host_details E (ci_instance_id ci)))"

section \<open>The stored token\<close>

definition read_secret :: "'d env \<Rightarrow> 'd \<Rightarrow> string res" where
  "read_secret E d =
     bindR (map_err (\<lambda>e. Context ''failed to read host token'' (Io e)) (read_file (env_fs E) Credential d)) (\<lambda>bytes.
     if \<not> utf8_valid bytes then Inl (Context ''host token is not UTF-8'' (Message ''utf8''))
     else bindR (with_context ''host token is corrupt'' (validate_current_token bytes)) (\<lambda>_. Inr bytes))"

section \<open>The credential store\<close>

record credential_snapshot =
  cs_identity :: client_identity
  cs_revision :: "uuid \<times> uuid"
  cs_secret :: string

definition credential_binding :: "'d env \<Rightarrow> client_config \<Rightarrow> 'd \<Rightarrow> active_binding option res" where
  "credential_binding E c d =
     bindR (load_state E d) (\<lambda>state.
     case state of
       None \<Rightarrow> Inr None
     | Some s \<Rightarrow>
         if is_activating (Present s) then Inr None
         else
           bindR (load_active_binding E c d) (\<lambda>binding.
           if is_active (Present s)
           then
             bindR (binding_from_active_state s) (\<lambda>expected.
             if binding \<noteq> Some expected
             then Inl (Context ''active credential binding does not match the pairing journal''
                    (Corrupt ''active-binding''))
             else Inr binding)
           else Inr binding))"

definition load_credential :: "'d env \<Rightarrow> client_config \<Rightarrow> 'd \<Rightarrow> credential_snapshot option res" where
  "load_credential E c d =
     bindR (local_auth_state_unlocked E d) (\<lambda>auth.
     if \<not> is_authorized auth then Inr None
     else
       bindR (credential_binding E c d) (\<lambda>b.
       bindR (ok_or (Message ''authorized credential binding is unavailable'') b) (\<lambda>binding.
       bindR (identity_from_state E d) (\<lambda>identity.
       bindR (for_instance E (uuid_text E (ab_instance_id binding))) (\<lambda>expected.
       bindR (ensure_matches E identity expected) (\<lambda>_.
       case read_secret E d of
         Inl e \<Rightarrow> (case downcast_io e of
             Some io \<Rightarrow> if io_kind io = NotFound then Inr None else Inl e
           | None \<Rightarrow> Inl e)
       | Inr secret \<Rightarrow>
           Inr (Some \<lparr>cs_identity = identity,
                      cs_revision = (ab_generation binding, ab_request_id binding),
                      cs_secret = secret\<rparr>)))))))"

text \<open>
  \<open>progress_from_terminal\<close>. A commit in progress is presented as \<open>Creating\<close>.
\<close>

fun progress_from_terminal :: "stored_pairing_state \<Rightarrow> pairing_progress" where
  "progress_from_terminal (Creating v g pe re h bs ps) = P_Creating g re"
| "progress_from_terminal (Pending v g r au ex pi pe re bs ps) =
     P_Waiting \<lparr>ps_generation = g, ps_request_id = r, ps_activation_url = au,
                ps_expires_at = ex, ps_poll_interval = pi\<rparr>"
| "progress_from_terminal (Activating v g r au ex pi i pe re bs) = P_Creating g re"
| "progress_from_terminal (Active v g r au i re t) = P_Active g r i re"
| "progress_from_terminal (Denied v g r au re t) = P_Denied g r au"
| "progress_from_terminal (Expired v g r au re t) = P_Expired g r au"

text \<open>
  \<open>commit_activating_unlocked\<close>. \<open>t1\<close> and \<open>t2\<close> are the two readings of the clock.
\<close>

definition commit_activating_unlocked ::
  "'d env \<Rightarrow> client_config \<Rightarrow> stored_pairing_state \<Rightarrow> time \<Rightarrow> time \<Rightarrow> ('d, client_error, pairing_progress) tx" where
  "commit_activating_unlocked E c state t1 t2 =
     (case state of
        Activating version generation request_id activation_url expires_at poll_interval instance_id
          pairing_ep report_ep bearer \<Rightarrow>
          bindT (liftR (validate_state_version version)) (\<lambda>_.
          let binding = \<lparr>ab_version = Pairing_State_Version, ab_generation = generation,
                ab_request_id = request_id, ab_instance_id = instance_id,
                ab_report_endpoint = report_ep\<rparr> in
          bindT (liftR (validate_active_binding E c binding)) (\<lambda>_.
          bindT (liftR (validate_current_token bearer)) (\<lambda>_.
          bindT (store_write E Credential bearer) (\<lambda>_.
          bindT (store_write E Identity (uuid_text E instance_id)) (\<lambda>_.
          bindT (persist_active_binding_unlocked E c binding) (\<lambda>_.
          bindT (persist_auth_state_unlocked E
              \<lparr>la_version = Pairing_State_Version, la_status = Authorized,
               la_reason = ''browser pairing completed'', la_changed_at = t1\<rparr>) (\<lambda>_.
          bindT (persist_state_unlocked E
              (Active Pairing_State_Version generation request_id activation_url instance_id report_ep t2)) (\<lambda>_.
          returnT (P_Active generation request_id instance_id report_ep)))))))))
      | _ \<Rightarrow> failT (Message ''internal error: expected an activating pairing state''))"

fun activating_key :: "stored_pairing_state \<Rightarrow> (uuid \<times> uuid) option" where
  "activating_key (Activating v g r au ex pi i pe re bs) = Some (g, r)"
| "activating_key s = None"

definition replace_credential ::
  "'d env \<Rightarrow> client_config \<Rightarrow> stored_pairing_state \<Rightarrow> time \<Rightarrow> time \<Rightarrow> ('d, client_error, unit) tx" where
  "replace_credential E c replacement t1 t2 =
     (case activating_key replacement of
        None \<Rightarrow> failT (Message ''credential rotation requires an Activating journal'')
      | Some key \<Rightarrow>
          bindT (readT (load_state E)) (\<lambda>state.
          case state of
            None \<Rightarrow> failT Superseded
          | Some current \<Rightarrow>
              if activating_key current = Some key
              then bindT (commit_activating_unlocked E c current t1 t2) (\<lambda>_. returnT ())
              else failT Superseded))"

datatype credential_mutation = Applied | Mutation_Superseded

definition invalidate_credential ::
  "'d env \<Rightarrow> client_config \<Rightarrow> uuid \<times> uuid \<Rightarrow> string \<Rightarrow> time \<Rightarrow> ('d, client_error, credential_mutation) tx" where
  "invalidate_credential E c expected reason now =
     bindT (readT (credential_binding E c)) (\<lambda>b.
     case b of
       None \<Rightarrow> returnT Mutation_Superseded
     | Some binding \<Rightarrow>
         if (ab_generation binding, ab_request_id binding) \<noteq> expected then returnT Mutation_Superseded
         else
           bindT (readT (local_auth_state_unlocked E)) (\<lambda>a.
           bindT (liftR (ok_or (Message ''current credential authorization state is missing'') a)) (\<lambda>_.
           bindT (persist_auth_state_unlocked E
               \<lparr>la_version = Pairing_State_Version, la_status = Reauthorization_Required,
                la_reason = reason, la_changed_at = now\<rparr>) (\<lambda>_.
           returnT Applied))))"

section \<open>Commit flow\<close>

definition finish_activating_unlocked ::
  "'d env \<Rightarrow> client_config \<Rightarrow> stored_pairing_state \<Rightarrow> time \<Rightarrow> time \<Rightarrow> ('d, client_error, pairing_progress) tx" where
  "finish_activating_unlocked E c state t1 t2 =
     bindT (replace_credential E c state t1 t2) (\<lambda>_.
     bindT (readT (load_state E)) (\<lambda>active.
     bindT (liftR (ok_or (Message ''credential rotation did not publish Active'') active)) (\<lambda>active.
     returnT (progress_from_terminal active))))"

definition persist_active_credentials ::
  "'d env \<Rightarrow> client_config \<Rightarrow> stored_pairing_state \<Rightarrow> uuid \<Rightarrow> time \<Rightarrow> time \<Rightarrow> ('d, client_error, pairing_progress) tx" where
  "persist_active_credentials E c pending instance_id t1 t2 =
     (case pending of
        Pending version generation request_id activation_url expires_at poll_interval
          pairing_ep report_ep bearer polling \<Rightarrow>
          bindT (lock_state E) (\<lambda>_.
          bindT (readT (ensure_pending_is_current E generation request_id pairing_ep report_ep polling)) (\<lambda>_.
          let activating = Activating Pairing_State_Version generation request_id activation_url
                expires_at poll_interval instance_id pairing_ep report_ep bearer in
          bindT (persist_state_unlocked E activating) (\<lambda>_.
          finish_activating_unlocked E c activating t1 t2)))
      | _ \<Rightarrow> failT (Message ''internal error: expected pending pairing state for activation''))"

fun session_from_activating :: "stored_pairing_state \<Rightarrow> pairing_session res" where
  "session_from_activating (Activating v g r au ex pi i pe re bs) =
     Inr \<lparr>ps_generation = g, ps_request_id = r, ps_activation_url = au,
          ps_expires_at = ex, ps_poll_interval = pi\<rparr>"
| "session_from_activating s = Inl (Message ''internal error: expected an activating pairing state'')"

fun active_progress_for :: "uuid \<times> uuid \<Rightarrow> stored_pairing_state option \<Rightarrow> pairing_progress option" where
  "active_progress_for key (Some (Active v g r au i re t)) =
     (if (g, r) = key then Some (P_Active g r i re) else None)"
| "active_progress_for key s = None"

definition recover_activating ::
  "'d env \<Rightarrow> client_config \<Rightarrow> stored_pairing_state \<Rightarrow> time \<Rightarrow> time \<Rightarrow> ('d, client_error, pairing_progress) tx" where
  "recover_activating E c expected t1 t2 =
     (case activating_key expected of
        None \<Rightarrow> failT (Message ''internal error: expected an activating pairing state'')
      | Some key \<Rightarrow>
          bindT (lock_state E) (\<lambda>_.
          bindT (readT (load_state E)) (\<lambda>state.
          if (case state of None \<Rightarrow> False | Some current \<Rightarrow> activating_key current = Some key)
          then finish_activating_unlocked E c (the state) t1 t2
          else (case active_progress_for key state of
                  Some p \<Rightarrow> returnT p
                | None \<Rightarrow> failT Superseded))))"

end
