(* ===== verification/Commit.thy ===== *)
theory Commit
  imports Credentials
begin

text \<open>
  Correctness of the commit: whichever write fails, the account either still carries the
  Activating journal, from which the commit can be repeated, or is completely committed; and
  the operations of the credential store preserve the invariant \<open>intact\<close>.
\<close>

section \<open>Committed accounts\<close>

definition committed_for :: "'d env \<Rightarrow> stored_pairing_state \<Rightarrow> account \<Rightarrow> bool" where
  "committed_for E j a \<longleftrightarrow>
     (case j of
        Activating v g r au ex pi i pe re bs \<Rightarrow>
          (\<exists>t. ac_state a = Present (Active Pairing_State_Version g r au i re t)) \<and>
          ac_binding a = Present \<lparr>ab_version = Pairing_State_Version, ab_generation = g,
            ab_request_id = r, ab_instance_id = i, ab_report_endpoint = re\<rparr> \<and>
          authorized_doc (ac_auth a) \<and> ac_token a = Some bs \<and> token_ok bs \<and> ac_identity a = Some (uuid_text E i)
      | _ \<Rightarrow> False)"

definition journal_or_committed :: "'d env \<Rightarrow> stored_pairing_state \<Rightarrow> account \<Rightarrow> bool" where
  "journal_or_committed E j a \<longleftrightarrow> ac_state a = Present j \<or> committed_for E j a"

lemma committed_intact: "committed_for E j a \<Longrightarrow> intact E a"
  by (cases j) (auto simp: committed_for_def intact_def bound_to_def)

lemma activating_key_doc: "activating_key s = Some k \<Longrightarrow> is_activating (Present s)"
  by (cases s) auto

lemma is_activating_obtain:
  assumes "is_activating (Present s)"
  obtains v g r au ex pi i pe re bs where "s = Activating v g r au ex pi i pe re bs"
  using assms by (cases s) auto

lemma journal_or_committed_intact:
  "journal_or_committed E j a \<Longrightarrow> is_activating (Present j) \<Longrightarrow> intact E a"
  by (auto simp: journal_or_committed_def intro: intact_activating committed_intact)

context pairing_env
begin

lemma commit_eq:
  assumes "j = Activating v g r au ex pi i pe re bs"
  shows "commit_activating_unlocked E c j t1 t2 =
    bindT (liftR (validate_state_version v)) (\<lambda>_.
    bindT (liftR (validate_active_binding E c \<lparr>ab_version = Pairing_State_Version, ab_generation = g,
        ab_request_id = r, ab_instance_id = i, ab_report_endpoint = re\<rparr>)) (\<lambda>_.
    bindT (liftR (validate_current_token bs)) (\<lambda>_.
    bindT (store_write E Credential bs) (\<lambda>_.
    bindT (store_write E Identity (uuid_text E i)) (\<lambda>_.
    bindT (persist_active_binding_unlocked E c \<lparr>ab_version = Pairing_State_Version, ab_generation = g,
        ab_request_id = r, ab_instance_id = i, ab_report_endpoint = re\<rparr>) (\<lambda>_.
    bindT (persist_auth_state_unlocked E \<lparr>la_version = Pairing_State_Version, la_status = Authorized,
        la_reason = ''browser pairing completed'', la_changed_at = t1\<rparr>) (\<lambda>_.
    bindT (persist_state_unlocked E (Active Pairing_State_Version g r au i re t2)) (\<lambda>_.
    returnT (P_Active g r i re)))))))))"
  unfolding commit_activating_unlocked_def assms stored_pairing_state.case Let_def by (rule refl)

lemma commit_triple:
  assumes j: "j = Activating v g r au ex pi i pe re bs"
  shows "triple (\<lambda>d. journal_or_committed E j (acct E files d))
      (\<lambda>d. ac_state (acct E files d) = Present j)
      (commit_activating_unlocked E c j t1 t2)
      (\<lambda>p d. p = P_Active g r i re \<and> token_ok bs \<and> committed_for E j (acct E files d))"
proof -
  let ?F = "journal_or_committed E j"
  let ?b = "\<lparr>ab_version = Pairing_State_Version, ab_generation = g, ab_request_id = r,
              ab_instance_id = i, ab_report_endpoint = re\<rparr>"
  let ?J = "\<lambda>a. ac_state a = Present j"
  let ?T = "\<lambda>a. ?J a \<and> ac_token a = Some bs"
  let ?I = "\<lambda>a. ?T a \<and> ac_identity a = Some (uuid_text E i)"
  let ?B = "\<lambda>a. ?I a \<and> ac_binding a = Present ?b"
  let ?A = "\<lambda>a. ?B a \<and> authorized_doc (ac_auth a)"
  note F = journal_or_committed_def
  show ?thesis
    unfolding commit_eq [OF j]
    apply (rule triple_liftR, simp add: F)
    apply (rule triple_liftR, simp add: F)
    apply (rule triple_liftR, simp add: F)
    apply (rule triple_bindT [OF triple_write_token [where P = ?J and F = ?F and Q = ?T]])
      apply simp
     apply (simp add: F)
    apply (rule triple_bindT [OF triple_write_identity [where P = ?T and F = ?F and Q = ?I]], simp add: F)
    apply (rule triple_bindT [OF triple_persist_binding [where P = ?I and F = ?F and Q = ?B]], simp add: F)
    apply (rule triple_bindT [OF triple_persist_auth [where P = ?B and F = ?F and Q = ?A]],
        simp add: F authorized_doc_def)
    apply (rule triple_bindT [OF triple_persist_state [where P = ?A and F = ?F and Q = "committed_for E j"]],
        simp add: F j committed_for_def)
    apply (rule triple_returnT, simp)
    done
qed

text \<open>The credential rotation commits the journal on disk, never the one of the caller.\<close>

lemma replace_triple:
  assumes "is_activating (Present cur)"
  shows "triple (\<lambda>d. journal_or_committed E cur (acct E files d))
      (\<lambda>d. ac_state (acct E files d) = Present cur)
      (replace_credential E c j t1 t2)
      (\<lambda>_ d. committed_for E cur (acct E files d))"
proof -
  obtain v g r au ex pi i pe re bs where cur: "cur = Activating v g r au ex pi i pe re bs"
    using assms by (rule is_activating_obtain)
  have same: "current = cur"
    if "ac_state (acct E files d) = Present cur \<and> load_state E d = Inr (Some current)" for current d
    using that by (auto dest: load_state_Some)
  have go: "triple (\<lambda>d. journal_or_committed E cur (acct E files d))
      (\<lambda>d. ac_state (acct E files d) = Present cur \<and> load_state E d = Inr (Some current))
      (bindT (commit_activating_unlocked E c current t1 t2) (\<lambda>_. returnT ()))
      (\<lambda>_ d. committed_for E cur (acct E files d))" for current
  proof (cases "current = cur")
    case True
    show ?thesis
      unfolding True
      by (rule triple_bindT [OF triple_pre [OF commit_triple [OF cur]]]) (auto intro: triple_returnT)
  next
    case False
    then show ?thesis by (intro triple_false) (metis same)
  qed
  show ?thesis
  proof (cases "activating_key j")
    case None
    then show ?thesis
      by (auto simp: replace_credential_def journal_or_committed_def intro!: triple_failT)
  next
    case (Some key)
    have step: "triple (\<lambda>d. journal_or_committed E cur (acct E files d))
        (\<lambda>d. ac_state (acct E files d) = Present cur \<and> load_state E d = Inr x)
        (case x of None \<Rightarrow> failT Superseded
         | Some current \<Rightarrow> if activating_key current = Some key
             then bindT (commit_activating_unlocked E c current t1 t2) (\<lambda>_. returnT ()) else failT Superseded)
        (\<lambda>_ d. committed_for E cur (acct E files d))" for x
    proof (cases x)
      case None
      then show ?thesis by (auto simp: journal_or_committed_def intro!: triple_failT)
    next
      case (Some current)
      then show ?thesis
        using go [of current] by (auto simp: journal_or_committed_def intro!: triple_failT)
    qed
    show ?thesis
      unfolding replace_credential_def Some option.case
      by (rule triple_readT [OF _ step]) (simp add: journal_or_committed_def)
  qed
qed

lemma committed_state:
  "committed_for E (Activating v g r au ex pi i pe re bs) a \<Longrightarrow>
     \<exists>t. ac_state a = Present (Active Pairing_State_Version g r au i re t)"
  by (simp add: committed_for_def)

lemma finish_triple:
  assumes cur: "cur = Activating v g r au ex pi i pe re bs"
  shows "triple (\<lambda>d. journal_or_committed E cur (acct E files d))
      (\<lambda>d. ac_state (acct E files d) = Present cur)
      (finish_activating_unlocked E c j t1 t2)
      (\<lambda>p d. p = P_Active g r i re \<and> committed_for E cur (acct E files d))"
  unfolding finish_activating_unlocked_def
  apply (rule triple_bindT [OF replace_triple])
   apply (simp add: cur)
  apply (rule triple_readT)
   apply (simp add: journal_or_committed_def)
  apply (rule triple_liftR)
   apply (simp add: journal_or_committed_def)
  apply (rule triple_returnT)
  apply (auto simp: cur dest!: load_state_Some committed_state)
  done

abbreviation intact_disk :: "'d \<Rightarrow> bool" where
  "intact_disk d \<equiv> intact E (acct E files d)"

lemma finish_intact:
  "triple intact_disk intact_disk (finish_activating_unlocked E c j t1 t2) (\<lambda>_. intact_disk)"
proof (rule triple_cases [where B = "\<lambda>d. is_activating (ac_state (acct E files d))"])
  show "triple intact_disk (\<lambda>d. intact_disk d \<and> is_activating (ac_state (acct E files d)))
      (finish_activating_unlocked E c j t1 t2) (\<lambda>_. intact_disk)"
  proof (rule tripleI)
    fix d e d'
    assume "intact_disk d \<and> is_activating (ac_state (acct E files d))"
      and r: "finish_activating_unlocked E c j t1 t2 d = (Inl e, d')"
    then obtain cur v g r' au ex pi i pe re bs where cur: "ac_state (acct E files d) = Present cur"
      "cur = Activating v g r' au ex pi i pe re bs"
      by (cases "ac_state (acct E files d)" rule: is_activating.cases) auto
    from triple_err [OF finish_triple [OF cur(2)] cur(1) r] cur(2) show "intact_disk d'"
      by (auto intro: journal_or_committed_intact)
  next
    fix d x d'
    assume "intact_disk d \<and> is_activating (ac_state (acct E files d))"
      and r: "finish_activating_unlocked E c j t1 t2 d = (Inr x, d')"
    then obtain cur v g r' au ex pi i pe re bs where cur: "ac_state (acct E files d) = Present cur"
      "cur = Activating v g r' au ex pi i pe re bs"
      by (cases "ac_state (acct E files d)" rule: is_activating.cases) auto
    from triple_ok [OF finish_triple [OF cur(2)] cur(1) r] show "intact_disk d'"
      by (auto intro: committed_intact)
  qed
next
  let ?P = "\<lambda>d. intact_disk d \<and> \<not> is_activating (ac_state (acct E files d))"
  have no: "\<not> (?P d \<and> load_state E d = Inr (Some s))" if "activating_key s = Some k" for s k d
    using that by (auto dest!: load_state_Some activating_key_doc)
  show "triple intact_disk ?P (finish_activating_unlocked E c j t1 t2) (\<lambda>_. intact_disk)"
    unfolding finish_activating_unlocked_def
  proof (rule triple_bindT [where Q = "\<lambda>_ _. False"])
    show "triple intact_disk ?P (replace_credential E c j t1 t2) (\<lambda>_ _. False)"
    proof (cases "activating_key j")
      case None
      then show ?thesis by (auto simp: replace_credential_def intro!: triple_failT)
    next
      case (Some key)
      have step: "triple intact_disk (\<lambda>d. ?P d \<and> load_state E d = Inr x)
          (case x of None \<Rightarrow> failT Superseded
           | Some current \<Rightarrow> if activating_key current = Some key
               then bindT (commit_activating_unlocked E c current t1 t2) (\<lambda>_. returnT ()) else failT Superseded)
          (\<lambda>_ _. False)" for x
      proof (cases x)
        case None
        then show ?thesis by (auto intro!: triple_failT)
      next
        case (Some current)
        show ?thesis
        proof (cases "activating_key current = Some key")
          case True
          from no [OF this] Some show ?thesis by (intro triple_false) simp
        next
          case False
          with Some show ?thesis by (auto intro!: triple_failT)
        qed
      qed
      show ?thesis
        unfolding replace_credential_def Some option.case
        by (rule triple_readT [OF _ step]) simp
    qed
  qed (simp add: triple_false)
qed

lemma lock_intact: "triple intact_disk intact_disk (lock_state E) (\<lambda>_. intact_disk)"
  by (rule triple_lock) simp

lemma recover_intact:
  "triple intact_disk intact_disk (recover_activating E c j t1 t2) (\<lambda>_. intact_disk)"
  unfolding recover_activating_def
  by (cases "activating_key j")
    (auto intro!: triple_failT triple_bindT [OF lock_intact] triple_invariant_readT triple_returnT
      intro: triple_pre [OF finish_intact] split: option.split)

lemma persist_active_intact:
  "triple intact_disk intact_disk (persist_active_credentials E c p i t1 t2) (\<lambda>_. intact_disk)"
proof (cases p)
  case (Pending v g r au ex pi pe re bs ps)
  show ?thesis
    unfolding persist_active_credentials_def Pending stored_pairing_state.case Let_def
    apply (rule triple_bindT [OF lock_intact])
    apply (rule triple_invariant_readT)
    apply (rule triple_bindT)
     apply (rule triple_pre [OF triple_persist_state [where P = "intact E" and Q = "intact E"]])
      apply (simp add: intact_activating)
     apply simp
    apply (rule finish_intact)
    done
qed (auto simp: persist_active_credentials_def intro!: triple_failT)

lemma invalidate_intact:
  "triple intact_disk intact_disk (invalidate_credential E c k reason now) (\<lambda>_. intact_disk)"
  unfolding invalidate_credential_def
  apply (rule triple_invariant_readT)
  apply (split option.split, intro conjI impI allI)
   apply (rule triple_returnT, simp)
  apply (split if_split, intro conjI impI)
   apply (rule triple_returnT, simp)
  apply (rule triple_readT, simp)
  apply (rule triple_liftR, simp)
  apply (rule triple_bindT)
   apply (rule triple_pre [OF triple_persist_auth [where P = "intact E" and Q = "intact E"]])
    apply (simp add: intact_reauthorization)
   apply simp
  apply (rule triple_returnT, simp)
  done

end

end
