(* ===== verification/Pairing_Local.thy ===== *)
theory Pairing_Local
  imports Commit
begin

text \<open>
  The local side of pairing: \<open>src/pairing/local.rs\<close> and the construction of a reporter in
  \<open>src/transport.rs\<close>. Every function that hands out a reporter returns one snapshot of
  identity, token and endpoint; the lemmas show that the three come from one account.
\<close>

section \<open>The reporter\<close>

record reporter =
  rp_identity :: client_identity
  rp_client :: http_client
  rp_endpoint :: string
  rp_token :: string
  rp_credential_revision :: "uuid \<times> uuid"
  rp_otlp_endpoint :: "string option"
  rp_otlp_token :: "string option"

definition with_client_and_credential ::
  "'d env \<Rightarrow> client_config \<Rightarrow> http_client \<Rightarrow> credential_snapshot \<Rightarrow> reporter res" where
  "with_client_and_credential E c client credential =
     (if trim (cs_secret credential) = [] then Inl (Message ''the per-host token is empty'')
      else
        bindR (for_instance E (ci_instance_id (cs_identity credential))) (\<lambda>expected.
        bindR (ensure_matches E (cs_identity credential) expected) (\<lambda>_.
        Inr \<lparr>rp_identity = cs_identity credential, rp_client = client, rp_endpoint = endpoint c,
             rp_token = cs_secret credential, rp_credential_revision = cs_revision credential,
             rp_otlp_endpoint = otlp_endpoint c, rp_otlp_token = otlp_token c\<rparr>)))"

definition for_existing_credential :: "'d env \<Rightarrow> client_config \<Rightarrow> 'd \<Rightarrow> reporter option res" where
  "for_existing_credential E c d =
     bindR (load_credential E c d) (\<lambda>cred.
     case cred of
       None \<Rightarrow> Inr None
     | Some credential \<Rightarrow>
         bindR (build_client (env_http E) c) (\<lambda>client.
         map_ok Some (with_client_and_credential E c client credential)))"

section \<open>Reporter snapshots\<close>

definition config_for_active_binding :: "client_config \<Rightarrow> active_binding \<Rightarrow> client_config" where
  "config_for_active_binding c binding = apply_active_config (ab_report_endpoint binding) c"

record reporter_snapshot =
  rs_reporter :: reporter
  rs_host :: host_identity
  rs_report_endpoint :: string

definition snapshot_apply ::
  "reporter_snapshot \<Rightarrow> client_config \<Rightarrow> client_config \<times> host_identity \<times> reporter" where
  "snapshot_apply s c = (apply_active_config (rs_report_endpoint s) c, rs_host s, rs_reporter s)"

definition reporter_for_active_binding_unlocked ::
  "'d env \<Rightarrow> client_config \<Rightarrow> active_binding \<Rightarrow> 'd \<Rightarrow> reporter_snapshot option res" where
  "reporter_for_active_binding_unlocked E c binding d =
     bindR (load_host_identity_from E d) (\<lambda>durable_host.
     bindR (for_instance E (hi_id durable_host)) (\<lambda>a.
     bindR (for_instance E (uuid_text E (ab_instance_id binding))) (\<lambda>b.
     bindR (ensure_matches E a b) (\<lambda>_.
     map_ok (map_option (\<lambda>reporter.
         \<lparr>rs_reporter = reporter, rs_host = durable_host, rs_report_endpoint = ab_report_endpoint binding\<rparr>))
       (for_existing_credential E (config_for_active_binding c binding) d)))))"

definition corrupt_binding :: "string \<Rightarrow> client_error" where
  "corrupt_binding m = Context m (Corrupt ''active-binding'')"

definition refresh_reporter_snapshot ::
  "'d env \<Rightarrow> client_config \<Rightarrow> uuid \<times> uuid \<Rightarrow> ('d, client_error, reporter_snapshot option) tx" where
  "refresh_reporter_snapshot E c revision =
     bindT (lock_state E) (\<lambda>_. readT (\<lambda>d.
     bindR (local_auth_state_unlocked E d) (\<lambda>auth.
     if \<not> is_authorized auth then Inr None
     else
       bindR (load_state E d) (\<lambda>state.
       case state of
         None \<Rightarrow> Inr None
       | Some s \<Rightarrow>
           if is_activating (Present s) then Inr None
           else
             bindR (load_active_binding E c d) (\<lambda>b.
             bindR (ok_or (corrupt_binding ''authorized credential binding is missing'') b) (\<lambda>binding.
             if is_active (Present s) \<and> binding_from_active_state s \<noteq> Inr binding
             then Inl (corrupt_binding ''active credential binding does not match the pairing journal'')
             else if (ab_generation binding, ab_request_id binding) = revision then Inr None
             else reporter_for_active_binding_unlocked E c binding d))))))"

definition reporter_snapshot_for_current_active_state_unlocked ::
  "'d env \<Rightarrow> client_config \<Rightarrow> 'd \<Rightarrow> reporter_snapshot option res" where
  "reporter_snapshot_for_current_active_state_unlocked E c d =
     bindR (local_auth_state_unlocked E d) (\<lambda>auth.
     if \<not> is_authorized auth then Inr None
     else
       bindR (load_state E d) (\<lambda>state.
       case state of
         None \<Rightarrow> Inr None
       | Some s \<Rightarrow>
           if \<not> is_active (Present s) then Inr None
           else
             bindR (binding_from_active_state s) (\<lambda>expected.
             bindR (load_current_active_binding E c expected d) (\<lambda>binding.
             reporter_for_active_binding_unlocked E c binding d))))"

definition reporter_snapshot_for_current_active_state ::
  "'d env \<Rightarrow> client_config \<Rightarrow> ('d, client_error, reporter_snapshot option) tx" where
  "reporter_snapshot_for_current_active_state E c =
     bindT (lock_state E) (\<lambda>_. readT (reporter_snapshot_for_current_active_state_unlocked E c))"

definition reporter_for_current_active_state ::
  "'d env \<Rightarrow> client_config \<Rightarrow> ('d, client_error, reporter option) tx" where
  "reporter_for_current_active_state E c =
     bindT (reporter_snapshot_for_current_active_state E c) (\<lambda>s. returnT (map_option rs_reporter s))"

definition existing_reporter_for_run ::
  "'d env \<Rightarrow> client_config \<Rightarrow> time \<Rightarrow> time \<Rightarrow> ('d, client_error, reporter_snapshot option) tx" where
  "existing_reporter_for_run E c t1 t2 =
     bindT (lock_state E) (\<lambda>_.
     bindT (readT (load_state E)) (\<lambda>state.
     if (case state of None \<Rightarrow> False | Some s \<Rightarrow> is_activating (Present s))
     then bindT (finish_activating_unlocked E c (the state) t1 t2) (\<lambda>_.
          readT (reporter_snapshot_for_current_active_state_unlocked E c))
     else
       bindT (readT (local_auth_state_unlocked E)) (\<lambda>auth.
       if \<not> is_authorized auth then returnT None
       else
         (case state of
            None \<Rightarrow> returnT None
          | Some s \<Rightarrow>
              if is_active (Present s) then returnT None
              else
                bindT (readT (load_active_binding E c)) (\<lambda>b.
                case b of
                  Some binding \<Rightarrow> readT (reporter_for_active_binding_unlocked E c binding)
                | None \<Rightarrow> failT (corrupt_binding ''active binding is missing; pair xsoc again''))))))"

definition active_credential_revision ::
  "'d env \<Rightarrow> client_config \<Rightarrow> ('d, client_error, (uuid \<times> uuid) option) tx" where
  "active_credential_revision E c =
     bindT (lock_state E) (\<lambda>_. readT (\<lambda>d.
     bindR (local_auth_state_unlocked E d) (\<lambda>auth.
     if \<not> is_authorized auth then Inr None
     else
       bindR (load_state E d) (\<lambda>state.
       case state of
         None \<Rightarrow> Inr None
       | Some s \<Rightarrow>
           if \<not> is_active (Present s) then Inr None
           else
             bindR (binding_from_active_state s) (\<lambda>expected.
             bindR (load_current_active_binding E c expected d) (\<lambda>binding.
             Inr (Some (ab_generation binding, ab_request_id binding))))))))"

definition has_current_authorized_identity :: "'d env \<Rightarrow> ('d, client_error, bool) tx" where
  "has_current_authorized_identity E =
     bindT (lock_state E) (\<lambda>_. readT (\<lambda>d.
     bindR (local_auth_state_unlocked E d) (\<lambda>auth.
     if \<not> is_authorized auth then Inr False
     else bindR (load_state E d) (\<lambda>state. Inr (state \<noteq> None)))))"

section \<open>Committing a configuration\<close>

definition ensure_active_is_current ::
  "'d env \<Rightarrow> uuid \<Rightarrow> uuid \<Rightarrow> uuid \<Rightarrow> string \<Rightarrow> 'd \<Rightarrow> active_binding res" where
  "ensure_active_is_current E generation request_id instance_id report_endpoint d =
     bindR (load_state E d) (\<lambda>current.
     case current of
       Some (Active v g r au i re t) \<Rightarrow>
         if g = generation \<and> r = request_id \<and> i = instance_id \<and> re = report_endpoint
         then binding_from_active_state (Active v g r au i re t)
         else Inl Superseded
     | _ \<Rightarrow> Inl Superseded)"

text \<open>
  \<open>persist\<close> stands for \<open>ClientConfig::persist_after_pairing\<close>, which writes the configuration
  file outside the state directory.
\<close>

definition commit_active_configuration ::
  "'d env \<Rightarrow> (client_config \<Rightarrow> string res) \<Rightarrow> client_config \<Rightarrow> uuid \<Rightarrow> uuid \<Rightarrow> uuid \<Rightarrow> string \<Rightarrow>
     ('d, client_error, client_config \<times> string) tx" where
  "commit_active_configuration E persist c generation request_id instance_id report_endpoint =
     bindT (lock_state E) (\<lambda>_. readT (\<lambda>d.
     bindR (ensure_active_is_current E generation request_id instance_id report_endpoint d) (\<lambda>expected.
     bindR (load_current_active_binding E c expected d) (\<lambda>binding.
     bindR (persist (apply_active_config (ab_report_endpoint binding) c)) (\<lambda>path.
     Inr (apply_active_config (ab_report_endpoint binding) c, path))))))"

definition activate_reporter_snapshot ::
  "'d env \<Rightarrow> client_config \<Rightarrow> uuid \<Rightarrow> uuid \<Rightarrow> uuid \<Rightarrow> string \<Rightarrow>
     ('d, client_error, client_config \<times> host_identity \<times> reporter) tx" where
  "activate_reporter_snapshot E c generation request_id instance_id report_endpoint =
     bindT (lock_state E) (\<lambda>_. readT (\<lambda>d.
     bindR (local_auth_state_unlocked E d) (\<lambda>auth.
     if \<not> is_authorized auth
     then Inl (Message ''current Active pairing state has no current authorized identity state'')
     else
       bindR (ensure_active_is_current E generation request_id instance_id report_endpoint d) (\<lambda>expected.
       bindR (load_current_active_binding E c expected d) (\<lambda>binding.
       bindR (reporter_for_active_binding_unlocked E c binding d) (\<lambda>snapshot.
       bindR (ok_or (Message ''paired host credential is missing after the Active pairing transaction'') snapshot)
         (\<lambda>snapshot. Inr (snapshot_apply snapshot c))))))))"

definition mark_reauth_required_if_current ::
  "'d env \<Rightarrow> client_config \<Rightarrow> uuid \<times> uuid \<Rightarrow> string \<Rightarrow> time \<Rightarrow> ('d, client_error, bool) tx" where
  "mark_reauth_required_if_current E c revision reason now =
     bindT (lock_state E) (\<lambda>_.
     bindT (invalidate_credential E c revision reason now) (\<lambda>result.
     returnT (result = Applied)))"

section \<open>Read-only status\<close>

definition local_progress :: "'d env \<Rightarrow> 'd \<Rightarrow> pairing_progress option res" where
  "local_progress E d =
     (case reader_open (env_fs E) d of
        Inl e \<Rightarrow> if io_kind e = NotFound then Inr None else Inl (Io e)
      | Inr _ \<Rightarrow> map_ok (map_option progress_from_terminal) (load_state E d))"

definition local_auth_state :: "'d env \<Rightarrow> 'd \<Rightarrow> local_auth_state option res" where
  "local_auth_state E d =
     (case reader_open (env_fs E) d of
        Inr _ \<Rightarrow> local_auth_state_unlocked E d
      | Inl e \<Rightarrow> if io_kind e = NotFound then Inr None else Inl (Io e))"

record local_pairing_status =
  ls_progress :: "pairing_progress option"
  ls_active_report_endpoint :: "string option"

text \<open>
  \<open>local_status\<close> takes no lock, so other processes may replace files between its reads: the
  three reads of attempt \<open>k\<close> see the directories \<open>disk k 0\<close>, \<open>disk k 1\<close> and \<open>disk k 2\<close>.
\<close>

definition current_binding_of :: "stored_pairing_state option \<Rightarrow> active_binding option" where
  "current_binding_of state =
     (case state of
        None \<Rightarrow> None
      | Some s \<Rightarrow> (case binding_from_active_state s of Inl e \<Rightarrow> None | Inr b \<Rightarrow> Some b))"

fun local_status_attempts ::
  "'d env \<Rightarrow> client_config \<Rightarrow> (nat \<Rightarrow> nat \<Rightarrow> 'd) \<Rightarrow> nat \<Rightarrow> nat \<Rightarrow> local_pairing_status res" where
  "local_status_attempts E c disk k 0 =
     Inl (Message ''pairing state changed repeatedly while reading local status'')"
| "local_status_attempts E c disk k (Suc n) =
     bindR (load_state E (disk k 0)) (\<lambda>state.
     if \<not> (case state of None \<Rightarrow> False | Some s \<Rightarrow> is_active (Present s))
     then Inr \<lparr>ls_progress = map_option progress_from_terminal state, ls_active_report_endpoint = None\<rparr>
     else
       bindR (binding_from_active_state (the state)) (\<lambda>expected.
       let binding = load_active_binding E c (disk k 1) in
       bindR (load_state E (disk k 2)) (\<lambda>current.
       if current_binding_of current \<noteq> Some expected then local_status_attempts E c disk (Suc k) n
       else
         bindR binding (\<lambda>b.
         case b of
           Some b' \<Rightarrow>
             if b' = expected
             then Inr \<lparr>ls_progress = Some (progress_from_terminal (the state)),
                       ls_active_report_endpoint = Some (ab_report_endpoint expected)\<rparr>
             else Inl (corrupt_binding ''active binding does not match the current Active pairing state'')
         | None \<Rightarrow> Inl (corrupt_binding ''active binding is missing; pair xsoc again'')))))"

definition max_snapshot_attempts :: nat where
  "max_snapshot_attempts = 3"

definition local_status ::
  "'d env \<Rightarrow> client_config \<Rightarrow> 'd \<Rightarrow> (nat \<Rightarrow> nat \<Rightarrow> 'd) \<Rightarrow> local_pairing_status res" where
  "local_status E c d disk =
     (case reader_open (env_fs E) d of
        Inl e \<Rightarrow> if io_kind e = NotFound then Inr \<lparr>ls_progress = None, ls_active_report_endpoint = None\<rparr>
                 else Inl (Io e)
      | Inr _ \<Rightarrow> local_status_attempts E c disk 0 max_snapshot_attempts)"

section \<open>Every snapshot is one account\<close>

text \<open>
  A snapshot is coherent with an account when identity, host, token and endpoint are those of
  the binding in force, the token is well formed and the account is authorized.
\<close>

definition coherent_snapshot :: "'d env \<Rightarrow> reporter_snapshot \<Rightarrow> account \<Rightarrow> bool" where
  "coherent_snapshot E s a \<longleftrightarrow>
     authorized_doc (ac_auth a) \<and> \<not> is_activating (ac_state a) \<and>
     (\<exists>b. ac_binding a = Present b
        \<and> rp_token (rs_reporter s) = the (ac_token a) \<and> ac_token a \<noteq> None \<and> token_ok (rp_token (rs_reporter s))
        \<and> ci_instance_id (rp_identity (rs_reporter s)) = uuid_text E (ab_instance_id b)
        \<and> hi_id (rs_host s) = uuid_text E (ab_instance_id b)
        \<and> rp_endpoint (rs_reporter s) = ab_report_endpoint b
        \<and> rs_report_endpoint s = ab_report_endpoint b
        \<and> rp_credential_revision (rs_reporter s) = (ab_generation b, ab_request_id b)
        \<and> trusted_https (env_url E) (ab_report_endpoint b))"

context pairing_env
begin

lemma for_instance_ok: "for_instance E v = Inr ci \<Longrightarrow> ci_instance_id ci = v"
  by (auto simp: for_instance_def bindR_Inr_iff dest!: contract_ok identity_new_ok split: if_splits)

lemma ensure_matches_ok: "ensure_matches E a b = Inr u \<longleftrightarrow> a = b"
  by (simp add: ensure_matches_def identity_matches_iff)

lemma read_secret_ok: "read_secret E d = Inr t \<Longrightarrow> ac_token (acct E files d) = Some t \<and> token_ok t"
  by (auto simp: read_secret_def bindR_Inr_iff acct_def account_of_def dest: store.sread_ok split: if_splits)

lemma credential_binding_Some:
  assumes "credential_binding E c d = Inr (Some b)"
  shows "ac_binding (acct E files d) = Present b \<and> validate_active_binding E c b = Inr ()
    \<and> \<not> is_activating (ac_state (acct E files d))"
proof -
  from assms obtain st where st: "load_state E d = Inr (Some st)" and act: "\<not> is_activating (Present st)"
    and b: "load_active_binding E c d = Inr (Some b)"
    by (auto simp: credential_binding_def bindR_Inr_iff split: option.splits if_splits)
  from load_state_Some [OF st] load_active_binding_Some [OF b] act show ?thesis by simp
qed

lemma load_credential_Some:
  assumes "load_credential E c d = Inr (Some s)"
  obtains b where "credential_binding E c d = Inr (Some b)"
    and "authorized_doc (ac_auth (acct E files d))"
    and "ac_token (acct E files d) = Some (cs_secret s)" and "token_ok (cs_secret s)"
    and "ci_instance_id (cs_identity s) = uuid_text E (ab_instance_id b)"
    and "cs_revision s = (ab_generation b, ab_request_id b)"
proof (cases "read_secret E d")
  case (Inl e)
  with assms show ?thesis
    by (auto simp: load_credential_def bindR_Inr_iff split: if_splits option.splits)
next
  case (Inr t)
  with assms read_secret_ok [OF Inr] that show ?thesis
    by (auto simp: load_credential_def bindR_Inr_iff ensure_matches_ok local_auth_authorized
        dest: for_instance_ok split: if_splits)
qed

lemma validate_active_binding_trusted:
  "validate_active_binding E c b = Inr u \<Longrightarrow> trusted_https (env_url E) (ab_report_endpoint b)"
  by (auto simp: validate_active_binding_def bindR_Inr_iff validate_durable_report_endpoint_def
      validate_endpoint_ok_iff split: if_splits)

lemma for_existing_credential_Some:
  assumes "for_existing_credential E c d = Inr (Some rp)"
  obtains s b where "load_credential E c d = Inr (Some s)"
    and "rp_token rp = cs_secret s" and "rp_identity rp = cs_identity s"
    and "rp_credential_revision rp = cs_revision s" and "rp_endpoint rp = endpoint c"
    and "\<not> hc_follows_redirects (rp_client rp)"
  using assms
  by (auto simp: for_existing_credential_def bindR_Inr_iff map_ok_Inr_iff with_client_and_credential_def
      build_client_def dest: build_client_no_redirects split: option.splits if_splits)

lemma reporter_for_active_binding_coherent:
  assumes r: "reporter_for_active_binding_unlocked E c b d = Inr (Some s)"
    and b: "ac_binding (acct E files d) = Present b"
  shows "coherent_snapshot E s (acct E files d)"
proof -
  from r obtain rp h where rp: "for_existing_credential E (config_for_active_binding c b) d = Inr (Some rp)"
    and s: "s = \<lparr>rs_reporter = rp, rs_host = h, rs_report_endpoint = ab_report_endpoint b\<rparr>"
    and h: "hi_id h = uuid_text E (ab_instance_id b)"
    by (auto simp: reporter_for_active_binding_unlocked_def bindR_Inr_iff map_ok_Inr_iff ensure_matches_ok
        eq_commute [of "Some s"] dest!: for_instance_ok)
  obtain cs where cs: "load_credential E (config_for_active_binding c b) d = Inr (Some cs)"
    and f: "rp_token rp = cs_secret cs" "rp_identity rp = cs_identity cs"
      "rp_credential_revision rp = cs_revision cs" "rp_endpoint rp = endpoint (config_for_active_binding c b)"
    using rp by (rule for_existing_credential_Some)
  obtain b' where b': "credential_binding E (config_for_active_binding c b) d = Inr (Some b')"
    and g: "authorized_doc (ac_auth (acct E files d))" "ac_token (acct E files d) = Some (cs_secret cs)"
      "token_ok (cs_secret cs)" "ci_instance_id (cs_identity cs) = uuid_text E (ab_instance_id b')"
      "cs_revision cs = (ab_generation b', ab_request_id b')"
    using cs by (rule load_credential_Some)
  from credential_binding_Some [OF b'] b have "b' = b" "\<not> is_activating (ac_state (acct E files d))"
    "trusted_https (env_url E) (ab_report_endpoint b)"
    by (auto dest: validate_active_binding_trusted)
  with b f g h s show ?thesis
    by (auto simp: coherent_snapshot_def config_for_active_binding_def)
qed

lemma snapshot_unlocked_coherent:
  "reporter_snapshot_for_current_active_state_unlocked E c d = Inr (Some s) \<Longrightarrow>
     coherent_snapshot E s (acct E files d) \<and> is_active (ac_state (acct E files d))"
  by (auto simp: reporter_snapshot_for_current_active_state_unlocked_def bindR_Inr_iff
      dest!: load_current_active_binding_ok load_state_Some intro: reporter_for_active_binding_coherent
      split: if_splits option.splits)

lemma locked_read_ok:
  "bindT (lock_state E) (\<lambda>_. readT f) d = (Inr x, d') \<Longrightarrow> f d' = Inr x \<and> acct E files d' = acct E files d"
  by (auto simp: bindT_ok_iff readT_def) (metis lock_state_frame snd_conv)

lemma snapshot_coherent:
  "reporter_snapshot_for_current_active_state E c d = (Inr (Some s), d') \<Longrightarrow>
     coherent_snapshot E s (acct E files d')"
  by (auto simp: reporter_snapshot_for_current_active_state_def
      dest!: locked_read_ok snapshot_unlocked_coherent)

lemma refresh_coherent:
  "refresh_reporter_snapshot E c revision d = (Inr (Some s), d') \<Longrightarrow>
     coherent_snapshot E s (acct E files d') \<and> rp_credential_revision (rs_reporter s) \<noteq> revision"
  unfolding refresh_reporter_snapshot_def
proof (drule locked_read_ok, elim conjE, goal_cases)
  case 1
  then obtain b where b: "load_active_binding E c d' = Inr (Some b)"
    and n: "(ab_generation b, ab_request_id b) \<noteq> revision"
    and r: "reporter_for_active_binding_unlocked E c b d' = Inr (Some s)"
    by (auto simp: bindR_Inr_iff split: if_splits option.splits)
  from b have "ac_binding (acct E files d') = Present b"
    by (simp add: load_active_binding_Some)
  with r have "coherent_snapshot E s (acct E files d')"
    by (rule reporter_for_active_binding_coherent)
  with \<open>ac_binding (acct E files d') = Present b\<close> n show ?case
    by (auto simp: coherent_snapshot_def)
qed

end

end
