(* ===== verification/Pairing_Client.thy ===== *)
theory Pairing_Client
  imports Pairing_Local
begin

text \<open>
  The wire side of pairing: \<open>src/pairing/client.rs\<close>, \<open>src/pairing/activation.rs\<close> and the
  status endpoint of \<open>src/pairing/polling.rs\<close>. Secrets and their hexadecimal form, request
  headers, the diagnosis of content types, the strict reading of error envelopes and the URL
  checks before a browser destination or an endpoint is trusted.
\<close>

section \<open>Secrets\<close>

definition hex_digits :: string where
  "hex_digits = ''0123456789abcdef''"

definition hex_byte :: "char \<Rightarrow> string" where
  "hex_byte c = [hex_digits ! (byte c div 16), hex_digits ! (byte c mod 16)]"

definition hex :: "string \<Rightarrow> string" where
  "hex bytes = concat (map hex_byte bytes)"

text \<open>\<open>entropy\<close> is what the system generator delivered for this call, if it did.\<close>

definition random_secret :: "string option \<Rightarrow> string res" where
  "random_secret entropy = map_ok hex (ok_or (Message ''system entropy is unavailable'') entropy)"

definition sha256_hex :: "'d env \<Rightarrow> string \<Rightarrow> string" where
  "sha256_hex E secret = hex (sha256 E secret)"

definition pairing_authorization :: "http_ops \<Rightarrow> string \<Rightarrow> string res" where
  "pairing_authorization H secret =
     (let value = ''Pairing '' @ secret in
      if header_value_ok H value then Inr value
      else Inl (Message ''invalid pairing authorization header''))"

definition json_headers :: "(string \<times> string) list" where
  "json_headers = [(''content-type'', ''application/json''), (''accept'', ''application/json'')]"

section \<open>Responses\<close>

definition pairing_content_type_for_diagnostics :: "string \<Rightarrow> string" where
  "pairing_content_type_for_diagnostics content_type =
     (let media_type = map to_ascii_lower (trim (before_first CHR '';'' content_type)) in
      if media_type \<in> {''application/json'', ''text/html'', ''text/plain'', ''application/octet-stream''}
      then media_type
      else if media_type = ''<missing>'' then media_type
      else if starts_with ''application/'' media_type \<and> ends_with ''+json'' media_type
      then ''application/*+json''
      else ''<unexpected>'')"

definition pairing_response_content_type :: "http_ops \<Rightarrow> http_response \<Rightarrow> string" where
  "pairing_response_content_type H r =
     pairing_content_type_for_diagnostics
       (case content_type_of H r of None \<Rightarrow> ''<missing>'' | Some v \<Rightarrow> v)"

definition pairing_origin_for_diagnostics :: "url_ops \<Rightarrow> string \<Rightarrow> string" where
  "pairing_origin_for_diagnostics U e =
     (case url_parse U e of
        None \<Rightarrow> ''<invalid Server origin>''
      | Some u \<Rightarrow> if u_origin u = ''null'' then ''<invalid Server origin>'' else u_origin u)"

definition parse_pairing_json ::
  "url_ops \<Rightarrow> (string \<Rightarrow> 'a option) \<Rightarrow> string \<Rightarrow> string \<Rightarrow> string \<Rightarrow> string \<Rightarrow> 'a res" where
  "parse_pairing_json U parse body content_type endpoint_text response_kind =
     (let invalid = Message (''xsos returned an unexpected or malformed '' @ response_kind
            @ '' from Server origin '' @ pairing_origin_for_diagnostics U endpoint_text
            @ '' (HTTP 2xx Content-Type: '' @ pairing_content_type_for_diagnostics content_type @ '')'') in
      if pairing_content_type_for_diagnostics content_type \<noteq> ''application/json'' then Inl invalid
      else ok_or invalid (parse body))"

text \<open>
  \<open>ensure_pairing_response\<close>: a rejection carries a code only when the envelope is one of the
  contract and agrees with the HTTP status.
\<close>

definition envelope_received :: "error_envelope \<Rightarrow> 16 word option" where
  "envelope_received ev = Option.bind (Option.bind (ee_details ev ''received'') as_u64) u16_try_from"

definition envelope_supported :: "error_envelope \<Rightarrow> 16 word list" where
  "envelope_supported ev =
     (case Option.bind (ee_details ev ''supported'') as_array of None \<Rightarrow> [] | Some js \<Rightarrow> u16_elements js)"

definition unsupported_protocol :: "nat \<Rightarrow> error_envelope option \<Rightarrow> error_envelope option" where
  "unsupported_protocol status envelope =
     (case envelope of None \<Rightarrow> None | Some ev \<Rightarrow>
        if status = 400 \<and> ee_code ev = ''unsupported_client_protocol'' \<and> \<not> ee_retryable ev
        then Some ev else None)"

definition ended_request_id :: "(string \<Rightarrow> uuid option) \<Rightarrow> error_envelope option \<Rightarrow> uuid option" where
  "ended_request_id parse_uuid envelope =
     (case envelope of None \<Rightarrow> None | Some ev \<Rightarrow>
        if \<not> ee_retryable ev \<and>
           ee_code ev \<in> {''pairing_transaction_not_found'', ''pairing_transaction_expired''}
        then Option.bind (Option.bind (ee_details ev ''request_id'') as_str) parse_uuid
        else None)"

definition trusted_code ::
  "nat \<Rightarrow> 16 word option \<Rightarrow> 16 word list \<Rightarrow> uuid option \<Rightarrow> error_envelope \<Rightarrow> string option" where
  "trusted_code status received supported request_id ev =
     (if ee_code ev = ''unsupported_client_protocol'' \<and> received \<noteq> None \<and> supported \<noteq> []
      then Some ''unsupported_client_protocol''
      else if ee_code ev = ''pairing_transaction_not_found'' \<and> status = 404
        \<and> request_id \<noteq> None \<and> \<not> ee_retryable ev
      then Some ''pairing_transaction_not_found''
      else if ee_code ev = ''pairing_transaction_expired'' \<and> status = 410
        \<and> request_id \<noteq> None \<and> \<not> ee_retryable ev
      then Some ''pairing_transaction_expired''
      else if ee_code ev = ''method_not_allowed'' then Some ''method_not_allowed''
      else if ee_code ev = ''unsupported_media_type'' then Some ''unsupported_media_type''
      else None)"

definition ensure_pairing_response ::
  "http_ops \<Rightarrow> (string \<Rightarrow> uuid option) \<Rightarrow> nat \<Rightarrow> string \<Rightarrow> string \<Rightarrow> nat list \<Rightarrow> pairing_http_operation \<Rightarrow> unit res" where
  "ensure_pairing_response H parse_uuid status content_type body allowed operation =
     (if status \<in> set allowed then Inr ()
      else
        let envelope = (if pairing_content_type_for_diagnostics content_type = ''application/json''
                        then parse_envelope H body else None);
            protocol = unsupported_protocol status envelope;
            received = Option.bind protocol envelope_received;
            supported = (case protocol of None \<Rightarrow> [] | Some ev \<Rightarrow> envelope_supported ev);
            request_id = ended_request_id parse_uuid envelope
        in Inl (Http_Rejected \<lparr>he_operation = operation, he_status = status,
             he_code = Option.bind envelope (trusted_code status received supported request_id),
             he_received = received, he_supported = supported, he_request_id = request_id\<rparr>))"

section \<open>URLs\<close>

definition activation_endpoint :: "url_ops \<Rightarrow> string \<Rightarrow> url res" where
  "activation_endpoint U pairing_ep =
     bindR (with_context ''stored pairing endpoint is unsafe'' (validate_pairing_endpoint U pairing_ep)) (\<lambda>_.
     bindR (with_context ''stored pairing endpoint is not a valid URL''
       (ok_or (Message ''URL'') (url_parse U pairing_ep))) (\<lambda>u.
     if u_username u \<noteq> [] \<or> u_password u \<noteq> None
     then Inl (Message ''stored pairing endpoint unexpectedly contains credentials'')
     else
       bindR (ok_or (Message ''stored pairing endpoint does not end in /pairing-requests'')
         (strip_suffix ''/pairing-requests'' (trim_end_matches CHR ''/'' (u_path u)))) (\<lambda>base.
       Inr (url_set_fragment U None (url_set_query U None (url_set_path U (base @ ''/activate'') u))))))"

definition validate_activation_url_request ::
  "'d env \<Rightarrow> string \<Rightarrow> string \<Rightarrow> uuid \<Rightarrow> unit res" where
  "validate_activation_url_request E activation_url pairing_ep request_id =
     bindR (with_context ''stored pairing activation URL is invalid''
       (ok_or (Message ''URL'') (url_parse (env_url E) activation_url))) (\<lambda>u.
     bindR (with_context ''stored pairing endpoint is invalid''
       (ok_or (Message ''URL'') (url_parse (env_url E) pairing_ep))) (\<lambda>pairing.
     if u_username u \<noteq> [] \<or> u_password u \<noteq> None \<or> u_query u \<noteq> None \<or> u_fragment u \<noteq> None
       \<or> u_scheme u \<noteq> u_scheme pairing
       \<or> map_option (map to_ascii_lower) (u_host u) \<noteq> map_option (map to_ascii_lower) (u_host pairing)
       \<or> u_port_or_default u \<noteq> u_port_or_default pairing
       \<or> u_path u \<noteq> browser_activation_path_prefix (env_proto E) @ uuid_text E request_id
     then Inl (Message ''stored activation URL does not match the pending pairing request'')
     else Inr ()))"

definition resolve_activation_url :: "url_ops \<Rightarrow> string \<Rightarrow> string \<Rightarrow> string res" where
  "resolve_activation_url U pairing_ep activation_url =
     bindR (with_context ''invalid pairing endpoint URL'' (ok_or (Message ''URL'') (url_parse U pairing_ep))) (\<lambda>base.
     bindR (case url_parse U activation_url of
         Some u \<Rightarrow> Inr u
       | None \<Rightarrow> with_context ''invalid activation URL returned by xsos''
                   (ok_or (Message ''URL'') (url_join U base activation_url))) (\<lambda>u.
     if u_username u \<noteq> [] \<or> u_password u \<noteq> None
     then Inl (Message ''xsos returned an activation URL containing credentials'')
     else if u_scheme u \<noteq> ''https''
     then Inl (Message ''xsos returned an activation URL that does not use HTTPS'')
     else Inr (u_text u)))"

definition pairing_status_endpoint :: "'d env \<Rightarrow> string \<Rightarrow> uuid \<Rightarrow> url res" where
  "pairing_status_endpoint E pairing_ep request_id =
     (let U = env_url E in
     bindR (with_context ''stored pairing endpoint is unsafe'' (validate_pairing_endpoint U pairing_ep)) (\<lambda>_.
     bindR (with_context ''stored pairing endpoint is not a valid URL''
       (ok_or (Message ''URL'') (url_parse U pairing_ep))) (\<lambda>u.
     if u_query u \<noteq> None \<or> u_fragment u \<noteq> None
     then Inl (Message ''stored pairing endpoint must not contain a query or fragment'')
     else if u_cannot_be_a_base u
     then Inl (Message ''stored pairing endpoint cannot accept path segments'')
     else Inr (url_push U ''status'' (url_push U (uuid_text E request_id) (url_pop_if_empty U u))))))"

section \<open>Facts\<close>

lemma hex_digit_token: "n < 16 \<Longrightarrow> is_token_byte (hex_digits ! n)"
proof -
  assume "n < 16"
  then have "hex_digits ! n \<in> set hex_digits"
    by (intro nth_mem) (simp add: hex_digits_def)
  then show ?thesis
    by (auto simp: hex_digits_def is_token_byte_def is_ascii_digit_def byte_def)
qed

lemma byte_less: "byte c < 256"
  by (simp add: byte_def)

lemma hex_length: "length (hex bs) = 2 * length bs"
  by (induction bs) (simp_all add: hex_def hex_byte_def)

lemma hex_token_bytes: "list_all is_token_byte (hex bs)"
proof -
  have "list_all is_token_byte (hex_byte c)" for c
    using byte_less [of c] by (simp add: hex_byte_def hex_digit_token)
  then show ?thesis
    by (induction bs) (simp_all add: hex_def)
qed

lemma random_secret_token: "random_secret (Some bs) = Inr s \<Longrightarrow> length bs = 32 \<Longrightarrow> token_ok s"
  by (auto simp: random_secret_def token_ok_def hex_length hex_token_bytes)

lemma ensure_pairing_response_errE:
  assumes "ensure_pairing_response H pu st ct body allowed opn = Inl e"
  obtains h where "e = Http_Rejected h" and "st \<notin> set allowed" and "he_operation h = opn"
    and "he_status h = st"
    and "\<And>c. he_code h = Some c \<Longrightarrow>
      pairing_content_type_for_diagnostics ct = ''application/json'' \<and>
      (\<exists>ev. parse_envelope H body = Some ev \<and> he_request_id h = ended_request_id pu (Some ev) \<and>
         trusted_code st (he_received h) (he_supported h) (he_request_id h) ev = Some c)"
proof -
  let ?env = "if pairing_content_type_for_diagnostics ct = ''application/json''
     then parse_envelope H body else None"
  let ?rc = "Option.bind (unsupported_protocol st ?env) envelope_received"
  let ?sp = "case unsupported_protocol st ?env of None \<Rightarrow> [] | Some ev \<Rightarrow> envelope_supported ev"
  let ?h = "\<lparr>he_operation = opn, he_status = st,
     he_code = Option.bind ?env (trusted_code st ?rc ?sp (ended_request_id pu ?env)),
     he_received = ?rc, he_supported = ?sp, he_request_id = ended_request_id pu ?env\<rparr>"
  from assms have "st \<notin> set allowed" and "e = Http_Rejected ?h"
    by (simp_all add: ensure_pairing_response_def Let_def split: if_splits)
  then show thesis
    by (intro that [of ?h]) (auto simp: bind_eq_Some_conv split: if_splits)
qed

lemma trusted_code_missing:
  assumes "trusted_code st rc sp (ended_request_id pu (Some ev)) ev = Some ''pairing_transaction_not_found''"
  shows "ee_code ev = ''pairing_transaction_not_found'' \<and> st = 404 \<and> \<not> ee_retryable ev \<and>
     ended_request_id pu (Some ev) = Option.bind (Option.bind (ee_details ev ''request_id'') as_str) pu"
  using assms by (simp add: trusted_code_def ended_request_id_def split: if_splits)

lemma trusted_code_expired:
  assumes "trusted_code st rc sp (ended_request_id pu (Some ev)) ev = Some ''pairing_transaction_expired''"
  shows "ee_code ev = ''pairing_transaction_expired'' \<and> st = 410 \<and> \<not> ee_retryable ev \<and>
     ended_request_id pu (Some ev) = Option.bind (Option.bind (ee_details ev ''request_id'') as_str) pu"
  using assms by (simp add: trusted_code_def ended_request_id_def split: if_splits)

lemma ensure_pairing_response_ended:
  assumes "ensure_pairing_response H pu st ct body allowed opn = Inl e"
    and "downcast_http e = Some h" and "transaction_ended_for h r"
  shows "opn \<noteq> Create_Op \<and> st \<notin> set allowed \<and>
    pairing_content_type_for_diagnostics ct = ''application/json'' \<and>
    (\<exists>ev. parse_envelope H body = Some ev \<and> \<not> ee_retryable ev \<and>
       (st = 404 \<and> ee_code ev = ''pairing_transaction_not_found'' \<or>
        st = 410 \<and> ee_code ev = ''pairing_transaction_expired'') \<and>
       Option.bind (Option.bind (ee_details ev ''request_id'') as_str) pu = Some r)"
proof -
  obtain h' where h': "e = Http_Rejected h'" "st \<notin> set allowed" "he_operation h' = opn"
    and code: "\<And>c. he_code h' = Some c \<Longrightarrow>
      pairing_content_type_for_diagnostics ct = ''application/json'' \<and>
      (\<exists>ev. parse_envelope H body = Some ev \<and> he_request_id h' = ended_request_id pu (Some ev) \<and>
         trusted_code st (he_received h') (he_supported h') (he_request_id h') ev = Some c)"
    using assms(1) by (rule ensure_pairing_response_errE) blast
  from h'(1) assms(2) have h: "h' = h" by simp
  from assms(3) have "opn \<noteq> Create_Op" and r: "he_request_id h = Some r"
    and c: "he_code h = Some ''pairing_transaction_not_found'' \<or>
            he_code h = Some ''pairing_transaction_expired''"
    using h'(3) h by (auto simp: transaction_ended_for_def transaction_missing_def transaction_expired_def)
  from c show ?thesis
  proof
    assume "he_code h = Some ''pairing_transaction_not_found''"
    from code [unfolded h, OF this] show ?thesis
      using r trusted_code_missing h'(2) \<open>opn \<noteq> Create_Op\<close> by metis
  next
    assume "he_code h = Some ''pairing_transaction_expired''"
    from code [unfolded h, OF this] show ?thesis
      using r trusted_code_expired h'(2) \<open>opn \<noteq> Create_Op\<close> by metis
  qed
qed

lemma validate_activation_url_request_ok:
  assumes "validate_activation_url_request E au pe r = Inr u"
  obtains a p where "url_parse (env_url E) au = Some a" and "url_parse (env_url E) pe = Some p"
    and "u_scheme a = u_scheme p" and "u_port_or_default a = u_port_or_default p"
    and "map_option (map to_ascii_lower) (u_host a) = map_option (map to_ascii_lower) (u_host p)"
    and "u_path a = browser_activation_path_prefix (env_proto E) @ uuid_text E r"
    and "u_username a = []" and "u_password a = None" and "u_query a = None" and "u_fragment a = None"
  using assms by (auto simp: validate_activation_url_request_def bindR_Inr_iff split: if_splits)

end
