(* ===== verification/Pairing_Flow.thy ===== *)
theory Pairing_Flow
  imports Pairing_Client
begin

text \<open>
  The asynchronous operations of pairing: \<open>src/pairing/create.rs\<close>, \<open>src/pairing/polling.rs\<close>
  and \<open>src/pairing/activation_flow.rs\<close>. They hold the state lock only in sections without
  network traffic; while it is free, other processes may do anything to the directory. The
  record \<open>inputs\<close> holds what one operation receives from outside: the network, the actions
  of the other processes before its locked section and while it is on the network, the
  clock, the fresh UUID and the entropy.
\<close>

section \<open>Inputs and interference\<close>

record 'd inputs =
  in_net :: network
  in_before :: "'d \<Rightarrow> 'd"
  in_during :: "'d \<Rightarrow> 'd"
  in_now :: time
  in_commit_at :: time
  in_completed_at :: time
  in_uuid :: uuid
  in_bearer_entropy :: "string option"
  in_polling_entropy :: "string option"

definition elsewhere :: "('d \<Rightarrow> 'd) \<Rightarrow> ('d, 'e, unit) tx" where
  "elsewhere f = (\<lambda>d. (Inr (), f d))"

section \<open>Creating a request\<close>

datatype pairing_start =
    Start_Waiting pairing_session
  | Start_Create stored_pairing_state
  | Start_Check_Expired pairing_session

definition pairing_endpoints_match :: "'d env \<Rightarrow> client_config \<Rightarrow> string \<Rightarrow> string \<Rightarrow> bool res" where
  "pairing_endpoints_match E c stored_pairing_endpoint stored_report_endpoint =
     bindR (pairing_endpoint (env_url E) (env_proto E) c) (\<lambda>p.
     Inr (stored_pairing_endpoint = p \<and> stored_report_endpoint = endpoint c))"

definition inferred_mode :: "'d env \<Rightarrow> host_identity \<Rightarrow> 'd \<Rightarrow> pair_mode" where
  "inferred_mode E host d =
     (case load_identity E d of
        Inr identity \<Rightarrow> if ci_instance_id identity = hi_id host then Recover_Identity else Fresh
      | Inl e \<Rightarrow> Fresh)"

definition validate_requested_mode :: "'d env \<Rightarrow> host_identity \<Rightarrow> pair_mode \<Rightarrow> 'd \<Rightarrow> unit res" where
  "validate_requested_mode E host requested d =
     ensureR (requested = inferred_mode E host d)
       (Message ''pairing mode does not match the selected durable xsoc identity'')"

text \<open>The tail of \<open>prepare_start\<close>: both secrets and the host are durable before any request.\<close>

definition create_generation ::
  "'d env \<Rightarrow> client_config \<Rightarrow> host_identity \<Rightarrow> 'd inputs \<Rightarrow> ('d, client_error, pairing_start) tx" where
  "create_generation E c host I =
     bindT (liftR (pairing_endpoint (env_url E) (env_proto E) c)) (\<lambda>pairing_ep.
     bindT (liftR (random_secret (in_bearer_entropy I))) (\<lambda>bearer.
     bindT (liftR (random_secret (in_polling_entropy I))) (\<lambda>polling.
     let creating = Creating Pairing_State_Version (in_uuid I) pairing_ep (endpoint c) host bearer polling in
     bindT (persist_state_unlocked E creating) (\<lambda>_.
     returnT (Start_Create creating)))))"

definition start_from ::
  "'d env \<Rightarrow> client_config \<Rightarrow> host_identity \<Rightarrow> 'd inputs \<Rightarrow> stored_pairing_state option \<Rightarrow>
     ('d, client_error, pairing_start) tx" where
  "start_from E c host I state =
     (case state of
        Some (Pending v g r au ex pi pe re bs ps) \<Rightarrow>
          let session = \<lparr>ps_generation = g, ps_request_id = r, ps_activation_url = au,
                         ps_expires_at = ex, ps_poll_interval = pi\<rparr> in
          if \<not> replace_pending_pairing c \<and> in_now I < ex
          then bindT (liftR (pairing_endpoints_match E c pe re)) (\<lambda>same.
               if same then returnT (Start_Waiting session)
               else failT (Message ''a browser pairing request for a different xsos server is still pending''))
          else if \<not> replace_pending_pairing c
          then bindT (liftR (pairing_endpoints_match E c pe re)) (\<lambda>same.
               if same then returnT (Start_Check_Expired session)
               else create_generation E c host I)
          else create_generation E c host I
      | Some (Creating v g pe re h bs ps) \<Rightarrow>
          if \<not> replace_pending_pairing c
          then bindT (liftR (pairing_endpoints_match E c pe re)) (\<lambda>same.
               if same then returnT (Start_Create (Creating v g pe re h bs ps))
               else failT (Message ''a browser pairing request for a different xsos server is being created''))
          else create_generation E c host I
      | Some (Activating v g r au ex pi i pe re bs) \<Rightarrow>
          let journal = Activating v g r au ex pi i pe re bs in
          bindT (liftR (session_from_activating journal)) (\<lambda>session.
          bindT (liftR (pairing_endpoints_match E c pe re)) (\<lambda>same.
          bindT (finish_activating_unlocked E c journal (in_commit_at I) (in_completed_at I)) (\<lambda>_.
          if same then returnT (Start_Waiting session) else create_generation E c host I)))
      | Some (Active v g r au i re t) \<Rightarrow>
          bindT (liftR (binding_from_active_state (Active v g r au i re t))) (\<lambda>expected.
          bindT (readT (load_current_active_binding E c expected)) (\<lambda>_.
          create_generation E c host I))
      | _ \<Rightarrow> create_generation E c host I)"

definition prepare_start ::
  "'d env \<Rightarrow> client_config \<Rightarrow> host_identity \<Rightarrow> 'd inputs \<Rightarrow> ('d, client_error, pairing_start) tx" where
  "prepare_start E c host I =
     bindT (elsewhere (in_before I)) (\<lambda>_.
     bindT (lock_state E) (\<lambda>_.
     bindT (readT (load_state E)) (\<lambda>state.
     start_from E c host I state)))"

section \<open>Posting the request\<close>

definition post :: "'d env \<Rightarrow> 'd inputs \<Rightarrow> string \<Rightarrow> string \<Rightarrow> (string \<times> string) list \<Rightarrow> string \<Rightarrow> http_response res" where
  "post E I what target headers body =
     with_context what (map_err Http_Transport (post_bounded (env_http E) (in_net I) target headers body))"

text \<open>The checks of the answer to a create request, up to the activation URL.\<close>

definition read_created ::
  "'d env \<Rightarrow> string \<Rightarrow> http_response \<Rightarrow> (create_response \<times> uuid \<times> string) res" where
  "read_created E pairing_ep response =
     (let content_type = pairing_response_content_type (env_http E) response in
     bindR (ensure_pairing_response (env_http E) (uuid_parse E) (hs_status response) content_type
       (hs_body response) [200, 201] Create_Op) (\<lambda>_.
     bindR (parse_pairing_json (env_url E) (parse_create_response E) (hs_body response) content_type
       pairing_ep ''pairing response'') (\<lambda>created.
     bindR (ok_or (Panic ''protocol rejected a non-canonical pairing request UUID'')
       (uuid_parse E (cr_request_id created))) (\<lambda>request_id.
     if unat (cr_expires_in created) = 0 \<or> 7 * 24 * 60 * 60 < unat (cr_expires_in created)
     then Inl (Message ''xsos returned an invalid pairing expiration'')
     else if unat (cr_poll_interval created) = 0 \<or> 300 < unat (cr_poll_interval created)
     then Inl (Message ''xsos returned an invalid pairing poll interval'')
     else
       bindR (resolve_activation_url (env_url E) pairing_ep (cr_activation_url created)) (\<lambda>activation_url.
       bindR (validate_activation_url_request E activation_url pairing_ep request_id) (\<lambda>_.
       Inr (created, request_id, activation_url)))))))"

definition expiry_of :: "'d env \<Rightarrow> time \<Rightarrow> 64 word \<Rightarrow> time res" where
  "expiry_of E now expires_in =
     (if 2 ^ 63 \<le> unat expires_in then Inl (Message ''pairing expiration overflow'')
      else ok_or (Message ''pairing expiration overflow'') (add_seconds E now expires_in))"

definition finish_create_request ::
  "'d env \<Rightarrow> client_config \<Rightarrow> stored_pairing_state \<Rightarrow> 'd inputs \<Rightarrow> ('d, client_error, pairing_session) tx" where
  "finish_create_request E c state I =
     (case state of
        Creating version generation pairing_ep report_ep host bearer polling \<Rightarrow>
          bindT (liftR (validate_state_version version)) (\<lambda>_.
          bindT (liftR (with_context ''stored pairing endpoint is unsafe''
            (validate_pairing_endpoint (env_url E) pairing_ep))) (\<lambda>_.
          bindT (liftR (with_context ''stored report endpoint is unsafe''
            (validate_durable_report_endpoint (env_url E) c report_ep))) (\<lambda>_.
          bindT (liftR (build_client (env_http E) c)) (\<lambda>client.
          bindT (elsewhere (in_before I)) (\<lambda>_.
          bindT (readT (\<lambda>d. Inr (inferred_mode E host d))) (\<lambda>mode.
          bindT (liftR (ok_or (Message ''serialization failed'') (encode_create_request E
            \<lparr>cq_protocol_version = host_pairing_protocol_version (env_proto E), cq_mode = mode,
             cq_host = host, cq_token_hash = sha256_hex E bearer,
             cq_polling_secret_hash = sha256_hex E polling\<rparr>))) (\<lambda>body.
          bindT (liftR (post E I ''failed to create a browser pairing request'' pairing_ep json_headers body))
            (\<lambda>response.
          bindT (liftR (read_created E pairing_ep response)) (\<lambda>(created, request_id, activation_url).
          bindT (liftR (expiry_of E (in_now I) (cr_expires_in created))) (\<lambda>expires_at.
          bindT (elsewhere (in_during I)) (\<lambda>_.
          bindT (compare_and_persist_creating E generation pairing_ep report_ep polling
            (Pending Pairing_State_Version generation request_id activation_url expires_at
               (cr_poll_interval created) pairing_ep report_ep bearer polling)) (\<lambda>_.
          returnT \<lparr>ps_generation = generation, ps_request_id = request_id,
                   ps_activation_url = activation_url, ps_expires_at = expires_at,
                   ps_poll_interval = cr_poll_interval created\<rparr>))))))))))))
      | _ \<Rightarrow> failT (Message ''internal error: expected a creating pairing state''))"

section \<open>Polling\<close>

definition mark_pending_expired ::
  "'d env \<Rightarrow> uuid \<Rightarrow> uuid \<Rightarrow> string \<Rightarrow> string \<Rightarrow> string \<Rightarrow> string \<Rightarrow> time \<Rightarrow> ('d, client_error, pairing_progress) tx" where
  "mark_pending_expired E g r au pe re ps now =
     bindT (compare_and_persist_pending E g r pe re ps (Expired Pairing_State_Version g r au re now)) (\<lambda>_.
     returnT (P_Expired g r au))"

text \<open>A failed check is returned, after an ended transaction has been recorded.\<close>

definition check_or_expire ::
  "'d env \<Rightarrow> unit res \<Rightarrow> uuid \<Rightarrow> uuid \<Rightarrow> string \<Rightarrow> string \<Rightarrow> string \<Rightarrow> string \<Rightarrow> 'd inputs \<Rightarrow> ('d, client_error, unit) tx" where
  "check_or_expire E checked g r au pe re ps I =
     (case checked of
        Inr _ \<Rightarrow> returnT ()
      | Inl e \<Rightarrow>
          if (case downcast_http e of None \<Rightarrow> False | Some h \<Rightarrow> transaction_ended_for h r)
          then bindT (elsewhere (in_during I)) (\<lambda>_.
               bindT (mark_pending_expired E g r au pe re ps (in_now I)) (\<lambda>_. failT e))
          else failT e)"

text \<open>The answer of the status endpoint, once the response has been read.\<close>

definition apply_status ::
  "'d env \<Rightarrow> client_config \<Rightarrow> stored_pairing_state \<Rightarrow> status_response \<Rightarrow> 'd inputs \<Rightarrow>
     ('d, client_error, pairing_progress) tx" where
  "apply_status E c pending polled I =
     (case pending of
        Pending v g r au ex pi pe re bs ps \<Rightarrow>
          (case sr_status polled of
             S_Waiting \<Rightarrow>
               if sr_instance_id polled \<noteq> None
               then failT (Message ''waiting pairing response unexpectedly included instance_id'')
               else returnT (P_Waiting \<lparr>ps_generation = g, ps_request_id = r, ps_activation_url = au,
                      ps_expires_at = ex, ps_poll_interval = pi\<rparr>)
           | S_Active \<Rightarrow>
               bindT (liftR (ok_or (Message ''active pairing response omitted instance_id'')
                 (sr_instance_id polled))) (\<lambda>instance_text.
               bindT (liftR (ok_or (Panic ''protocol rejected a non-canonical paired instance UUID'')
                 (uuid_parse E instance_text))) (\<lambda>instance_id.
               bindT (elsewhere (in_during I)) (\<lambda>_.
               persist_active_credentials E c pending instance_id (in_commit_at I) (in_completed_at I))))
           | S_Denied \<Rightarrow>
               if sr_instance_id polled \<noteq> None
               then failT (Message ''denied pairing response unexpectedly included instance_id'')
               else
                 bindT (elsewhere (in_during I)) (\<lambda>_.
                 bindT (compare_and_persist_pending E g r pe re ps
                   (Denied Pairing_State_Version g r au re (in_now I))) (\<lambda>_.
                 returnT (P_Denied g r au)))
           | S_Expired \<Rightarrow>
               if sr_instance_id polled \<noteq> None
               then failT (Message ''expired pairing response unexpectedly included instance_id'')
               else
                 bindT (elsewhere (in_during I)) (\<lambda>_.
                 bindT (compare_and_persist_pending E g r pe re ps
                   (Expired Pairing_State_Version g r au re (in_now I))) (\<lambda>_.
                 returnT (P_Expired g r au))))
      | _ \<Rightarrow> failT (Message ''internal error: expected a pending pairing state''))"

definition poll_pending ::
  "'d env \<Rightarrow> client_config \<Rightarrow> stored_pairing_state \<Rightarrow> 'd inputs \<Rightarrow> ('d, client_error, pairing_progress) tx" where
  "poll_pending E c state I =
     (case state of
        Pending version g r au ex pi pe re bs ps \<Rightarrow>
          bindT (liftR (validate_state_version version)) (\<lambda>_.
          bindT (liftR (with_context ''stored report endpoint is unsafe''
            (validate_durable_report_endpoint (env_url E) c re))) (\<lambda>_.
          bindT (liftR (pairing_status_endpoint E pe r)) (\<lambda>target.
          bindT (liftR (build_client (env_http E) c)) (\<lambda>client.
          bindT (liftR (pairing_authorization (env_http E) ps)) (\<lambda>authorization.
          bindT (liftR (post E I ''failed to poll browser pairing status'' (u_text target)
            (json_headers @ [(''authorization'', authorization)]) [])) (\<lambda>response.
          let content_type = pairing_response_content_type (env_http E) response in
          bindT (check_or_expire E (ensure_pairing_response (env_http E) (uuid_parse E)
            (hs_status response) content_type (hs_body response) [200] Poll_Op) g r au pe re ps I) (\<lambda>_.
          bindT (liftR (parse_pairing_json (env_url E) (parse_status_response E) (hs_body response)
            content_type (u_text target) ''pairing status response'')) (\<lambda>polled.
          apply_status E c state polled I))))))))
      | _ \<Rightarrow> returnT (progress_from_terminal state))"

definition load_state_for_network ::
  "'d env \<Rightarrow> 'd inputs \<Rightarrow> ('d, client_error, stored_pairing_state option) tx" where
  "load_state_for_network E I =
     bindT (elsewhere (in_before I)) (\<lambda>_.
     bindT (lock_state E) (\<lambda>_.
     readT (load_state E)))"

text \<open>\<open>J\<close> are the inputs of the nested operation, after the first locked section.\<close>

definition poll_existing ::
  "'d env \<Rightarrow> client_config \<Rightarrow> 'd inputs \<Rightarrow> 'd inputs \<Rightarrow> ('d, client_error, pairing_progress option) tx" where
  "poll_existing E c I J =
     bindT (load_state_for_network E I) (\<lambda>loaded.
     case loaded of
       None \<Rightarrow> returnT None
     | Some state \<Rightarrow>
         (case state of
            Creating v g pe re h bs ps \<Rightarrow>
              bindT (finish_create_request E c state J) (\<lambda>session.
              returnT (Some (P_Waiting session)))
          | Activating v g r au ex pi i pe re bs \<Rightarrow>
              bindT (elsewhere (in_before J)) (\<lambda>_.
              bindT (recover_activating E c state (in_commit_at J) (in_completed_at J)) (\<lambda>p.
              returnT (Some p)))
          | _ \<Rightarrow> bindT (poll_pending E c state J) (\<lambda>p. returnT (Some p))))"

section \<open>Starting or resuming\<close>

definition finish_start ::
  "'d env \<Rightarrow> client_config \<Rightarrow> pairing_start \<Rightarrow> 'd inputs \<Rightarrow> ('d, client_error, pairing_session) tx" where
  "finish_start E c s I =
     (case s of
        Start_Waiting current \<Rightarrow> returnT current
      | Start_Create state \<Rightarrow> finish_create_request E c state I
      | Start_Check_Expired _ \<Rightarrow> failT Superseded)"

text \<open>
  What the poll of a locally expired request means: \<open>Inr (Some s)\<close> is the session to return,
  \<open>Inr None\<close> that the request is over and a new one may be made.
\<close>

definition judge_expired ::
  "pairing_session \<Rightarrow> client_error + pairing_progress option \<Rightarrow> pairing_session option res" where
  "judge_expired session polled =
     (case polled of
        Inr (Some (P_Waiting current)) \<Rightarrow>
          if ps_generation current = ps_generation session \<and> ps_request_id current = ps_request_id session
          then Inr (Some current) else Inl Superseded
      | Inr (Some (P_Active g r i e)) \<Rightarrow>
          if g = ps_generation session \<and> r = ps_request_id session then Inr (Some session) else Inl Superseded
      | Inr (Some (P_Denied g r u)) \<Rightarrow>
          if g = ps_generation session \<and> r = ps_request_id session then Inr None else Inl Superseded
      | Inr (Some (P_Expired g r u)) \<Rightarrow>
          if g = ps_generation session \<and> r = ps_request_id session then Inr None else Inl Superseded
      | Inr _ \<Rightarrow> Inl Superseded
      | Inl e \<Rightarrow>
          if (case downcast_http e of None \<Rightarrow> False | Some h \<Rightarrow> transaction_ended_for h (ps_request_id session))
          then Inr None
          else Inl (Context ''could not establish whether the saved pairing request is active; preserving it'' e))"

definition attemptT :: "('d, 'e, 'a) tx \<Rightarrow> ('d, 'f, 'e + 'a) tx" where
  "attemptT m = (\<lambda>d. case m d of (r, d') \<Rightarrow> (Inr r, d'))"

text \<open>\<open>w\<close> are the inputs of the successive operations of the call.\<close>

definition start_or_resume_with_mode ::
  "'d env \<Rightarrow> client_config \<Rightarrow> host_identity \<Rightarrow> pair_mode \<Rightarrow> (nat \<Rightarrow> 'd inputs) \<Rightarrow>
     ('d, client_error, pairing_session) tx" where
  "start_or_resume_with_mode E c host mode w =
     bindT (readT (validate_requested_mode E host mode)) (\<lambda>_.
     bindT (prepare_start E c host (w 0)) (\<lambda>start.
     case start of
       Start_Check_Expired session \<Rightarrow>
         bindT (attemptT (poll_existing E c (w 1) (w 2))) (\<lambda>polled.
         bindT (liftR (judge_expired session polled)) (\<lambda>decided.
         case decided of
           Some current \<Rightarrow> returnT current
         | None \<Rightarrow>
             bindT (prepare_start E c host (w 3)) (\<lambda>again.
             finish_start E c again (w 4))))
     | _ \<Rightarrow> finish_start E c start (w 1)))"

definition start_or_resume ::
  "'d env \<Rightarrow> client_config \<Rightarrow> host_identity \<Rightarrow> (nat \<Rightarrow> 'd inputs) \<Rightarrow> ('d, client_error, pairing_session) tx" where
  "start_or_resume E c host w = start_or_resume_with_mode E c host Fresh w"

section \<open>Activation by code\<close>

definition same_transaction :: "uuid \<Rightarrow> uuid \<Rightarrow> stored_pairing_state \<Rightarrow> uuid option" where
  "same_transaction g r s =
     (case s of
        Activating v g' r' au ex pi i pe re bs \<Rightarrow> if g' = g \<and> r' = r then Some i else None
      | Active v g' r' au i re t \<Rightarrow> if g' = g \<and> r' = r then Some i else None
      | _ \<Rightarrow> None)"

text \<open>\<open>activation_target\<close>: the instance already activated, or what the submission needs.\<close>

definition activation_target ::
  "'d env \<Rightarrow> uuid \<Rightarrow> uuid \<Rightarrow> 'd \<Rightarrow> (uuid + string \<times> string \<times> string \<times> string) res" where
  "activation_target E generation request_id d =
     bindR (load_state E d) (\<lambda>loaded.
     bindR (ok_or (Message ''the pending pairing request disappeared before activation'') loaded) (\<lambda>state.
     case state of
       Pending v g r au ex pi pe re bs ps \<Rightarrow>
         bindR (validate_state_version v) (\<lambda>_.
         if g \<noteq> generation \<or> r \<noteq> request_id then Inl Superseded else Inr (Inr (au, pe, re, ps)))
     | _ \<Rightarrow>
         (case same_transaction generation request_id state of
            Some i \<Rightarrow> Inr (Inl i)
          | None \<Rightarrow> Inl (Message
              ''the pairing request is no longer pending; authorization key was not sent''))))"

definition submit_activation ::
  "'d env \<Rightarrow> client_config \<Rightarrow> uuid \<Rightarrow> uuid \<Rightarrow> string \<Rightarrow> string \<times> string \<times> string \<times> string \<Rightarrow> 'd inputs \<Rightarrow>
     ('d, client_error, uuid option) tx" where
  "submit_activation E c generation request_id code target I =
     (case target of (au, pe, re, ps) \<Rightarrow>
        bindT (liftR (with_context ''stored report endpoint is unsafe''
          (validate_durable_report_endpoint (env_url E) c re))) (\<lambda>_.
        bindT (liftR (validate_activation_url_request E au pe request_id)) (\<lambda>_.
        bindT (liftR (activation_endpoint (env_url E) pe)) (\<lambda>ep.
        bindT (liftR (build_client (env_http E) c)) (\<lambda>client.
        bindT (liftR (ok_or (Message ''serialization failed'')
          (encode_activate_request E (uuid_text E request_id) code))) (\<lambda>body.
        bindT (liftR (post E I ''failed to submit the one-time authorization key'' (u_text ep)
          (json_headers @ [(''cache-control'', ''no-store'')]) body)) (\<lambda>response.
        let content_type = pairing_response_content_type (env_http E) response in
        if hs_status response = 409 then returnT None
        else
          bindT (check_or_expire E (ensure_pairing_response (env_http E) (uuid_parse E)
            (hs_status response) content_type (hs_body response) [200] Activate_Op)
            generation request_id au pe re ps I) (\<lambda>_.
          bindT (liftR (parse_pairing_json (env_url E) (parse_activate_response E) (hs_body response)
            content_type (u_text ep) ''pairing activation response'')) (\<lambda>instance_text.
          bindT (liftR (ok_or (Panic ''protocol rejected a non-canonical activated instance UUID'')
            (uuid_parse E instance_text))) (\<lambda>i. returnT (Some i)))))))))))"

definition confirm_activation ::
  "'d env \<Rightarrow> uuid \<Rightarrow> uuid \<Rightarrow> string \<times> string \<times> string \<times> string \<Rightarrow> uuid option \<Rightarrow> 'd \<Rightarrow> uuid option res" where
  "confirm_activation E generation request_id target activated d =
     bindR (load_state E d) (\<lambda>loaded.
     bindR (ok_or (Message ''the pairing state disappeared after activation'') loaded) (\<lambda>current.
     case target of (au, pe, re, ps) \<Rightarrow>
       (case current of
          Pending v g r au' ex pi pe' re' bs ps' \<Rightarrow>
            bindR (ensure_pending_is_current E generation request_id pe re ps d) (\<lambda>_. Inr activated)
        | _ \<Rightarrow>
            (case same_transaction generation request_id current of
               Some i \<Rightarrow>
                 if activated \<noteq> None \<and> activated \<noteq> Some i
                 then Inl (Message ''activation instance does not match the concurrently committed pairing state'')
                 else Inr (Some i)
             | None \<Rightarrow> Inl Superseded))))"

definition activate_pending_with_code ::
  "'d env \<Rightarrow> client_config \<Rightarrow> uuid \<Rightarrow> uuid \<Rightarrow> string \<Rightarrow> 'd inputs \<Rightarrow> ('d, client_error, uuid option) tx" where
  "activate_pending_with_code E c generation request_id code I =
     bindT (liftR (validate_activation_code code)) (\<lambda>_.
     bindT (elsewhere (in_before I)) (\<lambda>_.
     bindT (lock_state E) (\<lambda>_.
     bindT (readT (activation_target E generation request_id)) (\<lambda>target.
     case target of
       Inl i \<Rightarrow> returnT (Some i)
     | Inr pending \<Rightarrow>
         bindT (submit_activation E c generation request_id code pending I) (\<lambda>activated.
         bindT (elsewhere (in_during I)) (\<lambda>_.
         bindT (lock_state E) (\<lambda>_.
         readT (confirm_activation E generation request_id pending activated))))))))"

end
