(* ===== verification/Flow_Safety.thy ===== *)
theory Flow_Safety
  imports Pairing_Flow
begin

text \<open>
  The asynchronous operations keep the account intact, whatever fails and whatever the other
  processes do between the locked sections, as long as these too keep it intact.
\<close>

section \<open>Interference\<close>

lemma triple_elsewhere:
  "(\<And>d. P d \<Longrightarrow> Q (f d)) \<Longrightarrow> triple F P (elsewhere f) (\<lambda>_. Q)"
  by (simp add: triple_def elsewhere_def)

lemma triple_ifI: "(b \<Longrightarrow> triple F P m Q) \<Longrightarrow> (\<not> b \<Longrightarrow> triple F P n Q) \<Longrightarrow> triple F P (if b then m else n) Q"
  by simp

lemma triple_attemptT: "triple P P m (\<lambda>_. P) \<Longrightarrow> triple F P (attemptT m) (\<lambda>_. P)"
  unfolding triple_def [of F] by (auto simp: attemptT_def split: prod.splits dest!: triple_any)

definition respectful :: "('d \<Rightarrow> bool) \<Rightarrow> 'd inputs \<Rightarrow> bool" where
  "respectful P I \<longleftrightarrow> (\<forall>d. P d \<longrightarrow> P (in_before I d)) \<and> (\<forall>d. P d \<longrightarrow> P (in_during I d))"

context pairing_env
begin

lemma intact_settled:
  "intact_disk d \<and> load_state E d = Inr x \<and> (case x of None \<Rightarrow> True | Some s \<Rightarrow> \<not> is_activating (Present s)) \<Longrightarrow>
     intact_disk d \<and> \<not> is_activating (ac_state (acct E files d))"
  by (cases x) (auto dest: load_state_Some load_state_None)

lemma persist_new_journal:
  assumes "\<not> is_active (Present s)"
  shows "triple intact_disk (\<lambda>d. intact_disk d \<and> \<not> is_activating (ac_state (acct E files d)))
      (persist_state_unlocked E s) (\<lambda>_. intact_disk)"
  by (rule triple_pre [OF triple_persist_state [where P = "\<lambda>a. intact E a \<and> \<not> is_activating (ac_state a)"
        and F = "intact E" and Q = "intact E"]])
    (use assms in \<open>auto intro: intact_new_journal\<close>)

lemma before_intact: "respectful intact_disk I \<Longrightarrow> triple F intact_disk (elsewhere (in_before I)) (\<lambda>_. intact_disk)"
  by (rule triple_elsewhere) (simp add: respectful_def)

lemma during_intact: "respectful intact_disk I \<Longrightarrow> triple F intact_disk (elsewhere (in_during I)) (\<lambda>_. intact_disk)"
  by (rule triple_elsewhere) (simp add: respectful_def)

lemma compare_creating_intact:
  assumes "\<not> is_active (Present s)"
  shows "triple intact_disk intact_disk (compare_and_persist_creating E g pe re ps s) (\<lambda>_. intact_disk)"
  unfolding compare_and_persist_creating_def
proof (rule triple_bindT [OF lock_intact], rule triple_invariant_readT, rule triple_if)
  fix x
  show "triple intact_disk (\<lambda>d. (intact_disk d \<and> load_state E d = Inr x) \<and> creating_matches g pe re ps x)
      (persist_state_unlocked E s) (\<lambda>_. intact_disk)"
  proof (rule triple_pre [OF persist_new_journal [OF assms]])
    fix d
    assume "(intact_disk d \<and> load_state E d = Inr x) \<and> creating_matches g pe re ps x"
    moreover from this have "case x of None \<Rightarrow> True | Some s \<Rightarrow> \<not> is_activating (Present s)"
      by (auto elim!: creating_matches.elims)
    ultimately show "intact_disk d \<and> \<not> is_activating (ac_state (acct E files d))"
      using intact_settled by blast
  qed
qed (auto intro: triple_failT)

lemma ensure_pending_settled:
  assumes "ensure_pending_is_current E g r pe re ps d = Inr u"
  shows "\<not> is_activating (ac_state (acct E files d))"
  using assms
  by (auto simp: ensure_pending_is_current_def bindR_Inr_iff elim!: pending_matches.elims
      dest!: load_state_Some split: if_splits)

lemma compare_pending_intact:
  assumes "\<not> is_active (Present s)"
  shows "triple intact_disk intact_disk (compare_and_persist_pending E g r pe re ps s) (\<lambda>_. intact_disk)"
  unfolding compare_and_persist_pending_def
  by (rule triple_bindT [OF lock_intact], rule triple_invariant_readT)
    (rule triple_pre [OF persist_new_journal [OF assms]], auto dest: ensure_pending_settled)

lemma mark_expired_intact:
  "triple intact_disk intact_disk (mark_pending_expired E g r au pe re ps t) (\<lambda>_. intact_disk)"
  unfolding mark_pending_expired_def
  by (rule triple_bindT [OF compare_pending_intact]) (auto intro: triple_returnT)

lemma check_or_expire_intact:
  assumes "respectful intact_disk I"
  shows "triple intact_disk intact_disk (check_or_expire E chk g r au pe re ps I) (\<lambda>_. intact_disk)"
proof (cases chk)
  case (Inl e)
  show ?thesis
    unfolding check_or_expire_def Inl sum.case
    by (cases "case downcast_http e of None \<Rightarrow> False | Some h \<Rightarrow> transaction_ended_for h r")
      (auto simp only: if_True if_False
        intro!: triple_bindT [OF during_intact [OF assms]] triple_bindT [OF mark_expired_intact] triple_failT)
qed (auto simp: check_or_expire_def intro: triple_returnT)

lemma create_generation_intact:
  "triple intact_disk (\<lambda>d. intact_disk d \<and> \<not> is_activating (ac_state (acct E files d)))
     (create_generation E c host I) (\<lambda>_. intact_disk)"
  unfolding create_generation_def Let_def
  by (intro triple_liftR triple_bindT [OF persist_new_journal] triple_returnT) auto

text \<open>A finished commit leaves an account that is no longer in the middle of one.\<close>

lemma finish_ok_activating:
  assumes "finish_activating_unlocked E c j t1 t2 d = (Inr p, d')"
  shows "is_activating (ac_state (acct E files d))"
proof -
  from assms obtain d1 where "replace_credential E c j t1 t2 d = (Inr (), d1)"
    by (auto simp: finish_activating_unlocked_def elim!: bindT_okE)
  then obtain cur k where "load_state E d = Inr (Some cur)" and "activating_key cur = Some k"
    by (auto simp: replace_credential_def failT_def bindT_readT split: option.splits sum.splits if_splits)
  then show ?thesis
    by (auto dest!: load_state_Some activating_key_doc)
qed

lemma finish_settled:
  "triple intact_disk intact_disk (finish_activating_unlocked E c j t1 t2)
     (\<lambda>_ d. intact_disk d \<and> \<not> is_activating (ac_state (acct E files d)))"
proof (rule tripleI)
  fix d e d'
  assume "intact_disk d" and "finish_activating_unlocked E c j t1 t2 d = (Inl e, d')"
  then show "intact_disk d'" by (rule triple_err [OF finish_intact])
next
  fix d p d'
  assume "intact_disk d" and r: "finish_activating_unlocked E c j t1 t2 d = (Inr p, d')"
  from finish_ok_activating [OF r] obtain cur where s: "ac_state (acct E files d) = Present cur"
    and "is_activating (Present cur)"
    by (cases "ac_state (acct E files d)") auto
  then obtain v g r' au ex pi i pe re bs where cur: "cur = Activating v g r' au ex pi i pe re bs"
    by (auto elim: is_activating_obtain)
  from triple_ok [OF finish_triple [OF cur] s r] have c: "committed_for E cur (acct E files d')"
    by simp
  then obtain t where "ac_state (acct E files d') = Present (Active Pairing_State_Version g r' au i re t)"
    unfolding cur by (auto dest: committed_state)
  with c show "intact_disk d' \<and> \<not> is_activating (ac_state (acct E files d'))"
    by (auto intro: committed_intact)
qed

lemma start_from_intact:
  "triple intact_disk (\<lambda>d. intact_disk d \<and> load_state E d = Inr x) (start_from E c host I x) (\<lambda>_. intact_disk)"
proof (cases "case x of None \<Rightarrow> False | Some s \<Rightarrow> is_activating (Present s)")
  case True
  then obtain v g r au ex pi i pe re bs where x: "x = Some (Activating v g r au ex pi i pe re bs)"
    by (auto elim: is_activating_obtain split: option.splits)
  show ?thesis
    unfolding start_from_def x option.case stored_pairing_state.case Let_def
    by (rule triple_pre [where P' = intact_disk])
      (auto intro!: triple_liftR triple_bindT [OF finish_settled] triple_if triple_returnT
        intro: triple_pre [OF create_generation_intact])
next
  case False
  let ?P = "\<lambda>d. intact_disk d \<and> \<not> is_activating (ac_state (acct E files d))"
  have "triple intact_disk ?P (start_from E c host I x) (\<lambda>_. intact_disk)"
  proof (cases x)
    case None
    then show ?thesis by (simp add: start_from_def create_generation_intact)
  next
    case (Some s)
    with False show ?thesis
      by (cases s)
        (auto simp: start_from_def Let_def
          intro!: triple_liftR triple_readT triple_if triple_returnT triple_failT create_generation_intact
          intro: triple_pre [OF create_generation_intact])
  qed
  then show ?thesis
  proof (rule triple_pre)
    fix d
    assume "intact_disk d \<and> load_state E d = Inr x"
    moreover from False have "case x of None \<Rightarrow> True | Some s \<Rightarrow> \<not> is_activating (Present s)"
      by (cases x) simp_all
    ultimately show "?P d" using intact_settled by blast
  qed
qed

lemma prepare_start_intact:
  "respectful intact_disk I \<Longrightarrow> triple intact_disk intact_disk (prepare_start E c host I) (\<lambda>_. intact_disk)"
  unfolding prepare_start_def
  by (intro triple_bindT [OF before_intact] triple_bindT [OF lock_intact] triple_invariant_readT
      start_from_intact)

lemma finish_create_intact:
  assumes "respectful intact_disk I"
  shows "triple intact_disk intact_disk (finish_create_request E c s I) (\<lambda>_. intact_disk)"
proof (cases s)
  case (Creating v g pe re h bs ps)
  show ?thesis
    unfolding finish_create_request_def Creating stored_pairing_state.case
    apply (intro triple_liftR triple_bindT [OF before_intact [OF assms]])
       apply simp_all
    apply (rule triple_readT, simp)
    apply (rule triple_pre [where P' = intact_disk])
     apply (intro triple_liftR)
       apply simp_all
    apply (split prod.split, intro allI impI)
    apply (split prod.split, intro allI impI)
    apply (intro triple_liftR triple_bindT [OF during_intact [OF assms]]
        triple_bindT [OF compare_creating_intact] triple_returnT)
      apply simp_all
    done
qed (auto simp: finish_create_request_def intro!: triple_failT)

lemma compare_pending_then:
  "\<not> is_active (Present s) \<Longrightarrow>
   triple intact_disk intact_disk
     (bindT (compare_and_persist_pending E g r pe re ps s) (\<lambda>_. returnT x)) (\<lambda>_. intact_disk)"
  by (intro triple_bindT [OF compare_pending_intact] triple_returnT)

lemma apply_status_intact:
  assumes "respectful intact_disk I"
  shows "triple intact_disk intact_disk (apply_status E c s polled I) (\<lambda>_. intact_disk)"
proof (cases s)
  case (Pending v g r au ex pi pe re bs ps)
  show ?thesis
    unfolding apply_status_def Pending stored_pairing_state.case
    by (cases "sr_status polled")
      (auto simp only: pairing_status.case is_active.simps assms
        intro!: triple_ifI triple_liftR triple_failT triple_returnT compare_pending_then
          triple_bindT [OF during_intact [OF assms]] persist_active_intact)
qed (auto simp: apply_status_def intro!: triple_failT)

lemma poll_pending_intact:
  assumes "respectful intact_disk I"
  shows "triple intact_disk intact_disk (poll_pending E c s I) (\<lambda>_. intact_disk)"
proof (cases s)
  case (Pending v g r au ex pi pe re bs ps)
  show ?thesis
    unfolding poll_pending_def Pending stored_pairing_state.case Let_def
    by (intro triple_liftR triple_bindT [OF check_or_expire_intact [OF assms]] apply_status_intact [OF assms])
qed (auto simp: poll_pending_def intro!: triple_returnT)

lemma poll_existing_intact:
  assumes "respectful intact_disk I" and "respectful intact_disk J"
  shows "triple intact_disk intact_disk (poll_existing E c I J) (\<lambda>_. intact_disk)"
proof -
  have load: "triple intact_disk intact_disk (load_state_for_network E I) (\<lambda>_. intact_disk)"
    unfolding load_state_for_network_def
    by (intro triple_bindT [OF before_intact [OF assms(1)]] triple_bindT [OF lock_intact])
      (simp add: triple_def readT_def)
  have pending: "triple intact_disk intact_disk (bindT (poll_pending E c s J) (\<lambda>p. returnT (Some p))) (\<lambda>_. intact_disk)" for s
    by (rule triple_bindT [OF poll_pending_intact [OF assms(2)]]) (auto intro: triple_returnT)
  have state: "triple intact_disk intact_disk (case s of
      Creating v g pe re h bs ps \<Rightarrow>
        bindT (finish_create_request E c s J) (\<lambda>session. returnT (Some (P_Waiting session)))
    | Activating v g r au ex pi i pe re bs \<Rightarrow>
        bindT (elsewhere (in_before J)) (\<lambda>_.
        bindT (recover_activating E c s (in_commit_at J) (in_completed_at J)) (\<lambda>p. returnT (Some p)))
    | _ \<Rightarrow> bindT (poll_pending E c s J) (\<lambda>p. returnT (Some p))) (\<lambda>_. intact_disk)" for s
    by (cases s)
      (simp_all only: stored_pairing_state.case pending triple_bindT [OF finish_create_intact [OF assms(2)]]
        triple_bindT [OF before_intact [OF assms(2)]] triple_bindT [OF recover_intact] triple_returnT)
  show ?thesis
    unfolding poll_existing_def
    by (rule triple_bindT [OF load]) (auto intro: triple_returnT state split: option.split)
qed

lemma finish_start_intact:
  "respectful intact_disk I \<Longrightarrow> triple intact_disk intact_disk (finish_start E c s I) (\<lambda>_. intact_disk)"
  by (cases s) (auto simp: finish_start_def intro: triple_returnT triple_failT finish_create_intact)

lemma start_or_resume_intact:
  assumes "\<And>n. respectful intact_disk (w n)"
  shows "triple intact_disk intact_disk (start_or_resume_with_mode E c host mode w) (\<lambda>_. intact_disk)"
proof -
  have again: "triple intact_disk intact_disk (bindT (prepare_start E c host (w 3)) (\<lambda>a. finish_start E c a (w 4)))
      (\<lambda>_. intact_disk)"
    by (intro triple_bindT [OF prepare_start_intact [OF assms]] finish_start_intact [OF assms])
  have decide: "triple intact_disk intact_disk (case x of Some current \<Rightarrow> returnT current
      | None \<Rightarrow> bindT (prepare_start E c host (w 3)) (\<lambda>a. finish_start E c a (w 4))) (\<lambda>_. intact_disk)" for x
    by (cases x) (auto intro: triple_returnT again)
  have start: "triple intact_disk intact_disk (case s of
       Start_Check_Expired session \<Rightarrow>
         bindT (attemptT (poll_existing E c (w 1) (w 2))) (\<lambda>polled.
         bindT (liftR (judge_expired session polled)) (\<lambda>decided.
         case decided of
           Some current \<Rightarrow> returnT current
         | None \<Rightarrow> bindT (prepare_start E c host (w 3)) (\<lambda>again. finish_start E c again (w 4))))
     | _ \<Rightarrow> finish_start E c s (w 1)) (\<lambda>_. intact_disk)" for s
  proof (cases s)
    case (Start_Check_Expired session)
    show ?thesis
      unfolding Start_Check_Expired pairing_start.case
      by (intro triple_bindT [OF triple_attemptT [OF poll_existing_intact [OF assms assms]]] triple_liftR decide)
  qed (simp_all add: finish_start_intact [OF assms])
  show ?thesis
    unfolding start_or_resume_with_mode_def
    by (rule triple_readT, assumption, rule triple_pre [where P' = intact_disk])
      (auto intro: triple_bindT [OF prepare_start_intact [OF assms] start])
qed

lemma submit_activation_intact:
  assumes "respectful intact_disk I"
  shows "triple intact_disk intact_disk (submit_activation E c g r code target I) (\<lambda>_. intact_disk)"
  unfolding submit_activation_def Let_def
  by (cases target)
    (auto simp only: prod.case intro!: triple_liftR triple_ifI triple_returnT
      triple_bindT [OF check_or_expire_intact [OF assms]])

lemma activate_intact:
  assumes "respectful intact_disk I"
  shows "triple intact_disk intact_disk (activate_pending_with_code E c g r code I) (\<lambda>_. intact_disk)"
proof -
  have submit: "triple intact_disk intact_disk
      (bindT (submit_activation E c g r code p I) (\<lambda>activated.
       bindT (elsewhere (in_during I)) (\<lambda>_.
       bindT (lock_state E) (\<lambda>_. readT (confirm_activation E g r p activated))))) (\<lambda>_. intact_disk)" for p
    by (intro triple_bindT [OF submit_activation_intact [OF assms]] triple_bindT [OF during_intact [OF assms]]
        triple_bindT [OF lock_intact]) (simp add: triple_def readT_def)
  have target: "triple intact_disk intact_disk (case x of Inl i \<Rightarrow> returnT (Some i)
     | Inr pending \<Rightarrow>
         bindT (submit_activation E c g r code pending I) (\<lambda>activated.
         bindT (elsewhere (in_during I)) (\<lambda>_.
         bindT (lock_state E) (\<lambda>_. readT (confirm_activation E g r pending activated))))) (\<lambda>_. intact_disk)" for x
    by (cases x) (auto intro: triple_returnT submit)
  show ?thesis
    unfolding activate_pending_with_code_def
    by (intro triple_liftR triple_bindT [OF before_intact [OF assms]] triple_bindT [OF lock_intact]
        triple_readT triple_pre [OF target]) auto
qed

end

end
