(* ===== verification/Account_Steps.thy ===== *)
theory Account_Steps
  imports Flow_Safety
begin

text \<open>
  Several processes on one state directory. A step is one locked section of one of the
  operations, stopped wherever a call fails; the reachable directories are those that any
  interleaving of such steps produces. The invariant \<open>intact\<close> holds in all of them.
\<close>

section \<open>The remaining locked sections\<close>

context pairing_env
begin

lemma finish_then_read_intact:
  "triple intact_disk intact_disk (bindT (finish_activating_unlocked E c j t1 t2) (\<lambda>_. readT f)) (\<lambda>_. intact_disk)"
  by (rule triple_bindT [OF finish_intact]) (simp add: triple_def readT_def)

lemma readT_intact: "triple intact_disk intact_disk (readT f) (\<lambda>_. intact_disk)"
  by (simp add: triple_def readT_def)

lemma run_intact:
  "triple intact_disk intact_disk (existing_reporter_for_run E c t1 t2) (\<lambda>_. intact_disk)"
  unfolding existing_reporter_for_run_def
  apply (rule triple_bindT [OF lock_intact])
  apply (rule triple_invariant_readT)
  apply (rule triple_pre [where P' = intact_disk])
   apply (rule triple_ifI)
    apply (rule finish_then_read_intact)
   apply (rule triple_invariant_readT)
   apply (rule triple_pre [where P' = intact_disk])
    apply (rule triple_ifI)
     apply (rule triple_returnT, assumption)
    apply (split option.split, intro conjI impI allI)
     apply (rule triple_returnT, assumption)
    apply (rule triple_ifI)
     apply (rule triple_returnT, assumption)
    apply (rule triple_invariant_readT)
    apply (rule triple_pre [where P' = intact_disk])
     apply (split option.split, intro conjI impI allI)
      apply (rule triple_failT, assumption)
     apply (rule readT_intact)
    apply simp_all
  done

lemma mark_reauth_intact:
  "triple intact_disk intact_disk (mark_reauth_required_if_current E c k reason now) (\<lambda>_. intact_disk)"
  unfolding mark_reauth_required_if_current_def
  by (intro triple_bindT [OF lock_intact] triple_bindT [OF invalidate_intact] triple_returnT)

end

section \<open>Archiving an account\<close>

lemma archive_entry_other: "archive_entry i f \<noteq> file_name g"
  by (cases f; cases g) (simp_all add: archive_entry_def)

definition drop_file :: "state_file \<Rightarrow> account \<Rightarrow> account" where
  "drop_file f a =
     (case f of
        Pairing \<Rightarrow> a\<lparr>ac_state := Absent\<rparr>
      | Authorization \<Rightarrow> a\<lparr>ac_auth := Absent\<rparr>
      | Binding \<Rightarrow> a\<lparr>ac_binding := Absent\<rparr>
      | Credential \<Rightarrow> a\<lparr>ac_token := None\<rparr>
      | Identity \<Rightarrow> a\<lparr>ac_identity := None\<rparr>)"

lemma account_of_drop: "account_of E (v(f := None)) = drop_file f (account_of E v)"
  by (cases f) (simp_all add: account_of_def drop_file_def doc_of_def)

context pairing_env
begin

lemma archive_slot:
  "slot files (snd (archive_file (env_fs E) f (archive_entry i f) d))
     \<in> {slot files d, (slot files d)(f := None)}"
proof -
  let ?s = "slot files (snd (archive_file (env_fs E) f (archive_entry i f) d))"
  have other: "?s g = slot files d g" if "g \<noteq> f" for g
    by (rule archive_frame [OF archive_entry_other [symmetric] that])
  have "?s f = slot files d f \<or> ?s f = None"
  proof (cases "slot files d f")
    case None
    then have "\<exists>e. read_file (env_fs E) f d = Inl e"
      using store.sread_ok [of f d] by (cases "read_file (env_fs E) f d") auto
    then show ?thesis using None by (auto simp: archive_file_def split: if_splits)
  next
    case (Some b)
    show ?thesis
    proof (cases "read_file (env_fs E) f d")
      case (Inl e)
      then show ?thesis by (simp add: archive_file_def)
    next
      case (Inr c)
      obtain r d1 where cr: "fs_create (env_fs E) (archive_entry i f) c d = (r, d1)" by fastforce
      have k: "files d1 (file_name f) = Some b"
        using create_frame [OF archive_entry_other [symmetric], of i f c d] cr Some by (simp add: slot_def)
      obtain r2 d2 where rm: "fs_remove (env_fs E) (file_name f) d1 = (r2, d2)" by fastforce
      have "files d2 (file_name f) = Some b \<or> files d2 (file_name f) = None"
        using remove_atomic [of "file_name f" d1] k rm by auto
      with archive_file_cases [OF Inr, of "archive_entry i f"] cr rm k Some show ?thesis
        by (cases r; cases r2) (auto simp: bindT_def map_errT_def returnT_def slot_def)
    qed
  qed
  then show ?thesis
  proof
    assume "?s f = slot files d f"
    then have "?s = slot files d" using other by (metis ext)
    then show ?thesis by simp
  next
    assume "?s f = None"
    then have "?s = (slot files d)(f := None)" using other by (auto simp: fun_eq_iff)
    then show ?thesis by simp
  qed
qed

lemma archive_slot_ok:
  assumes ok: "archive_file (env_fs E) f (archive_entry i f) d = (Inr p, d')"
  shows "slot files d' = (slot files d)(f := None)"
proof -
  have "slot files d' f = None"
  proof (cases p)
    case (Some x)
    then show ?thesis
      using archive_done [OF archive_entry_other] ok by blast
  next
    case None
    then obtain e where "read_file (env_fs E) f d = Inl e" and "io_kind e = NotFound" and "d' = d"
      using ok by (auto simp: archive_file_def bindT_def liftR_def map_errT_def returnT_def
          split: sum.splits if_splits prod.splits)
    then show ?thesis by (simp add: store.sread_missing)
  qed
  moreover have "slot files d' g = slot files d g" if "g \<noteq> f" for g
    using archive_frame [of g "archive_entry i f" f d] archive_entry_other [of i f g] that ok by simp
  ultimately show ?thesis by (auto simp: fun_eq_iff)
qed

lemma triple_archive:
  assumes "\<And>a. P a \<Longrightarrow> F a \<and> F (drop_file f a) \<and> Q (drop_file f a)"
  shows "triple (\<lambda>d. F (acct E files d)) (\<lambda>d. P (acct E files d))
      (map_errT h (archive_file (env_fs E) f (archive_entry i f))) (\<lambda>_ d. Q (acct E files d))"
proof (rule triple_map_errT, rule triple_account [where upd = "drop_file f"])
  show "acct E files (snd (archive_file (env_fs E) f (archive_entry i f) d))
      \<in> {acct E files d, drop_file f (acct E files d)}" for d
    using archive_slot [of f i d] by (auto simp: acct_def account_of_drop)
  show "archive_file (env_fs E) f (archive_entry i f) d = (Inr x, d') \<Longrightarrow>
      acct E files d' = drop_file f (acct E files d)" for d x d'
    by (drule archive_slot_ok) (simp add: acct_def account_of_drop)
qed (use assms in blast)

lemma archive_files_cons:
  assumes "triple F P (map_errT (\<lambda>e. Context ''failed to archive incompatible'' (Io e))
      (archive_file (env_fs E) f (archive_entry i f))) (\<lambda>_. Q)"
    and "triple F Q (archive_files E i fs) (\<lambda>_. R)"
  shows "triple F P (archive_files E i (f # fs)) (\<lambda>_. R)"
  unfolding archive_files.simps
  by (rule triple_bindT [OF assms(1)], rule triple_bindT [OF assms(2)]) (rule triple_returnT)

text \<open>
  A complete archive leaves nothing but the identity. It keeps the account intact at every
  point, provided no commit is in progress.
\<close>

lemma archive_account_triple:
  assumes "\<And>a. ac_state a = Absent \<and> ac_auth a = Absent \<Longrightarrow> F a"
    and "\<And>a. P a \<Longrightarrow> F a \<and> F (a\<lparr>ac_state := Absent\<rparr>)"
  shows "triple (\<lambda>d. F (acct E files d)) (\<lambda>d. P (acct E files d) \<and> ac_identity (acct E files d) = i)
     (archive_incompatible_account_state E n)
     (\<lambda>_ d. acct E files d = empty_account\<lparr>ac_identity := i\<rparr>)"
proof -
  let ?P = "\<lambda>a. P a \<and> ac_identity a = i"
  let ?S = "\<lambda>a. F a \<and> ac_state a = Absent \<and> ac_identity a = i"
  let ?A = "\<lambda>a. ac_state a = Absent \<and> ac_auth a = Absent \<and> ac_identity a = i"
  let ?B = "\<lambda>a. ?A a \<and> ac_binding a = Absent"
  let ?C = "\<lambda>a. ?B a \<and> ac_token a = None"
  have lock: "triple (\<lambda>d. F (acct E files d)) (\<lambda>d. ?P (acct E files d)) (lock_state E) (\<lambda>_ d. ?P (acct E files d))"
    by (rule triple_lock) (use assms(2) in blast)
  have "triple (\<lambda>d. F (acct E files d)) (\<lambda>d. ?P (acct E files d))
      (archive_files E n [Pairing, Authorization, Binding, Credential]) (\<lambda>_ d. ?C (acct E files d))"
    apply (rule archive_files_cons [OF triple_archive [where P = ?P and F = F and Q = ?S]])
     apply (use assms(2) in \<open>auto simp: drop_file_def\<close>)[1]
    apply (rule archive_files_cons [OF triple_archive [where P = ?S and F = F and Q = ?A]])
     apply (use assms(1) in \<open>auto simp: drop_file_def\<close>)[1]
    apply (rule archive_files_cons [OF triple_archive [where P = ?A and F = F and Q = ?B]])
     apply (use assms(1) in \<open>auto simp: drop_file_def\<close>)[1]
    apply (rule archive_files_cons [OF triple_archive [where P = ?B and F = F and Q = ?C]])
     apply (use assms(1) in \<open>auto simp: drop_file_def\<close>)[1]
    apply (simp add: triple_returnT)
    done
  then have "triple (\<lambda>d. F (acct E files d)) (\<lambda>d. ?P (acct E files d))
      (archive_files E n [Pairing, Authorization, Binding, Credential])
      (\<lambda>_ d. acct E files d = empty_account\<lparr>ac_identity := i\<rparr>)"
    by (rule triple_post) (simp add: empty_account_def)
  with lock show ?thesis
    unfolding archive_incompatible_account_state_def account_files_def by (rule triple_bindT)
qed

lemma archive_intact:
  "triple intact_disk (\<lambda>d. intact_disk d \<and> \<not> is_activating (ac_state (acct E files d)))
     (archive_incompatible_account_state E n) (\<lambda>_. intact_disk)"
proof (rule tripleI)
  let ?P = "\<lambda>a. intact E a \<and> \<not> is_activating (ac_state a)"
  have t: "triple intact_disk (\<lambda>d. ?P (acct E files d) \<and> ac_identity (acct E files d) = i)
      (archive_incompatible_account_state E n)
      (\<lambda>_ d. acct E files d = empty_account\<lparr>ac_identity := i\<rparr>)" for i
    by (rule archive_account_triple)
      (auto intro: intact_drop_state intact_unauthorized_inactive simp: authorized_doc_def)
  fix d
  assume d: "intact_disk d \<and> \<not> is_activating (ac_state (acct E files d))"
  show "archive_incompatible_account_state E n d = (Inl e, d') \<Longrightarrow> intact_disk d'" for e d'
    using triple_err [OF t] d by blast
  show "archive_incompatible_account_state E n d = (Inr x, d') \<Longrightarrow> intact_disk d'" for x d'
    using triple_ok [OF t, of d "ac_identity (acct E files d)" x d'] d
    by (auto simp: empty_account_def authorized_doc_def intro!: intact_unauthorized_inactive)
qed

end

section \<open>Steps and reachable directories\<close>

text \<open>
  \<open>snd (m d)\<close> is the directory at the point where \<open>m\<close> ends or fails; a process that is killed
  between two calls stops as if the next one had failed without effect.
\<close>

inductive account_step :: "'d env \<Rightarrow> 'd \<Rightarrow> 'd \<Rightarrow> bool" for E :: "'d env" where
  step_start: "account_step E d (snd (bindT (lock_state E) (\<lambda>_. bindT (readT (load_state E)) (start_from E c host I)) d))"
| step_created: "\<not> is_active (Present s) \<Longrightarrow>
    account_step E d (snd (compare_and_persist_creating E g pe re ps s d))"
| step_ended: "\<not> is_active (Present s) \<Longrightarrow>
    account_step E d (snd (compare_and_persist_pending E g r pe re ps s d))"
| step_commit: "account_step E d (snd (persist_active_credentials E c pending i t1 t2 d))"
| step_recover: "account_step E d (snd (recover_activating E c journal t1 t2 d))"
| step_run: "account_step E d (snd (existing_reporter_for_run E c t1 t2 d))"
| step_reauth: "account_step E d (snd (mark_reauth_required_if_current E c revision reason now d))"
| step_archive: "\<exists>s. load_state E d = Inr s \<and> (case s of None \<Rightarrow> True | Some s \<Rightarrow> \<not> is_activating (Present s)) \<Longrightarrow>
    account_step E d (snd (archive_incompatible_account_state E n d))"
| step_read: "account_step E d (snd (bindT (lock_state E) (\<lambda>_. readT (f :: 'd \<Rightarrow> unit res)) d))"

inductive_cases account_stepE: "account_step E d d'"

inductive reachable :: "'d env \<Rightarrow> 'd \<Rightarrow> 'd \<Rightarrow> bool" for E :: "'d env" and d0 where
  reach_start: "reachable E d0 d0"
| reach_step: "reachable E d0 d \<Longrightarrow> account_step E d d' \<Longrightarrow> reachable E d0 d'"

context pairing_env
begin

lemma step_intact: "account_step E d d' \<Longrightarrow> intact_disk d \<Longrightarrow> intact_disk d'"
proof (induction rule: account_step.induct)
  case (step_start d c host I)
  have "triple intact_disk intact_disk (bindT (lock_state E) (\<lambda>_. bindT (readT (load_state E)) (start_from E c host I)))
      (\<lambda>_. intact_disk)"
    by (intro triple_bindT [OF lock_intact] triple_invariant_readT start_from_intact)
  then show ?case using step_start by (rule triple_any)
next
  case (step_archive d n)
  then show ?case
    using triple_any [OF archive_intact] intact_settled [of d] by blast
next
  case (step_read d f)
  have "triple intact_disk intact_disk (bindT (lock_state E) (\<lambda>_. readT f)) (\<lambda>_. intact_disk)"
    by (intro triple_bindT [OF lock_intact] readT_intact)
  then show ?case using step_read by (rule triple_any)
qed (rule triple_any [OF compare_creating_intact] triple_any [OF compare_pending_intact]
      triple_any [OF persist_active_intact] triple_any [OF recover_intact]
      triple_any [OF run_intact] triple_any [OF mark_reauth_intact]; assumption)+

lemma reachable_intact: "reachable E d0 d \<Longrightarrow> intact_disk d0 \<Longrightarrow> intact_disk d"
  by (induction rule: reachable.induct) (auto intro: step_intact)

end

end
