(* ===== verification/Recovery.thy ===== *)
theory Recovery
  imports Account_Steps
begin

text \<open>
  Completion: in a directory whose calls succeed, an interrupted commit is always brought to
  its end by \<open>recover_activating\<close>, from whatever the interruption left, and the account is
  then the committed one.
\<close>

section \<open>Calls that succeed\<close>

definition fits :: "state_file \<Rightarrow> string option \<Rightarrow> bool" where
  "fits f doc \<longleftrightarrow> (case doc of None \<Rightarrow> False | Some b \<Rightarrow> length b \<le> max_bytes f)"

text \<open>The journal can be committed: its binding and token are valid and its documents fit.\<close>

definition committable :: "'d env \<Rightarrow> client_config \<Rightarrow> time \<Rightarrow> time \<Rightarrow> stored_pairing_state \<Rightarrow> bool" where
  "committable E c t1 t2 j \<longleftrightarrow>
     (case j of
        Activating v g r au ex pi i pe re bs \<Rightarrow>
          let b = \<lparr>ab_version = Pairing_State_Version, ab_generation = g, ab_request_id = r,
                   ab_instance_id = i, ab_report_endpoint = re\<rparr> in
          validate_active_binding E c b = Inr () \<and> token_ok bs \<and> fits Binding (encode_binding E b) \<and>
          fits Authorization (encode_auth E \<lparr>la_version = Pairing_State_Version, la_status = Authorized,
               la_reason = ''browser pairing completed'', la_changed_at = t1\<rparr>) \<and>
          fits Pairing (encode_state E (Active Pairing_State_Version g r au i re t2))
      | _ \<Rightarrow> False)"

context pairing_env
begin

lemma recover_triple:
  assumes cur: "cur = Activating v g r au ex pi i pe re bs"
  shows "triple (\<lambda>d. journal_or_committed E cur (acct E files d))
      (\<lambda>d. ac_state (acct E files d) = Present cur)
      (recover_activating E c j t1 t2)
      (\<lambda>p d. p = P_Active g r i re \<and> committed_for E cur (acct E files d))"
proof (cases "activating_key j")
  case None
  then show ?thesis
    by (auto simp: recover_activating_def journal_or_committed_def intro!: triple_failT)
next
  case (Some key)
  have lock: "triple (\<lambda>d. journal_or_committed E cur (acct E files d))
      (\<lambda>d. ac_state (acct E files d) = Present cur) (lock_state E)
      (\<lambda>_ d. ac_state (acct E files d) = Present cur)"
    by (rule triple_lock) (simp add: journal_or_committed_def)
  show ?thesis
    unfolding recover_activating_def Some option.case
  proof (rule triple_bindT [OF lock], rule triple_readT)
    fix x
    have x: "x = Some cur" if "ac_state (acct E files d) = Present cur \<and> load_state E d = Inr x" for d
      using that by (cases x) (auto dest: load_state_Some load_state_None)
    show "triple (\<lambda>d. journal_or_committed E cur (acct E files d))
        (\<lambda>d. ac_state (acct E files d) = Present cur \<and> load_state E d = Inr x)
        (if (case x of None \<Rightarrow> False | Some current \<Rightarrow> activating_key current = Some key)
          then finish_activating_unlocked E c (the x) t1 t2
          else (case active_progress_for key x of Some p \<Rightarrow> returnT p | None \<Rightarrow> failT Superseded))
        (\<lambda>p d. p = P_Active g r i re \<and> committed_for E cur (acct E files d))"
    proof (cases "x = Some cur")
      case True
      then have none: "active_progress_for key x = None" by (simp add: cur)
      have fin: "triple (\<lambda>d. journal_or_committed E cur (acct E files d))
          (\<lambda>d. ac_state (acct E files d) = Present cur \<and> load_state E d = Inr x)
          (finish_activating_unlocked E c (the x) t1 t2)
          (\<lambda>p d. p = P_Active g r i re \<and> committed_for E cur (acct E files d))"
        by (rule triple_pre [OF finish_triple [OF cur]]) simp
      show ?thesis
        unfolding none option.case
        by (intro triple_ifI fin triple_failT) (simp add: journal_or_committed_def)
    next
      case False
      with x show ?thesis by (intro triple_false) blast
    qed
  qed (simp add: journal_or_committed_def)
qed

end

context healthy_pairing_env
begin

lemma lock_healthy:
  assumes "healthy d"
  obtains d' where "lock_state E d = (Inr (), d')" and "healthy d'" and "slot files d' = slot files d"
proof -
  obtain d' where "begin_transaction (env_fs E) d = (Inr (), d')" and "healthy d'"
    using assms by (rule begin_healthy)
  with lock_state_slot [of d] that show thesis
    by (simp add: lock_state_def map_errT_apply)
qed

lemma store_write_healthy:
  assumes "healthy d" and "trim b = b" and "b \<noteq> []" and "length b \<le> max_bytes f"
  obtains d' where "store_write E f b d = (Inr (), d')" and "healthy d'"
    and "slot files d' = (slot files d)(f \<mapsto> b)"
proof -
  obtain d' where w: "write_file (env_fs E) f b d = (Inr (), d')" and h: "healthy d'"
    using write_file_healthy [of d b f] assms by auto
  then have "store_write E f b d = (Inr (), d')"
    by (simp add: store_write_def map_errT_apply)
  with that [OF this h] slot_after_write_ok [OF this] assms(2) show thesis by simp
qed

lemma persist_state_healthy:
  assumes "healthy d" and "fits Pairing (encode_state E s)"
  obtains d' b where "persist_state_unlocked E s d = (Inr (), d')" and "healthy d'"
    and "slot files d' = (slot files d)(Pairing \<mapsto> b)" and "encode_state E s = Some b"
proof -
  from assms(2) obtain b where b: "encode_state E s = Some b" "length b \<le> max_bytes Pairing"
    by (auto simp: fits_def split: option.splits)
  obtain d' where "store_write E Pairing b d = (Inr (), d')" "healthy d'" "slot files d' = (slot files d)(Pairing \<mapsto> b)"
    using store_write_healthy [OF assms(1), of b Pairing] b st.codec_edges [OF b(1)] trim_id by blast
  with b that [of d' b] show thesis
    by (simp add: persist_state_unlocked_def serialized_def map_errT_apply)
qed

lemma persist_binding_healthy:
  assumes "healthy d" and "validate_active_binding E c x = Inr ()" and "fits Binding (encode_binding E x)"
  obtains d' b where "persist_active_binding_unlocked E c x d = (Inr (), d')" and "healthy d'"
    and "slot files d' = (slot files d)(Binding \<mapsto> b)"
proof -
  from assms(3) obtain b where b: "encode_binding E x = Some b" "length b \<le> max_bytes Binding"
    by (auto simp: fits_def split: option.splits)
  obtain d' where "store_write E Binding b d = (Inr (), d')" "healthy d'" "slot files d' = (slot files d)(Binding \<mapsto> b)"
    using store_write_healthy [OF assms(1), of b Binding] b bi.codec_edges [OF b(1)] trim_id by blast
  with b assms(2) that [of d' b] show thesis
    by (simp add: persist_active_binding_unlocked_def tx_simps serialized_def)
qed

lemma persist_auth_healthy:
  assumes "healthy d" and "fits Authorization (encode_auth E x)"
  obtains d' b where "persist_auth_state_unlocked E x d = (Inr (), d')" and "healthy d'"
    and "slot files d' = (slot files d)(Authorization \<mapsto> b)"
proof -
  from assms(2) obtain b where b: "encode_auth E x = Some b" "length b \<le> max_bytes Authorization"
    by (auto simp: fits_def split: option.splits)
  obtain d' where "store_write E Authorization b d = (Inr (), d')" "healthy d'"
    "slot files d' = (slot files d)(Authorization \<mapsto> b)"
    using store_write_healthy [OF assms(1), of b Authorization] b au.codec_edges [OF b(1)] trim_id by blast
  with b that [of d' b] show thesis
    by (simp add: persist_auth_state_unlocked_def serialized_def map_errT_apply)
qed

lemma load_state_healthy:
  assumes "healthy d" and "slot files d Pairing = Some b" and "encode_state E s = Some b"
    and "length b \<le> max_bytes Pairing" and "\<not> is_nil (state_generation s)"
  shows "load_state E d = Inr (Some s)"
proof -
  have "read_file (env_fs E) Pairing d = Inr b"
    using assms by (intro read_file_healthy)
  moreover have "doc_of (json_version E) (decode_state E) (Some b) = Present s"
    using assms(3) by (simp add: doc_of_def st.codec_header st.codec_decode)
  then have "decode_pairing_document E (decode_state E) b ''pairing-state'' = Inr s"
    by (simp add: decode_pairing_document_Inr_iff)
  ultimately show ?thesis
    using assms(5) by (simp add: load_state_def)
qed

lemma commit_healthy:
  assumes j: "j = Activating v g r au ex pi i pe re bs" and h: "healthy d" and c: "committable E c t1 t2 j"
  obtains d' b where "commit_activating_unlocked E c j t1 t2 d = (Inr (P_Active g r i re), d')"
    and "healthy d'" and "slot files d' Pairing = Some b"
    and "encode_state E (Active Pairing_State_Version g r au i re t2) = Some b" and "length b \<le> max_bytes Pairing"
proof -
  let ?x = "\<lparr>ab_version = Pairing_State_Version, ab_generation = g, ab_request_id = r,
                   ab_instance_id = i, ab_report_endpoint = re\<rparr>"
  let ?a = "\<lparr>la_version = Pairing_State_Version, la_status = Authorized,
               la_reason = ''browser pairing completed'', la_changed_at = t1\<rparr>"
  let ?s = "Active Pairing_State_Version g r au i re t2"
  from c have v: "validate_active_binding E c ?x = Inr ()" and t: "token_ok bs"
    and f: "fits Binding (encode_binding E ?x)" "fits Authorization (encode_auth E ?a)"
      "fits Pairing (encode_state E ?s)"
    by (simp_all add: committable_def j Let_def)
  from t have tok: "validate_current_token bs = Inr ()" by simp
  from t have bs: "bs \<noteq> []" "length bs \<le> max_bytes Credential"
    by (auto simp: token_ok_def)
  obtain d1 where d1: "store_write E Credential bs d = (Inr (), d1)" "healthy d1"
    using store_write_healthy [OF h, of bs Credential] t token_trim [OF t] bs by blast
  obtain d2 where d2: "store_write E Identity (uuid_text E i) d1 = (Inr (), d2)" "healthy d2"
    using store_write_healthy [OF d1(2), of "uuid_text E i" Identity] uuid_length [of i] trim_id [OF uuid_edges]
    by auto
  obtain d3 b3 where d3: "persist_active_binding_unlocked E c ?x d2 = (Inr (), d3)" "healthy d3"
    using persist_binding_healthy [OF d2(2) v f(1)] by blast
  obtain d4 b4 where d4: "persist_auth_state_unlocked E ?a d3 = (Inr (), d4)" "healthy d4"
    using persist_auth_healthy [OF d3(2) f(2)] by blast
  obtain d5 b5 where d5: "persist_state_unlocked E ?s d4 = (Inr (), d5)" "healthy d5"
    "slot files d5 = (slot files d4)(Pairing \<mapsto> b5)" "encode_state E ?s = Some b5"
    using persist_state_healthy [OF d4(2) f(3)] by blast
  have "commit_activating_unlocked E c j t1 t2 d = (Inr (P_Active g r i re), d5)"
    unfolding commit_eq [OF j]
    by (simp add: v tok bindT_def liftR_def returnT_def d1(1) d2(1) d3(1) d4(1) d5(1))
  moreover have "length b5 \<le> max_bytes Pairing"
    using f(3) d5(4) by (simp add: fits_def)
  ultimately show thesis
    using that [of d5 b5] d5 by simp
qed

lemma validate_active_binding_not_nil:
  "validate_active_binding E c b = Inr () \<Longrightarrow> \<not> is_nil (ab_generation b)"
  by (auto simp: validate_active_binding_def split: if_splits)

lemma recover_completes:
  assumes j: "j = Activating v g r au ex pi i pe re bs" and h: "healthy d"
    and s: "slot files d Pairing = Some jb" and jb: "encode_state E j = Some jb" "length jb \<le> max_bytes Pairing"
    and c: "committable E c t1 t2 j"
  shows "\<exists>d'. recover_activating E c j t1 t2 d = (Inr (P_Active g r i re), d') \<and> healthy d'
     \<and> committed_for E j (acct E files d')"
proof -
  have nil: "\<not> is_nil g"
    using c validate_active_binding_not_nil by (fastforce simp: committable_def j Let_def)
  obtain d1 where d1: "lock_state E d = (Inr (), d1)" "healthy d1" "slot files d1 = slot files d"
    using h by (rule lock_healthy)
  have l1: "load_state E d1 = Inr (Some j)"
    using load_state_healthy [OF d1(2) _ jb] d1(3) s nil j by simp
  obtain d2 b where d2: "commit_activating_unlocked E c j t1 t2 d1 = (Inr (P_Active g r i re), d2)"
    "healthy d2" "slot files d2 Pairing = Some b"
    "encode_state E (Active Pairing_State_Version g r au i re t2) = Some b" "length b \<le> max_bytes Pairing"
    using j d1(2) c by (rule commit_healthy)
  have l2: "load_state E d2 = Inr (Some (Active Pairing_State_Version g r au i re t2))"
    using load_state_healthy [OF d2(2,3,4,5)] nil by simp
  have key: "activating_key j = Some (g, r)"
    by (simp add: j)
  have step: "bindT (commit_activating_unlocked E c j t1 t2) k d1 = k (P_Active g r i re) d2"
    for k :: "pairing_progress \<Rightarrow> ('d, client_error, unit) tx"
    using d2(1) by (simp add: bindT_def)
  have rep: "replace_credential E c j t1 t2 d1 = (Inr (), d2)"
    by (simp add: replace_credential_def key bindT_readT l1 step returnT_def)
  have run: "recover_activating E c j t1 t2 d = (Inr (P_Active g r i re), d2)"
    by (simp add: recover_activating_def key bindT_def liftR_def readT_def d1(1) l1
        finish_activating_unlocked_def rep l2 returnT_def)
  have "ac_state (acct E files d1) = Present j"
    using l1 by (simp add: load_state_Some)
  then have "committed_for E j (acct E files d2)"
    using triple_ok [OF commit_triple [OF j], of d1] d2(1) by blast
  with run d2(2) show ?thesis by blast
qed

end

end
