(* ===== verification/Flow_Correct.thy ===== *)
theory Flow_Correct
  imports Recovery
begin

text \<open>
  What the asynchronous operations do: which state they leave, that an answer from the network
  is applied only to the transaction it belongs to, and where the secrets go.
\<close>

section \<open>Compare and swap\<close>

context pairing_env
begin

lemma creating_matches_Some:
  "creating_matches g pe re ps x \<Longrightarrow> \<exists>v h bs. x = Some (Creating v g pe re h bs ps)"
  by (cases "(g, pe, re, ps, x)" rule: creating_matches.cases) auto

lemma pending_matches_Some:
  "pending_matches g r pe re ps x \<Longrightarrow> \<exists>v au ex pi bs. x = Some (Pending v g r au ex pi pe re bs ps)"
  by (cases "(g, r, pe, re, ps, x)" rule: pending_matches.cases) auto

lemma ensure_pending_current:
  "ensure_pending_is_current E g r pe re ps d = Inr u \<Longrightarrow>
     \<exists>v au ex pi bs. ac_state (acct E files d) = Present (Pending v g r au ex pi pe re bs ps)"
  by (auto simp: ensure_pending_is_current_def bindR_Inr_iff dest!: pending_matches_Some load_state_Some
      split: if_splits)

lemma locked_cases:
  assumes "bindT (lock_state E) (\<lambda>_. m) d = (res, d')"
  obtains (refused) e where "res = Inl e" and "acct E files d' = acct E files d"
    | (run) d1 where "m d1 = (res, d')" and "acct E files d1 = acct E files d"
proof (cases "lock_state E d")
  case (Pair r d1)
  with assms lock_state_frame [of d] that show thesis
    by (cases r) (auto simp: bindT_def)
qed

lemma persist_state_cases:
  "persist_state_unlocked E s d = (res, d') \<Longrightarrow>
     acct E files d' = acct E files d \<and> \<not> is_ok res \<or> acct E files d' = (acct E files d)\<lparr>ac_state := Present s\<rparr>"
  using persist_state_account [of s d] by (cases res) (auto dest: persist_state_account_ok)

text \<open>
  A compare-and-swap leaves the account alone, or replaces the journal of exactly the
  transaction it was asked for.
\<close>

lemma compare_pending_cas:
  assumes "compare_and_persist_pending E g r pe re ps s d = (res, d')"
  shows "acct E files d' = acct E files d \<and> \<not> is_ok res \<or>
    acct E files d' = (acct E files d)\<lparr>ac_state := Present s\<rparr> \<and>
    (\<exists>v au ex pi bs. ac_state (acct E files d) = Present (Pending v g r au ex pi pe re bs ps))"
  using assms unfolding compare_and_persist_pending_def
proof (cases rule: locked_cases)
  case (run d1)
  show ?thesis
  proof (cases "ensure_pending_is_current E g r pe re ps d1")
    case (Inr u)
    with run have "persist_state_unlocked E s d1 = (res, d')"
      by (simp add: bindT_readT)
    with ensure_pending_current [OF Inr] persist_state_cases [of s d1 res d'] run(2) show ?thesis by auto
  next
    case (Inl e)
    with run have "res = Inl e" and "d' = d1" by (simp_all add: bindT_readT)
    with run(2) show ?thesis by simp
  qed
qed auto

lemma compare_creating_cas:
  assumes "compare_and_persist_creating E g pe re ps s d = (res, d')"
  shows "acct E files d' = acct E files d \<and> \<not> is_ok res \<or>
    acct E files d' = (acct E files d)\<lparr>ac_state := Present s\<rparr> \<and>
    (\<exists>v h bs. ac_state (acct E files d) = Present (Creating v g pe re h bs ps))"
  using assms unfolding compare_and_persist_creating_def
proof (cases rule: locked_cases)
  case (run d1)
  show ?thesis
  proof (cases "load_state E d1")
    case (Inr x)
    show ?thesis
    proof (cases "creating_matches g pe re ps x")
      case True
      with run Inr have "persist_state_unlocked E s d1 = (res, d')"
        by (simp add: bindT_readT)
      moreover from creating_matches_Some [OF True] Inr run(2)
      have "\<exists>v h bs. ac_state (acct E files d) = Present (Creating v g pe re h bs ps)"
        by (auto dest: load_state_Some)
      ultimately show ?thesis
        using persist_state_cases run(2) by fastforce
    qed (use run Inr in \<open>auto simp: bindT_readT failT_def\<close>)
  qed (use run in \<open>auto simp: bindT_readT\<close>)
qed auto

section \<open>Secrets before requests\<close>

text \<open>
  \<open>prepare_start\<close> asks for a request only for the Creating journal that is on disk, so that a
  lost answer is repeated with the same secrets.
\<close>

lemma create_generation_durable:
  assumes "create_generation E c host I d = (Inr st, d')"
  shows "\<exists>pe bs ps. pairing_endpoint (env_url E) (env_proto E) c = Inr pe \<and>
    random_secret (in_bearer_entropy I) = Inr bs \<and> random_secret (in_polling_entropy I) = Inr ps \<and>
    st = Start_Create (Creating Pairing_State_Version (in_uuid I) pe (endpoint c) host bs ps) \<and>
    acct E files d' = (acct E files d)\<lparr>ac_state :=
      Present (Creating Pairing_State_Version (in_uuid I) pe (endpoint c) host bs ps)\<rparr>"
  using assms
  by (auto simp: create_generation_def Let_def bindT_ok_iff liftR_def returnT_def dest: persist_state_account_ok)

lemma start_from_durable:
  assumes l: "load_state E d = Inr x" and s: "start_from E c host I x d = (Inr (Start_Create s), d')"
  shows "ac_state (acct E files d') = Present s \<and>
    (\<exists>v g pe re h bs ps. s = Creating v g pe re h bs ps \<and> pairing_endpoint (env_url E) (env_proto E) c = Inr pe
       \<and> re = endpoint c)"
proof -
  have gen: "?thesis" if "create_generation E c host I d1 = (Inr (Start_Create s), d')" for d1
    using create_generation_durable [OF that] by auto
  have same: ?thesis if "x = Some (Creating v g pe re h bs ps)" and "pairing_endpoints_match E c pe re = Inr True"
    and "s = Creating v g pe re h bs ps" and "d' = d" for v g pe re h bs ps
    using that l by (auto simp: pairing_endpoints_match_def bindR_Inr_iff dest: load_state_Some)
  show ?thesis
  proof (cases x)
    case None
    then show ?thesis using s gen by (simp add: start_from_def)
  next
    case (Some st)
    then show ?thesis
      using s gen same
      by (cases st) (auto simp: start_from_def Let_def bindT_ok_iff liftR_def readT_def returnT_def failT_def
          split: if_splits)
  qed
qed

lemma prepare_start_durable:
  assumes "prepare_start E c host I d = (Inr (Start_Create s), d')"
  shows "ac_state (acct E files d') = Present s \<and>
    (\<exists>v g pe re h bs ps. s = Creating v g pe re h bs ps \<and> pairing_endpoint (env_url E) (env_proto E) c = Inr pe
       \<and> re = endpoint c)"
proof -
  from assms obtain d1 x where "load_state E d1 = Inr x" and "start_from E c host I x d1 = (Inr (Start_Create s), d')"
    by (auto simp: prepare_start_def bindT_ok_iff readT_def)
  then show ?thesis by (rule start_from_durable)
qed

text \<open>An unexpired request is resumed and never replaced, unless the operator asked for it.\<close>

lemma prepare_start_resumes:
  assumes "prepare_start E c host I d = (res, d')"
    and "ac_state (acct E files (in_before I d)) = Present (Pending v g r au ex pi pe re bs ps)"
    and "\<not> replace_pending_pairing c" and "in_now I < ex"
  shows "acct E files d' = acct E files (in_before I d) \<and>
    (res = Inr (Start_Waiting \<lparr>ps_generation = g, ps_request_id = r, ps_activation_url = au,
                  ps_expires_at = ex, ps_poll_interval = pi\<rparr>) \<and>
       pairing_endpoints_match E c pe re = Inr True \<or> \<not> is_ok res)"
proof -
  from assms(1) have "bindT (lock_state E) (\<lambda>_. bindT (readT (load_state E)) (\<lambda>state.
     start_from E c host I state)) (in_before I d) = (res, d')"
    by (simp add: prepare_start_def bindT_def elsewhere_def)
  then show ?thesis
  proof (cases rule: locked_cases)
    case (run d1)
    show ?thesis
    proof (cases "load_state E d1")
      case (Inr x)
      with assms(2) run(2) have x: "x = Some (Pending v g r au ex pi pe re bs ps)"
        by (cases x) (auto dest: load_state_Some load_state_None)
      with run Inr assms(3,4) show ?thesis
        by (cases "pairing_endpoints_match E c pe re")
          (auto simp: bindT_readT start_from_def Let_def bindT_liftR returnT_def failT_def split: if_splits)
    qed (use run in \<open>auto simp: bindT_readT\<close>)
  qed auto
qed

end

section \<open>What an answer may change\<close>

text \<open>The transaction that the poll is about is still the pending one of the account.\<close>

definition still_pending :: "uuid \<Rightarrow> uuid \<Rightarrow> string \<Rightarrow> string \<Rightarrow> string \<Rightarrow> account \<Rightarrow> bool" where
  "still_pending g r pe re ps a \<longleftrightarrow> (\<exists>v au ex pi bs. ac_state a = Present (Pending v g r au ex pi pe re bs ps))"

text \<open>A response that proves the end of transaction \<open>r\<close>: the envelope of the contract names it.\<close>

definition ended_by :: "'d env \<Rightarrow> uuid \<Rightarrow> http_response \<Rightarrow> bool" where
  "ended_by E r response \<longleftrightarrow>
     pairing_content_type_for_diagnostics (pairing_response_content_type (env_http E) response) = ''application/json'' \<and>
     (\<exists>ev. parse_envelope (env_http E) (hs_body response) = Some ev \<and> \<not> ee_retryable ev \<and>
        (hs_status response = 404 \<and> ee_code ev = ''pairing_transaction_not_found'' \<or>
         hs_status response = 410 \<and> ee_code ev = ''pairing_transaction_expired'') \<and>
        Option.bind (Option.bind (ee_details ev ''request_id'') as_str) (uuid_parse E) = Some r)"

text \<open>A successful answer of the status endpoint with status \<open>st\<close>.\<close>

definition answered :: "'d env \<Rightarrow> pairing_status \<Rightarrow> http_response \<Rightarrow> bool" where
  "answered E st response \<longleftrightarrow> hs_status response = 200 \<and>
     pairing_content_type_for_diagnostics (pairing_response_content_type (env_http E) response) = ''application/json'' \<and>
     (\<exists>p. parse_status_response E (hs_body response) = Some p \<and> sr_status p = st \<and>
        (st \<noteq> S_Active \<longrightarrow> sr_instance_id p = None) \<and>
        (st = S_Active \<longrightarrow> Option.bind (sr_instance_id p) (uuid_parse E) \<noteq> None))"

lemma parse_pairing_json_ok:
  "parse_pairing_json U f b ct e k = Inr x \<Longrightarrow>
     f b = Some x \<and> pairing_content_type_for_diagnostics ct = ''application/json''"
  by (auto simp: parse_pairing_json_def Let_def split: if_splits)

context pairing_env
begin

lemma elsewhere_bind: "bindT (elsewhere f) (\<lambda>_. m) d = m (f d)"
  by (simp add: bindT_def elsewhere_def)

lemma compare_then_cases:
  assumes "bindT (compare_and_persist_pending E g r pe re ps s) (\<lambda>_. returnT x) d = (res, d')"
  shows "acct E files d' = acct E files d \<or>
     acct E files d' = (acct E files d)\<lparr>ac_state := Present s\<rparr> \<and> still_pending g r pe re ps (acct E files d)"
proof (cases "compare_and_persist_pending E g r pe re ps s d")
  case (Pair a d1)
  with assms have "d1 = d'" by (cases a) (simp_all add: bindT_def returnT_def)
  with compare_pending_cas [OF Pair] show ?thesis by (auto simp: still_pending_def)
qed

lemma persist_active_cas:
  assumes "persist_active_credentials E c (Pending v g r au ex pi pe re bs ps) i t1 t2 d = (res, d')"
  shows "acct E files d' = acct E files d \<or> still_pending g r pe re ps (acct E files d)"
  using assms unfolding persist_active_credentials_def stored_pairing_state.case
proof (cases rule: locked_cases)
  case (run d1)
  then show ?thesis
    by (cases "ensure_pending_is_current E g r pe re ps d1")
      (auto simp: bindT_readT still_pending_def dest: ensure_pending_current)
qed auto

lemma apply_status_effect:
  assumes "apply_status E c (Pending v g r au ex pi pe re bs ps) polled I d = (res, d')"
    and "acct E files d' \<noteq> acct E files d" and "acct E files d' \<noteq> acct E files (in_during I d)"
  shows "still_pending g r pe re ps (acct E files (in_during I d)) \<and>
    (sr_status polled = S_Denied \<and> sr_instance_id polled = None \<and>
       acct E files d' = (acct E files (in_during I d))\<lparr>ac_state :=
         Present (Denied Pairing_State_Version g r au re (in_now I))\<rparr> \<or>
     sr_status polled = S_Expired \<and> sr_instance_id polled = None \<and>
       acct E files d' = (acct E files (in_during I d))\<lparr>ac_state :=
         Present (Expired Pairing_State_Version g r au re (in_now I))\<rparr> \<or>
     sr_status polled = S_Active \<and> Option.bind (sr_instance_id polled) (uuid_parse E) \<noteq> None)"
proof (cases "sr_status polled")
  case S_Waiting
  with assms show ?thesis
    by (simp add: apply_status_def returnT_def failT_def split: if_splits)
next
  case S_Active
  with assms obtain a i where i: "sr_instance_id polled = Some a" "uuid_parse E a = Some i"
    and p: "persist_active_credentials E c (Pending v g r au ex pi pe re bs ps) i (in_commit_at I) (in_completed_at I)
      (in_during I d) = (res, d')"
    by (cases "sr_instance_id polled"; cases "uuid_parse E (the (sr_instance_id polled))")
      (auto simp: apply_status_def bindT_liftR elsewhere_bind)
  from persist_active_cas [OF p] assms(3) S_Active i show ?thesis by simp
next
  case S_Denied
  show ?thesis
  proof (cases "sr_instance_id polled")
    case (Some x)
    with assms(1) S_Denied have "d' = d" by (simp add: apply_status_def failT_def)
    with assms(2) show ?thesis by simp
  next
    case None
    with assms(1) S_Denied have "bindT (compare_and_persist_pending E g r pe re ps
        (Denied Pairing_State_Version g r au re (in_now I))) (\<lambda>_. returnT (P_Denied g r au)) (in_during I d) = (res, d')"
      by (simp add: apply_status_def elsewhere_bind)
    from compare_then_cases [OF this] assms(3) S_Denied None show ?thesis by simp
  qed
next
  case S_Expired
  show ?thesis
  proof (cases "sr_instance_id polled")
    case (Some x)
    with assms(1) S_Expired have "d' = d" by (simp add: apply_status_def failT_def)
    with assms(2) show ?thesis by simp
  next
    case None
    with assms(1) S_Expired have "bindT (compare_and_persist_pending E g r pe re ps
        (Expired Pairing_State_Version g r au re (in_now I))) (\<lambda>_. returnT (P_Expired g r au)) (in_during I d) = (res, d')"
      by (simp add: apply_status_def elsewhere_bind)
    from compare_then_cases [OF this] assms(3) S_Expired None show ?thesis by simp
  qed
qed

lemma check_or_expire_effect:
  assumes "check_or_expire E chk g r au pe re ps I d = (res, d')"
  shows "(case chk of Inr u \<Rightarrow> res = Inr () \<and> d' = d | Inl e \<Rightarrow> \<not> is_ok res \<and>
    (d' = d \<or> (\<exists>h. downcast_http e = Some h \<and> transaction_ended_for h r) \<and>
      (acct E files d' = acct E files (in_during I d) \<or>
       acct E files d' = (acct E files (in_during I d))\<lparr>ac_state :=
         Present (Expired Pairing_State_Version g r au re (in_now I))\<rparr> \<and>
       still_pending g r pe re ps (acct E files (in_during I d)))))"
proof (cases chk)
  case (Inr u)
  with assms have "res = Inr ()" and "d' = d" by (simp_all add: check_or_expire_def returnT_def)
  with Inr show ?thesis by simp
next
  case (Inl e)
  show ?thesis
  proof (cases "case downcast_http e of None \<Rightarrow> False | Some h \<Rightarrow> transaction_ended_for h r")
    case False
    then have "res = Inl e" and "d' = d"
      using assms Inl unfolding check_or_expire_def by (simp_all add: failT_def)
    then show ?thesis using Inl by simp
  next
    case True
    then obtain h where h: "downcast_http e = Some h" "transaction_ended_for h r"
      by (auto split: option.splits)
    let ?m = "mark_pending_expired E g r au pe re ps (in_now I)"
    obtain r1 d1 where m: "?m (in_during I d) = (r1, d1)" by fastforce
    have "bindT ?m (\<lambda>_. failT e) (in_during I d) = (res, d')"
      using assms Inl h by (simp add: check_or_expire_def elsewhere_bind)
    then have "d' = d1" and "\<not> is_ok res"
      using m by (cases r1; auto simp: bindT_def failT_def)+
    moreover have "acct E files d1 = acct E files (in_during I d) \<or>
       acct E files d1 = (acct E files (in_during I d))\<lparr>ac_state :=
         Present (Expired Pairing_State_Version g r au re (in_now I))\<rparr> \<and>
       still_pending g r pe re ps (acct E files (in_during I d))"
      using m unfolding mark_pending_expired_def by (rule compare_then_cases)
    ultimately show ?thesis
      using h Inl by auto
  qed
qed

text \<open>
  One poll changes the account only for its own transaction, and only on an answer that says
  so: a final status, or the envelope that names the transaction as ended.
\<close>

lemma poll_pending_effect:
  assumes run: "poll_pending E c (Pending v g r au ex pi pe re bs ps) I d = (res, d')"
    and changed: "acct E files d' \<noteq> acct E files d" "acct E files d' \<noteq> acct E files (in_during I d)"
  shows "still_pending g r pe re ps (acct E files (in_during I d)) \<and>
    (\<exists>target hs response. pairing_status_endpoint E pe r = Inr target \<and>
       post_bounded (env_http E) (in_net I) (u_text target) hs [] = Inr response \<and>
       (ended_by E r response \<and> acct E files d' = (acct E files (in_during I d))\<lparr>ac_state :=
           Present (Expired Pairing_State_Version g r au re (in_now I))\<rparr> \<or>
        answered E S_Expired response \<and> acct E files d' = (acct E files (in_during I d))\<lparr>ac_state :=
           Present (Expired Pairing_State_Version g r au re (in_now I))\<rparr> \<or>
        answered E S_Denied response \<and> acct E files d' = (acct E files (in_during I d))\<lparr>ac_state :=
           Present (Denied Pairing_State_Version g r au re (in_now I))\<rparr> \<or>
        answered E S_Active response))"
proof -
  have nf: "d' \<noteq> d" using changed(1) by auto
  then obtain target k hs response where t: "pairing_status_endpoint E pe r = Inr target"
    and p: "post_bounded (env_http E) (in_net I) (u_text target) hs [] = Inr response"
    and rest: "(let ct = pairing_response_content_type (env_http E) response in
          bindT (check_or_expire E (ensure_pairing_response (env_http E) (uuid_parse E)
            (hs_status response) ct (hs_body response) [200] Poll_Op) g r au pe re ps I) (\<lambda>_.
          bindT (liftR (parse_pairing_json (env_url E) (parse_status_response E) (hs_body response)
            ct (u_text target) ''pairing status response'')) (\<lambda>polled.
          apply_status E c (Pending v g r au ex pi pe re bs ps) polled I))) d = (res, d')"
    using run
    by (auto simp: poll_pending_def bindT_liftR post_def split: sum.splits)
  let ?ct = "pairing_response_content_type (env_http E) response"
  let ?chk = "ensure_pairing_response (env_http E) (uuid_parse E) (hs_status response) ?ct
      (hs_body response) [200] Poll_Op"
  show ?thesis
  proof (cases ?chk)
    case (Inl e)
    obtain r1 d1 where c: "check_or_expire E ?chk g r au pe re ps I d = (r1, d1)" by fastforce
    from check_or_expire_effect [OF c] Inl have "\<not> is_ok r1" by simp
    then have "d1 = d'"
      using rest c by (cases r1) (simp_all add: Let_def bindT_def)
    with check_or_expire_effect [OF c] Inl changed nf obtain h where
      h: "downcast_http e = Some h" "transaction_ended_for h r"
      and eff: "acct E files d' = (acct E files (in_during I d))\<lparr>ac_state :=
         Present (Expired Pairing_State_Version g r au re (in_now I))\<rparr>"
      and st: "still_pending g r pe re ps (acct E files (in_during I d))"
      by auto
    from ensure_pairing_response_ended [OF Inl h] have "ended_by E r response"
      by (auto simp: ended_by_def)
    with st t p eff show ?thesis by blast
  next
    case (Inr u)
    then have ok: "hs_status response = 200"
      by (auto simp: ensure_pairing_response_def Let_def split: if_splits)
    have "check_or_expire E ?chk g r au pe re ps I d = (Inr (), d)"
      unfolding Inr check_or_expire_def by (simp add: returnT_def)
    with rest nf obtain polled where
      j: "parse_pairing_json (env_url E) (parse_status_response E) (hs_body response)
            ?ct (u_text target) ''pairing status response'' = Inr polled"
      and a: "apply_status E c (Pending v g r au ex pi pe re bs ps) polled I d = (res, d')"
      by (auto simp: Let_def bindT_def liftR_def split: sum.splits)
    have ans: "answered E (sr_status polled) response"
      if "sr_status polled \<noteq> S_Active \<longrightarrow> sr_instance_id polled = None"
        and "sr_status polled = S_Active \<longrightarrow> Option.bind (sr_instance_id polled) (uuid_parse E) \<noteq> None"
      using parse_pairing_json_ok [OF j] ok that by (auto simp: answered_def)
    from apply_status_effect [OF a changed] have st: "still_pending g r pe re ps (acct E files (in_during I d))"
      and "(answered E S_Expired response \<and> acct E files d' = (acct E files (in_during I d))\<lparr>ac_state :=
           Present (Expired Pairing_State_Version g r au re (in_now I))\<rparr> \<or>
        answered E S_Denied response \<and> acct E files d' = (acct E files (in_during I d))\<lparr>ac_state :=
           Present (Denied Pairing_State_Version g r au re (in_now I))\<rparr> \<or>
        answered E S_Active response)"
      using ans by auto
    with t p show ?thesis by blast
  qed
qed

section \<open>Results\<close>

text \<open>The session that is returned for a new request is the journal on disk.\<close>

lemma finish_create_on_disk:
  assumes "finish_create_request E c s I d = (Inr session, d')"
  shows "\<exists>v g pe re h bs ps. s = Creating v g pe re h bs ps \<and>
    ac_state (acct E files d') = Present (Pending Pairing_State_Version g (ps_request_id session)
      (ps_activation_url session) (ps_expires_at session) (ps_poll_interval session) pe re bs ps) \<and>
    ps_generation session = g \<and> 1 \<le> unat (ps_poll_interval session) \<and> unat (ps_poll_interval session) \<le> 300"
proof (cases s)
  case (Creating v g pe re h bs ps)
  from assms obtain d1 response created rid url ex u where
    rc: "read_created E pe response = Inr (created, rid, url)"
    and cas: "compare_and_persist_creating E g pe re ps (Pending Pairing_State_Version g rid url ex
        (cr_poll_interval created) pe re bs ps) d1 = (Inr u, d')"
    and session: "session = \<lparr>ps_generation = g, ps_request_id = rid, ps_activation_url = url,
        ps_expires_at = ex, ps_poll_interval = cr_poll_interval created\<rparr>"
    unfolding finish_create_request_def Creating
    by (auto simp: bindT_ok_iff liftR_def returnT_def readT_def)
  have "1 \<le> unat (cr_poll_interval created) \<and> unat (cr_poll_interval created) \<le> 300"
    using rc by (auto simp: read_created_def Let_def bindR_Inr_iff split: if_splits)
  with compare_creating_cas [OF cas] Creating session show ?thesis by auto
qed (use assms in \<open>simp_all add: finish_create_request_def failT_def\<close>)

lemma readT_ok: "readT f d = (Inr x, d') \<Longrightarrow> f d = Inr x \<and> d' = d"
  by (auto simp: readT_def)

text \<open>
  Activation by code reports an instance only when the journal is still the one that the
  caller selected, and then the instance that the journal carries, if it carries one.
\<close>

lemma activate_result:
  assumes "activate_pending_with_code E c g r code I d = (Inr (Some i), d')"
  shows "(\<exists>s. ac_state (acct E files d') = Present s \<and>
     (same_transaction g r s = Some i \<or> (\<exists>v au ex pi pe re bs ps. s = Pending v g r au ex pi pe re bs ps)))"
proof -
  from assms obtain d1 d2 x where run: "activation_target E g r d2 = Inr x" and
    k: "(case x of Inl i \<Rightarrow> returnT (Some i)
     | Inr pending \<Rightarrow>
         bindT (submit_activation E c g r code pending I) (\<lambda>activated.
         bindT (elsewhere (in_during I)) (\<lambda>_.
         bindT (lock_state E) (\<lambda>_.
         readT (confirm_activation E g r pending activated))))) d2 = (Inr (Some i), d')"
    unfolding activate_pending_with_code_def by (blast elim: bindT_okE dest: readT_ok)
  show ?thesis
  proof (cases x)
    case (Inl j)
    with k have "j = i" and "d' = d2" by (simp_all add: returnT_def)
    with run Inl obtain s where s: "load_state E d' = Inr (Some s)"
      and t: "(case s of Pending v g' r' au ex pi pe re bs ps \<Rightarrow>
         bindR (validate_state_version v) (\<lambda>_.
         if g' \<noteq> g \<or> r' \<noteq> r then Inl Superseded else Inr (Inr (au, pe, re, ps)))
       | _ \<Rightarrow> (case same_transaction g r s of Some i \<Rightarrow> Inr (Inl i)
          | None \<Rightarrow> Inl (Message ''the pairing request is no longer pending; authorization key was not sent'')))
       = Inr (Inl i)"
      by (auto simp: activation_target_def bindR_Inr_iff)
    have "same_transaction g r s = Some i"
      using t by (cases s) (auto simp: bindR_Inr_iff split: option.splits if_splits)
    with s show ?thesis by (auto dest: load_state_Some)
  next
    case (Inr p)
    obtain au pe re ps where p: "p = (au, pe, re, ps)" by (cases p) auto
    from k Inr obtain a where cf: "confirm_activation E g r p a d' = Inr (Some i)"
      by (auto elim!: bindT_okE dest!: readT_ok)
    then obtain s where s: "load_state E d' = Inr (Some s)"
      by (auto simp: confirm_activation_def bindR_Inr_iff)
    show ?thesis
    proof (cases "\<exists>v g' r' au' ex pi pe' re' bs ps'. s = Pending v g' r' au' ex pi pe' re' bs ps'")
      case True
      with cf s p have "ensure_pending_is_current E g r pe re ps d' = Inr ()"
        by (auto simp: confirm_activation_def bindR_Inr_iff)
      from ensure_pending_current [OF this] show ?thesis by auto
    next
      case False
      with cf s p have "same_transaction g r s = Some i"
        by (cases s) (auto simp: confirm_activation_def bindR_Inr_iff split: option.splits if_splits)
      with s show ?thesis by (auto dest: load_state_Some)
    qed
  qed
qed

end

section \<open>Where requests go\<close>

text \<open>
  Two networks that agree on the one URL give the same result: nothing else is contacted. The
  activation code leaves the process only for \<open>activation_endpoint\<close>, which has the trusted
  origin of the stored pairing endpoint.
\<close>

definition agree_at :: "string \<Rightarrow> network \<Rightarrow> network \<Rightarrow> bool" where
  "agree_at u n m \<longleftrightarrow> (\<forall>rq. rq_url rq = u \<longrightarrow> n rq = m rq)"

lemma post_bounded_agree: "agree_at u n m \<Longrightarrow> post_bounded H n u hs b = post_bounded H m u hs b"
  by (simp add: post_bounded_def Let_def agree_at_def execute_bounded_def)

lemma submit_only_activation_endpoint:
  assumes "\<And>ep. activation_endpoint (env_url E) pe = Inr ep \<Longrightarrow> agree_at (u_text ep) (in_net I) m"
  shows "submit_activation E c g r code (au, pe, re, ps) I d =
         submit_activation E c g r code (au, pe, re, ps) (I\<lparr>in_net := m\<rparr>) d"
proof (cases "activation_endpoint (env_url E) pe")
  case (Inl e)
  then show ?thesis
    by (cases "validate_durable_report_endpoint (env_url E) c re"; cases "validate_activation_url_request E au pe r")
      (simp_all add: submit_activation_def bindT_liftR with_context_def)
next
  case (Inr ep)
  have exp: "check_or_expire E chk g r au pe re ps (I\<lparr>in_net := m\<rparr>) = check_or_expire E chk g r au pe re ps I" for chk
    by (simp add: check_or_expire_def split: sum.split)
  have same: "post E (I\<lparr>in_net := m\<rparr>) what (u_text ep) hs b = post E I what (u_text ep) hs b" for what hs b
    using post_bounded_agree [OF assms [OF Inr]] by (simp add: post_def)
  show ?thesis
    by (cases "validate_durable_report_endpoint (env_url E) c re"; cases "validate_activation_url_request E au pe r";
        cases "build_client (env_http E) c")
      (simp_all add: submit_activation_def bindT_liftR with_context_def Inr same exp Let_def split: sum.split)
qed

lemma strip_suffix_eq: "strip_suffix p s = Some b \<longleftrightarrow> s = b @ p"
proof
  assume "strip_suffix p s = Some b"
  then have e: "take (length p) (rev s) = rev p" and b: "b = take (length s - length p) s"
    by (auto simp: strip_suffix_def ends_with_def starts_with_def split: if_splits)
  have "drop (length s - length p) s = p"
    using e by (metis rev_rev_ident rev_take length_rev take_rev)
  with b show "s = b @ p" by (metis append_take_drop_id)
qed (simp add: strip_suffix_append)

lemma activation_endpoint_trusted:
  assumes "activation_endpoint U pe = Inr ep"
  obtains u base where "trusted_https U pe" and "url_parse U pe = Some u"
    and "trim_end_matches CHR ''/'' (u_path u) = base @ ''/pairing-requests''"
    and "ep = url_set_fragment U None (url_set_query U None (url_set_path U (base @ ''/activate'') u))"
  using assms
  by (auto simp: activation_endpoint_def bindR_Inr_iff validate_pairing_endpoint_ok_iff strip_suffix_eq
      split: if_splits)

end
