(* ===== verification/Local_Correct.thy ===== *)
theory Local_Correct
  imports Flow_Correct
begin

text \<open>
  What the local operations of pairing promise: reporters built from one account, invalidation
  of exactly one credential, and the lock-free status.
\<close>

context pairing_env
begin

lemma active_binding_Some:
  "load_active_binding E c d = Inr (Some b) \<Longrightarrow> ac_binding (acct E files d) = Present b"
  by (simp add: load_active_binding_Some)

lemma run_coherent:
  assumes "existing_reporter_for_run E c t1 t2 d = (Inr (Some s), d')"
  shows "coherent_snapshot E s (acct E files d')"
proof -
  from assms obtain d1 x where l: "load_state E d1 = Inr x" and k:
    "(if (case x of None \<Rightarrow> False | Some s \<Rightarrow> is_activating (Present s))
     then bindT (finish_activating_unlocked E c (the x) t1 t2) (\<lambda>_.
          readT (reporter_snapshot_for_current_active_state_unlocked E c))
     else
       bindT (readT (local_auth_state_unlocked E)) (\<lambda>auth.
       if \<not> is_authorized auth then returnT None
       else
         (case x of
            None \<Rightarrow> returnT None
          | Some s \<Rightarrow>
              if is_active (Present s) then returnT None
              else
                bindT (readT (load_active_binding E c)) (\<lambda>b.
                case b of
                  Some binding \<Rightarrow> readT (reporter_for_active_binding_unlocked E c binding)
                | None \<Rightarrow> failT (corrupt_binding ''active binding is missing; pair xsoc again''))))) d1
     = (Inr (Some s), d')"
    unfolding existing_reporter_for_run_def by (blast elim: bindT_okE dest: readT_ok)
  show ?thesis
  proof (cases "case x of None \<Rightarrow> False | Some s \<Rightarrow> is_activating (Present s)")
    case True
    with k have "reporter_snapshot_for_current_active_state_unlocked E c d' = Inr (Some s)"
      by (auto elim!: bindT_okE dest!: readT_ok)
    then show ?thesis by (simp add: snapshot_unlocked_coherent)
  next
    case False
    with k obtain b where "load_active_binding E c d' = Inr (Some b)"
      and "reporter_for_active_binding_unlocked E c b d' = Inr (Some s)"
      by (auto simp: returnT_def failT_def elim!: bindT_okE dest!: readT_ok split: if_splits option.splits)
    then show ?thesis
      using reporter_for_active_binding_coherent active_binding_Some by blast
  qed
qed

text \<open>The reporter of a completed pairing is the one of that pairing.\<close>

lemma ensure_active_ok:
  "ensure_active_is_current E g r i re d = Inr b \<Longrightarrow>
     ab_generation b = g \<and> ab_request_id b = r \<and> ab_instance_id b = i \<and> ab_report_endpoint b = re"
proof (cases "load_state E d")
  case (Inr x)
  assume "ensure_active_is_current E g r i re d = Inr b"
  with Inr show ?thesis
    by (cases x; cases "the x") (auto simp: ensure_active_is_current_def split: if_splits)
qed (simp add: ensure_active_is_current_def)

lemma activate_snapshot_coherent:
  assumes "activate_reporter_snapshot E c g r i re d = (Inr (c', host, rp), d')"
  shows "endpoint c' = re \<and> pairing_endpoint_field c' = None \<and> rp_endpoint rp = re \<and>
    rp_credential_revision rp = (g, r) \<and> hi_id host = uuid_text E i \<and>
    ci_instance_id (rp_identity rp) = uuid_text E i \<and> ac_token (acct E files d') = Some (rp_token rp) \<and>
    trusted_https (env_url E) re"
proof -
  from assms obtain x b s where e: "ensure_active_is_current E g r i re d' = Inr x"
    and b: "load_current_active_binding E c x d' = Inr b"
    and s: "reporter_for_active_binding_unlocked E c b d' = Inr (Some s)"
    and r: "snapshot_apply s c = (c', host, rp)"
    unfolding activate_reporter_snapshot_def
    by (auto dest!: locked_read_ok simp: bindR_Inr_iff split: if_splits)
  from load_current_active_binding_ok [OF b] have x: "b = x" and p: "ac_binding (acct E files d') = Present b"
    by simp_all
  from reporter_for_active_binding_coherent [OF s p] ensure_active_ok [OF e] x p r show ?thesis
    by (auto simp: coherent_snapshot_def snapshot_apply_def)
qed

text \<open>
  The server's rejection of a credential invalidates that credential only; afterwards no
  reporter can be built until a new pairing is committed.
\<close>

lemma invalidate_other:
  assumes "invalidate_credential E c k reason now d = (res, d')"
    and "ac_binding (acct E files d) = Present b" and "(ab_generation b, ab_request_id b) \<noteq> k"
  shows "d' = d \<and> res \<noteq> Inr Applied"
proof (cases "credential_binding E c d")
  case (Inl e)
  with assms(1) show ?thesis by (auto simp: invalidate_credential_def bindT_readT)
next
  case (Inr x)
  show ?thesis
  proof (cases x)
    case None
    with assms(1) Inr show ?thesis by (auto simp: invalidate_credential_def bindT_readT returnT_def)
  next
    case (Some b')
    with credential_binding_Some [of c d b'] Inr assms(2) have "b' = b" by simp
    with assms(1,3) Inr Some show ?thesis
      by (auto simp: invalidate_credential_def bindT_readT returnT_def)
  qed
qed

lemma mark_reauth_other:
  assumes "mark_reauth_required_if_current E c k reason now d = (res, d')"
    and "ac_binding (acct E files d) = Present b" and "(ab_generation b, ab_request_id b) \<noteq> k"
  shows "acct E files d' = acct E files d \<and> res \<noteq> Inr True"
  using assms(1) unfolding mark_reauth_required_if_current_def
proof (cases rule: locked_cases)
  case (run d1)
  obtain r2 d2 where i: "invalidate_credential E c k reason now d1 = (r2, d2)" by fastforce
  from invalidate_other [OF i _ assms(3)] run(2) assms(2) have "d2 = d1" "r2 \<noteq> Inr Applied" by simp_all
  with run i show ?thesis
    by (cases r2) (auto simp: bindT_def returnT_def)
qed auto

lemma persist_auth_present:
  "persist_auth_state_unlocked E a d = (Inr u, d') \<Longrightarrow> ac_auth (acct E files d') = Present a"
  by (drule persist_auth_account_ok) simp

lemma mark_reauth_applied:
  assumes "mark_reauth_required_if_current E c k reason now d = (Inr True, d')"
  shows "\<not> authorized_doc (ac_auth (acct E files d'))"
proof -
  from assms obtain d1 where "invalidate_credential E c k reason now d1 = (Inr Applied, d')"
    by (auto simp: mark_reauth_required_if_current_def returnT_def elim!: bindT_okE)
  then obtain d2 where "persist_auth_state_unlocked E \<lparr>la_version = Pairing_State_Version,
      la_status = Reauthorization_Required, la_reason = reason, la_changed_at = now\<rparr> d2 = (Inr (), d')"
    by (auto simp: invalidate_credential_def returnT_def liftR_def elim!: bindT_okE dest!: readT_ok
        split: option.splits if_splits)
  then show ?thesis
    by (auto simp: authorized_doc_def dest!: persist_auth_present)
qed

lemma unauthorized_no_reporter:
  assumes "\<not> authorized_doc (ac_auth (acct E files d))"
  shows "for_existing_credential E c d \<noteq> Inr (Some rp)"
    and "\<not> is_activating (ac_state (acct E files d)) \<Longrightarrow>
      fst (existing_reporter_for_run E c t1 t2 d) \<noteq> Inr (Some s)"
proof -
  show "for_existing_credential E c d \<noteq> Inr (Some rp)"
    using assms by (auto elim!: for_existing_credential_Some load_credential_Some)
  assume na: "\<not> is_activating (ac_state (acct E files d))"
  show "fst (existing_reporter_for_run E c t1 t2 d) \<noteq> Inr (Some s)"
  proof
    assume "fst (existing_reporter_for_run E c t1 t2 d) = Inr (Some s)"
    then obtain d2 where r: "existing_reporter_for_run E c t1 t2 d = (Inr (Some s), d2)"
      by (metis prod.collapse)
    have "acct E files d2 = acct E files d"
      using r unfolding existing_reporter_for_run_def
    proof (cases rule: locked_cases)
      case (run d1)
      with na have "\<not> (case x of None \<Rightarrow> False | Some s \<Rightarrow> is_activating (Present s))"
        if "load_state E d1 = Inr x" for x
        using that by (auto dest: load_state_Some split: option.splits)
      with run show ?thesis
        by (auto simp: returnT_def failT_def elim!: bindT_okE dest!: readT_ok split: if_splits option.splits)
    qed auto
    with run_coherent [OF r] assms show False
      by (simp add: coherent_snapshot_def)
  qed
qed

section \<open>The lock-free status\<close>

text \<open>
  When a status with an active endpoint is returned, one attempt has read the same Active
  journal before and after it read exactly the binding of that journal.
\<close>

lemma local_status_attempts_consistent:
  assumes "local_status_attempts E c disk k n = Inr st" and "ls_active_report_endpoint st = Some e"
  shows "\<exists>j b s s'. k \<le> j \<and> j < k + n \<and> ab_report_endpoint b = e \<and>
    ac_state (acct E files (disk j 0)) = Present s \<and> binding_from_active_state s = Inr b \<and>
    ac_binding (acct E files (disk j 1)) = Present b \<and>
    ac_state (acct E files (disk j 2)) = Present s' \<and> binding_from_active_state s' = Inr b \<and>
    ls_progress st = Some (progress_from_terminal s)"
  using assms
proof (induction n arbitrary: k)
  case (Suc n)
  let ?go = "local_status_attempts E c disk"
  from Suc.prems(1) obtain x where x: "load_state E (disk k 0) = Inr x"
    by (auto simp: bindR_Inr_iff)
  show ?case
  proof (cases "case x of None \<Rightarrow> False | Some s \<Rightarrow> is_active (Present s)")
    case False
    with Suc.prems x show ?thesis by auto
  next
    case True
    then obtain s where s: "x = Some s" by (auto split: option.splits)
    from Suc.prems(1) x True s obtain b y where b: "binding_from_active_state s = Inr b"
      and y: "load_state E (disk k 2) = Inr y"
      by (auto simp: bindR_Inr_iff Let_def)
    show ?thesis
    proof (cases "current_binding_of y = Some b")
      case False
      with Suc.prems(1) x True s b y have "?go (Suc k) n = Inr st" by simp
      from Suc.IH [OF this Suc.prems(2)] obtain j b s s' where "Suc k \<le> j \<and> j < Suc k + n \<and> ab_report_endpoint b = e \<and>
        ac_state (acct E files (disk j 0)) = Present s \<and> binding_from_active_state s = Inr b \<and>
        ac_binding (acct E files (disk j 1)) = Present b \<and>
        ac_state (acct E files (disk j 2)) = Present s' \<and> binding_from_active_state s' = Inr b \<and>
        ls_progress st = Some (progress_from_terminal s)" by blast
      then show ?thesis by (intro exI [of _ j] exI [of _ b] exI [of _ s] exI [of _ s']) simp
    next
      case current: True
      then obtain s' where s': "y = Some s'" "binding_from_active_state s' = Inr b"
        by (auto simp: current_binding_of_def split: option.splits sum.splits)
      from Suc.prems(1) x True s b y current have lb: "load_active_binding E c (disk k 1) = Inr (Some b)"
        and st: "st = \<lparr>ls_progress = Some (progress_from_terminal s),
                       ls_active_report_endpoint = Some (ab_report_endpoint b)\<rparr>"
        by (auto simp: bindR_Inr_iff split: option.splits if_splits)
      have "ac_state (acct E files (disk k 0)) = Present s" and "ac_state (acct E files (disk k 2)) = Present s'"
        using x s y s' by (simp_all add: load_state_Some)
      with active_binding_Some [OF lb] st b s' Suc.prems(2) show ?thesis
        by (intro exI [of _ k] exI [of _ b] exI [of _ s] exI [of _ s']) simp
    qed
  qed
qed simp

end

end
