(* ===== verification/Reference_Env.thy ===== *)
theory Reference_Env
  imports Memory_Directory Local_Correct
begin

text \<open>
  A reference environment: a document format, UUID texts and URLs given by functions, over
  the directory in memory. It discharges every assumption that the pairing component makes
  of other crates, for all documents and all UUIDs, so that the theorems under those
  assumptions are about something.
\<close>

section \<open>Fields\<close>

text \<open>A document is a list of fields; every character of a field is preceded by a dot.\<close>

definition field_text :: "string \<Rightarrow> string" where
  "field_text s = concat (map (\<lambda>c. [CHR ''.'', c]) s) @ '';''"

definition fields_text :: "string list \<Rightarrow> string" where
  "fields_text fs = concat (map field_text fs)"

fun parse_fields :: "string \<Rightarrow> string \<Rightarrow> string list option" where
  "parse_fields acc [] = (if acc = [] then Some [] else None)"
| "parse_fields acc [c] = (if c = CHR '';'' then Some [rev acc] else None)"
| "parse_fields acc (c # k # s) =
     (if c = CHR ''.'' then parse_fields (k # acc) s
      else if c = CHR '';'' then map_option ((#) (rev acc)) (parse_fields [] (k # s))
      else None)"

lemma parse_field:
  "parse_fields acc (field_text s @ r) =
     (if r = [] then Some [rev acc @ s] else map_option ((#) (rev acc @ s)) (parse_fields [] r))"
proof (induction s arbitrary: acc)
  case Nil
  then show ?case by (cases r) (simp_all add: field_text_def)
next
  case (Cons c s)
  have "field_text (c # s) @ r = CHR ''.'' # c # (field_text s @ r)"
    by (simp add: field_text_def)
  then show ?case
    using Cons.IH [of "c # acc"] by simp
qed

lemma fields_text_Cons: "fields_text (f # fs) = field_text f @ fields_text fs"
  by (simp add: fields_text_def)

lemma fields_text_Nil_iff: "fields_text fs = [] \<longleftrightarrow> fs = []"
  by (cases fs) (simp_all add: fields_text_def field_text_def)

lemma parse_fields_text [simp]: "parse_fields [] (fields_text fs) = Some fs"
proof (induction fs)
  case Nil
  then show ?case by (simp add: fields_text_def)
next
  case (Cons f fs)
  then show ?case
    by (simp add: fields_text_Cons parse_field fields_text_Nil_iff)
qed

lemma fields_text_edges:
  assumes "fs \<noteq> []" and "hd fs \<noteq> []"
  shows "fields_text fs \<noteq> [] \<and> \<not> blank_edge (fields_text fs)"
proof -
  have last: "last (fields_text fs) = CHR '';''" and ne: "fields_text fs \<noteq> []"
    using assms(1) by (induction fs rule: rev_induct) (simp_all add: fields_text_def field_text_def)
  have "hd (fields_text fs) = CHR ''.''"
    using assms by (cases fs; cases "hd fs") (auto simp: fields_text_def field_text_def)
  with last ne show ?thesis
    using plain_edges [of "fields_text fs"] by (simp add: plain_byte_def byte_def)
qed

section \<open>Numbers\<close>

definition digit_value :: "char \<Rightarrow> nat" where
  "digit_value c = (if 97 \<le> byte c then byte c - 87 else byte c - 48)"

lemma digit_value_digit: "n < 16 \<Longrightarrow> digit_value (hex_digits ! n) = n"
proof -
  assume "n < 16"
  then have "n \<in> set [0..<16]" by simp
  then show ?thesis
    by (auto simp: upt_rec digit_value_def hex_digits_def byte_def)
qed

definition digits_of :: "nat \<Rightarrow> nat \<Rightarrow> string" where
  "digits_of k n = map (\<lambda>i. hex_digits ! ((n div 16 ^ i) mod 16)) (rev [0..<k])"

definition value_of :: "string \<Rightarrow> nat" where
  "value_of s = foldl (\<lambda>a c. 16 * a + digit_value c) 0 s"

lemma value_digits_acc:
  "foldl (\<lambda>a c. 16 * a + digit_value c) a (digits_of k n) = a * 16 ^ k + n mod 16 ^ k"
proof (induction k arbitrary: a)
  case (Suc k)
  have "n mod 16 ^ Suc k = (n div 16 ^ k mod 16) * 16 ^ k + n mod 16 ^ k"
    by (simp add: mod_mult2_eq mult.commute [of 16])
  then show ?case
    using Suc by (simp add: digits_of_def digit_value_digit algebra_simps)
qed (simp add: digits_of_def)

lemma value_digits: "value_of (digits_of k n) = n mod 16 ^ k"
  by (simp add: value_of_def value_digits_acc)

lemma length_digits [simp]: "length (digits_of k n) = k"
  by (simp add: digits_of_def)

lemma digits_plain: "list_all plain_byte (digits_of k n)"
  by (auto simp: digits_of_def list_all_iff intro!: token_byte_plain hex_digit_token)

definition word64_text :: "64 word \<Rightarrow> string" where
  "word64_text w = digits_of 16 (unat w)"

definition word64_parse :: "string \<Rightarrow> 64 word" where
  "word64_parse s = of_nat (value_of s)"

lemma word64_round [simp]: "word64_parse (word64_text w) = w"
proof -
  have "unat w mod 16 ^ 16 = unat w"
    using unsigned_less [of w, where 'a = nat] by simp
  then show ?thesis
    by (simp add: word64_parse_def word64_text_def value_digits)
qed

text \<open>An instant is a sign and as many digits as its absolute value has units; small for tests.\<close>

definition time_text :: "time \<Rightarrow> string" where
  "time_text t = (if t < 0 then ''-'' else ''+'') @ replicate (nat \<bar>t\<bar>) CHR ''1''"

definition time_parse :: "string \<Rightarrow> time" where
  "time_parse s = (if hd s = CHR ''-'' then - int (length s - 1) else int (length s - 1))"

lemma time_round [simp]: "time_parse (time_text t) = t"
  by (simp add: time_parse_def time_text_def)

section \<open>UUIDs\<close>

definition hyphenate :: "string \<Rightarrow> string" where
  "hyphenate h = take 8 h @ ''-'' @ take 4 (drop 8 h) @ ''-'' @ take 4 (drop 12 h) @ ''-''
     @ take 4 (drop 16 h) @ ''-'' @ drop 20 h"

definition unhyphenate :: "string \<Rightarrow> string" where
  "unhyphenate s = take 8 s @ take 4 (drop 9 s) @ take 4 (drop 14 s) @ take 4 (drop 19 s) @ drop 24 s"

definition ref_uuid_text :: "uuid \<Rightarrow> string" where
  "ref_uuid_text u = hyphenate (digits_of 32 (unat u))"

definition ref_uuid_parse :: "string \<Rightarrow> uuid option" where
  "ref_uuid_parse s =
     (let h = unhyphenate s in
      if length s = 36 \<and> list_all is_token_byte h \<and> s = hyphenate h then Some (of_nat (value_of h)) else None)"

lemma drop_split: "drop n h = take m (drop n h) @ drop (n + m) h"
  by (metis append_take_drop_id add.commute drop_drop)

lemma unhyphenate_hyphenate:
  assumes "length h = 32"
  shows "unhyphenate (hyphenate h) = h"
proof -
  define a where "a = take 8 h"
  define b where "b = take 4 (drop 8 h)"
  define c where "c = take 4 (drop 12 h)"
  define e where "e = take 4 (drop 16 h)"
  define f where "f = drop 20 h"
  have len: "length a = 8" "length b = 4" "length c = 4" "length e = 4"
    using assms by (simp_all add: a_def b_def c_def e_def)
  have "h = a @ b @ c @ e @ f"
    using drop_split [of 0 h 8] drop_split [of 8 h 4] drop_split [of 12 h 4] drop_split [of 16 h 4]
    by (simp add: a_def b_def c_def e_def f_def)
  moreover have "hyphenate h = a @ ''-'' @ b @ ''-'' @ c @ ''-'' @ e @ ''-'' @ f"
    by (simp add: hyphenate_def a_def b_def c_def e_def f_def)
  ultimately show ?thesis
    using len by (simp add: unhyphenate_def)
qed

lemma digits_token: "list_all is_token_byte (digits_of k n)"
  by (auto simp: digits_of_def list_all_iff intro!: hex_digit_token)

lemma length_hyphenate: "length h = 32 \<Longrightarrow> length (hyphenate h) = 36"
  by (simp add: hyphenate_def)

lemma ref_uuid_round: "ref_uuid_parse (ref_uuid_text u) = Some u"
proof -
  have "unat u mod 16 ^ 32 = unat u"
    using unsigned_less [of u, where 'a = nat] by simp
  then show ?thesis
    by (simp add: ref_uuid_parse_def ref_uuid_text_def Let_def unhyphenate_hyphenate digits_token
        length_hyphenate value_digits)
qed

lemma ref_uuid_shape:
  "list_all plain_byte (ref_uuid_text u)" "ref_uuid_text u \<noteq> []" "length (ref_uuid_text u) = 36"
proof -
  have "set (hyphenate h) \<subseteq> set h \<union> {CHR ''-''}" for h
    by (auto simp: hyphenate_def dest: in_set_takeD in_set_dropD)
  moreover have "plain_byte CHR ''-''"
    by (simp add: plain_byte_def byte_def)
  ultimately show "list_all plain_byte (ref_uuid_text u)"
    using digits_plain [of 32 "unat u"] unfolding ref_uuid_text_def list_all_iff by blast
  show "length (ref_uuid_text u) = 36"
    by (simp add: ref_uuid_text_def length_hyphenate)
  then show "ref_uuid_text u \<noteq> []" by auto
qed

section \<open>Documents\<close>

definition option_text :: "string option \<Rightarrow> string" where
  "option_text v = (case v of None \<Rightarrow> ''-'' | Some s \<Rightarrow> ''+'' @ s)"

definition option_parse :: "string \<Rightarrow> string option" where
  "option_parse s = (if hd s = CHR ''-'' then None else Some (tl s))"

lemma option_round [simp]: "option_parse (option_text v) = v"
  by (cases v) (simp_all add: option_parse_def option_text_def)

definition host_fields :: "host_identity \<Rightarrow> string list" where
  "host_fields h = [hi_id h, hi_os h, option_text (hi_os_version h), option_text (hi_kernel_version h),
     hi_arch h, hi_client_version h]"

fun host_from :: "string list \<Rightarrow> host_identity option" where
  "host_from [i, os, ov, kv, ar, cv] = Some
     \<lparr>hi_id = i, hi_os = os, hi_os_version = option_parse ov, hi_kernel_version = option_parse kv,
      hi_arch = ar, hi_client_version = cv\<rparr>"
| "host_from fs = None"

lemma host_round: "host_from (host_fields h) = Some h"
  by (simp add: host_fields_def)

text \<open>A UUID field holds the canonical text, which the format of a UUID always parses.\<close>

definition ref_uuid_of :: "string \<Rightarrow> uuid" where
  "ref_uuid_of s = (case ref_uuid_parse s of None \<Rightarrow> 0 | Some u \<Rightarrow> u)"

lemma ref_uuid_of_text [simp]: "ref_uuid_of (ref_uuid_text u) = u"
  by (simp add: ref_uuid_of_def ref_uuid_round)

fun state_fields :: "stored_pairing_state \<Rightarrow> string list" where
  "state_fields (Creating v g pe re h bs ps) =
     [''creating'', ref_uuid_text g, pe, re, bs, ps] @ host_fields h"
| "state_fields (Pending v g r au ex pi pe re bs ps) =
     [''pending'', ref_uuid_text g, ref_uuid_text r, au, time_text ex, word64_text pi, pe, re, bs, ps]"
| "state_fields (Activating v g r au ex pi i pe re bs) =
     [''activating'', ref_uuid_text g, ref_uuid_text r, au, time_text ex, word64_text pi, ref_uuid_text i, pe, re, bs]"
| "state_fields (Active v g r au i re t) =
     [''active'', ref_uuid_text g, ref_uuid_text r, au, ref_uuid_text i, re, time_text t]"
| "state_fields (Denied v g r au re t) =
     [''denied'', ref_uuid_text g, ref_uuid_text r, au, re, time_text t]"
| "state_fields (Expired v g r au re t) =
     [''expired'', ref_uuid_text g, ref_uuid_text r, au, re, time_text t]"

definition state_from :: "string list \<Rightarrow> stored_pairing_state option" where
  "state_from fs =
     (let tag = hd fs; f = (\<lambda>n. fs ! n); u = (\<lambda>n. ref_uuid_of (fs ! n)); v = Pairing_State_Version in
      if tag = ''creating''
      then map_option (\<lambda>h. Creating v (u 1) (f 2) (f 3) h (f 4) (f 5)) (host_from (drop 6 fs))
      else if tag = ''pending''
      then Some (Pending v (u 1) (u 2) (f 3) (time_parse (f 4)) (word64_parse (f 5)) (f 6) (f 7) (f 8) (f 9))
      else if tag = ''activating''
      then Some (Activating v (u 1) (u 2) (f 3) (time_parse (f 4)) (word64_parse (f 5)) (u 6) (f 7) (f 8) (f 9))
      else if tag = ''active'' then Some (Active v (u 1) (u 2) (f 3) (u 4) (f 5) (time_parse (f 6)))
      else if tag = ''denied'' then Some (Denied v (u 1) (u 2) (f 3) (f 4) (time_parse (f 5)))
      else if tag = ''expired'' then Some (Expired v (u 1) (u 2) (f 3) (f 4) (time_parse (f 5)))
      else None)"

lemma version_unique [simp]: "Pairing_State_Version = v"
  by (cases v) simp

lemma state_round: "state_from (state_fields s) = Some s"
  by (cases s; simp add: state_from_def Let_def host_round)

definition binding_fields :: "active_binding \<Rightarrow> string list" where
  "binding_fields b = [ref_uuid_text (ab_generation b), ref_uuid_text (ab_request_id b),
     ref_uuid_text (ab_instance_id b), ab_report_endpoint b]"

definition binding_from :: "string list \<Rightarrow> active_binding option" where
  "binding_from fs = Some \<lparr>ab_version = Pairing_State_Version, ab_generation = ref_uuid_of (fs ! 0),
     ab_request_id = ref_uuid_of (fs ! 1), ab_instance_id = ref_uuid_of (fs ! 2), ab_report_endpoint = fs ! 3\<rparr>"

lemma binding_round: "binding_from (binding_fields b) = Some b"
  by (cases b) (simp add: binding_from_def binding_fields_def)

definition auth_fields :: "local_auth_state \<Rightarrow> string list" where
  "auth_fields a = [(if la_status a = Authorized then ''authorized'' else ''reauthorization_required''),
     la_reason a, time_text (la_changed_at a)]"

definition auth_from :: "string list \<Rightarrow> local_auth_state option" where
  "auth_from fs = Some \<lparr>la_version = Pairing_State_Version,
     la_status = (if fs ! 0 = ''authorized'' then Authorized else Reauthorization_Required),
     la_reason = fs ! 1, la_changed_at = time_parse (fs ! 2)\<rparr>"

lemma auth_round: "auth_from (auth_fields a) = Some a"
  by (cases a; cases "la_status a") (simp_all add: auth_from_def auth_fields_def)

definition document :: "('a \<Rightarrow> string list) \<Rightarrow> 'a \<Rightarrow> string option" where
  "document to_fields x = Some (fields_text (persisted_state_format # to_fields x))"

definition document_header :: "string \<Rightarrow> json option" where
  "document_header b = (case parse_fields [] b of Some (v # fs) \<Rightarrow> Some (J_String v) | _ \<Rightarrow> None)"

definition read_document :: "(string list \<Rightarrow> 'a option) \<Rightarrow> string \<Rightarrow> 'a option" where
  "read_document from_fields b = (case parse_fields [] b of Some (v # fs) \<Rightarrow> from_fields fs | _ \<Rightarrow> None)"

lemma document_laws:
  assumes "\<And>x. from_fields (to_fields x) = Some x" and "document to_fields x = Some b"
  shows "document_header b = Some (J_String persisted_state_format)"
    and "read_document from_fields b = Some x" and "b \<noteq> [] \<and> \<not> blank_edge b"
  using assms fields_text_edges [of "persisted_state_format # to_fields x"]
  by (auto simp: document_def document_header_def read_document_def persisted_state_format_def)

section \<open>URLs\<close>

text \<open>
  \<open>https://host/path\<close> without credentials, port, query or fragment; every other text is
  refused. Path edits rebuild the text.
\<close>

definition ref_url :: "string \<Rightarrow> string \<Rightarrow> url" where
  "ref_url host path =
     \<lparr>u_text = ''https://'' @ host @ path, u_scheme = ''https'', u_username = [], u_password = None,
      u_host = Some host, u_port = None, u_port_or_default = Some 443, u_path = path, u_query = None,
      u_fragment = None, u_cannot_be_a_base = False, u_origin = ''https://'' @ host\<rparr>"

definition ref_url_parse :: "string \<Rightarrow> url option" where
  "ref_url_parse s =
     (let rest = drop 8 s; host = takeWhile (\<lambda>c. c \<noteq> CHR ''/'') rest;
          path = dropWhile (\<lambda>c. c \<noteq> CHR ''/'') rest in
      if starts_with ''https://'' s \<and> host \<noteq> [] \<and> list_all (\<lambda>c. c \<notin> set ''@?#: '') rest
      then Some (ref_url host (if path = [] then ''/'' else path)) else None)"

definition ref_set_path :: "string \<Rightarrow> url \<Rightarrow> url" where
  "ref_set_path path u = ref_url (the (u_host u)) path"

definition ref_urls :: url_ops where
  "ref_urls = \<lparr>url_parse = ref_url_parse, url_join = (\<lambda>u s. ref_url_parse (''https://'' @ the (u_host u) @ s)),
     url_set_path = ref_set_path, url_set_query = (\<lambda>q u. u\<lparr>u_query := q\<rparr>),
     url_set_fragment = (\<lambda>q u. u\<lparr>u_fragment := q\<rparr>),
     url_pop_if_empty = (\<lambda>u. ref_set_path (trim_end_matches CHR ''/'' (u_path u)) u),
     url_push = (\<lambda>s u. ref_set_path (u_path u @ ''/'' @ s) u)\<rparr>"

section \<open>The environment\<close>

definition ref_protocol :: protocol where
  "ref_protocol = \<lparr>client_report_path = ''/api/v1/xsoc/report'',
     client_pairing_requests_path = ''/api/v1/xsoc/pairing-requests'',
     browser_activation_path_prefix = ''/activate/'', host_pairing_protocol_version = 1,
     client_report_schema_version = 1, client_report_max_body_bytes = 262144\<rparr>"

text \<open>An error envelope is a document of code, retryable and request ID.\<close>

definition ref_envelope :: "string \<Rightarrow> error_envelope option" where
  "ref_envelope b =
     (case parse_fields [] b of
        Some [code, retryable, request_id] \<Rightarrow>
          Some \<lparr>ee_code = code, ee_retryable = (retryable = ''true''),
            ee_details = (\<lambda>k. if k = ''request_id'' then Some (J_String request_id) else None)\<rparr>
      | _ \<Rightarrow> None)"

definition ref_http :: http_ops where
  "ref_http = \<lparr>header_value_ok = list_all (\<lambda>c. 32 \<le> byte c \<and> byte c < 127), header_to_str = Some, request_builds = (\<lambda>r. True),
     parse_envelope = ref_envelope, tls_read_input = (\<lambda>p i n. Inl (Message ''no such file'')),
     identity_from_pem_ok = (\<lambda>b. False), certificates_in_bundle = (\<lambda>b. None), client_builds = True\<rparr>"

definition ref_host :: host_identity where
  "ref_host = \<lparr>hi_id = [], hi_os = ''linux'', hi_os_version = None, hi_kernel_version = None,
     hi_arch = ''x86_64'', hi_client_version = ''1.0.0''\<rparr>"

definition ref_status_from :: "string list \<Rightarrow> status_response option" where
  "ref_status_from fs =
     (case fs of
        [st, i] \<Rightarrow> map_option (\<lambda>s. \<lparr>sr_status = s, sr_instance_id = option_parse i\<rparr>)
          (map_of [(''waiting'', S_Waiting), (''active'', S_Active), (''denied'', S_Denied), (''expired'', S_Expired)] st)
      | _ \<Rightarrow> None)"

definition ref_created_from :: "string list \<Rightarrow> create_response option" where
  "ref_created_from fs =
     (case fs of
        [r, au, ex, pi] \<Rightarrow> Some \<lparr>cr_request_id = r, cr_activation_url = au,
          cr_expires_in = of_nat (length ex), cr_poll_interval = of_nat (length pi)\<rparr>
      | _ \<Rightarrow> None)"

definition ref_env :: "memory_dir env" where
  "ref_env = \<lparr>env_fs = mem_ops, env_url = ref_urls, env_proto = ref_protocol, env_http = ref_http,
     json_version = document_header,
     encode_state = document state_fields, decode_state = read_document state_from,
     encode_binding = document binding_fields, decode_binding = read_document binding_from,
     encode_auth = document auth_fields, decode_auth = read_document auth_from,
     uuid_text = ref_uuid_text, uuid_parse = ref_uuid_parse,
     contract_new = Some,
     identity_new = (\<lambda>p i k. Some \<lparr>ci_product_id = p, ci_instance_id = i, ci_contract_id = k\<rparr>),
     identity_matches = (=), os_details = ref_host, sha256 = (\<lambda>s. take 32 (s @ replicate 32 CHR 0x00)),
     add_seconds = (\<lambda>t w. Some (t + int (unat w))),
     encode_create_request = (\<lambda>q. Some (fields_text ([cq_token_hash q, cq_polling_secret_hash q] @ host_fields (cq_host q)))),
     encode_activate_request = (\<lambda>r k. Some (fields_text [r, k])),
     parse_create_response = (\<lambda>b. Option.bind (parse_fields [] b) ref_created_from),
     parse_status_response = (\<lambda>b. Option.bind (parse_fields [] b) ref_status_from),
     parse_activate_response = (\<lambda>b. Option.bind (parse_fields [] b) (\<lambda>fs. case fs of [i] \<Rightarrow> Some i | _ \<Rightarrow> None))\<rparr>"

lemma ref_env_simps [simp]:
  "env_fs ref_env = mem_ops" "env_url ref_env = ref_urls" "env_proto ref_env = ref_protocol"
  "env_http ref_env = ref_http" "uuid_text ref_env = ref_uuid_text" "uuid_parse ref_env = ref_uuid_parse"
  "json_version ref_env = document_header"
  "encode_state ref_env = document state_fields" "decode_state ref_env = read_document state_from"
  "encode_binding ref_env = document binding_fields" "decode_binding ref_env = read_document binding_from"
  "encode_auth ref_env = document auth_fields" "decode_auth ref_env = read_document auth_from"
  by (simp_all add: ref_env_def)

interpretation ref_state: document_codec document_header "document state_fields" "read_document state_from"
  by unfold_locales (rule document_laws [of state_from state_fields, OF state_round], assumption)+

interpretation ref_binding: document_codec document_header "document binding_fields" "read_document binding_from"
  by unfold_locales (rule document_laws [of binding_from binding_fields, OF binding_round], assumption)+

interpretation ref_auth: document_codec document_header "document auth_fields" "read_document auth_from"
  by unfold_locales (rule document_laws [of auth_from auth_fields, OF auth_round], assumption)+

interpretation ref: healthy_pairing_env ref_env mem_files mem_healthy
proof (intro healthy_pairing_env.intro pairing_env.intro pairing_env_axioms.intro)
  show "private_directory (env_fs ref_env) mem_files"
    by (simp add: mem.private_directory_axioms)
  show "healthy_directory (env_fs ref_env) mem_files mem_healthy"
    by (simp add: mem.healthy_directory_axioms)
  show "document_codec (json_version ref_env) (encode_state ref_env) (decode_state ref_env)"
    by (simp add: ref_state.document_codec_axioms)
  show "document_codec (json_version ref_env) (encode_binding ref_env) (decode_binding ref_env)"
    by (simp add: ref_binding.document_codec_axioms)
  show "document_codec (json_version ref_env) (encode_auth ref_env) (decode_auth ref_env)"
    by (simp add: ref_auth.document_codec_axioms)
  fix u s t p i k ci and a b :: client_identity
  show "uuid_parse ref_env (uuid_text ref_env u) = Some u" by (simp add: ref_uuid_round)
  show "list_all plain_byte (uuid_text ref_env u)" by (simp add: ref_uuid_shape)
  show "uuid_text ref_env u \<noteq> [] \<and> length (uuid_text ref_env u) \<le> 128" by (simp add: ref_uuid_shape)
  show "contract_new ref_env s = Some t \<Longrightarrow> t = s" by (simp add: ref_env_def)
  show "identity_new ref_env p i k = Some ci \<Longrightarrow>
      ci = \<lparr>ci_product_id = p, ci_instance_id = i, ci_contract_id = k\<rparr>" by (simp add: ref_env_def)
  show "identity_matches ref_env a b = (a = b)" by (simp add: ref_env_def)
qed

section \<open>Computing with the environment\<close>

lemma ref_uuid_chars: "list_all (\<lambda>c. is_token_byte c \<or> c = CHR ''-'') (ref_uuid_text u)"
proof -
  have "set (hyphenate h) \<subseteq> set h \<union> {CHR ''-''}" for h
    by (auto simp: hyphenate_def dest: in_set_takeD in_set_dropD)
  then show ?thesis
    using digits_token [of 32 "unat u"] unfolding ref_uuid_text_def list_all_iff by blast
qed

lemma length_field_text [simp]: "length (field_text s) = 2 * length s + 1"
  by (simp add: field_text_def length_concat comp_def sum_list_triv)

lemma length_fields_text [simp]: "length (fields_text fs) = (\<Sum>f\<leftarrow>fs. 2 * length f + 1)"
  by (simp add: fields_text_def length_concat comp_def)

lemma length_ref_uuid_text [simp]: "length (ref_uuid_text u) = 36"
  by (rule ref_uuid_shape)

lemma length_word64_text [simp]: "length (word64_text u) = 16"
  by (simp add: word64_text_def)

lemma length_time_text [simp]: "length (time_text t) = Suc (nat \<bar>t\<bar>)"
  by (simp add: time_text_def)
lemma ref_urls_simps [simp]:
  "url_parse ref_urls = ref_url_parse"
  "url_push ref_urls t u = ref_set_path (u_path u @ ''/'' @ t) u"
  "url_pop_if_empty ref_urls u = ref_set_path (trim_end_matches CHR ''/'' (u_path u)) u"
  "url_set_path ref_urls = ref_set_path"
  "url_set_query ref_urls q u = u\<lparr>u_query := q\<rparr>"
  "url_set_fragment ref_urls q u = u\<lparr>u_fragment := q\<rparr>"
  by (simp_all add: ref_urls_def)

lemma ref_url_simps [simp]:
  "u_scheme (ref_url h p) = ''https''" "u_host (ref_url h p) = Some h" "u_username (ref_url h p) = []"
  "u_password (ref_url h p) = None" "u_fragment (ref_url h p) = None"
  "u_port_or_default (ref_url h p) = Some 443" "u_query (ref_url h p) = None" "u_path (ref_url h p) = p"
  "u_port (ref_url h p) = None" "u_cannot_be_a_base (ref_url h p) = False"
  "u_text (ref_url h p) = ''https://'' @ h @ p"
  "ref_set_path q (ref_url h p) = ref_url h q"
  by (simp_all add: ref_url_def ref_set_path_def)

end
