(* ===== verification/Example_Data.thy ===== *)
theory Example_Data
  imports Reference_Env
begin

text \<open>
  Concrete accounts, directories and inputs for the reference environment, on which the
  theorems of the development are applied.
\<close>

definition ex_endpoint :: string where
  "ex_endpoint = ''https://a/api/v1/xsoc/report''"

definition ex_pairing_endpoint :: string where
  "ex_pairing_endpoint = ''https://a/api/v1/xsoc/pairing-requests''"

definition ex_config :: client_config where
  "ex_config = \<lparr>endpoint = ex_endpoint, pairing_endpoint_field = None, otlp_endpoint = None,
     otlp_token = None, interval_seconds = 60, slow_interval_seconds = 3600,
     smart = \<lparr>smart_enabled = False, smart_interval_seconds = 3600, smart_executable = None\<rparr>,
     request_timeout_seconds = 30, jitter_percent = 10, state_dir = ''/s'', spool_max_bytes = 1048576,
     tls_identity_pem = None, tls_identity_pkcs12 = None, tls_identity_password = None,
     tls_ca_pem = None, config_path = None, server_override = None, endpoint_override = None,
     replace_pending_pairing = False, output_mode_field = Human, doctor_delivery = False, config_issue = None\<rparr>"

definition ex_token :: string where
  "ex_token = replicate 64 CHR ''a''"

definition ex_polling :: string where
  "ex_polling = replicate 64 CHR ''b''"

definition ex_activation_url :: string where
  "ex_activation_url = ''https://a/activate/'' @ ref_uuid_text 2"

definition ex_creating :: stored_pairing_state where
  "ex_creating = Creating Pairing_State_Version 1 ex_pairing_endpoint ex_endpoint
     (ref_host\<lparr>hi_id := ref_uuid_text 3\<rparr>) ex_token ex_polling"

definition ex_pending :: stored_pairing_state where
  "ex_pending = Pending Pairing_State_Version 1 2 ex_activation_url 9 5 ex_pairing_endpoint ex_endpoint
     ex_token ex_polling"

definition ex_journal :: stored_pairing_state where
  "ex_journal = Activating Pairing_State_Version 1 2 ex_activation_url 9 5 3 ex_pairing_endpoint ex_endpoint ex_token"

definition ex_active :: stored_pairing_state where
  "ex_active = Active Pairing_State_Version 1 2 ex_activation_url 3 ex_endpoint 0"

definition ex_binding :: active_binding where
  "ex_binding = \<lparr>ab_version = Pairing_State_Version, ab_generation = 1, ab_request_id = 2,
     ab_instance_id = 3, ab_report_endpoint = ex_endpoint\<rparr>"

definition ex_auth :: local_auth_state where
  "ex_auth = \<lparr>la_version = Pairing_State_Version, la_status = Authorized, la_reason = ''paired'', la_changed_at = 0\<rparr>"

definition ex_dir :: "(state_file \<times> string option) list \<Rightarrow> fault list \<Rightarrow> memory_dir" where
  "ex_dir docs plan = \<lparr>mem_files = foldr (\<lambda>(f, b) m. m(file_name f := b)) docs (\<lambda>n. None), mem_faults = plan\<rparr>"

definition ex_state_dir :: "stored_pairing_state \<Rightarrow> memory_dir" where
  "ex_state_dir s = ex_dir [(Pairing, document state_fields s)] []"

text \<open>A network that answers every request with one status and one JSON body.\<close>

definition ex_net :: "nat \<Rightarrow> string \<Rightarrow> network" where
  "ex_net status body = (\<lambda>rq. Inr \<lparr>rr_status = status, rr_headers = [(''content-type'', ''application/json'')],
     rr_content_length = None, rr_chunks = [Inr body]\<rparr>)"

definition ex_inputs :: "network \<Rightarrow> memory_dir inputs" where
  "ex_inputs net = \<lparr>in_net = net, in_before = (\<lambda>d. d), in_during = (\<lambda>d. d), in_now = 4, in_commit_at = 5,
     in_completed_at = 6, in_uuid = 1, in_bearer_entropy = Some (replicate 32 CHR ''k''),
     in_polling_entropy = Some (replicate 32 CHR ''p'')\<rparr>"

lemmas ex_defs = ex_config_def ex_token_def ex_polling_def ex_activation_url_def ex_creating_def
  ex_pending_def ex_journal_def ex_active_def ex_binding_def ex_auth_def ex_dir_def ex_state_dir_def
  ex_net_def ex_inputs_def ex_endpoint_def ex_pairing_endpoint_def

section \<open>Facts about them\<close>

lemma ex_acct_plan:
  "acct ref_env mem_files (ex_dir [(Pairing, document state_fields s)] plan) = empty_account\<lparr>ac_state := Present s\<rparr>"
proof -
  have "doc_of document_header (read_document state_from) (document state_fields s) = Present s"
    using document_laws [of state_from state_fields s, OF state_round]
    by (auto simp: doc_of_def document_def)
  then show ?thesis
    by (simp add: acct_def account_of_def slot_def ex_dir_def doc_of_def empty_account_def)
qed

lemma ex_acct_state: "acct ref_env mem_files (ex_state_dir s) = empty_account\<lparr>ac_state := Present s\<rparr>"
  by (simp add: ex_state_dir_def ex_acct_plan)

lemma ex_intact_state:
  "\<not> is_active (Present s) \<Longrightarrow> intact ref_env (acct ref_env mem_files (ex_state_dir s))"
  by (auto simp: ex_acct_state empty_account_def authorized_doc_def intro!: intact_unauthorized_inactive)

lemma ex_respectful: "respectful P (ex_inputs net)"
  by (simp add: respectful_def ex_inputs_def)

lemma ex_token_ok: "token_ok ex_token"
  by (simp add: token_ok_def ex_token_def is_token_byte_def byte_def list_all_iff)

lemma ex_healthy [simp]: "mem_healthy (ex_state_dir s)"
  by (simp add: mem_healthy_def ex_state_dir_def ex_dir_def)

lemma ex_parse [simp]:
  "ref_url_parse ex_endpoint = Some (ref_url ''a'' ''/api/v1/xsoc/report'')"
  "ref_url_parse ex_pairing_endpoint = Some (ref_url ''a'' ''/api/v1/xsoc/pairing-requests'')"
  by (simp_all add: ref_url_parse_def ex_defs starts_with_def Let_def)

lemma ex_pairing_endpoint_derived: "pairing_endpoint ref_urls ref_protocol ex_config = Inr ex_pairing_endpoint"
  by (simp add: pairing_endpoint_def ex_defs ref_protocol_def strip_suffix_def ends_with_def starts_with_def)

lemma ex_binding_valid: "validate_active_binding ref_env ex_config ex_binding = Inr ()"
  by (simp add: validate_active_binding_def ex_binding_def is_nil_def validate_durable_report_endpoint_def
      validate_endpoint_def with_context_def)

lemma ex_committable: "committable ref_env ex_config 5 6 ex_journal"
  using ex_binding_valid ex_token_ok
  by (simp add: committable_def ex_journal_def Let_def ex_binding_def fits_def document_def auth_fields_def
      binding_fields_def ex_token_def ex_activation_url_def ex_endpoint_def persisted_state_format_def)

lemma ex_journal_fits:
  "document state_fields ex_journal = Some (fields_text (persisted_state_format # state_fields ex_journal))"
  "length (fields_text (persisted_state_format # state_fields ex_journal)) \<le> max_bytes Pairing"
  by (simp_all add: document_def ex_journal_def ex_token_def ex_activation_url_def ex_endpoint_def
      ex_pairing_endpoint_def persisted_state_format_def)

lemma ex_activating [simp]: "is_activating (Present ex_journal)"
  by (simp add: ex_journal_def)

section \<open>Requests and answers\<close>

lemma ex_client: "build_client ref_http ex_config = Inr \<lparr>hc_timeout = 30, hc_connect_timeout = 10,
   hc_follows_redirects = False, hc_max_header_list = max_header_bytes, hc_identity = None, hc_extra_roots = None\<rparr>"
  by (simp add: build_client_def build_client_with_timeout_def ex_config_def ref_http_def)

lemma ex_status_target: "pairing_status_endpoint ref_env ex_pairing_endpoint 2 =
   Inr (ref_url ''a'' (''/api/v1/xsoc/pairing-requests/'' @ ref_uuid_text 2 @ ''/status''))"
  by (simp add: pairing_status_endpoint_def validate_pairing_endpoint_def validate_endpoint_def with_context_def
      trim_end_matches_def)

lemma ex_auth_header: "pairing_authorization ref_http ex_polling = Inr (''Pairing '' @ ex_polling)"
  by (simp add: pairing_authorization_def ref_http_def ex_polling_def byte_def list_all_iff)

lemma ex_post: "length b \<le> 1000 \<Longrightarrow> length body \<le> 1000 \<Longrightarrow> post ref_env (ex_inputs (ex_net st body)) what u hs b =
   Inr \<lparr>hs_status = st, hs_headers = [(''content-type'', ''application/json'')], hs_body = body\<rparr>"
  by (simp add: post_def post_bounded_def ref_http_def execute_bounded_def ex_inputs_def ex_net_def with_context_def
   max_request_bytes_def max_error_response_bytes_def max_header_bytes_def checked_add64_def)

lemma ex_json_trim: "trim ''application/json'' = ''application/json''"
  by (rule trim_id, rule plain_edges) (simp_all add: plain_byte_def byte_def)

lemma ex_ct: "pairing_response_content_type ref_http \<lparr>hs_status = st, hs_headers = [(''content-type'', ''application/json'')], hs_body = body\<rparr> = ''application/json''"
  by (simp add: pairing_response_content_type_def content_type_of_def header_get_def ref_http_def pairing_content_type_for_diagnostics_def 
     before_first_def ex_json_trim to_ascii_lower_def byte_def)

lemma ex_json: "pairing_content_type_for_diagnostics ''application/json'' = ''application/json''"
  by (simp add: pairing_content_type_for_diagnostics_def 
     before_first_def ex_json_trim to_ascii_lower_def byte_def)

section \<open>A paired account\<close>

definition ex_paired_dir :: "stored_pairing_state \<Rightarrow> memory_dir" where
  "ex_paired_dir s = ex_dir [(Pairing, document state_fields s), (Binding, document binding_fields ex_binding),
     (Authorization, document auth_fields ex_auth), (Credential, Some ex_token), (Identity, Some (ref_uuid_text 3))] []"

definition ex_locked :: "memory_dir \<Rightarrow> memory_dir" where
  "ex_locked d = d\<lparr>mem_files := (mem_files d)(lock_name \<mapsto> [])\<rparr>"

lemma ex_lock: "mem_faults d = [] \<Longrightarrow> lock_state ref_env d = (Inr (), ex_locked d)"
  by (simp add: lock_state_def begin_transaction_def mem_ops_def mem_call_def bindT_def map_errT_def ex_locked_def)

lemma ex_paired_faults [simp]: "mem_faults (ex_paired_dir s) = []" "mem_faults (ex_locked (ex_paired_dir s)) = []"
  by (simp_all add: ex_paired_dir_def ex_dir_def ex_locked_def)

lemma ex_locked_slot [simp]: "slot mem_files (ex_locked d) = slot mem_files d"
  by (auto simp: slot_def ex_locked_def fun_eq_iff)

lemma ex_paired_slot [simp]:
  "slot mem_files (ex_paired_dir s) Pairing = document state_fields s"
  "slot mem_files (ex_paired_dir s) Binding = document binding_fields ex_binding"
  "slot mem_files (ex_paired_dir s) Authorization = document auth_fields ex_auth"
  "slot mem_files (ex_paired_dir s) Credential = Some ex_token"
  "slot mem_files (ex_paired_dir s) Identity = Some (ref_uuid_text 3)"
  by (simp_all add: slot_def ex_paired_dir_def ex_dir_def)

lemma ex_read:
  "slot mem_files d f = Some b \<Longrightarrow> length b \<le> max_bytes f \<Longrightarrow> read_file mem_ops f d = Inr b"
  by (simp add: read_file_def slot_def mem_ops_def mem_read_def)

lemma ex_decode:
  assumes "\<And>x. from_fields (to_fields x) = Some x" and "document to_fields x = Some b"
  shows "decode_pairing_document ref_env (read_document from_fields) b art = Inr x"
  using document_laws [of from_fields to_fields, OF assms] by (simp add: decode_pairing_document_def)

definition ex_fits :: "stored_pairing_state \<Rightarrow> bool" where
  "ex_fits s \<longleftrightarrow> \<not> is_nil (state_generation s) \<and>
     length (fields_text (persisted_state_format # state_fields s)) \<le> max_bytes Pairing"

lemma ex_fits_all: "ex_fits ex_creating" "ex_fits ex_pending" "ex_fits ex_journal" "ex_fits ex_active"
  by (simp_all add: ex_fits_def is_nil_def ex_creating_def ex_pending_def ex_journal_def ex_active_def
      persisted_state_format_def ex_pairing_endpoint_def ex_endpoint_def ex_token_def ex_polling_def
      ex_activation_url_def host_fields_def ref_host_def option_text_def)

lemma ex_load_state:
  assumes "slot mem_files d Pairing = document state_fields s" and "ex_fits s"
  shows "load_state ref_env d = Inr (Some s)"
proof -
  let ?b = "fields_text (persisted_state_format # state_fields s)"
  have b: "document state_fields s = Some ?b" by (simp add: document_def)
  have "read_file mem_ops Pairing d = Inr ?b"
    using assms b by (intro ex_read) (simp_all only: ex_fits_def)
  with ex_decode [of state_from state_fields, OF state_round b] assms(2) show ?thesis
    by (simp add: load_state_def ex_fits_def)
qed

lemma ex_load_binding:
  assumes "slot mem_files d Binding = document binding_fields ex_binding"
  shows "load_active_binding ref_env ex_config d = Inr (Some ex_binding)"
proof -
  let ?b = "fields_text (persisted_state_format # binding_fields ex_binding)"
  have b: "document binding_fields ex_binding = Some ?b" by (simp add: document_def)
  have "length ?b \<le> max_bytes Binding"
    by (simp add: binding_fields_def ex_binding_def persisted_state_format_def ex_endpoint_def)
  then have "read_file mem_ops Binding d = Inr ?b"
    using assms b by (intro ex_read) simp_all
  with ex_decode [of binding_from binding_fields, OF binding_round b] ex_binding_valid show ?thesis
    by (simp add: load_active_binding_def)
qed

lemma ex_load_auth:
  assumes "slot mem_files d Authorization = document auth_fields ex_auth"
  shows "local_auth_state_unlocked ref_env d = Inr (Some ex_auth)"
proof -
  let ?b = "fields_text (persisted_state_format # auth_fields ex_auth)"
  have b: "document auth_fields ex_auth = Some ?b" by (simp add: document_def)
  have "length ?b \<le> max_bytes Authorization"
    by (simp add: auth_fields_def ex_auth_def persisted_state_format_def)
  then have "read_file mem_ops Authorization d = Inr ?b"
    using assms b by (intro ex_read) simp_all
  with ex_decode [of auth_from auth_fields, OF auth_round b] show ?thesis
    by (simp add: local_auth_state_unlocked_def)
qed

definition ex_identity :: client_identity where
  "ex_identity = \<lparr>ci_product_id = ''xsos'', ci_instance_id = ref_uuid_text 3, ci_contract_id = host_report_contract\<rparr>"

lemma ex_for_instance: "for_instance ref_env (ref_uuid_text 3) = Inr ex_identity"
  by (simp add: for_instance_def ref_uuid_round ex_identity_def) (simp add: ref_env_def)

lemma ex_utf8: "utf8_valid (ref_uuid_text 3)" "utf8_valid ex_token"
  by (rule utf8_valid_plain, simp add: ref_uuid_shape)
    (rule utf8_valid_plain, simp add: ex_token_def plain_byte_def byte_def list_all_iff)

lemma ex_load_identity:
  assumes "slot mem_files d Identity = Some (ref_uuid_text 3)"
  shows "identity_from_state ref_env d = Inr ex_identity"
proof -
  have "read_file mem_ops Identity d = Inr (ref_uuid_text 3)"
    using assms by (intro ex_read) simp_all
  moreover have "trim (ref_uuid_text 3) = ref_uuid_text 3"
    using ref.uuid_edges [of 3] by (simp add: trim_id)
  ultimately show ?thesis
    by (simp add: identity_from_state_def ex_utf8 ex_for_instance)
qed

lemma ex_read_secret:
  assumes "slot mem_files d Credential = Some ex_token"
  shows "read_secret ref_env d = Inr ex_token"
proof -
  have "read_file mem_ops Credential d = Inr ex_token"
    using assms by (intro ex_read) (simp_all add: ex_token_def)
  moreover have v: "validate_current_token ex_token = Inr ()"
    using ex_token_ok by simp
  ultimately show ?thesis
    by (simp add: read_secret_def ex_utf8 with_context_def v del: validate_current_token_iff)
qed

definition ex_reporter :: reporter where
  "ex_reporter = \<lparr>rp_identity = ex_identity, rp_client = \<lparr>hc_timeout = 30, hc_connect_timeout = 10,
     hc_follows_redirects = False, hc_max_header_list = max_header_bytes, hc_identity = None, hc_extra_roots = None\<rparr>,
     rp_endpoint = ex_endpoint, rp_token = ex_token, rp_credential_revision = (1, 2),
     rp_otlp_endpoint = None, rp_otlp_token = None\<rparr>"

definition ex_snapshot :: reporter_snapshot where
  "ex_snapshot = \<lparr>rs_reporter = ex_reporter, rs_host = ref_host\<lparr>hi_id := ref_uuid_text 3\<rparr>, rs_report_endpoint = ex_endpoint\<rparr>"

lemma ex_config_bound: "config_for_active_binding ex_config ex_binding = ex_config"
  by (simp add: config_for_active_binding_def apply_active_config_def ex_config_def ex_binding_def)

lemma ex_credential_binding:
  assumes "slot mem_files d = slot mem_files (ex_paired_dir s)" and "ex_fits s" and "\<not> is_activating (Present s)"
    and "is_active (Present s) \<Longrightarrow> binding_from_active_state s = Inr ex_binding"
  shows "credential_binding ref_env ex_config d = Inr (Some ex_binding)"
  using assms ex_load_state [of d s] ex_load_binding [of d]
  by (simp add: credential_binding_def)

lemma ex_reporter_for:
  assumes "slot mem_files d = slot mem_files (ex_paired_dir s)" and "ex_fits s" and "\<not> is_activating (Present s)"
    and "is_active (Present s) \<Longrightarrow> binding_from_active_state s = Inr ex_binding"
  shows "reporter_for_active_binding_unlocked ref_env ex_config ex_binding d = Inr (Some ex_snapshot)"
proof -
  have i: "ab_instance_id ex_binding = 3" "ab_generation ex_binding = 1" "ab_request_id ex_binding = 2"
    "ab_report_endpoint ex_binding = ex_endpoint"
    by (simp_all add: ex_binding_def)
  have m: "ensure_matches ref_env ex_identity ex_identity = Inr ()"
    using ref.ensure_matches_ok by blast
  have t: "trim ex_token \<noteq> []"
    using token_trim [OF ex_token_ok] by (simp add: ex_token_def)
  have ci: "ci_instance_id ex_identity = ref_uuid_text 3" by (simp add: ex_identity_def)
  have h: "host_details ref_env (ref_uuid_text 3) = ref_host\<lparr>hi_id := ref_uuid_text 3\<rparr>"
    by (simp add: host_details_def ref_env_def)
  have cred: "load_credential ref_env ex_config d = Inr (Some \<lparr>cs_identity = ex_identity, cs_revision = (1, 2), cs_secret = ex_token\<rparr>)"
    using assms ex_credential_binding [OF assms] ex_load_auth [of d] ex_load_identity [of d] ex_read_secret [of d]
    by (simp add: load_credential_def is_authorized_def ex_auth_def i ex_for_instance m)
  have c: "endpoint ex_config = ex_endpoint" "otlp_endpoint ex_config = None" "otlp_token ex_config = None"
    by (simp_all add: ex_config_def)
  have exist: "for_existing_credential ref_env ex_config d = Inr (Some ex_reporter)"
    by (simp add: for_existing_credential_def cred ex_client with_client_and_credential_def t ci ex_for_instance m
        ex_reporter_def c)
  show ?thesis
    using assms ex_load_identity [of d]
    by (simp add: reporter_for_active_binding_unlocked_def load_host_identity_from_def ci h i ex_for_instance m
        ex_config_bound exist ex_snapshot_def)
qed

lemma ex_acct_paired:
  "acct ref_env mem_files (ex_paired_dir s) = \<lparr>ac_state = Present s, ac_binding = Present ex_binding,
     ac_auth = Present ex_auth, ac_token = Some ex_token, ac_identity = Some (ref_uuid_text 3)\<rparr>"
proof -
  have present: "doc_of document_header (read_document from_fields) (document to_fields x) = Present x"
    if "\<And>x. from_fields (to_fields x) = Some x" for from_fields :: "string list \<Rightarrow> 'z option" and to_fields x
    using document_laws [of from_fields to_fields x, OF that] by (auto simp: doc_of_def document_def)
  show ?thesis
    using present [of state_from state_fields, OF state_round] present [of binding_from binding_fields, OF binding_round]
      present [of auth_from auth_fields, OF auth_round]
    by (simp add: acct_def account_of_def)
qed

lemma ex_paired_healthy [simp]: "mem_healthy (ex_paired_dir s)" "mem_healthy (ex_locked (ex_paired_dir s))"
  by (simp_all add: mem_healthy_def)

lemma ex_state_slot [simp]: "slot mem_files (ex_state_dir s) Pairing = document state_fields s"
  by (simp add: slot_def ex_state_dir_def ex_dir_def)

lemma ex_state_faults [simp]: "mem_faults (ex_state_dir s) = []"
  by (simp add: ex_state_dir_def ex_dir_def)

lemma ex_locked_acct [simp]: "acct ref_env mem_files (ex_locked d) = acct ref_env mem_files d"
  by (simp add: acct_def)

lemma ex_locked_healthy [simp]: "mem_healthy (ex_locked d) = mem_healthy d"
  by (simp add: mem_healthy_def ex_locked_def)

section \<open>Runs\<close>

lemma ex_prepare_run:
  "prepare_start ref_env ex_config ref_host (ex_inputs (ex_net 500 [])) (ex_state_dir ex_creating)
     = (Inr (Start_Create ex_creating), ex_locked (ex_state_dir ex_creating))"
proof -
  have m: "pairing_endpoints_match ref_env ex_config ex_pairing_endpoint ex_endpoint = Inr True"
    by (simp add: pairing_endpoints_match_def ex_pairing_endpoint_derived) (simp add: ex_config_def)
  have r: "\<not> replace_pending_pairing ex_config" by (simp add: ex_config_def)
  have l: "load_state ref_env (ex_locked (ex_state_dir ex_creating)) = Inr (Some ex_creating)"
    by (rule ex_load_state) (simp_all add: ex_fits_all)
  show ?thesis
    using m r l ex_lock [of "ex_state_dir ex_creating"]
    by (simp add: prepare_start_def elsewhere_def ex_inputs_def bindT_def readT_def liftR_def returnT_def
        start_from_def ex_creating_def)
qed

definition ex_expired :: stored_pairing_state where
  "ex_expired = Expired Pairing_State_Version 1 2 ex_activation_url ex_endpoint 4"

lemma ex_poll_run:
  obtains d' where "poll_pending ref_env ex_config ex_pending (ex_inputs (ex_net 200 (fields_text [''expired'', ''-''])))
      (ex_state_dir ex_pending) = (Inr (P_Expired 1 2 ex_activation_url), d')"
    and "acct ref_env mem_files d' = empty_account\<lparr>ac_state := Present ex_expired\<rparr>"
proof -
  let ?d1 = "ex_locked (ex_state_dir ex_pending)"
  have l: "load_state ref_env ?d1 = Inr (Some ex_pending)"
    by (rule ex_load_state) (simp_all add: ex_fits_all)
  have "fits Pairing (encode_state ref_env ex_expired)"
    by (simp add: fits_def document_def ex_expired_def ex_activation_url_def ex_endpoint_def persisted_state_format_def)
  moreover have "mem_healthy ?d1" by simp
  ultimately obtain d2 b where d2: "persist_state_unlocked ref_env ex_expired ?d1 = (Inr (), d2)"
    using ref.persist_state_healthy by blast
  have cas: "compare_and_persist_pending ref_env 1 2 ex_pairing_endpoint ex_endpoint ex_polling ex_expired
      (ex_state_dir ex_pending) = (Inr (), d2)"
    using l d2 ex_lock [of "ex_state_dir ex_pending"]
    by (simp add: compare_and_persist_pending_def bindT_def readT_def ensure_pending_is_current_def ex_pending_def)
  have polled: "parse_status_response ref_env (fields_text [''expired'', ''-'']) =
      Some \<lparr>sr_status = S_Expired, sr_instance_id = None\<rparr>"
    by (simp add: ref_env_def ref_status_from_def option_parse_def)
  have "poll_pending ref_env ex_config ex_pending (ex_inputs (ex_net 200 (fields_text [''expired'', ''-''])))
      (ex_state_dir ex_pending) = (Inr (P_Expired 1 2 ex_activation_url), d2)"
    using cas polled
    apply (simp add: poll_pending_def ex_pending_def bindT_liftR validate_durable_report_endpoint_def
        validate_endpoint_def with_context_def ex_status_target ex_client ex_auth_header ex_post ex_ct Let_def
        ensure_pairing_response_def check_or_expire_def bindT_simps parse_pairing_json_def ex_json
        apply_status_def ref.elsewhere_bind)
    apply (simp add: ex_inputs_def bindT_def returnT_def ex_expired_def)
    done
  with that ref.persist_state_account_ok [OF d2] show thesis by (simp add: ex_acct_state)
qed

lemma ex_activate_run:
  "activate_pending_with_code ref_env ex_config 1 2 ''k'' (ex_inputs (ex_net 500 [])) (ex_state_dir ex_active)
     = (Inr (Some 3), ex_locked (ex_state_dir ex_active))"
proof -
  have l: "load_state ref_env (ex_locked (ex_state_dir ex_active)) = Inr (Some ex_active)"
    by (rule ex_load_state) (simp_all add: ex_fits_all)
  have code: "validate_activation_code ''k'' = Inr ''k''"
    by (simp add: validate_activation_code_def has_control_or_whitespace_def ascii_control_def byte_def
        whitespace_encodings_def starts_with_def char_of_def)
  show ?thesis
    using l code ex_lock [of "ex_state_dir ex_active"]
    by (simp add: activate_pending_with_code_def elsewhere_def bindT_def liftR_def readT_def returnT_def
        activation_target_def ex_active_def same_transaction_def ex_inputs_def)
qed

lemma ex_activation_endpoint:
  "activation_endpoint ref_urls ex_pairing_endpoint =
     Inr ((ref_url ''a'' ''/api/v1/xsoc/activate'')\<lparr>u_query := None, u_fragment := None\<rparr>)"
  by (simp add: activation_endpoint_def validate_pairing_endpoint_def validate_endpoint_def with_context_def
      trim_end_matches_def strip_suffix_def ends_with_def starts_with_def)

definition ex_created_body :: string where
  "ex_created_body = fields_text [ref_uuid_text 2, ex_activation_url, ''sssss'', ''ppppp'']"

lemma ex_activation_url_parse [simp]:
  "ref_url_parse ex_activation_url = Some (ref_url ''a'' (''/activate/'' @ ref_uuid_text 2))"
proof -
  have "list_all (\<lambda>c. c \<notin> set ''@?#: '') (ref_uuid_text 2)"
    using ref_uuid_chars by (rule list.pred_mono_strong) (auto simp: is_token_byte_def is_ascii_digit_def byte_def)
  then show ?thesis
    by (simp add: ref_url_parse_def starts_with_def ex_activation_url_def)
qed

lemma ex_create_run:
  obtains session d' where "finish_create_request ref_env ex_config ex_creating (ex_inputs (ex_net 201 ex_created_body))
      (ex_state_dir ex_creating) = (Inr session, d')" and "ps_request_id session = 2"
proof -
  let ?d1 = "ex_locked (ex_state_dir ex_creating)"
  let ?p = "Pending Pairing_State_Version 1 2 ex_activation_url 9 5 ex_pairing_endpoint ex_endpoint ex_token ex_polling"
  have l: "load_state ref_env ?d1 = Inr (Some ex_creating)"
    by (rule ex_load_state) (simp_all add: ex_fits_all)
  have "fits Pairing (encode_state ref_env ex_pending)"
    using ex_fits_all(2) by (simp only: ref_env_simps fits_def ex_fits_def document_def option.case)
  moreover have "mem_healthy ?d1" by simp
  ultimately obtain d2 b where d2: "persist_state_unlocked ref_env ex_pending ?d1 = (Inr (), d2)"
    using ref.persist_state_healthy by blast
  have cas: "compare_and_persist_creating ref_env 1 ex_pairing_endpoint ex_endpoint ex_polling ex_pending
      (ex_state_dir ex_creating) = (Inr (), d2)"
    using l d2 ex_lock [of "ex_state_dir ex_creating"]
    by (simp add: compare_and_persist_creating_def bindT_def readT_def ex_creating_def)
  have created: "parse_create_response ref_env ex_created_body = Some \<lparr>cr_request_id = ref_uuid_text 2,
      cr_activation_url = ex_activation_url, cr_expires_in = 5, cr_poll_interval = 5\<rparr>"
    by (simp add: ref_env_def ref_created_from_def ex_created_body_def)
  have len: "length ex_created_body \<le> 1000" 
    by (simp add: ex_created_body_def ex_activation_url_def)
  have resolved: "resolve_activation_url ref_urls ex_pairing_endpoint ex_activation_url = Inr ex_activation_url"
    by (simp add: resolve_activation_url_def with_context_def) (simp add: ex_activation_url_def)
  have valid: "validate_activation_url_request ref_env ex_activation_url ex_pairing_endpoint 2 = Inr ()"
    by (simp add: validate_activation_url_request_def with_context_def ref_protocol_def)
  have rc: "read_created ref_env ex_pairing_endpoint \<lparr>hs_status = 201, hs_headers = [(''content-type'', ''application/json'')],
      hs_body = ex_created_body\<rparr> = Inr (\<lparr>cr_request_id = ref_uuid_text 2,
      cr_activation_url = ex_activation_url, cr_expires_in = 5, cr_poll_interval = 5\<rparr>, 2, ex_activation_url)"
    by (simp add: read_created_def Let_def ex_ct ensure_pairing_response_def parse_pairing_json_def ex_json created
       ref_uuid_round resolved valid)
  have expiry: "expiry_of ref_env 4 5 = Inr 9"
    by (simp add: expiry_of_def) (simp add: ref_env_def)
  let ?q = "\<lparr>cq_protocol_version = 1, cq_mode = inferred_mode ref_env (ref_host\<lparr>hi_id := ref_uuid_text 3\<rparr>) (ex_state_dir ex_creating),
     cq_host = ref_host\<lparr>hi_id := ref_uuid_text 3\<rparr>, cq_token_hash = sha256_hex ref_env ex_token,
     cq_polling_secret_hash = sha256_hex ref_env ex_polling\<rparr>"
  let ?body = "fields_text ([sha256_hex ref_env ex_token, sha256_hex ref_env ex_polling] @
     host_fields (ref_host\<lparr>hi_id := ref_uuid_text 3\<rparr>))"
  have enc: "encode_create_request ref_env ?q = Some ?body"
    by (simp add: ref_env_def)
  have blen: "length ?body \<le> 1000"
    by (simp add: sha256_hex_def hex_length host_fields_def ref_host_def option_text_def) (simp add: ref_env_def ex_token_def ex_polling_def)
  have "finish_create_request ref_env ex_config ex_creating (ex_inputs (ex_net 201 ex_created_body)) (ex_state_dir ex_creating)
     = (Inr \<lparr>ps_generation = 1, ps_request_id = 2, ps_activation_url = ex_activation_url, ps_expires_at = 9,
         ps_poll_interval = 5\<rparr>, d2)"
    using cas rc expiry enc ex_post [OF blen len, of 201] ex_client
    apply (simp add: finish_create_request_def ex_creating_def bindT_liftR validate_pairing_endpoint_def
      validate_durable_report_endpoint_def validate_endpoint_def with_context_def ref.elsewhere_bind)
    apply (simp add: ex_inputs_def bindT_def readT_def liftR_def elsewhere_def ex_creating_def ref_protocol_def ex_pending_def returnT_def)
    done
  then show thesis using that by simp
qed
definition ex_denied :: stored_pairing_state where
  "ex_denied = Denied Pairing_State_Version 4 5 ex_activation_url ex_endpoint 0"

lemma ex_denied_fits: "ex_fits ex_denied"
  by (simp add: ex_fits_def is_nil_def ex_denied_def persisted_state_format_def ex_endpoint_def ex_activation_url_def)

lemma ex_run:
  "existing_reporter_for_run ref_env ex_config 5 6 (ex_paired_dir ex_denied)
     = (Inr (Some ex_snapshot), ex_locked (ex_paired_dir ex_denied))"
proof -
  let ?d = "ex_locked (ex_paired_dir ex_denied)"
  have l: "load_state ref_env ?d = Inr (Some ex_denied)"
    by (rule ex_load_state) (simp_all add: ex_denied_fits)
  have a: "local_auth_state_unlocked ref_env ?d = Inr (Some ex_auth)"
    by (rule ex_load_auth) simp
  have b: "load_active_binding ref_env ex_config ?d = Inr (Some ex_binding)"
    by (rule ex_load_binding) simp
  have r: "reporter_for_active_binding_unlocked ref_env ex_config ex_binding ?d = Inr (Some ex_snapshot)"
    by (rule ex_reporter_for [where s = ex_denied]) (simp_all add: ex_denied_fits, simp_all add: ex_denied_def)
  show ?thesis
    using l a b r ex_lock [of "ex_paired_dir ex_denied"]
    by (simp add: existing_reporter_for_run_def bindT_def readT_def is_authorized_def ex_auth_def)
      (simp add: ex_denied_def)
qed

lemma ex_activate_snapshot_run:
  "activate_reporter_snapshot ref_env ex_config 1 2 3 ex_endpoint (ex_paired_dir ex_active)
     = (Inr (ex_config, ref_host\<lparr>hi_id := ref_uuid_text 3\<rparr>, ex_reporter), ex_locked (ex_paired_dir ex_active))"
proof -
  let ?d = "ex_locked (ex_paired_dir ex_active)"
  have l: "load_state ref_env ?d = Inr (Some ex_active)"
    by (rule ex_load_state) (simp_all add: ex_fits_all)
  have a: "local_auth_state_unlocked ref_env ?d = Inr (Some ex_auth)"
    by (rule ex_load_auth) simp
  have b: "load_active_binding ref_env ex_config ?d = Inr (Some ex_binding)"
    by (rule ex_load_binding) simp
  have r: "reporter_for_active_binding_unlocked ref_env ex_config ex_binding ?d = Inr (Some ex_snapshot)"
    by (rule ex_reporter_for [where s = ex_active]) (simp_all add: ex_fits_all, simp_all add: ex_active_def ex_binding_def)
  have e: "ensure_active_is_current ref_env 1 2 3 ex_endpoint ?d = Inr ex_binding"
    using l by (simp add: ensure_active_is_current_def ex_active_def ex_binding_def)
  have c: "load_current_active_binding ref_env ex_config ex_binding ?d = Inr ex_binding"
    using b by (simp add: load_current_active_binding_def)
  have s: "snapshot_apply ex_snapshot ex_config = (ex_config, ref_host\<lparr>hi_id := ref_uuid_text 3\<rparr>, ex_reporter)"
    using ex_config_bound by (simp add: snapshot_apply_def ex_snapshot_def config_for_active_binding_def ex_binding_def)
  show ?thesis
    using l a b r e c s ex_lock [of "ex_paired_dir ex_active"]
    by (simp add: activate_reporter_snapshot_def bindT_def readT_def is_authorized_def ex_auth_def)
qed

lemma ex_reauth_run:
  obtains d' where "mark_reauth_required_if_current ref_env ex_config (1, 2) ''rejected'' 7 (ex_paired_dir ex_active) = (Inr True, d')"
proof -
  let ?d = "ex_locked (ex_paired_dir ex_active)"
  let ?a = "\<lparr>la_version = Pairing_State_Version, la_status = Reauthorization_Required, la_reason = ''rejected'', la_changed_at = 7\<rparr>"
  have b: "credential_binding ref_env ex_config ?d = Inr (Some ex_binding)"
    by (rule ex_credential_binding [where s = ex_active]) (simp_all add: ex_fits_all, simp_all add: ex_active_def ex_binding_def)
  have a: "local_auth_state_unlocked ref_env ?d = Inr (Some ex_auth)"
    by (rule ex_load_auth) simp
  have "fits Authorization (encode_auth ref_env ?a)"
    by (simp add: fits_def document_def auth_fields_def persisted_state_format_def)
  then obtain d2 b where d2: "persist_auth_state_unlocked ref_env ?a ?d = (Inr (), d2)"
    using ref.persist_auth_healthy [of ?d ?a] by auto
  have "mark_reauth_required_if_current ref_env ex_config (1, 2) ''rejected'' 7 (ex_paired_dir ex_active) = (Inr True, d2)"
    using a b d2 ex_lock [of "ex_paired_dir ex_active"]
    by (simp add: mark_reauth_required_if_current_def invalidate_credential_def bindT_def readT_def liftR_def returnT_def ex_binding_def)
  with that show thesis .
qed

lemma ex_local_status:
  "local_status ref_env ex_config (ex_paired_dir ex_active) (\<lambda>k n. ex_paired_dir ex_active)
    = Inr \<lparr>ls_progress = Some (progress_from_terminal ex_active), ls_active_report_endpoint = Some ex_endpoint\<rparr>"
proof -
  let ?d = "ex_paired_dir ex_active"
  have l: "load_state ref_env ?d = Inr (Some ex_active)"
    by (rule ex_load_state) (simp_all add: ex_fits_all)
  have b: "load_active_binding ref_env ex_config ?d = Inr (Some ex_binding)"
    by (rule ex_load_binding) simp
  have f: "binding_from_active_state ex_active = Inr ex_binding" "is_active (Present ex_active)"
    by (simp_all add: ex_active_def ex_binding_def)
  have o: "reader_open mem_ops ?d = Inr ()" by (simp add: reader_open_def mem_ops_def)
  show ?thesis
    using l b f o by (simp add: local_status_def max_snapshot_attempts_def numeral_3_eq_3 current_binding_of_def)
     (simp add: ex_binding_def)
qed

end
