(* ===== verification/Float64.thy ===== *)
theory Float64
  imports Prelude
begin

text \<open>
  The \<open>f64\<close> operations that bound reports: a value is its 64-bit pattern (\<open>to_bits\<close>), so
  NaN, the infinities and the two zeros are all there. Comparison, \<open>clamp\<close>, \<open>max(0.0)\<close>,
  \<open>total_cmp\<close> and \<open>is_finite\<close> are computed on the pattern; no arithmetic is needed.
\<close>

type_synonym f64 = "64 word"

definition f64_negative :: "f64 \<Rightarrow> bool" where
  "f64_negative v \<longleftrightarrow> 2 ^ 63 \<le> unat v"

text \<open>The pattern without the sign: it grows with the absolute value.\<close>

definition f64_magnitude :: "f64 \<Rightarrow> nat" where
  "f64_magnitude v = unat v mod 2 ^ 63"

definition is_finite :: "f64 \<Rightarrow> bool" where
  "is_finite v \<longleftrightarrow> f64_magnitude v < 0x7FF0000000000000"

definition is_nan :: "f64 \<Rightarrow> bool" where
  "is_nan v \<longleftrightarrow> 0x7FF0000000000000 < f64_magnitude v"

text \<open>The value of a number as an integer in its order: both zeros are 0.\<close>

definition f64_key :: "f64 \<Rightarrow> int" where
  "f64_key v = (if f64_negative v then - int (f64_magnitude v) else int (f64_magnitude v))"

definition f64_less :: "f64 \<Rightarrow> f64 \<Rightarrow> bool" where
  "f64_less a b \<longleftrightarrow> \<not> is_nan a \<and> \<not> is_nan b \<and> f64_key a < f64_key b"

definition f64_le :: "f64 \<Rightarrow> f64 \<Rightarrow> bool" where
  "f64_le a b \<longleftrightarrow> \<not> is_nan a \<and> \<not> is_nan b \<and> f64_key a \<le> f64_key b"

text \<open>The order of \<open>f64::total_cmp\<close>: negative patterns are reversed, -0 is below +0.\<close>

definition total_key :: "f64 \<Rightarrow> int" where
  "total_key v = (if f64_negative v then - int (f64_magnitude v) - 1 else int (f64_magnitude v))"

definition f64_clamp :: "f64 \<Rightarrow> f64 \<Rightarrow> f64 \<Rightarrow> f64" where
  "f64_clamp lo hi v =
     (let v = (if f64_less v lo then lo else v) in if f64_less hi v then hi else v)"

text \<open>
  \<open>f64::max\<close> may return either operand when they are zeros of different signs: the
  parameter \<open>z\<close> is what the platform returns for \<open>(-0.0).max(0.0)\<close>.
\<close>

definition f64_max :: "f64 \<Rightarrow> f64 \<Rightarrow> f64 \<Rightarrow> f64" where
  "f64_max z a b =
     (if is_nan a then b else if is_nan b then a
      else if f64_key a = f64_key b then (if a = b then a else z)
      else if f64_key a < f64_key b then b else a)"

text \<open>The literals of the source.\<close>

abbreviation f64_zero :: f64 where "f64_zero \<equiv> 0"
definition f64_100 :: f64 where "f64_100 = 0x4059000000000000"
definition f64_255 :: f64 where "f64_255 = 0x406FE00000000000"
definition f64_1000 :: f64 where "f64_1000 = 0x408F400000000000"
definition f64_1e7 :: f64 where "f64_1e7 = 0x416312D000000000"
definition f64_1e9 :: f64 where "f64_1e9 = 0x41CDCD6500000000"
definition f64_minus_273_15 :: f64 where "f64_minus_273_15 = 0xC071126666666666"
definition f64_min_positive :: f64 where "f64_min_positive = 0x0010000000000000"
definition f64_largest :: f64 where "f64_largest = 0x7FEFFFFFFFFFFFFF"

section \<open>Facts\<close>

lemma finite_not_nan: "is_finite v \<Longrightarrow> \<not> is_nan v"
  by (simp add: is_finite_def is_nan_def)

lemma f64_less_irrefl [simp]: "\<not> f64_less v v"
  by (simp add: f64_less_def)

lemma f64_less_asym: "f64_less a b \<Longrightarrow> \<not> f64_less b a"
  by (simp add: f64_less_def)

lemma clamp_idem:
  assumes "\<not> f64_less hi lo"
  shows "f64_clamp lo hi (f64_clamp lo hi v) = f64_clamp lo hi v"
  using assms by (auto simp: f64_clamp_def Let_def dest: f64_less_asym)

lemma clamp_cases: "f64_clamp lo hi v \<in> {lo, hi, v}"
  by (simp add: f64_clamp_def Let_def)

lemma clamp_finite:
  assumes "is_finite v" and "is_finite lo" and "is_finite hi"
  shows "is_finite (f64_clamp lo hi v)"
  using clamp_cases [of lo hi v] assms by auto

lemma clamp_bounds:
  assumes "is_finite v" and "is_finite lo" and "is_finite hi" and "f64_le lo hi"
  shows "f64_le lo (f64_clamp lo hi v) \<and> f64_le (f64_clamp lo hi v) hi"
  using assms finite_not_nan [OF assms(1)]
  by (auto simp: f64_clamp_def Let_def f64_le_def f64_less_def)

lemma f64_literals [simp]:
  "is_finite f64_zero" "is_finite f64_100" "f64_le f64_zero f64_100" "\<not> f64_less f64_100 f64_zero"
  "f64_key f64_zero = 0" "\<not> is_nan f64_zero"
  by (simp_all add: is_finite_def f64_magnitude_def f64_le_def is_nan_def f64_key_def f64_negative_def
      f64_less_def f64_100_def)

text \<open>The platform's choice for \<open>(-0.0).max(0.0)\<close> is one of the two zeros.\<close>

definition zero_choice :: "f64 \<Rightarrow> bool" where
  "zero_choice z \<longleftrightarrow> z = f64_zero \<or> z = 0x8000000000000000"

lemma zero_choice_facts:
  assumes "zero_choice z"
  shows "f64_key z = 0" and "is_finite z"
  using assms
  by (auto simp: zero_choice_def f64_key_def f64_magnitude_def f64_negative_def is_finite_def)

lemma max_zero_idem:
  assumes "zero_choice z"
  shows "f64_max z (f64_max z v f64_zero) f64_zero = f64_max z v f64_zero"
proof -
  have "\<not> is_nan z" using zero_choice_facts [OF assms] by (simp add: finite_not_nan)
  with zero_choice_facts [OF assms] show ?thesis
    by (auto simp: f64_max_def)
qed

lemma max_zero_nonneg:
  assumes "zero_choice z" and "is_finite v"
  shows "is_finite (f64_max z v f64_zero) \<and> f64_le f64_zero (f64_max z v f64_zero)"
  using zero_choice_facts [OF assms(1)] assms(2)
  by (auto simp: f64_max_def f64_le_def finite_not_nan)

lemma total_key_inj: "total_key a = total_key b \<longleftrightarrow> a = b"
proof
  assume eq: "total_key a = total_key b"
  have bound: "unat v < 2 ^ 64" for v :: f64 using unsigned_less [of v, where 'a = nat] by simp
  have split: "unat v = (if f64_negative v then 2 ^ 63 + f64_magnitude v else f64_magnitude v)" for v :: f64
  proof (cases "f64_negative v")
    case True
    then have "unat v mod 2 ^ 63 = unat v - 2 ^ 63"
      using bound [of v] by (simp add: f64_negative_def le_mod_geq)
    with True show ?thesis by (simp add: f64_magnitude_def f64_negative_def)
  qed (simp add: f64_negative_def f64_magnitude_def)
  have "unat a = unat b"
    using eq split [of a] split [of b] by (auto simp: total_key_def split: if_splits)
  then show "a = b" by (simp only: word_unat_eq_iff)
qed simp

end
