(* ===== verification/Report_Text.thy ===== *)
theory Report_Text
  imports Prelude
begin

text \<open>
  Text operations of the Rust standard library that the report contract uses: characters of a
  UTF-8 string, \<open>char::is_control\<close>, truncation at a character boundary, \<open>split_once\<close>, and the
  parsers of unsigned integers and of IP addresses.
\<close>

section \<open>Characters\<close>

text \<open>
  A character is its first byte with the continuation bytes that follow it. The operations
  below work on this cut of the string, so that they are total on all byte strings and agree
  with \<open>str\<close> on well-formed UTF-8.
\<close>

definition continuation_byte :: "char \<Rightarrow> bool" where
  "continuation_byte c \<longleftrightarrow> continuation (byte c)"

function chars :: "string \<Rightarrow> string list" where
  "chars [] = []"
| "chars (c # s) = (c # takeWhile continuation_byte s) # chars (dropWhile continuation_byte s)"
  by pat_completeness auto
termination
  by (relation "measure length") (auto simp: length_dropWhile_le less_Suc_eq_le)

text \<open>\<open>char::is_control\<close>: U+0000 to U+001F and U+007F to U+009F.\<close>

fun is_control :: "string \<Rightarrow> bool" where
  "is_control [c] = (byte c < 32 \<or> byte c = 127)"
| "is_control [c, d] = (byte c = 0xC2 \<and> 0x80 \<le> byte d \<and> byte d \<le> 0x9F)"
| "is_control s = False"

definition strip_controls :: "string \<Rightarrow> string" where
  "strip_controls s = concat (filter (\<lambda>c. \<not> is_control c) (chars s))"

definition is_char_boundary :: "string \<Rightarrow> nat \<Rightarrow> bool" where
  "is_char_boundary s n \<longleftrightarrow> n = 0 \<or> n = length s \<or> (n < length s \<and> \<not> continuation_byte (s ! n))"

fun floor_boundary :: "string \<Rightarrow> nat \<Rightarrow> nat" where
  "floor_boundary s 0 = 0"
| "floor_boundary s (Suc n) = (if is_char_boundary s (Suc n) then Suc n else floor_boundary s n)"

definition truncate_utf8 :: "nat \<Rightarrow> string \<Rightarrow> string" where
  "truncate_utf8 maximum s = (if length s \<le> maximum then s else take (floor_boundary s maximum) s)"

lemma concat_chars [simp]: "concat (chars s) = s"
  by (induction s rule: chars.induct) (auto simp: takeWhile_dropWhile_id)

definition rest_starts :: "string list \<Rightarrow> bool" where
  "rest_starts cs \<longleftrightarrow> (\<forall>c \<in> set (tl cs). c \<noteq> [] \<and> \<not> continuation_byte (hd c))"

definition cut :: "string list \<Rightarrow> bool" where
  "cut cs \<longleftrightarrow> (\<forall>c \<in> set cs. c \<noteq> [] \<and> list_all continuation_byte (tl c)) \<and> rest_starts cs"

lemma hd_dropWhile_not: "dropWhile P s \<noteq> [] \<Longrightarrow> \<not> P (hd (dropWhile P s))"
  by (rule hd_dropWhile)

lemma chars_hd: "chars s = c # cs \<Longrightarrow> s \<noteq> [] \<and> hd c = hd s"
  by (cases s) auto

lemma cut_chars: "cut (chars s)"
proof (induction s rule: chars.induct)
  case 1
  then show ?case by (simp add: cut_def rest_starts_def)
next
  case (2 c s)
  have all: "list_all continuation_byte (takeWhile continuation_byte s)"
    by (auto simp: list_all_iff dest: set_takeWhileD)
  show ?case
  proof (cases "chars (dropWhile continuation_byte s)")
    case Nil
    with all show ?thesis by (simp add: cut_def rest_starts_def)
  next
    case (Cons d ds)
    then have "dropWhile continuation_byte s \<noteq> [] \<and> hd d = hd (dropWhile continuation_byte s)"
      by (rule chars_hd)
    then have "\<not> continuation_byte (hd d)" using hd_dropWhile_not by metis
    with 2 Cons all show ?thesis by (auto simp: cut_def rest_starts_def)
  qed
qed

text \<open>A cut string is cut again at the same places.\<close>

lemma chars_concat: "cut cs \<Longrightarrow> chars (concat cs) = cs"
proof (induction cs)
  case Nil
  then show ?case by simp
next
  case (Cons d ds)
  obtain c t where d: "d = c # t" and t: "list_all continuation_byte t"
    using Cons.prems by (cases d) (auto simp: cut_def)
  have head: "ds = [] \<or> (concat ds \<noteq> [] \<and> \<not> continuation_byte (hd (concat ds)))"
    using Cons.prems by (cases ds) (auto simp: cut_def rest_starts_def)
  have "takeWhile continuation_byte (t @ concat ds) = t" "dropWhile continuation_byte (t @ concat ds) = concat ds"
    using t head by (cases "concat ds"; auto simp: list_all_iff takeWhile_append dropWhile_append)+
  moreover have "chars (concat ds) = ds"
    using Cons by (cases ds) (auto simp: cut_def rest_starts_def)
  ultimately show ?case by (simp add: d)
qed

lemma set_tl_filter: "set (tl (filter P cs)) \<subseteq> set (tl cs)"
proof (cases cs)
  case (Cons c ds)
  have "set (tl xs) \<subseteq> set xs" for xs :: "'a list" by (cases xs) auto
  from this [of "filter P ds"] have "set (tl (filter P ds)) \<subseteq> set ds" by auto
  with Cons show ?thesis by auto
qed simp

lemma cut_filter: "cut cs \<Longrightarrow> cut (filter P cs)"
  using set_tl_filter [of P cs] unfolding cut_def rest_starts_def by auto

lemma cut_take: "cut cs \<Longrightarrow> cut (take n cs)"
  by (cases cs; cases n) (auto simp: cut_def rest_starts_def dest: in_set_takeD)

lemma chars_strip: "chars (strip_controls s) = filter (\<lambda>c. \<not> is_control c) (chars s)"
  by (simp add: strip_controls_def chars_concat cut_filter cut_chars)

lemma strip_strip [simp]: "strip_controls (strip_controls s) = strip_controls s"
  unfolding strip_controls_def [of "strip_controls s"] chars_strip
  by (simp add: strip_controls_def)

section \<open>Truncation\<close>

lemma floor_boundary_le: "floor_boundary s n \<le> n"
  by (induction n) auto

lemma floor_boundary_is: "n < length s \<Longrightarrow> is_char_boundary s (floor_boundary s n)"
  by (induction n) (auto simp: is_char_boundary_def)

lemma length_truncate: "length (truncate_utf8 m s) \<le> m"
  using floor_boundary_le [of s m] by (auto simp: truncate_utf8_def)

lemma truncate_truncate [simp]: "truncate_utf8 m (truncate_utf8 m s) = truncate_utf8 m s"
  using length_truncate [of m s] by (simp add: truncate_utf8_def [of m "truncate_utf8 m s"])

text \<open>Cutting at a boundary drops whole characters at the end.\<close>

lemma take_boundary:
  assumes "cut cs" and "is_char_boundary (concat cs) n" and "n \<le> length (concat cs)"
  shows "\<exists>k. take n (concat cs) = concat (take k cs)"
  using assms
proof (induction cs arbitrary: n)
  case Nil
  then show ?case by simp
next
  case (Cons d ds)
  obtain c t where d: "d = c # t" and t: "list_all continuation_byte t"
    using Cons.prems by (cases d) (auto simp: cut_def)
  show ?case
  proof (cases "n < length d")
    case True
    have "n = 0"
    proof (rule ccontr)
      assume "n \<noteq> 0"
      with True d have "concat (d # ds) ! n = t ! (n - 1)" by (cases n) (auto simp: nth_append)
      moreover from \<open>n \<noteq> 0\<close> True d t have "continuation_byte (t ! (n - 1))"
        by (cases n) (auto simp: list_all_length)
      ultimately show False
        using Cons.prems \<open>n \<noteq> 0\<close> True by (auto simp: is_char_boundary_def)
    qed
    then show ?thesis by (auto intro: exI [of _ 0])
  next
    case False
    have "cut ds" using Cons.prems by (cases ds) (auto simp: cut_def rest_starts_def)
    moreover have "is_char_boundary (concat ds) (n - length d)"
      using Cons.prems False by (auto simp: is_char_boundary_def nth_append)
    moreover have "n - length d \<le> length (concat ds)" using Cons.prems by simp
    ultimately obtain k where "take (n - length d) (concat ds) = concat (take k ds)"
      using Cons.IH by blast
    with False have "take n (concat (d # ds)) = concat (take (Suc k) (d # ds))" by simp
    then show ?thesis by blast
  qed
qed

lemma truncate_chars: "\<exists>k. truncate_utf8 m s = concat (take k (chars s))"
proof (cases "length s \<le> m")
  case True
  then show ?thesis by (auto simp: truncate_utf8_def intro: exI [of _ "length (chars s)"])
next
  case False
  then have "is_char_boundary s (floor_boundary s m)" by (simp add: floor_boundary_is)
  with take_boundary [OF cut_chars, of s "floor_boundary s m"] floor_boundary_le [of s m] False
  show ?thesis by (simp add: truncate_utf8_def)
qed

lemma strip_truncate:
  assumes "strip_controls s = s"
  shows "strip_controls (truncate_utf8 m s) = truncate_utf8 m s"
proof -
  obtain k where k: "truncate_utf8 m s = concat (take k (chars s))"
    using truncate_chars by blast
  have keep: "filter (\<lambda>c. \<not> is_control c) (chars s) = chars s"
    using chars_strip [of s] assms by simp
  have "\<forall>c \<in> set (chars s). \<not> is_control c"
    using keep by (simp add: filter_id_conv)
  then have "filter (\<lambda>c. \<not> is_control c) (take k (chars s)) = take k (chars s)"
    by (auto simp: filter_id_conv dest: in_set_takeD)
  then show ?thesis
    by (simp add: k strip_controls_def chars_concat cut_take cut_chars)
qed

section \<open>Numbers and addresses\<close>

definition to_digit :: "nat \<Rightarrow> char \<Rightarrow> nat option" where
  "to_digit radix c =
     (let b = byte c;
          d = (if is_ascii_digit c then b - 48
               else if 97 \<le> b \<and> b \<le> 122 then b - 87
               else if 65 \<le> b \<and> b \<le> 90 then b - 55 else radix) in
      if d < radix then Some d else None)"

fun parse_digits :: "nat \<Rightarrow> nat \<Rightarrow> string \<Rightarrow> nat option" where
  "parse_digits limit n [] = Some n"
| "parse_digits limit n (c # s) =
     Option.bind (to_digit 10 c) (\<lambda>d. if n * 10 + d < limit then parse_digits limit (n * 10 + d) s else None)"

text \<open>\<open>str::parse\<close> for an unsigned type with values below \<open>limit\<close>.\<close>

definition parse_unsigned :: "nat \<Rightarrow> string \<Rightarrow> nat option" where
  "parse_unsigned limit s =
     (let t = (if s \<noteq> [] \<and> hd s = CHR ''+'' then tl s else s) in
      if t = [] then None else parse_digits limit 0 t)"

definition split_once :: "char \<Rightarrow> string \<Rightarrow> (string \<times> string) option" where
  "split_once c s =
     (if c \<in> set s then Some (takeWhile (\<lambda>x. x \<noteq> c) s, tl (dropWhile (\<lambda>x. x \<noteq> c) s)) else None)"

text \<open>The address parser of \<open>core::net\<close>: values are not needed, only where a parse ends.\<close>

fun read_digits :: "nat \<Rightarrow> nat \<Rightarrow> nat \<Rightarrow> nat \<Rightarrow> nat \<Rightarrow> string \<Rightarrow> (nat \<times> string) option" where
  "read_digits radix maximum limit n k [] = Some (k, [])"
| "read_digits radix maximum limit n k (c # s) =
     (case to_digit radix c of
        None \<Rightarrow> Some (k, c # s)
      | Some d \<Rightarrow> if n * radix + d < limit \<and> Suc k \<le> maximum
                  then read_digits radix maximum limit (n * radix + d) (Suc k) s else None)"

definition read_number :: "nat \<Rightarrow> nat \<Rightarrow> nat \<Rightarrow> bool \<Rightarrow> string \<Rightarrow> string option" where
  "read_number radix maximum limit allow_zero_prefix s =
     (case read_digits radix maximum limit 0 0 s of
        None \<Rightarrow> None
      | Some (k, rest) \<Rightarrow>
          if k = 0 \<or> (\<not> allow_zero_prefix \<and> s \<noteq> [] \<and> hd s = CHR ''0'' \<and> 1 < k) then None
          else Some rest)"

fun read_char :: "char \<Rightarrow> string \<Rightarrow> string option" where
  "read_char c [] = None"
| "read_char c (x # s) = (if x = c then Some s else None)"

definition read_separator ::
  "char \<Rightarrow> nat \<Rightarrow> (string \<Rightarrow> string option) \<Rightarrow> string \<Rightarrow> string option" where
  "read_separator c index inner s = Option.bind (if 0 < index then read_char c s else Some s) inner"

fun read_octets :: "nat \<Rightarrow> nat \<Rightarrow> string \<Rightarrow> string option" where
  "read_octets index 0 s = Some s"
| "read_octets index (Suc n) s =
     Option.bind (read_separator CHR ''.'' index (read_number 10 3 256 False) s) (read_octets (Suc index) n)"

definition read_ipv4 :: "string \<Rightarrow> string option" where
  "read_ipv4 s = read_octets 0 4 s"

text \<open>\<open>read_groups\<close>: the number of groups read, whether they end in an IPv4 address, the rest.\<close>

function read_groups :: "nat \<Rightarrow> nat \<Rightarrow> string \<Rightarrow> nat \<times> bool \<times> string" where
  "read_groups limit i s =
     (if limit \<le> i then (limit, False, s)
      else
        (case (if i < limit - 1 then read_separator CHR '':'' i read_ipv4 s else None) of
           Some rest \<Rightarrow> (i + 2, True, rest)
         | None \<Rightarrow>
             (case read_separator CHR '':'' i (read_number 16 4 65536 True) s of
                Some rest \<Rightarrow> read_groups limit (Suc i) rest
              | None \<Rightarrow> (i, False, s))))"
  by pat_completeness auto
termination
  by (relation "measure (\<lambda>(limit, i, s). limit - i)") auto

declare read_groups.simps [simp del]

definition read_ipv6 :: "string \<Rightarrow> string option" where
  "read_ipv6 s =
     (case read_groups 8 0 s of
        (head, ipv4, rest) \<Rightarrow>
          if head = 8 then Some rest
          else if ipv4 then None
          else Option.bind (read_char CHR '':'' rest) (\<lambda>rest.
               Option.bind (read_char CHR '':'' rest) (\<lambda>rest.
               case read_groups (8 - (head + 1)) 0 rest of (tail, _, rest) \<Rightarrow> Some rest)))"

datatype ip_kind = Ipv4 | Ipv6

definition parse_ip :: "string \<Rightarrow> ip_kind option" where
  "parse_ip s =
     (case read_ipv4 s of
        Some rest \<Rightarrow> if rest = [] then Some Ipv4 else None
      | None \<Rightarrow> (case read_ipv6 s of Some rest \<Rightarrow> if rest = [] then Some Ipv6 else None | None \<Rightarrow> None))"

end
