(* ===== verification/Report.thy ===== *)
theory Report
  imports Config Pairing_State Float64 Report_Text
begin

text \<open>
  The telemetry report as the client handles it: the records of the wire crate
  \<open>xsos_protocol\<close>, with the fields that the literals of the source name (\<open>src/collectors\<close>,
  \<open>src/report_contract.rs\<close>), the wire limits of that crate and the JSON encoders of the
  reports. Limits and encoders are parameters, fields of the record \<open>report_ops\<close>.
\<close>

section \<open>Records\<close>

datatype capability_error_kind =
  Not_Present | Permission_Denied | Driver_Missing | Unsupported_Kind | Transient_Kind | Invalid_Data

record capability =
  cap_name :: string
  cap_available :: bool
  cap_source :: string
  cap_error_kind :: "capability_error_kind option"
  cap_message :: "string option"

definition capability_unavailable :: "string \<Rightarrow> string \<Rightarrow> capability_error_kind \<Rightarrow> string \<Rightarrow> capability" where
  "capability_unavailable name source kind message =
     \<lparr>cap_name = name, cap_available = False, cap_source = source, cap_error_kind = Some kind,
      cap_message = Some message\<rparr>"

record network_snapshot =
  net_name :: string
  net_received_total :: "64 word"
  net_transmitted_total :: "64 word"
  net_received_per_second :: f64
  net_transmitted_per_second :: f64
  net_packets_received :: "64 word"
  net_packets_transmitted :: "64 word"
  net_receive_errors :: "64 word"
  net_transmit_errors :: "64 word"

record disk_snapshot =
  dsk_name :: string
  dsk_mount_point :: string
  dsk_file_system :: string
  dsk_total :: "64 word"
  dsk_available :: "64 word"
  dsk_read_total :: "64 word"
  dsk_written_total :: "64 word"
  dsk_read_per_second :: f64
  dsk_written_per_second :: f64
  dsk_read_only :: bool

record temperature_snapshot =
  tmp_id :: string
  tmp_label :: string
  tmp_celsius :: "f64 option"
  tmp_max :: "f64 option"
  tmp_critical :: "f64 option"
  tmp_source :: string

record gpu_snapshot =
  gpu_id :: string
  gpu_vendor :: string
  gpu_name :: string
  gpu_utilization :: "f64 option"
  gpu_memory_total :: "64 word option"
  gpu_memory_used :: "64 word option"
  gpu_temperature :: "f64 option"
  gpu_power :: "f64 option"
  gpu_core_clock :: "f64 option"
  gpu_memory_clock :: "f64 option"
  gpu_pcie_rx :: "f64 option"
  gpu_pcie_tx :: "f64 option"
  gpu_source :: string

record memory_module =
  mem_id :: string
  mem_locator :: "string option"
  mem_model :: "string option"
  mem_vendor :: "string option"
  mem_type :: "string option"
  mem_module_version :: "string option"
  mem_form_factor :: "string option"
  mem_capacity :: "64 word option"
  mem_speed :: "f64 option"
  mem_configured_speed :: "f64 option"
  mem_reported_speed :: "string option"
  mem_source :: string

datatype hardware_device_kind = Thunderbolt | Monitor | Bluetooth | Usb_Controller | Usb_Device | Audio

record hardware_device =
  dev_id :: string
  dev_kind :: hardware_device_kind
  dev_name :: string
  dev_model :: "string option"
  dev_vendor :: "string option"
  dev_vendor_id :: "string option"
  dev_product_id :: "string option"
  dev_revision :: "string option"
  dev_version :: "string option"
  dev_bus :: "string option"
  dev_driver :: "string option"
  dev_connection :: "string option"
  dev_speed :: "f64 option"
  dev_source :: string

record cpu_hardware =
  chw_model :: "string option"
  chw_vendor :: "string option"
  chw_frequency :: "f64 option"
  chw_max_frequency :: "f64 option"
  chw_per_core :: "f64 option list"
  chw_load :: "f64 list option"

record network_hardware =
  nhw_name :: string
  nhw_mac :: "string option"
  nhw_addresses :: "string list"
  nhw_mtu :: "64 word option"
  nhw_link_speed :: "f64 option"
  nhw_state :: "string option"

record physical_adapter =
  pna_id :: string
  pna_name :: string
  pna_interface :: "string option"
  pna_mac :: "string option"
  pna_link_speed :: "f64 option"
  pna_source :: string

datatype sensor_kind = Fan_Rpm | Voltage_Volts | Current_Amps | Power_Watts | Energy_Joules

record hardware_sensor =
  sns_id :: string
  sns_label :: string
  sns_kind :: sensor_kind
  sns_value :: f64
  sns_source :: string

record disk_health =
  dh_device :: string
  dh_model :: "string option"
  dh_serial :: "string option"
  dh_protocol :: "string option"
  dh_collected_at :: time
  dh_healthy :: "bool option"
  dh_temperature :: "f64 option"
  dh_percentage_used :: "f64 option"
  dh_spare :: "f64 option"
  dh_critical_warning :: "8 word option"
  dh_power_on_hours :: "64 word option"
  dh_power_cycles :: "64 word option"
  dh_unsafe_shutdowns :: "64 word option"
  dh_media_errors :: "64 word option"
  dh_bytes_read :: "64 word option"
  dh_bytes_written :: "64 word option"
  dh_source :: string

record hardware_snapshot =
  hw_collected_at :: time
  hw_cpu :: cpu_hardware
  hw_networks :: "network_hardware list"
  hw_physical :: "physical_adapter list"
  hw_sensors :: "hardware_sensor list"
  hw_disks :: "disk_health list"
  hw_inventory_at :: "time option"
  hw_modules :: "memory_module list"
  hw_devices :: "hardware_device list"

record cpu_snapshot =
  cpu_usage :: f64
  cpu_logical :: "32 word"
  cpu_physical :: "32 word option"
  cpu_per_core :: "f64 list"

record memory_snapshot =
  ram_total :: "64 word"
  ram_used :: "64 word"
  ram_available :: "64 word"
  swap_total :: "64 word"
  swap_used :: "64 word"

record system_snapshot =
  sys_hardware :: "hardware_snapshot option"
  sys_uptime :: "64 word"
  sys_cpu :: cpu_snapshot
  sys_memory :: memory_snapshot
  sys_networks :: "network_snapshot list"
  sys_disks :: "disk_snapshot list"
  sys_temperatures :: "temperature_snapshot list"
  sys_gpus :: "gpu_snapshot list"

record client_health =
  ch_spool_pending :: "64 word"
  ch_collector_errors :: "64 word"

record client_report =
  rep_schema_version :: "64 word"
  rep_id :: string
  rep_collected_at :: time
  rep_host :: host_identity
  rep_interval :: f64
  rep_system :: system_snapshot
  rep_capabilities :: "capability list"
  rep_client :: client_health

section \<open>Limits and encoders\<close>

record text_limits =
  tl_host_os :: nat
  tl_host_version :: nat
  tl_host_arch :: nat
  tl_client_version :: nat
  tl_capability_name :: nat
  tl_capability_source :: nat
  tl_capability_message :: nat
  tl_network_name :: nat
  tl_disk_name :: nat
  tl_mount_point :: nat
  tl_file_system :: nat
  tl_temperature_id :: nat
  tl_temperature_label :: nat
  tl_temperature_source :: nat
  tl_gpu_id :: nat
  tl_gpu_vendor :: nat
  tl_gpu_name :: nat
  tl_gpu_source :: nat
  tl_hardware :: nat

record count_limits =
  cl_cpu_cores :: nat
  cl_capabilities :: nat
  cl_networks :: nat
  cl_disks :: nat
  cl_temperatures :: nat
  cl_gpus :: nat
  cl_memory_modules :: nat
  cl_hardware_devices :: nat
  cl_hardware_networks :: nat
  cl_hardware_sensors :: nat
  cl_hardware_disks :: nat

text \<open>
  \<open>serde_json::to_vec\<close> may fail, hence the options. \<open>ro_scaled current n\<close> is the truncated
  product of a length with the shrink ratio at \<open>current\<close> body bytes, computed in \<open>f64\<close>;
  \<open>ro_max_zero\<close> is the platform's \<open>(-0.0).max(0.0)\<close>. The interval limits are the constants
  of the crate, as \<open>f64\<close>.
\<close>

record report_ops =
  ro_schema_version :: "64 word"
  ro_max_body :: nat
  ro_text :: text_limits
  ro_count :: count_limits
  ro_min_interval :: f64
  ro_max_interval :: f64
  ro_encode :: "client_report \<Rightarrow> string option"
  ro_decode :: "string \<Rightarrow> client_report option"
  ro_capability_json :: "capability \<Rightarrow> string option"
  ro_network_json :: "network_snapshot \<Rightarrow> string option"
  ro_disk_json :: "disk_snapshot \<Rightarrow> string option"
  ro_temperature_json :: "temperature_snapshot \<Rightarrow> string option"
  ro_gpu_json :: "gpu_snapshot \<Rightarrow> string option"
  ro_scaled :: "nat \<Rightarrow> nat \<Rightarrow> nat"
  ro_max_zero :: f64

end
