(* ===== verification/Report_Contract.thy ===== *)
theory Report_Contract
  imports Report "HOL-Library.Char_ord" "HOL-Library.List_Lexorder" "HOL-Library.Product_Lexorder"
begin

text \<open>
  Enforcement of the wire contract on a collected report: \<open>src/report_contract.rs\<close>. A function
  \<open>fn bound(value: &mut T) -> bool\<close> is a function from the value to the new value and the
  returned flag; \<open>changed |= bound(&mut field)\<close> is a \<open>step\<close> on the field, and a body that
  collects the flag is the list of its steps in the order of the code.
\<close>

section \<open>Steps\<close>

type_synonym 'a bounding = "'a \<Rightarrow> 'a \<times> bool"

definition step :: "('r \<Rightarrow> 'a) \<Rightarrow> (('a \<Rightarrow> 'a) \<Rightarrow> 'r \<Rightarrow> 'r) \<Rightarrow> 'a bounding \<Rightarrow> 'r bounding" where
  "step get upd f r = (upd (\<lambda>_. fst (f (get r))) r, snd (f (get r)))"

fun steps :: "'r bounding list \<Rightarrow> 'r bounding" where
  "steps [] r = (r, False)"
| "steps (f # fs) r = (fst (steps fs (fst (f r))), snd (f r) \<or> snd (steps fs (fst (f r))))"

definition each :: "'a bounding \<Rightarrow> 'a list bounding" where
  "each f xs = (map (\<lambda>x. fst (f x)) xs, list_ex (\<lambda>x. snd (f x)) xs)"

section \<open>Scalars and text\<close>

definition replace_f64 :: "f64 \<Rightarrow> f64 bounding" where
  "replace_f64 replacement v = (replacement, v \<noteq> replacement)"

definition bound_percent :: "f64 bounding" where
  "bound_percent v = replace_f64 (if is_finite v then f64_clamp f64_zero f64_100 v else f64_zero) v"

definition bound_nonnegative :: "report_ops \<Rightarrow> f64 bounding" where
  "bound_nonnegative R v =
     replace_f64 (if is_finite v then f64_max (ro_max_zero R) v f64_zero else f64_zero) v"

definition bound_optional_range :: "f64 \<Rightarrow> f64 \<Rightarrow> f64 option bounding" where
  "bound_optional_range minimum maximum v =
     (case v of
        Some x \<Rightarrow> if \<not> is_finite x \<or> \<not> (f64_le minimum x \<and> f64_le x maximum) then (None, True) else (v, False)
      | None \<Rightarrow> (v, False))"

definition bound_optional_nonnegative :: "f64 option bounding" where
  "bound_optional_nonnegative = bound_optional_range f64_zero f64_largest"

definition clean_number :: "f64 \<Rightarrow> f64 \<Rightarrow> f64 option bounding" where
  "clean_number minimum maximum v =
     (case v of
        Some x \<Rightarrow> if \<not> is_finite x \<or> f64_less x minimum \<or> f64_less maximum x then (None, True) else (v, False)
      | None \<Rightarrow> (v, False))"

definition strip_controls_and_truncate :: "nat \<Rightarrow> string \<Rightarrow> string" where
  "strip_controls_and_truncate maximum s = truncate_utf8 maximum (strip_controls s)"

definition bound_required_text :: "nat \<Rightarrow> string \<Rightarrow> string bounding" where
  "bound_required_text maximum fallback original =
     (let v = strip_controls_and_truncate maximum original;
          v = (if trim v = [] then truncate_utf8 maximum fallback else v) in
      (v, v \<noteq> original))"

definition bound_descriptive_text :: "nat \<Rightarrow> string bounding" where
  "bound_descriptive_text maximum original =
     (let v = strip_controls_and_truncate maximum original in (v, v \<noteq> original))"

definition bound_optional_text :: "nat \<Rightarrow> string option bounding" where
  "bound_optional_text maximum v =
     (case v of
        None \<Rightarrow> (None, False)
      | Some s \<Rightarrow> (Some (fst (bound_descriptive_text maximum s)), snd (bound_descriptive_text maximum s)))"

definition bound_optional_nonempty_text :: "nat \<Rightarrow> string option bounding" where
  "bound_optional_nonempty_text maximum original =
     (let v = (case original of
                 None \<Rightarrow> None
               | Some s \<Rightarrow> let t = strip_controls_and_truncate maximum s in if trim t = [] then None else Some t) in
      (v, v \<noteq> original))"

text \<open>\<open>truncate\<close> on a vector, and a value that may not exceed another.\<close>

definition truncate_list :: "nat \<Rightarrow> 'a list bounding" where
  "truncate_list maximum xs = (if length xs \<le> maximum then (xs, False) else (take maximum xs, True))"

definition at_most :: "'a::linorder \<Rightarrow> 'a bounding" where
  "at_most limit v = (if limit < v then (limit, True) else (v, False))"

section \<open>Normalization of the parts of a report\<close>

definition bound_capability :: "report_ops \<Rightarrow> capability bounding" where
  "bound_capability R = (let T = ro_text R in steps
     [step cap_name cap_name_update (bound_required_text (tl_capability_name T) ''unknown.capability''),
      step cap_source cap_source_update (bound_required_text (tl_capability_source T) ''unknown''),
      step cap_message cap_message_update (bound_optional_nonempty_text (tl_capability_message T))])"

definition bound_network :: "report_ops \<Rightarrow> network_snapshot bounding" where
  "bound_network R = (let T = ro_text R in steps
     [step net_name net_name_update (bound_required_text (tl_network_name T) ''unnamed-network''),
      step net_received_per_second net_received_per_second_update (bound_nonnegative R),
      step net_transmitted_per_second net_transmitted_per_second_update (bound_nonnegative R)])"

definition bound_disk :: "report_ops \<Rightarrow> disk_snapshot bounding" where
  "bound_disk R = (let T = ro_text R in steps
     [step dsk_name dsk_name_update (bound_descriptive_text (tl_disk_name T)),
      step dsk_mount_point dsk_mount_point_update (bound_required_text (tl_mount_point T) ''unknown''),
      step dsk_file_system dsk_file_system_update (bound_descriptive_text (tl_file_system T)),
      (\<lambda>d. step dsk_available dsk_available_update (at_most (dsk_total d)) d),
      step dsk_read_per_second dsk_read_per_second_update (bound_nonnegative R),
      step dsk_written_per_second dsk_written_per_second_update (bound_nonnegative R)])"

definition bound_temperature :: "report_ops \<Rightarrow> temperature_snapshot bounding" where
  "bound_temperature R = (let T = ro_text R; range = bound_optional_range f64_minus_273_15 f64_1000 in steps
     [step tmp_id tmp_id_update (bound_descriptive_text (tl_temperature_id T)),
      step tmp_label tmp_label_update (bound_descriptive_text (tl_temperature_label T)),
      step tmp_source tmp_source_update (bound_descriptive_text (tl_temperature_source T)),
      step tmp_celsius tmp_celsius_update range,
      step tmp_max tmp_max_update range,
      step tmp_critical tmp_critical_update range])"

text \<open>\<open>if let (Some(used), Some(total)) ... && used > total\<close>.\<close>

definition bound_gpu_memory :: "gpu_snapshot bounding" where
  "bound_gpu_memory g =
     (case (gpu_memory_used g, gpu_memory_total g) of
        (Some used, Some limit) \<Rightarrow> if limit < used then (g\<lparr>gpu_memory_used := Some limit\<rparr>, True) else (g, False)
      | _ \<Rightarrow> (g, False))"

definition bound_gpu :: "report_ops \<Rightarrow> gpu_snapshot bounding" where
  "bound_gpu R = (let T = ro_text R in steps
     [step gpu_id gpu_id_update (bound_descriptive_text (tl_gpu_id T)),
      step gpu_vendor gpu_vendor_update (bound_descriptive_text (tl_gpu_vendor T)),
      step gpu_name gpu_name_update (bound_descriptive_text (tl_gpu_name T)),
      step gpu_source gpu_source_update (bound_descriptive_text (tl_gpu_source T)),
      step gpu_utilization gpu_utilization_update (bound_optional_range f64_zero f64_100),
      bound_gpu_memory,
      step gpu_temperature gpu_temperature_update (bound_optional_range f64_minus_273_15 f64_1000),
      step gpu_power gpu_power_update bound_optional_nonnegative,
      step gpu_core_clock gpu_core_clock_update bound_optional_nonnegative,
      step gpu_memory_clock gpu_memory_clock_update bound_optional_nonnegative,
      step gpu_pcie_rx gpu_pcie_rx_update bound_optional_nonnegative,
      step gpu_pcie_tx gpu_pcie_tx_update bound_optional_nonnegative])"

definition bound_memory :: "memory_snapshot bounding" where
  "bound_memory = steps
     [(\<lambda>m. step ram_used ram_used_update (at_most (ram_total m)) m),
      (\<lambda>m. step ram_available ram_available_update (at_most (ram_total m)) m),
      (\<lambda>m. step swap_used swap_used_update (at_most (swap_total m)) m)]"

definition bound_host :: "report_ops \<Rightarrow> host_identity bounding" where
  "bound_host R = (let T = ro_text R in steps
     [step hi_os hi_os_update (bound_required_text (tl_host_os T) ''unknown''),
      step hi_os_version hi_os_version_update (bound_optional_text (tl_host_version T)),
      step hi_kernel_version hi_kernel_version_update (bound_optional_text (tl_host_version T)),
      step hi_arch hi_arch_update (bound_required_text (tl_host_arch T) ''unknown''),
      step hi_client_version hi_client_version_update (bound_required_text (tl_client_version T) ''unknown'')])"

definition bound_interval :: "report_ops \<Rightarrow> f64 bounding" where
  "bound_interval R v =
     (if \<not> is_finite v then (ro_min_interval R, True)
      else replace_f64 (f64_clamp (ro_min_interval R) (ro_max_interval R) v) v)"

text \<open>Times are in nanoseconds; the tolerance is five minutes.\<close>

definition clamp_collected_at :: "time \<Rightarrow> time bounding" where
  "clamp_collected_at now t = (if 5 * 60 * 1000000000 < t - now then (now, True) else (t, False))"

definition unchanged :: "'a bounding" where
  "unchanged v = (v, False)"

abbreviation system_step ::
  "(system_snapshot \<Rightarrow> 'a) \<Rightarrow> (('a \<Rightarrow> 'a) \<Rightarrow> system_snapshot \<Rightarrow> system_snapshot) \<Rightarrow> 'a bounding \<Rightarrow> client_report bounding" where
  "system_step get upd f \<equiv> step rep_system rep_system_update (step get upd f)"

definition normalize_scalars_and_text :: "report_ops \<Rightarrow> time \<Rightarrow> bool \<Rightarrow> client_report bounding" where
  "normalize_scalars_and_text R now clamp_future_timestamp = steps
     [step rep_interval rep_interval_update (bound_interval R),
      (if clamp_future_timestamp then step rep_collected_at rep_collected_at_update (clamp_collected_at now)
       else unchanged),
      step rep_host rep_host_update (bound_host R),
      system_step sys_cpu sys_cpu_update (step cpu_usage cpu_usage_update bound_percent),
      system_step sys_memory sys_memory_update bound_memory,
      step rep_capabilities rep_capabilities_update (each (bound_capability R)),
      system_step sys_networks sys_networks_update (each (bound_network R)),
      system_step sys_disks sys_disks_update (each (bound_disk R)),
      system_step sys_temperatures sys_temperatures_update (each (bound_temperature R)),
      system_step sys_gpus sys_gpus_update (each (bound_gpu R))]"

section \<open>Hardware inventory\<close>

text \<open>\<open>dedup_by\<close> drops an element that equals the last one kept; \<open>retain\<close> with a set of keys
  keeps the first element of each key.\<close>

fun dedup_by :: "('a \<Rightarrow> 'k) \<Rightarrow> 'a list \<Rightarrow> 'a list" where
  "dedup_by key [] = []"
| "dedup_by key [x] = [x]"
| "dedup_by key (x # y # zs) =
     (if key x = key y then dedup_by key (x # zs) else x # dedup_by key (y # zs))"

fun retain_first :: "('a \<Rightarrow> 'k) \<Rightarrow> 'k set \<Rightarrow> 'a list \<Rightarrow> 'a list" where
  "retain_first key seen [] = []"
| "retain_first key seen (x # xs) =
     (if key x \<in> seen then retain_first key seen xs
      else x # retain_first key (insert (key x) seen) xs)"

text \<open>\<open>changed |= length != values.len()\<close> around an operation that drops elements.\<close>

definition dropping :: "('a list \<Rightarrow> 'a list) \<Rightarrow> 'a list bounding" where
  "dropping f xs = (f xs, length (f xs) \<noteq> length xs)"

definition sorting :: "('a \<Rightarrow> 'k::linorder) \<Rightarrow> 'a list bounding" where
  "sorting key xs = (sort_key key xs, False)"

definition bound_module :: "report_ops \<Rightarrow> memory_module bounding" where
  "bound_module R = (let n = tl_hardware (ro_text R) in steps
     [step mem_id mem_id_update (bound_required_text n ''unknown-memory''),
      step mem_source mem_source_update (bound_required_text n ''unknown''),
      step mem_locator mem_locator_update (bound_optional_nonempty_text n),
      step mem_model mem_model_update (bound_optional_nonempty_text n),
      step mem_vendor mem_vendor_update (bound_optional_nonempty_text n),
      step mem_type mem_type_update (bound_optional_nonempty_text n),
      step mem_module_version mem_module_version_update (bound_optional_nonempty_text n),
      step mem_form_factor mem_form_factor_update (bound_optional_nonempty_text n),
      step mem_reported_speed mem_reported_speed_update (bound_optional_nonempty_text n),
      step mem_capacity mem_capacity_update (\<lambda>v. if v = Some 0 then (None, True) else (v, False)),
      step mem_speed mem_speed_update (clean_number f64_min_positive f64_1e7),
      step mem_configured_speed mem_configured_speed_update (clean_number f64_min_positive f64_1e7)])"

definition bound_device :: "report_ops \<Rightarrow> hardware_device bounding" where
  "bound_device R = (let n = tl_hardware (ro_text R) in steps
     [step dev_id dev_id_update (bound_required_text n ''unknown-device''),
      step dev_name dev_name_update (bound_required_text n ''unknown-device''),
      step dev_source dev_source_update (bound_required_text n ''unknown''),
      step dev_model dev_model_update (bound_optional_nonempty_text n),
      step dev_vendor dev_vendor_update (bound_optional_nonempty_text n),
      step dev_vendor_id dev_vendor_id_update (bound_optional_nonempty_text n),
      step dev_product_id dev_product_id_update (bound_optional_nonempty_text n),
      step dev_revision dev_revision_update (bound_optional_nonempty_text n),
      step dev_version dev_version_update (bound_optional_nonempty_text n),
      step dev_bus dev_bus_update (bound_optional_nonempty_text n),
      step dev_driver dev_driver_update (bound_optional_nonempty_text n),
      step dev_connection dev_connection_update (bound_optional_nonempty_text n),
      step dev_speed dev_speed_update (clean_number f64_min_positive f64_1e9)])"

definition bound_cpu_hardware :: "report_ops \<Rightarrow> cpu_hardware bounding" where
  "bound_cpu_hardware R = (let n = tl_hardware (ro_text R); number = clean_number f64_zero f64_largest in steps
     [step chw_model chw_model_update (bound_optional_nonempty_text n),
      step chw_vendor chw_vendor_update (bound_optional_nonempty_text n),
      step chw_frequency chw_frequency_update number,
      step chw_max_frequency chw_max_frequency_update number,
      step chw_per_core chw_per_core_update (truncate_list (cl_cpu_cores (ro_count R))),
      step chw_per_core chw_per_core_update (each number),
      step chw_load chw_load_update (\<lambda>v. case v of
          Some l \<Rightarrow> if list_ex (\<lambda>x. \<not> is_finite x \<or> f64_less x f64_zero) l then (None, True) else (v, False)
        | None \<Rightarrow> (v, False))])"

definition address_ok :: "string \<Rightarrow> bool" where
  "address_ok address =
     (case split_once CHR ''/'' address of
        None \<Rightarrow> False
      | Some (ip, prefix) \<Rightarrow>
          (case (parse_ip ip, parse_unsigned 256 prefix) of
             (Some kind, Some n) \<Rightarrow> n \<le> (if kind = Ipv4 then 32 else 128)
           | _ \<Rightarrow> False))"

definition bound_network_hardware :: "report_ops \<Rightarrow> network_hardware bounding" where
  "bound_network_hardware R = (let n = tl_hardware (ro_text R) in steps
     [step nhw_name nhw_name_update (bound_required_text n ''unknown''),
      step nhw_mac nhw_mac_update (bound_optional_nonempty_text n),
      step nhw_state nhw_state_update (bound_optional_nonempty_text n),
      step nhw_link_speed nhw_link_speed_update (clean_number f64_zero f64_largest),
      step nhw_addresses nhw_addresses_update (truncate_list 64),
      step nhw_addresses nhw_addresses_update (dropping (filter address_ok))])"

definition bound_physical_adapter :: "report_ops \<Rightarrow> physical_adapter bounding" where
  "bound_physical_adapter R = (let n = tl_hardware (ro_text R) in steps
     [step pna_id pna_id_update (bound_required_text n ''unknown-adapter''),
      step pna_name pna_name_update (bound_required_text n ''unknown-adapter''),
      step pna_interface pna_interface_update (bound_optional_nonempty_text n),
      step pna_mac pna_mac_update (bound_optional_nonempty_text n),
      step pna_link_speed pna_link_speed_update (clean_number f64_zero f64_largest),
      step pna_source pna_source_update (bound_required_text n ''unknown'')])"

definition sensor_ok :: "hardware_sensor \<Rightarrow> bool" where
  "sensor_ok s \<longleftrightarrow> is_finite (sns_value s) \<and>
     (f64_le f64_zero (sns_value s) \<or> sns_kind s \<in> {Voltage_Volts, Current_Amps})"

definition bound_sensor :: "report_ops \<Rightarrow> hardware_sensor bounding" where
  "bound_sensor R = (let n = tl_hardware (ro_text R) in steps
     [step sns_id sns_id_update (bound_required_text n ''unknown''),
      step sns_label sns_label_update (bound_required_text n ''unknown''),
      step sns_source sns_source_update (bound_required_text n ''unknown'')])"

definition bound_disk_health :: "report_ops \<Rightarrow> time \<Rightarrow> disk_health bounding" where
  "bound_disk_health R report_time = (let n = tl_hardware (ro_text R) in steps
     [step dh_collected_at dh_collected_at_update (at_most report_time),
      step dh_device dh_device_update (bound_required_text n ''unknown''),
      step dh_source dh_source_update (bound_required_text n ''unknown''),
      step dh_model dh_model_update (bound_optional_nonempty_text n),
      step dh_serial dh_serial_update (bound_optional_nonempty_text n),
      step dh_protocol dh_protocol_update (bound_optional_nonempty_text n),
      step dh_temperature dh_temperature_update (clean_number f64_minus_273_15 f64_1000),
      step dh_percentage_used dh_percentage_used_update (clean_number f64_zero f64_255),
      step dh_spare dh_spare_update (clean_number f64_zero f64_100)])"

text \<open>The lists of the inventory, in the order of \<open>bound_hardware\<close>.\<close>

definition bound_modules :: "report_ops \<Rightarrow> memory_module list bounding" where
  "bound_modules R = steps
     [each (bound_module R), sorting (\<lambda>m. (mem_source m, mem_id m)),
      dropping (dedup_by (\<lambda>m. (mem_source m, mem_id m))), truncate_list (cl_memory_modules (ro_count R))]"

definition bound_devices :: "report_ops \<Rightarrow> hardware_device list bounding" where
  "bound_devices R = steps
     [each (bound_device R), sorting (\<lambda>d. (dev_source d, dev_id d)),
      dropping (retain_first (\<lambda>d. (dev_source d, dev_id d, dev_kind d)) {}),
      truncate_list (cl_hardware_devices (ro_count R))]"

definition bound_networks_hardware :: "report_ops \<Rightarrow> network_hardware list bounding" where
  "bound_networks_hardware R = steps
     [truncate_list (cl_hardware_networks (ro_count R)), each (bound_network_hardware R)]"

definition bound_physical_adapters :: "report_ops \<Rightarrow> physical_adapter list bounding" where
  "bound_physical_adapters R = steps
     [each (bound_physical_adapter R), dropping (retain_first (\<lambda>n. (pna_source n, pna_id n)) {}),
      truncate_list (cl_hardware_networks (ro_count R))]"

definition bound_sensors :: "report_ops \<Rightarrow> hardware_sensor list bounding" where
  "bound_sensors R = steps
     [truncate_list (cl_hardware_sensors (ro_count R)), dropping (filter sensor_ok), each (bound_sensor R),
      dropping (retain_first (\<lambda>s. (sns_source s, sns_id s)) {})]"

definition bound_disks_health :: "report_ops \<Rightarrow> time \<Rightarrow> disk_health list bounding" where
  "bound_disks_health R report_time = steps
     [truncate_list (cl_hardware_disks (ro_count R)), each (bound_disk_health R report_time)]"

definition bound_inventory_time :: "time \<Rightarrow> time option bounding" where
  "bound_inventory_time report_time v =
     (case v of
        None \<Rightarrow> (v, False)
      | Some t \<Rightarrow> (Some (fst (at_most report_time t)), snd (at_most report_time t)))"

definition bound_hardware :: "report_ops \<Rightarrow> time \<Rightarrow> hardware_snapshot bounding" where
  "bound_hardware R report_time = steps
     [step hw_inventory_at hw_inventory_at_update (bound_inventory_time report_time),
      step hw_modules hw_modules_update (bound_modules R),
      step hw_devices hw_devices_update (bound_devices R),
      step hw_collected_at hw_collected_at_update (at_most report_time),
      step hw_cpu hw_cpu_update (bound_cpu_hardware R),
      step hw_networks hw_networks_update (bound_networks_hardware R),
      step hw_physical hw_physical_update (bound_physical_adapters R),
      step hw_sensors hw_sensors_update (bound_sensors R),
      step hw_disks hw_disks_update (bound_disks_health R report_time)]"

section \<open>Capabilities and the processor\<close>

definition truncated_capability :: string where
  "truncated_capability = ''client.report.truncated''"

definition truncation_marker :: capability where
  "truncation_marker = capability_unavailable truncated_capability ''xsoc'' Invalid_Data
     ''one or more collected values were bounded to the current report contract''"

definition serialized_key :: "('a \<Rightarrow> string option) \<Rightarrow> 'a \<Rightarrow> string" where
  "serialized_key json value = (case json value of None \<Rightarrow> [] | Some bytes \<Rightarrow> bytes)"

definition capability_order :: "report_ops \<Rightarrow> capability \<Rightarrow> bool \<times> string \<times> string \<times> bool \<times> string" where
  "capability_order R c = (cap_name c \<noteq> truncated_capability, cap_name c, cap_source c, \<not> cap_available c,
     serialized_key (ro_capability_json R) c)"

definition order_capabilities :: "report_ops \<Rightarrow> capability list \<Rightarrow> capability list" where
  "order_capabilities R = sort_key (capability_order R)"

definition bound_capabilities :: "report_ops \<Rightarrow> capability list bounding" where
  "bound_capabilities R = steps
     [dropping (\<lambda>cs. dedup_by (\<lambda>c. (cap_name c, cap_source c)) (order_capabilities R cs)),
      truncate_list (cl_capabilities (ro_count R))]"

definition bound_cpu :: "report_ops \<Rightarrow> cpu_snapshot bounding" where
  "bound_cpu R = steps
     [(\<lambda>c. if cpu_per_core c = [] then (c\<lparr>cpu_per_core := [cpu_usage c]\<rparr>, True) else (c, False)),
      step cpu_per_core cpu_per_core_update (each bound_percent),
      step cpu_per_core cpu_per_core_update (truncate_list (cl_cpu_cores (ro_count R))),
      (\<lambda>c. let logical = of_nat (length (cpu_per_core c)) in
           if cpu_logical c \<noteq> logical then (c\<lparr>cpu_logical := logical\<rparr>, True) else (c, False)),
      (\<lambda>c. if (case cpu_physical c of None \<Rightarrow> False
               | Some n \<Rightarrow> n = 0 \<or> of_nat (length (cpu_per_core c)) < n)
           then (c\<lparr>cpu_physical := None\<rparr>, True) else (c, False))]"

section \<open>Summary peaks first\<close>

text \<open>\<open>max_by\<close> returns the last of the maximal elements.\<close>

fun last_maximum :: "(nat \<times> f64) option \<Rightarrow> (nat \<times> f64) list \<Rightarrow> (nat \<times> f64) option" where
  "last_maximum best [] = best"
| "last_maximum None (c # cs) = last_maximum (Some c) cs"
| "last_maximum (Some b) (c # cs) =
     last_maximum (Some (if total_key (snd b) \<le> total_key (snd c) then c else b)) cs"

definition peak_index :: "('a \<Rightarrow> f64 option) \<Rightarrow> 'a list \<Rightarrow> nat option" where
  "peak_index metric xs = map_option fst
     (last_maximum None (List.map_filter (\<lambda>(i, x). map_option (Pair i) (metric x)) (enumerate 0 xs)))"

fun anchor_indices :: "('a \<Rightarrow> f64 option) list \<Rightarrow> 'a list \<Rightarrow> nat list \<Rightarrow> nat list" where
  "anchor_indices [] xs anchors = anchors"
| "anchor_indices (m # ms) xs anchors =
     anchor_indices ms xs
       (case peak_index m xs of
          Some i \<Rightarrow> if i \<in> set anchors then anchors else anchors @ [i]
        | None \<Rightarrow> anchors)"

definition prioritize_by_metrics ::
  "('a \<Rightarrow> string) \<Rightarrow> ('a \<Rightarrow> f64 option) list \<Rightarrow> 'a list \<Rightarrow> 'a list \<times> nat" where
  "prioritize_by_metrics key metrics values =
     (let sorted = sort_key key values; anchors = anchor_indices metrics sorted [] in
      (map (\<lambda>i. sorted ! i) anchors @ map snd (filter (\<lambda>(i, x). i \<notin> set anchors) (enumerate 0 sorted)),
       length anchors))"

section \<open>Fitting the body\<close>

definition serialized_len :: "report_ops \<Rightarrow> client_report \<Rightarrow> nat" where
  "serialized_len R r = (case ro_encode R r of Some body \<Rightarrow> length body | None \<Rightarrow> 2 ^ 64 - 1)"

text \<open>The five collections: capabilities, networks, disks, temperatures, GPUs.\<close>

type_synonym minima = "nat \<times> nat \<times> nat \<times> nat \<times> nat"

definition collection_lengths :: "client_report \<Rightarrow> minima" where
  "collection_lengths r =
     (length (rep_capabilities r), length (sys_networks (rep_system r)), length (sys_disks (rep_system r)),
      length (sys_temperatures (rep_system r)), length (sys_gpus (rep_system r)))"

definition shrink :: "nat \<Rightarrow> (nat \<Rightarrow> nat) \<Rightarrow> 'a list \<Rightarrow> 'a list" where
  "shrink minimum scaled values =
     (if length values \<le> minimum then values
      else let target = max (scaled (length values)) minimum;
               target = (if length values \<le> target then length values - 1 else target) in
           take target values)"

definition shrink_collections :: "minima \<Rightarrow> (nat \<Rightarrow> nat) \<Rightarrow> client_report \<Rightarrow> client_report" where
  "shrink_collections m scaled r =
     (case m of (m0, m1, m2, m3, m4) \<Rightarrow>
        r\<lparr>rep_capabilities := shrink m0 scaled (rep_capabilities r),
          rep_system := (rep_system r)\<lparr>
            sys_networks := shrink m1 scaled (sys_networks (rep_system r)),
            sys_disks := shrink m2 scaled (sys_disks (rep_system r)),
            sys_temperatures := shrink m3 scaled (sys_temperatures (rep_system r)),
            sys_gpus := shrink m4 scaled (sys_gpus (rep_system r))\<rparr>\<rparr>)"

definition removable :: "minima \<Rightarrow> client_report \<Rightarrow> nat" where
  "removable m r =
     (case (m, collection_lengths r) of
        ((m0, m1, m2, m3, m4), (n0, n1, n2, n3, n4)) \<Rightarrow>
          (n0 - m0) + (n1 - m1) + (n2 - m2) + (n3 - m3) + (n4 - m4))"

definition total_items :: "client_report \<Rightarrow> nat" where
  "total_items r = removable (0, 0, 0, 0, 0) r"

definition remove_last_optional :: "nat \<Rightarrow> client_report \<Rightarrow> client_report option" where
  "remove_last_optional capability_minimum r =
     (let s = rep_system r in
      if sys_temperatures s \<noteq> [] then Some (r\<lparr>rep_system := s\<lparr>sys_temperatures := butlast (sys_temperatures s)\<rparr>\<rparr>)
      else if sys_disks s \<noteq> [] then Some (r\<lparr>rep_system := s\<lparr>sys_disks := butlast (sys_disks s)\<rparr>\<rparr>)
      else if sys_networks s \<noteq> [] then Some (r\<lparr>rep_system := s\<lparr>sys_networks := butlast (sys_networks s)\<rparr>\<rparr>)
      else if sys_gpus s \<noteq> [] then Some (r\<lparr>rep_system := s\<lparr>sys_gpus := butlast (sys_gpus s)\<rparr>\<rparr>)
      else if capability_minimum < length (rep_capabilities r)
      then Some (r\<lparr>rep_capabilities := butlast (rep_capabilities r)\<rparr>)
      else None)"

lemma length_shrink: "length (shrink m f xs) \<le> length xs \<and> (m < length xs \<longrightarrow> length (shrink m f xs) < length xs)"
  by (auto simp: shrink_def Let_def)

lemma total_items_shrink:
  assumes "removable m r \<noteq> 0"
  shows "total_items (shrink_collections m f r) < total_items r"
proof -
  obtain m0 m1 m2 m3 m4 where m: "m = (m0, m1, m2, m3, m4)" by (cases m)
  let ?s = "rep_system r"
  note l = length_shrink [of m0 f "rep_capabilities r"] length_shrink [of m1 f "sys_networks ?s"]
    length_shrink [of m2 f "sys_disks ?s"] length_shrink [of m3 f "sys_temperatures ?s"]
    length_shrink [of m4 f "sys_gpus ?s"]
  have "m0 < length (rep_capabilities r) \<or> m1 < length (sys_networks ?s) \<or> m2 < length (sys_disks ?s)
      \<or> m3 < length (sys_temperatures ?s) \<or> m4 < length (sys_gpus ?s)"
    using assms by (auto simp: removable_def collection_lengths_def m)
  then show ?thesis
    using l by (auto simp: total_items_def removable_def collection_lengths_def shrink_collections_def m)
qed

lemma total_items_remove: "remove_last_optional m r = Some r' \<Longrightarrow> total_items r' < total_items r"
  by (auto simp: remove_last_optional_def Let_def total_items_def removable_def collection_lengths_def
      split: if_splits)

function fit_shrink :: "report_ops \<Rightarrow> minima \<Rightarrow> client_report \<Rightarrow> client_report" where
  "fit_shrink R m r =
     (if ro_max_body R < serialized_len R r \<and> removable m r \<noteq> 0
      then fit_shrink R m (shrink_collections m (ro_scaled R (max 1 (serialized_len R r))) r)
      else r)"
  by pat_completeness auto
termination
  by (relation "measure (\<lambda>(R, m, r). total_items r)") (auto intro: total_items_shrink)

declare fit_shrink.simps [simp del]

function fit_remove :: "report_ops \<Rightarrow> nat \<Rightarrow> client_report \<Rightarrow> client_report" where
  "fit_remove R m r =
     (if ro_max_body R < serialized_len R r
      then (case remove_last_optional m r of Some r' \<Rightarrow> fit_remove R m r' | None \<Rightarrow> r)
      else r)"
  by pat_completeness auto
termination
  by (relation "measure (\<lambda>(R, m, r). total_items r)") (auto intro: total_items_remove)

declare fit_remove.simps [simp del]

definition drop_hardware :: "client_report \<Rightarrow> client_report" where
  "drop_hardware r = r\<lparr>rep_system := (rep_system r)\<lparr>sys_hardware := None\<rparr>\<rparr>"

definition fit_body :: "report_ops \<Rightarrow> nat \<Rightarrow> nat \<Rightarrow> nat \<Rightarrow> nat \<Rightarrow> client_report \<Rightarrow> client_report" where
  "fit_body R network_minimum disk_minimum temperature_minimum gpu_minimum r =
     (let r = (if ro_max_body R < serialized_len R r then drop_hardware r else r);
          capability_minimum =
            (case rep_capabilities r of
               [] \<Rightarrow> 0
             | c # cs \<Rightarrow> if cap_name c = truncated_capability then 1 else 0) in
      fit_remove R capability_minimum
        (fit_shrink R (capability_minimum, network_minimum, disk_minimum, temperature_minimum, gpu_minimum) r))"

section \<open>The whole report\<close>

definition network_metrics :: "(network_snapshot \<Rightarrow> f64 option) list" where
  "network_metrics = [\<lambda>n. Some (net_received_per_second n), \<lambda>n. Some (net_transmitted_per_second n)]"

definition disk_metrics :: "(disk_snapshot \<Rightarrow> f64 option) list" where
  "disk_metrics = [\<lambda>d. Some (dsk_read_per_second d), \<lambda>d. Some (dsk_written_per_second d)]"

definition temperature_metrics :: "(temperature_snapshot \<Rightarrow> f64 option) list" where
  "temperature_metrics = [tmp_celsius]"

definition gpu_metrics :: "(gpu_snapshot \<Rightarrow> f64 option) list" where
  "gpu_metrics = [gpu_utilization, gpu_temperature]"

definition prioritize :: "('a \<Rightarrow> string option) \<Rightarrow> ('a \<Rightarrow> f64 option) list \<Rightarrow> nat \<Rightarrow> 'a list bounding" where
  "prioritize json metrics maximum xs =
     truncate_list maximum (fst (prioritize_by_metrics (serialized_key json) metrics xs))"

definition anchors :: "('a \<Rightarrow> string option) \<Rightarrow> ('a \<Rightarrow> f64 option) list \<Rightarrow> 'a list \<Rightarrow> nat" where
  "anchors json metrics xs = snd (prioritize_by_metrics (serialized_key json) metrics xs)"

text \<open>Everything up to the size check.\<close>

definition bound_parts :: "report_ops \<Rightarrow> time \<Rightarrow> bool \<Rightarrow> client_report bounding" where
  "bound_parts R now clamp_future_timestamp = (let N = ro_count R in steps
     [normalize_scalars_and_text R now clamp_future_timestamp,
      (\<lambda>r. system_step sys_hardware sys_hardware_update (\<lambda>h. case h of
          None \<Rightarrow> (None, False)
        | Some h \<Rightarrow> (Some (fst (bound_hardware R (rep_collected_at r) h)),
                     snd (bound_hardware R (rep_collected_at r) h))) r),
      system_step sys_cpu sys_cpu_update (bound_cpu R),
      step rep_capabilities rep_capabilities_update (bound_capabilities R),
      system_step sys_networks sys_networks_update (prioritize (ro_network_json R) network_metrics (cl_networks N)),
      system_step sys_disks sys_disks_update (prioritize (ro_disk_json R) disk_metrics (cl_disks N)),
      system_step sys_temperatures sys_temperatures_update
        (prioritize (ro_temperature_json R) temperature_metrics (cl_temperatures N)),
      system_step sys_gpus sys_gpus_update (prioritize (ro_gpu_json R) gpu_metrics (cl_gpus N))])"

definition mark_truncated :: "report_ops \<Rightarrow> client_report \<Rightarrow> client_report" where
  "mark_truncated R r =
     r\<lparr>rep_capabilities := fst (truncate_list (cl_capabilities (ro_count R))
          (order_capabilities R (rep_capabilities r @ [truncation_marker]))),
       rep_client := (rep_client r)\<lparr>ch_collector_errors :=
          saturating_add64 (ch_collector_errors (rep_client r)) 1\<rparr>\<rparr>"

definition is_marked :: "client_report \<Rightarrow> bool" where
  "is_marked r = list_ex (\<lambda>c. cap_name c = truncated_capability) (rep_capabilities r)"

definition bound_report_with_time_policy :: "report_ops \<Rightarrow> time \<Rightarrow> bool \<Rightarrow> client_report bounding" where
  "bound_report_with_time_policy R now clamp_future_timestamp report =
     (let already_marked = is_marked report;
          normal = fst (normalize_scalars_and_text R now clamp_future_timestamp report);
          network_anchors = anchors (ro_network_json R) network_metrics (sys_networks (rep_system normal));
          disk_anchors = anchors (ro_disk_json R) disk_metrics (sys_disks (rep_system normal));
          temperature_anchors = anchors (ro_temperature_json R) temperature_metrics
            (sys_temperatures (rep_system normal));
          gpu_anchors = anchors (ro_gpu_json R) gpu_metrics (sys_gpus (rep_system normal));
          (r, changed) = bound_parts R now clamp_future_timestamp report;
          changed = (changed \<or> ro_max_body R < serialized_len R r);
          r = (if changed \<and> \<not> already_marked then mark_truncated R r else r) in
      (fit_body R (min network_anchors (length (sys_networks (rep_system r))))
         (min disk_anchors (length (sys_disks (rep_system r))))
         (min temperature_anchors (length (sys_temperatures (rep_system r))))
         (min gpu_anchors (length (sys_gpus (rep_system r)))) r, changed))"

definition bound_report :: "report_ops \<Rightarrow> time \<Rightarrow> client_report bounding" where
  "bound_report R now = bound_report_with_time_policy R now True"

definition encode_report_body_inner ::
  "report_ops \<Rightarrow> time \<Rightarrow> bool \<Rightarrow> client_report \<Rightarrow> (client_report \<times> string) res" where
  "encode_report_body_inner R now clamp_future_timestamp report =
     bindR (ensureR (rep_schema_version report = ro_schema_version R)
       (Message ''unsupported Client report schema_version'')) (\<lambda>_.
     let bounded = fst (bound_report_with_time_policy R now clamp_future_timestamp report) in
     bindR (ok_or (Message ''failed to serialize bounded Client report'') (ro_encode R bounded)) (\<lambda>body.
     bindR (ensureR (length body \<le> ro_max_body R)
       (Message ''bounded Client report is above the wire limit'')) (\<lambda>_.
     Inr (bounded, body))))"

definition encode_report_body :: "report_ops \<Rightarrow> time \<Rightarrow> client_report \<Rightarrow> (client_report \<times> string) res" where
  "encode_report_body R now report = encode_report_body_inner R now True report"

text \<open>A queued report is not compared with the clock: the time is not used.\<close>

definition canonical_spool_report :: "report_ops \<Rightarrow> client_report \<Rightarrow> (client_report \<times> string) res" where
  "canonical_spool_report R report = encode_report_body_inner R 0 False report"

end
