(* ===== verification/Report_Correct.thy ===== *)
theory Report_Correct
  imports Report_Contract "HOL-Library.Multiset"
begin

text \<open>
  Bounding settles: what it produces is left alone when it is bounded again. The lemmas go up
  from scalars and text to the parts of a report.
\<close>

section \<open>Settled values\<close>

named_theorems settling \<open>a bounding leaves its own results alone\<close>

definition settled :: "'a bounding \<Rightarrow> 'a \<Rightarrow> bool" where
  "settled f x \<longleftrightarrow> f x = (x, False)"

lemma settled_step: "settled f (get r) \<Longrightarrow> upd (\<lambda>_. get r) r = r \<Longrightarrow> settled (step get upd f) r"
  by (simp add: settled_def step_def)

lemma settled_dependent_step:
  "settled (step get upd (f r)) r \<Longrightarrow> settled (\<lambda>x. step get upd (f x) x) r"
  by (simp add: settled_def)

lemma settled_steps: "list_all (\<lambda>f. settled f r) fs \<Longrightarrow> settled (steps fs) r"
  by (induction fs) (simp_all add: settled_def steps.simps)

lemma fst_steps:
  "fst (steps [] r) = r"
  "fst (steps (f # fs) r) = fst (steps fs (fst (f r)))"
  by simp_all

lemma fst_step: "fst (step get upd f r) = upd (\<lambda>_. fst (f (get r))) r"
  by (simp add: step_def)

declare steps.simps [simp del]
declare fst_steps [simp] fst_step [simp]

lemma settled_unchanged: "settled unchanged x"
  by (simp add: settled_def unchanged_def)

lemma settled_each: "settled (each f) xs \<longleftrightarrow> list_all (settled f) xs"
proof
  assume "list_all (settled f) xs"
  then have *: "\<forall>x \<in> set xs. f x = (x, False)" by (simp add: list_all_iff settled_def)
  then have "map (\<lambda>x. fst (f x)) xs = xs" by (intro map_idI) simp
  with * show "settled (each f) xs" by (auto simp: settled_def each_def list_ex_iff)
next
  assume "settled (each f) xs"
  then have *: "map (\<lambda>x. fst (f x)) xs = xs" "\<forall>x \<in> set xs. \<not> snd (f x)"
    by (auto simp: settled_def each_def list_ex_iff)
  have "fst (f x) = x" if "x \<in> set xs" for x
    using * that by (metis map_eq_conv map_ident)
  with * show "list_all (settled f) xs"
    by (auto simp: list_all_iff settled_def prod_eq_iff)
qed

lemma settled_each_result: "(\<And>x. settled f (fst (f x))) \<Longrightarrow> settled (each f) (fst (each f xs))"
  by (simp add: settled_each each_def list_all_iff)

section \<open>Scalars\<close>

lemma clamp_lower: "\<not> f64_less hi lo \<Longrightarrow> f64_clamp lo hi lo = lo"
  by (simp add: f64_clamp_def Let_def)

lemma settles_percent [settling]: "settled bound_percent (fst (bound_percent v))"
  by (simp add: settled_def bound_percent_def replace_f64_def clamp_idem clamp_finite clamp_lower)

lemma settles_nonnegative:
  assumes "zero_choice (ro_max_zero R)"
  shows "settled (bound_nonnegative R) (fst (bound_nonnegative R v))"
proof (cases "is_finite v")
  case True
  with max_zero_idem [OF assms, of v] max_zero_nonneg [OF assms, of v] show ?thesis
    by (simp add: settled_def bound_nonnegative_def replace_f64_def)
next
  case False
  have "f64_max (ro_max_zero R) f64_zero f64_zero = f64_zero"
    by (simp add: f64_max_def)
  with False show ?thesis
    by (simp add: settled_def bound_nonnegative_def replace_f64_def)
qed

lemma settles_optional_range [settling]:
  "settled (bound_optional_range a b) (fst (bound_optional_range a b v))"
  by (auto simp: settled_def bound_optional_range_def split: option.splits)

lemma settles_optional_nonnegative [settling]:
  "settled bound_optional_nonnegative (fst (bound_optional_nonnegative v))"
  by (simp add: bound_optional_nonnegative_def settles_optional_range)

lemma settles_clean_number [settling]: "settled (clean_number a b) (fst (clean_number a b v))"
  by (auto simp: settled_def clean_number_def split: option.splits)

lemma settles_at_most [settling]: "settled (at_most limit) (fst (at_most limit v))"
  by (simp add: settled_def at_most_def)

lemma settles_truncate_list [settling]: "settled (truncate_list n) (fst (truncate_list n xs))"
  by (simp add: settled_def truncate_list_def)

definition interval_limits_ok :: "report_ops \<Rightarrow> bool" where
  "interval_limits_ok R \<longleftrightarrow> is_finite (ro_min_interval R) \<and> is_finite (ro_max_interval R)
     \<and> f64_le (ro_min_interval R) (ro_max_interval R)"

lemma settles_interval:
  assumes "interval_limits_ok R"
  shows "settled (bound_interval R) (fst (bound_interval R v))"
proof -
  have "\<not> f64_less (ro_max_interval R) (ro_min_interval R)"
    using assms by (simp add: interval_limits_ok_def f64_le_def f64_less_def)
  with assms show ?thesis
    by (simp add: settled_def bound_interval_def replace_f64_def clamp_idem clamp_finite clamp_lower
        interval_limits_ok_def)
qed

section \<open>Text\<close>

definition clean :: "string \<Rightarrow> bool" where
  "clean s \<longleftrightarrow> strip_controls s = s"

lemma clean_literals [simp]:
  "clean ''unknown''" "clean ''unknown.capability''" "clean ''unnamed-network''" "clean ''unknown-memory''"
  "clean ''unknown-device''" "clean ''unknown-adapter''"
  by (simp_all add: clean_def strip_controls_def continuation_byte_def continuation_def byte_def)

lemma strip_and_truncate_settled:
  "strip_controls_and_truncate n (strip_controls_and_truncate n s) = strip_controls_and_truncate n s"
  by (simp add: strip_controls_and_truncate_def strip_truncate)

lemma strip_and_truncate_clean: "clean s \<Longrightarrow> strip_controls_and_truncate n (truncate_utf8 n s) = truncate_utf8 n s"
  by (simp add: strip_controls_and_truncate_def clean_def strip_truncate)

lemma settles_required_text [settling]:
  assumes "clean fallback"
  shows "settled (bound_required_text n fallback) (fst (bound_required_text n fallback s))"
  using strip_and_truncate_clean [OF assms, of n] strip_and_truncate_settled [of n s]
  by (auto simp: settled_def bound_required_text_def Let_def)

lemma settles_descriptive_text [settling]:
  "settled (bound_descriptive_text n) (fst (bound_descriptive_text n s))"
  by (simp add: settled_def bound_descriptive_text_def Let_def strip_and_truncate_settled)

lemma settles_optional_text [settling]: "settled (bound_optional_text n) (fst (bound_optional_text n v))"
  using settles_descriptive_text by (auto simp: settled_def bound_optional_text_def split: option.splits)

lemma settles_optional_nonempty_text [settling]:
  "settled (bound_optional_nonempty_text n) (fst (bound_optional_nonempty_text n v))"
  by (auto simp: settled_def bound_optional_nonempty_text_def Let_def strip_and_truncate_settled
      split: option.splits)

section \<open>Parts\<close>

text \<open>A body of steps on distinct fields settles when each step does.\<close>

lemmas run_record = fst_steps fst_step list.pred_inject settled_step clean_literals simp_thms

lemma settles_capability [settling]: "settled (bound_capability R) (fst (bound_capability R c))"
  unfolding bound_capability_def Let_def
  by (cases c) (intro settled_steps, simp only: run_record settling capability.simps)

lemma settles_network:
  assumes "zero_choice (ro_max_zero R)"
  shows "settled (bound_network R) (fst (bound_network R x))"
  unfolding bound_network_def Let_def
  by (cases x) (intro settled_steps, simp only: run_record settling network_snapshot.simps settles_nonnegative [OF assms])

lemma settles_disk:
  assumes "zero_choice (ro_max_zero R)"
  shows "settled (bound_disk R) (fst (bound_disk R x))"
  unfolding bound_disk_def Let_def
  by (cases x) (intro settled_steps, simp only: run_record settling disk_snapshot.simps settles_nonnegative [OF assms],
      rule settled_dependent_step, simp only: run_record settling disk_snapshot.simps)

lemma settles_temperature [settling]: "settled (bound_temperature R) (fst (bound_temperature R x))"
  unfolding bound_temperature_def Let_def
  by (cases x) (intro settled_steps, simp only: run_record settling temperature_snapshot.simps)

text \<open>The memory of a GPU is a step on one field, given the other.\<close>

definition cap_used :: "64 word option \<Rightarrow> 64 word option bounding" where
  "cap_used limit used =
     (case (used, limit) of (Some u, Some l) \<Rightarrow> if l < u then (Some l, True) else (used, False) | _ \<Rightarrow> (used, False))"

lemma bound_gpu_memory_step:
  "bound_gpu_memory = (\<lambda>g. step gpu_memory_used gpu_memory_used_update (cap_used (gpu_memory_total g)) g)"
proof
  fix g :: gpu_snapshot
  have "g\<lparr>gpu_memory_used := gpu_memory_used g\<rparr> = g" by simp
  then show "bound_gpu_memory g = step gpu_memory_used gpu_memory_used_update (cap_used (gpu_memory_total g)) g"
    by (cases "gpu_memory_used g"; cases "gpu_memory_total g")
      (simp_all add: bound_gpu_memory_def step_def cap_used_def)
qed

lemma settles_cap_used [settling]: "settled (cap_used l) (fst (cap_used l u))"
  by (auto simp: settled_def cap_used_def split: option.splits)

lemma settles_gpu [settling]: "settled (bound_gpu R) (fst (bound_gpu R x))"
  unfolding bound_gpu_def Let_def bound_gpu_memory_step
  by (cases x) (intro settled_steps, simp only: run_record settling gpu_snapshot.simps,
      rule settled_dependent_step, simp only: run_record settling gpu_snapshot.simps)

lemma settles_memory [settling]: "settled bound_memory (fst (bound_memory m))"
  unfolding bound_memory_def
  by (intro settled_steps) (simp add: settled_def step_def at_most_def)

lemma settles_host [settling]: "settled (bound_host R) (fst (bound_host R h))"
  unfolding bound_host_def Let_def
  by (cases h) (intro settled_steps, simp only: run_record settling host_identity.simps)

section \<open>Inventory\<close>

text \<open>A value that is dropped when a test holds.\<close>

definition drop_if :: "('a option \<Rightarrow> bool) \<Rightarrow> 'a option bounding" where
  "drop_if P v = (if P v then (None, True) else (v, False))"

lemma settles_drop_if: "\<not> P None \<Longrightarrow> settled (drop_if P) (fst (drop_if P v))"
  by (simp add: settled_def drop_if_def)

lemma drop_zero: "(\<lambda>v. if v = Some c then (None, True) else (v, False)) = drop_if (\<lambda>v. v = Some c)"
  by (simp add: drop_if_def fun_eq_iff)

lemma settles_module [settling]: "settled (bound_module R) (fst (bound_module R x))"
  unfolding bound_module_def Let_def drop_zero
  by (cases x) (intro settled_steps, simp only: run_record settling memory_module.simps settles_drop_if option.distinct)

lemma settles_device [settling]: "settled (bound_device R) (fst (bound_device R x))"
  unfolding bound_device_def Let_def
  by (cases x) (intro settled_steps, simp only: run_record settling hardware_device.simps)

lemma settles_physical_adapter [settling]:
  "settled (bound_physical_adapter R) (fst (bound_physical_adapter R x))"
  unfolding bound_physical_adapter_def Let_def
  by (cases x) (intro settled_steps, simp only: run_record settling physical_adapter.simps)

lemma settles_sensor [settling]: "settled (bound_sensor R) (fst (bound_sensor R x))"
  unfolding bound_sensor_def Let_def
  by (cases x) (intro settled_steps, simp only: run_record settling hardware_sensor.simps)

lemma settles_disk_health [settling]: "settled (bound_disk_health R t) (fst (bound_disk_health R t x))"
  unfolding bound_disk_health_def Let_def
  by (cases x) (intro settled_steps, simp only: run_record settling disk_health.simps)

text \<open>Lists: what drops, sorts or cuts.\<close>

lemma settled_truncate_list: "settled (truncate_list n) xs \<longleftrightarrow> length xs \<le> n"
  by (auto simp: settled_def truncate_list_def)

lemma settled_dropping: "settled (dropping f) xs \<longleftrightarrow> f xs = xs"
  by (auto simp: settled_def dropping_def)

lemma settled_sorting: "settled (sorting key) xs \<longleftrightarrow> sorted (map key xs)"
proof
  assume "settled (sorting key) xs"
  then have "sort_key key xs = xs" by (simp add: settled_def sorting_def)
  then show "sorted (map key xs)" using sorted_sort_key [of key xs] by simp
qed (simp add: settled_def sorting_def sort_key_id_if_sorted)

lemma fst_each [simp]: "fst (each f xs) = map (\<lambda>x. fst (f x)) xs"
  by (simp add: each_def)

lemma fst_truncate_list [simp]: "fst (truncate_list n xs) = take n xs"
  by (simp add: truncate_list_def)

lemma fst_dropping [simp]: "fst (dropping f xs) = f xs"
  by (simp add: dropping_def)

lemma fst_sorting [simp]: "fst (sorting key xs) = sort_key key xs"
  by (simp add: sorting_def)

lemma set_retain_first: "set (retain_first key seen xs) \<subseteq> set xs"
  by (induction xs arbitrary: seen) (auto split: if_splits)

lemma retain_first_distinct:
  "distinct (map key (retain_first key seen xs)) \<and> (\<forall>x \<in> set (retain_first key seen xs). key x \<notin> seen)"
proof (induction xs arbitrary: seen)
  case (Cons x xs)
  show ?case
    using Cons.IH [of seen] Cons.IH [of "insert (key x) seen"]
    by (cases "key x \<in> seen") auto
qed simp

lemma retain_first_id:
  "distinct (map key xs) \<Longrightarrow> \<forall>x \<in> set xs. key x \<notin> seen \<Longrightarrow> retain_first key seen xs = xs"
proof (induction xs arbitrary: seen)
  case (Cons x xs)
  then have "\<forall>y \<in> set xs. key y \<notin> insert (key x) seen" by (auto simp: image_iff)
  with Cons show ?case by simp
qed simp

lemma retain_first_id_iff: "retain_first key {} xs = xs \<longleftrightarrow> distinct (map key xs)"
proof
  assume "retain_first key {} xs = xs"
  then show "distinct (map key xs)" using retain_first_distinct [of key "{}" xs] by simp
qed (simp add: retain_first_id)

text \<open>Consecutive keys differ.\<close>

fun apart :: "('a \<Rightarrow> 'k) \<Rightarrow> 'a list \<Rightarrow> bool" where
  "apart key (x # y # zs) = (key x \<noteq> key y \<and> apart key (y # zs))"
| "apart key xs = True"

lemma dedup_by_hd: "xs \<noteq> [] \<Longrightarrow> dedup_by key xs \<noteq> [] \<and> hd (dedup_by key xs) = hd xs"
  by (induction key xs rule: dedup_by.induct) auto

lemma apart_dedup_by: "apart key (dedup_by key xs)"
proof (induction key xs rule: dedup_by.induct)
  case (3 key x y zs)
  show ?case
  proof (cases "key x = key y")
    case True
    with 3 show ?thesis by simp
  next
    case False
    from dedup_by_hd [of "y # zs" key] obtain ws where "dedup_by key (y # zs) = y # ws"
      by (cases "dedup_by key (y # zs)") auto
    with 3 False show ?thesis by simp
  qed
qed simp_all

lemma dedup_by_length: "length (dedup_by key xs) \<le> length xs"
  by (induction key xs rule: dedup_by.induct) auto

lemma dedup_by_id: "dedup_by key xs = xs \<longleftrightarrow> apart key xs"
proof
  assume "dedup_by key xs = xs"
  then show "apart key xs" using apart_dedup_by [of key xs] by simp
next
  show "apart key xs \<Longrightarrow> dedup_by key xs = xs"
    by (induction key xs rule: dedup_by.induct) auto
qed

lemma apart_take: "apart key xs \<Longrightarrow> apart key (take n xs)"
proof (induction key xs arbitrary: n rule: apart.induct)
  case (1 key x y zs)
  show ?case
  proof (cases n)
    case (Suc m)
    with 1 show ?thesis by (cases m) (auto dest: "1.IH" [of m])
  qed simp
qed (auto simp: take_Cons split: nat.splits)

lemma set_dedup_by: "set (dedup_by key xs) \<subseteq> set xs"
  by (induction key xs rule: dedup_by.induct) auto

lemma sorted_dedup_by:
  assumes "sorted (map f xs)"
  shows "sorted (map f (dedup_by key xs))"
  using assms
proof (induction key xs rule: dedup_by.induct)
  case (3 key x y zs)
  then show ?case using set_dedup_by [of key "y # zs"] by auto
qed simp_all

lemma sorted_retain_first:
  assumes "sorted (map f xs)"
  shows "sorted (map f (retain_first key seen xs))"
  using assms
proof (induction xs arbitrary: seen)
  case (Cons x xs)
  then show ?case using set_retain_first [of key _ xs] by (auto split: if_splits)
qed simp

lemma length_retain_first: "length (retain_first key seen xs) \<le> length xs"
  by (induction xs arbitrary: seen) (auto intro: le_SucI)

text \<open>What holds of every element survives dropping, sorting and cutting.\<close>

lemma list_all_lists [intro]:
  "list_all P xs \<Longrightarrow> list_all P (take n xs)"
  "list_all P xs \<Longrightarrow> list_all P (dedup_by key xs)"
  "list_all P xs \<Longrightarrow> list_all P (retain_first key seen xs)"
  "list_all P xs \<Longrightarrow> list_all P (filter Q xs)"
  "list_all P xs \<Longrightarrow> list_all P (sort_key ord xs)"
  using set_dedup_by [of key xs] set_retain_first [of key seen xs]
  by (auto simp: list_all_iff dest: in_set_takeD)

lemma list_all_results [intro]: "(\<And>x. settled f (fst (f x))) \<Longrightarrow> list_all (settled f) (map (\<lambda>x. fst (f x)) xs)"
  by (simp add: list_all_iff)

lemma filter_all: "list_all P xs \<Longrightarrow> filter P xs = xs"
  by (simp add: list_all_iff)

lemmas settled_lists = settled_truncate_list settled_dropping settled_sorting settled_each

lemma settles_cpu_hardware [settling]: "settled (bound_cpu_hardware R) (fst (bound_cpu_hardware R c))"
proof -
  have load: "(\<lambda>v. case v of Some l \<Rightarrow> if list_ex P l then (None, True) else (v, False) | None \<Rightarrow> (v, False))
      = drop_if (\<lambda>v. case v of Some l \<Rightarrow> list_ex P l | None \<Rightarrow> False)" for P :: "f64 \<Rightarrow> bool"
    by (auto simp: drop_if_def fun_eq_iff split: option.splits)
  show ?thesis
    unfolding bound_cpu_hardware_def Let_def load
    by (intro settled_steps)
      (simp add: settled_step settling settles_drop_if settled_lists list_all_iff)
qed

lemma settles_network_hardware [settling]:
  "settled (bound_network_hardware R) (fst (bound_network_hardware R x))"
proof -
  have "length (filter P (take 64 xs)) \<le> 64" for P and xs :: "string list"
    using length_filter_le [of P "take 64 xs"] by simp
  then show ?thesis
    unfolding bound_network_hardware_def Let_def
    by (intro settled_steps) (simp add: settled_step settling settled_lists)
qed

lemma bound_sensor_ok: "sensor_ok (fst (bound_sensor R s)) \<longleftrightarrow> sensor_ok s"
  by (simp add: bound_sensor_def Let_def sensor_ok_def)

lemmas run_list = fst_steps fst_each fst_truncate_list fst_dropping fst_sorting

lemma settles_modules [settling]: "settled (bound_modules R) (fst (bound_modules R xs))"
proof -
  let ?key = "\<lambda>m. (mem_source m, mem_id m)" and ?n = "cl_memory_modules (ro_count R)"
  let ?ys = "take ?n (dedup_by ?key (sort_key ?key (map (\<lambda>x. fst (bound_module R x)) xs)))"
  have "list_all (settled (bound_module R)) ?ys" by (intro list_all_lists list_all_results settles_module)
  moreover have "sorted (map ?key ?ys)" by (simp flip: take_map add: sorted_wrt_take sorted_dedup_by)
  moreover have "apart ?key ?ys" by (simp add: apart_take apart_dedup_by)
  ultimately have "settled (bound_modules R) ?ys"
    unfolding bound_modules_def by (intro settled_steps) (simp add: settled_lists dedup_by_id)
  then show ?thesis by (simp only: bound_modules_def run_list)
qed

lemma settles_devices [settling]: "settled (bound_devices R) (fst (bound_devices R xs))"
proof -
  let ?ord = "\<lambda>d. (dev_source d, dev_id d)" and ?key = "\<lambda>d. (dev_source d, dev_id d, dev_kind d)"
  let ?ys = "take (cl_hardware_devices (ro_count R))
    (retain_first ?key {} (sort_key ?ord (map (\<lambda>x. fst (bound_device R x)) xs)))"
  have "list_all (settled (bound_device R)) ?ys" by (intro list_all_lists list_all_results settles_device)
  moreover have "sorted (map ?ord ?ys)" by (simp flip: take_map add: sorted_wrt_take sorted_retain_first)
  moreover have "distinct (map ?key ?ys)" by (simp flip: take_map add: retain_first_distinct)
  ultimately have "settled (bound_devices R) ?ys"
    unfolding bound_devices_def by (intro settled_steps) (simp add: settled_lists retain_first_id_iff)
  then show ?thesis by (simp only: bound_devices_def run_list)
qed

lemma settles_adapters [settling]: "settled (bound_physical_adapters R) (fst (bound_physical_adapters R xs))"
proof -
  let ?key = "\<lambda>n. (pna_source n, pna_id n)"
  let ?ys = "take (cl_hardware_networks (ro_count R))
    (retain_first ?key {} (map (\<lambda>x. fst (bound_physical_adapter R x)) xs))"
  have "list_all (settled (bound_physical_adapter R)) ?ys"
    by (intro list_all_lists list_all_results settles_physical_adapter)
  moreover have "distinct (map ?key ?ys)" by (simp flip: take_map add: retain_first_distinct)
  ultimately have "settled (bound_physical_adapters R) ?ys"
    unfolding bound_physical_adapters_def by (intro settled_steps) (simp add: settled_lists retain_first_id_iff)
  then show ?thesis by (simp only: bound_physical_adapters_def run_list)
qed

lemma settles_sensors [settling]: "settled (bound_sensors R) (fst (bound_sensors R xs))"
proof -
  let ?key = "\<lambda>s. (sns_source s, sns_id s)" and ?n = "cl_hardware_sensors (ro_count R)"
  let ?zs = "map (\<lambda>x. fst (bound_sensor R x)) (filter sensor_ok (take ?n xs))"
  let ?ys = "retain_first ?key {} ?zs"
  have "list_all (settled (bound_sensor R)) ?ys" by (intro list_all_lists list_all_results settles_sensor)
  moreover have "list_all sensor_ok ?zs"
    by (simp only: list_all_iff set_map set_filter ball_simps bound_sensor_ok) blast
  then have "filter sensor_ok ?ys = ?ys" by (intro filter_all list_all_lists)
  moreover have "length ?ys \<le> ?n"
  proof -
    have "length ?ys \<le> length ?zs" by (rule length_retain_first)
    also have "\<dots> \<le> length (take ?n xs)" by (simp only: length_map length_filter_le)
    finally show ?thesis by simp
  qed
  moreover have "retain_first ?key {} ?ys = ?ys"
    by (simp only: retain_first_id_iff retain_first_distinct)
  ultimately have "settled (bound_sensors R) ?ys"
    unfolding bound_sensors_def
    by (intro settled_steps) (simp only: list.pred_inject settled_lists simp_thms)
  then show ?thesis by (simp only: bound_sensors_def run_list)
qed

lemma settles_networks_hardware [settling]:
  "settled (bound_networks_hardware R) (fst (bound_networks_hardware R xs))"
  unfolding bound_networks_hardware_def
  by (intro settled_steps) (simp add: settled_lists list_all_iff settling)

lemma settles_disks_health [settling]: "settled (bound_disks_health R t) (fst (bound_disks_health R t xs))"
  unfolding bound_disks_health_def
  by (intro settled_steps) (simp add: settled_lists list_all_iff settling)

lemma settles_inventory_time [settling]: "settled (bound_inventory_time t) (fst (bound_inventory_time t v))"
  using settles_at_most [of t] by (auto simp: settled_def bound_inventory_time_def split: option.splits)

lemma settles_hardware [settling]: "settled (bound_hardware R t) (fst (bound_hardware R t h))"
  unfolding bound_hardware_def
  by (cases h) (intro settled_steps, simp only: run_record settling hardware_snapshot.simps)

end
