(* ===== verification/Report_Peaks.thy ===== *)
theory Report_Peaks
  imports Report_Contract "HOL-Library.Multiset"
begin

text \<open>
  \<open>prioritize_by_metrics\<close> by its elements: the anchors are the peaks of the metrics, ties broken
  by the serialized key, so that they do not depend on the order of the input, and the function
  leaves every prefix of its own result alone.
\<close>

section \<open>The peak of a metric\<close>

definition peak_pair :: "('a \<Rightarrow> f64 option) \<Rightarrow> 'a list \<Rightarrow> (nat \<times> f64) option" where
  "peak_pair m xs = last_maximum None (List.map_filter (\<lambda>(i, x). map_option (Pair i) (m x)) (enumerate 0 xs))"

lemma peak_index_pair: "peak_index m xs = map_option fst (peak_pair m xs)"
  by (simp add: peak_index_def peak_pair_def)

lemma last_maximum_append: "last_maximum b (cs @ ds) = last_maximum (last_maximum b cs) ds"
  by (induction b cs rule: last_maximum.induct) auto

lemma peak_pair_Nil: "peak_pair m [] = None"
  by (simp add: peak_pair_def List.map_filter_simps)

lemma peak_pair_snoc:
  "peak_pair m (xs @ [x]) =
     (case m x of None \<Rightarrow> peak_pair m xs | Some w \<Rightarrow> last_maximum (peak_pair m xs) [(length xs, w)])"
  by (simp add: peak_pair_def enumerate_append_eq last_maximum_append List.map_filter_def split: option.splits)

text \<open>A peak is maximal, and every later element of the list is below it.\<close>

lemma peak_pair_spec:
  "(peak_pair m xs = None \<longrightarrow> (\<forall>x \<in> set xs. m x = None)) \<and>
   (\<forall>i v. peak_pair m xs = Some (i, v) \<longrightarrow> i < length xs \<and> m (xs ! i) = Some v \<and>
      (\<forall>j < length xs. \<forall>w. m (xs ! j) = Some w \<longrightarrow>
         total_key w \<le> total_key v \<and> (i < j \<longrightarrow> total_key w < total_key v)))"
proof (induction xs rule: rev_induct)
  case Nil
  then show ?case by (simp add: peak_pair_Nil)
next
  case (snoc x xs)
  show ?case
  proof (cases "m x")
    case None
    with snoc show ?thesis
      by (auto simp: peak_pair_snoc nth_append less_Suc_eq)
  next
    case (Some w)
    show ?thesis
    proof (cases "peak_pair m xs")
      case None
      with snoc have "\<forall>x \<in> set xs. m x = None" by simp
      then have "m (xs ! j) = None" if "j < length xs" for j using that by simp
      with None Some show ?thesis
        by (auto simp: peak_pair_snoc nth_append less_Suc_eq)
    next
      case (Some p)
      obtain i v where p: "p = (i, v)" by (cases p)
      with Some snoc have i: "i < length xs" "m (xs ! i) = Some v"
        and max: "\<And>j u. j < length xs \<Longrightarrow> m (xs ! j) = Some u \<Longrightarrow>
           total_key u \<le> total_key v \<and> (i < j \<longrightarrow> total_key u < total_key v)" by auto
      show ?thesis
      proof (cases "total_key v \<le> total_key w")
        case True
        with Some p \<open>m x = Some w\<close> i show ?thesis
          by (auto simp: peak_pair_snoc nth_append less_Suc_eq dest: max order_trans [OF conjunct1 [OF max]])
      next
        case False
        with Some p \<open>m x = Some w\<close> i show ?thesis
          by (auto simp: peak_pair_snoc nth_append less_Suc_eq dest: max)
      qed
    qed
  qed
qed

definition is_peak :: "('a \<Rightarrow> 'k::linorder) \<Rightarrow> ('a \<Rightarrow> f64 option) \<Rightarrow> 'a set \<Rightarrow> 'a \<Rightarrow> bool" where
  "is_peak key m X p \<longleftrightarrow> p \<in> X \<and> (\<exists>v. m p = Some v \<and>
     (\<forall>y \<in> X. \<forall>w. m y = Some w \<longrightarrow> total_key w < total_key v \<or> total_key w = total_key v \<and> key y \<le> key p))"

lemma is_peak_unique: "inj_on key X \<Longrightarrow> is_peak key m X p \<Longrightarrow> is_peak key m X q \<Longrightarrow> p = q"
  unfolding is_peak_def inj_on_def by (metis nle_le order_less_asym')

lemma is_peak_subset: "is_peak key m X p \<Longrightarrow> Y \<subseteq> X \<Longrightarrow> p \<in> Y \<Longrightarrow> is_peak key m Y p"
  unfolding is_peak_def by blast

definition peak :: "('a \<Rightarrow> f64 option) \<Rightarrow> 'a list \<Rightarrow> 'a option" where
  "peak m S = map_option (\<lambda>i. S ! i) (peak_index m S)"

lemma peak_is_peak:
  assumes "sorted (map key S)" and "peak m S = Some p"
  shows "is_peak key m (set S) p"
proof -
  from assms(2) obtain i v where pair: "peak_pair m S = Some (i, v)" and p: "p = S ! i"
    by (auto simp: peak_def peak_index_pair)
  from peak_pair_spec [of m S] pair have i: "i < length S" "m (S ! i) = Some v"
    and max: "\<And>j w. j < length S \<Longrightarrow> m (S ! j) = Some w \<Longrightarrow>
      total_key w \<le> total_key v \<and> (i < j \<longrightarrow> total_key w < total_key v)" by auto
  have "total_key w < total_key v \<or> total_key w = total_key v \<and> key y \<le> key p"
    if "y \<in> set S" and "m y = Some w" for y w
  proof -
    from that obtain j where j: "j < length S" "y = S ! j" by (auto simp: in_set_conv_nth)
    show ?thesis
    proof (cases "i < j")
      case True
      with j that max show ?thesis by auto
    next
      case False
      then have "key (S ! j) \<le> key (S ! i)"
        using assms(1) i j by (auto simp: sorted_iff_nth_mono)
      with j that max [of j w] p show ?thesis by auto
    qed
  qed
  with i p show ?thesis by (auto simp: is_peak_def)
qed

lemma peak_None: "peak m S = None \<longleftrightarrow> (\<forall>x \<in> set S. m x = None)"
proof -
  have "m x = None" if "\<forall>i v. peak_pair m S \<noteq> Some (i, v)" "x \<in> set S" for x
    using that peak_pair_spec [of m S] by (cases "peak_pair m S") auto
  moreover have "peak_pair m S = None" if "\<forall>x \<in> set S. m x = None"
  proof (cases "peak_pair m S")
    case (Some p)
    with peak_pair_spec [of m S] that show ?thesis by (cases p) (metis nth_mem option.distinct(1))
  qed simp
  ultimately show ?thesis by (auto simp: peak_def peak_index_pair)
qed

text \<open>The index of a peak is its last occurrence.\<close>

definition last_index :: "'a list \<Rightarrow> nat \<Rightarrow> bool" where
  "last_index S i \<longleftrightarrow> i < length S \<and> (\<forall>j < length S. i < j \<longrightarrow> S ! j \<noteq> S ! i)"

lemma peak_index_last: "peak_index m S = Some i \<Longrightarrow> last_index S i"
  using peak_pair_spec [of m S] by (fastforce simp: peak_index_pair last_index_def)

lemma last_index_inj: "last_index S i \<Longrightarrow> last_index S j \<Longrightarrow> S ! i = S ! j \<Longrightarrow> i = j"
  by (metis last_index_def linorder_neqE_nat)

section \<open>Anchors\<close>

fun anchor_elements :: "('a \<Rightarrow> f64 option) list \<Rightarrow> (('a \<Rightarrow> f64 option) \<Rightarrow> 'a option) \<Rightarrow> 'a list \<Rightarrow> 'a list" where
  "anchor_elements [] pk acc = acc"
| "anchor_elements (m # ms) pk acc =
     anchor_elements ms pk
       (case pk m of Some p \<Rightarrow> if p \<in> set acc then acc else acc @ [p] | None \<Rightarrow> acc)"

lemma anchor_indices_elements:
  assumes "\<forall>i \<in> set as. last_index S i"
  shows "map (\<lambda>i. S ! i) (anchor_indices ms S as) = anchor_elements ms (\<lambda>m. peak m S) (map (\<lambda>i. S ! i) as)
    \<and> (\<forall>i \<in> set (anchor_indices ms S as). last_index S i)"
  using assms
proof (induction ms arbitrary: as)
  case (Cons m ms)
  show ?case
  proof (cases "peak_index m S")
    case None
    with Cons show ?thesis by (simp add: peak_def)
  next
    case (Some i)
    have last: "last_index S i" using Some by (rule peak_index_last)
    have "i \<in> set as \<longleftrightarrow> S ! i \<in> (\<lambda>i. S ! i) ` set as"
      using Cons.prems last last_index_inj by fastforce
    let ?as = "if i \<in> set as then as else as @ [i]"
    from Cons.prems last have "\<forall>j \<in> set ?as. last_index S j" by simp
    note Cons.IH [OF this]
    moreover have "map (\<lambda>i. S ! i) ?as =
        (if S ! i \<in> set (map (\<lambda>i. S ! i) as) then map (\<lambda>i. S ! i) as else map (\<lambda>i. S ! i) as @ [S ! i])"
      using \<open>i \<in> set as \<longleftrightarrow> S ! i \<in> (\<lambda>i. S ! i) ` set as\<close> by simp
    ultimately show ?thesis using Some by (simp add: peak_def)
  qed
qed simp

lemma anchor_indices_distinct: "distinct as \<Longrightarrow> distinct (anchor_indices ms S as)"
  by (induction ms S as rule: anchor_indices.induct) (auto split: option.splits)

lemma anchor_elements_extends:
  "distinct acc \<Longrightarrow> distinct (anchor_elements ms pk acc) \<and> (\<exists>more. anchor_elements ms pk acc = acc @ more)"
proof (induction ms arbitrary: acc)
  case (Cons m ms)
  show ?case
  proof (cases "pk m")
    case None
    with Cons show ?thesis by simp
  next
    case (Some p)
    let ?acc = "if p \<in> set acc then acc else acc @ [p]"
    have "distinct ?acc" using Cons.prems by simp
    from Cons.IH [OF this] Some show ?thesis by auto
  qed
qed simp

lemma anchor_elements_peaks:
  "m \<in> set ms \<Longrightarrow> pk m = Some p \<Longrightarrow> distinct acc \<Longrightarrow> p \<in> set (anchor_elements ms pk acc)"
proof (induction ms arbitrary: acc)
  case (Cons n ms)
  show ?case
  proof (cases "n = m")
    case True
    let ?acc = "if p \<in> set acc then acc else acc @ [p]"
    have "distinct ?acc" using Cons.prems by simp
    with anchor_elements_extends [of ?acc ms pk] obtain more where
      "anchor_elements ms pk ?acc = ?acc @ more" by blast
    with True Cons.prems show ?thesis by auto
  next
    case False
    with Cons show ?thesis by (auto split: option.splits)
  qed
qed simp

lemma anchor_elements_cong:
  "(\<And>m. m \<in> set ms \<Longrightarrow> pk m = pk' m) \<Longrightarrow> anchor_elements ms pk acc = anchor_elements ms pk' acc"
  by (induction ms arbitrary: acc) (auto cong: option.case_cong)

text \<open>Anchors of a prefix of the anchors.\<close>

lemma anchor_elements_prefix:
  assumes "distinct acc" and "V = take k (anchor_elements ms pk acc)"
    and "\<And>m p. m \<in> set ms \<Longrightarrow> pk m = Some p \<Longrightarrow> p \<in> set V \<Longrightarrow> pk' m = Some p"
    and "\<And>m p. m \<in> set ms \<Longrightarrow> pk' m = Some p \<Longrightarrow> p \<in> set V"
    and "\<And>m. m \<in> set ms \<Longrightarrow> pk m = None \<Longrightarrow> pk' m = None"
  shows "anchor_elements ms pk' (take k acc) = V"
  using assms
proof (induction ms arbitrary: acc)
  case (Cons m ms)
  have p3: "pk' n = Some p" if "n \<in> set ms" "pk n = Some p" "p \<in> set V" for n p
    by (rule Cons.prems(3)) (use that in simp_all)
  have p4: "p \<in> set V" if "n \<in> set ms" "pk' n = Some p" for n p
    by (rule Cons.prems(4) [of n]) (use that in simp_all)
  have p5: "pk' n = None" if "n \<in> set ms" "pk n = None" for n
    by (rule Cons.prems(5)) (use that in simp_all)
  note IH = Cons.IH [OF _ _ p3 p4 p5]
  show ?case
  proof (cases "pk m")
    case None
    with Cons.prems(5) have "pk' m = None" by simp
    moreover have "V = take k (anchor_elements ms pk acc)" using Cons.prems(2) None by simp
    from IH [OF Cons.prems(1) this] have "anchor_elements ms pk' (take k acc) = V" .
    ultimately show ?thesis by (simp only: anchor_elements.simps option.case)
  next
    case (Some p)
    let ?acc = "if p \<in> set acc then acc else acc @ [p]"
    have dist: "distinct ?acc" using Cons.prems(1) by simp
    have V: "V = take k (anchor_elements ms pk ?acc)" using Cons.prems(2) Some by simp
    obtain more where more: "anchor_elements ms pk ?acc = ?acc @ more" and all: "distinct (?acc @ more)"
      using anchor_elements_extends [OF dist, of ms pk] by auto
    have rest: "anchor_elements ms pk' (take k ?acc) = V"
      by (rule IH [OF dist V])
    have inV: "p \<in> set V \<longleftrightarrow> p \<in> set (take k ?acc)"
    proof -
      have "p \<in> set ?acc" by simp
      then have "p \<notin> set more" using all by auto
      then show ?thesis by (auto simp: V more dest: in_set_takeD)
    qed
    have full: "V = take k ?acc" if "p \<notin> set V"
    proof -
      have "\<not> length ?acc \<le> k"
      proof
        assume "length ?acc \<le> k"
        then have "set ?acc \<subseteq> set V" by (auto simp: V more)
        with that show False by (auto split: if_splits)
      qed
      then show ?thesis by (simp add: V more)
    qed
    have "(case pk' m of Some q \<Rightarrow> if q \<in> set (take k acc) then take k acc else take k acc @ [q] | None \<Rightarrow> take k acc)
        = take k ?acc"
    proof (cases "p \<in> set V")
      case True
      then have pk': "pk' m = Some p" using Cons.prems(3) Some by simp
      show ?thesis
      proof (cases "p \<in> set acc")
        case inacc: True
        with True inV have "p \<in> set (take k acc)" by simp
        with pk' inacc show ?thesis by simp
      next
        case False
        with True inV have "p \<in> set (take k (acc @ [p]))" by simp
        with False have "length acc < k" by (cases "k - length acc") (auto dest: in_set_takeD)
        with pk' False show ?thesis by (simp add: take_Cons split: nat.splits)
      qed
    next
      case False
      have same: "take k ?acc = take k acc"
      proof (cases "p \<in> set acc")
        case notin: False
        have "k \<le> length acc"
        proof (rule ccontr)
          assume "\<not> k \<le> length acc"
          then have "p \<in> set (take k (acc @ [p]))" by (cases "k - length acc") auto
          with False inV notin show False by simp
        qed
        with notin show ?thesis by simp
      qed simp
      show ?thesis
      proof (cases "pk' m")
        case None
        with same show ?thesis by simp
      next
        case (Some q)
        with Cons.prems(4) full [OF False] same have "q \<in> set (take k acc)" by auto
        with Some same show ?thesis by simp
      qed
    qed
    with rest show ?thesis by (simp only: anchor_elements.simps)
  qed
qed simp

section \<open>The elements after the anchors\<close>

definition others :: "'a list \<Rightarrow> nat list \<Rightarrow> 'a list" where
  "others S as = map (\<lambda>i. S ! i) (filter (\<lambda>i. i \<notin> set as) [0..<length S])"

lemma others_enumerate: "map snd (filter (\<lambda>(i, x). i \<notin> set as) (enumerate 0 S)) = others S as"
proof -
  have "enumerate 0 S = map (\<lambda>i. (i, S ! i)) [0..<length S]"
    by (rule nth_equalityI) (simp_all add: nth_enumerate_eq)
  then show ?thesis by (simp add: others_def filter_map comp_def)
qed

lemma mset_others:
  assumes "distinct as" and "\<forall>i \<in> set as. i < length S"
  shows "mset S = mset (map (\<lambda>i. S ! i) as) + mset (others S as)"
proof -
  let ?is = "[0..<length S]"
  have "mset (filter (\<lambda>i. i \<in> set as) ?is) = mset as"
    using assms by (intro set_eq_iff_mset_eq_distinct [THEN iffD1]) auto
  moreover have "mset S = image_mset (\<lambda>i. S ! i) (mset ?is)"
    by (simp only: mset_map [symmetric] map_nth)
  moreover have "mset ?is = mset (filter (\<lambda>i. i \<in> set as) ?is) + mset (filter (\<lambda>i. i \<notin> set as) ?is)"
    by (simp only: mset_filter multiset_partition)
  ultimately show ?thesis by (simp add: others_def)
qed

lemma sorted_others: "sorted (map key S) \<Longrightarrow> sorted (map key (others S as))"
proof -
  assume S: "sorted (map key S)"
  have "sorted (filter (\<lambda>i. i \<notin> set as) [0..<length S])" by (rule sorted_wrt_filter) simp
  then show ?thesis
    unfolding others_def map_map sorted_map
    by (rule sorted_wrt_mono_rel [rotated]) (use S in \<open>auto simp: sorted_iff_nth_mono\<close>)
qed

lemma sorted_same:
  assumes "sorted (map key xs)" and "sorted (map key ys)" and "mset xs = mset ys" and "inj_on key (set xs)"
  shows "xs = ys"
proof -
  have "mset (map key xs) = mset (map key ys)" using assms(3) by simp
  then have "map key xs = map key ys"
    using assms(1,2) by (metis properties_for_sort)
  moreover have "set xs = set ys" using assms(3) by (rule mset_eq_setD)
  ultimately show ?thesis using assms(4) by (simp add: inj_on_map_eq_map)
qed

text \<open>The result: the anchors, then the others.\<close>

lemma prioritize_split:
  fixes key :: "'a \<Rightarrow> string" and xs :: "'a list"
  defines "S \<equiv> sort_key key xs"
  obtains as where "distinct as" and "\<forall>i \<in> set as. last_index S i"
    and "map (\<lambda>i. S ! i) as = anchor_elements ms (\<lambda>m. peak m S) []"
    and "prioritize_by_metrics key ms xs = (anchor_elements ms (\<lambda>m. peak m S) [] @ others S as, length as)"
proof -
  let ?as = "anchor_indices ms S []"
  have "map (\<lambda>i. S ! i) ?as = anchor_elements ms (\<lambda>m. peak m S) [] \<and> (\<forall>i \<in> set ?as. last_index S i)"
    using anchor_indices_elements [of "[]" S ms] by simp
  moreover have "distinct ?as" by (rule anchor_indices_distinct) simp
  ultimately show thesis
    by (intro that [of ?as]) (simp_all add: prioritize_by_metrics_def Let_def S_def others_enumerate)
qed

lemma prioritize_mset: "mset (fst (prioritize_by_metrics key ms xs)) = mset xs"
proof -
  let ?S = "sort_key key xs"
  obtain as where "distinct as" "\<forall>i \<in> set as. last_index ?S i"
    and "map (\<lambda>i. ?S ! i) as = anchor_elements ms (\<lambda>m. peak m ?S) []"
    and "prioritize_by_metrics key ms xs = (anchor_elements ms (\<lambda>m. peak m ?S) [] @ others ?S as, length as)"
    by (rule prioritize_split)
  with mset_others [of as ?S] show ?thesis by (auto simp: last_index_def simp flip: mset_append)
qed

text \<open>Bounding a prefix of the result again changes nothing.\<close>

lemma prioritize_prefix:
  assumes inj: "inj_on key (set xs)"
  shows "fst (prioritize_by_metrics key ms (take k (fst (prioritize_by_metrics key ms xs)))) =
    take k (fst (prioritize_by_metrics key ms xs))"
proof -
  let ?S = "sort_key key xs"
  let ?A = "anchor_elements ms (\<lambda>m. peak m ?S) []"
  obtain as where as: "distinct as" "\<forall>i \<in> set as. last_index ?S i" "map (\<lambda>i. ?S ! i) as = ?A"
    and P: "prioritize_by_metrics key ms xs = (?A @ others ?S as, length as)"
    by (rule prioritize_split)
  define V where "V = take k (?A @ others ?S as)"
  have VS: "set V \<subseteq> set xs"
  proof -
    have "set V \<subseteq> set (fst (prioritize_by_metrics key ms xs))"
      by (auto simp: V_def P dest!: in_set_takeD)
    then show ?thesis using prioritize_mset [of key ms xs] by (metis mset_eq_setD)
  qed
  let ?T = "sort_key key V"
  let ?B = "anchor_elements ms (\<lambda>m. peak m ?T) []"
  obtain bs where bs: "distinct bs" "\<forall>i \<in> set bs. last_index ?T i" "map (\<lambda>i. ?T ! i) bs = ?B"
    and Q: "prioritize_by_metrics key ms V = (?B @ others ?T bs, length bs)"
    by (rule prioritize_split)
  have keep: "peak m ?T = Some p" if "peak m ?S = Some p" "p \<in> set V" for m p
  proof -
    have pS: "is_peak key m (set ?S) p" using that(1) by (intro peak_is_peak) simp_all
    have pV: "is_peak key m (set V) p"
      by (rule is_peak_subset [OF pS]) (use VS that(2) in simp_all)
    then have "peak m ?T \<noteq> None" by (auto simp: peak_None is_peak_def)
    then obtain q where q: "peak m ?T = Some q" by blast
    then have "is_peak key m (set V) q" using peak_is_peak [of key ?T m q] by simp
    from is_peak_unique [OF inj_on_subset [OF inj VS] this pV] have "q = p" .
    with q show ?thesis by simp
  qed
  have inV: "p \<in> set V" if "peak m ?T = Some p" for m p
    using peak_is_peak [of key ?T m p] that by (simp add: is_peak_def)
  have none: "peak m ?T = None" if "peak m ?S = None" for m
    using that VS by (auto simp: peak_None)
  have "\<forall>i \<in> set bs. i < length ?T" using bs(2) by (simp only: last_index_def) blast
  from mset_others [OF bs(1) this, unfolded bs(3)]
  have parts: "mset V = mset ?B + mset (others ?T bs)" by (simp only: mset_sort)
  have "?B @ others ?T bs = V"
  proof (cases "length ?A \<le> k")
    case True
    then have V: "V = ?A @ take (k - length ?A) (others ?S as)" by (simp add: V_def)
    have "?B = ?A"
    proof (rule anchor_elements_cong)
      fix m
      assume m: "m \<in> set ms"
      show "peak m ?T = peak m ?S"
      proof (cases "peak m ?S")
        case (Some p)
        then have "p \<in> set ?A" using m by (intro anchor_elements_peaks) simp_all
        with V Some show ?thesis using keep by simp
      qed (simp add: none)
    qed
    moreover have "mset (others ?T bs) = mset (take (k - length ?A) (others ?S as))"
      using parts calculation V by simp
    moreover have "sorted (map key (others ?T bs))" by (simp add: sorted_others)
    moreover have "sorted (map key (take (k - length ?A) (others ?S as)))"
      by (simp flip: take_map add: sorted_wrt_take sorted_others)
    moreover have "inj_on key (set (others ?T bs))"
    proof (rule inj_on_subset [OF inj])
      have "?T ! i \<in> set ?T" if "i < length ?T" for i using that by (rule nth_mem)
      then have "set (others ?T bs) \<subseteq> set ?T" by (auto simp: others_def)
      with VS show "set (others ?T bs) \<subseteq> set xs" by simp
    qed
    ultimately have "others ?T bs = take (k - length ?A) (others ?S as)" by (intro sorted_same)
    with \<open>?B = ?A\<close> V show ?thesis by simp
  next
    case False
    then have V: "V = take k ?A" by (simp add: V_def)
    have "anchor_elements ms (\<lambda>m. peak m ?T) (take k []) = V"
    proof (rule anchor_elements_prefix [OF _ V])
      fix m p
      show "peak m ?S = Some p \<Longrightarrow> p \<in> set V \<Longrightarrow> peak m ?T = Some p" by (rule keep)
      show "peak m ?T = Some p \<Longrightarrow> p \<in> set V" by (rule inV)
      show "peak m ?S = None \<Longrightarrow> peak m ?T = None" by (rule none)
    qed simp
    then have "?B = V" by simp
    moreover have "mset (others ?T bs) = {#}"
      using parts calculation by simp
    ultimately show ?thesis by simp
  qed
  with P Q show ?thesis by (simp add: V_def)
qed

text \<open>Each peak is in the part that is kept.\<close>

lemma prioritize_keeps_peaks:
  assumes "m \<in> set ms" and "x \<in> set xs" and "m x = Some w" and "length ms \<le> k"
  shows "\<exists>p v. p \<in> set (take k (fst (prioritize_by_metrics key ms xs))) \<and> m p = Some v
    \<and> total_key w \<le> total_key v"
proof -
  let ?S = "sort_key key xs"
  let ?A = "anchor_elements ms (\<lambda>m. peak m ?S) []"
  obtain as where P: "prioritize_by_metrics key ms xs = (?A @ others ?S as, length as)"
    by (rule prioritize_split)
  have "length (anchor_elements ms pk acc) \<le> length ms + length acc" for pk and acc :: "'a list"
    by (induction ms pk acc rule: anchor_elements.induct) (auto split: option.splits)
  from this [of "\<lambda>m. peak m ?S" "[]"] have len: "length ?A \<le> k" using assms(4) by simp
  have "peak m ?S \<noteq> None" using assms(2,3) by (auto simp: peak_None)
  then obtain p where p: "peak m ?S = Some p" by blast
  then have "p \<in> set ?A" using assms(1) by (intro anchor_elements_peaks) simp_all
  moreover have "is_peak key m (set ?S) p" using p by (intro peak_is_peak) simp_all
  ultimately show ?thesis
    using assms(2,3) len by (fastforce simp: P is_peak_def)
qed

end
