(* ===== verification/Report_Settled.thy ===== *)
theory Report_Settled
  imports Report_Correct Report_Peaks "HOL-Library.Sublist"
begin

text \<open>
  A bounded report is canonical: bounding it again returns it unchanged. This is what lets the
  queue compare a stored report with its canonical form. The parts are settled by the lemmas
  of \<open>Report_Correct\<close>; marking and fitting keep a canonical report canonical, since they only
  add the marker in front and cut lists at their end.
\<close>

section \<open>Lists of a canonical report\<close>

definition ranked :: "('a \<Rightarrow> string option) \<Rightarrow> ('a \<Rightarrow> f64 option) list \<Rightarrow> 'a list \<Rightarrow> bool" where
  "ranked json ms xs \<longleftrightarrow> (\<forall>k. fst (prioritize_by_metrics (serialized_key json) ms (take k xs)) = take k xs)"

lemma ranked_take: "ranked json ms xs \<Longrightarrow> ranked json ms (take k xs)"
  by (simp add: ranked_def)

lemma ranked_prioritize:
  "inj_on (serialized_key json) (set xs) \<Longrightarrow> ranked json ms (fst (prioritize_by_metrics (serialized_key json) ms xs))"
  by (simp add: ranked_def prioritize_prefix)

lemma ranked_self: "ranked json ms xs \<Longrightarrow> fst (prioritize_by_metrics (serialized_key json) ms xs) = xs"
  unfolding ranked_def by (metis take_all_iff order_refl)

definition collection_settled ::
  "'a bounding \<Rightarrow> ('a \<Rightarrow> string option) \<Rightarrow> ('a \<Rightarrow> f64 option) list \<Rightarrow> nat \<Rightarrow> 'a list \<Rightarrow> bool" where
  "collection_settled f json ms n xs \<longleftrightarrow> list_all (settled f) xs \<and> ranked json ms xs \<and> length xs \<le> n"

lemma collection_settled_prefix:
  assumes "prefix ys xs" and "collection_settled f json ms n xs"
  shows "collection_settled f json ms n ys"
proof -
  have "ys = take (length ys) xs" using assms(1) by (auto simp: prefix_def)
  then obtain k where "ys = take k xs" ..
  with assms(2) show ?thesis
    by (auto simp: collection_settled_def ranked_take intro: list_all_lists)
qed

lemma collection_settled_each: "collection_settled f json ms n xs \<Longrightarrow> settled (each f) xs"
  by (simp add: collection_settled_def settled_each)

lemma collection_settled_prioritize: "collection_settled f json ms n xs \<Longrightarrow> settled (prioritize json ms n) xs"
  by (simp add: collection_settled_def prioritize_def ranked_self settled_def truncate_list_def)

lemma fst_prioritize [simp]:
  "fst (prioritize json ms n xs) = take n (fst (prioritize_by_metrics (serialized_key json) ms xs))"
  by (simp add: prioritize_def)

lemma set_prioritize: "set (fst (prioritize_by_metrics key ms xs)) = set xs"
  by (rule mset_eq_setD [OF prioritize_mset])

lemma collection_settled_result:
  assumes "\<And>x. settled f (fst (f x))" and "inj_on (serialized_key json) (range (\<lambda>x. fst (f x)))"
  shows "collection_settled f json ms n (fst (prioritize json ms n (map (\<lambda>x. fst (f x)) xs)))"
proof -
  let ?ys = "map (\<lambda>x. fst (f x)) xs"
  have "inj_on (serialized_key json) (set ?ys)"
    by (rule inj_on_subset [OF assms(2)]) auto
  then have "ranked json ms (fst (prioritize_by_metrics (serialized_key json) ms ?ys))"
    by (rule ranked_prioritize)
  moreover have "list_all (settled f) (fst (prioritize_by_metrics (serialized_key json) ms ?ys))"
    using assms(1) by (simp add: list_all_iff set_prioritize)
  ultimately show ?thesis
    by (auto simp: collection_settled_def ranked_take intro: list_all_lists)
qed

text \<open>What the documented JSON encoding distinguishes: values with finite numbers.\<close>

definition finite_option :: "f64 option \<Rightarrow> bool" where
  "finite_option v \<longleftrightarrow> (case v of None \<Rightarrow> True | Some x \<Rightarrow> is_finite x)"

definition finite_network :: "network_snapshot \<Rightarrow> bool" where
  "finite_network n \<longleftrightarrow> is_finite (net_received_per_second n) \<and> is_finite (net_transmitted_per_second n)"

definition finite_disk :: "disk_snapshot \<Rightarrow> bool" where
  "finite_disk d \<longleftrightarrow> is_finite (dsk_read_per_second d) \<and> is_finite (dsk_written_per_second d)"

definition finite_temperature :: "temperature_snapshot \<Rightarrow> bool" where
  "finite_temperature t \<longleftrightarrow> list_all finite_option [tmp_celsius t, tmp_max t, tmp_critical t]"

definition finite_gpu :: "gpu_snapshot \<Rightarrow> bool" where
  "finite_gpu g \<longleftrightarrow> list_all finite_option [gpu_utilization g, gpu_temperature g, gpu_power g, gpu_core_clock g,
     gpu_memory_clock g, gpu_pcie_rx g, gpu_pcie_tx g]"

definition exact_keys :: "report_ops \<Rightarrow> bool" where
  "exact_keys R \<longleftrightarrow>
     inj_on (serialized_key (ro_network_json R)) {n. finite_network n} \<and>
     inj_on (serialized_key (ro_disk_json R)) {d. finite_disk d} \<and>
     inj_on (serialized_key (ro_temperature_json R)) {t. finite_temperature t} \<and>
     inj_on (serialized_key (ro_gpu_json R)) {g. finite_gpu g}"

lemma finite_nonnegative: "zero_choice (ro_max_zero R) \<Longrightarrow> is_finite (fst (bound_nonnegative R v))"
  using max_zero_nonneg by (simp add: bound_nonnegative_def replace_f64_def)

lemma finite_optional_range: "finite_option (fst (bound_optional_range a b v))"
  by (simp add: finite_option_def bound_optional_range_def split: option.splits)

lemma finite_optional_nonnegative: "finite_option (fst (bound_optional_nonnegative v))"
  by (simp add: bound_optional_nonnegative_def finite_optional_range)

lemma finite_bounded_network: "zero_choice (ro_max_zero R) \<Longrightarrow> finite_network (fst (bound_network R n))"
  by (simp add: bound_network_def Let_def finite_network_def finite_nonnegative)

lemma finite_bounded_disk: "zero_choice (ro_max_zero R) \<Longrightarrow> finite_disk (fst (bound_disk R d))"
  by (simp add: bound_disk_def Let_def finite_disk_def finite_nonnegative)

lemma finite_bounded_temperature: "finite_temperature (fst (bound_temperature R t))"
  by (simp add: bound_temperature_def Let_def finite_temperature_def finite_optional_range)

lemma finite_bounded_gpu: "finite_gpu (fst (bound_gpu R g))"
  unfolding bound_gpu_def Let_def bound_gpu_memory_step finite_gpu_def
  by (cases g) (simp only: run_record gpu_snapshot.simps finite_optional_range finite_optional_nonnegative)

lemmas finite_bounded = finite_bounded_network finite_bounded_disk finite_bounded_temperature finite_bounded_gpu

section \<open>Capabilities\<close>

definition capabilities_settled :: "report_ops \<Rightarrow> capability list \<Rightarrow> bool" where
  "capabilities_settled R cs \<longleftrightarrow> list_all (settled (bound_capability R)) cs \<and>
     sorted (map (capability_order R) cs) \<and> apart (\<lambda>c. (cap_name c, cap_source c)) cs \<and>
     length cs \<le> cl_capabilities (ro_count R)"

lemma capabilities_settled_prefix:
  assumes "prefix ds cs" and "capabilities_settled R cs"
  shows "capabilities_settled R ds"
proof -
  have "ds = take (length ds) cs" using assms(1) by (auto simp: prefix_def)
  then obtain k where "ds = take k cs" ..
  with assms(2) show ?thesis
    by (auto simp: capabilities_settled_def apart_take sorted_wrt_take simp flip: take_map intro: list_all_lists)
qed

lemma capabilities_settled_bound:
  assumes "capabilities_settled R cs"
  shows "settled (bound_capabilities R) cs" and "settled (each (bound_capability R)) cs"
proof -
  have "order_capabilities R cs = cs"
    using assms by (simp add: capabilities_settled_def order_capabilities_def sort_key_id_if_sorted)
  moreover have "dedup_by (\<lambda>c. (cap_name c, cap_source c)) cs = cs"
    using assms by (simp add: capabilities_settled_def dedup_by_id)
  ultimately show "settled (bound_capabilities R) cs"
    using assms unfolding bound_capabilities_def
    by (intro settled_steps) (simp add: settled_dropping settled_truncate_list capabilities_settled_def)
  show "settled (each (bound_capability R)) cs"
    using assms by (simp add: capabilities_settled_def settled_each)
qed

lemma capabilities_settled_result:
  "capabilities_settled R (fst (bound_capabilities R (map (\<lambda>c. fst (bound_capability R c)) cs)))"
proof -
  let ?key = "\<lambda>c. (cap_name c, cap_source c)"
  let ?ds = "order_capabilities R (map (\<lambda>c. fst (bound_capability R c)) cs)"
  have "list_all (settled (bound_capability R)) ?ds"
    unfolding order_capabilities_def by (intro list_all_lists list_all_results settles_capability)
  moreover have "sorted (map (capability_order R) (dedup_by ?key ?ds))"
    by (simp add: sorted_dedup_by order_capabilities_def)
  ultimately show ?thesis
    by (auto simp: bound_capabilities_def capabilities_settled_def apart_take apart_dedup_by sorted_wrt_take
        simp flip: take_map intro: list_all_lists)
qed

text \<open>The marker goes to the front of a list that has none.\<close>

definition marker_fits :: "report_ops \<Rightarrow> bool" where
  "marker_fits R \<longleftrightarrow> settled (bound_capability R) truncation_marker"

lemma order_with_marker:
  assumes "sorted (map (capability_order R) cs)" and "\<forall>c \<in> set cs. cap_name c \<noteq> truncated_capability"
  shows "order_capabilities R (cs @ [truncation_marker]) = truncation_marker # cs"
  using assms
proof (induction cs)
  case Nil
  then show ?case by (simp add: order_capabilities_def)
next
  case (Cons c cs)
  have below: "\<not> capability_order R c \<le> capability_order R truncation_marker"
    using Cons.prems(2)
    by (simp add: capability_order_def truncation_marker_def capability_unavailable_def less_eq_prod_def)
  have "insort_key (capability_order R) c cs = c # cs"
    using Cons.prems(1) by (intro insort_is_Cons) simp
  moreover have "order_capabilities R (cs @ [truncation_marker]) = truncation_marker # cs"
    using Cons by simp
  ultimately show ?case using below by (simp add: order_capabilities_def)
qed

lemma capabilities_settled_marker:
  assumes "marker_fits R" and "capabilities_settled R cs" and "\<forall>c \<in> set cs. cap_name c \<noteq> truncated_capability"
  shows "capabilities_settled R (fst (truncate_list (cl_capabilities (ro_count R))
    (order_capabilities R (cs @ [truncation_marker]))))"
proof -
  let ?cs = "truncation_marker # cs"
  have name: "cap_name truncation_marker = truncated_capability"
    by (simp add: truncation_marker_def capability_unavailable_def)
  have "list_all (settled (bound_capability R)) ?cs"
    using assms(1,2) by (simp add: marker_fits_def capabilities_settled_def)
  moreover have "apart (\<lambda>c. (cap_name c, cap_source c)) ?cs"
    using assms(2,3) name by (cases cs) (auto simp: capabilities_settled_def)
  moreover have order: "order_capabilities R (cs @ [truncation_marker]) = ?cs"
    using assms(2,3) by (intro order_with_marker) (simp_all add: capabilities_settled_def)
  moreover have "sorted (map (capability_order R) ?cs)"
  proof -
    have "sorted (map (capability_order R) (order_capabilities R (cs @ [truncation_marker])))"
      by (simp add: order_capabilities_def)
    then show ?thesis by (simp only: order)
  qed
  ultimately show ?thesis
    by (auto simp: capabilities_settled_def apart_take sorted_wrt_take simp flip: take_map intro: list_all_lists)
qed

end
