(* ===== verification/Report_Canonical.thy ===== *)
theory Report_Canonical
  imports Report_Settled
begin

text \<open>
  The round trip of the queue: a report that was bounded and encoded is canonical, so that
  \<open>canonical_spool_report\<close> returns the very same report and bytes.
\<close>

section \<open>Canonical reports\<close>

definition canonical :: "report_ops \<Rightarrow> client_report \<Rightarrow> bool" where
  "canonical R r \<longleftrightarrow> (let s = rep_system r; N = ro_count R in
     settled (bound_interval R) (rep_interval r) \<and> settled (bound_host R) (rep_host r) \<and>
     settled bound_percent (cpu_usage (sys_cpu s)) \<and> settled (bound_cpu R) (sys_cpu s) \<and>
     settled bound_memory (sys_memory s) \<and>
     (\<forall>h. sys_hardware s = Some h \<longrightarrow> settled (bound_hardware R (rep_collected_at r)) h) \<and>
     capabilities_settled R (rep_capabilities r) \<and>
     collection_settled (bound_network R) (ro_network_json R) network_metrics (cl_networks N) (sys_networks s) \<and>
     collection_settled (bound_disk R) (ro_disk_json R) disk_metrics (cl_disks N) (sys_disks s) \<and>
     collection_settled (bound_temperature R) (ro_temperature_json R) temperature_metrics (cl_temperatures N)
       (sys_temperatures s) \<and>
     collection_settled (bound_gpu R) (ro_gpu_json R) gpu_metrics (cl_gpus N) (sys_gpus s))"

lemma settled_step_id: "settled f (get r) \<Longrightarrow> upd (\<lambda>_. get r) r = r \<Longrightarrow> step get upd f r = (r, False)"
  using settled_step by (simp add: settled_def)

lemma canonical_normal:
  assumes "canonical R r"
  shows "settled (normalize_scalars_and_text R now False) r"
  using assms unfolding normalize_scalars_and_text_def if_False
  by (intro settled_steps)
    (auto simp only: list.pred_inject canonical_def Let_def intro!: settled_step settled_unchanged
      collection_settled_each capabilities_settled_bound, simp_all)

lemma canonical_parts:
  assumes "canonical R r"
  shows "bound_parts R now False r = (r, False)"
proof -
  have "settled (\<lambda>r. system_step sys_hardware sys_hardware_update (\<lambda>h. case h of
          None \<Rightarrow> (None, False)
        | Some h \<Rightarrow> (Some (fst (bound_hardware R (rep_collected_at r) h)),
                     snd (bound_hardware R (rep_collected_at r) h))) r) r"
    using assms
    by (cases "sys_hardware (rep_system r)") (simp_all add: settled_def step_def canonical_def Let_def)
  with assms canonical_normal [OF assms, of now] have "settled (bound_parts R now False) r"
    unfolding bound_parts_def Let_def
    by (intro settled_steps)
      (auto simp only: list.pred_inject canonical_def Let_def intro!: settled_step
        collection_settled_prioritize capabilities_settled_bound, simp_all)
  then show ?thesis by (simp add: settled_def)
qed

lemma fit_body_small: "serialized_len R r \<le> ro_max_body R \<Longrightarrow> fit_body R a b c d r = r"
  by (simp add: fit_body_def Let_def fit_shrink.simps fit_remove.simps)

theorem canonical_unchanged:
  assumes "canonical R r" and "serialized_len R r \<le> ro_max_body R"
  shows "bound_report_with_time_policy R now False r = (r, False)"
  using assms by (simp add: bound_report_with_time_policy_def Let_def canonical_parts fit_body_small)

section \<open>Bounding makes canonical\<close>

definition report_limits_ok :: "report_ops \<Rightarrow> bool" where
  "report_limits_ok R \<longleftrightarrow> interval_limits_ok R \<and> zero_choice (ro_max_zero R) \<and> exact_keys R \<and> marker_fits R
     \<and> 0 < cl_cpu_cores (ro_count R) \<and> cl_cpu_cores (ro_count R) < 2 ^ 32"

definition physical_ok :: "nat \<Rightarrow> 32 word option \<Rightarrow> bool" where
  "physical_ok n p \<longleftrightarrow> (case p of None \<Rightarrow> True | Some k \<Rightarrow> k \<noteq> 0 \<and> \<not> of_nat n < k)"

text \<open>The result of \<open>bound_cpu\<close>: usage as before, bounded cores, and counts that fit them.\<close>

definition bounded_cores :: "report_ops \<Rightarrow> cpu_snapshot \<Rightarrow> f64 list" where
  "bounded_cores R c = take (cl_cpu_cores (ro_count R)) (map (\<lambda>x. fst (bound_percent x))
     (if cpu_per_core c = [] then [cpu_usage c] else cpu_per_core c))"

lemma cpu_cores_step:
  "fst (if cpu_per_core c = [] then (c\<lparr>cpu_per_core := [cpu_usage c]\<rparr>, True) else (c, False)) =
     c\<lparr>cpu_per_core := if cpu_per_core c = [] then [cpu_usage c] else cpu_per_core c\<rparr>"
  by simp

lemma cpu_logical_step:
  "fst (if cpu_logical c \<noteq> n then (c\<lparr>cpu_logical := n\<rparr>, True) else (c, False)) = c\<lparr>cpu_logical := n\<rparr>"
  by (cases c) simp

lemma cpu_physical_step:
  "fst (if b then (c\<lparr>cpu_physical := None\<rparr>, True) else (c, False)) =
     c\<lparr>cpu_physical := if b then None else cpu_physical c\<rparr>"
  by (cases c) simp

lemma bound_cpu_result:
  obtains p where "fst (bound_cpu R c) = \<lparr>cpu_usage = cpu_usage c,
      cpu_logical = of_nat (length (bounded_cores R c)), cpu_physical = p, cpu_per_core = bounded_cores R c\<rparr>"
    and "physical_ok (length (bounded_cores R c)) p"
proof -
  let ?xs = "bounded_cores R c"
  let ?bad = "case cpu_physical c of None \<Rightarrow> False | Some n \<Rightarrow> n = 0 \<or> of_nat (length ?xs) < n"
  have "fst (bound_cpu R c) = \<lparr>cpu_usage = cpu_usage c, cpu_logical = of_nat (length ?xs),
      cpu_physical = (if ?bad then None else cpu_physical c), cpu_per_core = ?xs\<rparr>"
    unfolding bound_cpu_def Let_def fst_steps cpu_cores_step cpu_logical_step cpu_physical_step fst_step
      fst_each fst_truncate_list bounded_cores_def
    by (cases c) (simp only: cpu_snapshot.simps)
  moreover have "physical_ok (length ?xs) (if ?bad then None else cpu_physical c)"
    by (simp add: physical_ok_def split: option.splits)
  ultimately show thesis by (rule that)
qed

lemma settles_cpu:
  assumes "0 < cl_cpu_cores (ro_count R)"
  shows "settled (bound_cpu R) (fst (bound_cpu R c))"
proof -
  let ?xs = "bounded_cores R c"
  obtain p where res: "fst (bound_cpu R c) = \<lparr>cpu_usage = cpu_usage c, cpu_logical = of_nat (length ?xs),
      cpu_physical = p, cpu_per_core = ?xs\<rparr>" and p: "physical_ok (length ?xs) p"
    by (rule bound_cpu_result)
  have nonempty: "?xs \<noteq> []" using assms by (simp add: bounded_cores_def)
  have all: "list_all (settled bound_percent) ?xs"
    unfolding bounded_cores_def by (intro list_all_lists list_all_results settles_percent)
  have len: "length ?xs \<le> cl_cpu_cores (ro_count R)" by (simp add: bounded_cores_def)
  have phys: "(case p of None \<Rightarrow> False | Some n \<Rightarrow> n = 0 \<or> of_nat (length ?xs) < n) = False"
    using p by (simp add: physical_ok_def split: option.splits)
  show ?thesis
    unfolding res
    unfolding bound_cpu_def
    by (intro settled_steps)
      (simp only: run_record settled_lists cpu_snapshot.simps all len,
        simp only: settled_def Let_def cpu_snapshot.simps nonempty phys if_False simp_thms)
qed

text \<open>The fields of the result of \<open>bound_parts\<close>.\<close>

definition bounded_time :: "time \<Rightarrow> bool \<Rightarrow> time \<Rightarrow> time" where
  "bounded_time now clamp t = (if clamp then fst (clamp_collected_at now t) else t)"

definition bounded_system :: "report_ops \<Rightarrow> system_snapshot \<Rightarrow> system_snapshot" where
  "bounded_system R s =
     \<lparr>sys_hardware = sys_hardware s, sys_uptime = sys_uptime s,
      sys_cpu = (sys_cpu s)\<lparr>cpu_usage := fst (bound_percent (cpu_usage (sys_cpu s)))\<rparr>,
      sys_memory = fst (bound_memory (sys_memory s)),
      sys_networks = map (\<lambda>x. fst (bound_network R x)) (sys_networks s),
      sys_disks = map (\<lambda>x. fst (bound_disk R x)) (sys_disks s),
      sys_temperatures = map (\<lambda>x. fst (bound_temperature R x)) (sys_temperatures s),
      sys_gpus = map (\<lambda>x. fst (bound_gpu R x)) (sys_gpus s)\<rparr>"

lemma normalize_result:
  "fst (normalize_scalars_and_text R now clamp r) =
    \<lparr>rep_schema_version = rep_schema_version r, rep_id = rep_id r,
     rep_collected_at = bounded_time now clamp (rep_collected_at r),
     rep_host = fst (bound_host R (rep_host r)), rep_interval = fst (bound_interval R (rep_interval r)),
     rep_system = bounded_system R (rep_system r),
     rep_capabilities = map (\<lambda>x. fst (bound_capability R x)) (rep_capabilities r),
     rep_client = rep_client r\<rparr>"
  unfolding normalize_scalars_and_text_def fst_steps bounded_time_def bounded_system_def
  by (cases r; cases "rep_system r"; cases clamp)
    (simp_all only: fst_step fst_each if_True if_False unchanged_def fst_conv client_report.simps
      system_snapshot.simps)

definition bounded_hardware :: "report_ops \<Rightarrow> time \<Rightarrow> hardware_snapshot option \<Rightarrow> hardware_snapshot option" where
  "bounded_hardware R t = map_option (\<lambda>h. fst (bound_hardware R t h))"

lemma hardware_step:
  "fst (case h of None \<Rightarrow> (None, False) | Some x \<Rightarrow> (Some (fst (f x)), snd (f x))) = map_option (\<lambda>x. fst (f x)) h"
  by (cases h) simp_all

lemma parts_result:
  fixes r :: client_report
  shows "fst (bound_parts R now clamp r) = (let n = fst (normalize_scalars_and_text R now clamp r); s = rep_system n in
    \<lparr>rep_schema_version = rep_schema_version n, rep_id = rep_id n, rep_collected_at = rep_collected_at n,
     rep_host = rep_host n, rep_interval = rep_interval n,
     rep_system = \<lparr>sys_hardware = bounded_hardware R (rep_collected_at n) (sys_hardware s),
       sys_uptime = sys_uptime s, sys_cpu = fst (bound_cpu R (sys_cpu s)), sys_memory = sys_memory s,
       sys_networks = fst (prioritize (ro_network_json R) network_metrics (cl_networks (ro_count R)) (sys_networks s)),
       sys_disks = fst (prioritize (ro_disk_json R) disk_metrics (cl_disks (ro_count R)) (sys_disks s)),
       sys_temperatures = fst (prioritize (ro_temperature_json R) temperature_metrics
         (cl_temperatures (ro_count R)) (sys_temperatures s)),
       sys_gpus = fst (prioritize (ro_gpu_json R) gpu_metrics (cl_gpus (ro_count R)) (sys_gpus s))\<rparr>,
     rep_capabilities = fst (bound_capabilities R (rep_capabilities n)), rep_client = rep_client n\<rparr>)"
proof -
  obtain n where n: "fst (normalize_scalars_and_text R now clamp r) = n" by blast
  show ?thesis
    unfolding bound_parts_def fst_steps Let_def n bounded_hardware_def
    by (cases n; cases "rep_system n")
      (simp only: fst_step hardware_step client_report.simps system_snapshot.simps)
qed

lemma canonical_bound_parts:
  assumes "report_limits_ok R"
  shows "canonical R (fst (bound_parts R now clamp r))"
proof -
  note ok = assms [unfolded report_limits_ok_def]
  have zero: "zero_choice (ro_max_zero R)" using ok by blast
  have keys: "inj_on (serialized_key (ro_network_json R)) (range (\<lambda>x. fst (bound_network R x)))"
    "inj_on (serialized_key (ro_disk_json R)) (range (\<lambda>x. fst (bound_disk R x)))"
    "inj_on (serialized_key (ro_temperature_json R)) (range (\<lambda>x. fst (bound_temperature R x)))"
    "inj_on (serialized_key (ro_gpu_json R)) (range (\<lambda>x. fst (bound_gpu R x)))"
    using ok finite_bounded zero unfolding exact_keys_def by (auto elim!: inj_on_subset)
  have usage: "cpu_usage (fst (bound_cpu R c)) = cpu_usage c" for c
    by (rule bound_cpu_result [of R c]) simp
  have percent: "settled bound_percent (cpu_usage (c\<lparr>cpu_usage := fst (bound_percent v)\<rparr>))"
    for c :: cpu_snapshot and v by (simp add: settles_percent)
  show ?thesis
    unfolding canonical_def Let_def parts_result normalize_result bounded_system_def client_report.simps
      system_snapshot.simps usage cpu_snapshot.simps bounded_hardware_def
    using ok keys zero
    by (intro conjI allI impI)
      (auto simp only: map_option_eq_Some intro: settles_interval settles_host percent
        settles_cpu settles_memory settles_hardware capabilities_settled_result
        collection_settled_result settles_network settles_disk settles_temperature settles_gpu)
qed

section \<open>Cutting\<close>

text \<open>\<open>cut_of r' r\<close>: \<open>r'\<close> is \<open>r\<close> with its collections cut at the end, and perhaps without hardware.\<close>

definition cut_of :: "client_report \<Rightarrow> client_report \<Rightarrow> bool" where
  "cut_of r' r \<longleftrightarrow> (let s = rep_system r; s' = rep_system r' in
     r' = r\<lparr>rep_capabilities := rep_capabilities r', rep_system := s\<lparr>sys_hardware := sys_hardware s',
       sys_networks := sys_networks s', sys_disks := sys_disks s', sys_temperatures := sys_temperatures s',
       sys_gpus := sys_gpus s'\<rparr>\<rparr> \<and>
     prefix (rep_capabilities r') (rep_capabilities r) \<and>
     (sys_hardware s' = None \<or> sys_hardware s' = sys_hardware s) \<and>
     prefix (sys_networks s') (sys_networks s) \<and> prefix (sys_disks s') (sys_disks s) \<and>
     prefix (sys_temperatures s') (sys_temperatures s) \<and> prefix (sys_gpus s') (sys_gpus s))"

lemma cut_ofI:
  assumes "prefix cs (rep_capabilities r)" and "h = None \<or> h = sys_hardware (rep_system r)"
    and "prefix ns (sys_networks (rep_system r))" and "prefix ds (sys_disks (rep_system r))"
    and "prefix ts (sys_temperatures (rep_system r))" and "prefix gs (sys_gpus (rep_system r))"
  shows "cut_of (r\<lparr>rep_capabilities := cs, rep_system := (rep_system r)\<lparr>sys_hardware := h, sys_networks := ns,
    sys_disks := ds, sys_temperatures := ts, sys_gpus := gs\<rparr>\<rparr>) r"
  using assms by (simp add: cut_of_def Let_def)

lemma cut_of_refl: "cut_of r r"
  by (simp add: cut_of_def Let_def)

lemma cut_of_fields:
  assumes "cut_of r' r"
  shows "rep_schema_version r' = rep_schema_version r" "rep_id r' = rep_id r" "rep_interval r' = rep_interval r"
    "rep_collected_at r' = rep_collected_at r" "rep_host r' = rep_host r" "rep_client r' = rep_client r"
    "sys_cpu (rep_system r') = sys_cpu (rep_system r)" "sys_memory (rep_system r') = sys_memory (rep_system r)"
    "sys_uptime (rep_system r') = sys_uptime (rep_system r)"
proof -
  obtain cs s where r': "r' = r\<lparr>rep_capabilities := cs, rep_system := s\<rparr>"
    and s: "\<exists>h ns ds ts gs. s = (rep_system r)\<lparr>sys_hardware := h, sys_networks := ns, sys_disks := ds,
      sys_temperatures := ts, sys_gpus := gs\<rparr>"
    using assms unfolding cut_of_def Let_def by blast
  then show "rep_schema_version r' = rep_schema_version r" "rep_id r' = rep_id r" "rep_interval r' = rep_interval r"
    "rep_collected_at r' = rep_collected_at r" "rep_host r' = rep_host r" "rep_client r' = rep_client r"
    "sys_cpu (rep_system r') = sys_cpu (rep_system r)" "sys_memory (rep_system r') = sys_memory (rep_system r)"
    "sys_uptime (rep_system r') = sys_uptime (rep_system r)" by auto
qed

lemma cut_of_trans:
  assumes "cut_of r2 r1" and "cut_of r1 r"
  shows "cut_of r2 r"
proof -
  have "r2 = r\<lparr>rep_capabilities := rep_capabilities r2, rep_system := (rep_system r)\<lparr>sys_hardware := sys_hardware (rep_system r2),
      sys_networks := sys_networks (rep_system r2), sys_disks := sys_disks (rep_system r2),
      sys_temperatures := sys_temperatures (rep_system r2), sys_gpus := sys_gpus (rep_system r2)\<rparr>\<rparr>"
    using cut_of_fields [OF assms(1)] cut_of_fields [OF assms(2)]
    by (intro client_report.equality system_snapshot.equality) simp_all
  then show ?thesis
    using assms unfolding cut_of_def Let_def by (metis prefix_order.trans)
qed

lemma canonical_cut:
  assumes "cut_of r' r" and "canonical R r"
  shows "canonical R r'"
  using assms cut_of_fields [OF assms(1)] unfolding canonical_def Let_def
  by (auto simp only: cut_of_def Let_def intro: capabilities_settled_prefix collection_settled_prefix)

lemma prefix_shrink: "prefix (shrink m f xs) xs"
  by (simp add: shrink_def Let_def take_is_prefix)

lemma prefix_butlast: "prefix (butlast xs) xs"
  by (simp add: butlast_conv_take take_is_prefix)

lemma cut_shrink_collections: "cut_of (shrink_collections m f r) r"
  by (cases m) (simp add: shrink_collections_def cut_of_def Let_def prefix_shrink)

lemma cut_remove_last: "remove_last_optional m r = Some r' \<Longrightarrow> cut_of r' r"
  by (auto simp: remove_last_optional_def Let_def cut_of_def prefix_butlast split: if_splits)

lemma cut_drop_hardware: "cut_of (drop_hardware r) r"
  by (simp add: drop_hardware_def cut_of_def Let_def)

lemma cut_fit_shrink: "cut_of (fit_shrink R m r) r"
proof (induction R m r rule: fit_shrink.induct)
  case (1 R m r)
  then show ?case
    by (subst fit_shrink.simps) (auto intro: cut_of_refl cut_of_trans [OF _ cut_shrink_collections])
qed

lemma cut_fit_remove: "cut_of (fit_remove R m r) r"
proof (induction R m r rule: fit_remove.induct)
  case (1 R m r)
  then show ?case
    by (subst fit_remove.simps)
      (auto intro: cut_of_refl cut_of_trans [OF _ cut_remove_last] split: option.splits)
qed

lemma cut_fit_body: "cut_of (fit_body R a b c d r) r"
proof -
  let ?r = "if ro_max_body R < serialized_len R r then drop_hardware r else r"
  have "cut_of ?r r" by (simp add: cut_drop_hardware cut_of_refl)
  then show ?thesis
    unfolding fit_body_def Let_def by (rule cut_of_trans [OF cut_of_trans [OF cut_fit_remove cut_fit_shrink]])
qed

section \<open>The round trip\<close>

text \<open>
  Normalizing the names must not turn another capability into the marker: in the client all
  names are literals, so that only the marker itself has its name.
\<close>

definition marker_is_unique :: "report_ops \<Rightarrow> client_report \<Rightarrow> bool" where
  "marker_is_unique R r \<longleftrightarrow> is_marked r \<or>
     (\<forall>c \<in> set (rep_capabilities r). cap_name (fst (bound_capability R c)) \<noteq> truncated_capability)"

lemma canonical_marked:
  assumes "report_limits_ok R" and "canonical R r" and "\<forall>c \<in> set (rep_capabilities r). cap_name c \<noteq> truncated_capability"
  shows "canonical R (mark_truncated R r)"
  using assms capabilities_settled_marker [of R "rep_capabilities r"]
  by (simp add: canonical_def Let_def mark_truncated_def report_limits_ok_def)

lemma bound_report_cut:
  obtains r where "cut_of (fst (bound_report_with_time_policy R now clamp report)) r"
    and "r = fst (bound_parts R now clamp report) \<or>
      \<not> is_marked report \<and> r = mark_truncated R (fst (bound_parts R now clamp report))"
proof -
  obtain r0 changed where parts: "bound_parts R now clamp report = (r0, changed)"
    by (cases "bound_parts R now clamp report")
  let ?r = "if (changed \<or> ro_max_body R < serialized_len R r0) \<and> \<not> is_marked report
    then mark_truncated R r0 else r0"
  show thesis
  proof (rule that)
    show "cut_of (fst (bound_report_with_time_policy R now clamp report)) ?r"
      by (simp only: bound_report_with_time_policy_def Let_def parts prod.case fst_conv cut_fit_body)
    show "?r = fst (bound_parts R now clamp report) \<or>
      \<not> is_marked report \<and> ?r = mark_truncated R (fst (bound_parts R now clamp report))"
      by (simp add: parts)
  qed
qed

lemma capabilities_of_parts:
  "set (rep_capabilities (fst (bound_parts R now clamp r))) \<subseteq> (\<lambda>c. fst (bound_capability R c)) ` set (rep_capabilities r)"
proof -
  have "set (fst (bound_capabilities R cs)) \<subseteq> set cs" for cs
    using set_dedup_by [of "\<lambda>c. (cap_name c, cap_source c)" "order_capabilities R cs"]
    by (auto simp: bound_capabilities_def order_capabilities_def dest!: in_set_takeD)
  from this [of "map (\<lambda>c. fst (bound_capability R c)) (rep_capabilities r)"] show ?thesis
    by (simp only: parts_result normalize_result Let_def client_report.simps set_map)
qed

lemma bound_report_canonical:
  assumes "report_limits_ok R" and "marker_is_unique R report"
  shows "canonical R (fst (bound_report_with_time_policy R now clamp report))"
proof -
  let ?p = "fst (bound_parts R now clamp report)"
  obtain r where cut: "cut_of (fst (bound_report_with_time_policy R now clamp report)) r"
    and r: "r = ?p \<or> \<not> is_marked report \<and> r = mark_truncated R ?p"
    by (rule bound_report_cut)
  have p: "canonical R ?p" using assms(1) by (rule canonical_bound_parts)
  have "canonical R r"
  proof (cases "r = ?p")
    case False
    with r have "\<not> is_marked report" "r = mark_truncated R ?p" by auto
    moreover have "\<forall>c \<in> set (rep_capabilities ?p). cap_name c \<noteq> truncated_capability"
      using assms(2) calculation(1) capabilities_of_parts [of R now clamp report]
      unfolding marker_is_unique_def by blast
    ultimately show ?thesis using canonical_marked [OF assms(1) p] by simp
  qed (use p in simp)
  with cut show ?thesis by (rule canonical_cut)
qed

lemma bound_report_identity:
  assumes "b = fst (bound_report_with_time_policy R now clamp report)"
  shows "rep_schema_version b = rep_schema_version report" and "rep_id b = rep_id report"
    and "hi_id (rep_host b) = hi_id (rep_host report)"
proof -
  have host: "hi_id (fst (bound_host R h)) = hi_id h" for h
    unfolding bound_host_def Let_def by (cases h) (simp only: fst_steps fst_step host_identity.simps)
  obtain r where cut: "cut_of b r" and r: "r = fst (bound_parts R now clamp report) \<or>
      \<not> is_marked report \<and> r = mark_truncated R (fst (bound_parts R now clamp report))"
    unfolding assms by (rule bound_report_cut)
  note same = cut_of_fields [OF cut]
  from r show "rep_schema_version b = rep_schema_version report" and "rep_id b = rep_id report"
    and "hi_id (rep_host b) = hi_id (rep_host report)"
    by (auto simp: same parts_result normalize_result Let_def mark_truncated_def host)
qed

theorem encoded_is_canonical:
  assumes "report_limits_ok R" and "marker_is_unique R report"
    and "encode_report_body_inner R now clamp report = Inr (b, body)"
  shows "canonical_spool_report R b = Inr (b, body)"
proof -
  have b: "b = fst (bound_report_with_time_policy R now clamp report)" and "ro_encode R b = Some body"
    and "length body \<le> ro_max_body R" and "rep_schema_version report = ro_schema_version R"
    using assms(3) by (auto simp: encode_report_body_inner_def bindR_Inr_iff Let_def)
  moreover have "canonical R b" unfolding b by (rule bound_report_canonical [OF assms(1,2)])
  then have "bound_report_with_time_policy R 0 False b = (b, False)"
    using calculation by (intro canonical_unchanged) (simp_all add: serialized_len_def)
  moreover have "rep_schema_version b = ro_schema_version R"
    using calculation bound_report_identity(1) [OF b] by simp
  ultimately show ?thesis
    by (simp add: canonical_spool_report_def encode_report_body_inner_def)
qed

end
