(* ===== verification/Report_Limits.thy ===== *)
theory Report_Limits
  imports Report_Canonical Account
begin

text \<open>
  What the server's contract asks of a report, stated on the report alone, and the lemma that
  every canonical report meets it: text within its limit and without controls, required text
  not blank, numbers finite and in their range, used amounts within totals, identities distinct,
  lists within their limits.
\<close>

section \<open>Values\<close>

definition text_within :: "nat \<Rightarrow> string \<Rightarrow> bool" where
  "text_within n s \<longleftrightarrow> length s \<le> n \<and> clean s"

definition text_present :: "nat \<Rightarrow> string \<Rightarrow> bool" where
  "text_present n s \<longleftrightarrow> text_within n s \<and> trim s \<noteq> []"

definition optional :: "('a \<Rightarrow> bool) \<Rightarrow> 'a option \<Rightarrow> bool" where
  "optional P v \<longleftrightarrow> (case v of None \<Rightarrow> True | Some x \<Rightarrow> P x)"

definition number_in :: "f64 \<Rightarrow> f64 \<Rightarrow> f64 \<Rightarrow> bool" where
  "number_in lo hi v \<longleftrightarrow> is_finite v \<and> f64_le lo v \<and> f64_le v hi"

definition nonnegative :: "f64 \<Rightarrow> bool" where
  "nonnegative v \<longleftrightarrow> is_finite v \<and> f64_le f64_zero v"

named_theorems within

lemma strip_and_truncate_within: "text_within n (strip_controls_and_truncate n s)"
  by (simp add: text_within_def strip_controls_and_truncate_def length_truncate clean_def strip_truncate)

lemma descriptive_within [within]: "text_within n (fst (bound_descriptive_text n s))"
  by (simp add: bound_descriptive_text_def Let_def strip_and_truncate_within)

lemma optional_within [within]: "optional (text_within n) (fst (bound_optional_text n v))"
  by (simp add: optional_def bound_optional_text_def descriptive_within split: option.splits)

lemma nonempty_within [within]: "optional (text_present n) (fst (bound_optional_nonempty_text n v))"
  by (simp add: optional_def text_present_def bound_optional_nonempty_text_def Let_def strip_and_truncate_within
      split: option.splits)

lemma truncate_plain:
  assumes "list_all plain_byte s"
  shows "truncate_utf8 n s = take n s"
proof (cases "length s \<le> n")
  case False
  then have "plain_byte (s ! n)" using assms by (simp add: list_all_length)
  then have "\<not> continuation_byte (s ! n)"
    by (simp add: plain_byte_def continuation_byte_def continuation_def)
  with False have "floor_boundary s n = n" by (cases n) (simp_all add: is_char_boundary_def)
  with False show ?thesis by (simp add: truncate_utf8_def)
qed (simp add: truncate_utf8_def)

text \<open>A fallback is plain text, so its truncation is not blank.\<close>

lemma plain_literals [simp]:
  "list_all plain_byte ''unknown''" "list_all plain_byte ''unknown.capability''"
  "list_all plain_byte ''unnamed-network''"
  by (simp_all add: plain_byte_def byte_def)

lemma trim_truncated_plain:
  assumes "list_all plain_byte s" and "s \<noteq> []" and "0 < n"
  shows "trim (truncate_utf8 n s) \<noteq> []"
proof -
  have "list_all plain_byte (take n s)" using assms(1) by (auto simp: list_all_iff dest: in_set_takeD)
  then have "trim (take n s) = take n s" using assms(2,3) by (intro trim_id plain_text_edges) auto
  with assms show ?thesis by (auto simp: truncate_plain)
qed

lemma required_within:
  assumes "clean s0" and "list_all plain_byte s0" and "s0 \<noteq> []" and "0 < n"
  shows "text_present n (fst (bound_required_text n s0 s))"
  using strip_and_truncate_within [of n s] trim_truncated_plain [OF assms(2-4)] assms(1)
  by (simp add: bound_required_text_def Let_def text_present_def text_within_def length_truncate clean_def
      strip_truncate)

lemma required_defaults:
  assumes "0 < n"
  shows "text_present n (fst (bound_required_text n ''unknown'' s))"
    and "text_present n (fst (bound_required_text n ''unknown.capability'' s))"
    and "text_present n (fst (bound_required_text n ''unnamed-network'' s))"
  by (rule required_within [OF clean_literals(1) plain_literals(1) _ assms],
      rule list.distinct,
      rule required_within [OF clean_literals(2) plain_literals(2) _ assms],
      rule list.distinct,
      rule required_within [OF clean_literals(3) plain_literals(3) _ assms],
      rule list.distinct)

lemma percent_within [within]: "number_in f64_zero f64_100 (fst (bound_percent v))"
  using clamp_bounds [of v f64_zero f64_100] clamp_finite [of v f64_zero f64_100] f64_literals(3)
  by (auto simp: number_in_def bound_percent_def replace_f64_def f64_le_def)

lemma nonnegative_within:
  "zero_choice (ro_max_zero R) \<Longrightarrow> nonnegative (fst (bound_nonnegative R v))"
  using max_zero_nonneg [of "ro_max_zero R" v]
  by (simp add: nonnegative_def bound_nonnegative_def replace_f64_def f64_le_def)

lemma optional_range_within [within]: "optional (number_in a b) (fst (bound_optional_range a b v))"
  by (simp add: optional_def number_in_def bound_optional_range_def split: option.splits)

lemma optional_nonnegative_within [within]:
  "optional (number_in f64_zero f64_largest) (fst (bound_optional_nonnegative v))"
  by (simp add: bound_optional_nonnegative_def optional_range_within)

lemma interval_within:
  assumes "interval_limits_ok R"
  shows "number_in (ro_min_interval R) (ro_max_interval R) (fst (bound_interval R v))"
  using assms clamp_bounds [of v "ro_min_interval R" "ro_max_interval R"]
    clamp_finite [of v "ro_min_interval R" "ro_max_interval R"]
  by (auto simp: interval_limits_ok_def number_in_def bound_interval_def replace_f64_def f64_le_def finite_not_nan)

lemma at_most_within [within]: "fst (at_most limit v) \<le> limit"
  by (simp add: at_most_def not_less)

section \<open>Parts of an admissible report\<close>

definition capability_within :: "report_ops \<Rightarrow> capability \<Rightarrow> bool" where
  "capability_within R c \<longleftrightarrow> (let T = ro_text R in text_present (tl_capability_name T) (cap_name c) \<and>
     text_present (tl_capability_source T) (cap_source c) \<and>
     optional (text_present (tl_capability_message T)) (cap_message c))"

definition network_within :: "report_ops \<Rightarrow> network_snapshot \<Rightarrow> bool" where
  "network_within R n \<longleftrightarrow> text_present (tl_network_name (ro_text R)) (net_name n) \<and>
     nonnegative (net_received_per_second n) \<and> nonnegative (net_transmitted_per_second n)"

definition disk_within :: "report_ops \<Rightarrow> disk_snapshot \<Rightarrow> bool" where
  "disk_within R d \<longleftrightarrow> (let T = ro_text R in text_within (tl_disk_name T) (dsk_name d) \<and>
     text_present (tl_mount_point T) (dsk_mount_point d) \<and> text_within (tl_file_system T) (dsk_file_system d) \<and>
     dsk_available d \<le> dsk_total d \<and> nonnegative (dsk_read_per_second d) \<and> nonnegative (dsk_written_per_second d))"

definition temperature_within :: "report_ops \<Rightarrow> temperature_snapshot \<Rightarrow> bool" where
  "temperature_within R t \<longleftrightarrow> (let T = ro_text R in text_within (tl_temperature_id T) (tmp_id t) \<and>
     text_within (tl_temperature_label T) (tmp_label t) \<and> text_within (tl_temperature_source T) (tmp_source t) \<and>
     list_all (optional (number_in f64_minus_273_15 f64_1000)) [tmp_celsius t, tmp_max t, tmp_critical t])"

definition used_within :: "64 word option \<Rightarrow> 64 word option \<Rightarrow> bool" where
  "used_within used limit \<longleftrightarrow> optional (\<lambda>l. optional (\<lambda>u. u \<le> l) used) limit"

definition gpu_within :: "report_ops \<Rightarrow> gpu_snapshot \<Rightarrow> bool" where
  "gpu_within R g \<longleftrightarrow> (let T = ro_text R in text_within (tl_gpu_id T) (gpu_id g) \<and>
     text_within (tl_gpu_vendor T) (gpu_vendor g) \<and> text_within (tl_gpu_name T) (gpu_name g) \<and>
     text_within (tl_gpu_source T) (gpu_source g) \<and>
     optional (number_in f64_zero f64_100) (gpu_utilization g) \<and>
     used_within (gpu_memory_used g) (gpu_memory_total g) \<and>
     optional (number_in f64_minus_273_15 f64_1000) (gpu_temperature g) \<and>
     list_all (optional (number_in f64_zero f64_largest))
       [gpu_power g, gpu_core_clock g, gpu_memory_clock g, gpu_pcie_rx g, gpu_pcie_tx g])"

definition memory_within :: "memory_snapshot \<Rightarrow> bool" where
  "memory_within m \<longleftrightarrow> ram_used m \<le> ram_total m \<and> ram_available m \<le> ram_total m \<and> swap_used m \<le> swap_total m"

definition host_within :: "report_ops \<Rightarrow> host_identity \<Rightarrow> bool" where
  "host_within R h \<longleftrightarrow> (let T = ro_text R in text_present (tl_host_os T) (hi_os h) \<and>
     optional (text_within (tl_host_version T)) (hi_os_version h) \<and>
     optional (text_within (tl_host_version T)) (hi_kernel_version h) \<and>
     text_present (tl_host_arch T) (hi_arch h) \<and> text_present (tl_client_version T) (hi_client_version h))"

definition cpu_within :: "report_ops \<Rightarrow> cpu_snapshot \<Rightarrow> bool" where
  "cpu_within R c \<longleftrightarrow> number_in f64_zero f64_100 (cpu_usage c) \<and>
     list_all (number_in f64_zero f64_100) (cpu_per_core c) \<and> cpu_per_core c \<noteq> [] \<and>
     length (cpu_per_core c) \<le> cl_cpu_cores (ro_count R) \<and> unat (cpu_logical c) = length (cpu_per_core c) \<and>
     optional (\<lambda>n. 0 < n \<and> n \<le> cpu_logical c) (cpu_physical c)"

definition hardware_within :: "report_ops \<Rightarrow> time \<Rightarrow> hardware_snapshot \<Rightarrow> bool" where
  "hardware_within R t h \<longleftrightarrow> (let N = ro_count R in hw_collected_at h \<le> t \<and> optional (\<lambda>i. i \<le> t) (hw_inventory_at h) \<and>
     length (hw_modules h) \<le> cl_memory_modules N \<and> length (hw_devices h) \<le> cl_hardware_devices N \<and>
     length (hw_networks h) \<le> cl_hardware_networks N \<and> length (hw_physical h) \<le> cl_hardware_networks N \<and>
     length (hw_sensors h) \<le> cl_hardware_sensors N \<and> length (hw_disks h) \<le> cl_hardware_disks N \<and>
     list_all sensor_ok (hw_sensors h) \<and> distinct (map (\<lambda>s. (sns_source s, sns_id s)) (hw_sensors h)) \<and>
     distinct (map (\<lambda>d. (dev_source d, dev_id d, dev_kind d)) (hw_devices h)) \<and>
     distinct (map (\<lambda>n. (pna_source n, pna_id n)) (hw_physical h)) \<and>
     list_all (\<lambda>n. list_all address_ok (nhw_addresses n) \<and> length (nhw_addresses n) \<le> 64) (hw_networks h) \<and>
     list_all (\<lambda>d. dh_collected_at d \<le> t) (hw_disks h))"

definition admissible :: "report_ops \<Rightarrow> client_report \<Rightarrow> bool" where
  "admissible R r \<longleftrightarrow> (let s = rep_system r; N = ro_count R in
     number_in (ro_min_interval R) (ro_max_interval R) (rep_interval r) \<and> host_within R (rep_host r) \<and>
     cpu_within R (sys_cpu s) \<and> memory_within (sys_memory s) \<and>
     optional (hardware_within R (rep_collected_at r)) (sys_hardware s) \<and>
     list_all (capability_within R) (rep_capabilities r) \<and>
     distinct (map (\<lambda>c. (cap_name c, cap_source c)) (rep_capabilities r)) \<and>
     length (rep_capabilities r) \<le> cl_capabilities N \<and>
     list_all (network_within R) (sys_networks s) \<and> length (sys_networks s) \<le> cl_networks N \<and>
     list_all (disk_within R) (sys_disks s) \<and> length (sys_disks s) \<le> cl_disks N \<and>
     list_all (temperature_within R) (sys_temperatures s) \<and> length (sys_temperatures s) \<le> cl_temperatures N \<and>
     list_all (gpu_within R) (sys_gpus s) \<and> length (sys_gpus s) \<le> cl_gpus N)"

section \<open>Bounding makes a part admissible\<close>

definition limits_positive :: "text_limits \<Rightarrow> bool" where
  "limits_positive T \<longleftrightarrow> 0 < tl_host_os T \<and> 0 < tl_host_arch T \<and> 0 < tl_client_version T \<and>
     0 < tl_capability_name T \<and> 0 < tl_capability_source T \<and> 0 < tl_network_name T \<and> 0 < tl_mount_point T"

lemmas run_within = run_record within required_defaults

lemma capability_bounded:
  "limits_positive (ro_text R) \<Longrightarrow> capability_within R (fst (bound_capability R c))"
  unfolding bound_capability_def Let_def capability_within_def limits_positive_def
  by (cases c) (simp only: run_within capability.simps)

lemma network_bounded:
  assumes "limits_positive (ro_text R)" and "zero_choice (ro_max_zero R)"
  shows "network_within R (fst (bound_network R n))"
  using assms(1) unfolding bound_network_def Let_def network_within_def limits_positive_def
  by (cases n) (simp only: run_within nonnegative_within [OF assms(2)] network_snapshot.simps)

lemma disk_bounded:
  assumes "limits_positive (ro_text R)" and "zero_choice (ro_max_zero R)"
  shows "disk_within R (fst (bound_disk R d))"
  using assms(1) unfolding bound_disk_def Let_def disk_within_def limits_positive_def
  by (cases d) (simp only: run_within nonnegative_within [OF assms(2)] disk_snapshot.simps)

lemma temperature_bounded: "temperature_within R (fst (bound_temperature R t))"
  unfolding bound_temperature_def Let_def temperature_within_def
  by (cases t) (simp only: run_within temperature_snapshot.simps)

lemma cap_used_within: "used_within (fst (cap_used l u)) l"
  by (auto simp: cap_used_def used_within_def optional_def split: option.splits)

lemma gpu_bounded: "gpu_within R (fst (bound_gpu R g))"
  unfolding bound_gpu_def Let_def bound_gpu_memory_step gpu_within_def
  by (cases g) (simp only: run_within cap_used_within gpu_snapshot.simps)

lemma memory_bounded: "memory_within (fst (bound_memory m))"
  unfolding bound_memory_def memory_within_def
  by (cases m) (simp only: run_within memory_snapshot.simps)

lemma host_bounded: "limits_positive (ro_text R) \<Longrightarrow> host_within R (fst (bound_host R h))"
  unfolding bound_host_def Let_def host_within_def limits_positive_def
  by (cases h) (simp only: run_within host_identity.simps)

lemma cpu_bounded:
  assumes "0 < cl_cpu_cores (ro_count R)" and "cl_cpu_cores (ro_count R) < 2 ^ 32"
    and "settled bound_percent (cpu_usage c)"
  shows "cpu_within R (fst (bound_cpu R c))"
proof -
  let ?xs = "bounded_cores R c"
  obtain p where res: "fst (bound_cpu R c) = \<lparr>cpu_usage = cpu_usage c, cpu_logical = of_nat (length ?xs),
      cpu_physical = p, cpu_per_core = ?xs\<rparr>" and p: "physical_ok (length ?xs) p"
    by (rule bound_cpu_result)
  have usage: "number_in f64_zero f64_100 (cpu_usage c)"
    using percent_within [of "cpu_usage c"] assms(3) by (simp add: settled_def)
  have cores: "list_all (number_in f64_zero f64_100) ?xs" and some: "?xs \<noteq> []"
    and len: "length ?xs \<le> cl_cpu_cores (ro_count R)"
    using assms(1) by (auto simp: bounded_cores_def list_all_iff within dest!: in_set_takeD)
  have "unat (of_nat (length ?xs) :: 32 word) = length ?xs"
    using len assms(2) by (simp add: unat_of_nat take_bit_nat_eq_self)
  moreover have "optional (\<lambda>n. 0 < n \<and> n \<le> of_nat (length ?xs)) p"
    using p by (auto simp: physical_ok_def optional_def word_neq_0_conv split: option.splits)
  ultimately show ?thesis
    using usage cores some len by (simp add: res cpu_within_def)
qed

section \<open>The inventory\<close>

lemma distinct_retain_first: "distinct (map key (retain_first key {} xs))"
  using retain_first_distinct [of key "{}" xs] by simp

lemma sensor_kept: "sensor_ok (fst (bound_sensor R s)) = sensor_ok s"
  unfolding bound_sensor_def Let_def sensor_ok_def
  by (cases s) (simp only: run_record hardware_sensor.simps)

lemma addresses_bounded:
  "list_all address_ok (nhw_addresses (fst (bound_network_hardware R n))) \<and>
   length (nhw_addresses (fst (bound_network_hardware R n))) \<le> 64"
proof -
  have "nhw_addresses (fst (bound_network_hardware R n)) = filter address_ok (take 64 (nhw_addresses n))"
    unfolding bound_network_hardware_def Let_def
    by (cases n) (simp only: run_record fst_dropping fst_truncate_list network_hardware.simps)
  then show ?thesis
    using length_filter_le [of address_ok "take 64 (nhw_addresses n)"] by (simp add: list_all_iff)
qed

lemma disk_time_bounded: "dh_collected_at (fst (bound_disk_health R t d)) \<le> t"
  unfolding bound_disk_health_def Let_def
  by (cases d) (simp only: run_within disk_health.simps)

lemma hardware_result:
  "fst (bound_hardware R t h) =
    \<lparr>hw_collected_at = fst (at_most t (hw_collected_at h)), hw_cpu = fst (bound_cpu_hardware R (hw_cpu h)),
     hw_networks = fst (bound_networks_hardware R (hw_networks h)),
     hw_physical = fst (bound_physical_adapters R (hw_physical h)),
     hw_sensors = fst (bound_sensors R (hw_sensors h)), hw_disks = fst (bound_disks_health R t (hw_disks h)),
     hw_inventory_at = fst (bound_inventory_time t (hw_inventory_at h)),
     hw_modules = fst (bound_modules R (hw_modules h)), hw_devices = fst (bound_devices R (hw_devices h))\<rparr>"
  unfolding bound_hardware_def
  by (cases h) (simp only: run_record hardware_snapshot.simps)

lemma sensors_bounded:
  "list_all sensor_ok (fst (bound_sensors R xs)) \<and> length (fst (bound_sensors R xs)) \<le> cl_hardware_sensors (ro_count R)
   \<and> distinct (map (\<lambda>s. (sns_source s, sns_id s)) (fst (bound_sensors R xs)))"
proof -
  let ?key = "\<lambda>s. (sns_source s, sns_id s)"
  obtain ys where ys: "ys = map (\<lambda>x. fst (bound_sensor R x)) (filter sensor_ok (take (cl_hardware_sensors (ro_count R)) xs))"
    by blast
  have res: "fst (bound_sensors R xs) = retain_first ?key {} ys"
    by (simp add: bound_sensors_def fst_steps ys)
  have len: "length ys \<le> cl_hardware_sensors (ro_count R)"
    using length_filter_le [of sensor_ok "take (cl_hardware_sensors (ro_count R)) xs"] by (simp add: ys)
  have "list_all sensor_ok ys" by (simp add: ys list_all_iff sensor_kept)
  then have "list_all sensor_ok (retain_first ?key {} ys)"
    using set_retain_first [of ?key "{}" ys] by (auto simp: list_all_iff)
  with len show ?thesis
    using length_retain_first [of ?key "{}" ys] distinct_retain_first [of ?key ys] by (simp add: res)
qed

lemma distinct_take_map: "distinct (map f xs) \<Longrightarrow> distinct (map f (take n xs))"
  by (simp flip: take_map)

lemma inventory_time_bounded: "optional (\<lambda>i. i \<le> t) (fst (bound_inventory_time t v))"
  by (simp add: optional_def bound_inventory_time_def within split: option.splits)

lemma networks_bounded:
  "list_all (\<lambda>n. list_all address_ok (nhw_addresses n) \<and> length (nhw_addresses n) \<le> 64)
     (fst (bound_networks_hardware R ns)) \<and>
   length (fst (bound_networks_hardware R ns)) \<le> cl_hardware_networks (ro_count R)"
  using addresses_bounded by (simp add: bound_networks_hardware_def fst_steps list_all_iff)

lemma disks_bounded:
  "list_all (\<lambda>d. dh_collected_at d \<le> t) (fst (bound_disks_health R t ds)) \<and>
   length (fst (bound_disks_health R t ds)) \<le> cl_hardware_disks (ro_count R)"
  by (simp add: bound_disks_health_def fst_steps list_all_iff disk_time_bounded)

lemma modules_bounded: "length (fst (bound_modules R ms)) \<le> cl_memory_modules (ro_count R)"
  by (simp add: bound_modules_def fst_steps)

lemma devices_bounded:
  "length (fst (bound_devices R ds)) \<le> cl_hardware_devices (ro_count R) \<and>
   distinct (map (\<lambda>d. (dev_source d, dev_id d, dev_kind d)) (fst (bound_devices R ds)))"
  by (simp add: bound_devices_def fst_steps distinct_take_map distinct_retain_first)

lemma adapters_bounded:
  "length (fst (bound_physical_adapters R ns)) \<le> cl_hardware_networks (ro_count R) \<and>
   distinct (map (\<lambda>n. (pna_source n, pna_id n)) (fst (bound_physical_adapters R ns)))"
  by (simp add: bound_physical_adapters_def fst_steps distinct_take_map distinct_retain_first)

lemma hardware_bounded: "hardware_within R t (fst (bound_hardware R t h))"
  unfolding hardware_within_def Let_def hardware_result
  by (simp only: hardware_snapshot.simps within inventory_time_bounded networks_bounded disks_bounded
      modules_bounded devices_bounded adapters_bounded sensors_bounded simp_thms)

section \<open>Canonical reports are admissible\<close>

lemma settled_result: "settled f x \<Longrightarrow> x = fst (f x)"
  by (simp add: settled_def)

lemma list_all_settled: "list_all (settled f) xs \<Longrightarrow> (\<And>x. P (fst (f x))) \<Longrightarrow> list_all P xs"
  unfolding list_all_iff by (metis settled_result)

lemma sorted_apart_distinct: "sorted (map key xs) \<Longrightarrow> apart key xs \<Longrightarrow> distinct (map key (xs :: 'a list))"
  for key :: "'a \<Rightarrow> 'k::linorder"
proof (induction key xs rule: apart.induct)
  case (1 key x y zs)
  then have "\<forall>z \<in> set zs. key y \<le> key z" and "key x < key y" by auto
  then have "key x \<notin> key ` set zs" by fastforce
  with 1 show ?case by auto
qed simp_all

lemma capabilities_distinct:
  assumes "sorted (map (capability_order R) cs)" and "apart (\<lambda>c. (cap_name c, cap_source c)) cs"
  shows "distinct (map (\<lambda>c. (cap_name c, cap_source c)) cs)"
proof -
  let ?key = "\<lambda>c. (cap_name c \<noteq> truncated_capability, cap_name c, cap_source c)"
  have below: "capability_order R c \<le> capability_order R d \<Longrightarrow> ?key c \<le> ?key d" for c d
    by (auto simp: capability_order_def less_eq_prod_def)
  have "sorted (map ?key cs)"
    using assms(1) unfolding sorted_map by (rule sorted_wrt_mono_rel [rotated]) (rule below)
  moreover have "apart (\<lambda>c. (cap_name c, cap_source c)) ds \<Longrightarrow> apart ?key ds" for ds :: "capability list"
    by (induction ds rule: induct_list012) auto
  ultimately have "distinct (map ?key cs)"
    using assms(2) by (intro sorted_apart_distinct)
  then show ?thesis by (auto simp: distinct_map inj_on_def)
qed

theorem canonical_admissible:
  assumes "report_limits_ok R" and "limits_positive (ro_text R)" and "canonical R r"
  shows "admissible R r"
proof -
  note ok = assms(1) [unfolded report_limits_ok_def]
  let ?s = "rep_system r"
  note parts = assms(3) [unfolded canonical_def Let_def collection_settled_def capabilities_settled_def]
  have "number_in (ro_min_interval R) (ro_max_interval R) (rep_interval r)"
    using settled_result [of "bound_interval R" "rep_interval r"] interval_within [of R "rep_interval r"] ok parts by simp
  moreover have "host_within R (rep_host r)"
    using settled_result [of "bound_host R" "rep_host r"] host_bounded [OF assms(2), of "rep_host r"] parts by simp
  moreover have "cpu_within R (sys_cpu ?s)"
    using settled_result [of "bound_cpu R" "sys_cpu ?s"] cpu_bounded [of R "sys_cpu ?s"] ok parts by simp
  moreover have "memory_within (sys_memory ?s)"
    using settled_result [of bound_memory "sys_memory ?s"] memory_bounded [of "sys_memory ?s"] parts by simp
  moreover have "optional (hardware_within R (rep_collected_at r)) (sys_hardware ?s)"
    using settled_result [of "bound_hardware R (rep_collected_at r)"] hardware_bounded [of R "rep_collected_at r"] parts
    by (auto simp: optional_def split: option.splits) metis
  moreover have "list_all (capability_within R) (rep_capabilities r)"
    by (rule list_all_settled [of "bound_capability R"]) (use parts capability_bounded [OF assms(2)] in auto)
  moreover have "distinct (map (\<lambda>c. (cap_name c, cap_source c)) (rep_capabilities r))"
    using parts by (intro capabilities_distinct) auto
  moreover have "list_all (network_within R) (sys_networks ?s)"
    by (rule list_all_settled [of "bound_network R"]) (use ok parts network_bounded [OF assms(2)] in auto)
  moreover have "list_all (disk_within R) (sys_disks ?s)"
    by (rule list_all_settled [of "bound_disk R"]) (use ok parts disk_bounded [OF assms(2)] in auto)
  moreover have "list_all (temperature_within R) (sys_temperatures ?s)"
    by (rule list_all_settled [of "bound_temperature R"]) (use parts temperature_bounded in auto)
  moreover have "list_all (gpu_within R) (sys_gpus ?s)"
    by (rule list_all_settled [of "bound_gpu R"]) (use parts gpu_bounded in auto)
  ultimately show ?thesis
    using parts by (simp add: admissible_def Let_def)
qed

end
