(* ===== verification/Report_Fit.thy ===== *)
theory Report_Fit
  imports Report_Limits
begin

text \<open>
  Fitting a report into the body limit ends, with a body that fits or a report from which
  nothing more can be taken; the truncation marker survives it. The clock matters only for
  reports from the future.
\<close>

section \<open>The end of fitting\<close>

definition nothing_removable :: "nat \<Rightarrow> client_report \<Rightarrow> bool" where
  "nothing_removable m r \<longleftrightarrow> (let s = rep_system r in sys_temperatures s = [] \<and> sys_disks s = [] \<and>
     sys_networks s = [] \<and> sys_gpus s = [] \<and> length (rep_capabilities r) \<le> m)"

lemma remove_None: "remove_last_optional m r = None \<longleftrightarrow> nothing_removable m r"
  by (auto simp: remove_last_optional_def nothing_removable_def Let_def)

lemma fit_remove_ends:
  "serialized_len R (fit_remove R m r) \<le> ro_max_body R \<or> nothing_removable m (fit_remove R m r)"
proof (induction R m r rule: fit_remove.induct)
  case (1 R m r)
  show ?case
  proof (cases "ro_max_body R < serialized_len R r")
    case True
    show ?thesis
    proof (cases "remove_last_optional m r")
      case None
      with True show ?thesis by (simp add: fit_remove.simps [of R m r]) (simp add: remove_None)
    next
      case (Some r')
      with True 1 show ?thesis by (simp add: fit_remove.simps [of R m r])
    qed
  qed (simp add: fit_remove.simps [of R m r])
qed

text \<open>The passes of the shrinking loop, counted: never more than what is removable.\<close>

definition shrink_pass :: "report_ops \<Rightarrow> minima \<Rightarrow> client_report \<Rightarrow> client_report" where
  "shrink_pass R m r = shrink_collections m (ro_scaled R (max 1 (serialized_len R r))) r"

lemma shrink_bounds: "length (shrink n f xs) - n \<le> length xs - n \<and>
    (0 < length xs - n \<longrightarrow> length (shrink n f xs) - n < length xs - n)"
  by (auto simp: shrink_def Let_def)

lemma sum_less:
  fixes a b c d e :: nat
  assumes "a' \<le> a \<and> (0 < a \<longrightarrow> a' < a)" "b' \<le> b \<and> (0 < b \<longrightarrow> b' < b)" "c' \<le> c \<and> (0 < c \<longrightarrow> c' < c)"
    "d' \<le> d \<and> (0 < d \<longrightarrow> d' < d)" "e' \<le> e \<and> (0 < e \<longrightarrow> e' < e)" and "a + b + c + d + e \<noteq> 0"
  shows "a' + b' + c' + d' + e' < a + b + c + d + e"
  using assms by linarith

lemma lengths_shrink:
  "collection_lengths (shrink_collections (m0, m1, m2, m3, m4) f r) =
     (length (shrink m0 f (rep_capabilities r)), length (shrink m1 f (sys_networks (rep_system r))),
      length (shrink m2 f (sys_disks (rep_system r))), length (shrink m3 f (sys_temperatures (rep_system r))),
      length (shrink m4 f (sys_gpus (rep_system r))))"
  by (simp add: collection_lengths_def shrink_collections_def)

lemma removable_shrink:
  assumes "removable m r \<noteq> 0"
  shows "removable m (shrink_pass R m r) < removable m r"
proof -
  obtain m0 m1 m2 m3 m4 where m: "m = (m0, m1, m2, m3, m4)" by (cases m)
  show ?thesis
    using assms unfolding removable_def shrink_pass_def m lengths_shrink
    unfolding collection_lengths_def prod.case by (intro sum_less shrink_bounds)
qed

lemma fit_shrink_passes:
  obtains k where "k \<le> removable m r" and "fit_shrink R m r = (shrink_pass R m ^^ k) r"
proof -
  have "\<exists>k \<le> removable m r. fit_shrink R m r = (shrink_pass R m ^^ k) r"
  proof (induction R m r rule: fit_shrink.induct)
    case (1 R m r)
    show ?case
    proof (cases "ro_max_body R < serialized_len R r \<and> removable m r \<noteq> 0")
      case True
      then obtain k where k: "k \<le> removable m (shrink_pass R m r)"
        and eq: "fit_shrink R m (shrink_pass R m r) = (shrink_pass R m ^^ k) (shrink_pass R m r)"
        using 1 unfolding shrink_pass_def [symmetric] by blast
      have "Suc k \<le> removable m r" using k removable_shrink [of m r R] True by linarith
      moreover have "fit_shrink R m r = (shrink_pass R m ^^ Suc k) r"
        using True eq by (simp add: fit_shrink.simps [of R m r] shrink_pass_def funpow_Suc_right del: funpow.simps)
      ultimately show ?thesis by blast
    qed (auto simp: fit_shrink.simps [of R m r] intro: exI [of _ 0])
  qed
  then show thesis using that by blast
qed

lemma fit_shrink_ends:
  "serialized_len R (fit_shrink R m r) \<le> ro_max_body R \<or> removable m (fit_shrink R m r) = 0"
proof (induction R m r rule: fit_shrink.induct)
  case (1 R m r)
  then show ?case by (cases "ro_max_body R < serialized_len R r \<and> removable m r \<noteq> 0")
      (auto simp: fit_shrink.simps [of R m r])
qed

definition exhausted :: "client_report \<Rightarrow> bool" where
  "exhausted r \<longleftrightarrow> nothing_removable 1 r \<and> sys_hardware (rep_system r) = None"

lemma hardware_cut: "cut_of r' r \<Longrightarrow> sys_hardware (rep_system r) = None \<Longrightarrow> sys_hardware (rep_system r') = None"
  by (auto simp: cut_of_def Let_def)

lemma nothing_removable_mono: "nothing_removable m r \<Longrightarrow> m \<le> n \<Longrightarrow> nothing_removable n r"
  by (auto simp: nothing_removable_def Let_def)

lemma fit_body_ends:
  "serialized_len R (fit_body R a b c d r) \<le> ro_max_body R \<or> exhausted (fit_body R a b c d r)"
proof (cases "ro_max_body R < serialized_len R r")
  case True
  let ?m = "case rep_capabilities (drop_hardware r) of [] \<Rightarrow> 0
    | c # cs \<Rightarrow> if cap_name c = truncated_capability then 1 else (0::nat)"
  let ?s = "fit_shrink R (?m, a, b, c, d) (drop_hardware r)"
  have fit: "fit_body R a b c d r = fit_remove R ?m ?s"
    using True by (simp add: fit_body_def Let_def)
  have "sys_hardware (rep_system (fit_remove R ?m ?s)) = None"
    by (rule hardware_cut [OF cut_of_trans [OF cut_fit_remove cut_fit_shrink]]) (simp add: drop_hardware_def)
  moreover have "?m \<le> 1" by (simp split: list.splits)
  ultimately show ?thesis
    using fit_remove_ends [of R ?m ?s] nothing_removable_mono [of ?m _ 1] unfolding fit exhausted_def by blast
qed (simp add: fit_body_small)

section \<open>The marker\<close>

definition marker_first :: "client_report \<Rightarrow> bool" where
  "marker_first r \<longleftrightarrow> (case rep_capabilities r of [] \<Rightarrow> False | c # cs \<Rightarrow> cap_name c = truncated_capability)"

lemma hd_shrink: "xs \<noteq> [] \<Longrightarrow> shrink (Suc 0) f xs \<noteq> [] \<and> hd (shrink (Suc 0) f xs) = hd xs"
  by (cases xs) (auto simp: shrink_def Let_def take_Cons')

lemma marker_first_hd: "marker_first r \<longleftrightarrow> rep_capabilities r \<noteq> [] \<and> cap_name (hd (rep_capabilities r)) = truncated_capability"
  by (simp add: marker_first_def split: list.splits)

lemma marker_shrink: "marker_first r \<Longrightarrow> marker_first (fit_shrink R (1, b, c, d, e) r)"
proof (induction R "(1::nat, b, c, d, e)" r rule: fit_shrink.induct)
  case (1 R r)
  have "marker_first (shrink_collections (1, b, c, d, e) f r)" for f
    using 1(2) hd_shrink [of "rep_capabilities r" f] by (simp add: shrink_collections_def marker_first_hd)
  with 1 show ?case by (simp add: fit_shrink.simps [of R _ r])
qed

lemma marker_remove: "marker_first r \<Longrightarrow> marker_first (fit_remove R 1 r)"
proof (induction R "1::nat" r rule: fit_remove.induct)
  case (1 R r)
  have "marker_first r'" if "remove_last_optional 1 r = Some r'" for r'
    using that 1(2) by (cases "rep_capabilities r")
      (auto simp: remove_last_optional_def marker_first_hd Let_def split: if_splits)
  with 1 show ?case by (auto simp: fit_remove.simps [of R _ r] split: option.splits)
qed

lemma marker_fit:
  assumes "marker_first r"
  shows "marker_first (fit_body R a b c d r)"
proof -
  obtain q where q: "q = (if ro_max_body R < serialized_len R r then drop_hardware r else r)" by blast
  have first: "marker_first q" using assms by (simp add: q marker_first_def drop_hardware_def)
  then have "(case rep_capabilities q of [] \<Rightarrow> 0 | c # cs \<Rightarrow> if cap_name c = truncated_capability then 1 else 0) = (1::nat)"
    by (auto simp: marker_first_def split: list.splits)
  with first show ?thesis
    unfolding fit_body_def Let_def q [symmetric] by (simp only: marker_remove marker_shrink)
qed

lemma hd_sorted_le: "sorted (map key xs) \<Longrightarrow> x \<in> set xs \<Longrightarrow> key (hd xs) \<le> key x"
  by (cases xs) auto

lemma ordered_marker_first:
  assumes "c \<in> set cs" and "cap_name c = truncated_capability"
  shows "cap_name (hd (order_capabilities R cs)) = truncated_capability"
proof -
  have "capability_order R (hd (order_capabilities R cs)) \<le> capability_order R c"
    using assms(1) by (intro hd_sorted_le) (simp_all add: order_capabilities_def)
  then show ?thesis using assms(2) by (auto simp: capability_order_def less_eq_prod_def)
qed

lemma order_capabilities_Nil [simp]: "order_capabilities R cs = [] \<longleftrightarrow> cs = []"
  unfolding order_capabilities_def by (metis length_0_conv length_sort)

text \<open>The marker's name is within the limit, so that normalization keeps it.\<close>

lemma marker_name_kept:
  assumes "marker_fits R" and "cap_name c = truncated_capability"
  shows "cap_name (fst (bound_capability R c)) = truncated_capability"
proof -
  have name: "cap_name (fst (bound_capability R c)) =
      fst (bound_required_text (tl_capability_name (ro_text R)) ''unknown.capability'' (cap_name c))" for c
    unfolding bound_capability_def Let_def by (cases c) (simp only: run_record capability.simps)
  have "cap_name (fst (bound_capability R truncation_marker)) = truncated_capability"
    using assms(1) by (simp add: marker_fits_def settled_def truncation_marker_def capability_unavailable_def)
  then show ?thesis
    by (simp add: name assms(2) truncation_marker_def capability_unavailable_def)
qed

lemma marked_parts_first:
  assumes "marker_fits R" and "0 < cl_capabilities (ro_count R)" and "is_marked r"
  shows "marker_first (fst (bound_parts R now clamp r))"
proof -
  obtain c where c: "c \<in> set (rep_capabilities r)" "cap_name c = truncated_capability"
    using assms(3) by (auto simp: is_marked_def list_ex_iff)
  let ?cs = "map (\<lambda>c. fst (bound_capability R c)) (rep_capabilities r)"
  let ?ds = "order_capabilities R ?cs"
  have "fst (bound_capability R c) \<in> set ?cs" using c(1) by simp
  then have "cap_name (hd ?ds) = truncated_capability"
    by (rule ordered_marker_first) (rule marker_name_kept [OF assms(1) c(2)])
  moreover have "?ds \<noteq> []" using c(1) by auto
  moreover have "rep_capabilities (fst (bound_parts R now clamp r)) =
      take (cl_capabilities (ro_count R)) (dedup_by (\<lambda>c. (cap_name c, cap_source c)) ?ds)"
    by (simp only: parts_result normalize_result Let_def client_report.simps bound_capabilities_def fst_steps
        fst_dropping fst_truncate_list)
  ultimately show ?thesis
    using assms(2) dedup_by_hd [of ?ds "\<lambda>c. (cap_name c, cap_source c)"] by (simp add: marker_first_hd)
qed

lemma mark_truncated_first:
  assumes "0 < cl_capabilities (ro_count R)"
  shows "marker_first (mark_truncated R r)"
proof -
  have "cap_name (hd (order_capabilities R (rep_capabilities r @ [truncation_marker]))) = truncated_capability"
    by (rule ordered_marker_first [of truncation_marker]) (simp_all add: truncation_marker_def capability_unavailable_def)
  moreover have "order_capabilities R (rep_capabilities r @ [truncation_marker]) \<noteq> []"
    by simp
  ultimately show ?thesis
    using assms by (simp add: mark_truncated_def marker_first_hd)
qed

theorem change_is_marked:
  assumes "marker_fits R" and "0 < cl_capabilities (ro_count R)"
    and "bound_report_with_time_policy R now clamp report = (b, True)"
  shows "marker_first b \<and> ch_collector_errors (rep_client b) =
     (if is_marked report then ch_collector_errors (rep_client report)
      else saturating_add64 (ch_collector_errors (rep_client report)) 1)"
proof -
  obtain p ch where parts: "bound_parts R now clamp report = (p, ch)" by (cases "bound_parts R now clamp report")
  have client: "rep_client p = rep_client report"
    using arg_cong [OF parts, of "\<lambda>x. rep_client (fst x)"]
    by (simp add: parts_result normalize_result Let_def)
  obtain q where q: "q = (if is_marked report then p else mark_truncated R p)" by blast
  have fits: "\<exists>n1 n2 n3 n4. b = fit_body R n1 n2 n3 n4 q"
    using assms(3) unfolding bound_report_with_time_policy_def parts
    by (auto simp: Let_def q split: if_splits)
  have "marker_first q"
    using marked_parts_first [OF assms(1,2), of report now clamp] mark_truncated_first [OF assms(2), of p]
    by (simp add: q parts)
  with fits have "marker_first b" by (auto simp: marker_fit)
  moreover have "rep_client b = rep_client q"
    using fits cut_of_fields(6) [OF cut_fit_body] by auto
  ultimately show ?thesis by (simp add: q mark_truncated_def client)
qed

section \<open>The clock\<close>

lemma normalize_not_future:
  assumes "rep_collected_at r - now \<le> 5 * 60 * 1000000000"
  shows "normalize_scalars_and_text R now True r = normalize_scalars_and_text R 0 False r"
proof -
  have "step rep_collected_at rep_collected_at_update (clamp_collected_at now) s = unchanged s"
    if "rep_collected_at s = rep_collected_at r" for s :: client_report
    using that assms by (cases s) (simp add: step_def clamp_collected_at_def unchanged_def)
  then show ?thesis
    unfolding normalize_scalars_and_text_def by (simp add: step_def [of rep_interval])
qed

lemma bound_parts_not_future:
  "rep_collected_at r - now \<le> 5 * 60 * 1000000000 \<Longrightarrow> bound_parts R now True r = bound_parts R 0 False r"
  unfolding bound_parts_def Let_def by (simp only: steps.simps normalize_not_future)

lemma bound_not_future:
  "rep_collected_at r - now \<le> 5 * 60 * 1000000000 \<Longrightarrow>
    bound_report_with_time_policy R now True r = bound_report_with_time_policy R 0 False r"
  unfolding bound_report_with_time_policy_def by (simp only: normalize_not_future bound_parts_not_future)


section \<open>Errors\<close>

lemma bounded_ends:
  assumes "b = fst (bound_report_with_time_policy R now clamp report)"
  shows "serialized_len R b \<le> ro_max_body R \<or> exhausted b"
proof -
  obtain n1 n2 n3 n4 q where "b = fit_body R n1 n2 n3 n4 q"
    using assms unfolding bound_report_with_time_policy_def
    by (auto simp: Let_def split: prod.splits)
  then show ?thesis by (simp add: fit_body_ends)
qed

lemma encode_error:
  assumes "encode_report_body_inner R now clamp report = Inl e"
    and "b = fst (bound_report_with_time_policy R now clamp report)"
  shows "rep_schema_version report \<noteq> ro_schema_version R \<or> ro_encode R b = None
    \<or> (ro_max_body R < serialized_len R b \<and> exhausted b)"
proof (cases "rep_schema_version report = ro_schema_version R \<and> ro_encode R b \<noteq> None")
  case True
  then obtain body where body: "ro_encode R b = Some body" by blast
  with True assms have "ro_max_body R < length body"
    by (auto simp: encode_report_body_inner_def ensureR_def Let_def split: if_splits)
  with bounded_ends [OF assms(2)] body show ?thesis by (auto simp: serialized_len_def)
qed blast

end
