(* ===== verification/Report_Equal.thy ===== *)
theory Report_Equal
  imports Report_Contract
begin

text \<open>
  Equality of reports as \<open>==\<close> computes it: the derived \<open>PartialEq\<close> compares \<open>f64\<close> fields by
  value, so the two zeros are equal and a NaN equals nothing. A report is compared after
  giving every zero the positive pattern, and equals another only when it holds no NaN.
\<close>

section \<open>Numbers of a report\<close>

definition plain_zero :: "f64 \<Rightarrow> f64" where
  "plain_zero v = (if f64_key v = 0 then f64_zero else v)"

definition f64_eq :: "f64 \<Rightarrow> f64 \<Rightarrow> bool" where
  "f64_eq a b \<longleftrightarrow> \<not> is_nan a \<and> \<not> is_nan b \<and> f64_key a = f64_key b"

abbreviation plain_zero_option :: "f64 option \<Rightarrow> f64 option" where
  "plain_zero_option \<equiv> map_option plain_zero"

definition plain_network :: "network_snapshot \<Rightarrow> network_snapshot" where
  "plain_network n = n\<lparr>net_received_per_second := plain_zero (net_received_per_second n),
     net_transmitted_per_second := plain_zero (net_transmitted_per_second n)\<rparr>"

definition plain_disk :: "disk_snapshot \<Rightarrow> disk_snapshot" where
  "plain_disk d = d\<lparr>dsk_read_per_second := plain_zero (dsk_read_per_second d),
     dsk_written_per_second := plain_zero (dsk_written_per_second d)\<rparr>"

definition plain_temperature :: "temperature_snapshot \<Rightarrow> temperature_snapshot" where
  "plain_temperature t = t\<lparr>tmp_celsius := plain_zero_option (tmp_celsius t), tmp_max := plain_zero_option (tmp_max t),
     tmp_critical := plain_zero_option (tmp_critical t)\<rparr>"

definition plain_gpu :: "gpu_snapshot \<Rightarrow> gpu_snapshot" where
  "plain_gpu g = g\<lparr>gpu_utilization := plain_zero_option (gpu_utilization g),
     gpu_temperature := plain_zero_option (gpu_temperature g), gpu_power := plain_zero_option (gpu_power g),
     gpu_core_clock := plain_zero_option (gpu_core_clock g), gpu_memory_clock := plain_zero_option (gpu_memory_clock g),
     gpu_pcie_rx := plain_zero_option (gpu_pcie_rx g), gpu_pcie_tx := plain_zero_option (gpu_pcie_tx g)\<rparr>"

definition plain_cpu_hardware :: "cpu_hardware \<Rightarrow> cpu_hardware" where
  "plain_cpu_hardware c = c\<lparr>chw_frequency := plain_zero_option (chw_frequency c),
     chw_max_frequency := plain_zero_option (chw_max_frequency c),
     chw_per_core := map plain_zero_option (chw_per_core c),
     chw_load := map_option (map plain_zero) (chw_load c)\<rparr>"

definition plain_hardware :: "hardware_snapshot \<Rightarrow> hardware_snapshot" where
  "plain_hardware h = h\<lparr>hw_cpu := plain_cpu_hardware (hw_cpu h),
     hw_networks := map (\<lambda>n. n\<lparr>nhw_link_speed := plain_zero_option (nhw_link_speed n)\<rparr>) (hw_networks h),
     hw_physical := map (\<lambda>n. n\<lparr>pna_link_speed := plain_zero_option (pna_link_speed n)\<rparr>) (hw_physical h),
     hw_sensors := map (\<lambda>s. s\<lparr>sns_value := plain_zero (sns_value s)\<rparr>) (hw_sensors h),
     hw_disks := map (\<lambda>d. d\<lparr>dh_temperature := plain_zero_option (dh_temperature d),
       dh_percentage_used := plain_zero_option (dh_percentage_used d), dh_spare := plain_zero_option (dh_spare d)\<rparr>)
       (hw_disks h),
     hw_modules := map (\<lambda>m. m\<lparr>mem_speed := plain_zero_option (mem_speed m),
       mem_configured_speed := plain_zero_option (mem_configured_speed m)\<rparr>) (hw_modules h),
     hw_devices := map (\<lambda>d. d\<lparr>dev_speed := plain_zero_option (dev_speed d)\<rparr>) (hw_devices h)\<rparr>"

definition plain_zeros :: "client_report \<Rightarrow> client_report" where
  "plain_zeros r = (let s = rep_system r; c = sys_cpu s in
     r\<lparr>rep_interval := plain_zero (rep_interval r),
       rep_system := s\<lparr>
         sys_hardware := map_option plain_hardware (sys_hardware s),
         sys_cpu := c\<lparr>cpu_usage := plain_zero (cpu_usage c), cpu_per_core := map plain_zero (cpu_per_core c)\<rparr>,
         sys_networks := map plain_network (sys_networks s), sys_disks := map plain_disk (sys_disks s),
         sys_temperatures := map plain_temperature (sys_temperatures s), sys_gpus := map plain_gpu (sys_gpus s)\<rparr>\<rparr>)"

text \<open>Every number of a report, in the order of its fields.\<close>

definition option_numbers :: "f64 option list \<Rightarrow> f64 list" where
  "option_numbers vs = List.map_filter id vs"

definition hardware_numbers :: "hardware_snapshot \<Rightarrow> f64 list" where
  "hardware_numbers h = (let c = hw_cpu h in
     option_numbers ([chw_frequency c, chw_max_frequency c] @ chw_per_core c) @
     (case chw_load c of None \<Rightarrow> [] | Some l \<Rightarrow> l) @
     option_numbers (map nhw_link_speed (hw_networks h) @ map pna_link_speed (hw_physical h)) @
     map sns_value (hw_sensors h) @
     option_numbers (concat (map (\<lambda>d. [dh_temperature d, dh_percentage_used d, dh_spare d]) (hw_disks h)) @
       concat (map (\<lambda>m. [mem_speed m, mem_configured_speed m]) (hw_modules h)) @ map dev_speed (hw_devices h)))"

definition report_numbers :: "client_report \<Rightarrow> f64 list" where
  "report_numbers r = (let s = rep_system r in
     [rep_interval r, cpu_usage (sys_cpu s)] @ cpu_per_core (sys_cpu s) @
     (case sys_hardware s of None \<Rightarrow> [] | Some h \<Rightarrow> hardware_numbers h) @
     concat (map (\<lambda>n. [net_received_per_second n, net_transmitted_per_second n]) (sys_networks s)) @
     concat (map (\<lambda>d. [dsk_read_per_second d, dsk_written_per_second d]) (sys_disks s)) @
     option_numbers (concat (map (\<lambda>t. [tmp_celsius t, tmp_max t, tmp_critical t]) (sys_temperatures s)) @
       concat (map (\<lambda>g. [gpu_utilization g, gpu_temperature g, gpu_power g, gpu_core_clock g, gpu_memory_clock g,
         gpu_pcie_rx g, gpu_pcie_tx g]) (sys_gpus s))))"

definition has_nan :: "client_report \<Rightarrow> bool" where
  "has_nan r \<longleftrightarrow> list_ex is_nan (report_numbers r)"

section \<open>Equality\<close>

definition report_eq :: "client_report \<Rightarrow> client_report \<Rightarrow> bool" where
  "report_eq a b \<longleftrightarrow> \<not> has_nan a \<and> plain_zeros a = plain_zeros b"

lemma report_eq_refl [simp]: "report_eq r r \<longleftrightarrow> \<not> has_nan r"
  by (simp add: report_eq_def)

text \<open>On single numbers this is the comparison of values.\<close>

lemma f64_eq_plain: "\<not> is_nan a \<Longrightarrow> \<not> is_nan b \<Longrightarrow> f64_eq a b \<longleftrightarrow> plain_zero a = plain_zero b"
proof -
  assume nn: "\<not> is_nan a" "\<not> is_nan b"
  have inj: "a = b" if "f64_key a = f64_key b" "f64_key a \<noteq> 0"
  proof -
    have "total_key a = total_key b"
      using that by (auto simp: f64_key_def total_key_def split: if_splits)
    then show ?thesis by (simp add: total_key_inj)
  qed
  have zero: "f64_key f64_zero = 0" by simp
  show ?thesis
    using nn inj by (auto simp: f64_eq_def plain_zero_def split: if_splits)
qed


section \<open>Equal reports have the same numbers\<close>

lemma is_nan_plain [simp]: "is_nan (plain_zero v) = is_nan v"
proof (cases "f64_key v = 0")
  case True
  then have "f64_magnitude v = 0" by (simp add: f64_key_def split: if_splits)
  with True show ?thesis by (simp add: plain_zero_def is_nan_def) (simp add: f64_magnitude_def)
qed (simp add: plain_zero_def)

definition some_nan :: "f64 option \<Rightarrow> bool" where
  "some_nan v \<longleftrightarrow> (case v of None \<Rightarrow> False | Some x \<Rightarrow> is_nan x)"

lemma some_nan_plain [simp]: "some_nan (plain_zero_option v) = some_nan v"
  by (simp add: some_nan_def split: option.splits)

lemma list_ex_option_numbers: "list_ex is_nan (option_numbers vs) = list_ex some_nan vs"
  unfolding option_numbers_def by (induction vs) (auto simp: map_filter_simps some_nan_def split: option.splits)

lemma list_ex_concat: "list_ex P (concat xss) = list_ex (list_ex P) xss"
  by (induction xss) simp_all

lemma list_ex_map: "list_ex P (map f xs) = list_ex (P \<circ> f) xs"
  by (induction xs) simp_all

lemma hardware_nan: "list_ex is_nan (hardware_numbers (plain_hardware h)) = list_ex is_nan (hardware_numbers h)"
  by (simp add: hardware_numbers_def plain_hardware_def plain_cpu_hardware_def Let_def list_ex_option_numbers list_ex_concat
      list_ex_map comp_def split: option.splits)

lemma has_nan_plain: "has_nan (plain_zeros r) = has_nan r"
  by (simp add: has_nan_def report_numbers_def plain_zeros_def Let_def list_ex_option_numbers list_ex_concat
      list_ex_map comp_def hardware_nan plain_network_def plain_disk_def plain_temperature_def plain_gpu_def
      split: option.splits)

lemma report_eq_no_nan: "report_eq a b \<Longrightarrow> \<not> has_nan b"
  using has_nan_plain unfolding report_eq_def by metis

end
