(* ===== verification/Transport.thy ===== *)
theory Transport
  imports Pairing_Local Report_Fit Report_Equal
begin

text \<open>
  Delivery of a report over HTTP: the part of \<open>src/transport.rs\<close> above the bounded exchange
  of \<open>Http\<close>. Which answers end a report, which keep it queued and which invalidate the
  credential is decided here. Error values carry the fixed label of their message; the JSON
  documents of the server are parsed by the parameters \<open>transport_ops\<close>.
\<close>

section \<open>Parameters\<close>

text \<open>\<open>CredentialStatusResponse\<close>, whose status has the single value \<open>Authorized\<close>, and \<open>ClientReportAck\<close>.\<close>

record credential_status_response =
  csr_protocol_version :: "16 word"
  csr_host_id :: string
  csr_instance_id :: string

record report_ack =
  ack_host_id :: string
  ack_report_id :: string

record transport_ops =
  tp_report :: report_ops
  tp_parse_ack :: "string \<Rightarrow> report_ack option"
  tp_parse_credential_status :: "string \<Rightarrow> credential_status_response option"
  tp_credential_status_path :: string

section \<open>Outcomes\<close>

datatype remote_binding_status =
    Remote_Authorized string
  | Remote_Unauthorized
  | Protocol_Unsupported "16 word" "16 word list"

datatype remote_binding_failure =
    Invalid_Endpoint
  | Local_Credential_Corrupt
  | Connection_Failed
  | Remote_Timeout
  | Tls_Validation_Failed
  | Remote_Response_Too_Large
  | Http_Transport_Failed
  | Server_Upgrade_Required
  | Reverse_Proxy_Misconfigured
  | Rate_Limited
  | Server_Unavailable nat
  | Unexpected_Redirect nat
  | Contract_Mismatch nat
  | Auth_Response_Untrusted

fun binding_failure_code :: "remote_binding_failure \<Rightarrow> string" where
  "binding_failure_code Invalid_Endpoint = ''pairing_invalid_endpoint''"
| "binding_failure_code Local_Credential_Corrupt = ''local_credential_corrupt''"
| "binding_failure_code Connection_Failed = ''pairing_connection_failed''"
| "binding_failure_code Remote_Timeout = ''pairing_connection_timeout''"
| "binding_failure_code Tls_Validation_Failed = ''pairing_tls_untrusted''"
| "binding_failure_code Remote_Response_Too_Large = ''pairing_response_too_large''"
| "binding_failure_code Http_Transport_Failed = ''pairing_http_transport_failed''"
| "binding_failure_code Server_Upgrade_Required = ''pairing_server_upgrade_required''"
| "binding_failure_code Reverse_Proxy_Misconfigured = ''pairing_reverse_proxy_misconfigured''"
| "binding_failure_code Rate_Limited = ''pairing_rate_limited''"
| "binding_failure_code (Server_Unavailable status) = ''pairing_server_unavailable''"
| "binding_failure_code (Unexpected_Redirect status) = ''pairing_unexpected_redirect''"
| "binding_failure_code (Contract_Mismatch status) = ''pairing_server_contract_mismatch''"
| "binding_failure_code Auth_Response_Untrusted = ''pairing_auth_response_untrusted''"

datatype send_error =
    Identity_Mismatch
  | Permanent string
  | Unauthorized string
  | Unsupported_Protocol string
  | Transient string
  | Future_Timestamp string

fun is_permanent :: "send_error \<Rightarrow> bool" where
  "is_permanent (Permanent m) = True"
| "is_permanent (Unsupported_Protocol m) = True"
| "is_permanent e = False"

fun is_unauthorized :: "send_error \<Rightarrow> bool" where
  "is_unauthorized (Unauthorized m) = True"
| "is_unauthorized e = False"

fun send_error_code :: "send_error \<Rightarrow> string" where
  "send_error_code Identity_Mismatch = ''identity_mismatch''"
| "send_error_code (Permanent m) = ''invalid_report''"
| "send_error_code (Unauthorized m) = ''unauthorized''"
| "send_error_code (Unsupported_Protocol m) = ''unsupported_client_protocol''"
| "send_error_code (Transient m) = ''server_unavailable''"
| "send_error_code (Future_Timestamp m) = ''report_future_timestamp''"

fun send_error_http_status :: "send_error \<Rightarrow> nat option" where
  "send_error_http_status (Unauthorized m) = Some 401"
| "send_error_http_status (Unsupported_Protocol m) = Some 400"
| "send_error_http_status (Future_Timestamp m) = Some 400"
| "send_error_http_status e = None"

section \<open>Answers of the report endpoint\<close>

definition is_success :: "nat \<Rightarrow> bool" where
  "is_success status \<longleftrightarrow> 200 \<le> status \<and> status \<le> 299"

text \<open>The envelope is read only from a JSON answer.\<close>

definition json_envelope :: "http_ops \<Rightarrow> string option \<Rightarrow> string \<Rightarrow> error_envelope option" where
  "json_envelope H content_type body =
     (case content_type of
        None \<Rightarrow> None
      | Some value \<Rightarrow> if is_application_json value then parse_envelope H body else None)"

definition recognized_details :: "string list" where
  "recognized_details = [''bad_request'', ''conflict'', ''payload_too_large'', ''unauthorized'',
     ''client_host_mismatch'', ''unsupported_client_protocol'', ''report_future_timestamp'']"

definition response_detail :: "error_envelope option \<Rightarrow> string" where
  "response_detail envelope =
     (case envelope of
        None \<Rightarrow> ''unrecognized error response''
      | Some e \<Rightarrow> if ee_code e \<in> set recognized_details then ee_code e else ''unrecognized error response'')"

definition final_code :: "error_envelope option \<Rightarrow> string \<Rightarrow> bool" where
  "final_code envelope code \<longleftrightarrow> (case envelope of None \<Rightarrow> False | Some e \<Rightarrow> ee_code e = code \<and> \<not> ee_retryable e)"

definition classify_xsos_response :: "http_ops \<Rightarrow> nat \<Rightarrow> string option \<Rightarrow> string \<Rightarrow> send_error + unit" where
  "classify_xsos_response H status content_type body =
     (if is_success status then Inr ()
      else
        let envelope = json_envelope H content_type body; message = response_detail envelope in
        if status = 400 then
          (case envelope of
             Some error \<Rightarrow>
               if ee_code error = ''unsupported_client_protocol'' \<and> \<not> ee_retryable error
               then Inl (Unsupported_Protocol message)
               else if ee_code error = ''bad_request'' \<and> \<not> ee_retryable error then Inl (Permanent message)
               else if ee_code error = ''report_future_timestamp'' \<and> ee_retryable error
               then Inl (Future_Timestamp message)
               else Inl (Transient message)
           | None \<Rightarrow> Inl (Transient message))
        else if status = 409 then
          (if final_code envelope ''conflict'' then Inl (Permanent message) else Inl (Transient message))
        else if status = 413 then
          (if final_code envelope ''payload_too_large'' then Inl (Permanent message) else Inl (Transient message))
        else if status = 421 then Inl (Transient message)
        else if status = 401 then
          (if final_code envelope ''unauthorized'' then Inl (Unauthorized message) else Inl (Transient message))
        else if status = 403 then
          (if final_code envelope ''client_host_mismatch'' then Inl (Permanent message) else Inl (Transient message))
        else Inl (Transient message))"

definition validate_xsos_ack ::
  "http_ops \<Rightarrow> transport_ops \<Rightarrow> nat \<Rightarrow> string option \<Rightarrow> string \<Rightarrow> client_report \<Rightarrow> send_error + unit" where
  "validate_xsos_ack H X status content_type body report =
     (if status \<noteq> 202 then
        (if is_success status then Inl (Transient ''report acknowledgements require HTTP 202 Accepted'')
         else classify_xsos_response H status content_type body)
      else if \<not> (case content_type of None \<Rightarrow> False | Some value \<Rightarrow> is_application_json value)
      then Inl (Transient ''without Content-Type application/json'')
      else
        (case tp_parse_ack X body of
           None \<Rightarrow> Inl (Transient ''invalid acknowledgement'')
         | Some ack \<Rightarrow>
             if ack_host_id ack \<noteq> hi_id (rep_host report) \<or> ack_report_id ack \<noteq> rep_id report
             then Inl (Transient ''xsos acknowledgement identity mismatch'')
             else Inr ()))"

section \<open>The body of a report\<close>

definition invalid_report :: "string \<Rightarrow> send_error" where
  "invalid_report reason = Permanent (''invalid Client report: '' @ reason)"

definition prepare_report_body ::
  "transport_ops \<Rightarrow> time \<Rightarrow> client_report \<Rightarrow> string option \<Rightarrow> send_error + (client_report \<times> string)" where
  "prepare_report_body X now report queued_body =
     (let R = tp_report X in
      case queued_body of
        Some body \<Rightarrow>
          if ro_max_body R < length body then Inl (invalid_report ''queued body exceeds the report size limit'')
          else
            (case ro_decode R body of
               None \<Rightarrow> Inl (invalid_report ''queued body is malformed'')
             | Some decoded \<Rightarrow>
                 if \<not> report_eq decoded report then Inl (invalid_report ''queued body does not match its parsed report'')
                 else
                   (case canonical_spool_report R report of
                      Inl e \<Rightarrow> Inl (invalid_report ''queued report violates the current contract'')
                    | Inr (checked, _) \<Rightarrow>
                        if \<not> report_eq checked report then Inl (invalid_report ''queued report is not canonical'')
                        else Inr (report, body)))
      | None \<Rightarrow> map_err (\<lambda>_. invalid_report ''encoding failed'') (encode_report_body R now report))"

section \<open>Retry-After\<close>

definition retry_after_delay :: "http_ops \<Rightarrow> nat \<Rightarrow> (string \<times> string) list \<Rightarrow> nat option" where
  "retry_after_delay H status headers =
     (if status \<noteq> 429 \<and> status \<noteq> 503 then None
      else
        Option.bind (header_get ''retry-after'' headers) (\<lambda>raw.
        Option.bind (header_to_str H raw) (\<lambda>value.
        if value = [] \<or> \<not> list_all is_ascii_digit value then None
        else
          Option.bind (parse_unsigned (2 ^ 64) value) (\<lambda>seconds.
          if 0 < seconds then Some (min seconds 300) else None))))"

section \<open>Remote status of the credential\<close>

fun classify_http_error :: "http_transport_error \<Rightarrow> remote_binding_failure" where
  "classify_http_error Connection = Connection_Failed"
| "classify_http_error Timeout = Remote_Timeout"
| "classify_http_error Tls = Tls_Validation_Failed"
| "classify_http_error Response_Too_Large = Remote_Response_Too_Large"
| "classify_http_error Transport_Failed = Http_Transport_Failed"

definition unsupported_versions :: "error_envelope option \<Rightarrow> (16 word \<times> 16 word list) option" where
  "unsupported_versions envelope =
     Option.bind envelope (\<lambda>error.
     if ee_code error = ''unsupported_client_protocol'' \<and> \<not> ee_retryable error then
       Option.bind (Option.bind (ee_details error ''received'') as_u64) (\<lambda>received.
       Option.bind (Option.bind (ee_details error ''supported'') as_array) (\<lambda>supported.
       Option.bind (u16_try_from received) (\<lambda>received.
       if u16_elements supported = [] then None else Some (received, u16_elements supported))))
     else None)"

definition failure_of_status :: "nat \<Rightarrow> remote_binding_failure" where
  "failure_of_status status =
     (if 300 \<le> status \<and> status \<le> 399 then Unexpected_Redirect status
      else if status = 401 then Auth_Response_Untrusted
      else if status = 404 \<or> status = 405 \<or> status = 426 then Server_Upgrade_Required
      else if status = 421 then Reverse_Proxy_Misconfigured
      else if status = 429 then Rate_Limited
      else if 500 \<le> status \<and> status \<le> 599 then Server_Unavailable status
      else Contract_Mismatch status)"

definition classify_credential_status_response ::
  "'d env \<Rightarrow> transport_ops \<Rightarrow> string \<Rightarrow> nat \<Rightarrow> string option \<Rightarrow> string
    \<Rightarrow> remote_binding_failure + remote_binding_status" where
  "classify_credential_status_response E X expected_host_id status content_type body =
     (if status = 200 \<and> (case content_type of None \<Rightarrow> False | Some value \<Rightarrow> is_application_json value) then
        (case tp_parse_credential_status X body of
           None \<Rightarrow> Inl (Contract_Mismatch status)
         | Some s \<Rightarrow>
             if csr_protocol_version s \<noteq> host_pairing_protocol_version (env_proto E)
             then Inr (Protocol_Unsupported (host_pairing_protocol_version (env_proto E)) [csr_protocol_version s])
             else if csr_host_id s = csr_instance_id s \<and> csr_host_id s = expected_host_id
             then Inr (Remote_Authorized (csr_host_id s))
             else Inl (Contract_Mismatch status))
      else
        let envelope = json_envelope (env_http E) content_type body in
        if status = 401 \<and> final_code envelope ''unauthorized'' then Inr Remote_Unauthorized
        else
          (case (if status = 400 then unsupported_versions envelope else None) of
             Some (received, supported) \<Rightarrow> Inr (Protocol_Unsupported received supported)
           | None \<Rightarrow> Inl (failure_of_status status)))"

text \<open>The URL of the probe: the report endpoint with another path and no query or fragment.\<close>

definition probe_url :: "url_ops \<Rightarrow> string \<Rightarrow> url \<Rightarrow> url" where
  "probe_url U path u = url_set_fragment U None (url_set_query U None (url_set_path U path u))"

definition get_request :: "string \<Rightarrow> (string \<times> string) list \<Rightarrow> http_request" where
  "get_request target headers = \<lparr>rq_method = ''GET'', rq_url = target, rq_headers = headers, rq_body = None\<rparr>"

definition verify_remote_binding ::
  "'d env \<Rightarrow> transport_ops \<Rightarrow> network \<Rightarrow> reporter \<Rightarrow> remote_binding_failure + remote_binding_status" where
  "verify_remote_binding E X net r =
     (case url_parse (env_url E) (rp_endpoint r) of
        None \<Rightarrow> Inl Invalid_Endpoint
      | Some u \<Rightarrow>
          (case authenticated_headers (env_http E) (rp_token r) ''application/json'' of
             Inl e \<Rightarrow> Inl Local_Credential_Corrupt
           | Inr headers \<Rightarrow>
               let request = get_request (u_text (probe_url (env_url E) (tp_credential_status_path X) u)) headers in
               if \<not> request_builds (env_http E) request then Inl Invalid_Endpoint
               else
                 (case execute_bounded net request max_error_response_bytes of
                    Inl error \<Rightarrow> Inl (classify_http_error error)
                  | Inr response \<Rightarrow>
                      classify_credential_status_response E X (ci_instance_id (rp_identity r))
                        (hs_status response) (content_type_of (env_http E) response) (hs_body response))))"

section \<open>Sending a report\<close>

definition validate_report_identity :: "'d env \<Rightarrow> reporter \<Rightarrow> client_report \<Rightarrow> unit res" where
  "validate_report_identity E r report =
     bindR (for_instance E (hi_id (rep_host report))) (\<lambda>identity. ensure_matches E (rp_identity r) identity)"

text \<open>
  What sending does besides its result: the fields it publishes in the runtime status, in
  order, and the time it sleeps. \<open>chrono::Utc::now\<close> is read at the start and at the answer.
\<close>

datatype observation = Seen_Time time | Seen_Text string | Seen_Number nat | Seen_Null

record delivery_trace =
  dt_observed :: "(string \<times> observation) list"
  dt_sleep :: "nat option"

definition record_delivery_failure :: "send_error \<Rightarrow> (string \<times> observation) list" where
  "record_delivery_failure error =
     [(''last_delivery_result'', Seen_Text ''rejected''),
      (''last_http_status'', (case send_error_http_status error of None \<Rightarrow> Seen_Null | Some n \<Rightarrow> Seen_Number n)),
      (''last_error_code'', Seen_Text (send_error_code error))]"

definition answer_observed :: "time \<Rightarrow> nat \<Rightarrow> send_error + unit \<Rightarrow> (string \<times> observation) list" where
  "answer_observed answered status result =
     (case result of
        Inr _ \<Rightarrow> [(''last_ack_at'', Seen_Time answered), (''last_delivery_result'', Seen_Text ''accepted''),
                  (''last_http_status'', Seen_Number 202), (''last_error_code'', Seen_Null)]
      | Inl error \<Rightarrow> [(''last_delivery_result'', Seen_Text ''rejected''), (''last_http_status'', Seen_Number status),
                     (''last_error_code'', Seen_Text (send_error_code error))])"

definition answer_sleep :: "http_ops \<Rightarrow> http_response \<Rightarrow> send_error + unit \<Rightarrow> nat option" where
  "answer_sleep H response result =
     (case result of
        Inl (Transient _) \<Rightarrow> retry_after_delay H (hs_status response) (hs_headers response)
      | Inl (Future_Timestamp _) \<Rightarrow> retry_after_delay H (hs_status response) (hs_headers response)
      | _ \<Rightarrow> None)"

definition attempt_observed :: "time \<Rightarrow> (string \<times> observation) list" where
  "attempt_observed started = [(''last_delivery_attempt_at'', Seen_Time started)]"

definition send_failed :: "time \<Rightarrow> send_error \<Rightarrow> (send_error + unit) \<times> delivery_trace" where
  "send_failed started error =
     (Inl error, \<lparr>dt_observed = attempt_observed started @ record_delivery_failure error, dt_sleep = None\<rparr>)"

text \<open>The bytes that go out, with the report they encode and the headers, or the first failure.\<close>

definition prepare_send ::
  "'d env \<Rightarrow> transport_ops \<Rightarrow> time \<Rightarrow> reporter \<Rightarrow> client_report \<Rightarrow> string option
    \<Rightarrow> send_error + (client_report \<times> string \<times> (string \<times> string) list)" where
  "prepare_send E X started r report queued_body =
     bindR (prepare_report_body X started report queued_body) (\<lambda>(bounded, body).
     bindR (map_err (\<lambda>_. Identity_Mismatch) (validate_report_identity E r bounded)) (\<lambda>_.
     bindR (map_err (\<lambda>_. Transient ''invalid host authorization header'')
       (authenticated_headers (env_http E) (rp_token r) ''application/json'')) (\<lambda>headers.
     Inr (bounded, body, headers))))"

definition send_xsos_inner ::
  "'d env \<Rightarrow> transport_ops \<Rightarrow> network \<Rightarrow> time \<Rightarrow> time \<Rightarrow> reporter \<Rightarrow> client_report \<Rightarrow> string option
    \<Rightarrow> (send_error + unit) \<times> delivery_trace" where
  "send_xsos_inner E X net started answered r report queued_body =
     (case prepare_send E X started r report queued_body of
        Inl error \<Rightarrow> send_failed started error
      | Inr (bounded, body, headers) \<Rightarrow>
          (case post_bounded (env_http E) net (rp_endpoint r) headers body of
             Inl e \<Rightarrow> send_failed started (Transient ''xsos request failed'')
           | Inr response \<Rightarrow>
               let result = validate_xsos_ack (env_http E) X (hs_status response)
                     (content_type_of (env_http E) response) (hs_body response) bounded in
               (result,
                \<lparr>dt_observed = attempt_observed started @ answer_observed answered (hs_status response) result,
                 dt_sleep = answer_sleep (env_http E) response result\<rparr>)))"

definition send_xsos ::
  "'d env \<Rightarrow> transport_ops \<Rightarrow> network \<Rightarrow> time \<Rightarrow> time \<Rightarrow> reporter \<Rightarrow> client_report
    \<Rightarrow> (send_error + unit) \<times> delivery_trace" where
  "send_xsos E X net started answered r report = send_xsos_inner E X net started answered r report None"

definition send_queued_xsos ::
  "'d env \<Rightarrow> transport_ops \<Rightarrow> network \<Rightarrow> time \<Rightarrow> time \<Rightarrow> reporter \<Rightarrow> client_report \<Rightarrow> string
    \<Rightarrow> (send_error + unit) \<times> delivery_trace" where
  "send_queued_xsos E X net started answered r report body =
     send_xsos_inner E X net started answered r report (Some body)"

section \<open>Reporters and local checks\<close>

definition reporter_new :: "'d env \<Rightarrow> client_config \<Rightarrow> ('d, client_error, reporter) tx" where
  "reporter_new E c =
     bindT (reporter_for_current_active_state E c) (\<lambda>r. readT (\<lambda>_.
       ok_or (Message ''a complete current-version Active pairing state is required before creating the reporter'') r))"

definition reporter_new_with_timeout :: "'d env \<Rightarrow> client_config \<Rightarrow> nat \<Rightarrow> ('d, client_error, reporter) tx" where
  "reporter_new_with_timeout E c timeout =
     bindT (reporter_new E c) (\<lambda>r. readT (\<lambda>_.
       bindR (build_client_with_timeout (env_http E) c timeout) (\<lambda>client. Inr (r\<lparr>rp_client := client\<rparr>))))"

definition validate_local_tls :: "http_ops \<Rightarrow> client_config \<Rightarrow> unit + unit" where
  "validate_local_tls H c = map_err (\<lambda>_. ()) (map_ok (\<lambda>_. ()) (build_client H c))"

definition stored_credential_is_nonempty :: "'d fs_ops \<Rightarrow> 'd \<Rightarrow> io_error + bool" where
  "stored_credential_is_nonempty F d =
     bindR (reader_open F d) (\<lambda>_.
     bindR (read_file F Credential d) (\<lambda>bytes.
     if \<not> utf8_valid bytes then Inl (Io_Error InvalidData ''credential is not UTF-8'')
     else bindR (map_err (\<lambda>_. Io_Error OtherKind ''credential does not use the current fixed encoding'')
            (validate_current_token bytes)) (\<lambda>_. Inr True)))"

definition network_probe :: "'d env \<Rightarrow> network \<Rightarrow> client_config \<Rightarrow> unit res" where
  "network_probe E net c =
     bindR (ok_or (Message ''url'') (url_parse (env_url E) (endpoint c))) (\<lambda>u.
     bindR (build_client (env_http E) c) (\<lambda>client.
     let request = get_request (u_text (probe_url (env_url E) ''/healthz'' u)) [] in
     bindR (ensureR (request_builds (env_http E) request) (Message ''request'')) (\<lambda>_.
     bindR (map_err Http_Transport (execute_bounded net request max_error_response_bytes)) (\<lambda>response.
     ensureR (hs_status response = 204) (Message ''public health endpoint unavailable'')))))"

end
