(* ===== verification/Spool.thy ===== *)
theory Spool
  imports Transport
begin

text \<open>
  The durable queue of reports: \<open>src/spool.rs\<close>. The record store \<open>xcsc::runtime::Spool\<close> is the
  record of operations \<open>queue_ops\<close> over a state \<open>'q\<close>; what the code relies on is the locale
  \<open>record_queue\<close>: which records are pending, which are isolated, and what each call does to
  them when it succeeds and when it fails.
\<close>

section \<open>The record store\<close>

type_synonym record_id = nat

record spool_record =
  sr_id :: record_id
  sr_contract :: string
  sr_created :: int
  sr_payload :: string

datatype quarantine_reason = Quarantine_Corrupt | Quarantine_Identity_Mismatch

record spool_limits =
  sl_max_record_bytes :: nat
  sl_max_entries :: nat
  sl_max_bytes :: nat

record spool_inventory =
  si_entries :: nat
  si_bytes :: nat
  si_quarantined :: nat
  si_identity_mismatch :: nat
  si_healthy :: bool
  si_capacity_remaining :: bool

record 'q queue_ops =
  qo_max_entries :: nat
  qo_limits_valid :: "spool_limits \<Rightarrow> bool"
  qo_create_child :: "string \<Rightarrow> ('q, client_error, unit) tx"
  qo_from_directory :: "string \<Rightarrow> spool_limits \<Rightarrow> ('q, client_error, unit) tx"
  qo_bounded_bytes :: "string \<Rightarrow> nat \<Rightarrow> string option"
  qo_usage :: "('q, client_error, nat \<times> nat) tx"
  qo_doctor :: "('q, client_error, spool_inventory) tx"
  qo_inspect_existing :: "string \<Rightarrow> spool_limits \<Rightarrow> ('q, client_error, spool_inventory) tx"
  qo_next :: "('q, client_error, spool_record option) tx"
  qo_enqueue :: "string \<Rightarrow> int \<Rightarrow> string \<Rightarrow> ('q, client_error, unit) tx"
  qo_ack :: "record_id \<Rightarrow> ('q, client_error, unit) tx"
  qo_quarantine :: "record_id \<Rightarrow> quarantine_reason \<Rightarrow> ('q, client_error, unit) tx"
  qo_schema_version :: "string \<Rightarrow> json option"

text \<open>\<open>qo_schema_version\<close> is the field of that name in a payload that is a JSON object.\<close>

section \<open>Opening\<close>

definition spool_limits_for :: "report_ops \<Rightarrow> 'q queue_ops \<Rightarrow> nat \<Rightarrow> spool_limits" where
  "spool_limits_for R Q limit =
     \<lparr>sl_max_record_bytes = ro_max_body R, sl_max_entries = qo_max_entries Q, sl_max_bytes = limit\<rparr>"

definition spool_from_session :: "report_ops \<Rightarrow> 'q queue_ops \<Rightarrow> nat \<Rightarrow> ('q, client_error, unit) tx" where
  "spool_from_session R Q limit =
     (let limits = spool_limits_for R Q limit in
      bindT (readT (\<lambda>_. ensureR (qo_limits_valid Q limits) (Message ''limits''))) (\<lambda>_.
      bindT (qo_create_child Q ''spool'') (\<lambda>_.
      qo_from_directory Q ''spool'' limits)))"

definition inspect_existing :: "report_ops \<Rightarrow> 'q queue_ops \<Rightarrow> string \<Rightarrow> nat \<Rightarrow> ('q, client_error, spool_inventory) tx" where
  "inspect_existing R Q state limit =
     qo_inspect_existing Q (state @ ''/spool'') (spool_limits_for R Q limit)"

section \<open>Operations\<close>

record pending_report =
  pr_record_id :: record_id
  pr_report :: client_report
  pr_body :: string

definition pending_count :: "'q queue_ops \<Rightarrow> ('q, client_error, nat) tx" where
  "pending_count Q = bindT (qo_usage Q) (\<lambda>(entries, _). returnT entries)"

definition spool_health :: "'q queue_ops \<Rightarrow> ('q, client_error, spool_inventory) tx" where
  "spool_health Q = qo_doctor Q"

text \<open>\<open>timestamp_micros\<close> of a time in nanoseconds.\<close>

definition timestamp_micros :: "time \<Rightarrow> int" where
  "timestamp_micros t = t div 1000"

definition enqueue :: "'d env \<Rightarrow> report_ops \<Rightarrow> 'q queue_ops \<Rightarrow> time \<Rightarrow> client_report \<Rightarrow> ('q, client_error, unit) tx" where
  "enqueue E R Q now report =
     bindT (readT (\<lambda>_. encode_report_body R now report)) (\<lambda>(bounded, bytes).
     bindT (readT (\<lambda>_. ok_or (Message ''contract'') (contract_new E host_report_contract))) (\<lambda>contract.
     bindT (readT (\<lambda>_. ok_or (Message ''bytes'') (qo_bounded_bytes Q bytes (ro_max_body R)))) (\<lambda>payload.
     qo_enqueue Q contract (timestamp_micros (rep_collected_at bounded)) payload)))"

text \<open>
  The three tests of \<open>oldest\<close> on a record: its contract, the schema version its payload
  names, and whether the payload is a canonical report.
\<close>

definition foreign_schema :: "report_ops \<Rightarrow> 'q queue_ops \<Rightarrow> string \<Rightarrow> bool" where
  "foreign_schema R Q payload =
     (case Option.bind (qo_schema_version Q payload) as_u64 of
        None \<Rightarrow> False
      | Some version \<Rightarrow> version \<noteq> ro_schema_version R)"

definition canonical_payload :: "report_ops \<Rightarrow> string \<Rightarrow> client_report res" where
  "canonical_payload R payload =
     bindR (ok_or (Message ''xcsc spool payload is not a xsoc report'') (ro_decode R payload)) (\<lambda>report.
     bindR (canonical_spool_report R report) (\<lambda>(checked, _).
     bindR (ensureR (report_eq checked report) (Message ''spool payload is not the current canonical xsoc report'')) (\<lambda>_.
     Inr report)))"

definition accepted_report :: "report_ops \<Rightarrow> 'q queue_ops \<Rightarrow> spool_record \<Rightarrow> client_report option" where
  "accepted_report R Q r =
     (if sr_contract r \<noteq> host_report_contract then None
      else if foreign_schema R Q (sr_payload r) then None
      else (case canonical_payload R (sr_payload r) of Inl e \<Rightarrow> None | Inr report \<Rightarrow> Some report))"

text \<open>The loop may in principle run forever: then the result is \<open>None\<close>.\<close>

partial_function (option) oldest ::
  "report_ops \<Rightarrow> 'q queue_ops \<Rightarrow> 'q \<Rightarrow> ((client_error + pending_report option) \<times> 'q) option" where
  "oldest R Q q =
     (case qo_next Q q of
        (Inl e, q) \<Rightarrow> Some (Inl e, q)
      | (Inr None, q) \<Rightarrow> Some (Inr None, q)
      | (Inr (Some r), q) \<Rightarrow>
          (case accepted_report R Q r of
             Some report \<Rightarrow>
               Some (Inr (Some \<lparr>pr_record_id = sr_id r, pr_report = report, pr_body = sr_payload r\<rparr>), q)
           | None \<Rightarrow>
               (case qo_quarantine Q (sr_id r) Quarantine_Corrupt q of
                  (Inl e, q) \<Rightarrow> Some (Inl e, q)
                | (Inr _, q) \<Rightarrow> oldest R Q q)))"

definition acknowledge :: "'q queue_ops \<Rightarrow> pending_report \<Rightarrow> ('q, client_error, unit) tx" where
  "acknowledge Q p = qo_ack Q (pr_record_id p)"

definition quarantine :: "'q queue_ops \<Rightarrow> pending_report \<Rightarrow> quarantine_reason \<Rightarrow> ('q, client_error, unit) tx" where
  "quarantine Q p reason = qo_quarantine Q (pr_record_id p) reason"

section \<open>What the code relies on\<close>

text \<open>
  Pending records are a finite map from identifiers; an isolated record keeps its bytes with
  the reason. A failing call may have had its effect or not.
\<close>

lemma removed_card:
  assumes "finite (dom m)" and "m i = Some r"
  shows "card (dom (m(i := None))) < card (dom m)"
proof -
  have "dom (m(i := None)) = dom m - {i}" by simp
  moreover have "i \<in> dom m" using assms(2) by blast
  ultimately show ?thesis using assms(1) card_Diff1_less by metis
qed

locale record_queue =
  fixes Q :: "'q queue_ops" and pending :: "'q \<Rightarrow> record_id \<Rightarrow> spool_record option"
    and isolated :: "'q \<Rightarrow> record_id \<Rightarrow> (spool_record \<times> quarantine_reason) option"
  assumes finite_pending: "finite (dom (pending q))"
    and pending_id: "pending q i = Some r \<Longrightarrow> sr_id r = i"
    and apart_ids: "pending q i = Some r \<Longrightarrow> isolated q i = None"
    and next_keeps: "pending (snd (qo_next Q q)) = pending q \<and> isolated (snd (qo_next Q q)) = isolated q"
    and next_some: "fst (qo_next Q q) = Inr (Some r) \<Longrightarrow> pending q (sr_id r) = Some r"
    and next_none: "fst (qo_next Q q) = Inr None \<Longrightarrow> pending q = Map.empty"
    and usage_keeps: "pending (snd (qo_usage Q q)) = pending q \<and> isolated (snd (qo_usage Q q)) = isolated q"
    and usage_count: "fst (qo_usage Q q) = Inr (entries, used) \<Longrightarrow> entries = card (dom (pending q))"
    and enqueue_cases: "isolated (snd (qo_enqueue Q c t b q)) = isolated q \<and>
      (pending (snd (qo_enqueue Q c t b q)) = pending q \<and> \<not> is_ok (fst (qo_enqueue Q c t b q)) \<or>
       (\<exists>i. pending q i = None \<and>
          pending (snd (qo_enqueue Q c t b q)) = (pending q)(i \<mapsto> \<lparr>sr_id = i, sr_contract = c, sr_created = t, sr_payload = b\<rparr>)))"
    and ack_cases: "isolated (snd (qo_ack Q i q)) = isolated q \<and>
      (pending (snd (qo_ack Q i q)) = pending q \<and> \<not> is_ok (fst (qo_ack Q i q)) \<or>
       pending (snd (qo_ack Q i q)) = (pending q)(i := None))"
    and quarantine_cases: "pending q i = Some r \<Longrightarrow>
      pending (snd (qo_quarantine Q i k q)) = pending q \<and> isolated (snd (qo_quarantine Q i k q)) = isolated q
        \<and> \<not> is_ok (fst (qo_quarantine Q i k q)) \<or>
      pending (snd (qo_quarantine Q i k q)) = (pending q)(i := None) \<and>
        isolated (snd (qo_quarantine Q i k q)) = (isolated q)(i \<mapsto> (r, k))"
    and bounded_bytes: "qo_bounded_bytes Q bytes n = (if length bytes \<le> n then Some bytes else None)"

context record_queue
begin

lemma next_result: "qo_next Q q = (res, q') \<Longrightarrow> pending q' = pending q \<and> isolated q' = isolated q"
  using next_keeps [of q] by simp

lemma next_pending: "qo_next Q q = (Inr (Some r), q') \<Longrightarrow> pending q' (sr_id r) = Some r"
  using next_some [of q r] next_keeps [of q] by simp

lemma quarantine_ok:
  assumes "qo_quarantine Q i k q = (Inr u, q')" and "pending q i = Some r"
  shows "pending q' = (pending q)(i := None) \<and> isolated q' = (isolated q)(i \<mapsto> (r, k))"
  using quarantine_cases [OF assms(2), of k] assms(1) by simp

lemma quarantine_any:
  assumes "qo_quarantine Q i k q = (res, q')" and "pending q i = Some r"
  shows "pending q' = pending q \<and> isolated q' = isolated q \<or>
    pending q' = (pending q)(i := None) \<and> isolated q' = (isolated q)(i \<mapsto> (r, k))"
  using quarantine_cases [OF assms(2), of k] assms(1) by auto

text \<open>Each turn of the loop isolates one record, so the loop ends.\<close>

lemma oldest_ends: "\<exists>res. oldest R Q q = Some res"
proof (induction "card (dom (pending q))" arbitrary: q rule: less_induct)
  case less
  obtain res q1 where n: "qo_next Q q = (res, q1)" by fastforce
  show ?case
  proof (cases res)
    case (Inl e)
    with n show ?thesis by (subst oldest.simps) simp
  next
    case (Inr o1)
    show ?thesis
    proof (cases o1)
      case None
      with n Inr show ?thesis by (subst oldest.simps) simp
    next
      case (Some r)
      show ?thesis
      proof (cases "accepted_report R Q r")
        case None
        obtain res2 q2 where z: "qo_quarantine Q (sr_id r) Quarantine_Corrupt q1 = (res2, q2)" by fastforce
        show ?thesis
        proof (cases res2)
          case (Inl e)
          with n Inr Some None z show ?thesis by (subst oldest.simps) simp
        next
          case (Inr u)
          have p1: "pending q1 (sr_id r) = Some r" using next_pending n \<open>res = Inr o1\<close> Some by simp
          then have "pending q2 = (pending q1)(sr_id r := None)"
            using quarantine_ok [OF z [unfolded Inr]] by blast
          moreover have "pending q1 = pending q" using next_result [OF n] by simp
          ultimately have "card (dom (pending q2)) < card (dom (pending q))"
            using p1 removed_card [OF finite_pending] by simp
          from less [OF this] obtain out where "oldest R Q q2 = Some out" by blast
          with n \<open>res = Inr o1\<close> Some None z Inr show ?thesis by (subst oldest.simps) simp
        qed
      qed (use n Inr Some in \<open>subst oldest.simps, simp\<close>)
    qed
  qed
qed

text \<open>What a call of \<open>oldest\<close> may do: isolate records that are not acceptable, nothing else.\<close>

definition only_rejected_isolated :: "report_ops \<Rightarrow> 'q \<Rightarrow> 'q \<Rightarrow> bool" where
  "only_rejected_isolated R q q' \<longleftrightarrow>
     (\<forall>i r. pending q i = Some r \<longrightarrow> pending q' i = Some r \<or>
        accepted_report R Q r = None \<and> pending q' i = None \<and> isolated q' i = Some (r, Quarantine_Corrupt)) \<and>
     (\<forall>i. pending q i = None \<longrightarrow> pending q' i = None \<and> isolated q' i = isolated q i)"

lemma rejected_refl: "pending q' = pending q \<Longrightarrow> isolated q' = isolated q \<Longrightarrow> only_rejected_isolated R q q'"
  by (simp add: only_rejected_isolated_def)

lemma rejected_trans:
  assumes "only_rejected_isolated R q q1" and "only_rejected_isolated R q1 q2"
  shows "only_rejected_isolated R q q2"
  unfolding only_rejected_isolated_def
proof (intro conjI allI impI)
  fix i r
  assume p: "pending q i = Some r"
  with assms(1) have "pending q1 i = Some r \<or> accepted_report R Q r = None \<and> pending q1 i = None \<and>
      isolated q1 i = Some (r, Quarantine_Corrupt)"
    unfolding only_rejected_isolated_def by simp
  then show "pending q2 i = Some r \<or> accepted_report R Q r = None \<and> pending q2 i = None \<and>
      isolated q2 i = Some (r, Quarantine_Corrupt)"
    using assms(2) unfolding only_rejected_isolated_def by auto
next
  fix i
  assume "pending q i = None"
  then show "pending q2 i = None" and "isolated q2 i = isolated q i"
    using assms unfolding only_rejected_isolated_def by auto
qed

lemma rejected_quarantine:
  assumes "qo_quarantine Q (sr_id r) Quarantine_Corrupt q = (res, q')" and "pending q (sr_id r) = Some r"
    and "accepted_report R Q r = None"
  shows "only_rejected_isolated R q q'"
  using quarantine_any [OF assms(1,2)] assms(2,3) by (auto simp: only_rejected_isolated_def split: if_splits)

lemma oldest_spec:
  assumes "oldest R Q q = Some (res, q')"
  shows "only_rejected_isolated R q q' \<and>
    (\<forall>p. res = Inr (Some p) \<longrightarrow> (\<exists>r. pending q' (pr_record_id p) = Some r \<and> accepted_report R Q r = Some (pr_report p)
       \<and> pr_body p = sr_payload r)) \<and>
    (res = Inr None \<longrightarrow> pending q' = Map.empty)"
  using assms
proof (induction "card (dom (pending q))" arbitrary: q rule: less_induct)
  case less
  obtain n1 q1 where n: "qo_next Q q = (n1, q1)" by fastforce
  note same = next_result [OF n]
  consider (err) e where "n1 = Inl e" | (none) "n1 = Inr None"
    | (some) r where "n1 = Inr (Some r)" by (cases n1; cases "projr n1") auto
  then show ?case
  proof cases
    case err
    with less.prems n same show ?thesis
      by (subst (asm) oldest.simps) (auto intro: rejected_refl)
  next
    case none
    moreover have "pending q = Map.empty" using next_none [of q] n none by simp
    ultimately show ?thesis
      using less.prems n same by (subst (asm) oldest.simps) (auto intro: rejected_refl)
  next
    case (some r)
    then have p1: "pending q1 (sr_id r) = Some r" using next_pending n by simp
    show ?thesis
    proof (cases "accepted_report R Q r")
      case (Some report)
      with less.prems n some have "res = Inr (Some \<lparr>pr_record_id = sr_id r, pr_report = report, pr_body = sr_payload r\<rparr>)"
        and "q' = q1" by (subst (asm) oldest.simps, simp)+
      with p1 Some same show ?thesis by (auto intro: rejected_refl)
    next
      case None
      obtain n2 q2 where z: "qo_quarantine Q (sr_id r) Quarantine_Corrupt q1 = (n2, q2)" by fastforce
      have step: "only_rejected_isolated R q q2"
        using rejected_trans [OF rejected_refl rejected_quarantine [OF z p1 None]] same by blast
      show ?thesis
      proof (cases n2)
        case (Inl e)
        with less.prems n some None z have "res = Inl e" "q' = q2" by (subst (asm) oldest.simps, simp)+
        with step show ?thesis by simp
      next
        case (Inr u)
        with less.prems n some None z have rest: "oldest R Q q2 = Some (res, q')" by (subst (asm) oldest.simps) simp
        have "pending q2 = (pending q)(sr_id r := None)" using quarantine_ok [OF z [unfolded Inr] p1] same by simp
        moreover have "pending q (sr_id r) = Some r" using p1 same by simp
        ultimately have "card (dom (pending q2)) < card (dom (pending q))"
          using removed_card [OF finite_pending] by simp
        from less.hyps [OF this rest] step show ?thesis using rejected_trans by blast
      qed
    qed
  qed
qed

end

end
