(* ===== verification/Transport_Correct.thy ===== *)
theory Transport_Correct
  imports Spool
begin

text \<open>
  What an answer of the server may decide. Only the strict envelope, or an acknowledgement of
  exactly this report, ends a report; only one request is sent, with the queued bytes; the
  queue never hands out a report that the sender would refuse for its content.
\<close>

section \<open>Verdicts\<close>

definition verdict_codes :: "(nat \<times> string) list" where
  "verdict_codes = [(400, ''unsupported_client_protocol''), (400, ''bad_request''), (409, ''conflict''),
     (413, ''payload_too_large''), (401, ''unauthorized''), (403, ''client_host_mismatch'')]"

definition strict_rejection :: "http_ops \<Rightarrow> nat \<Rightarrow> string option \<Rightarrow> string \<Rightarrow> bool" where
  "strict_rejection H status content_type body \<longleftrightarrow>
     (\<exists>value envelope. content_type = Some value \<and> is_application_json value \<and>
        parse_envelope H body = Some envelope \<and> \<not> ee_retryable envelope \<and>
        (status, ee_code envelope) \<in> set verdict_codes)"

lemma json_envelope_Some:
  "json_envelope H ct body = Some ev \<longleftrightarrow> (\<exists>v. ct = Some v \<and> is_application_json v \<and> parse_envelope H body = Some ev)"
  by (auto simp: json_envelope_def split: option.splits)

lemma final_code_iff: "final_code envelope code \<longleftrightarrow> (\<exists>e. envelope = Some e \<and> ee_code e = code \<and> \<not> ee_retryable e)"
  by (auto simp: final_code_def split: option.splits)

lemma verdict_is_strict:
  assumes "classify_xsos_response H status ct body = Inl e" and "is_permanent e \<or> is_unauthorized e"
  shows "strict_rejection H status ct body \<and> (is_unauthorized e \<longleftrightarrow> status = 401)"
  using assms
  by (auto simp: classify_xsos_response_def Let_def strict_rejection_def verdict_codes_def final_code_iff
      json_envelope_Some split: if_splits option.splits)

definition acknowledged_by ::
  "transport_ops \<Rightarrow> nat \<Rightarrow> string option \<Rightarrow> string \<Rightarrow> client_report \<Rightarrow> bool" where
  "acknowledged_by X status content_type body report \<longleftrightarrow> status = 202 \<and>
     (\<exists>value. content_type = Some value \<and> is_application_json value) \<and>
     (\<exists>ack. tp_parse_ack X body = Some ack \<and> ack_host_id ack = hi_id (rep_host report) \<and>
        ack_report_id ack = rep_id report)"

lemma ack_exact: "validate_xsos_ack H X status ct body report = Inr u \<longleftrightarrow> acknowledged_by X status ct body report"
proof -
  have "classify_xsos_response H status ct body = Inr v \<Longrightarrow> is_success status" for v
    by (auto simp: classify_xsos_response_def Let_def split: if_splits option.splits)
  then show ?thesis
    by (fastforce simp: validate_xsos_ack_def acknowledged_by_def split: option.splits if_splits)
qed

lemma ack_verdict:
  assumes "validate_xsos_ack H X status ct body report = Inl e" and "is_permanent e \<or> is_unauthorized e"
  shows "strict_rejection H status ct body \<and> (is_unauthorized e \<longleftrightarrow> status = 401)"
  using assms verdict_is_strict by (auto simp: validate_xsos_ack_def split: if_splits option.splits)

section \<open>Retry-After\<close>

lemma retry_after_bounds:
  "retry_after_delay H status headers = Some n \<Longrightarrow> (status = 429 \<or> status = 503) \<and> 1 \<le> n \<and> n \<le> 300"
  by (auto simp: retry_after_delay_def bind_eq_Some_conv split: if_splits)

lemma answer_sleep_bounds:
  "answer_sleep H response result = Some n \<Longrightarrow>
     \<not> is_ok result \<and> (hs_status response = 429 \<or> hs_status response = 503) \<and> 1 \<le> n \<and> n \<le> 300"
  by (auto simp: answer_sleep_def dest!: retry_after_bounds split: sum.splits send_error.splits)

section \<open>What is sent\<close>

definition report_headers :: "reporter \<Rightarrow> (string \<times> string) list" where
  "report_headers r = [(''authorization'', ''Bearer '' @ rp_token r), (''content-type'', ''application/json'')]"

lemma prepare_send_ok:
  assumes "prepare_send E X t r report queued = Inr (bounded, body, headers)"
  shows "prepare_report_body X t report queued = Inr (bounded, body)"
    and "headers = report_headers r"
    and "\<exists>i. for_instance E (hi_id (rep_host bounded)) = Inr i \<and> identity_matches E (rp_identity r) i"
  using assms
  by (auto simp: prepare_send_def bindR_Inr_iff authenticated_headers_def Let_def validate_report_identity_def
      ensure_matches_def report_headers_def split: if_splits prod.splits)

lemma prepare_queued:
  "prepare_report_body X t report (Some body) = Inr (bounded, body') \<Longrightarrow> bounded = report \<and> body' = body"
  by (auto simp: prepare_report_body_def Let_def split: if_splits option.splits sum.splits prod.splits)

definition report_request :: "reporter \<Rightarrow> string \<Rightarrow> http_request" where
  "report_request r body = \<lparr>rq_method = ''POST'', rq_url = rp_endpoint r,
     rq_headers = report_headers r, rq_body = Some (Body_Bytes body)\<rparr>"

lemma post_bounded_request:
  "post_bounded H net (rp_endpoint r) (report_headers r) body =
    (if request_builds H (report_request r body) then execute_bounded net (report_request r body) max_error_response_bytes
     else Inl Transport_Failed)"
  by (simp add: post_bounded_def report_request_def Let_def)

lemma execute_bounded_agree: "net1 request = net2 request \<Longrightarrow> execute_bounded net1 request n = execute_bounded net2 request n"
  by (simp add: execute_bounded_def)

text \<open>Sending a queued report depends on the network only at the one request with the queued bytes.\<close>

lemma send_queued_one_request:
  assumes "net1 (report_request r body) = net2 (report_request r body)"
  shows "send_queued_xsos E X net1 t1 t2 r report body = send_queued_xsos E X net2 t1 t2 r report body"
proof (cases "prepare_send E X t1 r report (Some body)")
  case (Inr p)
  obtain bounded body' headers where p: "p = (bounded, body', headers)" by (cases p)
  note ok = prepare_send_ok [OF Inr [unfolded p]]
  have "body' = body" using prepare_queued [OF ok(1)] by simp
  then show ?thesis
    using execute_bounded_agree [of net1 "report_request r body" net2 max_error_response_bytes] assms
    by (simp add: send_queued_xsos_def send_xsos_inner_def Inr p ok(2) post_bounded_request)
qed (simp add: send_queued_xsos_def send_xsos_inner_def)

text \<open>What a result of sending proves about the exchange.\<close>

definition report_answered ::
  "'d env \<Rightarrow> network \<Rightarrow> reporter \<Rightarrow> string \<Rightarrow> http_response \<Rightarrow> bool" where
  "report_answered E net r body response \<longleftrightarrow>
     execute_bounded net (report_request r body) max_error_response_bytes = Inr response"

lemma send_queued_result:
  assumes "fst (send_queued_xsos E X net t1 t2 r report body) = res"
  obtains (failed) e where "prepare_send E X t1 r report (Some body) = Inl e" "res = Inl e"
    | (unsent) m where "res = Inl (Transient m)"
    | (answer) response where "report_answered E net r body response"
        "\<exists>i. for_instance E (hi_id (rep_host report)) = Inr i \<and> identity_matches E (rp_identity r) i"
        "res = validate_xsos_ack (env_http E) X (hs_status response) (content_type_of (env_http E) response)
           (hs_body response) report"
proof (cases "prepare_send E X t1 r report (Some body)")
  case (Inl e)
  then have "res = Inl e" using assms by (simp add: send_queued_xsos_def send_xsos_inner_def send_failed_def)
  with Inl show thesis by (rule failed)
next
  case (Inr p)
  obtain bounded body' headers where p: "p = (bounded, body', headers)" by (cases p)
  note ok = prepare_send_ok [OF Inr [unfolded p]]
  have same: "bounded = report" "body' = body" using prepare_queued [OF ok(1)] by auto
  let ?post = "post_bounded (env_http E) net (rp_endpoint r) headers body"
  show thesis
  proof (cases ?post)
    case (Inl e)
    then show thesis
      using assms Inr p same by (intro unsent [of "''xsos request failed''"]) (simp add: send_queued_xsos_def send_xsos_inner_def send_failed_def)
  next
    case (Inr response)
    then have "report_answered E net r body response"
      using ok(2) by (simp add: report_answered_def post_bounded_request split: if_splits)
    then show thesis
      using assms Inr \<open>prepare_send E X t1 r report (Some body) = Inr p\<close> p same ok(3)
      by (intro answer) (auto simp: send_queued_xsos_def send_xsos_inner_def Let_def)
  qed
qed

lemma send_acknowledged:
  assumes "fst (send_queued_xsos E X net t1 t2 r report body) = Inr u"
  obtains response where "report_answered E net r body response"
    and "acknowledged_by X (hs_status response) (content_type_of (env_http E) response) (hs_body response) report"
    and "\<exists>i. for_instance E (hi_id (rep_host report)) = Inr i \<and> identity_matches E (rp_identity r) i"
  using assms by (cases rule: send_queued_result [OF refl [of "fst (send_queued_xsos E X net t1 t2 r report body)"]])
    (auto simp: ack_exact intro: that)

section \<open>Reports of the queue are sendable\<close>

lemma accepted_sendable:
  assumes "accepted_report R Q rec = Some report" and "length (sr_payload rec) \<le> ro_max_body R"
    and "tp_report X = R"
  shows "prepare_report_body X t report (Some (sr_payload rec)) = Inr (report, sr_payload rec)"
  using assms
  by (auto simp: accepted_report_def canonical_payload_def prepare_report_body_def bindR_Inr_iff Let_def
      dest: report_eq_no_nan split: if_splits sum.splits prod.splits)

text \<open>Such a report is given up only on the server's strict word, or for another identity.\<close>

lemma sendable_verdict:
  assumes "prepare_report_body X t1 report (Some body) = Inr (report, body)"
    and "fst (send_queued_xsos E X net t1 t2 r report body) = Inl e" and "is_permanent e \<or> is_unauthorized e"
  obtains response where "report_answered E net r body response"
    and "strict_rejection (env_http E) (hs_status response) (content_type_of (env_http E) response) (hs_body response)"
    and "is_unauthorized e \<longleftrightarrow> hs_status response = 401"
  using assms(2)
proof (cases rule: send_queued_result)
  case (failed e')
  then have "e' = Identity_Mismatch \<or> (\<exists>m. e' = Transient m)"
    using assms(1)
    by (cases "validate_report_identity E r report"; cases "authenticated_headers (env_http E) (rp_token r) ''application/json''")
      (auto simp: prepare_send_def)
  with failed assms(3) show thesis by auto
next
  case (answer response)
  with assms(3) show thesis using ack_verdict that by metis
qed (use assms(3) in auto)

lemma accepted_well_formed:
  assumes "accepted_report R Q rec = Some report"
  shows "rep_schema_version report = ro_schema_version R \<and> \<not> has_nan report \<and> ro_decode R (sr_payload rec) = Some report"
  using assms
  by (auto simp: accepted_report_def canonical_payload_def canonical_spool_report_def encode_report_body_inner_def
      bindR_Inr_iff Let_def dest: report_eq_no_nan split: if_splits sum.splits prod.splits)

text \<open>The record a successful enqueue stores is accepted, when its bytes decode to the report they encode.\<close>

lemma encoded_accepted:
  assumes "report_limits_ok R" and "marker_is_unique R report" and "encode_report_body R now report = Inr (b, body)"
    and "ro_decode R body = Some b" and "\<not> has_nan b" and "\<not> foreign_schema R Q body"
    and "sr_contract rec = host_report_contract" and "sr_payload rec = body"
  shows "accepted_report R Q rec = Some b"
proof -
  have "canonical_spool_report R b = Inr (b, body)"
    using assms(3) unfolding encode_report_body_def by (rule encoded_is_canonical [OF assms(1,2)])
  with assms(4-8) show ?thesis by (simp add: accepted_report_def canonical_payload_def)
qed

end
