(* ===== verification/Delivery.thy ===== *)
theory Delivery
  imports Transport_Correct Pairing_Flow
begin

text \<open>
  The delivery of reports: \<open>src/monitor_app/delivery/\<close>. One-shot delivery, the adapter of the
  batch worker, recovery of the authorization, queue health and the sampling cadence. The
  batch function, the failure streak and the worker loop of \<open>xcsc::runtime\<close> are parameters.
  A shutdown that wins over an operation is the result \<open>None\<close> of that operation. Log messages
  and the runtime status are not part of the state.
\<close>

section \<open>The adapter of the batch worker\<close>

datatype failure_disposition = Isolate quarantine_reason | Discard | Retain

fun disposition :: "send_error \<Rightarrow> failure_disposition" where
  "disposition Identity_Mismatch = Isolate Quarantine_Identity_Mismatch"
| "disposition error = (if is_permanent error then Discard else Retain)"

datatype flush_outcome = Drained | Batch_Complete | Failed send_error

text \<open>
  What the queue may go through while reports are sampled and delivered: a new report is
  stored, the oldest is looked for, and a record that was handed out is taken out after an
  attempt whose result allows it. An attempt is \<open>send\<close> of the adapter.
\<close>

definition attempt :: "'d env \<Rightarrow> transport_ops \<Rightarrow> reporter \<Rightarrow> pending_report \<Rightarrow> send_error + unit \<Rightarrow> bool" where
  "attempt E X r p v \<longleftrightarrow>
     (\<exists>net started answered. fst (send_queued_xsos E X net started answered r (pr_report p) (pr_body p)) = v)"

definition handed_out ::
  "transport_ops \<Rightarrow> 'q queue_ops \<Rightarrow> ('q \<Rightarrow> record_id \<Rightarrow> spool_record option) \<Rightarrow> 'q \<Rightarrow> pending_report \<Rightarrow> bool" where
  "handed_out X Q pending q p \<longleftrightarrow>
     (\<exists>r. pending q (pr_record_id p) = Some r \<and> accepted_report (tp_report X) Q r = Some (pr_report p)
       \<and> pr_body p = sr_payload r)"

inductive delivery_step ::
  "'d env \<Rightarrow> transport_ops \<Rightarrow> 'q queue_ops \<Rightarrow> ('q \<Rightarrow> record_id \<Rightarrow> spool_record option) \<Rightarrow> reporter \<Rightarrow> 'q \<Rightarrow> 'q \<Rightarrow> bool"
  for E X Q pending r where
  step_enqueue: "enqueue E (tp_report X) Q now report q = (res, q') \<Longrightarrow> delivery_step E X Q pending r q q'"
| step_oldest: "oldest (tp_report X) Q q = Some (res, q') \<Longrightarrow> delivery_step E X Q pending r q q'"
| step_acknowledge: "handed_out X Q pending q p \<Longrightarrow> attempt E X r p (Inr ()) \<Longrightarrow>
    acknowledge Q p q = (res, q') \<Longrightarrow> delivery_step E X Q pending r q q'"
| step_discard: "handed_out X Q pending q p \<Longrightarrow> attempt E X r p (Inl e) \<Longrightarrow> disposition e = Discard \<Longrightarrow>
    acknowledge Q p q = (res, q') \<Longrightarrow> delivery_step E X Q pending r q q'"
| step_isolate: "handed_out X Q pending q p \<Longrightarrow> attempt E X r p (Inl e) \<Longrightarrow> disposition e = Isolate k \<Longrightarrow>
    quarantine Q p k q = (res, q') \<Longrightarrow> delivery_step E X Q pending r q q'"

section \<open>One-shot delivery\<close>

datatype run_once_outcome = Delivered | Shutdown

record 'q once_inputs =
  oi_now :: time
  oi_sample :: "nat \<Rightarrow> client_report"
  oi_flush :: "'q \<Rightarrow> (client_error + flush_outcome) option \<times> 'q"
  oi_send :: "pending_report \<Rightarrow> (send_error + unit) option"
  oi_otlp :: "client_report \<Rightarrow> unit res option"

definition retain_once_report ::
  "'d env \<Rightarrow> report_ops \<Rightarrow> 'q queue_ops \<Rightarrow> time \<Rightarrow> client_report \<Rightarrow> ('q, client_error, run_once_outcome) tx" where
  "retain_once_report E R Q now report = bindT (enqueue E R Q now report) (\<lambda>_. returnT Shutdown)"

text \<open>
  The loop over the backlog: \<open>Some (None, q)\<close> goes on with the current report, \<open>Some (Some res, q)\<close>
  returns. It need not end while the other side keeps adding reports: then the result is \<open>None\<close>.
\<close>

definition flush_turn ::
  "'d env \<Rightarrow> report_ops \<Rightarrow> 'q queue_ops \<Rightarrow> 'q once_inputs \<Rightarrow> client_report \<Rightarrow> 'q
    \<Rightarrow> (client_error + run_once_outcome) option \<times> 'q" where
  "flush_turn E R Q I report q =
     (case oi_flush I q of
        (None, q) \<Rightarrow> apfst Some (retain_once_report E R Q (oi_now I) report q)
      | (Some (Inr (Failed error)), q) \<Rightarrow>
          apfst Some (bindT (enqueue E R Q (oi_now I) report) (\<lambda>_.
            failT (Context ''current report was retained while stored reports remain pending''
              (Message (send_error_code error)))) q)
      | (Some (Inr _), q) \<Rightarrow> (None, q)
      | (Some (Inl error), q) \<Rightarrow>
          apfst Some (bindT (enqueue E R Q (oi_now I) report) (\<lambda>_.
            failT (Context ''current report was retained because the local spool could not be flushed'' error)) q))"

partial_function (option) flush_backlog ::
  "'d env \<Rightarrow> report_ops \<Rightarrow> 'q queue_ops \<Rightarrow> 'q once_inputs \<Rightarrow> client_report \<Rightarrow> 'q
    \<Rightarrow> ((client_error + run_once_outcome) option \<times> 'q) option" where
  "flush_backlog E R Q I report q =
     (case pending_count Q q of
        (Inl e, q) \<Rightarrow> Some (Some (Inl e), q)
      | (Inr n, q) \<Rightarrow>
          if n = 0 then Some (None, q)
          else
            (case flush_turn E R Q I report q of
               (Some res, q) \<Rightarrow> Some (Some res, q)
             | (None, q) \<Rightarrow> flush_backlog E R Q I report q))"

text \<open>The current report: stored before the first request, then sent once.\<close>

definition deliver_queued ::
  "'q queue_ops \<Rightarrow> 'q once_inputs \<Rightarrow> pending_report \<Rightarrow> ('q, client_error, run_once_outcome) tx" where
  "deliver_queued Q I queued =
     (case oi_send I queued of
        None \<Rightarrow> returnT Shutdown
      | Some (Inl error) \<Rightarrow>
          if is_permanent error
          then bindT (acknowledge Q queued) (\<lambda>_.
               failT (Context ''report was rejected permanently and was not spooled'' (Message (send_error_code error))))
          else failT (Context ''report was retained in the local spool'' (Message (send_error_code error)))
      | Some (Inr _) \<Rightarrow>
          bindT (acknowledge Q queued) (\<lambda>_.
          case oi_otlp I (pr_report queued) of None \<Rightarrow> returnT Shutdown | Some _ \<Rightarrow> returnT Delivered))"

definition deliver_current ::
  "'d env \<Rightarrow> report_ops \<Rightarrow> 'q queue_ops \<Rightarrow> 'q once_inputs \<Rightarrow> client_report \<Rightarrow> 'q
    \<Rightarrow> ((client_error + run_once_outcome) \<times> 'q) option" where
  "deliver_current E R Q I report q =
     (case enqueue E R Q (oi_now I) report q of
        (Inl e, q) \<Rightarrow> Some (Inl e, q)
      | (Inr _, q) \<Rightarrow>
          Option.bind (oldest R Q q) (\<lambda>out.
          case out of
            (Inl e, q) \<Rightarrow> Some (Inl e, q)
          | (Inr None, q) \<Rightarrow> Some (Inl (Message ''current report disappeared from the local spool''), q)
          | (Inr (Some queued), q) \<Rightarrow>
              if rep_id (pr_report queued) \<noteq> rep_id report
              then Some (Inl (Message ''another report appeared before the current one in the local spool''), q)
              else Some (deliver_queued Q I queued q)))"

definition run_once ::
  "'d env \<Rightarrow> report_ops \<Rightarrow> 'q queue_ops \<Rightarrow> 'q once_inputs \<Rightarrow> 'q
    \<Rightarrow> ((client_error + run_once_outcome) \<times> 'q) option" where
  "run_once E R Q I q =
     (case pending_count Q q of
        (Inl e, q) \<Rightarrow> Some (Inl e, q)
      | (Inr n, q) \<Rightarrow>
          let report = oi_sample I n in
          Option.bind (flush_backlog E R Q I report q) (\<lambda>out.
          case out of
            (Some res, q) \<Rightarrow> Some (res, q)
          | (None, q) \<Rightarrow> deliver_current E R Q I report q))"

section \<open>Queue health\<close>

text \<open>
  \<open>QueueFailureStreak\<close>: recording a failure returns the new streak and whether the threshold
  is reached.
\<close>

record 's streak_ops =
  so_success :: "'s \<Rightarrow> 's"
  so_failure :: "'s \<Rightarrow> unit res \<times> 's"

definition record_failure :: "'s streak_ops \<Rightarrow> 's \<Rightarrow> unit res \<times> 's" where
  "record_failure S s = apfst (with_context ''persistent spool failure; exiting for service-manager recovery'') (so_failure S s)"

definition try_enqueue ::
  "'d env \<Rightarrow> report_ops \<Rightarrow> 'q queue_ops \<Rightarrow> 's streak_ops \<Rightarrow> time \<Rightarrow> client_report \<Rightarrow> 's \<times> 'q
    \<Rightarrow> unit res \<times> ('s \<times> 'q)" where
  "try_enqueue E R Q S now report sq =
     (case sq of (s, q) \<Rightarrow>
        (case enqueue E R Q now report q of
           (Inr _, q) \<Rightarrow> (Inr (), (so_success S s, q))
         | (Inl error, q) \<Rightarrow> (case record_failure S s of (res, s) \<Rightarrow> (res, (s, q)))))"

section \<open>The sampling cadence\<close>

text \<open>Instants and intervals in nanoseconds.\<close>

definition schedule_next :: "int \<Rightarrow> int \<Rightarrow> int \<Rightarrow> int" where
  "schedule_next interval now deadline =
     (let anchored = deadline + interval in if now < anchored then anchored else now + interval)"

definition advertise_first_sampling_cadence :: "f64 \<Rightarrow> bool \<Rightarrow> client_report \<Rightarrow> client_report \<times> bool" where
  "advertise_first_sampling_cadence configured first_report report =
     (if first_report then (report\<lparr>rep_interval := configured\<rparr>, False) else (report, first_report))"

text \<open>
  One turn of the sampling branch of \<open>run_loop\<close>: the queue length is read, a report is
  sampled and stored, and the next deadline is set.
\<close>

record ('s, 'q) loop_state =
  lp_read_health :: 's
  lp_write_health :: 's
  lp_deadline :: int
  lp_first_report :: bool
  lp_queue :: 'q

record loop_inputs =
  li_logging_ok :: "unit res"
  li_sample :: "nat \<Rightarrow> client_report"
  li_configured :: f64
  li_now :: time
  li_jittered :: "int res"
  li_after :: int

definition queue_length ::
  "'q queue_ops \<Rightarrow> 's streak_ops \<Rightarrow> ('s, 'q) loop_state \<Rightarrow> nat res \<times> ('s, 'q) loop_state" where
  "queue_length Q S st =
     (case pending_count Q (lp_queue st) of
        (Inr n, q) \<Rightarrow> (Inr n, st\<lparr>lp_queue := q, lp_read_health := so_success S (lp_read_health st)\<rparr>)
      | (Inl error, q) \<Rightarrow>
          (case record_failure S (lp_read_health st) of
             (res, s) \<Rightarrow> (map_ok (\<lambda>_. 0) res, st\<lparr>lp_queue := q, lp_read_health := s\<rparr>)))"

definition store_sample ::
  "'d env \<Rightarrow> report_ops \<Rightarrow> 'q queue_ops \<Rightarrow> 's streak_ops \<Rightarrow> loop_inputs \<Rightarrow> nat
    \<Rightarrow> ('s, 'q) loop_state \<Rightarrow> unit res \<times> ('s, 'q) loop_state" where
  "store_sample E R Q S L pending st =
     (case advertise_first_sampling_cadence (li_configured L) (lp_first_report st) (li_sample L pending) of
        (report, first) \<Rightarrow>
          (case try_enqueue E R Q S (li_now L) report (lp_write_health st, lp_queue st) of
             (res, s, q) \<Rightarrow> (res, st\<lparr>lp_first_report := first, lp_write_health := s, lp_queue := q\<rparr>)))"

definition sampling_turn ::
  "'d env \<Rightarrow> report_ops \<Rightarrow> 'q queue_ops \<Rightarrow> 's streak_ops \<Rightarrow> loop_inputs
    \<Rightarrow> (('s, 'q) loop_state, client_error, unit) tx" where
  "sampling_turn E R Q S L =
     bindT (liftR (li_logging_ok L)) (\<lambda>_.
     bindT (queue_length Q S) (\<lambda>pending.
     bindT (store_sample E R Q S L pending) (\<lambda>_.
     bindT (liftR (li_jittered L)) (\<lambda>interval st.
     (Inr (), st\<lparr>lp_deadline := schedule_next interval (li_after L) (lp_deadline st)\<rparr>)))))"

section \<open>Reporters of a running client\<close>

text \<open>
  \<open>apply_reporter_snapshot\<close> replaces configuration and host before the revision of the new
  configuration is published, which fails when the configuration does not serialize.
\<close>

definition apply_reporter_snapshot ::
  "(client_config \<Rightarrow> bool) \<Rightarrow> reporter_snapshot \<Rightarrow> client_config \<times> host_identity
    \<Rightarrow> reporter res \<times> (client_config \<times> host_identity)" where
  "apply_reporter_snapshot encodes s ch =
     (case snapshot_apply s (fst ch) of
        (c, h, reporter) \<Rightarrow>
          (if encodes c then Inr reporter else Inl (Message ''configuration does not serialize''), (c, h)))"

text \<open>
  \<open>prepare_reporter\<close>: a turn looks for an active pairing, then for the credential that was in
  force before an incomplete one. In between the client sleeps, other processes act, and the
  end of the list is the shutdown.
\<close>

definition reporter_turn ::
  "'d env \<Rightarrow> client_config \<Rightarrow> time \<times> time \<Rightarrow> ('d, client_error, reporter_snapshot option) tx" where
  "reporter_turn E c ts =
     bindT (reporter_snapshot_for_current_active_state E c) (\<lambda>s.
     case s of
       Some snapshot \<Rightarrow> returnT (Some snapshot)
     | None \<Rightarrow> existing_reporter_for_run E c (fst ts) (snd ts))"

fun prepare_reporter ::
  "'d env \<Rightarrow> (client_config \<Rightarrow> bool) \<Rightarrow> bool \<Rightarrow> time \<times> time \<Rightarrow> (('d \<Rightarrow> 'd) \<times> time \<times> time) list
    \<Rightarrow> client_config \<times> host_identity \<Rightarrow> 'd \<Rightarrow> reporter option res \<times> (client_config \<times> host_identity) \<times> 'd" where
  "prepare_reporter E encodes run ts waits ch d =
     (case reporter_turn E (fst ch) ts d of
        (Inl e, d) \<Rightarrow> (Inl e, ch, d)
      | (Inr (Some snapshot), d) \<Rightarrow>
          (case apply_reporter_snapshot encodes snapshot ch of (res, ch) \<Rightarrow> (map_ok Some res, ch, d))
      | (Inr None, d) \<Rightarrow>
          if \<not> run then (Inl (Message ''awaiting_pairing: use pair before delivery''), ch, d)
          else
            (case waits of
               [] \<Rightarrow> (Inr None, ch, d)
             | (sleep, ts) # waits \<Rightarrow> prepare_reporter E encodes run ts waits ch (sleep d)))"

declare prepare_reporter.simps [simp del]

section \<open>The delivery driver\<close>

record driver =
  dr_config :: client_config
  dr_host :: host_identity
  dr_reporter :: reporter
  dr_otlp :: "string option"
  dr_waiting_notice :: "uuid option"

definition driver_new :: "client_config \<Rightarrow> host_identity \<Rightarrow> reporter \<Rightarrow> driver" where
  "driver_new c host reporter =
     \<lparr>dr_config = c, dr_host = host, dr_reporter = reporter, dr_otlp = otlp_endpoint c, dr_waiting_notice = None\<rparr>"

datatype recovery_probe = Probe_Credential reporter_snapshot | Probe_Pairing "pairing_progress option"

definition recover :: "'d env \<Rightarrow> driver \<Rightarrow> 'd inputs \<Rightarrow> 'd inputs \<Rightarrow> ('d, client_error, recovery_probe) tx" where
  "recover E dr I J =
     bindT (refresh_reporter_snapshot E (dr_config dr) (rp_credential_revision (dr_reporter dr))) (\<lambda>s.
     case s of
       Some snapshot \<Rightarrow> returnT (Probe_Credential snapshot)
     | None \<Rightarrow> bindT (poll_existing E (dr_config dr) I J) (\<lambda>progress. returnT (Probe_Pairing progress)))"

text \<open>Seconds until the next poll.\<close>

definition poll_after :: "pairing_progress option \<Rightarrow> nat" where
  "poll_after probe =
     (case probe of
        Some (P_Waiting waiting) \<Rightarrow> unat (ps_poll_interval waiting)
      | Some (P_Creating g e) \<Rightarrow> 2
      | _ \<Rightarrow> 60)"

definition waiting_notice :: "pairing_progress option \<Rightarrow> uuid option \<Rightarrow> uuid option" where
  "waiting_notice probe previous =
     (case probe of Some (P_Waiting waiting) \<Rightarrow> Some (ps_request_id waiting) | _ \<Rightarrow> previous)"

datatype recovery_update = Renewed nat | Unchanged nat

definition renew :: "(client_config \<Rightarrow> bool) \<Rightarrow> nat \<Rightarrow> reporter_snapshot \<Rightarrow> driver \<Rightarrow> recovery_update res \<times> driver" where
  "renew encodes after snapshot dr =
     (case apply_reporter_snapshot encodes snapshot (dr_config dr, dr_host dr) of
        (Inl e, c, h) \<Rightarrow> (Inl e, dr\<lparr>dr_config := c, dr_host := h\<rparr>)
      | (Inr reporter, c, h) \<Rightarrow>
          (Inr (Renewed after), dr\<lparr>dr_config := c, dr_host := h, dr_reporter := reporter, dr_otlp := otlp_endpoint c\<rparr>))"

definition apply_recovery ::
  "'d env \<Rightarrow> (client_config \<Rightarrow> bool) \<Rightarrow> recovery_probe \<Rightarrow> driver \<Rightarrow> 'd \<Rightarrow> recovery_update res \<times> driver \<times> 'd" where
  "apply_recovery E encodes probe dr d =
     (case (case probe of
              Probe_Credential snapshot \<Rightarrow> map_ok (\<lambda>progress. (progress, Some snapshot)) (local_progress E d)
            | Probe_Pairing progress \<Rightarrow> Inr (progress, None)) of
        Inl e \<Rightarrow> (Inl e, dr, d)
      | Inr (progress, found) \<Rightarrow>
          let after = poll_after progress;
              dr = dr\<lparr>dr_waiting_notice := waiting_notice progress (dr_waiting_notice dr)\<rparr> in
          (case (case found of
                   Some snapshot \<Rightarrow> (Inr (Some snapshot), d)
                 | None \<Rightarrow> refresh_reporter_snapshot E (dr_config dr) (rp_credential_revision (dr_reporter dr)) d) of
             (Inl e, d) \<Rightarrow> (Inl e, dr, d)
           | (Inr None, d) \<Rightarrow> (Inr (Unchanged after), dr, d)
           | (Inr (Some snapshot), d) \<Rightarrow>
               (case renew encodes after snapshot dr of (res, dr) \<Rightarrow> (res, dr, d))))"

datatype delivery_response = Retry | Retry_After_Recovery | Authorization_Required

definition classify_failure ::
  "'d env \<Rightarrow> driver \<Rightarrow> time \<Rightarrow> send_error \<Rightarrow> 'd \<Rightarrow> delivery_response \<times> 'd" where
  "classify_failure E dr now error d =
     (if \<not> is_unauthorized error then (Retry, d)
      else
        (case mark_reauth_required_if_current E (dr_config dr) (rp_credential_revision (dr_reporter dr))
             (''delivery requires authorization recovery: '' @ send_error_code error) now d of
           (Inr applied, d) \<Rightarrow> (if applied then Authorization_Required else Retry_After_Recovery, d)
         | (Inl e, d) \<Rightarrow> (Authorization_Required, d)))"

end
