(* ===== verification/Delivery_Correct.thy ===== *)
theory Delivery_Correct
  imports Delivery
begin

text \<open>
  No report is lost: whatever the sampler and the delivery do to the queue, a stored record is
  pending, isolated with its bytes, or was settled by the server. The statements rest on the
  locale \<open>record_queue\<close> and on the size limit the queue was opened with.
\<close>

section \<open>Settled records\<close>

definition settled_by_server :: "'d env \<Rightarrow> transport_ops \<Rightarrow> reporter \<Rightarrow> spool_record \<Rightarrow> client_report \<Rightarrow> bool" where
  "settled_by_server E X r rec report \<longleftrightarrow>
     (\<exists>net response. report_answered E net r (sr_payload rec) response \<and>
        (acknowledged_by X (hs_status response) (content_type_of (env_http E) response) (hs_body response) report \<or>
         hs_status response \<noteq> 401 \<and>
         strict_rejection (env_http E) (hs_status response) (content_type_of (env_http E) response) (hs_body response)))"

lemma disposition_discard: "disposition e = Discard \<longleftrightarrow> is_permanent e"
  by (cases e) simp_all

lemma disposition_isolate: "disposition e = Isolate k \<longleftrightarrow> e = Identity_Mismatch \<and> k = Quarantine_Identity_Mismatch"
  by (cases e) auto

lemma permanent_not_unauthorized: "is_permanent e \<Longrightarrow> \<not> is_unauthorized e"
  by (cases e) simp_all

locale report_queue = record_queue Q pending isolated
  for Q :: "'q queue_ops" and pending :: "'q \<Rightarrow> record_id \<Rightarrow> spool_record option"
    and isolated :: "'q \<Rightarrow> record_id \<Rightarrow> (spool_record \<times> quarantine_reason) option" +
  fixes X :: transport_ops
  assumes bounded_payload: "pending q i = Some rec \<Longrightarrow> length (sr_payload rec) \<le> ro_max_body (tp_report X)"

context report_queue
begin

lemma handed_sendable:
  assumes "handed_out X Q pending q p"
  shows "prepare_report_body X t (pr_report p) (Some (pr_body p)) = Inr (pr_report p, pr_body p)"
  using assms bounded_payload by (auto simp: handed_out_def intro!: accepted_sendable)

lemma acknowledged_settled:
  assumes "handed_out X Q pending q p" and "attempt E X r p (Inr ())" and "pending q (pr_record_id p) = Some rec"
  shows "settled_by_server E X r rec (pr_report p)"
proof -
  have body: "pr_body p = sr_payload rec" using assms(1,3) by (auto simp: handed_out_def)
  obtain net t1 t2 where "fst (send_queued_xsos E X net t1 t2 r (pr_report p) (pr_body p)) = Inr ()"
    using assms(2) by (auto simp: attempt_def)
  then show ?thesis
    by (rule send_acknowledged) (auto simp: settled_by_server_def body)
qed

lemma discarded_settled:
  assumes "handed_out X Q pending q p" and "attempt E X r p (Inl e)" and "is_permanent e"
    and "pending q (pr_record_id p) = Some rec"
  shows "settled_by_server E X r rec (pr_report p)"
proof -
  have body: "pr_body p = sr_payload rec" using assms(1,4) by (auto simp: handed_out_def)
  obtain net t1 t2 where send: "fst (send_queued_xsos E X net t1 t2 r (pr_report p) (pr_body p)) = Inl e"
    using assms(2) by (auto simp: attempt_def)
  show ?thesis
    by (rule sendable_verdict [OF handed_sendable [OF assms(1), of t1] send])
      (use assms(3) permanent_not_unauthorized [OF assms(3)] in \<open>auto simp: settled_by_server_def body\<close>)
qed

text \<open>Where a record of \<open>q\<close> is in a later state of the queue.\<close>

definition kept :: "'d env \<Rightarrow> reporter \<Rightarrow> 'q \<Rightarrow> 'q \<Rightarrow> bool" where
  "kept E r q q' \<longleftrightarrow>
     (\<forall>i rec. pending q i = Some rec \<longrightarrow> pending q' i = Some rec \<or> (\<exists>k. isolated q' i = Some (rec, k)) \<or>
        (\<exists>report. accepted_report (tp_report X) Q rec = Some report \<and> settled_by_server E X r rec report)) \<and>
     (\<forall>i rk. isolated q i = Some rk \<longrightarrow> isolated q' i = Some rk)"

lemma kept_refl: "kept E r q q"
  by (simp add: kept_def)

lemma kept_trans:
  assumes a: "kept E r q q1" and b: "kept E r q1 q2"
  shows "kept E r q q2"
  unfolding kept_def
proof (intro conjI allI impI)
  fix i rec
  assume "pending q i = Some rec"
  with a have "pending q1 i = Some rec \<or> (\<exists>k. isolated q1 i = Some (rec, k)) \<or>
      (\<exists>report. accepted_report (tp_report X) Q rec = Some report \<and> settled_by_server E X r rec report)"
    by (simp add: kept_def)
  with b show "pending q2 i = Some rec \<or> (\<exists>k. isolated q2 i = Some (rec, k)) \<or>
      (\<exists>report. accepted_report (tp_report X) Q rec = Some report \<and> settled_by_server E X r rec report)"
    by (auto simp: kept_def)
next
  fix i rk
  assume "isolated q i = Some rk"
  with a b show "isolated q2 i = Some rk" unfolding kept_def by metis
qed

lemma enqueue_result:
  "enqueue E R Q now report q = (res, q') \<Longrightarrow> q' = q \<or> (\<exists>c t b. qo_enqueue Q c t b q = (res, q'))"
  by (auto simp: enqueue_def bindT_def readT_def split: sum.splits prod.splits)

lemma enqueue_keeps:
  assumes "enqueue E R Q now report q = (res, q')"
  shows "(\<forall>i rec. pending q i = Some rec \<longrightarrow> pending q' i = Some rec) \<and> isolated q' = isolated q"
  using enqueue_result [OF assms]
proof (elim disjE exE)
  fix c t b
  assume "qo_enqueue Q c t b q = (res, q')"
  with enqueue_cases [of c t b q] show ?thesis by auto
qed simp

lemma kept_enqueue: "enqueue E' R Q now report q = (res, q') \<Longrightarrow> kept E r q q'"
  using enqueue_keeps [of E' R now report q res q'] by (simp add: kept_def)

lemma kept_oldest:
  assumes "oldest (tp_report X) Q q = Some (res, q')"
  shows "kept E r q q'"
proof -
  have only: "only_rejected_isolated (tp_report X) q q'" using oldest_spec [OF assms] by blast
  show ?thesis
    unfolding kept_def
  proof (intro conjI allI impI)
    fix i rk
    assume iso: "isolated q i = Some rk"
    then have "pending q i = None" using apart_ids [of q i] by (cases "pending q i") auto
    with only iso show "isolated q' i = Some rk" unfolding only_rejected_isolated_def by metis
  qed (use only in \<open>auto simp: only_rejected_isolated_def\<close>)
qed

lemma kept_ack:
  assumes "acknowledge Q p q = (res, q')" and "pending q (pr_record_id p) = Some rec"
    and "accepted_report (tp_report X) Q rec = Some report" and "settled_by_server E X r rec report"
  shows "kept E r q q'"
proof -
  have "isolated q' = isolated q" and "pending q' = pending q \<or> pending q' = (pending q)(pr_record_id p := None)"
    using ack_cases [of "pr_record_id p" q] assms(1) by (auto simp: acknowledge_def)
  with assms(2-4) show ?thesis by (auto simp: kept_def split: if_splits)
qed

lemma kept_quarantine:
  assumes "quarantine Q p k q = (res, q')" and "pending q (pr_record_id p) = Some rec"
  shows "kept E r q q'"
proof -
  have "isolated q (pr_record_id p) = None" using apart_ids assms(2) by blast
  with quarantine_any [OF assms(1) [unfolded quarantine_def] assms(2)] assms(2) show ?thesis
    by (auto simp: kept_def split: if_splits)
qed

lemma step_kept: "delivery_step E X Q pending r q q' \<Longrightarrow> kept E r q q'"
proof (induction rule: delivery_step.induct)
  case (step_enqueue now report q res q')
  then show ?case by (rule kept_enqueue)
next
  case (step_oldest q res q')
  then show ?case by (rule kept_oldest)
next
  case (step_acknowledge q p res q')
  then obtain rec where "pending q (pr_record_id p) = Some rec"
    "accepted_report (tp_report X) Q rec = Some (pr_report p)" by (auto simp: handed_out_def)
  with step_acknowledge show ?case using kept_ack acknowledged_settled by blast
next
  case (step_discard q p e res q')
  then obtain rec where "pending q (pr_record_id p) = Some rec"
    "accepted_report (tp_report X) Q rec = Some (pr_report p)" by (auto simp: handed_out_def)
  with step_discard show ?case using kept_ack discarded_settled disposition_discard by blast
next
  case (step_isolate q p e k res q')
  then obtain rec where "pending q (pr_record_id p) = Some rec" by (auto simp: handed_out_def)
  with step_isolate show ?case using kept_quarantine by blast
qed

lemma steps_kept: "(delivery_step E X Q pending r)\<^sup>*\<^sup>* q q' \<Longrightarrow> kept E r q q'"
  by (induction rule: rtranclp_induct) (auto intro: kept_refl kept_trans dest: step_kept)

end

section \<open>One-shot delivery\<close>

text \<open>
  What the one-shot command relies on: a flush, complete or cut short by the shutdown, takes
  only delivery steps, and the result of a send is that of an attempt.
\<close>

definition once_inputs_ok ::
  "'d env \<Rightarrow> transport_ops \<Rightarrow> 'q queue_ops \<Rightarrow> ('q \<Rightarrow> record_id \<Rightarrow> spool_record option) \<Rightarrow> reporter \<Rightarrow> 'q once_inputs \<Rightarrow> bool" where
  "once_inputs_ok E X Q pending r I \<longleftrightarrow>
     (\<forall>q. (delivery_step E X Q pending r)\<^sup>*\<^sup>* q (snd (oi_flush I q))) \<and>
     (\<forall>p v. oi_send I p = Some v \<longrightarrow> attempt E X r p v)"

text \<open>The encoded current report is in the queue or in quarantine.\<close>

definition stored ::
  "('q \<Rightarrow> record_id \<Rightarrow> spool_record option) \<Rightarrow> ('q \<Rightarrow> record_id \<Rightarrow> (spool_record \<times> quarantine_reason) option)
    \<Rightarrow> report_ops \<Rightarrow> time \<Rightarrow> client_report \<Rightarrow> 'q \<Rightarrow> bool" where
  "stored pending isolated R now report q \<longleftrightarrow>
     (\<exists>bounded body i rec. encode_report_body R now report = Inr (bounded, body) \<and> sr_payload rec = body \<and>
        (pending q i = Some rec \<or> (\<exists>k. isolated q i = Some (rec, k))))"

text \<open>The server acknowledged a report with this identity, from the bytes of a stored record.\<close>

definition delivered :: "'d env \<Rightarrow> transport_ops \<Rightarrow> reporter \<Rightarrow> client_report \<Rightarrow> bool" where
  "delivered E X r report \<longleftrightarrow>
     (\<exists>sent body net response. rep_id sent = rep_id report \<and> report_answered E net r body response \<and>
        acknowledged_by X (hs_status response) (content_type_of (env_http E) response) (hs_body response) sent)"

lemma attempt_delivered:
  assumes "attempt E X r p (Inr u)" and "rep_id (pr_report p) = rep_id report"
  shows "delivered E X r report"
proof -
  obtain net t1 t2 where "fst (send_queued_xsos E X net t1 t2 r (pr_report p) (pr_body p)) = Inr u"
    using assms(1) by (auto simp: attempt_def)
  then show ?thesis
    by (rule send_acknowledged) (use assms(2) in \<open>auto simp: delivered_def\<close>)
qed

context report_queue
begin

lemma enqueue_stores:
  assumes "enqueue E R Q now report q = (Inr u, q')"
  obtains bounded body i c where "encode_report_body R now report = Inr (bounded, body)"
    and "contract_new E host_report_contract = Some c" and "pending q i = None"
    and "pending q' = (pending q)(i \<mapsto> \<lparr>sr_id = i, sr_contract = c,
      sr_created = timestamp_micros (rep_collected_at bounded), sr_payload = body\<rparr>)" and "isolated q' = isolated q"
proof -
  obtain bounded body c where enc: "encode_report_body R now report = Inr (bounded, body)"
    and c: "contract_new E host_report_contract = Some c"
    and call: "qo_enqueue Q c (timestamp_micros (rep_collected_at bounded)) body q = (Inr u, q')"
    using assms by (auto simp: enqueue_def bindT_def readT_def bounded_bytes split: sum.splits prod.splits if_splits)
  with enqueue_cases [of c "timestamp_micros (rep_collected_at bounded)" body q] show thesis
    by (auto intro: that)
qed

lemma enqueue_stored:
  "enqueue E R Q now report q = (Inr u, q') \<Longrightarrow> stored pending isolated R now report q'"
  by (erule enqueue_stores) (auto simp: stored_def, metis fun_upd_same spool_record.select_convs(4))

lemma pending_count_keeps:
  "pending_count Q q = (res, q') \<Longrightarrow> pending q' = pending q \<and> isolated q' = isolated q"
  using usage_keeps [of q] by (auto simp: pending_count_def bindT_def returnT_def split: prod.splits sum.splits)

lemma same_kept: "pending q' = pending q \<Longrightarrow> isolated q' = isolated q \<Longrightarrow> kept E r q q'"
  by (simp add: kept_def)

lemma kept_stored:
  assumes "only_rejected_isolated (tp_report X) q q'" and "stored pending isolated R now report q"
  shows "stored pending isolated R now report q'"
proof -
  obtain bounded body i rec where enc: "encode_report_body R now report = Inr (bounded, body)" "sr_payload rec = body"
    and at: "pending q i = Some rec \<or> (\<exists>k. isolated q i = Some (rec, k))"
    using assms(2) unfolding stored_def by metis
  from at have "pending q' i = Some rec \<or> (\<exists>k. isolated q' i = Some (rec, k))"
  proof
    assume "pending q i = Some rec"
    with assms(1) show ?thesis unfolding only_rejected_isolated_def by metis
  next
    assume "\<exists>k. isolated q i = Some (rec, k)"
    moreover then have "pending q i = None" using apart_ids [of q i] by (cases "pending q i") auto
    ultimately show ?thesis using assms(1) unfolding only_rejected_isolated_def by metis
  qed
  with enc show ?thesis by (auto simp: stored_def)
qed

lemma enqueue_then:
  assumes "bindT (enqueue E R Q now report) (\<lambda>_. m) q = (res, q')" and "\<And>d. snd (m d) = d"
  shows "kept E r q q' \<and> (is_ok res \<longrightarrow> stored pending isolated R now report q')"
proof -
  obtain out q1 where e: "enqueue E R Q now report q = (out, q1)" by fastforce
  show ?thesis
  proof (cases out)
    case (Inl err)
    with e assms(1) have "q' = q1" "\<not> is_ok res" by (auto simp: bindT_def)
    with kept_enqueue [OF e] show ?thesis by simp
  next
    case (Inr u)
    with e assms(1) have "m q1 = (res, q')" by (simp add: bindT_def)
    with assms(2) [of q1] have "q' = q1" by simp
    with kept_enqueue [OF e] enqueue_stored [OF e [unfolded Inr]] show ?thesis by simp
  qed
qed

lemma flush_turn_result:
  assumes "once_inputs_ok E X Q pending r I" and "flush_turn E R Q I report q = (out, q')"
  shows "kept E r q q' \<and>
    (\<forall>o1. out = Some (Inr o1) \<longrightarrow> o1 = Shutdown \<and> stored pending isolated R (oi_now I) report q')"
proof -
  obtain f q1 where f: "oi_flush I q = (f, q1)" by fastforce
  have "(delivery_step E X Q pending r)\<^sup>*\<^sup>* q (snd (oi_flush I q))" using assms(1) by (simp add: once_inputs_ok_def)
  then have k1: "kept E r q q1" using steps_kept f by fastforce
  consider (stop) "f = None" | (failed) error where "f = Some (Inr (Failed error))"
    | (error) e where "f = Some (Inl e)" | (more) "out = None" "q' = q1"
    using assms(2) f by (cases f; cases "projr (the f)"; cases "the f") (auto simp: flush_turn_def)
  then show ?thesis
  proof cases
    case stop
    with assms(2) f obtain res where run: "retain_once_report E R Q (oi_now I) report q1 = (res, q')" and "out = Some res"
      by (auto simp: flush_turn_def apfst_def map_prod_def split: prod.splits)
    moreover have "kept E r q1 q' \<and> (is_ok res \<longrightarrow> stored pending isolated R (oi_now I) report q')"
      using run unfolding retain_once_report_def by (rule enqueue_then) (simp add: returnT_def)
    moreover have "res = Inr o1 \<Longrightarrow> o1 = Shutdown" for o1
      using run by (auto simp: retain_once_report_def bindT_def returnT_def split: prod.splits sum.splits)
    ultimately show ?thesis using kept_trans [OF k1] by (auto simp: is_ok_iff)
  next
    case (failed error)
    let ?e = "Context ''current report was retained while stored reports remain pending'' (Message (send_error_code error))"
    from failed assms(2) f obtain res where run: "bindT (enqueue E R Q (oi_now I) report) (\<lambda>_. failT ?e) q1 = (res, q')"
      and "out = Some res" by (auto simp: flush_turn_def apfst_def map_prod_def split: prod.splits)
    moreover have "kept E r q1 q'" using enqueue_then [OF run, of r] by (simp add: failT_def)
    moreover have "res \<noteq> Inr o1" for o1
      using run by (auto simp: bindT_def failT_def split: prod.splits sum.splits)
    ultimately show ?thesis using kept_trans [OF k1] by auto
  next
    case (error e)
    let ?e = "Context ''current report was retained because the local spool could not be flushed'' e"
    from error assms(2) f obtain res where run: "bindT (enqueue E R Q (oi_now I) report) (\<lambda>_. failT ?e) q1 = (res, q')"
      and "out = Some res" by (auto simp: flush_turn_def apfst_def map_prod_def split: prod.splits)
    moreover have "kept E r q1 q'" using enqueue_then [OF run, of r] by (simp add: failT_def)
    moreover have "res \<noteq> Inr o1" for o1
      using run by (auto simp: bindT_def failT_def split: prod.splits sum.splits)
    ultimately show ?thesis using kept_trans [OF k1] by auto
  qed (use k1 in simp)
qed

definition backlog_fine :: "'d env \<Rightarrow> report_ops \<Rightarrow> 'q once_inputs \<Rightarrow> client_report \<Rightarrow> reporter \<Rightarrow> 'q
    \<Rightarrow> (client_error + run_once_outcome) option \<times> 'q \<Rightarrow> bool" where
  "backlog_fine E R I report r q y \<longleftrightarrow> kept E r q (snd y) \<and>
     (\<forall>o1. fst y = Some (Inr o1) \<longrightarrow> o1 = Shutdown \<and> stored pending isolated R (oi_now I) report (snd y))"

lemma backlog_fineI:
  assumes "kept E r q q1" and "backlog_fine E R I report r q1 y"
  shows "backlog_fine E R I report r q y"
  using assms kept_trans unfolding backlog_fine_def by metis

lemma flush_backlog_result:
  assumes "once_inputs_ok E X Q pending r I" and "flush_backlog E R Q I report q = Some y"
  shows "backlog_fine E R I report r q y"
proof -
  let ?P = "\<lambda>E' R' Q' I' report' q y. E' = E \<and> R' = R \<and> Q' = Q \<and> I' = I \<and> report' = report \<longrightarrow>
    backlog_fine E R I report r q y"
  have "?P E R Q I report q y"
  proof (rule flush_backlog.raw_induct [where P = ?P, OF _ assms(2)])
    fix f E' R' Q' I' report' q0 and z :: "(client_error + run_once_outcome) option \<times> 'q"
    assume IH: "\<And>E' R' Q' I' report' q z. f E' R' Q' I' report' q = Some z \<Longrightarrow> ?P E' R' Q' I' report' q z"
      and body: "(case pending_count Q' q0 of
        (Inl e, q) \<Rightarrow> Some (Some (Inl e), q)
      | (Inr n, q) \<Rightarrow>
          if n = 0 then Some (None, q)
          else
            (case flush_turn E' R' Q' I' report' q of
               (Some res, q) \<Rightarrow> Some (Some res, q)
             | (None, q) \<Rightarrow> f E' R' Q' I' report' q)) = Some z"
    show "?P E' R' Q' I' report' q0 z"
    proof (intro impI, elim conjE)
      assume [simp]: "E' = E" "R' = R" "Q' = Q" "I' = I" "report' = report"
      obtain c q1 where c: "pending_count Q q0 = (c, q1)" by fastforce
      have k1: "kept E r q0 q1" using pending_count_keeps [OF c] same_kept by blast
      obtain t q2 where t: "flush_turn E R Q I report q1 = (t, q2)" by fastforce
      note turn = flush_turn_result [OF assms(1) t]
      consider (error) e where "c = Inl e" | (empty) "c = Inr 0"
        | (more) n where "c = Inr n" "n \<noteq> 0" by (cases c) auto
      then show "backlog_fine E R I report r q0 z"
      proof cases
        case more
        show ?thesis
        proof (cases t)
          case None
          with body c t more have "f E R Q I report q2 = Some z" by simp
          with IH have "backlog_fine E R I report r q2 z" by blast
          then show ?thesis using backlog_fineI kept_trans k1 turn by blast
        next
          case (Some res)
          with body c t more have "z = (Some res, q2)" by simp
          with turn Some have "backlog_fine E R I report r q1 z" by (simp add: backlog_fine_def)
          then show ?thesis by (rule backlog_fineI [OF k1])
        qed
      qed (use body c k1 in \<open>auto simp: backlog_fine_def\<close>)
    qed
  qed
  then show ?thesis by simp
qed

text \<open>What the outcome of a one-shot delivery of \<open>report\<close> tells.\<close>

definition outcome_truthful ::
  "'d env \<Rightarrow> reporter \<Rightarrow> time \<Rightarrow> client_report \<Rightarrow> client_error + run_once_outcome \<Rightarrow> 'q \<Rightarrow> bool" where
  "outcome_truthful E r now report res q \<longleftrightarrow>
     (res = Inr Delivered \<longrightarrow> delivered E X r report) \<and>
     (res = Inr Shutdown \<longrightarrow> delivered E X r report \<or> stored pending isolated (tp_report X) now report q)"

lemma acknowledge_after:
  assumes "bindT (acknowledge Q p) (\<lambda>_. m) q = (res, q')" and "\<And>d. snd (m d) = d"
  obtains ack where "acknowledge Q p q = (ack, q')" and "is_ok res \<longrightarrow> fst (m q') = res"
proof -
  obtain ack q1 where a: "acknowledge Q p q = (ack, q1)" by fastforce
  show thesis
  proof (cases ack)
    case (Inl e)
    with a assms(1) show thesis by (intro that [of ack]) (auto simp: bindT_def)
  next
    case (Inr u)
    with a assms(1) have "m q1 = (res, q')" by (simp add: bindT_def)
    with assms(2) [of q1] a show thesis by (intro that [of ack]) auto
  qed
qed

lemma deliver_queued_result:
  assumes inputs: "once_inputs_ok E X Q pending r I" and p: "handed_out X Q pending q p"
    and id: "rep_id (pr_report p) = rep_id report" and st: "stored pending isolated (tp_report X) now report q"
    and run: "deliver_queued Q I p q = (res, q')"
  shows "kept E r q q' \<and> outcome_truthful E r now report res q'"
proof (cases "oi_send I p")
  case None
  with run st show ?thesis
    by (auto simp: deliver_queued_def returnT_def outcome_truthful_def kept_refl)
next
  case (Some v)
  with inputs have att: "attempt E X r p v" by (simp add: once_inputs_ok_def)
  show ?thesis
  proof (cases v)
    case (Inr u)
    let ?m = "case oi_otlp I (pr_report p) of None \<Rightarrow> returnT Shutdown | Some _ \<Rightarrow> returnT Delivered"
    have "bindT (acknowledge Q p) (\<lambda>_. ?m) q = (res, q')" using run Some Inr by (simp add: deliver_queued_def)
    moreover have "\<And>d. snd (?m d) = d" by (simp add: returnT_def split: option.split)
    ultimately obtain ack where ack: "acknowledge Q p q = (ack, q')" by (rule acknowledge_after)
    have "delivery_step E X Q pending r q q'" using p att Inr ack by (intro step_acknowledge) auto
    moreover have "delivered E X r report" using attempt_delivered [OF att [unfolded Inr] id] .
    ultimately show ?thesis using step_kept by (auto simp: outcome_truthful_def)
  next
    case (Inl e)
    show ?thesis
    proof (cases "is_permanent e")
      case True
      let ?m = "failT (Context ''report was rejected permanently and was not spooled'' (Message (send_error_code e)))"
      have b: "bindT (acknowledge Q p) (\<lambda>_. ?m) q = (res, q')" using run Some Inl True by (simp add: deliver_queued_def)
      moreover have "\<And>d. snd (?m d) = d" by (simp add: failT_def)
      ultimately obtain ack where ack: "acknowledge Q p q = (ack, q')" by (rule acknowledge_after)
      have "delivery_step E X Q pending r q q'"
        using p att Inl ack True by (intro step_discard) (auto simp: disposition_discard)
      moreover have "\<not> is_ok res" using b by (auto simp: bindT_def failT_def split: prod.splits sum.splits)
      ultimately show ?thesis using step_kept by (auto simp: outcome_truthful_def)
    next
      case False
      with run Some Inl show ?thesis
        by (auto simp: deliver_queued_def failT_def outcome_truthful_def kept_refl)
    qed
  qed
qed

lemma deliver_current_result:
  assumes inputs: "once_inputs_ok E X Q pending r I"
    and run: "deliver_current E (tp_report X) Q I report q = Some (res, q')"
  shows "kept E r q q' \<and> outcome_truthful E r (oi_now I) report res q'"
proof -
  let ?R = "tp_report X"
  obtain en q1 where e: "enqueue E ?R Q (oi_now I) report q = (en, q1)" by fastforce
  have k1: "kept E r q q1" using kept_enqueue [OF e] .
  show ?thesis
  proof (cases en)
    case (Inl err)
    with run e k1 show ?thesis by (auto simp: deliver_current_def outcome_truthful_def)
  next
    case (Inr u)
    obtain out q2 where o2: "oldest ?R Q q1 = Some (out, q2)"
      using oldest_ends [of ?R q1] by fastforce
    have k2: "kept E r q q2" using kept_trans [OF k1 kept_oldest [OF o2]] .
    have st: "stored pending isolated ?R (oi_now I) report q2"
      using kept_stored enqueue_stored [OF e [unfolded Inr]] oldest_spec [OF o2] by blast
    consider (error) err where "out = Inl err" | (nothing) "out = Inr None"
      | (other) p where "out = Inr (Some p)" "rep_id (pr_report p) \<noteq> rep_id report"
      | (own) p where "out = Inr (Some p)" "rep_id (pr_report p) = rep_id report"
      by (cases out; cases "projr out") auto
    then show ?thesis
    proof cases
      case own
      have "handed_out X Q pending q2 p" using oldest_spec [OF o2] own by (auto simp: handed_out_def)
      moreover have "deliver_queued Q I p q2 = (res, q')" using run e Inr o2 own by (simp add: deliver_current_def)
      ultimately show ?thesis using deliver_queued_result [OF inputs _ own(2) st] kept_trans [OF k2] by blast
    qed (use run e Inr o2 k2 in \<open>auto simp: deliver_current_def outcome_truthful_def\<close>)
  qed
qed

text \<open>The report a one-shot delivery is about: the sample taken with the length of the queue.\<close>

lemma run_once_result:
  assumes inputs: "once_inputs_ok E X Q pending r I"
    and run: "run_once E (tp_report X) Q I q = Some (res, q')"
  shows "kept E r q q' \<and>
    (is_ok res \<longrightarrow> (\<exists>n. fst (pending_count Q q) = Inr n \<and> outcome_truthful E r (oi_now I) (oi_sample I n) res q'))"
proof -
  obtain c q1 where c: "pending_count Q q = (c, q1)" by fastforce
  have k1: "kept E r q q1" using pending_count_keeps [OF c] same_kept by blast
  show ?thesis
  proof (cases c)
    case (Inl e)
    with run c k1 show ?thesis by (auto simp: run_once_def)
  next
    case (Inr n)
    let ?report = "oi_sample I n"
    obtain out q2 where f: "flush_backlog E (tp_report X) Q I ?report q1 = Some (out, q2)"
      using run c Inr by (auto simp: run_once_def Let_def bind_eq_Some_conv)
    note flushed = flush_backlog_result [OF inputs f, unfolded backlog_fine_def fst_conv snd_conv]
    have k2: "kept E r q q2" using kept_trans k1 flushed by blast
    show ?thesis
    proof (cases out)
      case None
      with run c Inr f have "deliver_current E (tp_report X) Q I ?report q2 = Some (res, q')"
        by (simp add: run_once_def)
      from deliver_current_result [OF inputs this] show ?thesis using kept_trans [OF k2] c Inr by auto
    next
      case (Some r2)
      with run c Inr f have "res = r2" "q' = q2" by (simp_all add: run_once_def)
      with flushed Some c Inr k2 show ?thesis by (auto simp: outcome_truthful_def is_ok_iff)
    qed
  qed
qed

end

end
