(* ===== verification/Example_Report.thy ===== *)
theory Example_Report
  imports Report_Fit Example_Data
begin

text \<open>
  Report operations with concrete limits and encoders that distinguish values, and reports on
  which the theorems of the report contract are applied.
\<close>

section \<open>Encoders\<close>

definition option_text :: "('a \<Rightarrow> string) \<Rightarrow> 'a option \<Rightarrow> string" where
  "option_text f v = (case v of None \<Rightarrow> [] | Some x \<Rightarrow> CHR ''y'' # f x)"

definition bool_text :: "bool \<Rightarrow> string" where
  "bool_text b = (if b then ''t'' else ''f'')"

lemma word64_text_inj [simp]: "word64_text a = word64_text b \<longleftrightarrow> a = b"
  by (metis word64_round)

lemma fields_text_inj [simp]: "fields_text fs = fields_text gs \<longleftrightarrow> fs = gs"
  by (metis option.inject parse_fields_text)

lemma option_text_inj: "(\<And>x y. f x = f y \<longleftrightarrow> x = y) \<Longrightarrow> option_text f a = option_text f b \<longleftrightarrow> a = b"
  by (auto simp: option_text_def split: option.splits)

lemma option_word_text_inj [simp]: "option_text word64_text a = option_text word64_text b \<longleftrightarrow> a = b"
  by (rule option_text_inj) simp

lemma bool_text_inj [simp]: "bool_text a = bool_text b \<longleftrightarrow> a = b"
  by (simp add: bool_text_def)

definition network_text :: "network_snapshot \<Rightarrow> string" where
  "network_text n = fields_text [net_name n, word64_text (net_received_total n), word64_text (net_transmitted_total n),
     word64_text (net_received_per_second n), word64_text (net_transmitted_per_second n),
     word64_text (net_packets_received n), word64_text (net_packets_transmitted n),
     word64_text (net_receive_errors n), word64_text (net_transmit_errors n)]"

definition disk_text :: "disk_snapshot \<Rightarrow> string" where
  "disk_text d = fields_text [dsk_name d, dsk_mount_point d, dsk_file_system d, word64_text (dsk_total d),
     word64_text (dsk_available d), word64_text (dsk_read_total d), word64_text (dsk_written_total d),
     word64_text (dsk_read_per_second d), word64_text (dsk_written_per_second d), bool_text (dsk_read_only d)]"

definition temperature_text :: "temperature_snapshot \<Rightarrow> string" where
  "temperature_text t = fields_text [tmp_id t, tmp_label t, option_text word64_text (tmp_celsius t),
     option_text word64_text (tmp_max t), option_text word64_text (tmp_critical t), tmp_source t]"

definition gpu_text :: "gpu_snapshot \<Rightarrow> string" where
  "gpu_text g = fields_text ([gpu_id g, gpu_vendor g, gpu_name g] @ map (option_text word64_text)
     [gpu_utilization g, gpu_memory_total g, gpu_memory_used g, gpu_temperature g, gpu_power g, gpu_core_clock g,
      gpu_memory_clock g, gpu_pcie_rx g, gpu_pcie_tx g] @ [gpu_source g])"

definition capability_text :: "capability \<Rightarrow> string" where
  "capability_text c = fields_text [cap_name c, bool_text (cap_available c), cap_source c]"

definition report_text :: "client_report \<Rightarrow> string" where
  "report_text r = (let s = rep_system r in fields_text ([rep_id r, word64_text (ch_collector_errors (rep_client r))] @
     map capability_text (rep_capabilities r) @ map network_text (sys_networks s) @ map disk_text (sys_disks s) @
     map temperature_text (sys_temperatures s) @ map gpu_text (sys_gpus s)))"

lemma network_text_inj: "inj_on network_text X"
  by (rule inj_onI) (simp add: network_text_def)

lemma disk_text_inj: "inj_on disk_text X"
  by (rule inj_onI) (simp add: disk_text_def)

lemma temperature_text_inj: "inj_on temperature_text X"
  by (rule inj_onI) (simp add: temperature_text_def)

lemma gpu_text_inj: "inj_on gpu_text X"
  by (rule inj_onI) (simp add: gpu_text_def)

section \<open>Reports\<close>

definition ex_network :: "string \<Rightarrow> f64 \<Rightarrow> f64 \<Rightarrow> network_snapshot" where
  "ex_network name received transmitted = \<lparr>net_name = name, net_received_total = 1, net_transmitted_total = 2,
     net_received_per_second = received, net_transmitted_per_second = transmitted, net_packets_received = 0,
     net_packets_transmitted = 0, net_receive_errors = 0, net_transmit_errors = 0\<rparr>"

definition ex_report :: client_report where
  "ex_report = \<lparr>rep_schema_version = 1, rep_id = ''r'', rep_collected_at = 7,
     rep_host = ref_host\<lparr>hi_id := ref_uuid_text 3\<rparr>, rep_interval = f64_100,
     rep_system = \<lparr>sys_hardware = None, sys_uptime = 3,
       sys_cpu = \<lparr>cpu_usage = f64_1000, cpu_logical = 0, cpu_physical = Some 9, cpu_per_core = []\<rparr>,
       sys_memory = \<lparr>ram_total = 4, ram_used = 5, ram_available = 1, swap_total = 0, swap_used = 0\<rparr>,
       sys_networks = [ex_network ''a'' 0 0, ex_network ''b'' f64_100 0, ex_network ''c'' 0 f64_1000],
       sys_disks = [], sys_temperatures = [], sys_gpus = []\<rparr>,
     rep_capabilities = [], rep_client = \<lparr>ch_spool_pending = 0, ch_collector_errors = 0\<rparr>\<rparr>"

definition ex_bounded_system :: system_snapshot where
  "ex_bounded_system = \<lparr>sys_hardware = None, sys_uptime = 3,
     sys_cpu = \<lparr>cpu_usage = f64_100, cpu_logical = 1, cpu_physical = None, cpu_per_core = [f64_100]\<rparr>,
     sys_memory = \<lparr>ram_total = 4, ram_used = 4, ram_available = 1, swap_total = 0, swap_used = 0\<rparr>,
     sys_networks = [ex_network ''b'' f64_100 0, ex_network ''c'' 0 f64_1000],
     sys_disks = [], sys_temperatures = [], sys_gpus = []\<rparr>"

text \<open>The report after bounding: the two busiest interfaces, clamped numbers, and the marker.\<close>

definition ex_bounded :: client_report where
  "ex_bounded = ex_report\<lparr>rep_system := ex_bounded_system, rep_capabilities := [truncation_marker],
     rep_client := \<lparr>ch_spool_pending = 0, ch_collector_errors = 1\<rparr>\<rparr>"

section \<open>Operations\<close>

definition ref_text_limits :: text_limits where
  "ref_text_limits = \<lparr>tl_host_os = 64, tl_host_version = 64, tl_host_arch = 64, tl_client_version = 64,
     tl_capability_name = 64, tl_capability_source = 64, tl_capability_message = 256, tl_network_name = 8,
     tl_disk_name = 64, tl_mount_point = 64, tl_file_system = 64, tl_temperature_id = 64, tl_temperature_label = 64,
     tl_temperature_source = 64, tl_gpu_id = 64, tl_gpu_vendor = 64, tl_gpu_name = 64, tl_gpu_source = 64,
     tl_hardware = 64\<rparr>"

definition ref_count_limits :: count_limits where
  "ref_count_limits = \<lparr>cl_cpu_cores = 2, cl_capabilities = 4, cl_networks = 2, cl_disks = 2, cl_temperatures = 2,
     cl_gpus = 2, cl_memory_modules = 2, cl_hardware_devices = 2, cl_hardware_networks = 2, cl_hardware_sensors = 2,
     cl_hardware_disks = 2\<rparr>"

definition ref_ops :: report_ops where
  "ref_ops = \<lparr>ro_schema_version = 1, ro_max_body = 4096, ro_text = ref_text_limits, ro_count = ref_count_limits,
     ro_min_interval = f64_zero, ro_max_interval = f64_1000, ro_encode = Some \<circ> report_text, ro_decode = [report_text ex_bounded \<mapsto> ex_bounded],
     ro_capability_json = Some \<circ> capability_text, ro_network_json = Some \<circ> network_text,
     ro_disk_json = Some \<circ> disk_text, ro_temperature_json = Some \<circ> temperature_text, ro_gpu_json = Some \<circ> gpu_text,
     ro_scaled = (\<lambda>current n. n * 4096 div current), ro_max_zero = f64_zero\<rparr>"

lemma ref_keys: "exact_keys ref_ops"
  unfolding exact_keys_def ref_ops_def report_ops.simps serialized_key_def comp_apply option.case
  by (intro conjI network_text_inj disk_text_inj temperature_text_inj gpu_text_inj)

lemma strip_kept: "clean s \<Longrightarrow> length s \<le> n \<Longrightarrow> strip_controls_and_truncate n s = s"
  by (simp add: strip_controls_and_truncate_def clean_def truncate_utf8_def)

lemma required_kept: "clean s \<Longrightarrow> length s \<le> n \<Longrightarrow> trim s \<noteq> [] \<Longrightarrow> bound_required_text n t s = (s, False)"
  by (simp add: bound_required_text_def strip_kept)

lemma nonempty_kept: "clean s \<Longrightarrow> length s \<le> n \<Longrightarrow> trim s \<noteq> [] \<Longrightarrow> bound_optional_nonempty_text n (Some s) = (Some s, False)"
  by (simp add: bound_optional_nonempty_text_def strip_kept)

lemma clean_plain: "list_all plain_byte s \<Longrightarrow> list_all (\<lambda>c. byte c \<noteq> 127) s \<Longrightarrow> clean s"
proof -
  assume plain: "list_all plain_byte s" and no: "list_all (\<lambda>c. byte c \<noteq> 127) s"
  then have "\<forall>c \<in> set s. \<not> continuation_byte c"
    by (auto simp: list_all_iff plain_byte_def continuation_byte_def continuation_def)
  then have "chars s = map (\<lambda>c. [c]) s"
  proof (induction s)
    case (Cons c s)
    then have "takeWhile continuation_byte s = []" "dropWhile continuation_byte s = s"
      by (cases s; simp)+
    with Cons show ?case by simp
  qed simp
  moreover have "\<forall>c \<in> set s. \<not> is_control [c]"
    using plain no by (auto simp: list_all_iff plain_byte_def)
  ultimately have "filter (\<lambda>c. \<not> is_control c) (chars s) = map (\<lambda>c. [c]) s"
    by (simp add: filter_id_conv)
  then show "clean s" by (simp add: clean_def strip_controls_def)
qed

definition marker_message :: string where
  "marker_message = ''one or more collected values were bounded to the current report contract''"

lemma marker_message: "clean marker_message" "length marker_message \<le> 256" "trim marker_message \<noteq> []"
proof -
  show "clean marker_message"
    by (simp add: marker_message_def clean_def strip_controls_def continuation_byte_def continuation_def byte_def)
  have "\<not> blank_edge marker_message"
    by (simp add: marker_message_def blank_edge_def whitespace_encodings_def starts_with_def char_of_def)
  then show "trim marker_message \<noteq> []" by (simp add: trim_id) (simp add: marker_message_def)
qed (simp add: marker_message_def)

lemma plain_trim: "list_all plain_byte s \<Longrightarrow> s \<noteq> [] \<Longrightarrow> trim s \<noteq> []"
  by (simp add: trim_id plain_text_edges)

lemma marker_name: "clean truncated_capability" "length truncated_capability \<le> 64" "trim truncated_capability \<noteq> []"
  by (rule clean_plain; simp add: truncated_capability_def plain_byte_def byte_def)
    (simp add: truncated_capability_def, rule plain_trim, simp_all add: truncated_capability_def plain_byte_def byte_def)

lemma marker_source: "clean ''xsoc''" "trim ''xsoc'' \<noteq> []"
  by (rule clean_plain; simp add: plain_byte_def byte_def)
    (rule plain_trim, simp_all add: plain_byte_def byte_def)

lemma ref_marker: "marker_fits ref_ops"
  unfolding marker_fits_def bound_capability_def truncation_marker_def capability_unavailable_def
    marker_message_def [symmetric] Let_def
  by (intro settled_steps)
    (simp add: settled_def step_def ref_ops_def ref_text_limits_def required_kept nonempty_kept marker_message
      marker_name marker_source)

lemma ref_limits_ok: "report_limits_ok ref_ops"
  unfolding report_limits_ok_def
  by (simp add: ref_keys ref_marker) (simp add: ref_ops_def ref_count_limits_def interval_limits_ok_def
      zero_choice_def is_finite_def f64_magnitude_def f64_1000_def f64_le_def is_nan_def f64_key_def f64_negative_def)

lemma ref_limits_positive: "limits_positive (ro_text ref_ops)"
  by (simp add: limits_positive_def ref_ops_def ref_text_limits_def)

section \<open>Bounding the report\<close>

lemma ex_text:
  "bound_required_text n t s = (s, False)"
  if "list_all plain_byte s" "list_all (\<lambda>c. byte c \<noteq> 127) s" "s \<noteq> []" "length s \<le> n"
  using that by (simp add: required_kept clean_plain plain_trim)

lemma ex_host: "fst (bound_host ref_ops (ref_host\<lparr>hi_id := i\<rparr>)) = ref_host\<lparr>hi_id := i\<rparr>"
  unfolding bound_host_def ref_ops_def ref_text_limits_def ref_host_def Let_def fst_steps fst_step
  by (simp add: ex_text bound_optional_text_def plain_byte_def byte_def)

lemma ex_networks: "map (\<lambda>n. fst (bound_network ref_ops n)) (sys_networks (rep_system ex_report)) = sys_networks (rep_system ex_report)"
  unfolding bound_network_def Let_def fst_steps fst_step ex_report_def ref_ops_def ref_text_limits_def ex_network_def
  by (simp add: ex_text plain_byte_def byte_def bound_nonnegative_def replace_f64_def f64_max_def f64_100_def f64_1000_def
    is_finite_def is_nan_def f64_magnitude_def f64_key_def f64_negative_def)

lemma ex_sorted: "sort_key (serialized_key (ro_network_json ref_ops)) (sys_networks (rep_system ex_report)) = sys_networks (rep_system ex_report)"
  by (intro sort_key_id_if_sorted) (simp add: ex_report_def serialized_key_def ref_ops_def network_text_def ex_network_def
    fields_text_def field_text_def word64_text_def digits_of_def)

lemma ex_peaks:
  "fst (prioritize (ro_network_json ref_ops) network_metrics 2 (sys_networks (rep_system ex_report))) =
     [ex_network ''b'' f64_100 0, ex_network ''c'' 0 f64_1000]"
  unfolding prioritize_def prioritize_by_metrics_def Let_def ex_sorted fst_truncate_list
  by (simp add: ex_report_def network_metrics_def ex_network_def peak_index_def map_filter_simps total_key_def
      f64_negative_def f64_magnitude_def f64_100_def f64_1000_def)

lemma ex_percent: "fst (bound_percent f64_1000) = f64_100"
  by (simp add: bound_percent_def replace_f64_def is_finite_def f64_magnitude_def f64_clamp_def f64_less_def is_nan_def
      f64_key_def f64_negative_def f64_100_def f64_1000_def)

lemma ex_percent_again: "fst (bound_percent f64_100) = f64_100"
  by (simp add: bound_percent_def replace_f64_def is_finite_def f64_magnitude_def f64_clamp_def f64_less_def is_nan_def
      f64_key_def f64_negative_def f64_100_def)

lemma ex_interval: "fst (bound_interval ref_ops f64_100) = f64_100"
  by (simp add: bound_interval_def ref_ops_def replace_f64_def is_finite_def f64_magnitude_def f64_clamp_def f64_less_def
      is_nan_def f64_key_def f64_negative_def f64_100_def f64_1000_def)

lemma prioritize_Nil: "fst (prioritize_by_metrics key ms []) = []"
  using set_prioritize [of key ms "[]"] by simp

lemma ex_parts:
  "fst (bound_parts ref_ops 5 True ex_report) = ex_report\<lparr>rep_system := ex_bounded_system\<rparr>"
proof -
  have "fst (bound_capabilities ref_ops []) = []"
    by (simp add: bound_capabilities_def fst_steps order_capabilities_def)
  moreover have "bounded_system ref_ops (rep_system ex_report) = (rep_system ex_report)\<lparr>
      sys_cpu := (sys_cpu (rep_system ex_report))\<lparr>cpu_usage := f64_100\<rparr>,
      sys_memory := sys_memory ex_bounded_system\<rparr>"
    using ex_networks
    by (simp add: bounded_system_def ex_report_def ex_percent bound_memory_def fst_steps at_most_def ex_bounded_system_def)
  moreover have "cl_networks (ro_count ref_ops) = 2" "cl_cpu_cores (ro_count ref_ops) = 2"
    by (simp_all add: ref_ops_def ref_count_limits_def)
  moreover have "sys_networks (rep_system ex_report) =
      [ex_network ''a'' 0 0, ex_network ''b'' f64_100 0, ex_network ''c'' 0 f64_1000]" by (simp add: ex_report_def)
  ultimately show ?thesis
    using ex_peaks
    by (simp add: parts_result normalize_result Let_def ex_report_def ex_host ex_interval bounded_time_def clamp_collected_at_def
        prioritize_Nil bounded_hardware_def ex_bounded_system_def bound_cpu_def fst_steps ex_percent_again)
qed

lemma ex_changed: "snd (bound_parts ref_ops 5 True ex_report)"
proof -
  have "snd (bound_percent f64_1000)" by (simp add: bound_percent_def replace_f64_def is_finite_def f64_magnitude_def
      f64_clamp_def f64_less_def is_nan_def f64_key_def f64_negative_def f64_100_def f64_1000_def)
  then have "snd (normalize_scalars_and_text ref_ops 5 True ex_report)"
    unfolding normalize_scalars_and_text_def by (simp add: steps.simps step_def ex_report_def)
  then show ?thesis unfolding bound_parts_def Let_def steps.simps snd_conv by (rule disjI1)
qed

lemma ex_fits: "serialized_len ref_ops ex_bounded \<le> 4096"
  by (simp add: serialized_len_def ref_ops_def report_text_def ex_bounded_def ex_bounded_system_def ex_report_def
      capability_text_def network_text_def ex_network_def truncation_marker_def capability_unavailable_def
      truncated_capability_def word64_text_def bool_text_def Let_def)

lemma ex_bound: "bound_report_with_time_policy ref_ops 5 True ex_report = (ex_bounded, True)"
proof -
  have parts: "bound_parts ref_ops 5 True ex_report = (ex_report\<lparr>rep_system := ex_bounded_system\<rparr>, True)"
    using ex_parts ex_changed by (simp add: prod_eq_iff)
  have marked: "mark_truncated ref_ops (ex_report\<lparr>rep_system := ex_bounded_system\<rparr>) = ex_bounded"
    by (simp add: mark_truncated_def ex_report_def ex_bounded_def order_capabilities_def ref_ops_def ref_count_limits_def
        saturating_add64_def)
  have max: "ro_max_body ref_ops = 4096" by (simp add: ref_ops_def)
  have "is_marked ex_report = False" by (simp add: is_marked_def ex_report_def)
  then show ?thesis
    using ex_fits by (simp add: bound_report_with_time_policy_def Let_def parts marked fit_body_small max)
qed

lemma ex_encoded: "encode_report_body ref_ops 5 ex_report = Inr (ex_bounded, report_text ex_bounded)"
  using ex_fits
  by (simp add: encode_report_body_def encode_report_body_inner_def ex_bound)
     (simp add: ref_ops_def ex_report_def serialized_len_def)
end
