(* ===== verification/Memory_Queue.thy ===== *)
theory Memory_Queue
  imports Delivery_Correct Example_Report
begin

text \<open>
  A queue held in memory, with a plan of faults for the calls to come. It has the laws that
  \<open>record_queue\<close> and \<open>report_queue\<close> state of the record store, so the statements on the queue
  apply to a concrete one, with and without failing calls.
\<close>

section \<open>The queue\<close>

type_synonym mem_entry = "spool_record \<times> quarantine_reason option"

record mem_queue =
  mq_entries :: "(record_id \<times> mem_entry) list"
  mq_faults :: "fault list"

definition mem_budget :: nat where
  "mem_budget = 4096"

definition mem_record :: "record_id \<Rightarrow> mem_entry \<Rightarrow> spool_record option" where
  "mem_record i e = (case e of
     (r, None) \<Rightarrow> if length (sr_payload r) \<le> mem_budget then Some (r\<lparr>sr_id := i\<rparr>) else None
   | (r, Some k) \<Rightarrow> None)"

definition mem_pending :: "mem_queue \<Rightarrow> record_id \<Rightarrow> spool_record option" where
  "mem_pending q i = Option.bind (map_of (mq_entries q) i) (mem_record i)"

definition mem_isolated :: "mem_queue \<Rightarrow> record_id \<Rightarrow> (spool_record \<times> quarantine_reason) option" where
  "mem_isolated q i = (case map_of (mq_entries q) i of Some (r, Some k) \<Rightarrow> Some (r\<lparr>sr_id := i\<rparr>, k) | _ \<Rightarrow> None)"

definition mem_ids :: "mem_queue \<Rightarrow> record_id list" where
  "mem_ids q = remdups (List.filter (\<lambda>i. mem_pending q i \<noteq> None) (map fst (mq_entries q)))"

definition mem_fresh :: "mem_queue \<Rightarrow> record_id" where
  "mem_fresh q = Suc (sum_list (map fst (mq_entries q)))"

text \<open>One call: the head of the plan decides whether it fails, and on which side.\<close>

definition queue_call ::
  "'r \<Rightarrow> (mem_queue \<Rightarrow> (record_id \<times> mem_entry) list) \<Rightarrow> (mem_queue, client_error, 'r) tx" where
  "queue_call result effect q =
     (case mq_faults q of
        [] \<Rightarrow> (Inr result, q\<lparr>mq_entries := effect q\<rparr>)
      | Proceed # fs \<Rightarrow> (Inr result, q\<lparr>mq_entries := effect q, mq_faults := fs\<rparr>)
      | Fail_Before # fs \<Rightarrow> (Inl (Message ''injected fault''), q\<lparr>mq_faults := fs\<rparr>)
      | Fail_After # fs \<Rightarrow> (Inl (Message ''injected fault''), q\<lparr>mq_entries := effect q, mq_faults := fs\<rparr>))"

definition mem_next :: "(mem_queue, client_error, spool_record option) tx" where
  "mem_next q = queue_call (case mem_ids q of [] \<Rightarrow> None | i # _ \<Rightarrow> mem_pending q i) mq_entries q"

definition mem_usage :: "(mem_queue, client_error, nat \<times> nat) tx" where
  "mem_usage q = queue_call (length (mem_ids q), 0) mq_entries q"

definition mem_enqueue :: "string \<Rightarrow> int \<Rightarrow> string \<Rightarrow> (mem_queue, client_error, unit) tx" where
  "mem_enqueue c t b q =
     (if length b \<le> mem_budget
      then queue_call () (\<lambda>q. mq_entries q @
        [(mem_fresh q, \<lparr>sr_id = mem_fresh q, sr_contract = c, sr_created = t, sr_payload = b\<rparr>, None)]) q
      else (Inl (Message ''record exceeds its budget''), q))"

definition mem_ack :: "record_id \<Rightarrow> (mem_queue, client_error, unit) tx" where
  "mem_ack i q =
     (if mem_pending q i = None then (Inl (Message ''no such record''), q)
      else queue_call () (\<lambda>q. List.filter (\<lambda>e. fst e \<noteq> i) (mq_entries q)) q)"

definition mem_quarantine :: "record_id \<Rightarrow> quarantine_reason \<Rightarrow> (mem_queue, client_error, unit) tx" where
  "mem_quarantine i k q =
     (case mem_pending q i of
        None \<Rightarrow> (Inl (Message ''no such record''), q)
      | Some r \<Rightarrow> queue_call () (\<lambda>q. (i, r, Some k) # mq_entries q) q)"

definition mem_inventory :: "(mem_queue, client_error, spool_inventory) tx" where
  "mem_inventory q =
     (let bad = List.filter (\<lambda>i. mem_isolated q i \<noteq> None) (map fst (mq_entries q)) in
      (Inr \<lparr>si_entries = length (mem_ids q), si_bytes = 0, si_quarantined = length bad,
         si_identity_mismatch = length (List.filter (\<lambda>i. map_option snd (mem_isolated q i) = Some Quarantine_Identity_Mismatch) bad),
         si_healthy = True, si_capacity_remaining = True\<rparr>, q))"

definition mem_queue_ops :: "(string \<Rightarrow> json option) \<Rightarrow> mem_queue queue_ops" where
  "mem_queue_ops schema = \<lparr>
     qo_max_entries = 16,
     qo_limits_valid = (\<lambda>l. 0 < sl_max_entries l),
     qo_create_child = (\<lambda>_. queue_call () mq_entries),
     qo_from_directory = (\<lambda>_ _. queue_call () mq_entries),
     qo_bounded_bytes = (\<lambda>b n. if length b \<le> n then Some b else None),
     qo_usage = mem_usage,
     qo_doctor = mem_inventory,
     qo_inspect_existing = (\<lambda>_ _. mem_inventory),
     qo_next = mem_next,
     qo_enqueue = mem_enqueue,
     qo_ack = mem_ack,
     qo_quarantine = mem_quarantine,
     qo_schema_version = schema \<rparr>"

section \<open>Its laws\<close>

lemma queue_call_cases:
  "mq_entries (snd (queue_call x f q)) = f q \<or>
   mq_entries (snd (queue_call x f q)) = mq_entries q \<and> \<not> is_ok (fst (queue_call x f q))"
  by (auto simp: queue_call_def split: list.splits fault.splits)

lemma queue_call_same: "mq_entries (snd (queue_call x mq_entries q)) = mq_entries q"
  using queue_call_cases [of x mq_entries q] by auto

lemma queue_call_value: "fst (queue_call x f q) = Inr y \<Longrightarrow> y = x"
  by (auto simp: queue_call_def split: list.splits fault.splits)

lemma same_entries:
  "mq_entries q' = mq_entries q \<Longrightarrow> mem_pending q' = mem_pending q \<and> mem_isolated q' = mem_isolated q"
  by (simp add: mem_pending_def mem_isolated_def fun_eq_iff)

lemma mem_ids_set: "set (mem_ids q) = dom (mem_pending q)"
  by (auto simp: mem_ids_def mem_pending_def dom_def bind_eq_Some_conv intro: map_of_SomeD rev_image_eqI)

lemma mem_ids_length: "length (mem_ids q) = card (dom (mem_pending q))"
proof -
  have "distinct (mem_ids q)" by (simp add: mem_ids_def)
  then show ?thesis unfolding mem_ids_set [symmetric] by (rule distinct_card [symmetric])
qed

lemma fresh_unused: "map_of (mq_entries q) (mem_fresh q) = None"
proof -
  have "i \<le> sum_list (map fst es)" if "i \<in> fst ` set es" for i and es :: "(nat \<times> mem_entry) list"
    using that by (intro member_le_sum_list) auto
  then have "mem_fresh q \<notin> fst ` set (mq_entries q)" unfolding mem_fresh_def by fastforce
  then show ?thesis by (simp add: map_of_eq_None_iff)
qed

lemma mem_pending_id: "mem_pending q i = Some r \<Longrightarrow> sr_id r = i"
  by (auto simp: mem_pending_def mem_record_def bind_eq_Some_conv split: option.splits if_splits prod.splits)

lemma mem_pending_size: "mem_pending q i = Some r \<Longrightarrow> length (sr_payload r) \<le> mem_budget"
  by (auto simp: mem_pending_def mem_record_def bind_eq_Some_conv split: option.splits if_splits prod.splits)

lemma mem_apart: "mem_pending q i = Some r \<Longrightarrow> mem_isolated q i = None"
  by (auto simp: mem_pending_def mem_isolated_def mem_record_def bind_eq_Some_conv split: option.splits prod.splits)

lemma map_of_without: "map_of (List.filter (\<lambda>e. fst e \<noteq> i) es) = (map_of es)(i := None)"
  by (induction es) (auto simp: fun_eq_iff)

lemma ack_entries:
  assumes "mq_entries q' = List.filter (\<lambda>e. fst e \<noteq> i) (mq_entries q)" and "mem_pending q i \<noteq> None"
  shows "mem_pending q' = (mem_pending q)(i := None) \<and> mem_isolated q' = mem_isolated q"
  using assms mem_apart [of q i]
  by (auto simp: mem_pending_def [abs_def] mem_isolated_def [abs_def] map_of_without fun_eq_iff)

lemma quarantine_entries:
  assumes "mq_entries q' = (i, r, Some k) # mq_entries q" and "mem_pending q i = Some r"
  shows "mem_pending q' = (mem_pending q)(i := None) \<and> mem_isolated q' = (mem_isolated q)(i \<mapsto> (r, k))"
  using assms mem_pending_id [OF assms(2)]
  by (auto simp: mem_pending_def [abs_def] mem_isolated_def [abs_def] mem_record_def fun_eq_iff)

lemma enqueue_entries:
  assumes "mq_entries q' = mq_entries q @ [(i, \<lparr>sr_id = i, sr_contract = c, sr_created = t, sr_payload = b\<rparr>, None)]"
    and "map_of (mq_entries q) i = None" and "length b \<le> mem_budget"
  shows "mem_pending q' = (mem_pending q)(i \<mapsto> \<lparr>sr_id = i, sr_contract = c, sr_created = t, sr_payload = b\<rparr>) \<and>
    mem_isolated q' = mem_isolated q"
  using assms
  by (auto simp: mem_pending_def [abs_def] mem_isolated_def [abs_def] mem_record_def map_add_def fun_eq_iff
      split: option.splits)

lemma mem_enqueue_cases:
  "mem_isolated (snd (mem_enqueue c t b q)) = mem_isolated q \<and>
    (mem_pending (snd (mem_enqueue c t b q)) = mem_pending q \<and> \<not> is_ok (fst (mem_enqueue c t b q)) \<or>
     (\<exists>i. mem_pending q i = None \<and> mem_pending (snd (mem_enqueue c t b q)) =
        (mem_pending q)(i \<mapsto> \<lparr>sr_id = i, sr_contract = c, sr_created = t, sr_payload = b\<rparr>)))"
proof (cases "length b \<le> mem_budget")
  case True
  let ?f = "\<lambda>q. mq_entries q @
    [(mem_fresh q, \<lparr>sr_id = mem_fresh q, sr_contract = c, sr_created = t, sr_payload = b\<rparr>, None)]"
  have call: "mem_enqueue c t b q = queue_call () ?f q" using True by (simp add: mem_enqueue_def)
  have "mem_pending q (mem_fresh q) = None" by (simp add: mem_pending_def fresh_unused)
  moreover consider "mq_entries (snd (queue_call () ?f q)) = ?f q"
    | "mq_entries (snd (queue_call () ?f q)) = mq_entries q" "\<not> is_ok (fst (queue_call () ?f q))"
    using queue_call_cases [of "()" ?f q] by blast
  then have "mem_isolated (snd (queue_call () ?f q)) = mem_isolated q \<and>
    (mem_pending (snd (queue_call () ?f q)) = mem_pending q \<and> \<not> is_ok (fst (queue_call () ?f q)) \<or>
     mem_pending (snd (queue_call () ?f q)) = (mem_pending q)(mem_fresh q \<mapsto>
       \<lparr>sr_id = mem_fresh q, sr_contract = c, sr_created = t, sr_payload = b\<rparr>))"
  proof cases
    case 1
    then show ?thesis using enqueue_entries [OF 1 fresh_unused True] by blast
  next
    case 2
    then show ?thesis using same_entries by blast
  qed
  ultimately show ?thesis unfolding call by blast
qed (simp add: mem_enqueue_def)

lemma mem_ack_cases:
  "mem_isolated (snd (mem_ack i q)) = mem_isolated q \<and>
    (mem_pending (snd (mem_ack i q)) = mem_pending q \<and> \<not> is_ok (fst (mem_ack i q)) \<or>
     mem_pending (snd (mem_ack i q)) = (mem_pending q)(i := None))"
proof (cases "mem_pending q i = None")
  case False
  then have call: "mem_ack i q = queue_call () (\<lambda>q. List.filter (\<lambda>e. fst e \<noteq> i) (mq_entries q)) q"
    unfolding mem_ack_def by meson
  show ?thesis
    using queue_call_cases [of "()" "\<lambda>q. List.filter (\<lambda>e. fst e \<noteq> i) (mq_entries q)" q]
      ack_entries [OF _ False] same_entries [of _ q] unfolding call by metis
qed (simp add: mem_ack_def)

lemma mem_quarantine_cases:
  assumes "mem_pending q i = Some r"
  shows "mem_pending (snd (mem_quarantine i k q)) = mem_pending q \<and> mem_isolated (snd (mem_quarantine i k q)) = mem_isolated q
      \<and> \<not> is_ok (fst (mem_quarantine i k q)) \<or>
    mem_pending (snd (mem_quarantine i k q)) = (mem_pending q)(i := None) \<and>
      mem_isolated (snd (mem_quarantine i k q)) = (mem_isolated q)(i \<mapsto> (r, k))"
proof -
  have call: "mem_quarantine i k q = queue_call () (\<lambda>q. (i, r, Some k) # mq_entries q) q"
    using assms by (simp add: mem_quarantine_def)
  show ?thesis
    using queue_call_cases [of "()" "\<lambda>q. (i, r, Some k) # mq_entries q" q]
      quarantine_entries [OF _ assms] same_entries [of _ q] unfolding call by metis
qed

lemma mem_next_some:
  assumes "fst (mem_next q) = Inr (Some r)"
  shows "mem_pending q (sr_id r) = Some r"
proof -
  have "(case mem_ids q of [] \<Rightarrow> None | i # _ \<Rightarrow> mem_pending q i) = Some r"
    using queue_call_value assms unfolding mem_next_def by metis
  then obtain i where "mem_pending q i = Some r" by (auto split: list.splits)
  with mem_pending_id [OF this] show ?thesis by simp
qed

lemma mem_next_none:
  assumes "fst (mem_next q) = Inr None"
  shows "mem_pending q = Map.empty"
proof (cases "mem_ids q")
  case Nil
  then have "dom (mem_pending q) = {}" using mem_ids_set [of q] by simp
  then show ?thesis by simp
next
  case (Cons i zs)
  have "(case mem_ids q of [] \<Rightarrow> None | i # _ \<Rightarrow> mem_pending q i) = None"
    using queue_call_value assms unfolding mem_next_def by metis
  with Cons have "mem_pending q i = None" by simp
  moreover have "i \<in> dom (mem_pending q)" using Cons mem_ids_set [of q] by auto
  ultimately show ?thesis by blast
qed

lemma mem_keeps:
  "mem_pending (snd (queue_call x mq_entries q)) = mem_pending q \<and> mem_isolated (snd (queue_call x mq_entries q)) = mem_isolated q"
  by (rule same_entries [OF queue_call_same])

lemma mem_usage_count: "fst (mem_usage q) = Inr (n, used) \<Longrightarrow> n = card (dom (mem_pending q))"
  unfolding mem_usage_def mem_ids_length using queue_call_value by fastforce

lemmas mem_queue_fields = mem_queue_ops_def queue_ops.select_convs

interpretation memory_records: record_queue "mem_queue_ops schema" mem_pending mem_isolated
proof unfold_locales
  show "finite (dom (mem_pending q))" for q by (simp add: mem_ids_set [symmetric])
  show "mem_pending q i = Some r \<Longrightarrow> mem_isolated q i = None" for q i r by (rule mem_apart)
  show "fst (qo_usage (mem_queue_ops schema) q) = Inr (n, used) \<Longrightarrow> n = card (dom (mem_pending q))" for q n used
    unfolding mem_queue_fields by (rule mem_usage_count)
qed (simp_all only: mem_queue_fields mem_pending_id mem_next_some mem_next_none mem_enqueue_cases mem_ack_cases
    mem_quarantine_cases, simp_all only: mem_next_def mem_usage_def mem_keeps)

end
