(* ===== verification/Example_Delivery.thy ===== *)
theory Example_Delivery
  imports Memory_Queue
begin

text \<open>
  Delivery on concrete data: a transport whose documents are field lists, the reporter of
  \<open>Example_Data\<close>, the bounded report of \<open>Example_Report\<close> and the queue in memory.
\<close>

section \<open>A transport\<close>

definition ref_ack :: "string \<Rightarrow> report_ack option" where
  "ref_ack body = (case parse_fields [] body of
     Some [h, r] \<Rightarrow> Some \<lparr>ack_host_id = h, ack_report_id = r\<rparr> | _ \<Rightarrow> None)"

definition ref_credential_status :: "string \<Rightarrow> credential_status_response option" where
  "ref_credential_status body = (case parse_fields [] body of
     Some [h, i] \<Rightarrow> Some \<lparr>csr_protocol_version = 1, csr_host_id = h, csr_instance_id = i\<rparr> | _ \<Rightarrow> None)"

definition ref_transport :: transport_ops where
  "ref_transport = \<lparr>tp_report = ref_ops, tp_parse_ack = ref_ack,
     tp_parse_credential_status = ref_credential_status, tp_credential_status_path = ''/api/v1/xsoc/credential''\<rparr>"

lemma ref_transport_report [simp]: "tp_report ref_transport = ref_ops"
  by (simp add: ref_transport_def)

lemma ref_max_body: "ro_max_body ref_ops = mem_budget"
  by (simp add: ref_ops_def mem_budget_def)

interpretation memory_reports: report_queue "mem_queue_ops schema" mem_pending mem_isolated ref_transport
  by unfold_locales (simp add: ref_max_body mem_pending_size)

definition ref_schema :: "string \<Rightarrow> json option" where
  "ref_schema payload = (if payload = report_text ex_bounded then Some (J_Unsigned 1) else None)"

abbreviation ref_queue :: "mem_queue queue_ops" where
  "ref_queue \<equiv> mem_queue_ops ref_schema"

section \<open>One exchange\<close>

definition ex_body :: string where
  "ex_body = report_text ex_bounded"

definition ex_queued :: pending_report where
  "ex_queued = \<lparr>pr_record_id = 1, pr_report = ex_bounded, pr_body = ex_body\<rparr>"

definition ex_ack_net :: network where
  "ex_ack_net = ex_net 202 (fields_text [ref_uuid_text 3, ''r''])"

lemma ex_bounded_host: "rep_host ex_bounded = ref_host\<lparr>hi_id := ref_uuid_text 3\<rparr>" "rep_id ex_bounded = ''r''"
  by (simp_all add: ex_bounded_def ex_report_def)

lemma ex_bounded_numbers: "\<not> has_nan ex_bounded"
  by (simp add: has_nan_def report_numbers_def ex_bounded_def ex_report_def ex_bounded_system_def ex_network_def
      option_numbers_def map_filter_simps Let_def is_nan_def f64_magnitude_def f64_100_def f64_1000_def)

lemma ex_canonical: "canonical_spool_report ref_ops ex_bounded = Inr (ex_bounded, ex_body)"
  unfolding ex_body_def
  by (rule encoded_is_canonical [OF ref_limits_ok _ ex_encoded [unfolded encode_report_body_def]])
    (simp add: marker_is_unique_def ex_report_def)

lemma ex_decoded: "ro_decode ref_ops ex_body = Some ex_bounded"
  by (simp add: ref_ops_def ex_body_def)

lemma ex_body_size: "length ex_body \<le> 4096"
  using ex_fits by (simp add: serialized_len_def ref_ops_def ex_body_def)

lemma ex_prepared: "prepare_report_body ref_transport t ex_bounded (Some ex_body) = Inr (ex_bounded, ex_body)"
  using ex_body_size ex_bounded_numbers ex_canonical ex_decoded
  by (simp add: prepare_report_body_def Let_def) (simp add: ref_ops_def)

lemma ex_headers: "authenticated_headers ref_http ex_token ''application/json'' = Inr (report_headers ex_reporter)"
  by (simp add: authenticated_headers_def report_headers_def ex_reporter_def ref_http_def ex_token_def Let_def byte_def list_all_iff)

lemma ex_ready: "prepare_send ref_env ref_transport t ex_reporter ex_bounded (Some ex_body) =
    Inr (ex_bounded, ex_body, report_headers ex_reporter)"
proof -
  have "validate_report_identity ref_env ex_reporter ex_bounded = Inr ()"
    by (simp add: validate_report_identity_def ex_bounded_host ex_for_instance ensure_matches_def ex_reporter_def)
      (simp add: ref_env_def)
  moreover have "rp_token ex_reporter = ex_token" by (simp add: ex_reporter_def)
  ultimately show ?thesis by (simp add: prepare_send_def ex_prepared ex_headers)
qed

lemma ex_exchange:
  assumes "length answer \<le> 1000"
  shows "post_bounded ref_http (ex_net st answer) (rp_endpoint ex_reporter) (report_headers ex_reporter) ex_body =
    Inr \<lparr>hs_status = st, hs_headers = [(''content-type'', ''application/json'')], hs_body = answer\<rparr>"
  using assms ex_body_size
  by (simp add: post_bounded_def ref_http_def execute_bounded_def ex_net_def max_request_bytes_def
      max_error_response_bytes_def max_header_bytes_def checked_add64_def)

lemma ex_json_ct: "content_type_of ref_http \<lparr>hs_status = st, hs_headers = [(''content-type'', ''application/json'')],
    hs_body = answer\<rparr> = Some ''application/json''"
  by (simp add: content_type_of_def header_get_def ref_http_def)

lemma ex_is_json: "is_application_json ''application/json''"
  by (simp add: is_application_json_def before_first_def ex_json_trim eq_ignore_ascii_case_def)

text \<open>The result of sending the queued report, whatever the server answers.\<close>

lemma ex_sent:
  assumes "length answer \<le> 1000"
  shows "fst (send_queued_xsos ref_env ref_transport (ex_net st answer) t1 t2 ex_reporter ex_bounded ex_body) =
    validate_xsos_ack ref_http ref_transport st (Some ''application/json'') answer ex_bounded"
  using ex_exchange [OF assms, of st] by (simp add: send_queued_xsos_def send_xsos_inner_def ex_ready Let_def ex_json_ct)

definition ex_ack :: string where
  "ex_ack = fields_text [ref_uuid_text 3, ''r'']"

lemma ex_ack_size: "length ex_ack \<le> 1000"
  by (simp add: ex_ack_def)

lemma ex_acknowledged: "acknowledged_by ref_transport 202 (Some ''application/json'') ex_ack ex_bounded"
  by (simp add: acknowledged_by_def ex_is_json ex_bounded_host)
    (simp add: ref_transport_def ref_ack_def ex_ack_def)

lemma ex_attempt: "attempt ref_env ref_transport ex_reporter ex_queued (Inr ())"
proof -
  have "fst (send_queued_xsos ref_env ref_transport (ex_net 202 ex_ack) 0 0 ex_reporter ex_bounded ex_body) = Inr ()"
    using ex_acknowledged by (simp add: ex_sent [OF ex_ack_size] ack_exact)
  then show ?thesis unfolding attempt_def ex_queued_def pending_report.select_convs by blast
qed

text \<open>An answer with the strict envelope.\<close>

definition ex_refusal :: "string \<Rightarrow> string" where
  "ex_refusal code = fields_text [code, ''false'', ''q'']"

lemma ex_envelope: "parse_envelope ref_http (ex_refusal code) =
    Some \<lparr>ee_code = code, ee_retryable = False, ee_details = (\<lambda>k. if k = ''request_id'' then Some (J_String ''q'') else None)\<rparr>"
  by (simp add: ref_http_def ref_envelope_def ex_refusal_def)

lemma ex_refused: "fst (send_queued_xsos ref_env ref_transport (ex_net 409 (ex_refusal ''conflict'')) t1 t2 ex_reporter ex_bounded ex_body) =
    Inl (Permanent ''conflict'')"
proof -
  have "length (ex_refusal ''conflict'') \<le> 1000" by (simp add: ex_refusal_def)
  note sent = ex_sent [OF this, of 409 t1 t2]
  show ?thesis
    unfolding sent
    by (simp add: validate_xsos_ack_def is_success_def classify_xsos_response_def Let_def json_envelope_def ex_is_json
        ex_envelope final_code_def response_detail_def recognized_details_def)
qed

section \<open>Queues\<close>

definition ex_record :: spool_record where
  "ex_record = \<lparr>sr_id = 1, sr_contract = host_report_contract, sr_created = 0, sr_payload = ex_body\<rparr>"

definition ex_empty_queue :: mem_queue where
  "ex_empty_queue = \<lparr>mq_entries = [], mq_faults = []\<rparr>"

definition ex_stored_queue :: mem_queue where
  "ex_stored_queue = \<lparr>mq_entries = [(1, ex_record, None)], mq_faults = []\<rparr>"

lemma ex_stored_pending: "mem_pending ex_stored_queue = [1 \<mapsto> ex_record]"
  using ex_body_size
  by (auto simp: mem_pending_def mem_record_def ex_stored_queue_def ex_record_def mem_budget_def fun_eq_iff)

lemma ex_own_schema: "\<not> foreign_schema ref_ops ref_queue ex_body"
  by (simp add: foreign_schema_def mem_queue_ops_def ref_schema_def ex_body_def) (simp add: ref_ops_def)

lemma ex_accepted: "accepted_report ref_ops ref_queue ex_record = Some ex_bounded"
  by (simp add: accepted_report_def ex_own_schema ex_record_def canonical_payload_def ex_decoded ex_canonical ex_bounded_numbers)

lemma ex_enqueue: "enqueue ref_env ref_ops ref_queue 5 ex_report ex_empty_queue = (Inr (), ex_stored_queue)"
proof -
  have "contract_new ref_env host_report_contract = Some host_report_contract" by (simp add: ref_env_def)
  moreover have "timestamp_micros (rep_collected_at ex_bounded) = 0"
    by (simp add: timestamp_micros_def ex_bounded_def ex_report_def)
  moreover have "mem_enqueue host_report_contract 0 ex_body ex_empty_queue = (Inr (), ex_stored_queue)"
    using ex_body_size by (simp add: mem_enqueue_def queue_call_def ex_empty_queue_def ex_stored_queue_def ex_record_def
        mem_fresh_def mem_budget_def)
  moreover have "qo_bounded_bytes ref_queue ex_body 4096 = Some ex_body" "qo_enqueue ref_queue = mem_enqueue"
    using ex_body_size by (simp_all add: mem_queue_ops_def)
  ultimately show ?thesis
    by (simp add: enqueue_def ex_encoded [folded ex_body_def] bindT_def readT_def ref_max_body mem_budget_def)
qed

lemma ex_handed: "handed_out ref_transport ref_queue mem_pending ex_stored_queue ex_queued"
  by (simp add: handed_out_def ex_stored_pending ex_queued_def ex_accepted) (simp add: ex_record_def)

lemma ex_delivery_step: "delivery_step ref_env ref_transport ref_queue mem_pending ex_reporter ex_stored_queue ex_empty_queue"
proof (rule step_acknowledge [OF ex_handed ex_attempt])
  show "acknowledge ref_queue ex_queued ex_stored_queue = (Inr (), ex_empty_queue)"
    by (simp add: acknowledge_def mem_queue_ops_def mem_ack_def ex_queued_def ex_stored_pending)
      (simp add: queue_call_def ex_stored_queue_def ex_empty_queue_def)
qed

section \<open>A one-shot delivery\<close>

definition ex_once :: "mem_queue once_inputs" where
  "ex_once = \<lparr>oi_now = 5, oi_sample = (\<lambda>_. ex_report), oi_flush = (\<lambda>q. (Some (Inr Drained), q)),
     oi_send = (\<lambda>p. if p = ex_queued then Some (Inr ()) else None), oi_otlp = (\<lambda>_. Some (Inr ()))\<rparr>"

lemma ex_once_ok: "once_inputs_ok ref_env ref_transport ref_queue mem_pending ex_reporter ex_once"
  by (simp add: once_inputs_ok_def ex_once_def ex_attempt)

lemma ex_empty_pending: "mem_pending ex_empty_queue = Map.empty"
  by (simp add: mem_pending_def ex_empty_queue_def fun_eq_iff)

lemma ex_count: "pending_count ref_queue ex_empty_queue = (Inr 0, ex_empty_queue)"
  by (simp add: pending_count_def bindT_def returnT_def mem_queue_ops_def mem_usage_def queue_call_def mem_ids_def
      ex_empty_queue_def)

lemma ex_next: "qo_next ref_queue ex_stored_queue = (Inr (Some ex_record), ex_stored_queue)"
proof -
  have "mem_ids ex_stored_queue = [1]" by (simp add: mem_ids_def ex_stored_pending) (simp add: ex_stored_queue_def)
  then show ?thesis by (simp add: mem_queue_ops_def mem_next_def ex_stored_pending) (simp add: queue_call_def ex_stored_queue_def)
qed

lemma ex_oldest: "oldest ref_ops ref_queue ex_stored_queue = Some (Inr (Some ex_queued), ex_stored_queue)"
  by (subst oldest.simps) (simp add: ex_next ex_accepted, simp add: ex_record_def ex_queued_def)

lemma ex_ack_queue: "acknowledge ref_queue ex_queued ex_stored_queue = (Inr (), ex_empty_queue)"
  by (simp add: acknowledge_def mem_queue_ops_def mem_ack_def ex_queued_def ex_stored_pending)
    (simp add: queue_call_def ex_stored_queue_def ex_empty_queue_def)

lemma ex_run_once: "run_once ref_env ref_ops ref_queue ex_once ex_empty_queue = Some (Inr Delivered, ex_empty_queue)"
proof -
  have fields: "oi_sample ex_once n = ex_report" "oi_now ex_once = 5" "oi_send ex_once ex_queued = Some (Inr ())"
    "oi_otlp ex_once p = Some (Inr ())" for n p
    by (simp_all add: ex_once_def)
  have "flush_backlog ref_env ref_ops ref_queue ex_once ex_report ex_empty_queue = Some (None, ex_empty_queue)"
    by (subst flush_backlog.simps) (simp add: ex_count)
  moreover have "rep_id (pr_report ex_queued) = rep_id ex_report"
    by (simp add: ex_queued_def ex_bounded_def)
  then have "deliver_current ref_env ref_ops ref_queue ex_once ex_report ex_empty_queue = Some (Inr Delivered, ex_empty_queue)"
    by (simp add: deliver_current_def fields ex_enqueue ex_oldest deliver_queued_def bindT_def ex_ack_queue returnT_def)
  ultimately show ?thesis by (simp add: run_once_def ex_count fields)
qed

text \<open>A queue with a record of another contract.\<close>

definition ex_foreign :: spool_record where
  "ex_foreign = \<lparr>sr_id = 1, sr_contract = ''other'', sr_created = 0, sr_payload = []\<rparr>"

definition ex_foreign_queue :: mem_queue where
  "ex_foreign_queue = \<lparr>mq_entries = [(1, ex_foreign, None)], mq_faults = []\<rparr>"

lemma ex_foreign_pending: "mem_pending ex_foreign_queue = [1 \<mapsto> ex_foreign]"
  by (auto simp: mem_pending_def mem_record_def ex_foreign_queue_def ex_foreign_def mem_budget_def fun_eq_iff)

section \<open>A busy server\<close>

definition ex_busy_net :: network where
  "ex_busy_net = (\<lambda>rq. Inr \<lparr>rr_status = 503, rr_headers = [(''retry-after'', ''900'')],
     rr_content_length = None, rr_chunks = []\<rparr>)"

lemma ex_busy_exchange:
  "post_bounded ref_http ex_busy_net (rp_endpoint ex_reporter) (report_headers ex_reporter) ex_body =
    Inr \<lparr>hs_status = 503, hs_headers = [(''retry-after'', ''900'')], hs_body = []\<rparr>"
  using ex_body_size
  by (simp add: post_bounded_def ref_http_def execute_bounded_def ex_busy_net_def max_request_bytes_def
      max_error_response_bytes_def max_header_bytes_def checked_add64_def)

lemma ex_busy_delay: "retry_after_delay ref_http 503 [(''retry-after'', ''900'')] = Some 300"
  by (simp add: retry_after_delay_def header_get_def ref_http_def parse_unsigned_def is_ascii_digit_def byte_def to_digit_def Let_def)

lemma ex_busy: "dt_sleep (snd (send_xsos_inner ref_env ref_transport ex_busy_net 0 0 ex_reporter ex_bounded (Some ex_body))) = Some 300"
  by (simp add: send_xsos_inner_def ex_ready ex_busy_exchange Let_def validate_xsos_ack_def is_success_def
      classify_xsos_response_def answer_sleep_def ex_busy_delay)

section \<open>A turn of the sampler\<close>

definition ex_streak :: "nat streak_ops" where
  "ex_streak = \<lparr>so_success = (\<lambda>_. 0), so_failure = (\<lambda>n. (if n < 2 then Inr () else Inl (Message ''streak''), Suc n))\<rparr>"

definition ex_loop :: "(nat, mem_queue) loop_state" where
  "ex_loop = \<lparr>lp_read_health = 1, lp_write_health = 1, lp_deadline = 100, lp_first_report = False, lp_queue = ex_empty_queue\<rparr>"

definition ex_turn :: loop_inputs where
  "ex_turn = \<lparr>li_logging_ok = Inr (), li_sample = (\<lambda>_. ex_report), li_configured = f64_100, li_now = 5,
     li_jittered = Inr 10, li_after = 105\<rparr>"

lemma ex_length: "queue_length ref_queue ex_streak ex_loop = (Inr 0, ex_loop\<lparr>lp_read_health := 0\<rparr>)"
  unfolding queue_length_def ex_loop_def loop_state.simps ex_count prod.case sum.case
  by (simp add: ex_streak_def)

lemma ex_stored_sample: "store_sample ref_env ref_ops ref_queue ex_streak ex_turn 0 (ex_loop\<lparr>lp_read_health := 0\<rparr>) =
    (Inr (), ex_loop\<lparr>lp_read_health := 0, lp_write_health := 0, lp_queue := ex_stored_queue\<rparr>)"
  unfolding store_sample_def advertise_first_sampling_cadence_def ex_loop_def loop_state.simps ex_turn_def loop_inputs.simps
    if_False prod.case try_enqueue_def ex_enqueue sum.case
  by (simp add: ex_streak_def)

lemma ex_sampled: "sampling_turn ref_env ref_ops ref_queue ex_streak ex_turn ex_loop =
  (Inr (), ex_loop\<lparr>lp_read_health := 0, lp_write_health := 0, lp_deadline := 110, lp_queue := ex_stored_queue\<rparr>)"
proof -
  have "li_logging_ok ex_turn = Inr ()" "li_jittered ex_turn = Inr 10" "li_after ex_turn = 105" by (simp_all add: ex_turn_def)
  then show ?thesis
    unfolding sampling_turn_def bindT_def liftR_def ex_length prod.case sum.case ex_stored_sample
    by (simp add: schedule_next_def ex_loop_def)
qed

end
