(* ===== verification/Float_Arith.thy ===== *)
theory Float_Arith
  imports Float64
begin

text \<open>
  The \<open>f64\<close> arithmetic the code computes with, on bit patterns: \<open>as f64\<close> from an integer,
  division, multiplication, addition and subtraction with one rounding to the nearest value,
  ties to even. The exact result is a quotient of naturals that \<open>round_ratio\<close> rounds. A result
  that is not a number has the quiet pattern, which Rust leaves open.
\<close>

section \<open>Rounding a quotient\<close>

fun bit_length :: "nat \<Rightarrow> nat" where
  "bit_length n = (if n = 0 then 0 else Suc (bit_length (n div 2)))"

declare bit_length.simps [simp del]

text \<open>The exponent \<open>k\<close> with \<open>2 ^ k \<le> p / q < 2 ^ (k + 1)\<close>, for positive \<open>p\<close> and \<open>q\<close>.\<close>

definition ratio_log :: "nat \<Rightarrow> nat \<Rightarrow> int" where
  "ratio_log p q = (let k = int (bit_length p) - int (bit_length q) in
     if q * 2 ^ nat k \<le> p * 2 ^ nat (- k) then k else k - 1)"

definition f64_infinite :: nat where
  "f64_infinite = 0x7FF0000000000000"

definition round_quotient :: "nat \<Rightarrow> nat \<Rightarrow> nat" where
  "round_quotient p q = (let s = p div q; r = p mod q in
     if q < 2 * r \<or> (2 * r = q \<and> odd s) then Suc s else s)"

text \<open>The pattern of the nearest value: a fraction of 52 bits below the least exponent -1074.\<close>

definition round_ratio :: "nat \<Rightarrow> nat \<Rightarrow> nat" where
  "round_ratio p q =
     (if p = 0 then 0
      else
        let e = max (- 1074) (ratio_log p q - 52);
            s = round_quotient (p * 2 ^ nat (- e)) (q * 2 ^ nat e)
        in min (nat (e + 1074) * 2 ^ 52 + s) f64_infinite)"

definition f64_signed :: "bool \<Rightarrow> nat \<Rightarrow> f64" where
  "f64_signed negative magnitude = of_nat (if negative then 2 ^ 63 + magnitude else magnitude)"

definition f64_nan :: f64 where
  "f64_nan = 0x7FF8000000000000"

section \<open>Values\<close>

text \<open>A finite pattern is \<open>fst * 2 ^ snd\<close>.\<close>

definition f64_parts :: "nat \<Rightarrow> nat \<times> int" where
  "f64_parts magnitude = (let b = magnitude div 2 ^ 52; f = magnitude mod 2 ^ 52 in
     if b = 0 then (f, - 1074) else (f + 2 ^ 52, int b - 1075))"

definition f64_of_nat :: "nat \<Rightarrow> f64" where
  "f64_of_nat n = f64_signed False (round_ratio n 1)"

definition f64_of_u64 :: "64 word \<Rightarrow> f64" where
  "f64_of_u64 w = f64_of_nat (unat w)"

definition f64_div :: "f64 \<Rightarrow> f64 \<Rightarrow> f64" where
  "f64_div a b =
     (let negative = (f64_negative a \<noteq> f64_negative b) in
      if is_nan a \<or> is_nan b then f64_nan
      else if \<not> is_finite a then (if is_finite b then f64_signed negative f64_infinite else f64_nan)
      else if \<not> is_finite b then f64_signed negative 0
      else if f64_magnitude b = 0 then
        (if f64_magnitude a = 0 then f64_nan else f64_signed negative f64_infinite)
      else
        (case (f64_parts (f64_magnitude a), f64_parts (f64_magnitude b)) of
           ((m, e), (m', e')) \<Rightarrow> f64_signed negative (round_ratio (m * 2 ^ nat (e - e')) (m' * 2 ^ nat (e' - e)))))"

definition f64_mul :: "f64 \<Rightarrow> f64 \<Rightarrow> f64" where
  "f64_mul a b =
     (let negative = (f64_negative a \<noteq> f64_negative b) in
      if is_nan a \<or> is_nan b then f64_nan
      else if \<not> is_finite a \<or> \<not> is_finite b then
        (if f64_magnitude a = 0 \<or> f64_magnitude b = 0 then f64_nan else f64_signed negative f64_infinite)
      else
        (case (f64_parts (f64_magnitude a), f64_parts (f64_magnitude b)) of
           ((m, e), (m', e')) \<Rightarrow> f64_signed negative (round_ratio (m * m' * 2 ^ nat (e + e')) (2 ^ nat (- (e + e'))))))"

text \<open>Sums: both terms are integers in units of \<open>2 ^ -1074\<close>.\<close>

definition f64_units :: "f64 \<Rightarrow> int" where
  "f64_units a = (case f64_parts (f64_magnitude a) of (m, e) \<Rightarrow>
     (if f64_negative a then - 1 else 1) * int m * 2 ^ nat (e + 1074))"

definition f64_of_units :: "int \<Rightarrow> f64" where
  "f64_of_units n = f64_signed (n < 0) (round_ratio (nat \<bar>n\<bar>) (2 ^ 1074))"

definition f64_neg :: "f64 \<Rightarrow> f64" where
  "f64_neg a = f64_signed (\<not> f64_negative a) (f64_magnitude a)"

definition f64_add :: "f64 \<Rightarrow> f64 \<Rightarrow> f64" where
  "f64_add a b =
     (if is_nan a \<or> is_nan b then f64_nan
      else if \<not> is_finite a then (if is_finite b \<or> a = b then a else f64_nan)
      else if \<not> is_finite b then b
      else if f64_units a + f64_units b = 0 then
        (if f64_negative a \<and> f64_negative b then f64_signed True 0 else f64_zero)
      else f64_of_units (f64_units a + f64_units b))"

definition f64_sub :: "f64 \<Rightarrow> f64 \<Rightarrow> f64" where
  "f64_sub a b = f64_add a (f64_neg b)"

section \<open>Rounding is exact or nearest\<close>

lemma bit_length_0 [simp]: "bit_length 0 = 0"
  by (simp add: bit_length.simps)

lemma bit_length_bounds: "0 < n \<Longrightarrow> 2 ^ (bit_length n - 1) \<le> n \<and> n < 2 ^ bit_length n \<and> 0 < bit_length n"
proof (induction n rule: bit_length.induct)
  case (1 n)
  show ?case
  proof (cases "n div 2 = 0")
    case True
    with 1 have "n = 1" by simp
    then show ?thesis by (simp add: bit_length.simps)
  next
    case False
    with 1 have "2 ^ (bit_length (n div 2) - 1) \<le> n div 2" "n div 2 < 2 ^ bit_length (n div 2)" "0 < bit_length (n div 2)"
      by auto
    moreover have l: "bit_length n = Suc (bit_length (n div 2))" using 1 by (simp add: bit_length.simps)
    moreover have d: "2 ^ bit_length (n div 2) = 2 * (2 ^ (bit_length (n div 2) - 1) :: nat)"
      using calculation(3) by (simp flip: power_Suc)
    moreover have "2 * (n div 2) \<le> n" "n < 2 * (n div 2) + 2"
      using minus_mod_eq_mult_div [of n 2] by linarith+
    ultimately have "2 * 2 ^ (bit_length (n div 2) - 1) \<le> n" "n < 4 * 2 ^ (bit_length (n div 2) - 1)" by linarith+
    then show ?thesis using d by (simp add: l)
  qed
qed

text \<open>The rounded quotient is as near as any integer.\<close>

lemma round_quotient_near:
  assumes "0 < q"
  shows "2 * \<bar>int p - int (round_quotient p q * q)\<bar> \<le> int q"
proof -
  let ?s = "p div q" and ?r = "p mod q"
  have p: "int p = int (?s * q) + int ?r" using div_mult_mod_eq [of p q] by (metis of_nat_add)
  have "?r < q" using assms by simp
  then show ?thesis
    unfolding round_quotient_def Let_def by (auto simp: p algebra_simps)
qed

lemma round_quotient_exact: "0 < q \<Longrightarrow> round_quotient (n * q) q = n"
  by (simp add: round_quotient_def)

lemma round_quotient_1: "round_quotient p (Suc 0) = p"
  using round_quotient_exact [of 1 p] by simp

text \<open>Integers below \<open>2 ^ 53\<close> convert exactly.\<close>

lemma round_ratio_nat:
  assumes "0 < n" and "n < 2 ^ 53"
  shows "round_ratio n 1 = (bit_length n + 1021) * 2 ^ 52 + n * 2 ^ (53 - bit_length n)"
    and "2 ^ 52 \<le> n * 2 ^ (53 - bit_length n)" and "n * 2 ^ (53 - bit_length n) < 2 ^ 53" and "bit_length n \<le> 53"
    and "0 < bit_length n"
proof -
  define l where "l = bit_length n"
  have b: "2 ^ (l - 1) \<le> n" "n < 2 ^ l" "0 < l" using bit_length_bounds [OF assms(1)] by (auto simp: l_def)
  have "(2::nat) ^ (l - 1) < 2 ^ 53" using b(1) assms(2) by linarith
  then have "l \<le> 53" using power_less_imp_less_exp [of "2::nat" "l - 1" 53] by simp
  have one: "bit_length (Suc 0) = Suc 0" by (simp add: bit_length.simps)
  have "ratio_log n 1 = int l - 1"
    using b by (simp add: ratio_log_def one Let_def nat_diff_distrib' flip: l_def)
  then have e: "max (- 1074) (ratio_log n 1 - 52) = int l - 53" using b(3) by simp
  have low: "2 ^ 52 \<le> n * 2 ^ (53 - l)"
  proof -
    have "(2::nat) ^ 52 = 2 ^ (l - 1) * 2 ^ (53 - l)" using b(3) \<open>l \<le> 53\<close> by (simp flip: power_add)
    then show ?thesis using mult_le_mono1 [OF b(1), of "2 ^ (53 - l)"] by (simp only:)
  qed
  have high: "n * 2 ^ (53 - l) < 2 ^ 53"
  proof -
    have "(2::nat) ^ 53 = 2 ^ l * 2 ^ (53 - l)" using \<open>l \<le> 53\<close> by (simp flip: power_add)
    moreover have "n * 2 ^ (53 - l) < 2 ^ l * 2 ^ (53 - l)" using b(2) by (intro mult_strict_right_mono) simp_all
    ultimately show ?thesis by (simp only:)
  qed
  have "nat (- (int l - 53)) = 53 - l" "nat (int l - 53) = 0" "nat (int l - 53 + 1074) = l + 1021"
    using \<open>l \<le> 53\<close> by auto
  then have "round_ratio n 1 = min ((l + 1021) * 2 ^ 52 + n * 2 ^ (53 - l)) f64_infinite"
    using assms(1) by (simp only: round_ratio_def Let_def e) (simp add: round_quotient_1)
  moreover have "(l + 1021) * 2 ^ 52 + n * 2 ^ (53 - l) < f64_infinite"
    using high \<open>l \<le> 53\<close> unfolding f64_infinite_def by (intro less_le_trans [OF add_le_less_mono, of _ "1074 * 2 ^ 52"]) auto
  ultimately show "round_ratio n 1 = (bit_length n + 1021) * 2 ^ 52 + n * 2 ^ (53 - bit_length n)"
    by (simp add: l_def)
  show "2 ^ 52 \<le> n * 2 ^ (53 - bit_length n)" "n * 2 ^ (53 - bit_length n) < 2 ^ 53" "bit_length n \<le> 53" "0 < bit_length n"
    using low high \<open>l \<le> 53\<close> b(3) by (simp_all add: l_def)
qed

lemma signed_magnitude:
  assumes "m < 2 ^ 63"
  shows "f64_magnitude (f64_signed s m) = m" and "f64_negative (f64_signed s m) = s"
  using assms by (auto simp: f64_magnitude_def f64_negative_def f64_signed_def unat_of_nat)

lemma f64_of_nat_exact:
  assumes "n < 2 ^ 53"
  shows "f64_units (f64_of_nat n) = int n * 2 ^ 1074"
proof (cases "n = 0")
  case True
  then show ?thesis by (simp add: f64_of_nat_def round_ratio_def f64_signed_def f64_units_def f64_magnitude_def f64_parts_def)
next
  case False
  let ?l = "bit_length n" and ?s = "n * 2 ^ (53 - bit_length n)"
  have r: "round_ratio n 1 = (?l + 1021) * 2 ^ 52 + ?s" and s: "2 ^ 52 \<le> ?s" "?s < 2 ^ 53" and l: "?l \<le> 53" "0 < ?l"
    using round_ratio_nat [of n] False assms by auto
  have m: "round_ratio n 1 = (?l + 1022) * 2 ^ 52 + (?s - 2 ^ 52)" using r s by (simp add: algebra_simps)
  have "round_ratio n 1 < 2 ^ 63" using m s(2) l(1) by simp
  moreover have "round_ratio n 1 div 2 ^ 52 = ?l + 1022" and "round_ratio n 1 mod 2 ^ 52 = ?s - 2 ^ 52"
    using s unfolding m by (simp_all only: div_mult_self3 mod_mult_self3) (simp_all add: less_diff_conv2)
  then have "f64_parts (round_ratio n 1) = (?s, int ?l - 53)"
    using s l by (simp add: f64_parts_def)
  ultimately have "f64_units (f64_of_nat n) = int ?s * 2 ^ nat (int ?l - 53 + 1074)"
    by (simp add: f64_units_def f64_of_nat_def signed_magnitude)
  also have "nat (int ?l - 53 + 1074) = ?l + 1021" using l by simp
  also have "int ?s * 2 ^ (?l + 1021) = int n * (2 ^ (53 - ?l) * 2 ^ (?l + 1021))" by simp
  also have "(2::int) ^ (53 - ?l) * 2 ^ (?l + 1021) = 2 ^ 1074" using l by (simp flip: power_add)
  finally show ?thesis .
qed

end
