(* ===== verification/Windows_Acl.thy ===== *)
theory Windows_Acl
  imports Config Report_Text
begin

text \<open>
  The security descriptors of the Windows maintenance program, in the text form of the SDK:
  the templates it writes and the parsers that accept a descriptor, from
  \<open>src/windows/maintenance/mod.rs\<close>. The \<open>str\<close> operations are those of the standard library.
\<close>

section \<open>Text\<close>

fun split_on :: "char \<Rightarrow> string \<Rightarrow> string list" where
  "split_on c [] = [[]]"
| "split_on c (x # s) =
     (if x = c then [] # split_on c s
      else (case split_on c s of [] \<Rightarrow> [[x]] | p # ps \<Rightarrow> (x # p) # ps))"

text \<open>\<open>str::split_once\<close> at a text.\<close>

fun split_once_text :: "string \<Rightarrow> string \<Rightarrow> (string \<times> string) option" where
  "split_once_text p s =
     (if starts_with p s then Some ([], drop (length p) s)
      else (case s of [] \<Rightarrow> None | x # s' \<Rightarrow> map_option (apfst ((#) x)) (split_once_text p s')))"

declare split_once_text.simps [simp del]

text \<open>\<open>str::replace\<close> of a text that is not empty, from left to right.\<close>

function replace_text :: "string \<Rightarrow> string \<Rightarrow> string \<Rightarrow> string" where
  "replace_text p q s =
     (if p \<noteq> [] \<and> starts_with p s \<and> s \<noteq> [] then q @ replace_text p q (drop (length p) s)
      else (case s of [] \<Rightarrow> [] | x # s' \<Rightarrow> x # replace_text p q s'))"
  by auto
termination by (relation "measure (\<lambda>(p, q, s). length s)") auto

declare replace_text.simps [simp del]

fun fold_result :: "('a \<Rightarrow> 's \<Rightarrow> 's res) \<Rightarrow> 'a list \<Rightarrow> 's \<Rightarrow> 's res" where
  "fold_result f [] s = Inr s"
| "fold_result f (x # xs) s = bindR (f x s) (fold_result f xs)"

lemma bindR_ensureR_iff: "bindR (ensureR b e) k = Inr y \<longleftrightarrow> b \<and> k () = Inr y"
  by (simp add: ensureR_def)

section \<open>Templates\<close>

definition program_security_descriptor :: "string \<Rightarrow> string" where
  "program_security_descriptor service_sid =
     ''O:SYD:P(A;OICI;FA;;;SY)(A;OICI;FA;;;BA)(A;OICI;0x1200a9;;;BU)(A;OICI;0x1200a9;;;'' @ service_sid @ '')''"

definition managed_state_security_descriptor :: "string option \<Rightarrow> string" where
  "managed_state_security_descriptor service_sid =
     (let service_ace = (case service_sid of None \<Rightarrow> [] | Some sid \<Rightarrow> ''(A;OICI;0x1301bf;;;'' @ sid @ '')'')
      in ''O:SYD:P(A;OICI;FA;;;SY)(A;OICI;FA;;;BA)'' @ service_ace @ ''(A;OICI;RC;;;OW)'')"

definition managed_security_descriptor_for_target :: "string \<Rightarrow> bool \<Rightarrow> string" where
  "managed_security_descriptor_for_target descriptor is_directory =
     (if is_directory then descriptor else replace_text '';OICI;'' '';;'' descriptor)"

definition protected_directory_security_descriptor :: string where
  "protected_directory_security_descriptor = managed_state_security_descriptor None"

definition security_descriptor_access_parts :: "string \<Rightarrow> (string \<times> string \<times> string) res" where
  "security_descriptor_access_parts sddl =
     bindR (ok_or (Message ''administrative descriptor has no DACL'') (split_once_text ''D:'' sddl)) (\<lambda>(own, dacl).
     let first_ace = length (before_first CHR ''('' dacl);
         control = take first_ace dacl in
     Inr (own, drop first_ace dacl, case strip_suffix ''AI'' control of None \<Rightarrow> control | Some c \<Rightarrow> c))"

section \<open>Parsers\<close>

definition is_protected_dacl_control :: "string \<Rightarrow> bool" where
  "is_protected_dacl_control control \<longleftrightarrow> control = ''P'' \<or> control = ''PAI''"

definition has_exact_ace_inheritance_flags :: "string \<Rightarrow> bool \<Rightarrow> bool" where
  "has_exact_ace_inheritance_flags flags is_directory \<longleftrightarrow>
     (if is_directory then flags = ''OICI'' \<or> flags = ''CIOI'' else flags = [])"

text \<open>The variables of the parsers: which entries were seen.\<close>

record seen_aces =
  se_system :: bool
  se_admins :: bool
  se_users :: bool
  se_owner_rights :: bool
  se_service :: bool

definition nothing_seen :: seen_aces where
  "nothing_seen = \<lparr>se_system = False, se_admins = False, se_users = False, se_owner_rights = False, se_service = False\<rparr>"

definition ace_fields :: "string \<Rightarrow> string list" where
  "ace_fields ace = split_on CHR '';'' (before_first CHR '')'' ace)"

definition program_ace :: "string \<Rightarrow> bool \<Rightarrow> string \<Rightarrow> seen_aces \<Rightarrow> seen_aces res" where
  "program_ace service_sid is_directory ace seen =
     (let fields = ace_fields ace in
      bindR (ensureR (length fields = 6 \<and> fields ! 0 = ''A'' \<and> has_exact_ace_inheritance_flags (fields ! 1) is_directory
          \<and> fields ! 3 = [] \<and> fields ! 4 = []) (Message ''unexpected program DACL ACE'')) (\<lambda>_.
      if fields ! 5 \<in> {''SY'', ''S-1-5-18''} then
        bindR (ensureR (\<not> se_system seen) (Message ''duplicate program SYSTEM ACE'')) (\<lambda>_.
        bindR (ensureR (fields ! 2 = ''FA'') (Message ''program SYSTEM ACE is not full access'')) (\<lambda>_.
        Inr (seen\<lparr>se_system := True\<rparr>)))
      else if fields ! 5 \<in> {''BA'', ''S-1-5-32-544''} then
        bindR (ensureR (\<not> se_admins seen) (Message ''duplicate program Administrators ACE'')) (\<lambda>_.
        bindR (ensureR (fields ! 2 = ''FA'') (Message ''program Administrators ACE is not full access'')) (\<lambda>_.
        Inr (seen\<lparr>se_admins := True\<rparr>)))
      else if fields ! 5 \<in> {''BU'', ''S-1-5-32-545''} then
        bindR (ensureR (\<not> se_users seen) (Message ''duplicate program BUILTIN Users ACE'')) (\<lambda>_.
        bindR (ensureR (fields ! 2 \<in> {''0x1200a9'', ''0x001200a9''})
          (Message ''program BUILTIN Users ACE is not exactly read/execute'')) (\<lambda>_.
        Inr (seen\<lparr>se_users := True\<rparr>)))
      else if fields ! 5 = service_sid then
        bindR (ensureR (\<not> se_service seen) (Message ''duplicate program service SID ACE'')) (\<lambda>_.
        bindR (ensureR (fields ! 2 \<in> {''0x1200a9'', ''0x001200a9''})
          (Message ''program service ACE is not exactly read/execute'')) (\<lambda>_.
        Inr (seen\<lparr>se_service := True\<rparr>)))
      else Inl (Message ''unexpected program DACL trustee'')))"

definition parse_program_dacl :: "string \<Rightarrow> string \<Rightarrow> bool \<Rightarrow> unit res" where
  "parse_program_dacl sddl service_sid is_directory =
     bindR (ensureR (starts_with ''O:SY'' sddl) (Message ''program owner is not SYSTEM'')) (\<lambda>_.
     bindR (ok_or (Message ''program security descriptor has no DACL'') (map_option snd (split_once_text ''D:'' sddl))) (\<lambda>dacl.
     bindR (ok_or (Message ''program DACL contains no ACEs'') (split_once CHR ''('' dacl)) (\<lambda>(control, _).
     bindR (ensureR (is_protected_dacl_control control) (Message ''program DACL has unexpected protection flags'')) (\<lambda>_.
     bindR (fold_result (program_ace service_sid is_directory) (drop 1 (split_on CHR ''('' dacl)) nothing_seen) (\<lambda>seen.
     ensureR (se_system seen \<and> se_admins seen \<and> se_users seen \<and> se_service seen)
       (Message ''program DACL does not match the current template''))))))"

definition managed_ace :: "string \<Rightarrow> bool \<Rightarrow> string \<Rightarrow> seen_aces \<Rightarrow> seen_aces res" where
  "managed_ace service_sid is_directory ace seen =
     (let fields = ace_fields ace in
      bindR (ensureR (length fields = 6 \<and> fields ! 0 = ''A'') (Message ''unexpected DACL ACE'')) (\<lambda>_.
      bindR (ensureR (has_exact_ace_inheritance_flags (fields ! 1) is_directory)
        (Message ''managed state ACE flags do not match the target type'')) (\<lambda>_.
      bindR (ensureR (fields ! 3 = [] \<and> fields ! 4 = []) (Message ''managed state contains an object-specific ACE'')) (\<lambda>_.
      if fields ! 5 \<in> {''SY'', ''S-1-5-18''} then
        bindR (ensureR (\<not> se_system seen) (Message ''managed state contains duplicate SYSTEM ACEs'')) (\<lambda>_.
        bindR (ensureR (fields ! 2 = ''FA'') (Message ''SYSTEM does not have exactly full access'')) (\<lambda>_.
        Inr (seen\<lparr>se_system := True\<rparr>)))
      else if fields ! 5 \<in> {''BA'', ''S-1-5-32-544''} then
        bindR (ensureR (\<not> se_admins seen) (Message ''managed state contains duplicate Administrators ACEs'')) (\<lambda>_.
        bindR (ensureR (fields ! 2 = ''FA'') (Message ''Administrators do not have exactly full access'')) (\<lambda>_.
        Inr (seen\<lparr>se_admins := True\<rparr>)))
      else if fields ! 5 \<in> {''OW'', ''S-1-3-4''} then
        bindR (ensureR (\<not> se_owner_rights seen) (Message ''managed state contains duplicate OWNER RIGHTS ACEs'')) (\<lambda>_.
        bindR (ensureR (fields ! 2 = ''RC'') (Message ''OWNER RIGHTS does not have ReadPermissions only'')) (\<lambda>_.
        Inr (seen\<lparr>se_owner_rights := True\<rparr>)))
      else if service_sid = fields ! 5 then
        bindR (ensureR (\<not> se_service seen) (Message ''managed state contains duplicate service SID ACEs'')) (\<lambda>_.
        bindR (ensureR (fields ! 2 \<in> {''0x1301bf'', ''0x001301bf''}) (Message ''service SID does not have exactly Modify access'')) (\<lambda>_.
        Inr (seen\<lparr>se_service := True\<rparr>)))
      else Inl (Message ''unexpected state DACL trustee'')))))"

definition parse_managed_dacl :: "string \<Rightarrow> string \<Rightarrow> bool \<Rightarrow> bool \<Rightarrow> unit res" where
  "parse_managed_dacl sddl service_sid require_service_access is_directory =
     bindR (ensureR (starts_with ''O:SY'' sddl) (Message ''managed state owner is not SYSTEM'')) (\<lambda>_.
     bindR (ok_or (Message ''security descriptor has no DACL'') (map_option snd (split_once_text ''D:'' sddl))) (\<lambda>dacl.
     bindR (ok_or (Message ''managed state DACL contains no ACEs'') (split_once CHR ''('' dacl)) (\<lambda>(control, _).
     bindR (ensureR (is_protected_dacl_control control) (Message ''managed state DACL has unexpected protection flags'')) (\<lambda>_.
     bindR (fold_result (managed_ace service_sid is_directory) (drop 1 (split_on CHR ''('' dacl)) nothing_seen) (\<lambda>seen.
     bindR (ensureR (se_system seen \<and> se_admins seen \<and> se_owner_rights seen) (Message ''managed state DACL is incomplete'')) (\<lambda>_.
     bindR (ensureR (\<not> require_service_access \<or> se_service seen) (Message ''managed state DACL lacks the service SID'')) (\<lambda>_.
     ensureR (require_service_access \<or> \<not> se_service seen) (Message ''preserved state still grants the service SID''))))))))"

end
