(* ===== verification/Config_Load.thy ===== *)
theory Config_Load
  imports Config Report_Text Float_Arith Windows_Acl
begin

text \<open>
  How a configuration is made: the command line, the file, the environment, the options of
  \<open>pair\<close>, the validation and the durable save, from \<open>src/config.rs\<close> and \<open>src/secret_io.rs\<close>, for
  a Linux build. The environment, the file system of \<open>xcsc\<close>, \<open>serde_json\<close> and the limits of
  \<open>xcsc\<close> are parameters.
\<close>

section \<open>Command line\<close>

datatype client_command = Run | Once | Probe | Pair | Doctor | Status

text \<open>Loading ends with an error, or with the process exiting after a text is printed.\<close>

datatype load_end = Failed client_error | Exited string

type_synonym 'a load = "load_end + 'a"

definition fails :: "'a res \<Rightarrow> 'a load" where
  "fails = map_err Failed"

record parsed_options =
  po_command :: "client_command option"
  po_windows_service :: bool
  po_config_path :: "string option"
  po_server_override :: "string option"
  po_endpoint_override :: "string option"
  po_replace_pending_pairing :: bool
  po_output_mode :: output_mode
  po_output_mode_selected :: bool
  po_doctor_delivery :: bool

definition select_command :: "client_command \<Rightarrow> parsed_options \<Rightarrow> parsed_options load" where
  "select_command command p =
     (if po_command p \<noteq> None then Inl (Failed (Message ''multiple commands are not allowed''))
      else Inr (p\<lparr>po_command := Some command\<rparr>))"

definition windows_service_argument :: string where
  "windows_service_argument = ''--windows-service''"

definition validate_windows_service_position :: "nat \<Rightarrow> unit load" where
  "validate_windows_service_position position =
     ensureR (position = 1) (Failed (Message ''--windows-service must be the first argument''))"

definition value_of :: "string \<Rightarrow> string list \<Rightarrow> (string \<times> string list) load" where
  "value_of missing args = (case args of [] \<Rightarrow> Inl (Failed (Message missing)) | v # rest \<Rightarrow> Inr (v, rest))"

definition output_format :: "string \<Rightarrow> output_mode load" where
  "output_format v =
     (if v = ''human'' then Inr Human else if v = ''json'' then Inr Json
      else Inl (Failed (Message ''unsupported output format; use human or json'')))"

text \<open>The text of the version and the help, printed before the exit.\<close>

definition client_version_output :: "string \<Rightarrow> string" where
  "client_version_output version = ''xsoc '' @ version"

fun join_lines :: "string list \<Rightarrow> string" where
  "join_lines [] = []"
| "join_lines [l] = l"
| "join_lines (l # ls) = l @ [CHR 0x0A] @ join_lines ls"

definition help_text :: string where
  "help_text = join_lines
     [''xsoc [run|once|probe|pair|doctor|status] [options]'',
      ''run   continuously collect and report read-only telemetry (default)'',
      ''once  collect and report one snapshot'',
      ''probe print the local capability report without contacting a server'',
      ''pair  authorize this host in a browser and store a host-scoped credential'',
      ''doctor inspect configuration, collection, authorization, and spool without writes'',
      ''status print local identity, authorization, pairing, and spool state'',
      ''Pairing example:'',
      ''xsoc pair --server https://xsos.example.com'',
      '''',
      ''Common options: --config PATH [--endpoint REPORT_URL] [--output human|json]'',
      ''Delivery requires HTTPS.'',
      ''Doctor delivery opt-in: --delivery (sends one report and may drain queued reports)'',
      ''Pair options: [--server URL | --endpoint REPORT_URL]'',
      ''[--replace-pending-pairing]'',
      ''--replace-pending-pairing explicitly abandons an incomplete saved request and'',
      ''creates a fresh request with new secrets; browser authorization is required again.'',
      ''Remote plaintext HTTP is never accepted by browser pairing.'',
      '''',
      ''Browser pairing keeps the long-lived secret local and stores it in the private'',
      ''state directory; the browser receives only the public activation status.'']"

text \<open>One turn of the loop: the state and the arguments that are left.\<close>

definition parse_argument ::
  "string \<Rightarrow> string \<Rightarrow> string list \<Rightarrow> nat \<Rightarrow> parsed_options \<Rightarrow> (parsed_options \<times> string list) load" where
  "parse_argument version arg args position p =
     (if arg = ''run'' then bindR (select_command Run p) (\<lambda>p. Inr (p, args))
      else if arg = ''once'' then bindR (select_command Once p) (\<lambda>p. Inr (p, args))
      else if arg = ''probe'' then bindR (select_command Probe p) (\<lambda>p. Inr (p, args))
      else if arg = ''pair'' then bindR (select_command Pair p) (\<lambda>p. Inr (p, args))
      else if arg = ''doctor'' then bindR (select_command Doctor p) (\<lambda>p. Inr (p, args))
      else if arg = ''status'' then bindR (select_command Status p) (\<lambda>p. Inr (p, args))
      else if arg = windows_service_argument then
        bindR (validate_windows_service_position position) (\<lambda>_.
        bindR (ensureR (\<not> po_windows_service p) (Failed (Message ''--windows-service may be specified only once''))) (\<lambda>_.
        Inr (p\<lparr>po_windows_service := True\<rparr>, args)))
      else if arg = ''--config'' then
        bindR (value_of ''--config requires a file path'' args) (\<lambda>(v, args). Inr (p\<lparr>po_config_path := Some v\<rparr>, args))
      else if arg = ''--server'' then
        bindR (value_of ''--server requires a URL'' args) (\<lambda>(v, args). Inr (p\<lparr>po_server_override := Some v\<rparr>, args))
      else if arg = ''--endpoint'' then
        bindR (value_of ''--endpoint requires a report URL'' args) (\<lambda>(v, args). Inr (p\<lparr>po_endpoint_override := Some v\<rparr>, args))
      else if arg = ''--replace-pending-pairing'' then
        bindR (ensureR (\<not> po_replace_pending_pairing p)
          (Failed (Message ''--replace-pending-pairing may be specified only once''))) (\<lambda>_.
        Inr (p\<lparr>po_replace_pending_pairing := True\<rparr>, args))
      else if arg = ''--output'' then
        bindR (ensureR (\<not> po_output_mode_selected p) (Failed (Message ''--output may be specified only once''))) (\<lambda>_.
        bindR (value_of ''--output requires human or json'' args) (\<lambda>(v, args).
        bindR (output_format v) (\<lambda>m.
        Inr (p\<lparr>po_output_mode := m, po_output_mode_selected := True\<rparr>, args))))
      else if arg = ''--json'' then
        bindR (ensureR (\<not> po_output_mode_selected p) (Failed (Message ''--json conflicts with an earlier output option''))) (\<lambda>_.
        Inr (p\<lparr>po_output_mode := Json, po_output_mode_selected := True\<rparr>, args))
      else if arg = ''--delivery'' then
        bindR (ensureR (\<not> po_doctor_delivery p) (Failed (Message ''--delivery may be specified only once''))) (\<lambda>_.
        Inr (p\<lparr>po_doctor_delivery := True\<rparr>, args))
      else if arg = ''-V'' \<or> arg = ''--version'' then Inl (Exited (client_version_output version))
      else if arg = ''-h'' \<or> arg = ''--help'' then
        bindR (ensureR (\<not> po_windows_service p) (Failed (Message ''--help is not available in Windows service mode''))) (\<lambda>_.
        Inl (Exited help_text))
      else Inl (Failed (Message ''unknown argument'')))"

lemma value_of_shorter: "value_of m args = Inr (v, rest) \<Longrightarrow> length rest < length args"
  by (cases args) (auto simp: value_of_def)

lemma parse_argument_shorter:
  "parse_argument version arg args position p = Inr (p', rest) \<Longrightarrow> length rest \<le> length args"
  unfolding parse_argument_def
  by (auto simp: bindR_Inr_iff split: if_splits dest!: value_of_shorter)

function parse_arguments :: "string \<Rightarrow> string list \<Rightarrow> nat \<Rightarrow> parsed_options \<Rightarrow> parsed_options load" where
  "parse_arguments version [] position p = Inr p"
| "parse_arguments version (arg # args) position p =
     (case parse_argument version arg args (position + 1) p of
        Inl e \<Rightarrow> Inl e
      | Inr (p, args) \<Rightarrow> parse_arguments version args (position + 1) p)"
  by pat_completeness auto
termination
  by (relation "measure (\<lambda>(version, args, position, p). length args)")
    (auto dest!: parse_argument_shorter)

definition validate_windows_service_invocation :: "bool \<Rightarrow> client_command \<Rightarrow> unit load" where
  "validate_windows_service_invocation requested command =
     ensureR (\<not> requested) (Failed (Message ''--windows-service is available only on Windows''))"

section \<open>Defaults\<close>

definition default_server_origin :: string where "default_server_origin = ''https://127.0.0.1:8081''"
definition max_config_bytes :: nat where "max_config_bytes = 64 * 1024"
definition default_state_dir :: string where "default_state_dir = ''/var/lib/xsoc''"
definition default_config_path :: string where "default_config_path = ''/etc/xsoc/config.json''"

definition default_smart_config :: smart_config where
  "default_smart_config = \<lparr>smart_enabled = True, smart_interval_seconds = 300, smart_executable = None\<rparr>"

definition default_client_config :: "protocol \<Rightarrow> client_config" where
  "default_client_config X =
     \<lparr>endpoint = default_server_origin @ client_report_path X, pairing_endpoint_field = None, otlp_endpoint = None,
      otlp_token = None, interval_seconds = 10, slow_interval_seconds = 30, smart = default_smart_config,
      request_timeout_seconds = 10, jitter_percent = 10, state_dir = default_state_dir,
      spool_max_bytes = 64 * 1024 * 1024, tls_identity_pem = None, tls_identity_pkcs12 = None,
      tls_identity_password = None, tls_ca_pem = None, config_path = None, server_override = None,
      endpoint_override = None, replace_pending_pairing = False, output_mode_field = Human,
      doctor_delivery = False, config_issue = None\<rparr>"

section \<open>Surroundings\<close>

text \<open>
  The environment holds raw values: \<open>env::var\<close> ignores one that is not UTF-8. Paths follow
  \<open>std::path\<close> on Unix: the components of an absolute path.
\<close>

type_synonym environment = "string \<Rightarrow> string option"

definition env_var :: "environment \<Rightarrow> string \<Rightarrow> string option" where
  "env_var env name = (case env name of Some v \<Rightarrow> if utf8_valid v then Some v else None | None \<Rightarrow> None)"

definition path_is_absolute :: "string \<Rightarrow> bool" where
  "path_is_absolute p \<longleftrightarrow> starts_with ''/'' p"

definition path_components :: "string \<Rightarrow> string list" where
  "path_components p = filter (\<lambda>c. c \<noteq> [] \<and> c \<noteq> ''.'') (split_on CHR ''/'' p)"

definition path_text :: "string list \<Rightarrow> string" where
  "path_text cs = (if cs = [] then ''/'' else concat (map (\<lambda>c. CHR ''/'' # c) cs))"

definition path_absolute :: "io_error + string \<Rightarrow> string \<Rightarrow> io_error + string" where
  "path_absolute current_dir p =
     (if p = [] then Inl (Io_Error InvalidInput ''cannot make an empty path absolute'')
      else if path_is_absolute p then Inr (path_text (path_components p))
      else map_sum id (\<lambda>d. path_text (path_components d @ path_components p)) current_dir)"

definition path_parent :: "string \<Rightarrow> string option" where
  "path_parent p = (case path_components p of [] \<Rightarrow> None | cs \<Rightarrow> Some (path_text (butlast cs)))"

definition path_file_name :: "string \<Rightarrow> string option" where
  "path_file_name p =
     (case path_components p of [] \<Rightarrow> None | cs \<Rightarrow> if last cs = ''..'' then None else Some (last cs))"

record 'w config_ops =
  cf_current_dir :: "'w \<Rightarrow> io_error + string"
  cf_metadata_is_file :: "string \<Rightarrow> 'w \<Rightarrow> io_error + bool"
  cf_open :: "string \<Rightarrow> 'w \<Rightarrow> unit res"
  cf_entry_name :: "string \<Rightarrow> string res"
  cf_read :: "string \<Rightarrow> string \<Rightarrow> nat \<Rightarrow> 'w \<Rightarrow> string res"
  cf_replace :: "string \<Rightarrow> string \<Rightarrow> string \<Rightarrow> ('w, client_error, unit) tx"
  cf_decode :: "string \<Rightarrow> client_config option"
  cf_encode :: "client_config \<Rightarrow> string option"
  cf_spool_limits_valid :: "nat \<Rightarrow> nat \<Rightarrow> 64 word \<Rightarrow> unit res"
  cf_max_spool_entries :: nat
  cf_max_report_interval_seconds :: "64 word"
  cf_otlp_built :: bool
  cf_package_version :: string

text \<open>The entry of a path: its directory and its name, \<open>ConfigurationDirectory\<close> and \<open>EntryName\<close>.\<close>

definition open_entry :: "'w config_ops \<Rightarrow> string \<Rightarrow> 'w \<Rightarrow> (string \<times> string) res" where
  "open_entry F path w =
     bindR (map_err Io (path_absolute (cf_current_dir F w) path)) (\<lambda>path.
     bindR (ok_or (Message ''config path has no parent'') (path_parent path)) (\<lambda>parent.
     bindR (cf_open F parent w) (\<lambda>_.
     bindR (ok_or (Message ''config path has no filename'') (path_file_name path)) (\<lambda>name.
     bindR (cf_entry_name F name) (\<lambda>name.
     Inr (parent, name))))))"

definition read_private_config :: "'w config_ops \<Rightarrow> string \<Rightarrow> 'w \<Rightarrow> string res" where
  "read_private_config F path w =
     bindR (open_entry F path w) (\<lambda>(directory, name). cf_read F directory name max_config_bytes w)"

definition publish_private_config :: "'w config_ops \<Rightarrow> string \<Rightarrow> string \<Rightarrow> ('w, client_error, unit) tx" where
  "publish_private_config F path content =
     bindT (readT (open_entry F path)) (\<lambda>(directory, name).
     map_errT (Context ''failed to save private config'') (cf_replace F directory name content))"

section \<open>Loading\<close>

definition non_empty :: "string \<Rightarrow> string option" where
  "non_empty v = (let v = trim v in if v = [] then None else Some v)"

definition trimmed_secret :: "string \<Rightarrow> string option" where
  "trimmed_secret v =
     (let t = trim v in if t = [] then None else if length t = length v then Some v else Some t)"

definition load_selected_config ::
  "'w config_ops \<Rightarrow> protocol \<Rightarrow> string option \<Rightarrow> client_command \<Rightarrow> 'w \<Rightarrow> (client_config \<times> string option) res" where
  "load_selected_config F X path command w =
     (case path of
        None \<Rightarrow> Inr (default_client_config X, None)
      | Some path \<Rightarrow>
          (let loaded =
             bindR (map_err Io (cf_metadata_is_file F path w)) (\<lambda>is_file.
             bindR (if is_file then map_err (\<lambda>e. Io (Io_Error OtherKind ''read_private_config'')) (read_private_config F path w)
                else Inl (Io (Io_Error InvalidInput ''configuration path is not a regular file''))) (\<lambda>bytes.
             ok_or (Io (Io_Error InvalidData ''invalid configuration'')) (cf_decode F bytes)))
           in (case loaded of
                 Inr config \<Rightarrow> Inr (config, None)
               | Inl e \<Rightarrow>
                   if command = Status then Inr (default_client_config X, Some (''failed to load '' @ path))
                   else Inl (Context ''failed to load config'' e))))"

text \<open>A variable that is set replaces a field; a number has to parse.\<close>

definition env_field :: "environment \<Rightarrow> string \<Rightarrow> (string \<Rightarrow> client_config \<Rightarrow> client_config) \<Rightarrow> client_config \<Rightarrow> client_config" where
  "env_field env name update c = (case env_var env name of None \<Rightarrow> c | Some v \<Rightarrow> update v c)"

definition env_number ::
  "environment \<Rightarrow> string \<Rightarrow> string \<Rightarrow> (64 word \<Rightarrow> client_config \<Rightarrow> client_config) \<Rightarrow> client_config \<Rightarrow> client_config res" where
  "env_number env name failure update c =
     (case env_var env name of
        None \<Rightarrow> Inr c
      | Some v \<Rightarrow>
          bindR (ok_or (Context failure (Message ''invalid digit found in string'')) (parse_unsigned (2 ^ 64) v)) (\<lambda>n.
          Inr (update (of_nat n) c)))"

definition apply_environment :: "environment \<Rightarrow> client_config \<Rightarrow> client_config res" where
  "apply_environment env c =
     (let c = env_field env ''XSOC_ENDPOINT'' (\<lambda>v c. c\<lparr>endpoint := v\<rparr>) c;
          c = env_field env ''XSOC_PAIRING_ENDPOINT'' (\<lambda>v c. c\<lparr>pairing_endpoint_field := non_empty v\<rparr>) c;
          c = env_field env ''XSOC_OTLP_ENDPOINT'' (\<lambda>v c. c\<lparr>otlp_endpoint := non_empty v\<rparr>) c;
          c = env_field env ''XSOC_OTLP_TOKEN'' (\<lambda>v c. c\<lparr>otlp_token := trimmed_secret v\<rparr>) c;
          c = env_field env ''XSOC_STATE_DIR'' (\<lambda>v c. c\<lparr>state_dir := v\<rparr>) c in
      bindR (env_number env ''XSOC_INTERVAL_SECONDS'' ''invalid interval'' (\<lambda>n c. c\<lparr>interval_seconds := n\<rparr>) c) (\<lambda>c.
      bindR (env_number env ''XSOC_SLOW_INTERVAL_SECONDS'' ''invalid slow interval'' (\<lambda>n c. c\<lparr>slow_interval_seconds := n\<rparr>) c) (\<lambda>c.
      let c = env_field env ''XSOC_TLS_IDENTITY_PEM'' (\<lambda>v c. c\<lparr>tls_identity_pem := Some v\<rparr>) c;
          c = env_field env ''XSOC_TLS_IDENTITY_PKCS12'' (\<lambda>v c. c\<lparr>tls_identity_pkcs12 := Some v\<rparr>) c;
          c = env_field env ''XSOC_TLS_IDENTITY_PASSWORD'' (\<lambda>v c. c\<lparr>tls_identity_password := Some v\<rparr>) c;
          c = env_field env ''XSOC_TLS_CA_PEM'' (\<lambda>v c. c\<lparr>tls_ca_pem := Some v\<rparr>) c in
      Inr c)))"

section \<open>Validation\<close>

definition f64_one :: f64 where "f64_one = 0x3FF0000000000000"

text \<open>\<open>as u64\<close>: towards zero, saturating, and 0 for a value that is not a number.\<close>

definition f64_to_u64 :: "f64 \<Rightarrow> 64 word" where
  "f64_to_u64 v =
     (if is_nan v \<or> f64_negative v then 0
      else case f64_parts (f64_magnitude v) of
        (m, e) \<Rightarrow> of_nat (min (if 0 \<le> e then m * 2 ^ nat e else m div 2 ^ nat (- e)) (2 ^ 64 - 1)))"

definition jitter_factor :: "8 word \<Rightarrow> f64" where
  "jitter_factor percent = f64_add f64_one (f64_div (f64_of_nat (unat percent)) f64_100)"

definition worst_case_cycle_seconds :: "client_config \<Rightarrow> f64" where
  "worst_case_cycle_seconds c = f64_mul (f64_of_u64 (interval_seconds c)) (jitter_factor (jitter_percent c))"

definition max_interval_seconds_at_current_jitter :: "'w config_ops \<Rightarrow> client_config \<Rightarrow> 64 word" where
  "max_interval_seconds_at_current_jitter F c =
     f64_to_u64 (f64_div (f64_of_u64 (cf_max_report_interval_seconds F)) (jitter_factor (jitter_percent c)))"

definition validates_delivery :: "client_command \<Rightarrow> client_config \<Rightarrow> bool" where
  "validates_delivery command c =
     (case command of Probe \<Rightarrow> False | Doctor \<Rightarrow> doctor_delivery c | _ \<Rightarrow> True)"

definition validate :: "url_ops \<Rightarrow> protocol \<Rightarrow> 'w config_ops \<Rightarrow> client_config \<Rightarrow> client_command \<Rightarrow> unit res" where
  "validate U X F c command =
     (if command = Status then Inr () else
      bindR (ensureR (interval_seconds c \<noteq> 0) (Message ''interval_seconds must be greater than zero'')) (\<lambda>_.
      bindR (ensureR (jitter_percent c \<le> 50) (Message ''jitter_percent must not exceed 50'')) (\<lambda>_.
      bindR (ensureR (\<not> f64_less (f64_of_u64 (cf_max_report_interval_seconds F)) (worst_case_cycle_seconds c))
        (Message ''interval_seconds with jitter_percent exceeds the server contract limit'')) (\<lambda>_.
      bindR (ensureR (60 \<le> smart_interval_seconds (smart c) \<and> smart_interval_seconds (smart c) \<le> 86400)
        (Message ''smart.interval_seconds must be between 60 and 86400'')) (\<lambda>_.
      bindR (ensureR (pred_option path_is_absolute (smart_executable (smart c)))
        (Message ''smart.executable must be an absolute path'')) (\<lambda>_.
      bindR (ensureR (interval_seconds c \<le> slow_interval_seconds c)
        (Message ''slow_interval_seconds must be at least interval_seconds'')) (\<lambda>_.
      bindR (ensureR (request_timeout_seconds c \<noteq> 0) (Message ''request_timeout_seconds must be greater than zero'')) (\<lambda>_.
      bindR (ensureR (request_timeout_seconds c \<le> 300) (Message ''request_timeout_seconds must not exceed 300 seconds'')) (\<lambda>_.
      bindR (ensureR (1024 * 1024 \<le> spool_max_bytes c) (Message ''spool_max_bytes must be at least 1 MiB'')) (\<lambda>_.
      bindR (with_context ''spool limits exceed the xcsc desktop-client profile''
        (cf_spool_limits_valid F (client_report_max_body_bytes X) (cf_max_spool_entries F) (spool_max_bytes c))) (\<lambda>_.
      let delivery = validates_delivery command c in
      bindR (if delivery
          then bindR (validate_endpoint U (endpoint c)) (\<lambda>_.
               bindR (pairing_endpoint U X c) (\<lambda>p. validate_pairing_endpoint U p))
          else Inr ()) (\<lambda>_.
      bindR (if cf_otlp_built F
          then (case otlp_endpoint c of Some e \<Rightarrow> if delivery then validate_endpoint U e else Inr () | None \<Rightarrow> Inr ())
          else ensureR (\<not> (delivery \<and> (otlp_endpoint c \<noteq> None \<or> otlp_token c \<noteq> None)))
            (Message ''OTLP export is configured but this Client was built without the optional `otlp` feature'')) (\<lambda>_.
      bindR (ensureR (\<not> (delivery \<and> tls_identity_pem c \<noteq> None \<and> tls_identity_pkcs12 c \<noteq> None))
        (Message ''configure only one TLS client identity format'')) (\<lambda>_.
      bindR (ensureR (\<not> (delivery \<and> tls_identity_password c \<noteq> None \<and> tls_identity_pkcs12 c = None))
        (Message ''tls_identity_password requires tls_identity_pkcs12'')) (\<lambda>_.
      ensureR (\<not> (delivery \<and> tls_identity_pkcs12 c \<noteq> None))
        (Message ''tls_identity_pkcs12 is supported only on Windows and macOS''))))))))))))))))"

definition validate_for_diagnostics :: "url_ops \<Rightarrow> protocol \<Rightarrow> 'w config_ops \<Rightarrow> client_config \<Rightarrow> unit res" where
  "validate_for_diagnostics U X F c =
     (case config_issue c of Some issue \<Rightarrow> Inl (Message issue) | None \<Rightarrow> validate U X F c Run)"

section \<open>The whole load\<close>

definition no_options :: "environment \<Rightarrow> parsed_options" where
  "no_options env =
     \<lparr>po_command = None, po_windows_service = False, po_config_path = env ''XSOC_CONFIG'', po_server_override = None,
      po_endpoint_override = None, po_replace_pending_pairing = False, po_output_mode = Human,
      po_output_mode_selected = False, po_doctor_delivery = False\<rparr>"

definition selected_config_path :: "'w config_ops \<Rightarrow> string option \<Rightarrow> 'w \<Rightarrow> string option" where
  "selected_config_path F path w =
     (if path = None \<and> cf_metadata_is_file F default_config_path w = Inr True then Some default_config_path else path)"

definition load_from_iter ::
  "url_ops \<Rightarrow> protocol \<Rightarrow> 'w config_ops \<Rightarrow> environment \<Rightarrow> string list \<Rightarrow> 'w \<Rightarrow> (client_config \<times> client_command) load" where
  "load_from_iter U X F env args w =
     bindR (parse_arguments (cf_package_version F) args 0 (no_options env)) (\<lambda>p.
     let command = (case po_command p of None \<Rightarrow> Run | Some c \<Rightarrow> c) in
     bindR (ensureR (\<not> (po_doctor_delivery p \<and> command \<noteq> Doctor))
       (Failed (Message ''--delivery may be used only with doctor''))) (\<lambda>_.
     bindR (validate_windows_service_invocation (po_windows_service p) command) (\<lambda>_.
     bindR (ensureR (\<not> (po_replace_pending_pairing p \<and> command \<noteq> Pair))
       (Failed (Message ''replacement requires pair''))) (\<lambda>_.
     let path = selected_config_path F (po_config_path p) w in
     bindR (fails (load_selected_config F X path command w)) (\<lambda>(c, issue).
     bindR (fails (apply_environment env c)) (\<lambda>c.
     let c = c\<lparr>config_path := path, server_override := po_server_override p,
               endpoint_override := po_endpoint_override p,
               replace_pending_pairing := po_replace_pending_pairing p, output_mode_field := po_output_mode p,
               doctor_delivery := po_doctor_delivery p, config_issue := issue\<rparr> in
     bindR (if command = Pair
         then bindR (fails (apply_pair_options U X c)) (\<lambda>c.
              bindR (fails (validate_durable_report_endpoint U c (endpoint c))) (\<lambda>_. Inr c))
         else (case endpoint_override c of
                 Some e \<Rightarrow> Inr (c\<lparr>endpoint_override := None, endpoint := e\<rparr>)
               | None \<Rightarrow> Inr c)) (\<lambda>c.
     bindR (fails (validate U X F c command)) (\<lambda>_. Inr (c, command)))))))))"

section \<open>The durable save\<close>

definition persisted_config :: "client_config \<Rightarrow> client_config" where
  "persisted_config c =
     c\<lparr>config_path := None, server_override := None, endpoint_override := None, replace_pending_pairing := False\<rparr>"

text \<open>\<open>SecretWriter\<close> holds a bounded number of bytes.\<close>

definition bounded_write :: "string \<Rightarrow> string \<Rightarrow> string res" where
  "bounded_write output bytes =
     (if length output + length bytes \<le> max_config_bytes then Inr (output @ bytes)
      else Inl (Message ''secret output exceeds its budget''))"

definition persist_durable_config :: "'w config_ops \<Rightarrow> client_config \<Rightarrow> ('w, client_error, string) tx" where
  "persist_durable_config F c =
     (let path = (case config_path c of None \<Rightarrow> default_config_path | Some p \<Rightarrow> p) in
      bindT (liftR (ok_or (Message ''serialize config'') (cf_encode F (persisted_config c)))) (\<lambda>text.
      bindT (liftR (bounded_write [] text)) (\<lambda>output.
      bindT (liftR (bounded_write output [CHR 0x0A])) (\<lambda>bytes.
      bindT (publish_private_config F path bytes) (\<lambda>_.
      returnT path)))))"

end
