(* ===== verification/Config_Correct.thy ===== *)
theory Config_Correct
  imports Config_Load
begin

text \<open>
  What a loaded configuration satisfies, where its endpoint comes from, when \<open>status\<close> starts
  in spite of a broken file, and that a saved configuration is what the next start reads.
\<close>

section \<open>Validity\<close>

definition delivery_configured :: "url_ops \<Rightarrow> protocol \<Rightarrow> 'w config_ops \<Rightarrow> client_config \<Rightarrow> bool" where
  "delivery_configured U X F c \<longleftrightarrow>
     trusted_https U (endpoint c) \<and>
     (\<exists>p. pairing_endpoint U X c = Inr p \<and> trusted_https U p \<and> u_query (the (url_parse U p)) = None) \<and>
     (case otlp_endpoint c of None \<Rightarrow> True | Some e \<Rightarrow> cf_otlp_built F \<and> trusted_https U e) \<and>
     (otlp_token c \<noteq> None \<longrightarrow> cf_otlp_built F) \<and>
     tls_identity_pkcs12 c = None \<and> tls_identity_password c = None"

definition well_configured :: "url_ops \<Rightarrow> protocol \<Rightarrow> 'w config_ops \<Rightarrow> client_command \<Rightarrow> client_config \<Rightarrow> bool" where
  "well_configured U X F command c \<longleftrightarrow>
     0 < interval_seconds c \<and> interval_seconds c \<le> slow_interval_seconds c \<and> jitter_percent c \<le> 50 \<and>
     \<not> f64_less (f64_of_u64 (cf_max_report_interval_seconds F)) (worst_case_cycle_seconds c) \<and>
     60 \<le> smart_interval_seconds (smart c) \<and> smart_interval_seconds (smart c) \<le> 86400 \<and>
     pred_option path_is_absolute (smart_executable (smart c)) \<and>
     0 < request_timeout_seconds c \<and> request_timeout_seconds c \<le> 300 \<and> 1024 * 1024 \<le> spool_max_bytes c \<and>
     cf_spool_limits_valid F (client_report_max_body_bytes X) (cf_max_spool_entries F) (spool_max_bytes c) = Inr () \<and>
     (validates_delivery command c \<longrightarrow> delivery_configured U X F c)"

lemma endpoints_step:
  "bindR (if delivery then bindR (validate_endpoint U e) (\<lambda>_. bindR p (\<lambda>p. validate_pairing_endpoint U p)) else Inr ()) k = Inr y \<longleftrightarrow>
     (delivery \<longrightarrow> trusted_https U e \<and> (\<exists>q. p = Inr q \<and> trusted_https U q \<and> u_query (the (url_parse U q)) = None)) \<and> k () = Inr y"
  by (auto simp: bindR_Inr_iff validate_endpoint_ok_iff validate_pairing_endpoint_ok_iff)

lemma otlp_step:
  "bindR (if built
      then (case oe of Some e \<Rightarrow> if delivery then validate_endpoint U e else Inr () | None \<Rightarrow> Inr ())
      else ensureR (\<not> (delivery \<and> (oe \<noteq> None \<or> ot \<noteq> None))) m) k = Inr y \<longleftrightarrow>
     (delivery \<longrightarrow> (case oe of None \<Rightarrow> True | Some e \<Rightarrow> built \<and> trusted_https U e) \<and> (ot \<noteq> None \<longrightarrow> built)) \<and> k () = Inr y"
  by (cases oe; cases built; cases delivery) (auto simp: bindR_Inr_iff ensureR_def validate_endpoint_ok_iff)

lemma ensureR_Inr: "ensureR b e = Inr y \<longleftrightarrow> b"
  by (simp add: ensureR_def)

lemma limits_step: "bindR (with_context m r) k = Inr y \<longleftrightarrow> r = Inr () \<and> k () = Inr y" for r :: "unit res"
  by (cases r) (auto simp: with_context_def)

lemma validate_accepts:
  "validate U X F c command = Inr u \<longleftrightarrow> command = Status \<or> well_configured U X F command c"
proof (cases "command = Status")
  case False
  have zero: "(0 < w) = (w \<noteq> 0)" for w :: "64 word" by (simp add: word_gt_0)
  have tls: "\<not> (d \<and> a \<and> b) \<and> \<not> (d \<and> p \<and> \<not> b) \<and> \<not> (d \<and> b) \<longleftrightarrow> (d \<longrightarrow> \<not> b \<and> \<not> p)" for d a b p by blast
  show ?thesis
    unfolding validate_def Let_def if_not_P [OF False] bindR_ensureR_iff limits_step endpoints_step otlp_step
      ensureR_Inr well_configured_def delivery_configured_def zero
    using False by (cases "validates_delivery command c") auto
qed (simp add: validate_def)

section \<open>What loading does\<close>

lemma fails_Inr [simp]: "fails r = Inr x \<longleftrightarrow> r = Inr x"
  by (simp add: fails_def)

lemma load_valid:
  assumes "load_from_iter U X F env args w = Inr (c, command)"
  shows "command = Status \<or> well_configured U X F command c"
proof -
  have "\<exists>u. validate U X F c command = Inr u"
    using assms unfolding load_from_iter_def Let_def
    by (auto simp: bindR_Inr_iff ensureR_Inr split: prod.splits)
  then show ?thesis by (auto simp: validate_accepts)
qed

text \<open>The steps of a load, for use by the statements below.\<close>

lemma load_steps:
  assumes "load_from_iter U X F env args w = Inr (c, command)"
  obtains p selected issue e where
    "parse_arguments (cf_package_version F) args 0 (no_options env) = Inr p"
    "command = (case po_command p of None \<Rightarrow> Run | Some c \<Rightarrow> c)"
    "load_selected_config F X (selected_config_path F (po_config_path p) w) command w = Inr (selected, issue)"
    "apply_environment env selected = Inr e"
    "command \<noteq> Pair \<longrightarrow> endpoint c = (case po_endpoint_override p of Some v \<Rightarrow> v | None \<Rightarrow> endpoint e)"
    "command \<noteq> Pair \<longrightarrow> config_issue c = issue"
  using assms unfolding load_from_iter_def Let_def
  by (auto simp: bindR_Inr_iff ensureR_Inr split: prod.splits if_splits option.splits intro: that)

lemma env_field_endpoint:
  "(\<And>v c. endpoint (update v c) = endpoint c) \<Longrightarrow> endpoint (env_field env name update c) = endpoint c"
  by (simp add: env_field_def split: option.splits)

lemma env_number_endpoint:
  "(\<And>n c. endpoint (update n c) = endpoint c) \<Longrightarrow> env_number env name m update c = Inr c' \<Longrightarrow> endpoint c' = endpoint c"
  by (auto simp: env_number_def bindR_Inr_iff split: option.splits)

lemma apply_environment_endpoint:
  "apply_environment env c = Inr c' \<Longrightarrow>
     endpoint c' = (case env_var env ''XSOC_ENDPOINT'' of None \<Rightarrow> endpoint c | Some v \<Rightarrow> v)"
  unfolding apply_environment_def Let_def
  by (auto simp: bindR_Inr_iff env_field_endpoint dest!: env_number_endpoint [rotated])
    (simp_all add: env_field_endpoint env_field_def split: option.splits)

section \<open>Status\<close>

text \<open>A variable with a number, when it is set, holds a \<open>u64\<close>.\<close>

definition number_readable :: "environment \<Rightarrow> string \<Rightarrow> bool" where
  "number_readable env name \<longleftrightarrow> (case env_var env name of None \<Rightarrow> True | Some v \<Rightarrow> parse_unsigned (2 ^ 64) v \<noteq> None)"

definition numbers_readable :: "environment \<Rightarrow> bool" where
  "numbers_readable env \<longleftrightarrow> number_readable env ''XSOC_INTERVAL_SECONDS'' \<and> number_readable env ''XSOC_SLOW_INTERVAL_SECONDS''"

lemma env_number_result:
  "(\<exists>c'. env_number env name m update c = Inr c') \<longleftrightarrow> number_readable env name"
  by (auto simp: env_number_def number_readable_def bindR_Inr_iff split: option.splits)

lemma apply_environment_result: "(\<exists>c'. apply_environment env c = Inr c') \<longleftrightarrow> numbers_readable env"
  unfolding apply_environment_def Let_def numbers_readable_def
  by (simp add: bindR_Inr_iff) (metis env_number_result)

lemma status_loads_selected:
  "\<exists>selected issue. load_selected_config F X path Status w = Inr (selected, issue)"
  by (cases path) (simp_all add: load_selected_config_def Let_def split: sum.splits)

text \<open>Command lines of \<open>status\<close> without an option that belongs to another command.\<close>

definition plain_status :: "parsed_options \<Rightarrow> bool" where
  "plain_status p \<longleftrightarrow> po_command p = Some Status \<and> \<not> po_doctor_delivery p \<and> \<not> po_windows_service p \<and>
     \<not> po_replace_pending_pairing p"

lemma status_load:
  assumes parsed: "parse_arguments (cf_package_version F) args 0 (no_options env) = Inr p" and plain: "plain_status p"
  shows "(\<exists>c. load_from_iter U X F env args w = Inr (c, Status) \<and>
      config_issue c = snd (projr (load_selected_config F X (selected_config_path F (po_config_path p) w) Status w))) \<longleftrightarrow>
    numbers_readable env"
proof -
  obtain selected issue where sel: "load_selected_config F X (selected_config_path F (po_config_path p) w) Status w = Inr (selected, issue)"
    using status_loads_selected [of F X "selected_config_path F (po_config_path p) w" w] by (elim exE) assumption
  have "(\<exists>c'. apply_environment env selected = Inr c') \<longleftrightarrow> numbers_readable env" by (rule apply_environment_result)
  then show ?thesis
    using plain parsed sel
    by (cases "apply_environment env selected"; cases "po_endpoint_override p")
      (auto simp: load_from_iter_def Let_def plain_status_def ensureR_def validate_windows_service_invocation_def
        validate_def fails_def)
qed

section \<open>The saved configuration\<close>

text \<open>
  The laws of the configuration directories: a replacement is atomic, a read returns what the
  entry holds, and neither moves the process.
\<close>

locale config_files =
  fixes F :: "'w config_ops"
    and holds :: "'w \<Rightarrow> string \<times> string \<Rightarrow> string option"
  assumes replace_done: "cf_replace F d n b w = (Inr u, w') \<Longrightarrow> holds w' = (holds w) ((d, n) \<mapsto> b)"
    and replace_failed: "cf_replace F d n b w = (Inl e, w') \<Longrightarrow> holds w' = holds w"
    and replace_stays: "cf_replace F d n b w = (r, w') \<Longrightarrow> cf_current_dir F w' = cf_current_dir F w"
    and read_held: "cf_read F d n k w = Inr b \<Longrightarrow> holds w (d, n) = Some b"

definition saved_form :: "client_config \<Rightarrow> client_config" where
  "saved_form c = (persisted_config c)\<lparr>output_mode_field := Human, doctor_delivery := False, config_issue := None\<rparr>"

lemma open_entry_location:
  assumes "open_entry F path w = Inr (d, n)" "open_entry F path w' = Inr (d', n')" "cf_current_dir F w' = cf_current_dir F w"
  shows "(d', n') = (d, n)"
  using assms by (auto simp: open_entry_def bindR_Inr_iff)

context config_files
begin

lemma persist_kept:
  assumes "persist_durable_config F c w = (Inl e, w')"
  shows "holds w' = holds w"
proof -
  have replaced: "holds w2 = holds w1" if "map_errT (Context m) (cf_replace F d n b) w1 = (Inl e1, w2)" for m d n b w1 w2 e1
    using that replace_failed by (auto simp: map_errT_def map_err_Inl_iff split: prod.splits)
  show ?thesis
    using assms unfolding persist_durable_config_def Let_def publish_private_config_def
    by (auto simp: bindT_apply liftR_apply readT_apply returnT_apply split: sum.splits prod.splits dest!: replaced)
qed

lemma persist_done:
  assumes "persist_durable_config F c w = (Inr path, w')"
  obtains body d n where "cf_encode F (persisted_config c) = Some body"
    "length body < max_config_bytes"
    "open_entry F path w = Inr (d, n)" "holds w' = (holds w) ((d, n) \<mapsto> body @ [CHR 0x0A])"
    "cf_current_dir F w' = cf_current_dir F w"
proof -
  have replaced: "\<exists>u. cf_replace F d n b w1 = (Inr u, w2)" if "map_errT (Context m) (cf_replace F d n b) w1 = (Inr u, w2)"
    for m d n b w1 w2 u using that by (auto simp: map_errT_ok_iff)
  show thesis
    using assms unfolding persist_durable_config_def Let_def publish_private_config_def bounded_write_def
    by (auto simp: bindT_ok_iff liftR_apply readT_apply returnT_apply map_errT_ok_iff split: if_splits
        intro!: that dest: replace_done replace_stays)
qed

lemma saved_is_loaded:
  assumes saved: "persist_durable_config F c w = (Inr path, w')"
    and loaded: "load_selected_config F X (Some path) command w' = Inr (c', None)"
    and codec: "\<And>body. cf_encode F (persisted_config c) = Some body \<Longrightarrow> cf_decode F (body @ [CHR 0x0A]) = Some (saved_form c)"
  shows "c' = saved_form c"
proof -
  obtain body d n where body: "cf_encode F (persisted_config c) = Some body" and entry: "open_entry F path w = Inr (d, n)"
    and held: "holds w' = (holds w) ((d, n) \<mapsto> body @ [CHR 0x0A])" and dir: "cf_current_dir F w' = cf_current_dir F w"
    by (rule persist_done [OF saved])
  obtain bytes where read: "read_private_config F path w' = Inr bytes" and decoded: "cf_decode F bytes = Some c'"
    using loaded by (auto simp: load_selected_config_def Let_def bindR_Inr_iff split: sum.splits if_splits)
  then obtain d' n' where entry': "open_entry F path w' = Inr (d', n')" and got: "cf_read F d' n' max_config_bytes w' = Inr bytes"
    by (auto simp: read_private_config_def bindR_Inr_iff)
  have "(d', n') = (d, n)" by (rule open_entry_location [OF entry entry' dir])
  then have "bytes = body @ [CHR 0x0A]" using read_held [OF got] held by simp
  with decoded codec [OF body] show ?thesis by simp
qed

end

section \<open>A configuration in memory\<close>

record mem_config =
  mc_entries :: "(string \<times> string) \<Rightarrow> string option"
  mc_failing :: bool

definition mem_config_ops :: "(string \<Rightarrow> client_config option) \<Rightarrow> (client_config \<Rightarrow> string option) \<Rightarrow> mem_config config_ops" where
  "mem_config_ops decode encode =
     \<lparr>cf_current_dir = (\<lambda>w. Inr ''/''),
      cf_metadata_is_file = (\<lambda>path w. case (path_parent path, path_file_name path) of
         (Some d, Some n) \<Rightarrow> if mc_entries w (d, n) = None then Inl (Io_Error NotFound ''no entry'') else Inr True
       | _ \<Rightarrow> Inr False),
      cf_open = (\<lambda>d w. Inr ()),
      cf_entry_name = Inr,
      cf_read = (\<lambda>d n k w. case mc_entries w (d, n) of
         None \<Rightarrow> Inl (Io (Io_Error NotFound ''no entry''))
       | Some b \<Rightarrow> if length b \<le> k then Inr b else Inl (Message ''too large'')),
      cf_replace = (\<lambda>d n b w. if mc_failing w then (Inl (Message ''read-only''), w)
         else (Inr (), w\<lparr>mc_entries := (mc_entries w) ((d, n) \<mapsto> b)\<rparr>)),
      cf_decode = decode, cf_encode = encode,
      cf_spool_limits_valid = (\<lambda>r n b. Inr ()), cf_max_spool_entries = 4096,
      cf_max_report_interval_seconds = 3600, cf_otlp_built = False, cf_package_version = ''1.0.0''\<rparr>"

interpretation mem_config: config_files "mem_config_ops decode encode" mc_entries
  by unfold_locales (auto simp: mem_config_ops_def split: if_splits option.splits)

end
