(* ===== verification/Otlp.thy ===== *)
theory Otlp
  imports Transport Float_Arith
begin

text \<open>
  The OTLP export: \<open>src/otlp.rs\<close> and \<open>send_otlp\<close> of \<open>src/transport.rs\<close>. The messages are
  records with the source's fields; the protobuf codec of \<open>prost\<close> and the gzip encoder are the
  parameters \<open>otlp_ops\<close>.
\<close>

section \<open>Messages\<close>

datatype otlp_value = String_Value string | Bool_Value bool | Int_Value "64 word" | Double_Value f64

record any_value =
  av_value :: "otlp_value option"

record key_value =
  kv_key :: string
  kv_value :: "any_value option"

datatype point_value = As_Double f64 | As_Int "64 word"

record number_data_point =
  ndp_attributes :: "key_value list"
  ndp_start :: "64 word"
  ndp_time :: "64 word"
  ndp_value :: "point_value option"
  ndp_flags :: "32 word"

datatype aggregation_temporality = Unspecified_Temporality | Delta | Cumulative

fun temporality_number :: "aggregation_temporality \<Rightarrow> int" where
  "temporality_number Unspecified_Temporality = 0"
| "temporality_number Delta = 1"
| "temporality_number Cumulative = 2"

text \<open>\<open>Sum\<close> carries its points, the number of its temporality and whether it is monotonic.\<close>

datatype metric_data = Gauge "number_data_point list" | Sum "number_data_point list" int bool

record metric =
  mt_name :: string
  mt_description :: string
  mt_unit :: string
  mt_data :: "metric_data option"

record instrumentation_scope =
  is_name :: string
  is_version :: string
  is_attributes :: "key_value list"
  is_dropped :: "32 word"

record scope_metrics =
  sm_scope :: "instrumentation_scope option"
  sm_metrics :: "metric list"
  sm_schema_url :: string

record otlp_resource =
  or_attributes :: "key_value list"
  or_dropped :: "32 word"

record resource_metrics =
  rm_resource :: "otlp_resource option"
  rm_scope_metrics :: "scope_metrics list"
  rm_schema_url :: string

record export_request =
  er_resource_metrics :: "resource_metrics list"

section \<open>Metrics collected by name\<close>

definition attr :: "string \<Rightarrow> string \<Rightarrow> key_value" where
  "attr key value = \<lparr>kv_key = key, kv_value = Some \<lparr>av_value = Some (String_Value value)\<rparr>\<rparr>"

definition with_attr :: "key_value list \<Rightarrow> string \<Rightarrow> string \<Rightarrow> key_value list" where
  "with_attr attributes key value = attributes @ [attr key value]"

definition number_point :: "f64 \<Rightarrow> 64 word \<Rightarrow> 64 word \<Rightarrow> key_value list \<Rightarrow> number_data_point" where
  "number_point value start_time time attributes =
     \<lparr>ndp_attributes = attributes, ndp_start = start_time, ndp_time = time,
      ndp_value = Some (As_Double value), ndp_flags = 0\<rparr>"

definition point :: "f64 \<Rightarrow> 64 word \<Rightarrow> key_value list \<Rightarrow> number_data_point" where
  "point value time attributes = number_point value 0 time attributes"

datatype metric_kind = Gauge_Kind | Sum_Kind

definition kind_of :: "metric \<Rightarrow> metric_kind option" where
  "kind_of m =
     (case mt_data m of
        Some (Gauge ps) \<Rightarrow> Some Gauge_Kind
      | Some (Sum ps t monotonic) \<Rightarrow> Some Sum_Kind
      | None \<Rightarrow> None)"

text \<open>The position of the metric that \<open>metric_slot\<close> returns a reference to.\<close>

fun metric_slot :: "string \<Rightarrow> string \<Rightarrow> metric_kind \<Rightarrow> metric list \<Rightarrow> nat option" where
  "metric_slot name unit kind [] = None"
| "metric_slot name unit kind (m # ms) =
     (if mt_name m = name \<and> mt_unit m = unit \<and> kind_of m = Some kind then Some 0
      else map_option Suc (metric_slot name unit kind ms))"

definition gauge :: "string \<Rightarrow> string \<Rightarrow> f64 \<Rightarrow> 64 word \<Rightarrow> key_value list \<Rightarrow> metric list \<Rightarrow> metric list" where
  "gauge name unit value time attributes ms =
     (let data_point = point value time attributes;
          fresh = ms @ [\<lparr>mt_name = name, mt_description = [], mt_unit = unit, mt_data = Some (Gauge [data_point])\<rparr>] in
      case metric_slot name unit Gauge_Kind ms of
        Some i \<Rightarrow>
          (case mt_data (ms ! i) of
             Some (Gauge ps) \<Rightarrow> ms[i := (ms ! i)\<lparr>mt_data := Some (Gauge (ps @ [data_point]))\<rparr>]
           | _ \<Rightarrow> fresh)
      | None \<Rightarrow> fresh)"

definition sum_metric ::
  "string \<Rightarrow> string \<Rightarrow> 64 word \<Rightarrow> 64 word \<Rightarrow> 64 word \<Rightarrow> key_value list \<Rightarrow> metric list \<Rightarrow> metric list" where
  "sum_metric name unit value start_time time attributes ms =
     (let data_point = number_point (f64_of_u64 value) start_time time attributes;
          fresh = ms @ [\<lparr>mt_name = name, mt_description = [], mt_unit = unit,
            mt_data = Some (Sum [data_point] (temporality_number Cumulative) True)\<rparr>] in
      case metric_slot name unit Sum_Kind ms of
        Some i \<Rightarrow>
          (case mt_data (ms ! i) of
             Some (Sum ps t monotonic) \<Rightarrow> ms[i := (ms ! i)\<lparr>mt_data := Some (Sum (ps @ [data_point]) t monotonic)\<rparr>]
           | _ \<Rightarrow> fresh)
      | None \<Rightarrow> fresh)"

section \<open>Encoding a report\<close>

text \<open>\<open>timestamp_nanos_opt\<close> fails outside \<open>i64\<close>; a time before 1970 counts as 0.\<close>

definition report_time :: "client_report \<Rightarrow> 64 word" where
  "report_time report = (let t = rep_collected_at report in
     if - (2 ^ 63) \<le> t \<and> t < 2 ^ 63 then word_of_int (max t 0) else 0)"

definition network_metrics_of :: "64 word \<Rightarrow> network_snapshot \<Rightarrow> metric list \<Rightarrow> metric list" where
  "network_metrics_of time network ms =
     (let attributes = [attr ''network.interface.name'' (net_name network)];
          ms = sum_metric ''system.network.io'' ''By'' (net_received_total network) 0 time
                 (with_attr attributes ''network.io.direction'' ''receive'') ms
      in sum_metric ''system.network.io'' ''By'' (net_transmitted_total network) 0 time
                 (with_attr attributes ''network.io.direction'' ''transmit'') ms)"

definition disk_metrics_of :: "64 word \<Rightarrow> disk_snapshot \<Rightarrow> metric list \<Rightarrow> metric list" where
  "disk_metrics_of time disk ms =
     (let attributes = [attr ''system.device'' (dsk_name disk), attr ''system.filesystem.mountpoint'' (dsk_mount_point disk)];
          used = (if dsk_available disk \<le> dsk_total disk then dsk_total disk - dsk_available disk else 0);
          ms = gauge ''system.filesystem.usage'' ''By'' (f64_of_u64 used) time
                 (with_attr attributes ''system.filesystem.state'' ''used'') ms;
          ms = sum_metric ''system.disk.io'' ''By'' (dsk_read_total disk) 0 time
                 (with_attr attributes ''disk.io.direction'' ''read'') ms
      in sum_metric ''system.disk.io'' ''By'' (dsk_written_total disk) 0 time
                 (with_attr attributes ''disk.io.direction'' ''write'') ms)"

definition temperature_metrics_of :: "64 word \<Rightarrow> temperature_snapshot \<Rightarrow> metric list \<Rightarrow> metric list" where
  "temperature_metrics_of time temperature ms =
     (case tmp_celsius temperature of
        None \<Rightarrow> ms
      | Some value \<Rightarrow>
          gauge ''hw.temperature'' ''Cel'' value time
            [attr ''sensor.id'' (tmp_id temperature), attr ''sensor.label'' (tmp_label temperature),
             attr ''telemetry.source'' (tmp_source temperature)] ms)"

definition optional_gauge ::
  "string \<Rightarrow> string \<Rightarrow> f64 option \<Rightarrow> 64 word \<Rightarrow> key_value list \<Rightarrow> metric list \<Rightarrow> metric list" where
  "optional_gauge name unit value time attributes ms =
     (case value of None \<Rightarrow> ms | Some v \<Rightarrow> gauge name unit v time attributes ms)"

definition append_gpu_metrics :: "64 word \<Rightarrow> gpu_snapshot \<Rightarrow> metric list \<Rightarrow> metric list" where
  "append_gpu_metrics time gpu ms =
     (let attrs = [attr ''gpu.id'' (gpu_id gpu), attr ''gpu.vendor'' (gpu_vendor gpu), attr ''gpu.name'' (gpu_name gpu)];
          ms = optional_gauge ''hw.gpu.utilization'' ''1'' (map_option (\<lambda>v. f64_div v f64_100) (gpu_utilization gpu)) time attrs ms;
          ms = optional_gauge ''hw.gpu.memory.usage'' ''By'' (map_option f64_of_u64 (gpu_memory_used gpu)) time attrs ms;
          ms = optional_gauge ''hw.gpu.memory.limit'' ''By'' (map_option f64_of_u64 (gpu_memory_total gpu)) time attrs ms;
          ms = optional_gauge ''hw.gpu.temperature'' ''Cel'' (gpu_temperature gpu) time attrs ms
      in optional_gauge ''hw.gpu.power'' ''W'' (gpu_power gpu) time attrs ms)"

definition report_metrics :: "client_report \<Rightarrow> metric list" where
  "report_metrics report =
     (let s = rep_system report; time = report_time report;
          ms = gauge ''system.cpu.utilization'' ''1'' (f64_div (cpu_usage (sys_cpu s)) f64_100) time [] [];
          ms = gauge ''system.memory.usage'' ''By'' (f64_of_u64 (ram_used (sys_memory s))) time
                 [attr ''system.memory.state'' ''used''] ms;
          ms = gauge ''system.memory.limit'' ''By'' (f64_of_u64 (ram_total (sys_memory s))) time [] ms;
          ms = gauge ''system.uptime'' ''s'' (f64_of_u64 (sys_uptime s)) time [] ms;
          ms = fold (network_metrics_of time) (sys_networks s) ms;
          ms = fold (disk_metrics_of time) (sys_disks s) ms;
          ms = fold (temperature_metrics_of time) (sys_temperatures s) ms
      in fold (append_gpu_metrics time) (sys_gpus s) ms)"

definition otel_os_type :: "string \<Rightarrow> string" where
  "otel_os_type value = (if value = ''macos'' then ''darwin'' else value)"

definition otel_host_arch :: "string \<Rightarrow> string" where
  "otel_host_arch value =
     (if value = ''x86_64'' then ''amd64''
      else if value = ''aarch64'' then ''arm64''
      else if value \<in> set [''x86'', ''i386'', ''i586'', ''i686''] then ''x86'' else value)"

definition encode_report :: "client_report \<Rightarrow> export_request" where
  "encode_report report = (let h = rep_host report in
     \<lparr>er_resource_metrics = [\<lparr>
        rm_resource = Some \<lparr>or_attributes = [attr ''host.id'' (hi_id h), attr ''os.type'' (otel_os_type (hi_os h)),
          attr ''host.arch'' (otel_host_arch (hi_arch h)), attr ''service.name'' ''xsoc'',
          attr ''service.version'' (hi_client_version h)], or_dropped = 0\<rparr>,
        rm_scope_metrics = [\<lparr>
          sm_scope = Some \<lparr>is_name = ''xsoc.hostmetrics'', is_version = hi_client_version h, is_attributes = [],
            is_dropped = 0\<rparr>,
          sm_metrics = report_metrics report,
          sm_schema_url = ''https://xsos.local/schemas/hostmetrics/1''\<rparr>],
        rm_schema_url = ''https://opentelemetry.io/schemas/1.36.0''\<rparr>]\<rparr>)"

section \<open>The answer of the collector\<close>

record partial_success =
  pa_rejected :: "64 word"
  pa_message :: string

datatype export_outcome = Accepted | Partial "64 word" | Warning

text \<open>The decoded answer is \<open>None\<close> when it is no response; the count is a signed number.\<close>

record otlp_ops =
  oo_encode :: "export_request \<Rightarrow> string option"
  oo_gzip :: "string \<Rightarrow> string option"
  oo_decode_response :: "string \<Rightarrow> partial_success option option"

definition decode_export_response :: "otlp_ops \<Rightarrow> string \<Rightarrow> export_outcome res" where
  "decode_export_response P body =
     (case oo_decode_response P body of
        None \<Rightarrow> Inl (Message ''invalid OTLP metrics response'')
      | Some None \<Rightarrow> Inr Accepted
      | Some (Some partial) \<Rightarrow>
          if sint (pa_rejected partial) < 0 then Inl (Message ''invalid OTLP rejected data point count'')
          else Inr (if 0 < pa_rejected partial then Partial (pa_rejected partial)
                    else if pa_message partial \<noteq> [] then Warning else Accepted))"

definition ensure_generic_success :: "nat \<Rightarrow> unit res" where
  "ensure_generic_success status = ensureR (status = 200) (Message ''rejected telemetry'')"

definition validate_otlp_response :: "otlp_ops \<Rightarrow> nat \<Rightarrow> string option \<Rightarrow> string \<Rightarrow> export_outcome res" where
  "validate_otlp_response P status content_type body =
     bindR (ensure_generic_success status) (\<lambda>_.
     bindR (ensureR (case content_type of None \<Rightarrow> False
         | Some value \<Rightarrow> eq_ignore_ascii_case (trim (before_first CHR '';'' value)) ''application/x-protobuf'')
       (Message ''unexpected OTLP response content type'')) (\<lambda>_.
     decode_export_response P body))"

definition otlp_headers :: "http_ops \<Rightarrow> string option \<Rightarrow> (string \<times> string) list res" where
  "otlp_headers H token =
     bindR (case token of
              Some t \<Rightarrow> authenticated_headers H t ''application/x-protobuf''
            | None \<Rightarrow> Inr [(''content-type'', ''application/x-protobuf'')]) (\<lambda>headers.
     Inr (headers @ [(''content-encoding'', ''gzip'')]))"

definition send_otlp :: "'d env \<Rightarrow> otlp_ops \<Rightarrow> network \<Rightarrow> reporter \<Rightarrow> client_report \<Rightarrow> unit res" where
  "send_otlp E P net r report =
     (case rp_otlp_endpoint r of
        None \<Rightarrow> Inr ()
      | Some target \<Rightarrow>
          bindR (validate_report_identity E r report) (\<lambda>_.
          bindR (ok_or (Message ''protobuf'') (oo_encode P (encode_report report))) (\<lambda>protobuf.
          bindR (ok_or (Message ''gzip'') (oo_gzip P protobuf)) (\<lambda>body.
          bindR (otlp_headers (env_http E) (rp_otlp_token r)) (\<lambda>headers.
          bindR (map_err Http_Transport (post_bounded (env_http E) net target headers body)) (\<lambda>response.
          bindR (validate_otlp_response P (hs_status response) (content_type_of (env_http E) response) (hs_body response)) (\<lambda>outcome.
          Inr ())))))))"

end
