(* ===== verification/Otlp_Correct.thy ===== *)
theory Otlp_Correct
  imports Otlp
begin

text \<open>
  The metrics of a report, built by appending points to the metric found by name, are those of
  a reference definition: the points in order of emission, grouped by name, unit and kind in
  order of first occurrence. So a name occurs once in a scope and no point is lost.
\<close>

section \<open>The reference\<close>

type_synonym metric_key = "string \<times> string \<times> metric_kind"
type_synonym emission = "metric_key \<times> number_data_point"

definition make_metric :: "metric_key \<Rightarrow> number_data_point list \<Rightarrow> metric" where
  "make_metric key ps = (case key of (name, unit, kind) \<Rightarrow>
     \<lparr>mt_name = name, mt_description = [], mt_unit = unit,
      mt_data = Some (case kind of Gauge_Kind \<Rightarrow> Gauge ps | Sum_Kind \<Rightarrow> Sum ps 2 True)\<rparr>)"

definition points_of :: "metric \<Rightarrow> number_data_point list" where
  "points_of m = (case mt_data m of Some (Gauge ps) \<Rightarrow> ps | Some (Sum ps t monotonic) \<Rightarrow> ps | None \<Rightarrow> [])"

definition first_keys :: "emission list \<Rightarrow> metric_key list" where
  "first_keys es = rev (remdups (rev (map fst es)))"

definition points_at :: "emission list \<Rightarrow> metric_key \<Rightarrow> number_data_point list" where
  "points_at es key = map snd (List.filter (\<lambda>e. fst e = key) es)"

definition collect_metrics :: "emission list \<Rightarrow> metric list" where
  "collect_metrics es = map (\<lambda>key. make_metric key (points_at es key)) (first_keys es)"

lemma set_first_keys [simp]: "set (first_keys es) = fst ` set es"
  by (simp add: first_keys_def)

lemma distinct_first_keys [simp]: "distinct (first_keys es)"
  by (simp add: first_keys_def)

lemma first_keys_snoc:
  "first_keys (es @ [(key, p)]) = (if key \<in> fst ` set es then first_keys es else first_keys es @ [key])"
  by (simp add: first_keys_def)

lemma points_at_snoc: "points_at (es @ [(key, p)]) = (points_at es)(key := points_at es key @ [p])"
  by (auto simp: points_at_def fun_eq_iff)

lemma points_at_fresh: "key \<notin> fst ` set es \<Longrightarrow> points_at es key = []"
  by (auto simp: points_at_def filter_empty_conv image_iff)

section \<open>Appending a point\<close>

definition position :: "'k \<Rightarrow> 'k list \<Rightarrow> nat" where
  "position key ks = length (takeWhile (\<lambda>x. x \<noteq> key) ks)"

lemma position_simps [simp]:
  "position key (k # ks) = (if k = key then 0 else Suc (position key ks))"
  by (simp add: position_def)

lemma update_position:
  "distinct ks \<Longrightarrow> key \<in> set ks \<Longrightarrow> (map f ks)[position key ks := g] = map (f(key := g)) ks"
  by (induction ks) auto

lemma nth_position: "key \<in> set ks \<Longrightarrow> map f ks ! position key ks = f key"
  by (induction ks) auto

lemma metric_slot_made:
  "metric_slot name unit kind (map (\<lambda>k. make_metric k (F k)) ks) =
     (if (name, unit, kind) \<in> set ks then Some (position (name, unit, kind) ks) else None)"
proof (induction ks)
  case (Cons k ks)
  obtain n u kd where k: "k = (n, u, kd)" by (cases k)
  have "kind_of (make_metric k (F k)) = Some kd" "mt_name (make_metric k (F k)) = n" "mt_unit (make_metric k (F k)) = u"
    by (cases kd; simp add: k make_metric_def kind_of_def)+
  with Cons k show ?case by auto
qed simp

lemma metric_slot_collected:
  "metric_slot name unit kind (collect_metrics es) =
     (if (name, unit, kind) \<in> fst ` set es then Some (position (name, unit, kind) (first_keys es)) else None)"
  by (simp add: collect_metrics_def metric_slot_made)

lemma collected_at:
  "key \<in> fst ` set es \<Longrightarrow> collect_metrics es ! position key (first_keys es) = make_metric key (points_at es key)"
  by (simp add: collect_metrics_def nth_position)

lemma collect_again:
  assumes "key \<in> fst ` set es"
  shows "(collect_metrics es)[position key (first_keys es) := make_metric key (points_at es key @ [p])] =
    collect_metrics (es @ [(key, p)])"
proof -
  let ?made = "\<lambda>key. make_metric key (points_at es key)"
  have "(collect_metrics es)[position key (first_keys es) := make_metric key (points_at es key @ [p])] =
      map (?made(key := make_metric key (points_at es key @ [p]))) (first_keys es)"
    unfolding collect_metrics_def using assms by (intro update_position) auto
  also have "\<dots> = collect_metrics (es @ [(key, p)])"
    using assms by (auto simp: collect_metrics_def first_keys_snoc points_at_snoc)
  finally show ?thesis .
qed

lemma collect_fresh:
  assumes "key \<notin> fst ` set es"
  shows "collect_metrics es @ [make_metric key [p]] = collect_metrics (es @ [(key, p)])"
proof -
  have "map (\<lambda>k. make_metric k (points_at (es @ [(key, p)]) k)) (first_keys es) = collect_metrics es"
    unfolding collect_metrics_def using assms by (intro map_cong) (auto simp: points_at_snoc)
  moreover have "points_at (es @ [(key, p)]) key = [p]"
    using points_at_fresh [OF assms] by (simp add: points_at_snoc)
  ultimately show ?thesis using assms by (simp add: collect_metrics_def first_keys_snoc del: set_first_keys)
qed

text \<open>Both operations append one emission to the reference.\<close>

lemma gauge_collects:
  "gauge name unit value time attributes (collect_metrics es) =
     collect_metrics (es @ [((name, unit, Gauge_Kind), point value time attributes)])"
proof (cases "(name, unit, Gauge_Kind) \<in> fst ` set es")
  case True
  then show ?thesis
    using collect_again [OF True] collected_at [OF True]
    by (simp add: gauge_def Let_def metric_slot_collected make_metric_def)
next
  case False
  then show ?thesis
    using collect_fresh [OF False] by (simp add: gauge_def Let_def metric_slot_collected) (simp add: make_metric_def)
qed

lemma sum_collects:
  "sum_metric name unit value start_time time attributes (collect_metrics es) =
     collect_metrics (es @ [((name, unit, Sum_Kind), number_point (f64_of_u64 value) start_time time attributes)])"
proof (cases "(name, unit, Sum_Kind) \<in> fst ` set es")
  case True
  then show ?thesis
    using collect_again [OF True] collected_at [OF True]
    by (simp add: sum_metric_def Let_def metric_slot_collected make_metric_def)
next
  case False
  then show ?thesis
    using collect_fresh [OF False] by (simp add: sum_metric_def Let_def metric_slot_collected) (simp add: make_metric_def)
qed

section \<open>The emissions of a report\<close>

definition gauge_emission :: "string \<Rightarrow> string \<Rightarrow> f64 \<Rightarrow> 64 word \<Rightarrow> key_value list \<Rightarrow> emission" where
  "gauge_emission name unit value time attributes = ((name, unit, Gauge_Kind), point value time attributes)"

text \<open>A counter: the start of an operating system counter is not known, so it is 0.\<close>

definition counter_emission :: "string \<Rightarrow> string \<Rightarrow> 64 word \<Rightarrow> 64 word \<Rightarrow> key_value list \<Rightarrow> emission" where
  "counter_emission name unit value time attributes =
     ((name, unit, Sum_Kind), number_point (f64_of_u64 value) 0 time attributes)"

definition network_emissions :: "64 word \<Rightarrow> network_snapshot \<Rightarrow> emission list" where
  "network_emissions time n = (let name = attr ''network.interface.name'' (net_name n) in
     [counter_emission ''system.network.io'' ''By'' (net_received_total n) time [name, attr ''network.io.direction'' ''receive''],
      counter_emission ''system.network.io'' ''By'' (net_transmitted_total n) time [name, attr ''network.io.direction'' ''transmit'']])"

definition disk_emissions :: "64 word \<Rightarrow> disk_snapshot \<Rightarrow> emission list" where
  "disk_emissions time d =
     (let device = [attr ''system.device'' (dsk_name d), attr ''system.filesystem.mountpoint'' (dsk_mount_point d)];
          used = (if dsk_available d \<le> dsk_total d then dsk_total d - dsk_available d else 0) in
     [gauge_emission ''system.filesystem.usage'' ''By'' (f64_of_u64 used) time (device @ [attr ''system.filesystem.state'' ''used'']),
      counter_emission ''system.disk.io'' ''By'' (dsk_read_total d) time (device @ [attr ''disk.io.direction'' ''read'']),
      counter_emission ''system.disk.io'' ''By'' (dsk_written_total d) time (device @ [attr ''disk.io.direction'' ''write''])])"

definition optional_emission ::
  "string \<Rightarrow> string \<Rightarrow> f64 option \<Rightarrow> 64 word \<Rightarrow> key_value list \<Rightarrow> emission list" where
  "optional_emission name unit value time attributes =
     (case value of None \<Rightarrow> [] | Some v \<Rightarrow> [gauge_emission name unit v time attributes])"

definition temperature_emissions :: "64 word \<Rightarrow> temperature_snapshot \<Rightarrow> emission list" where
  "temperature_emissions time t = optional_emission ''hw.temperature'' ''Cel'' (tmp_celsius t) time
     [attr ''sensor.id'' (tmp_id t), attr ''sensor.label'' (tmp_label t), attr ''telemetry.source'' (tmp_source t)]"

definition gpu_emissions :: "64 word \<Rightarrow> gpu_snapshot \<Rightarrow> emission list" where
  "gpu_emissions time g =
     (let attrs = [attr ''gpu.id'' (gpu_id g), attr ''gpu.vendor'' (gpu_vendor g), attr ''gpu.name'' (gpu_name g)] in
     optional_emission ''hw.gpu.utilization'' ''1'' (map_option (\<lambda>v. f64_div v f64_100) (gpu_utilization g)) time attrs @
     optional_emission ''hw.gpu.memory.usage'' ''By'' (map_option f64_of_u64 (gpu_memory_used g)) time attrs @
     optional_emission ''hw.gpu.memory.limit'' ''By'' (map_option f64_of_u64 (gpu_memory_total g)) time attrs @
     optional_emission ''hw.gpu.temperature'' ''Cel'' (gpu_temperature g) time attrs @
     optional_emission ''hw.gpu.power'' ''W'' (gpu_power g) time attrs)"

definition report_emissions :: "client_report \<Rightarrow> emission list" where
  "report_emissions r = (let s = rep_system r; time = report_time r in
     [gauge_emission ''system.cpu.utilization'' ''1'' (f64_div (cpu_usage (sys_cpu s)) f64_100) time [],
      gauge_emission ''system.memory.usage'' ''By'' (f64_of_u64 (ram_used (sys_memory s))) time [attr ''system.memory.state'' ''used''],
      gauge_emission ''system.memory.limit'' ''By'' (f64_of_u64 (ram_total (sys_memory s))) time [],
      gauge_emission ''system.uptime'' ''s'' (f64_of_u64 (sys_uptime s)) time []] @
     concat (map (network_emissions time) (sys_networks s)) @ concat (map (disk_emissions time) (sys_disks s)) @
     concat (map (temperature_emissions time) (sys_temperatures s)) @ concat (map (gpu_emissions time) (sys_gpus s)))"

lemma fold_collects:
  assumes "\<And>x es. f x (collect_metrics es) = collect_metrics (es @ g x)"
  shows "fold f xs (collect_metrics es) = collect_metrics (es @ concat (map g xs))"
  by (induction xs arbitrary: es) (simp_all add: assms)

lemma optional_collects:
  "optional_gauge name unit value time attributes (collect_metrics es) =
     collect_metrics (es @ optional_emission name unit value time attributes)"
  by (simp add: optional_gauge_def optional_emission_def gauge_collects gauge_emission_def split: option.split)

lemma network_collects: "network_metrics_of time n (collect_metrics es) = collect_metrics (es @ network_emissions time n)"
  by (simp add: network_metrics_of_def network_emissions_def Let_def sum_collects counter_emission_def with_attr_def)

lemma disk_collects: "disk_metrics_of time d (collect_metrics es) = collect_metrics (es @ disk_emissions time d)"
  by (simp only: disk_metrics_of_def disk_emissions_def Let_def sum_collects gauge_collects counter_emission_def
      gauge_emission_def with_attr_def append_assoc append_Cons append_Nil)

lemma temperature_collects:
  "temperature_metrics_of time t (collect_metrics es) = collect_metrics (es @ temperature_emissions time t)"
  by (simp add: temperature_metrics_of_def temperature_emissions_def optional_emission_def gauge_collects gauge_emission_def
      split: option.split)

lemma gpu_collects: "append_gpu_metrics time g (collect_metrics es) = collect_metrics (es @ gpu_emissions time g)"
  by (simp add: append_gpu_metrics_def gpu_emissions_def Let_def optional_collects)

lemma collect_Nil: "collect_metrics [] = []"
  by (simp add: collect_metrics_def first_keys_def)

lemma report_metrics_reference: "report_metrics r = collect_metrics (report_emissions r)"
proof -
  let ?s = "rep_system r" and ?t = "report_time r"
  let ?start = "[gauge_emission ''system.cpu.utilization'' ''1'' (f64_div (cpu_usage (sys_cpu ?s)) f64_100) ?t [],
      gauge_emission ''system.memory.usage'' ''By'' (f64_of_u64 (ram_used (sys_memory ?s))) ?t [attr ''system.memory.state'' ''used''],
      gauge_emission ''system.memory.limit'' ''By'' (f64_of_u64 (ram_total (sys_memory ?s))) ?t [],
      gauge_emission ''system.uptime'' ''s'' (f64_of_u64 (sys_uptime ?s)) ?t []]"
  have "gauge ''system.uptime'' ''s'' (f64_of_u64 (sys_uptime ?s)) ?t []
      (gauge ''system.memory.limit'' ''By'' (f64_of_u64 (ram_total (sys_memory ?s))) ?t []
      (gauge ''system.memory.usage'' ''By'' (f64_of_u64 (ram_used (sys_memory ?s))) ?t [attr ''system.memory.state'' ''used'']
      (gauge ''system.cpu.utilization'' ''1'' (f64_div (cpu_usage (sys_cpu ?s)) f64_100) ?t [] (collect_metrics []))))
      = collect_metrics ?start"
    by (simp only: gauge_collects gauge_emission_def append_Nil append_Cons)
  then show ?thesis
    unfolding report_metrics_def Let_def collect_Nil
    by (simp only: fold_collects [OF network_collects] fold_collects [OF disk_collects]
        fold_collects [OF temperature_collects] fold_collects [OF gpu_collects] report_emissions_def Let_def append_assoc)
qed

section \<open>Names and points\<close>

definition otlp_keys :: "metric_key list" where
  "otlp_keys =
     [(''system.cpu.utilization'', ''1'', Gauge_Kind), (''system.memory.usage'', ''By'', Gauge_Kind),
      (''system.memory.limit'', ''By'', Gauge_Kind), (''system.uptime'', ''s'', Gauge_Kind),
      (''system.network.io'', ''By'', Sum_Kind), (''system.filesystem.usage'', ''By'', Gauge_Kind),
      (''system.disk.io'', ''By'', Sum_Kind), (''hw.temperature'', ''Cel'', Gauge_Kind),
      (''hw.gpu.utilization'', ''1'', Gauge_Kind), (''hw.gpu.memory.usage'', ''By'', Gauge_Kind),
      (''hw.gpu.memory.limit'', ''By'', Gauge_Kind), (''hw.gpu.temperature'', ''Cel'', Gauge_Kind),
      (''hw.gpu.power'', ''W'', Gauge_Kind)]"

lemma keys_by_name: "inj_on fst (set otlp_keys)"
proof -
  have "distinct (map fst otlp_keys)" by (simp add: otlp_keys_def)
  then show ?thesis by (simp add: distinct_map)
qed

definition known :: "emission list \<Rightarrow> bool" where
  "known es \<longleftrightarrow> list_all (\<lambda>e. List.member otlp_keys (fst e)) es"

lemma known_append [simp]: "known (es @ es') \<longleftrightarrow> known es \<and> known es'"
  by (simp add: known_def)

lemma known_concat: "(\<And>x. known (f x)) \<Longrightarrow> known (concat (map f xs))"
  by (induction xs) (simp_all add: known_def)

lemma known_optional:
  "List.member otlp_keys (name, unit, Gauge_Kind) \<Longrightarrow> known (optional_emission name unit value time attributes)"
  by (simp add: optional_emission_def known_def gauge_emission_def split: option.split)

lemma known_network: "known (network_emissions time n)"
  by (simp add: network_emissions_def known_def counter_emission_def Let_def) (simp add: otlp_keys_def)

lemma known_disk: "known (disk_emissions time d)"
  by (simp add: disk_emissions_def known_def counter_emission_def gauge_emission_def Let_def) (simp add: otlp_keys_def)

lemma known_temperature: "known (temperature_emissions time t)"
  unfolding temperature_emissions_def by (rule known_optional) (simp add: otlp_keys_def)

lemma known_gpu: "known (gpu_emissions time g)"
  unfolding gpu_emissions_def Let_def known_append by (intro conjI known_optional) (simp_all add: otlp_keys_def)

lemma emission_keys: "fst ` set (report_emissions r) \<subseteq> set otlp_keys"
proof -
  have "known [gauge_emission ''system.cpu.utilization'' ''1'' v t a, gauge_emission ''system.memory.usage'' ''By'' v2 t a2,
      gauge_emission ''system.memory.limit'' ''By'' v3 t a3, gauge_emission ''system.uptime'' ''s'' v4 t a4]"
    for v v2 v3 v4 t a a2 a3 a4
    by (simp add: gauge_emission_def known_def) (simp add: otlp_keys_def)
  then have "known (report_emissions r)"
    unfolding report_emissions_def Let_def known_append
    by (intro conjI known_concat known_network known_disk known_temperature known_gpu)
  then show ?thesis by (auto simp: known_def list_all_iff)
qed

lemma collected_names: "map mt_name (collect_metrics es) = map fst (first_keys es)"
  by (simp add: collect_metrics_def make_metric_def split: prod.split)

lemma names_distinct: "distinct (map mt_name (report_metrics r))"
  unfolding report_metrics_reference collected_names
  using emission_keys [of r] inj_on_subset [OF keys_by_name] by (auto simp: distinct_map)

lemma points_made [simp]: "points_of (make_metric key ps) = ps"
  by (cases key; cases "snd (snd key)") (simp_all add: make_metric_def points_of_def)

lemma points_nonempty:
  assumes "m \<in> set (collect_metrics es)"
  shows "points_of m \<noteq> []"
proof -
  obtain key where "key \<in> fst ` set es" and m: "m = make_metric key (points_at es key)"
    using assms by (auto simp: collect_metrics_def)
  then have "points_at es key \<noteq> []" by (auto simp: points_at_def filter_empty_conv)
  then show ?thesis by (simp add: m)
qed

lemma points_total: "sum_list (map (\<lambda>m. length (points_of m)) (collect_metrics es)) = length es"
proof -
  have "(\<Sum>k\<in>K. length (points_at es k)) = length es" if "finite K" "fst ` set es \<subseteq> K" for K
    using that(2)
  proof (induction es)
    case (Cons e es)
    have "(\<Sum>k\<in>K. length (points_at (e # es) k)) = (\<Sum>k\<in>K. (if k = fst e then 1 else 0) + length (points_at es k))"
      by (intro sum.cong) (auto simp: points_at_def)
    also have "\<dots> = 1 + length es" using Cons that(1) by (simp add: sum.distrib)
    finally show ?case by simp
  qed (simp add: points_at_def)
  then have "(\<Sum>k\<in>fst ` set es. length (points_at es k)) = length es" by simp
  moreover have "sum_list (map (\<lambda>m. length (points_of m)) (collect_metrics es)) =
      (\<Sum>k\<in>set (first_keys es). length (points_at es k))"
    by (simp add: collect_metrics_def comp_def sum_list_distinct_conv_sum_set del: set_first_keys)
  ultimately show ?thesis by simp
qed

section \<open>The export\<close>

lemma post_same: "(\<And>rq. rq_url rq = target \<Longrightarrow> net1 rq = net2 rq) \<Longrightarrow>
    post_bounded H net1 target headers body = post_bounded H net2 target headers body"
  by (simp add: post_bounded_def execute_bounded_def Let_def)

lemma send_otlp_own:
  assumes "\<And>rq. rp_otlp_endpoint r = Some (rq_url rq) \<Longrightarrow> net1 rq = net2 rq"
  shows "send_otlp E P net1 (r\<lparr>rp_token := token\<rparr>) report = send_otlp E P net2 r report"
proof (cases "rp_otlp_endpoint r")
  case None
  then show ?thesis by (simp add: send_otlp_def)
next
  case (Some target)
  with assms have "post_bounded (env_http E) net1 target h b = post_bounded (env_http E) net2 target h b" for h b
    by (intro post_same) simp
  then show ?thesis by (simp add: send_otlp_def Some validate_report_identity_def)
qed

end
