(* ===== verification/Float_Exact.thy ===== *)
theory Float_Exact
  imports Float_Arith
begin

text \<open>
  Facts on rounding: a common factor does not matter, a power of two moves the exponent, and
  the conversion of a counter in two halves rounds once.
\<close>

section \<open>Scaling\<close>

lemma round_quotient_scale:
  assumes "0 < c"
  shows "round_quotient (p * c) (q * c) = round_quotient p q"
proof -
  have "p * c mod (q * c) = (p mod q) * c" by (simp add: mult_mod_left)
  with assms show ?thesis by (auto simp: round_quotient_def Let_def)
qed

lemma bit_length_shift: "0 < n \<Longrightarrow> bit_length (n * 2 ^ a) = bit_length n + a"
  by (induction a) (simp_all add: bit_length.simps [of "n * (2 * 2 ^ _)"] mult.left_commute)

lemma round_ratio_scale:
  assumes "0 < q"
  shows "round_ratio (p * 2 ^ a) (q * 2 ^ a) = round_ratio p q"
proof (cases "p = 0")
  case False
  have "ratio_log (p * 2 ^ a) (q * 2 ^ a) = ratio_log p q"
    using False assms by (simp add: ratio_log_def bit_length_shift mult.commute mult.left_commute)
  moreover have "round_quotient (p * 2 ^ a * 2 ^ n) (q * 2 ^ a * 2 ^ m) = round_quotient (p * 2 ^ n) (q * 2 ^ m)" for n m
    using round_quotient_scale [of "2 ^ a" "p * 2 ^ n" "q * 2 ^ m"] by (simp add: mult.commute mult.left_commute)
  ultimately show ?thesis using False by (simp add: round_ratio_def Let_def)
qed (simp add: round_ratio_def)

section \<open>Powers of two\<close>

text \<open>The pattern of an integer below \<open>2 ^ 53\<close>: its length and its fraction.\<close>

lemma integer_pattern:
  assumes "0 < n" "n < 2 ^ 53"
  shows "round_ratio n 1 div 2 ^ 52 = bit_length n + 1022"
    and "round_ratio n 1 mod 2 ^ 52 = n * 2 ^ (53 - bit_length n) - 2 ^ 52"
    and "f64_parts (round_ratio n 1) = (n * 2 ^ (53 - bit_length n), int (bit_length n) - 53)"
proof -
  let ?l = "bit_length n" and ?s = "n * 2 ^ (53 - bit_length n)"
  have r: "round_ratio n 1 = (?l + 1021) * 2 ^ 52 + ?s" and s: "2 ^ 52 \<le> ?s" "?s < 2 ^ 53" and l: "?l \<le> 53" "0 < ?l"
    using round_ratio_nat [OF assms] by auto
  have m: "round_ratio n 1 = (?l + 1022) * 2 ^ 52 + (?s - 2 ^ 52)" using r s by (simp add: algebra_simps)
  show d: "round_ratio n 1 div 2 ^ 52 = ?l + 1022" "round_ratio n 1 mod 2 ^ 52 = ?s - 2 ^ 52"
    using s unfolding m by (simp_all only: div_mult_self3 mod_mult_self3) (simp_all add: less_diff_conv2)
  show "f64_parts (round_ratio n 1) = (?s, int ?l - 53)"
    unfolding f64_parts_def Let_def d using s l by simp
qed

lemma round_ratio_shift:
  assumes "0 < n" "n < 2 ^ 53" "k \<le> 900"
  shows "round_ratio (n * 2 ^ k) 1 = round_ratio n 1 + k * 2 ^ 52"
proof -
  let ?l = "bit_length n" and ?s = "n * 2 ^ (53 - bit_length n)"
  note base = round_ratio_nat [OF assms(1,2)]
  have one: "bit_length (Suc 0) = Suc 0" by (simp add: bit_length.simps)
  have b: "2 ^ (?l - 1) \<le> n" "n < 2 ^ ?l" using bit_length_bounds [OF assms(1)] by auto
  have log: "ratio_log (n * 2 ^ k) 1 = int ?l + int k - 1"
  proof -
    have "(2::nat) ^ (?l + k - 1) = 2 ^ (?l - 1) * 2 ^ k" using base(5) by (simp flip: power_add)
    then have "(2::nat) ^ (?l + k - 1) \<le> n * 2 ^ k" using b(1) by simp
    moreover have "nat (int ?l + int k - 1) = ?l + k - 1" "nat (- (int ?l + int k - 1)) = 0" using base(5) by auto
    ultimately show ?thesis
      using assms(1) by (simp add: ratio_log_def one bit_length_shift Let_def)
  qed
  define e where "e = int ?l + int k - 53"
  have e: "max (- 1074) (ratio_log (n * 2 ^ k) 1 - 52) = e" using log base(5) by (simp add: e_def)
  have exact: "round_quotient (n * 2 ^ k * 2 ^ nat (- e)) (1 * 2 ^ nat e) = ?s"
  proof (cases "0 \<le> e")
    case True
    have "k = (53 - ?l) + nat e" using True base(4) by (simp add: e_def)
    then have "(2::nat) ^ k = 2 ^ (53 - ?l) * 2 ^ nat e" by (metis power_add)
    moreover have "nat (- e) = 0" using True by simp
    ultimately have "n * 2 ^ k * 2 ^ nat (- e) = ?s * (1 * 2 ^ nat e)" by simp
    then show ?thesis using round_quotient_exact [of "1 * 2 ^ nat e" ?s] by (simp only: zero_less_power zero_less_numeral mult_1)
  next
    case False
    then have "53 - ?l = k + nat (- e)" using base(4) by (simp add: e_def)
    then have "(2::nat) ^ (53 - ?l) = 2 ^ k * 2 ^ nat (- e)" by (metis power_add)
    then have "n * 2 ^ k * 2 ^ nat (- e) = ?s" by simp
    then show ?thesis using False by (simp add: round_quotient_1)
  qed
  have "nat (e + 1074) = ?l + 1021 + k" using base(5) by (simp add: e_def)
  then have "round_ratio (n * 2 ^ k) 1 = min ((?l + 1021 + k) * 2 ^ 52 + ?s) f64_infinite"
    using assms(1) unfolding round_ratio_def Let_def e exact by simp
  moreover have "(?l + 1021 + k) * 2 ^ 52 + ?s < f64_infinite"
    using base(3,4) assms(3) unfolding f64_infinite_def
    by (intro less_le_trans [OF add_le_less_mono, of _ "1974 * 2 ^ 52"]) auto
  ultimately show ?thesis using base(1) by (simp add: add_mult_distrib)
qed


text \<open>The product of an integer with a power of two is exact.\<close>

lemma units_of_shifted:
  assumes "n < 2 ^ 53" "k \<le> 900"
  shows "f64_units (f64_of_nat (n * 2 ^ k)) = int (n * 2 ^ k) * 2 ^ 1074"
proof (cases "n = 0")
  case True
  then show ?thesis using f64_of_nat_exact [of 0] by simp
next
  case False
  let ?l = "bit_length n" and ?s = "n * 2 ^ (53 - bit_length n)"
  have n: "0 < n" using False by simp
  note base = round_ratio_nat [OF n assms(1)] and pattern = integer_pattern [OF n assms(1)]
  define m where "m = round_ratio (n * 2 ^ k) 1"
  have pat: "f64_of_nat (n * 2 ^ k) = f64_signed False m" by (simp only: f64_of_nat_def m_def)
  have m: "m = round_ratio n 1 + k * 2 ^ 52" using round_ratio_shift [OF n assms] by (simp add: m_def)
  have d: "m div 2 ^ 52 = ?l + 1022 + k" "m mod 2 ^ 52 = ?s - 2 ^ 52"
    using pattern(1,2) unfolding m by simp_all
  have "f64_parts m = (?s, int ?l + int k - 53)"
    unfolding f64_parts_def Let_def d using base by simp
  moreover have "m < 2 ^ 63"
    using assms(2) base(3,4) unfolding m base(1) by simp
  ultimately have "f64_units (f64_of_nat (n * 2 ^ k)) = int ?s * 2 ^ nat (int ?l + int k - 53 + 1074)"
    unfolding pat by (simp add: f64_units_def signed_magnitude)
  also have "nat (int ?l + int k - 53 + 1074) = ?l + k + 1021" using base(5) by simp
  also have "int ?s * 2 ^ (?l + k + 1021) = int n * (2 ^ (53 - ?l) * 2 ^ (?l + k + 1021))" by simp
  also have "(2::int) ^ (53 - ?l) * 2 ^ (?l + k + 1021) = 2 ^ k * 2 ^ 1074"
  proof -
    have "(53 - ?l) + (?l + k + 1021) = k + 1074" using base(4) by simp
    then show ?thesis by (metis power_add)
  qed
  finally show ?thesis by (simp only: of_nat_mult of_nat_power of_nat_numeral mult.assoc)
qed


definition f64_two_32 :: f64 where "f64_two_32 = 0x41F0000000000000"

lemma two_32_parts:
  "f64_parts (f64_magnitude f64_two_32) = (2 ^ 52, - 20)" "\<not> f64_negative f64_two_32" "is_finite f64_two_32"
  by (simp_all add: f64_two_32_def f64_parts_def f64_magnitude_def f64_negative_def is_finite_def)

lemma integer_value:
  assumes "n < 2 ^ 53"
  shows "f64_magnitude (f64_of_nat n) = round_ratio n 1" "\<not> f64_negative (f64_of_nat n)" "is_finite (f64_of_nat n)"
proof -
  have "round_ratio n 1 < 0x7FF0000000000000"
  proof (cases "n = 0")
    case False
    with round_ratio_nat [of n] assms show ?thesis by simp
  qed (simp add: round_ratio_def)
  then have "round_ratio n 1 < 2 ^ 63" "round_ratio n 1 < 0x7FF0000000000000" by simp_all
  then show "f64_magnitude (f64_of_nat n) = round_ratio n 1" "\<not> f64_negative (f64_of_nat n)" "is_finite (f64_of_nat n)"
    unfolding is_finite_def f64_of_nat_def by (simp_all add: signed_magnitude)
qed

lemma shifted_value:
  assumes "n < 2 ^ 53" "k \<le> 900"
  shows "\<not> f64_negative (f64_of_nat (n * 2 ^ k))" "is_finite (f64_of_nat (n * 2 ^ k))"
proof -
  have "round_ratio (n * 2 ^ k) 1 < 0x7FF0000000000000"
  proof (cases "n = 0")
    case False
    with round_ratio_nat [of n] assms round_ratio_shift [of n k] show ?thesis by simp
  qed (simp add: round_ratio_def)
  then have "round_ratio (n * 2 ^ k) 1 < 2 ^ 63" "round_ratio (n * 2 ^ k) 1 < 0x7FF0000000000000" by simp_all
  then show "\<not> f64_negative (f64_of_nat (n * 2 ^ k))" "is_finite (f64_of_nat (n * 2 ^ k))"
    unfolding is_finite_def f64_of_nat_def by (simp_all add: signed_magnitude)
qed

lemma times_two_32:
  assumes "h < 2 ^ 32"
  shows "f64_mul (f64_of_nat h) f64_two_32 = f64_of_nat (h * 2 ^ 32)"
proof (cases "h = 0")
  case True
  have "f64_of_nat 0 = 0" by (simp add: f64_of_nat_def round_ratio_def f64_signed_def)
  with True show ?thesis
    by (simp add: f64_mul_def f64_two_32_def f64_parts_def f64_magnitude_def f64_negative_def is_finite_def is_nan_def
        round_ratio_def f64_signed_def)
next
  case False
  then have h: "0 < h" "h < 2 ^ 53" using assms by auto
  let ?l = "bit_length h"
  note val = integer_value [OF h(2)] and pattern = integer_pattern(3) [OF h] and base = round_ratio_nat [OF h]
  have "f64_mul (f64_of_nat h) f64_two_32 = f64_signed False
      (round_ratio (h * 2 ^ (53 - ?l) * 2 ^ 52 * 2 ^ nat (int ?l - 73)) (2 ^ nat (73 - int ?l)))"
    using val two_32_parts finite_not_nan pattern by (simp add: f64_mul_def)
  also have "nat (int ?l - 73) = 0" using base(4) by auto
  also have "nat (73 - int ?l) = 73 - ?l" using base(4) by auto
  also have "h * 2 ^ (53 - ?l) * 2 ^ 52 * 2 ^ 0 = h * 2 ^ 32 * 2 ^ (73 - ?l)"
  proof -
    have "(53 - ?l) + 52 = 32 + (73 - ?l)" using base(4) by simp
    then have "(2::nat) ^ (53 - ?l) * 2 ^ 52 = 2 ^ 32 * 2 ^ (73 - ?l)" by (metis power_add)
    then show ?thesis by (metis (no_types) mult.assoc mult.right_neutral power_0)
  qed
  also have "(2::nat) ^ (73 - ?l) = 1 * 2 ^ (73 - ?l)" by simp
  also have "round_ratio (h * 2 ^ 32 * (1 * 2 ^ (73 - ?l))) (1 * 2 ^ (73 - ?l)) = round_ratio (h * 2 ^ 32) 1"
    using round_ratio_scale [of 1 "h * 2 ^ 32" "73 - ?l"] by simp
  finally show ?thesis by (simp only: f64_of_nat_def)
qed

text \<open>The sum of two non-negative integers is rounded once.\<close>

lemma sum_rounds_once:
  assumes "f64_units a = int m * 2 ^ 1074" "f64_units b = int n * 2 ^ 1074" "is_finite a" "is_finite b"
    "\<not> f64_negative a"
  shows "f64_add a b = f64_of_nat (m + n)"
proof -
  have units: "f64_units a + f64_units b = int ((m + n) * 2 ^ 1074)" using assms by (simp only: of_nat_add distrib_right of_nat_mult) simp
  have zero: "f64_of_nat 0 = f64_zero" by (simp add: f64_of_nat_def round_ratio_def f64_signed_def)
  have "f64_of_units (int ((m + n) * 2 ^ 1074)) = f64_signed False (round_ratio ((m + n) * 2 ^ 1074) (1 * 2 ^ 1074))"
    unfolding f64_of_units_def abs_of_nat nat_int by (simp only: of_nat_less_0_iff mult_1)
  also have "\<dots> = f64_of_nat (m + n)" by (simp only: round_ratio_scale zero_less_one f64_of_nat_def)
  finally show ?thesis
    using assms(3-5) finite_not_nan zero unfolding f64_add_def units of_nat_eq_0_iff mult_eq_0_iff power_eq_0_iff
    by (cases "m + n = 0") (simp_all only: simp_thms if_True if_False rel_simps)
qed

end
