(* ===== verification/Sampling.thy ===== *)
theory Sampling
  imports Report_Contract Float_Exact
begin

text \<open>
  The sampler of \<open>src/collectors/mod.rs\<close> with the rates of \<open>src/collectors/disk_rates.rs\<close>, for
  a Linux build: bounded collections, the measured interval, rates, the slow refresh and its
  cache, and the report that is made of one reading. What the operating system, \<open>sysinfo\<close> and
  the hardware collectors answer is the record \<open>reading\<close>; instants are nanoseconds.
\<close>

section \<open>Bounded collections\<close>

text \<open>\<open>usize\<close> has 64 bits.\<close>

definition producer_collection_limit :: "nat \<Rightarrow> nat" where
  "producer_collection_limit maximum = (case checked_add64 maximum 1 of None \<Rightarrow> maximum | Some n \<Rightarrow> n)"

definition collect_bounded :: "'a list \<Rightarrow> nat \<Rightarrow> 'a list" where
  "collect_bounded values maximum = take (producer_collection_limit maximum) values"

definition push_bounded :: "'a list \<Rightarrow> 'a \<Rightarrow> nat \<Rightarrow> 'a list \<times> bool" where
  "push_bounded values x maximum =
     (if producer_collection_limit maximum \<le> length values then (values, False) else (values @ [x], True))"

definition extend_bounded :: "'a list \<Rightarrow> 'a list \<Rightarrow> nat \<Rightarrow> 'a list" where
  "extend_bounded values additional maximum =
     (let remaining = producer_collection_limit maximum - length values in values @ take remaining additional)"

section \<open>Numbers\<close>

definition f64_milli :: f64 where "f64_milli = 0x3F50624DD2F1A9FC"

definition u64_as_f64 :: "64 word \<Rightarrow> f64" where
  "u64_as_f64 v =
     (let high = unat v div 2 ^ 32; low = unat v mod 2 ^ 32 in
      f64_add (f64_mul (f64_of_nat high) f64_two_32) (f64_of_nat low))"

definition per_second :: "64 word \<Rightarrow> f64 \<Rightarrow> f64" where
  "per_second delta interval = f64_div (u64_as_f64 delta) (f64_max f64_zero interval f64_milli)"

definition contract_interval_seconds :: "report_ops \<Rightarrow> f64 \<Rightarrow> f64" where
  "contract_interval_seconds R elapsed =
     (if \<not> is_finite elapsed then ro_min_interval R else f64_clamp (ro_min_interval R) (ro_max_interval R) elapsed)"

definition wire_cpu_count :: "nat \<Rightarrow> 32 word" where
  "wire_cpu_count count = (if count < 2 ^ 32 then of_nat count else - 1)"

definition finite_f64 :: "f64 \<Rightarrow> f64 option" where
  "finite_f64 v = (if is_finite v then Some v else None)"

text \<open>\<open>Duration::as_secs_f64\<close> and \<open>as_secs\<close>.\<close>

definition as_secs_f64 :: "nat \<Rightarrow> f64" where
  "as_secs_f64 nanos = f64_add (f64_of_nat (nanos div 10 ^ 9)) (f64_div (f64_of_nat (nanos mod 10 ^ 9)) f64_1e9)"

section \<open>Disk rates\<close>

type_synonym disk_identity = "string \<times> string \<times> string"
type_synonym disk_rates = "disk_identity \<Rightarrow> (64 word \<times> 64 word) option"

definition disk_id :: "disk_snapshot \<Rightarrow> disk_identity" where
  "disk_id d = (dsk_name d, dsk_mount_point d, dsk_file_system d)"

definition checked_sub :: "64 word \<Rightarrow> 64 word \<Rightarrow> 64 word option" where
  "checked_sub a b = (if b \<le> a then Some (a - b) else None)"

definition disk_deltas :: "disk_rates \<Rightarrow> disk_snapshot \<Rightarrow> 64 word \<times> 64 word" where
  "disk_deltas previous d =
     (case Option.bind (previous (disk_id d)) (\<lambda>(read, written).
        Option.bind (checked_sub (dsk_read_total d) read) (\<lambda>r.
        Option.bind (checked_sub (dsk_written_total d) written) (\<lambda>w. Some (r, w)))) of
        Some deltas \<Rightarrow> deltas
      | None \<Rightarrow> (0, 0))"

fun update_disks :: "disk_rates \<Rightarrow> f64 \<Rightarrow> disk_snapshot list \<Rightarrow> disk_rates \<Rightarrow> disk_snapshot list \<times> disk_rates" where
  "update_disks previous elapsed [] current = ([], current)"
| "update_disks previous elapsed (d # ds) current =
     (let (read, written) = disk_deltas previous d;
          d' = d\<lparr>dsk_read_per_second := per_second read elapsed, dsk_written_per_second := per_second written elapsed\<rparr>;
          (ds', current) = update_disks previous elapsed ds (current(disk_id d \<mapsto> (dsk_read_total d, dsk_written_total d)))
      in (d' # ds', current))"

definition disk_rates_update :: "disk_rates \<Rightarrow> disk_snapshot list \<Rightarrow> f64 \<Rightarrow> disk_snapshot list \<times> disk_rates" where
  "disk_rates_update previous disks elapsed = update_disks previous elapsed disks (\<lambda>_. None)"

section \<open>Readings\<close>

record raw_network =
  rn_name :: string
  rn_total_received :: "64 word"
  rn_total_transmitted :: "64 word"
  rn_received :: "64 word"
  rn_transmitted :: "64 word"
  rn_total_packets_received :: "64 word"
  rn_total_packets_transmitted :: "64 word"
  rn_total_errors_on_received :: "64 word"
  rn_total_errors_on_transmitted :: "64 word"

record raw_disk =
  dr_name :: string
  dr_mount_point :: string
  dr_file_system :: string
  dr_total_space :: "64 word"
  dr_available_space :: "64 word"
  dr_total_read :: "64 word"
  dr_total_written :: "64 word"
  dr_is_read_only :: bool

record gpu_collection =
  gc_gpus :: "gpu_snapshot list"
  gc_capabilities :: "capability list"
  gc_sensors :: "hardware_sensor list"
  gc_temperatures :: "temperature_snapshot list"

record inventory_reading =
  ir_collected_at :: "time option"
  ir_memory_modules :: "memory_module list"
  ir_devices :: "hardware_device list"
  ir_capabilities :: "capability list"

text \<open>
  \<open>rd_utc\<close> is the time the report is made and \<open>rd_bounded_at\<close> the one at which it is bounded;
  \<open>rd_nvidia\<close> is \<open>None\<close> in a build without that feature; \<open>rd_slow_hardware\<close> and
  \<open>rd_slow_temperatures\<close> are read only when the slow metrics are due.
\<close>

record reading =
  rd_now :: nat
  rd_utc :: time
  rd_bounded_at :: time
  rd_uuid_text :: string
  rd_cpu_usage :: f64
  rd_cpu_count :: nat
  rd_physical_cores :: "nat option"
  rd_core_usage :: "f64 list"
  rd_memory :: memory_snapshot
  rd_uptime :: "64 word"
  rd_networks :: "raw_network list"
  rd_disks :: "raw_disk list"
  rd_slow_hardware :: "hardware_snapshot \<times> capability"
  rd_slow_temperatures :: "temperature_snapshot list \<times> capability"
  rd_nvidia :: "(gpu_snapshot list \<times> capability) option"
  rd_linux_gpu :: "gpu_snapshot list \<times> capability list"
  rd_smart :: "disk_health list \<times> capability"
  rd_inventory :: inventory_reading

definition collect_networks :: "report_ops \<Rightarrow> raw_network list \<Rightarrow> f64 \<Rightarrow> network_snapshot list" where
  "collect_networks R networks interval =
     collect_bounded (map (\<lambda>n. \<lparr>net_name = rn_name n, net_received_total = rn_total_received n,
        net_transmitted_total = rn_total_transmitted n,
        net_received_per_second = per_second (rn_received n) interval,
        net_transmitted_per_second = per_second (rn_transmitted n) interval,
        net_packets_received = rn_total_packets_received n, net_packets_transmitted = rn_total_packets_transmitted n,
        net_receive_errors = rn_total_errors_on_received n,
        net_transmit_errors = rn_total_errors_on_transmitted n\<rparr>) networks) (cl_networks (ro_count R))"

definition collect_disks :: "report_ops \<Rightarrow> raw_disk list \<Rightarrow> disk_snapshot list" where
  "collect_disks R disks =
     collect_bounded (map (\<lambda>d. \<lparr>dsk_name = dr_name d, dsk_mount_point = dr_mount_point d,
        dsk_file_system = dr_file_system d, dsk_total = dr_total_space d, dsk_available = dr_available_space d,
        dsk_read_total = dr_total_read d, dsk_written_total = dr_total_written d, dsk_read_per_second = f64_zero,
        dsk_written_per_second = f64_zero, dsk_read_only = dr_is_read_only d\<rparr>) disks) (cl_disks (ro_count R))"

section \<open>Capabilities\<close>

definition capability_available :: "string \<Rightarrow> string \<Rightarrow> capability" where
  "capability_available name source =
     \<lparr>cap_name = name, cap_available = True, cap_source = source, cap_error_kind = None, cap_message = None\<rparr>"

definition temperature_capability :: "temperature_snapshot list \<Rightarrow> capability" where
  "temperature_capability temperatures =
     (if list_ex (\<lambda>t. tmp_celsius t \<noteq> None) temperatures then capability_available ''system.temperature'' ''sysinfo/hwmon''
      else capability_unavailable ''system.temperature'' ''sysinfo/hwmon'' Unsupported_Kind
        ''the operating system or hardware exposed no readable numeric sensor'')"

definition core_capabilities :: "capability \<Rightarrow> disk_snapshot list \<Rightarrow> capability list" where
  "core_capabilities temperature disks =
     [capability_available ''system.cpu'' ''sysinfo'', capability_available ''system.memory'' ''sysinfo'',
      capability_available ''system.network'' ''sysinfo'',
      (if disks = [] then capability_unavailable ''system.disk'' ''sysinfo-mounted-volumes'' Not_Present
          ''the operating system exposed no mounted volume''
       else capability_available ''system.disk'' ''sysinfo-mounted-volumes'')] @ [temperature]"

definition is_collector_error :: "capability \<Rightarrow> bool" where
  "is_collector_error c \<longleftrightarrow>
     \<not> cap_available c \<and> (cap_error_kind c = Some Transient_Kind \<or> cap_error_kind c = Some Invalid_Data)"

section \<open>Graphics\<close>

definition gpu_collect :: "report_ops \<Rightarrow> reading \<Rightarrow> gpu_collection" where
  "gpu_collect R r =
     (let maximum = cl_gpus (ro_count R); capabilities = cl_capabilities (ro_count R);
          (gpus, caps) = (case rd_nvidia r of
             Some (found, capability) \<Rightarrow>
               (extend_bounded [] found maximum, fst (push_bounded [] capability capabilities))
           | None \<Rightarrow> ([], fst (push_bounded [] (capability_unavailable ''gpu.nvidia'' ''nvml'' Unsupported_Kind
               ''client was built without the nvidia feature'') capabilities)));
          (found, more) = rd_linux_gpu r
      in \<lparr>gc_gpus = extend_bounded gpus found maximum, gc_capabilities = extend_bounded caps more capabilities,
          gc_sensors = [], gc_temperatures = []\<rparr>)"

section \<open>The sampler\<close>

record sampler =
  sm_disk_rates :: disk_rates
  sm_last_sample :: nat
  sm_last_slow_sample :: "nat option"
  sm_cached_temperatures :: "temperature_snapshot list"
  sm_cached_temperature_capability :: capability
  sm_hardware :: "hardware_snapshot option"
  sm_hardware_capability :: capability

text \<open>\<open>Instant::duration_since\<close> is zero for a later instant.\<close>

definition sampler_new :: "report_ops \<Rightarrow> raw_disk list \<Rightarrow> nat \<Rightarrow> sampler" where
  "sampler_new R disks now =
     \<lparr>sm_disk_rates = snd (disk_rates_update (\<lambda>_. None) (collect_disks R disks) 0x3FF0000000000000),
      sm_last_sample = now, sm_last_slow_sample = None, sm_cached_temperatures = [],
      sm_cached_temperature_capability = temperature_capability [], sm_hardware = None,
      sm_hardware_capability = capability_available ''hardware.inventory'' ''sysinfo''\<rparr>"

definition slow_due :: "sampler \<Rightarrow> reading \<Rightarrow> 64 word \<Rightarrow> bool" where
  "slow_due s r slow_interval \<longleftrightarrow>
     (case sm_last_slow_sample s of None \<Rightarrow> True | Some previous \<Rightarrow> unat slow_interval \<le> (rd_now r - previous) div 10 ^ 9)"

definition refresh_slow :: "report_ops \<Rightarrow> reading \<Rightarrow> sampler \<Rightarrow> sampler" where
  "refresh_slow R r s =
     s\<lparr>sm_hardware := Some (fst (rd_slow_hardware r)), sm_hardware_capability := snd (rd_slow_hardware r),
       sm_cached_temperatures := collect_bounded (fst (rd_slow_temperatures r)) (cl_temperatures (ro_count R)),
       sm_cached_temperature_capability := snd (rd_slow_temperatures r), sm_last_slow_sample := Some (rd_now r)\<rparr>"

definition vendor_sensor :: "hardware_sensor \<Rightarrow> bool" where
  "vendor_sensor x \<longleftrightarrow> sns_source x \<in> {''amd-adlx'', ''intel-igcl''}"

definition merge_hardware :: "report_ops \<Rightarrow> reading \<Rightarrow> gpu_collection \<Rightarrow> hardware_snapshot \<Rightarrow> hardware_snapshot" where
  "merge_hardware R r gpu h =
     h\<lparr>hw_inventory_at := ir_collected_at (rd_inventory r), hw_modules := ir_memory_modules (rd_inventory r),
       hw_devices := ir_devices (rd_inventory r), hw_disks := fst (rd_smart r),
       hw_sensors := extend_bounded (filter (\<lambda>x. \<not> vendor_sensor x) (hw_sensors h)) (gc_sensors gpu)
         (cl_hardware_sensors (ro_count R))\<rparr>"

definition sampled_capabilities ::
  "report_ops \<Rightarrow> sampler \<Rightarrow> reading \<Rightarrow> gpu_collection \<Rightarrow> disk_snapshot list \<Rightarrow> capability list" where
  "sampled_capabilities R s r gpu disks =
     (let maximum = cl_capabilities (ro_count R);
          caps = core_capabilities (sm_cached_temperature_capability s) disks;
          caps = caps @ [sm_hardware_capability s];
          caps = caps @ [snd (rd_smart r)];
          caps = extend_bounded caps (ir_capabilities (rd_inventory r)) maximum;
          caps = extend_bounded caps (gc_capabilities gpu) maximum
      in dedup_by (\<lambda>c. (cap_name c, cap_source c)) (sort_key cap_name caps))"

definition sampled_cpu :: "report_ops \<Rightarrow> reading \<Rightarrow> cpu_snapshot" where
  "sampled_cpu R r =
     (let usage = (\<lambda>v. case finite_f64 v of Some x \<Rightarrow> x | None \<Rightarrow> f64_zero) in
      \<lparr>cpu_usage = usage (rd_cpu_usage r), cpu_logical = wire_cpu_count (rd_cpu_count r),
       cpu_physical = map_option wire_cpu_count (rd_physical_cores r),
       cpu_per_core = collect_bounded (map usage (rd_core_usage r)) (cl_cpu_cores (ro_count R))\<rparr>)"

text \<open>\<open>SystemSampler::collect\<close>: the sampler that is left and the bounded report.\<close>

definition sample ::
  "report_ops \<Rightarrow> host_identity \<Rightarrow> 64 word \<Rightarrow> 64 word \<Rightarrow> reading \<Rightarrow> sampler \<Rightarrow> client_report \<times> sampler" where
  "sample R host slow_interval spool_pending r s =
     (let elapsed = as_secs_f64 (rd_now r - sm_last_sample s);
          interval = contract_interval_seconds R elapsed;
          s = s\<lparr>sm_last_sample := rd_now r\<rparr>;
          s = (if slow_due s r slow_interval then refresh_slow R r s else s);
          gpu = gpu_collect R r;
          (disks, rates) = disk_rates_update (sm_disk_rates s) (collect_disks R (rd_disks r)) elapsed;
          s = s\<lparr>sm_disk_rates := rates, sm_hardware := map_option (merge_hardware R r gpu) (sm_hardware s)\<rparr>;
          caps = sampled_capabilities R s r gpu disks;
          report =
            \<lparr>rep_schema_version = ro_schema_version R, rep_id = rd_uuid_text r, rep_collected_at = rd_utc r,
             rep_host = host, rep_interval = interval,
             rep_system =
               \<lparr>sys_hardware = sm_hardware s, sys_uptime = rd_uptime r, sys_cpu = sampled_cpu R r,
                sys_memory = rd_memory r, sys_networks = collect_networks R (rd_networks r) elapsed,
                sys_disks = disks,
                sys_temperatures = collect_bounded (sm_cached_temperatures s @ gc_temperatures gpu)
                  (cl_temperatures (ro_count R)),
                sys_gpus = gc_gpus gpu\<rparr>,
             rep_capabilities = caps,
             rep_client = \<lparr>ch_spool_pending = spool_pending,
               ch_collector_errors = of_nat (length (filter is_collector_error caps))\<rparr>\<rparr>
      in (fst (bound_report R (rd_bounded_at r) report), s))"

end
