(* ===== verification/Sampling_Correct.thy ===== *)
theory Sampling_Correct
  imports Sampling
begin

text \<open>
  The rate of a disk is the difference of two consecutive observations of it, and zero without
  them; a counter becomes the nearest number; slow metrics are read at most once in their
  interval; no collection exceeds its limit by more than one.
\<close>

section \<open>Counters\<close>

lemma u64_rounds_once: "u64_as_f64 v = f64_of_u64 v"
proof -
  let ?h = "unat v div 2 ^ 32" and ?l = "unat v mod 2 ^ 32"
  have "unat v < 2 ^ LENGTH(64)" by (rule unsigned_less)
  then have h: "?h < 2 ^ 32" by (simp add: less_mult_imp_div_less)
  have l: "?l < 2 ^ 53" by (rule less_trans [of _ "2 ^ 32"]) simp_all
  have big: "?h < 2 ^ 53" using h by (rule less_trans) simp
  have product: "f64_mul (f64_of_nat ?h) f64_two_32 = f64_of_nat (?h * 2 ^ 32)" by (rule times_two_32 [OF h])
  have "f64_add (f64_of_nat (?h * 2 ^ 32)) (f64_of_nat ?l) = f64_of_nat (?h * 2 ^ 32 + ?l)"
  proof (rule sum_rounds_once)
    show "f64_units (f64_of_nat (?h * 2 ^ 32)) = int (?h * 2 ^ 32) * 2 ^ 1074"
      by (rule units_of_shifted [OF big]) simp
    show "f64_units (f64_of_nat ?l) = int ?l * 2 ^ 1074" by (rule f64_of_nat_exact [OF l])
    show "is_finite (f64_of_nat ?l)" by (rule integer_value [OF l])
    show "is_finite (f64_of_nat (?h * 2 ^ 32))" "\<not> f64_negative (f64_of_nat (?h * 2 ^ 32))"
      by (rule shifted_value [OF big]; simp)+
  qed
  then show ?thesis unfolding u64_as_f64_def Let_def product f64_of_u64_def by (simp only: div_mult_mod_eq)
qed

section \<open>Disk rates\<close>

definition disk_counters :: "disk_snapshot \<Rightarrow> 64 word \<times> 64 word" where
  "disk_counters d = (dsk_read_total d, dsk_written_total d)"

text \<open>The last observation of a volume in a sample.\<close>

definition observed :: "disk_snapshot list \<Rightarrow> disk_identity \<Rightarrow> (64 word \<times> 64 word) option" where
  "observed ds i = map_option disk_counters (find (\<lambda>d. disk_id d = i) (rev ds))"

definition with_rates :: "f64 \<Rightarrow> disk_rates \<Rightarrow> disk_snapshot \<Rightarrow> disk_snapshot" where
  "with_rates elapsed previous d =
     d\<lparr>dsk_read_per_second := per_second (fst (disk_deltas previous d)) elapsed,
       dsk_written_per_second := per_second (snd (disk_deltas previous d)) elapsed\<rparr>"

lemma observed_Nil [simp]: "observed [] = (\<lambda>_. None)"
  by (simp add: observed_def fun_eq_iff)

lemma find_append: "find P (xs @ ys) = (case find P xs of None \<Rightarrow> find P ys | Some x \<Rightarrow> Some x)"
  by (induction xs) auto

lemma update_disks_result:
  "update_disks previous elapsed ds current =
     (map (with_rates elapsed previous) ds, \<lambda>i. case observed ds i of None \<Rightarrow> current i | Some c \<Rightarrow> Some c)"
proof (induction ds arbitrary: current)
  case (Cons d ds)
  define c' where "c' = current(disk_id d \<mapsto> (dsk_read_total d, dsk_written_total d))"
  have "(\<lambda>i. case observed ds i of None \<Rightarrow> c' i | Some c \<Rightarrow> Some c) =
      (\<lambda>i. case observed (d # ds) i of None \<Rightarrow> current i | Some c \<Rightarrow> Some c)"
    by (rule ext) (auto simp: c'_def observed_def find_append disk_counters_def split: option.splits)
  moreover have "update_disks previous elapsed (d # ds) current =
      (case update_disks previous elapsed ds c' of (ds', c) \<Rightarrow> (with_rates elapsed previous d # ds', c))"
    by (simp add: with_rates_def Let_def c'_def split: prod.splits)
  ultimately show ?case by (simp only: Cons.IH [of c'] prod.case list.map)
qed simp

lemma disk_rates_result:
  "disk_rates_update previous ds elapsed = (map (with_rates elapsed previous) ds, observed ds)"
  by (simp add: disk_rates_update_def update_disks_result fun_eq_iff split: option.splits)

lemma two_observations:
  "fst (disk_rates_update (snd (disk_rates_update previous ds0 t0)) ds t) =
     map (\<lambda>d. case observed ds0 (disk_id d) of
        Some (r, w) \<Rightarrow>
          (if r \<le> dsk_read_total d \<and> w \<le> dsk_written_total d
           then d\<lparr>dsk_read_per_second := per_second (dsk_read_total d - r) t,
                  dsk_written_per_second := per_second (dsk_written_total d - w) t\<rparr>
           else d\<lparr>dsk_read_per_second := per_second 0 t, dsk_written_per_second := per_second 0 t\<rparr>)
      | None \<Rightarrow> d\<lparr>dsk_read_per_second := per_second 0 t, dsk_written_per_second := per_second 0 t\<rparr>) ds"
  by (auto simp: disk_rates_result with_rates_def disk_deltas_def checked_sub_def split: option.splits)

lemma milli_facts: "f64_key f64_milli = 0x3F50624DD2F1A9FC" "\<not> is_nan f64_milli"
  by (simp_all add: f64_milli_def f64_key_def f64_negative_def f64_magnitude_def is_nan_def)

lemma interval_positive:
  "\<not> is_nan (f64_max f64_zero t f64_milli)" "0 < f64_key (f64_max f64_zero t f64_milli)"
proof -
  have "f64_key t = f64_key f64_milli \<Longrightarrow> t = f64_milli"
    using milli_facts
    by (intro total_key_inj [THEN iffD1]) (auto simp: f64_key_def total_key_def split: if_splits)
  then show "\<not> is_nan (f64_max f64_zero t f64_milli)" "0 < f64_key (f64_max f64_zero t f64_milli)"
    using milli_facts by (auto simp: f64_max_def)
qed

lemma zero_rate: "per_second 0 t = f64_zero"
proof -
  let ?m = "f64_max f64_zero t f64_milli"
  have zero: "u64_as_f64 0 = f64_zero"
    by (simp add: u64_rounds_once f64_of_u64_def f64_of_nat_def round_ratio_def f64_signed_def)
  have "\<not> f64_negative ?m" "f64_magnitude ?m \<noteq> 0"
    using interval_positive(2) [of t] by (auto simp: f64_key_def split: if_splits)
  then show ?thesis
    unfolding per_second_def zero using interval_positive(1) [of t]
    by (auto simp: f64_div_def is_nan_def is_finite_def f64_magnitude_def f64_negative_def f64_signed_def f64_parts_def
        round_ratio_def split: prod.splits)
qed

section \<open>The slow refresh\<close>

lemma sample_slow:
  "sm_last_slow_sample (snd (sample R host slow pending r s)) =
     (if slow_due s r slow then Some (rd_now r) else sm_last_slow_sample s)"
proof -
  have "slow_due (s\<lparr>sm_last_sample := rd_now r\<rparr>) r slow = slow_due s r slow" by (simp add: slow_due_def)
  then show ?thesis
    by (simp add: sample_def Let_def refresh_slow_def split: prod.splits)
qed

text \<open>The instants at which a run of samples reads the slow metrics.\<close>

fun slow_instants :: "report_ops \<Rightarrow> host_identity \<Rightarrow> 64 word \<Rightarrow> 64 word \<Rightarrow> reading list \<Rightarrow> sampler \<Rightarrow> nat list" where
  "slow_instants R host slow pending [] s = []"
| "slow_instants R host slow pending (r # rs) s =
     (if slow_due s r slow then [rd_now r] else []) @
     slow_instants R host slow pending rs (snd (sample R host slow pending r s))"

definition apart_by :: "64 word \<Rightarrow> nat \<Rightarrow> nat \<Rightarrow> bool" where
  "apart_by slow a b \<longleftrightarrow> unat slow \<le> (b - a) div 10 ^ 9"

lemma slow_instants_apart:
  "successively (apart_by slow)
     ((case sm_last_slow_sample s of None \<Rightarrow> [] | Some t \<Rightarrow> [t]) @ slow_instants R host slow pending rs s)"
proof (induction rs arbitrary: s)
  case Nil
  then show ?case by (cases "sm_last_slow_sample s") simp_all
next
  case (Cons r rs)
  let ?s = "snd (sample R host slow pending r s)"
  show ?case
  proof (cases "slow_due s r slow")
    case True
    then have "sm_last_slow_sample ?s = Some (rd_now r)" by (simp add: sample_slow)
    then have "successively (apart_by slow) (rd_now r # slow_instants R host slow pending rs ?s)"
      using Cons.IH [of ?s] by simp
    with True show ?thesis
      by (cases "sm_last_slow_sample s") (simp_all add: slow_due_def apart_by_def)
  next
    case False
    then have "sm_last_slow_sample ?s = sm_last_slow_sample s" by (simp add: sample_slow)
    with False Cons.IH [of ?s] show ?thesis by simp
  qed
qed

section \<open>Sizes\<close>

lemma collect_bounded_length: "length (collect_bounded xs n) \<le> n + 1"
  by (auto simp: collect_bounded_def producer_collection_limit_def checked_add64_def)

lemma extend_bounded_length: "length (extend_bounded xs ys n) \<le> max (length xs) (n + 1)"
  by (auto simp: extend_bounded_def producer_collection_limit_def checked_add64_def Let_def)

end
