(* ===== verification/Smbios.thy ===== *)
theory Smbios
  imports Sampling Windows_Acl
begin

text \<open>
  The memory modules of a DMTF SMBIOS table: \<open>src/collectors/inventory/smbios.rs\<close> with the
  text cleaning of \<open>src/collectors/hardware.rs\<close>. A table is its bytes; every access to a
  record is checked as the code checks it.
\<close>

section \<open>Text\<close>

text \<open>\<open>String::from_utf8_lossy\<close>: a maximal part of a sequence that is not UTF-8 becomes U+FFFD.\<close>

definition replacement_character :: string where
  "replacement_character = [CHR 0xEF, CHR 0xBF, CHR 0xBD]"

definition second_byte_ok :: "nat \<Rightarrow> nat \<Rightarrow> bool" where
  "second_byte_ok a b \<longleftrightarrow>
     (if a = 0xE0 then 0xA0 \<le> b \<and> b \<le> 0xBF else if a = 0xED then 0x80 \<le> b \<and> b \<le> 0x9F
      else if a = 0xF0 then 0x90 \<le> b \<and> b \<le> 0xBF else if a = 0xF4 then 0x80 \<le> b \<and> b \<le> 0x8F
      else continuation b)"

definition sequence_length :: "nat \<Rightarrow> nat" where
  "sequence_length a =
     (if a < 0x80 then 1 else if 0xC2 \<le> a \<and> a \<le> 0xDF then 2 else if 0xE0 \<le> a \<and> a \<le> 0xEF then 3
      else if 0xF0 \<le> a \<and> a \<le> 0xF4 then 4 else 0)"

text \<open>How many bytes of the rest belong to the sequence that \<open>a\<close> begins.\<close>

definition accepted_bytes :: "char \<Rightarrow> string \<Rightarrow> nat" where
  "accepted_bytes a s =
     (if sequence_length (byte a) \<le> 1 \<or> s = [] \<or> \<not> second_byte_ok (byte a) (byte (hd s)) then 0
      else 1 + length (takeWhile continuation_byte (take (sequence_length (byte a) - 2) (tl s))))"

function from_utf8_lossy :: "string \<Rightarrow> string" where
  "from_utf8_lossy [] = []"
| "from_utf8_lossy (a # s) =
     (let n = accepted_bytes a s in
      (if n + 1 = sequence_length (byte a) then a # take n s else replacement_character) @ from_utf8_lossy (drop n s))"
  by pat_completeness auto
termination by (relation "measure length") auto

definition hardware_text :: "nat \<Rightarrow> string \<Rightarrow> string option" where
  "hardware_text maximum value =
     (let v = truncate_utf8 maximum (strip_controls (trim value)) in if v = [] then None else Some v)"

definition placeholder_texts :: "string list" where
  "placeholder_texts = [''unknown'', ''not specified'', ''not available'', ''none'', ''n/a'', ''other'',
     ''to be filled by o.e.m.'', ''default string'']"

definition firmware_text :: "nat \<Rightarrow> string \<Rightarrow> string option" where
  "firmware_text maximum value =
     Option.bind (hardware_text maximum value) (\<lambda>v.
     if map to_ascii_lower v \<in> set placeholder_texts then None else Some v)"

section \<open>Tables of names\<close>

definition memory_type :: "nat \<Rightarrow> string option" where
  "memory_type v = map_of [(3, ''DRAM''), (15, ''SDRAM''), (18, ''DDR''), (19, ''DDR2''), (20, ''DDR2 FB-DIMM''),
     (24, ''DDR3''), (25, ''FBD2''), (26, ''DDR4''), (27, ''LPDDR''), (28, ''LPDDR2''), (29, ''LPDDR3''),
     (30, ''LPDDR4''), (32, ''HBM''), (33, ''HBM2''), (34, ''DDR5''), (35, ''LPDDR5''), (36, ''HBM3'')] v"

definition form_factor :: "nat \<Rightarrow> string option" where
  "form_factor v = map_of [(3, ''SIMM''), (4, ''SIP''), (5, ''Chip''), (6, ''DIP''), (7, ''ZIP''),
     (8, ''Proprietary Card''), (9, ''DIMM''), (10, ''TSOP''), (11, ''Row of chips''), (12, ''RIMM''),
     (13, ''SO-DIMM''), (14, ''SRIMM''), (15, ''FB-DIMM''), (16, ''Die''), (17, ''CAMM'')] v"

section \<open>Records\<close>

fun little_endian :: "string \<Rightarrow> nat" where
  "little_endian [] = 0"
| "little_endian (c # s) = byte c + 256 * little_endian s"

definition smbios_field :: "nat \<Rightarrow> string \<Rightarrow> nat \<Rightarrow> nat option" where
  "smbios_field width r offset =
     (if offset + width \<le> length r then Some (little_endian (take width (drop offset r))) else None)"

definition smbios_word :: "string \<Rightarrow> nat \<Rightarrow> nat option" where
  "smbios_word = smbios_field 2"

definition smbios_dword :: "string \<Rightarrow> nat \<Rightarrow> nat option" where
  "smbios_dword = smbios_field 4"

definition smbios_speed :: "string \<Rightarrow> nat \<Rightarrow> nat \<Rightarrow> f64 option" where
  "smbios_speed r offset extended =
     Option.bind (smbios_word r offset) (\<lambda>v.
     if v = 0 then None
     else if v = 0xffff then
       Option.bind (smbios_dword r extended) (\<lambda>x. if 0 < x \<and> x \<le> 0x7fffffff then Some (f64_of_nat x) else None)
     else Some (f64_of_nat v))"

text \<open>Text number \<open>i\<close> of the strings after the record, at the index the byte at \<open>offset\<close> holds.\<close>

definition smbios_string :: "nat \<Rightarrow> string \<Rightarrow> string list \<Rightarrow> nat \<Rightarrow> string option" where
  "smbios_string maximum r strings offset =
     (if offset < length r then
        (let index = byte (r ! offset) in
         if index = 0 \<or> length strings < index then None
         else firmware_text maximum (from_utf8_lossy (strings ! (index - 1))))
      else None)"

definition smbios_capacity :: "string \<Rightarrow> 64 word option" where
  "smbios_capacity r =
     (case smbios_word r 0x0c of
        None \<Rightarrow> None
      | Some v \<Rightarrow>
          if v = 0xffff then None
          else if v = 0x7fff then
            Option.bind (smbios_dword r 0x1c) (\<lambda>x.
            if x < 0x80000000 \<and> 0 < x then Some (of_nat x * 1024 * 1024) else None)
          else if 0x8000 \<le> v then Some (of_nat (v mod 0x8000) * 1024)
          else Some (of_nat v * 1024 * 1024))"

definition hex_digit :: "nat \<Rightarrow> char" where
  "hex_digit d = ''0123456789abcdef'' ! d"

definition hex4 :: "nat \<Rightarrow> string" where
  "hex4 n = map (\<lambda>k. hex_digit (n div 16 ^ k mod 16)) [3, 2, 1, 0]"

definition smbios_module :: "nat \<Rightarrow> string \<Rightarrow> string list \<Rightarrow> memory_module" where
  "smbios_module maximum r strings =
     \<lparr>mem_id = ''smbios:'' @ hex4 (case smbios_word r 2 of None \<Rightarrow> 0 | Some h \<Rightarrow> h),
      mem_locator = smbios_string maximum r strings 0x10, mem_model = smbios_string maximum r strings 0x1a,
      mem_vendor = smbios_string maximum r strings 0x17, mem_type = memory_type (byte (r ! 0x12)),
      mem_module_version = smbios_string maximum r strings 0x2b, mem_form_factor = form_factor (byte (r ! 0x0e)),
      mem_capacity = smbios_capacity r, mem_speed = smbios_speed r 0x15 0x54,
      mem_configured_speed = smbios_speed r 0x20 0x58, mem_reported_speed = None, mem_source = ''linux-smbios''\<rparr>"

section \<open>The table\<close>

text \<open>\<open>windows(2).position(|w| w == [0, 0])\<close>.\<close>

fun double_zero :: "string \<Rightarrow> nat option" where
  "double_zero (a # b # s) =
     (if byte a = 0 \<and> byte b = 0 then Some 0 else map_option Suc (double_zero (b # s)))"
| "double_zero s = None"

text \<open>
  The first structure of a table: its formatted record, its strings and the bytes after it;
  \<open>None\<close> is each of the checks that end the loop with \<open>InvalidData\<close>.
\<close>

definition smbios_structure :: "string \<Rightarrow> (string \<times> string list \<times> string) option" where
  "smbios_structure rest =
     (if length rest < 4 then None
      else
        let size = byte (rest ! 1) in
        if size < 4 \<or> length rest < size then None
        else
          let tail = drop size rest in
          map_option (\<lambda>n. (take size rest, split_on CHR 0x00 (take n tail), drop (n + 2) tail)) (double_zero tail))"

lemma smbios_structure_shorter:
  "smbios_structure rest = Some (r, strings, next) \<Longrightarrow> length next < length rest"
  by (auto simp: smbios_structure_def Let_def split: if_splits)

text \<open>A memory device that the code reports: its size is not zero and its type not \<open>0x1f\<close>.\<close>

definition populated :: "string \<Rightarrow> bool" where
  "populated r \<longleftrightarrow> smbios_word r 0x0c \<noteq> Some 0 \<and> byte (r ! 0x12) \<noteq> 0x1f"

function smbios_loop ::
  "nat \<Rightarrow> nat \<Rightarrow> string \<Rightarrow> memory_module list \<Rightarrow> capability_error_kind option \<Rightarrow>
     memory_module list \<times> capability_error_kind option" where
  "smbios_loop maximum limit rest modules failure =
     (if rest = [] then (modules, failure)
      else case smbios_structure rest of
        None \<Rightarrow> (modules, Some Invalid_Data)
      | Some (r, strings, next) \<Rightarrow>
          if byte (r ! 0) = 127 then (modules, failure)
          else if byte (r ! 0) \<noteq> 17 then smbios_loop maximum limit next modules failure
          else if length r < 0x15 then smbios_loop maximum limit next modules (Some Invalid_Data)
          else if \<not> populated r then smbios_loop maximum limit next modules failure
          else if length modules + 1 = limit then (modules @ [smbios_module maximum r strings], failure)
          else smbios_loop maximum limit next (modules @ [smbios_module maximum r strings]) failure)"
  by pat_completeness auto
termination
  by (relation "measure (\<lambda>(maximum, limit, rest, modules, failure). length rest)")
    (auto dest: smbios_structure_shorter)

declare smbios_loop.simps [simp del]

definition smbios_parse :: "nat \<Rightarrow> nat \<Rightarrow> string \<Rightarrow> memory_module list \<times> capability_error_kind option" where
  "smbios_parse maximum limit bytes =
     (let (modules, failure) = smbios_loop maximum limit bytes [] None
      in (dedup_by mem_id (sort_key mem_id modules), failure))"

end
