(* ===== verification/Windows_Acl_Correct.thy ===== *)
theory Windows_Acl_Correct
  imports Windows_Acl
begin

text \<open>
  What an accepted descriptor grants: exactly the template, nothing to anyone else, and after
  an uninstall nothing to the service. The templates the program writes are accepted, for
  directories and, after the inheritance flags are taken out, for files.
\<close>

section \<open>Entries\<close>

definition dacl_of :: "string \<Rightarrow> string" where
  "dacl_of sddl = (case split_once_text ''D:'' sddl of None \<Rightarrow> [] | Some (own, dacl) \<Rightarrow> dacl)"

definition dacl_entries :: "string \<Rightarrow> string list list" where
  "dacl_entries sddl = map ace_fields (drop 1 (split_on CHR ''('' (dacl_of sddl)))"

text \<open>An allow entry of a trustee with exact rights, without object types.\<close>

definition grants :: "bool \<Rightarrow> string set \<Rightarrow> string set \<Rightarrow> string list \<Rightarrow> bool" where
  "grants is_directory trustees rights f \<longleftrightarrow>
     length f = 6 \<and> f ! 0 = ''A'' \<and> has_exact_ace_inheritance_flags (f ! 1) is_directory \<and>
     f ! 2 \<in> rights \<and> f ! 3 = [] \<and> f ! 4 = [] \<and> f ! 5 \<in> trustees"

abbreviation full_access :: "string set" where "full_access \<equiv> {''FA''}"
abbreviation read_execute :: "string set" where "read_execute \<equiv> {''0x1200a9'', ''0x001200a9''}"
abbreviation modify_access :: "string set" where "modify_access \<equiv> {''0x1301bf'', ''0x001301bf''}"

abbreviation system_sid :: "string set" where "system_sid \<equiv> {''SY'', ''S-1-5-18''}"
abbreviation admins_sid :: "string set" where "admins_sid \<equiv> {''BA'', ''S-1-5-32-544''}"
abbreviation users_sid :: "string set" where "users_sid \<equiv> {''BU'', ''S-1-5-32-545''}"
abbreviation owner_sid :: "string set" where "owner_sid \<equiv> {''OW'', ''S-1-3-4''}"

definition count_seen :: "seen_aces \<Rightarrow> nat" where
  "count_seen s = of_bool (se_system s) + of_bool (se_admins s) + of_bool (se_users s) +
     of_bool (se_owner_rights s) + of_bool (se_service s)"

lemma count_nothing: "count_seen nothing_seen = 0"
  by (simp add: count_seen_def nothing_seen_def)

section \<open>Managed state\<close>

definition plain_ace :: "bool \<Rightarrow> string list \<Rightarrow> bool" where
  "plain_ace is_directory f \<longleftrightarrow> length f = 6 \<and> f ! 0 = ''A'' \<and> has_exact_ace_inheritance_flags (f ! 1) is_directory \<and>
     f ! 3 = [] \<and> f ! 4 = []"

lemma grantsI: "plain_ace dir f \<Longrightarrow> f ! 5 \<in> T \<Longrightarrow> f ! 2 \<in> R \<Longrightarrow> grants dir T R f"
  unfolding grants_def plain_ace_def by blast

text \<open>An accepted entry and the variable it sets.\<close>

lemma managed_ace_cases:
  assumes "managed_ace sid dir ace s = Inr s'"
  obtains (system) "grants dir system_sid full_access (ace_fields ace)" "\<not> se_system s" "s' = s\<lparr>se_system := True\<rparr>"
    | (admins) "grants dir admins_sid full_access (ace_fields ace)" "\<not> se_admins s" "s' = s\<lparr>se_admins := True\<rparr>"
    | (owner) "grants dir owner_sid {''RC''} (ace_fields ace)" "\<not> se_owner_rights s" "s' = s\<lparr>se_owner_rights := True\<rparr>"
    | (service) "grants dir {sid} modify_access (ace_fields ace)" "\<not> se_service s" "s' = s\<lparr>se_service := True\<rparr>"
proof -
  define f where "f = ace_fields ace"
  have plain: "plain_ace dir f"
    using assms unfolding managed_ace_def Let_def bindR_ensureR_iff plain_ace_def by (simp only: f_def simp_thms)
  note body = assms [unfolded managed_ace_def Let_def bindR_ensureR_iff, folded f_def]
  show thesis
  proof (cases "f ! 5 \<in> system_sid")
    case True
    with body have "\<not> se_system s \<and> f ! 2 = ''FA'' \<and> s\<lparr>se_system := True\<rparr> = s'"
      by (simp only: if_True bindR_ensureR_iff sum.inject simp_thms)
    with True plain show thesis by (intro system) (auto intro!: grantsI simp: f_def [symmetric])
  next
    case n1: False
    show thesis
    proof (cases "f ! 5 \<in> admins_sid")
      case True
      with body n1 have "\<not> se_admins s \<and> f ! 2 = ''FA'' \<and> s\<lparr>se_admins := True\<rparr> = s'"
        by (simp only: if_True if_False bindR_ensureR_iff sum.inject simp_thms)
      with True plain show thesis by (intro admins) (auto intro!: grantsI simp: f_def [symmetric])
    next
      case n2: False
      show thesis
      proof (cases "f ! 5 \<in> owner_sid")
        case True
        with body n1 n2 have "\<not> se_owner_rights s \<and> f ! 2 = ''RC'' \<and> s\<lparr>se_owner_rights := True\<rparr> = s'"
          by (simp only: if_True if_False bindR_ensureR_iff sum.inject simp_thms)
        with True plain show thesis by (intro owner) (auto intro!: grantsI simp: f_def [symmetric])
      next
        case n3: False
        have "sid = f ! 5"
        proof (rule ccontr)
          assume "sid \<noteq> f ! 5"
          with body n1 n2 n3 show False by (simp only: if_False sum.distinct simp_thms)
        qed
        with body n1 n2 n3 have "\<not> se_service s \<and> f ! 2 \<in> modify_access \<and> s\<lparr>se_service := True\<rparr> = s'"
          by (simp only: if_True if_False bindR_ensureR_iff sum.inject simp_thms)
        with \<open>sid = f ! 5\<close> plain show thesis by (intro service) (auto intro!: grantsI simp: f_def [symmetric])
      qed
    qed
  qed
qed

lemma managed_ace_ok:
  assumes "managed_ace sid dir ace s = Inr s'"
  shows "count_seen s' = Suc (count_seen s) \<and> se_users s' = se_users s \<and> (se_service s \<longrightarrow> se_service s') \<and>
    (grants dir system_sid full_access (ace_fields ace) \<or> grants dir admins_sid full_access (ace_fields ace) \<or>
     grants dir owner_sid {''RC''} (ace_fields ace) \<or>
     (grants dir {sid} modify_access (ace_fields ace) \<and> se_service s'))"
  using assms by (cases rule: managed_ace_cases) (simp_all add: count_seen_def)

lemma managed_aces_ok:
  assumes "fold_result (managed_ace sid dir) aces s = Inr s'"
  shows "count_seen s' = count_seen s + length aces \<and> se_users s' = se_users s \<and> (se_service s \<longrightarrow> se_service s') \<and>
    (\<forall>ace \<in> set aces. grants dir system_sid full_access (ace_fields ace) \<or> grants dir admins_sid full_access (ace_fields ace) \<or>
       grants dir owner_sid {''RC''} (ace_fields ace) \<or> (grants dir {sid} modify_access (ace_fields ace) \<and> se_service s'))"
  using assms
proof (induction aces arbitrary: s)
  case (Cons ace aces)
  then obtain s1 where a: "managed_ace sid dir ace s = Inr s1" and rest: "fold_result (managed_ace sid dir) aces s1 = Inr s'"
    by (auto simp: bindR_Inr_iff)
  from managed_ace_ok [OF a] Cons.IH [OF rest] show ?case
    unfolding list.set ball_simps by simp blast
qed simp

lemma managed_dacl_exact:
  assumes "parse_managed_dacl sddl sid access dir = Inr u"
  shows "starts_with ''O:SY'' sddl \<and> length (dacl_entries sddl) = (if access then 4 else 3) \<and>
    (\<forall>f \<in> set (dacl_entries sddl). grants dir system_sid full_access f \<or> grants dir admins_sid full_access f \<or>
       grants dir owner_sid {''RC''} f \<or> access \<and> grants dir {sid} modify_access f)"
proof -
  obtain own dacl control rest seen where sy: "starts_with ''O:SY'' sddl"
    and split: "split_once_text ''D:'' sddl = Some (own, dacl)"
    and folded: "fold_result (managed_ace sid dir) (drop 1 (split_on CHR ''('' dacl)) nothing_seen = Inr seen"
    and seen: "se_system seen" "se_admins seen" "se_owner_rights seen" "access = se_service seen"
    using assms
    by (auto simp: parse_managed_dacl_def bindR_Inr_iff ensureR_def ok_or_Inr_iff split: if_splits)
  let ?aces = "drop 1 (split_on CHR ''('' dacl)"
  have entries: "dacl_entries sddl = map ace_fields ?aces" by (simp add: dacl_entries_def dacl_of_def split)
  note ok = managed_aces_ok [OF folded]
  have "\<not> se_users seen" using ok by (simp add: nothing_seen_def)
  moreover have "count_seen seen = length ?aces" using ok by (simp add: count_nothing)
  ultimately have "length ?aces = (if access then 4 else 3)"
    using seen by (simp only: count_seen_def) (cases "se_service seen"; simp)
  moreover have "\<forall>f \<in> ace_fields ` set ?aces. grants dir system_sid full_access f \<or> grants dir admins_sid full_access f \<or>
       grants dir owner_sid {''RC''} f \<or> access \<and> grants dir {sid} modify_access f"
    using ok seen(4) by blast
  ultimately show ?thesis using sy by (simp only: entries list.set_map length_map simp_thms)
qed

section \<open>Programs\<close>

lemma program_ace_cases:
  assumes "program_ace sid dir ace s = Inr s'"
  obtains (system) "grants dir system_sid full_access (ace_fields ace)" "\<not> se_system s" "s' = s\<lparr>se_system := True\<rparr>"
    | (admins) "grants dir admins_sid full_access (ace_fields ace)" "\<not> se_admins s" "s' = s\<lparr>se_admins := True\<rparr>"
    | (users) "grants dir users_sid read_execute (ace_fields ace)" "\<not> se_users s" "s' = s\<lparr>se_users := True\<rparr>"
    | (service) "grants dir {sid} read_execute (ace_fields ace)" "\<not> se_service s" "s' = s\<lparr>se_service := True\<rparr>"
proof -
  define f where "f = ace_fields ace"
  have plain: "plain_ace dir f"
    using assms unfolding program_ace_def Let_def bindR_ensureR_iff plain_ace_def by (simp only: f_def simp_thms)
  note body = assms [unfolded program_ace_def Let_def bindR_ensureR_iff, folded f_def]
  show thesis
  proof (cases "f ! 5 \<in> system_sid")
    case True
    with body have "\<not> se_system s \<and> f ! 2 = ''FA'' \<and> s\<lparr>se_system := True\<rparr> = s'"
      by (simp only: if_True bindR_ensureR_iff sum.inject simp_thms)
    with True plain show thesis by (intro system) (auto intro!: grantsI simp: f_def [symmetric])
  next
    case n1: False
    show thesis
    proof (cases "f ! 5 \<in> admins_sid")
      case True
      with body n1 have "\<not> se_admins s \<and> f ! 2 = ''FA'' \<and> s\<lparr>se_admins := True\<rparr> = s'"
        by (simp only: if_True if_False bindR_ensureR_iff sum.inject simp_thms)
      with True plain show thesis by (intro admins) (auto intro!: grantsI simp: f_def [symmetric])
    next
      case n2: False
      show thesis
      proof (cases "f ! 5 \<in> users_sid")
        case True
        with body n1 n2 have "\<not> se_users s \<and> f ! 2 \<in> read_execute \<and> s\<lparr>se_users := True\<rparr> = s'"
          by (simp only: if_True if_False bindR_ensureR_iff sum.inject simp_thms)
        with True plain show thesis by (intro users) (auto intro!: grantsI simp: f_def [symmetric])
      next
        case n3: False
        have sid: "f ! 5 = sid"
        proof (rule ccontr)
          assume "f ! 5 \<noteq> sid"
          with body n1 n2 n3 show False by (simp only: if_False sum.distinct simp_thms)
        qed
        with body n1 n2 n3 have "\<not> se_service s \<and> f ! 2 \<in> read_execute \<and> s\<lparr>se_service := True\<rparr> = s'"
          by (simp only: if_True if_False bindR_ensureR_iff sum.inject simp_thms)
        with sid plain show thesis by (intro service) (auto intro!: grantsI simp: f_def [symmetric])
      qed
    qed
  qed
qed

lemma program_ace_ok:
  assumes "program_ace sid dir ace s = Inr s'"
  shows "count_seen s' = Suc (count_seen s) \<and> se_owner_rights s' = se_owner_rights s \<and>
    (grants dir system_sid full_access (ace_fields ace) \<or> grants dir admins_sid full_access (ace_fields ace) \<or>
     grants dir users_sid read_execute (ace_fields ace) \<or> grants dir {sid} read_execute (ace_fields ace))"
  using assms by (cases rule: program_ace_cases) (simp_all add: count_seen_def)

lemma program_aces_ok:
  assumes "fold_result (program_ace sid dir) aces s = Inr s'"
  shows "count_seen s' = count_seen s + length aces \<and> se_owner_rights s' = se_owner_rights s \<and>
    (\<forall>ace \<in> set aces. grants dir system_sid full_access (ace_fields ace) \<or> grants dir admins_sid full_access (ace_fields ace) \<or>
     grants dir users_sid read_execute (ace_fields ace) \<or> grants dir {sid} read_execute (ace_fields ace))"
  using assms
proof (induction aces arbitrary: s)
  case (Cons ace aces)
  then obtain s1 where a: "program_ace sid dir ace s = Inr s1" and rest: "fold_result (program_ace sid dir) aces s1 = Inr s'"
    by (auto simp: bindR_Inr_iff)
  from program_ace_ok [OF a] Cons.IH [OF rest] show ?case
    unfolding list.set ball_simps by simp
qed simp

lemma program_dacl_exact:
  assumes "parse_program_dacl sddl sid dir = Inr u"
  shows "starts_with ''O:SY'' sddl \<and> length (dacl_entries sddl) = 4 \<and>
    (\<forall>f \<in> set (dacl_entries sddl). grants dir system_sid full_access f \<or> grants dir admins_sid full_access f \<or>
       grants dir users_sid read_execute f \<or> grants dir {sid} read_execute f)"
proof -
  obtain own dacl control rest seen where sy: "starts_with ''O:SY'' sddl"
    and split: "split_once_text ''D:'' sddl = Some (own, dacl)"
    and folded: "fold_result (program_ace sid dir) (drop 1 (split_on CHR ''('' dacl)) nothing_seen = Inr seen"
    and seen: "se_system seen" "se_admins seen" "se_users seen" "se_service seen"
    using assms
    by (auto simp: parse_program_dacl_def bindR_Inr_iff ensureR_def ok_or_Inr_iff split: if_splits)
  let ?aces = "drop 1 (split_on CHR ''('' dacl)"
  have entries: "dacl_entries sddl = map ace_fields ?aces" by (simp add: dacl_entries_def dacl_of_def split)
  note ok = program_aces_ok [OF folded]
  have "\<not> se_owner_rights seen" using ok by (simp add: nothing_seen_def)
  moreover have "count_seen seen = length ?aces" using ok by (simp add: count_nothing)
  ultimately have "length ?aces = 4" using seen by (simp add: count_seen_def)
  moreover have "\<forall>f \<in> ace_fields ` set ?aces. grants dir system_sid full_access f \<or> grants dir admins_sid full_access f \<or>
       grants dir users_sid read_execute f \<or> grants dir {sid} read_execute f"
    using ok by blast
  ultimately show ?thesis using sy by (simp only: entries list.set_map length_map simp_thms)
qed

section \<open>Templates are accepted\<close>

text \<open>A SID as text: no punctuation of the language, and not a trustee the templates name.\<close>

definition plain_sid :: "string \<Rightarrow> bool" where
  "plain_sid sid \<longleftrightarrow> CHR ''('' \<notin> set sid \<and> CHR '')'' \<notin> set sid \<and> CHR '';'' \<notin> set sid \<and>
     sid \<notin> system_sid \<union> admins_sid \<union> users_sid \<union> owner_sid"

lemma split_on_nonempty [simp]: "split_on c s \<noteq> []"
  by (induction s) (auto split: list.splits)

lemma split_on_append:
  "c \<notin> set a \<Longrightarrow> split_on c (a @ s) = (a @ hd (split_on c s)) # tl (split_on c s)"
  by (induction a) (auto split: list.splits)

lemma split_on_plain: "c \<notin> set a \<Longrightarrow> split_on c a = [a]"
  using split_on_append [of c a "[]"] by simp

lemma split_once_append:
  "c \<notin> set a \<Longrightarrow> split_once c (a @ c # s) = Some (a, s)"
  by (induction a) (auto simp: split_once_def)

lemma before_first_append: "c \<notin> set a \<Longrightarrow> before_first c (a @ c # s) = a"
  by (induction a) (auto simp: before_first_def)

lemma replace_text_Nil [simp]: "replace_text p q [] = []"
  by (simp add: replace_text.simps)

lemma replace_text_Cons:
  "replace_text p q (x # s) =
     (if p \<noteq> [] \<and> starts_with p (x # s) then q @ replace_text p q (drop (length p) (x # s)) else x # replace_text p q s)"
  by (subst replace_text.simps) simp

lemma replace_text_append:
  assumes "hd p \<notin> set a" "p \<noteq> []"
  shows "replace_text p q (a @ s) = a @ replace_text p q s"
  using assms
proof (induction a)
  case (Cons x a)
  then have "\<not> starts_with p (x # a @ s)" by (cases p) (auto simp: starts_with_def)
  then show ?case using Cons by (subst replace_text.simps) simp
qed simp


lemma starts_with_Cons: "starts_with (x # p) (y # s) \<longleftrightarrow> x = y \<and> starts_with p s"
  by (auto simp: starts_with_def)

lemma starts_with_Nil: "starts_with [] s" "\<not> starts_with (x # p) []"
  by (simp_all add: starts_with_def)

lemma starts_with_stops:
  "c \<in> set p \<Longrightarrow> c \<notin> set a \<Longrightarrow> d \<notin> set p \<Longrightarrow> \<not> starts_with p (a @ d # s)"
proof (induction a arbitrary: p)
  case Nil
  then show ?case by (cases p) (auto simp: starts_with_Cons)
next
  case (Cons x a)
  then show ?case by (cases p) (auto simp: starts_with_Cons)
qed

lemmas text_replacement = replace_text_Cons starts_with_Cons starts_with_Nil starts_with_stops [of "CHR '';''" _ _ "CHR '')''"]

text \<open>One entry of a template.\<close>

definition allow_ace :: "bool \<Rightarrow> string \<Rightarrow> string \<Rightarrow> string" where
  "allow_ace is_directory right trustee =
     ''A;'' @ (if is_directory then ''OICI'' else []) @ '';'' @ right @ '';;;'' @ trustee @ '')''"

lemma allow_ace_fields:
  assumes "CHR '')'' \<notin> set right" "CHR '';'' \<notin> set right" "CHR '')'' \<notin> set trustee" "CHR '';'' \<notin> set trustee"
  shows "ace_fields (allow_ace dir right trustee) = [''A'', if dir then ''OICI'' else [], right, [], [], trustee]"
proof -
  have "before_first CHR '')'' (allow_ace dir right trustee) =
      ''A;'' @ (if dir then ''OICI'' else []) @ '';'' @ right @ '';;;'' @ trustee"
    using assms before_first_append [of "CHR '')''" "''A;'' @ (if dir then ''OICI'' else []) @ '';'' @ right @ '';;;'' @ trustee" "[]"]
    by (simp add: allow_ace_def)
  then show ?thesis
    using assms by (cases dir) (simp_all add: ace_fields_def split_on_append split_on_plain)
qed

lemma allow_ace_plain:
  "CHR ''('' \<notin> set right \<Longrightarrow> CHR ''('' \<notin> set trustee \<Longrightarrow> CHR ''('' \<notin> set (allow_ace dir right trustee)"
  by (simp add: allow_ace_def)

text \<open>The text of a template with the given entries.\<close>

definition protected_text :: "string list \<Rightarrow> string" where
  "protected_text aces = ''O:SYD:P'' @ concat (map (\<lambda>ace. CHR ''('' # ace) aces)"

lemma split_on_entries:
  "\<forall>ace \<in> set aces. CHR ''('' \<notin> set ace \<Longrightarrow> CHR ''('' \<notin> set a \<Longrightarrow>
   split_on CHR ''('' (a @ concat (map (\<lambda>ace. CHR ''('' # ace) aces)) = a # aces"
proof (induction aces arbitrary: a)
  case Nil
  then show ?case by (simp add: split_on_plain)
next
  case (Cons ace aces)
  then show ?case using Cons.IH [of ace] by (simp add: split_on_append)
qed

lemma protected_text_split:
  "split_once_text ''D:'' (protected_text aces) = Some (''O:SY'', ''P'' @ concat (map (\<lambda>ace. CHR ''('' # ace) aces))"
  by (simp add: protected_text_def split_once_text.simps starts_with_Cons starts_with_Nil)

lemma managed_protected_text:
  assumes "aces \<noteq> []" "\<forall>ace \<in> set aces. CHR ''('' \<notin> set ace"
  shows "parse_managed_dacl (protected_text aces) sid access dir =
     bindR (fold_result (managed_ace sid dir) aces nothing_seen) (\<lambda>seen.
     bindR (ensureR (se_system seen \<and> se_admins seen \<and> se_owner_rights seen) (Message ''managed state DACL is incomplete'')) (\<lambda>_.
     bindR (ensureR (\<not> access \<or> se_service seen) (Message ''managed state DACL lacks the service SID'')) (\<lambda>_.
     ensureR (access \<or> \<not> se_service seen) (Message ''preserved state still grants the service SID''))))"
proof -
  have "starts_with ''O:SY'' (protected_text aces)"
    by (simp add: protected_text_def starts_with_Cons starts_with_Nil)
  moreover obtain rest where "split_once CHR ''('' (''P'' @ concat (map (\<lambda>ace. CHR ''('' # ace) aces)) = Some (''P'', rest)"
    using assms(1) split_once_append [of "CHR ''(''" "''P''"] by (cases aces) auto
  moreover have "drop 1 (split_on CHR ''('' (''P'' @ concat (map (\<lambda>ace. CHR ''('' # ace) aces))) = aces"
    by (subst split_on_entries) (use assms(2) in auto)
  ultimately show ?thesis
    unfolding parse_managed_dacl_def protected_text_split
    by (simp only: ensureR_def if_True bindR.simps is_protected_dacl_control_def simp_thms prod.case snd_conv ok_or.simps option.map)
qed

lemma program_protected_text:
  assumes "aces \<noteq> []" "\<forall>ace \<in> set aces. CHR ''('' \<notin> set ace"
  shows "parse_program_dacl (protected_text aces) sid dir =
     bindR (fold_result (program_ace sid dir) aces nothing_seen) (\<lambda>seen.
     ensureR (se_system seen \<and> se_admins seen \<and> se_users seen \<and> se_service seen)
       (Message ''program DACL does not match the current template''))"
proof -
  have "starts_with ''O:SY'' (protected_text aces)"
    by (simp add: protected_text_def starts_with_Cons starts_with_Nil)
  moreover obtain rest where "split_once CHR ''('' (''P'' @ concat (map (\<lambda>ace. CHR ''('' # ace) aces)) = Some (''P'', rest)"
    using assms(1) split_once_append [of "CHR ''(''" "''P''"] by (cases aces) auto
  moreover have "drop 1 (split_on CHR ''('' (''P'' @ concat (map (\<lambda>ace. CHR ''('' # ace) aces))) = aces"
    by (subst split_on_entries) (use assms(2) in auto)
  ultimately show ?thesis
    unfolding parse_program_dacl_def protected_text_split
    by (simp only: ensureR_def if_True bindR.simps is_protected_dacl_control_def simp_thms prod.case snd_conv ok_or.simps option.map)
qed

lemma managed_template_accepted:
  assumes "plain_sid sid"
  shows "parse_managed_dacl (managed_security_descriptor_for_target (managed_state_security_descriptor (Some sid)) dir)
    sid True dir = Inr ()"
proof -
  let ?aces = "[allow_ace dir ''FA'' ''SY'', allow_ace dir ''FA'' ''BA'', allow_ace dir ''0x1301bf'' sid, allow_ace dir ''RC'' ''OW'']"
  have template: "managed_security_descriptor_for_target (managed_state_security_descriptor (Some sid)) dir = protected_text ?aces"
    using assms replace_text_append [of "'';OICI;''" sid "'';;''"]
    by (simp add: managed_security_descriptor_for_target_def managed_state_security_descriptor_def plain_sid_def
        text_replacement allow_ace_def protected_text_def)
  have plain: "\<forall>ace \<in> set ?aces. CHR ''('' \<notin> set ace"
    using assms by (simp add: plain_sid_def allow_ace_plain)
  have sid: "CHR '')'' \<notin> set sid" "CHR '';'' \<notin> set sid" "sid \<notin> system_sid" "sid \<notin> admins_sid" "sid \<notin> owner_sid"
    using assms by (auto simp: plain_sid_def)
  have "fold_result (managed_ace sid dir) ?aces nothing_seen =
      Inr \<lparr>se_system = True, se_admins = True, se_users = False, se_owner_rights = True, se_service = True\<rparr>"
    using sid
    by (simp add: managed_ace_def allow_ace_fields has_exact_ace_inheritance_flags_def nothing_seen_def ensureR_def)
  with plain show ?thesis
    unfolding template by (subst managed_protected_text) (simp_all add: ensureR_def)
qed

lemma preserved_template_accepted:
  "parse_managed_dacl (managed_security_descriptor_for_target protected_directory_security_descriptor dir) sid False dir = Inr ()"
proof -
  let ?aces = "[allow_ace dir ''FA'' ''SY'', allow_ace dir ''FA'' ''BA'', allow_ace dir ''RC'' ''OW'']"
  have template: "managed_security_descriptor_for_target protected_directory_security_descriptor dir = protected_text ?aces"
    by (simp add: managed_security_descriptor_for_target_def managed_state_security_descriptor_def
        protected_directory_security_descriptor_def text_replacement allow_ace_def protected_text_def)
  have plain: "\<forall>ace \<in> set ?aces. CHR ''('' \<notin> set ace"
    by (simp add: allow_ace_plain)
  have "fold_result (managed_ace sid dir) ?aces nothing_seen =
      Inr \<lparr>se_system = True, se_admins = True, se_users = False, se_owner_rights = True, se_service = False\<rparr>"
    by (simp add: managed_ace_def allow_ace_fields has_exact_ace_inheritance_flags_def nothing_seen_def ensureR_def)
  with plain show ?thesis
    unfolding template by (subst managed_protected_text) (simp_all add: ensureR_def)
qed

lemma program_template_accepted:
  assumes "plain_sid sid"
  shows "parse_program_dacl (managed_security_descriptor_for_target (program_security_descriptor sid) dir) sid dir = Inr ()"
proof -
  let ?aces = "[allow_ace dir ''FA'' ''SY'', allow_ace dir ''FA'' ''BA'', allow_ace dir ''0x1200a9'' ''BU'', allow_ace dir ''0x1200a9'' sid]"
  have template: "managed_security_descriptor_for_target (program_security_descriptor sid) dir = protected_text ?aces"
    using assms replace_text_append [of "'';OICI;''" sid "'';;''"]
    by (simp add: managed_security_descriptor_for_target_def program_security_descriptor_def plain_sid_def
        text_replacement allow_ace_def protected_text_def)
  have plain: "\<forall>ace \<in> set ?aces. CHR ''('' \<notin> set ace"
    using assms by (simp add: plain_sid_def allow_ace_plain)
  have sid: "CHR '')'' \<notin> set sid" "CHR '';'' \<notin> set sid" "sid \<notin> system_sid" "sid \<notin> admins_sid" "sid \<notin> users_sid"
    using assms by (auto simp: plain_sid_def)
  have "fold_result (program_ace sid dir) ?aces nothing_seen =
      Inr \<lparr>se_system = True, se_admins = True, se_users = True, se_owner_rights = False, se_service = True\<rparr>"
    using sid
    by (simp add: program_ace_def allow_ace_fields has_exact_ace_inheritance_flags_def nothing_seen_def ensureR_def)
  with plain show ?thesis
    unfolding template by (subst program_protected_text) (simp_all add: ensureR_def)
qed

end
