(* ===== verification/Smbios_Correct.thy ===== *)
theory Smbios_Correct
  imports Smbios Report_Limits Windows_Acl_Correct
begin

text \<open>
  A table that is encoded as the standard says is read record by record, each with its own
  strings; whatever the bytes, the modules are bounded, in the order of their ids, without a
  repeated id.
\<close>

section \<open>Any bytes\<close>

lemma smbios_loop_bounded:
  "length modules < limit \<Longrightarrow> length (fst (smbios_loop maximum limit rest modules failure)) \<le> limit"
proof (induction "length rest" arbitrary: rest modules failure rule: less_induct)
  case less
  show ?case
  proof (cases "rest = [] \<or> smbios_structure rest = None")
    case True
    with less.prems show ?thesis by (subst smbios_loop.simps) (auto split: option.splits)
  next
    case False
    then obtain r strings more where s: "smbios_structure rest = Some (r, strings, more)"
      by (cases "smbios_structure rest") auto
    note ih = less.hyps [OF smbios_structure_shorter [OF s]]
    show ?thesis
      using False less.prems s
      by (subst smbios_loop.simps) (simp only: option.case prod.case if_False, simp add: ih)
  qed
qed

lemma dedup_sorted:
  assumes "sorted (map key xs)"
  shows "sorted (map key (dedup_by key xs)) \<and> distinct (map key (dedup_by key xs))"
proof -
  have "sorted (map key (dedup_by key xs))"
    using assms
  proof (induction key xs rule: dedup_by.induct)
    case (3 key x y zs)
    then show ?case using set_dedup_by [of key "y # zs"] by auto
  qed simp_all
  then show ?thesis using sorted_apart_distinct [OF _ apart_dedup_by] by blast
qed

lemma parse_modules:
  assumes "0 < limit"
  shows "length (fst (smbios_parse maximum limit bytes)) \<le> limit \<and>
    sorted_wrt (<) (map mem_id (fst (smbios_parse maximum limit bytes)))"
proof -
  obtain modules failure where loop: "smbios_loop maximum limit bytes [] None = (modules, failure)" by fastforce
  then have "length modules \<le> limit" using smbios_loop_bounded [of "[]" limit maximum bytes None] assms by simp
  then have "length (dedup_by mem_id (sort_key mem_id modules)) \<le> limit"
    using dedup_by_length [of mem_id "sort_key mem_id modules"] by simp
  then show ?thesis
    using dedup_sorted [of mem_id "sort_key mem_id modules"] loop
    by (simp add: smbios_parse_def strict_sorted_iff)
qed

section \<open>Tables of the standard\<close>

abbreviation nul :: char where "nul \<equiv> CHR 0x00"

text \<open>A structure: its formatted record and its strings.\<close>

type_synonym smbios_entry = "string \<times> string list"

definition well_formed_structure :: "smbios_entry \<Rightarrow> bool" where
  "well_formed_structure = (\<lambda>(r, strings). 4 \<le> length r \<and> byte (r ! 1) = length r \<and>
     (\<forall>s \<in> set strings. s \<noteq> [] \<and> nul \<notin> set s))"

definition encode_strings :: "string list \<Rightarrow> string" where
  "encode_strings strings = (if strings = [] then [nul] else concat (map (\<lambda>s. s @ [nul]) strings)) @ [nul]"

definition encode_structure :: "smbios_entry \<Rightarrow> string" where
  "encode_structure = (\<lambda>(r, strings). r @ encode_strings strings)"

definition encode_table :: "smbios_entry list \<Rightarrow> string" where
  "encode_table structures = concat (map encode_structure structures)"

text \<open>What the structures say, without bytes between them.\<close>

fun read_structures ::
  "nat \<Rightarrow> nat \<Rightarrow> smbios_entry list \<Rightarrow> memory_module list \<Rightarrow> capability_error_kind option \<Rightarrow>
     memory_module list \<times> capability_error_kind option" where
  "read_structures maximum limit [] modules failure = (modules, failure)"
| "read_structures maximum limit ((r, strings) # structures) modules failure =
     (if byte (r ! 0) = 127 then (modules, failure)
      else if byte (r ! 0) \<noteq> 17 then read_structures maximum limit structures modules failure
      else if length r < 0x15 then read_structures maximum limit structures modules (Some Invalid_Data)
      else if \<not> populated r then read_structures maximum limit structures modules failure
      else if length modules + 1 = limit then (modules @ [smbios_module maximum r strings], failure)
      else read_structures maximum limit structures (modules @ [smbios_module maximum r strings]) failure)"

lemma byte_zero: "byte c = 0 \<longleftrightarrow> c = nul"
  by (cases c) (auto simp: byte_def of_char_def split: if_splits)

lemma double_zero_skip: "c \<noteq> nul \<Longrightarrow> double_zero (c # t) = map_option Suc (double_zero t)"
  by (cases t) (simp_all add: byte_zero)

lemma double_zero_plain: "nul \<notin> set s \<Longrightarrow> double_zero (s @ t) = map_option ((+) (length s)) (double_zero t)"
proof (induction s)
  case Nil
  then show ?case by (cases "double_zero t") simp_all
next
  case (Cons c s)
  then show ?case by (cases "double_zero t") (simp_all add: double_zero_skip [OF not_sym])
qed

text \<open>The strings without their last two zeros.\<close>

fun joined :: "string list \<Rightarrow> string" where
  "joined [] = []"
| "joined [s] = s"
| "joined (s # ss) = s @ nul # joined ss"

lemma encode_joined: "encode_strings strings = joined strings @ [nul, nul]"
proof -
  have "strings \<noteq> [] \<Longrightarrow> concat (map (\<lambda>s. s @ [nul]) strings) = joined strings @ [nul]"
    by (induction strings rule: joined.induct) auto
  then show ?thesis by (auto simp: encode_strings_def)
qed

lemma double_zero_joined:
  "\<forall>s \<in> set strings. s \<noteq> [] \<and> nul \<notin> set s \<Longrightarrow>
     double_zero (joined strings @ nul # nul # rest) = Some (length (joined strings))"
proof (induction strings rule: joined.induct)
  case 1
  then show ?case by (simp add: byte_zero)
next
  case (2 s)
  then show ?case by (simp add: double_zero_plain byte_zero)
next
  case (3 s t ss)
  let ?t = "joined (t # ss) @ nul # nul # rest"
  have "\<exists>c u. joined (t # ss) = c # u \<and> c \<noteq> nul"
    using 3(2) by (cases t; cases ss) auto
  then obtain c u where t: "?t = c # u" "c \<noteq> nul" by (metis append_Cons)
  then have "double_zero (nul # ?t) = map_option Suc (double_zero ?t)" by (simp add: byte_zero)
  then show ?case using 3 by (simp add: double_zero_plain)
qed

lemma split_joined: "\<forall>s \<in> set strings. nul \<notin> set s \<Longrightarrow> strings \<noteq> [] \<Longrightarrow> split_on nul (joined strings) = strings"
  by (induction strings rule: joined.induct) (simp_all add: split_on_plain split_on_append)

lemma structure_read:
  assumes "well_formed_structure (r, strings)"
  shows "smbios_structure (encode_structure (r, strings) @ rest) = Some (r, if strings = [] then [[]] else strings, rest)"
proof -
  have wf: "4 \<le> length r" "byte (r ! 1) = length r" "\<forall>s \<in> set strings. s \<noteq> [] \<and> nul \<notin> set s"
    using assms by (auto simp: well_formed_structure_def)
  have first: "(encode_structure (r, strings) @ rest) ! 1 = r ! 1" using wf(1) by (simp add: encode_structure_def nth_append)
  have tail: "drop (length r) (encode_structure (r, strings) @ rest) = joined strings @ nul # nul # rest"
    by (simp add: encode_structure_def encode_joined)
  have strings: "split_on nul (joined strings) = (if strings = [] then [[]] else strings)"
    using split_joined wf(3) by auto
  show ?thesis
    using wf(1) unfolding smbios_structure_def Let_def first wf(2) tail double_zero_joined [OF wf(3)]
    by (simp add: strings encode_structure_def)
qed

lemma no_strings: "smbios_module maximum r [[]] = smbios_module maximum r []"
proof -
  have "\<not> blank_edge []" by (simp add: blank_edge_def whitespace_encodings_def starts_with_def)
  then have empty: "firmware_text maximum [] = None"
    by (simp add: firmware_text_def hardware_text_def trim_id strip_controls_def truncate_utf8_def)
  have "smbios_string maximum r [[]] = smbios_string maximum r []"
    by (rule ext) (auto simp: smbios_string_def Let_def empty nth_Cons')
  then show ?thesis by (simp add: smbios_module_def)
qed

lemma table_read:
  "\<forall>x \<in> set structures. well_formed_structure x \<Longrightarrow>
     smbios_loop maximum limit (encode_table structures) modules failure =
       read_structures maximum limit structures modules failure"
proof (induction structures arbitrary: modules failure)
  case Nil
  then show ?case by (simp add: encode_table_def smbios_loop.simps)
next
  case (Cons x structures)
  obtain r strings where x: "x = (r, strings)" by fastforce
  with Cons.prems have wf: "well_formed_structure (r, strings)" by simp
  have table: "encode_table ((r, strings) # structures) = encode_structure (r, strings) @ encode_table structures"
    by (simp add: encode_table_def x)
  have nonempty: "encode_structure (r, strings) @ encode_table structures \<noteq> []"
    by (simp add: encode_structure_def encode_joined)
  have module: "smbios_module maximum r (if strings = [] then [[]] else strings) = smbios_module maximum r strings"
    by (simp add: no_strings)
  have ih: "smbios_loop maximum limit (encode_table structures) ms f = read_structures maximum limit structures ms f" for ms f
    using Cons by simp
  show ?case
    unfolding x table
    by (subst smbios_loop.simps) (simp only: nonempty if_False structure_read [OF wf] option.case prod.case module ih
        read_structures.simps)
qed

end
