(* ===== verification/Windows_Maintenance.thy ===== *)
theory Windows_Maintenance
  imports Windows_Acl
begin

text \<open>
  The command line, the diagnostic record and the resource limits of the Windows maintenance
  program, from \<open>src/windows/maintenance/mod.rs\<close>. \<open>usize\<close> has 64 bits; an \<open>OsString\<close> is its
  bytes. The version of the package and the text of an \<open>anyhow\<close> error, cut into the pieces it
  is written in, are arguments. A vector is its list; whether the allocator grants the
  capacity is an argument.
\<close>

section \<open>Command line\<close>

definition windows_state_format_version :: string where
  "windows_state_format_version = ''1.0.0''"

definition validate_windows_state_marker_version :: "string \<Rightarrow> unit res" where
  "validate_windows_state_marker_version version =
     ensureR (version = windows_state_format_version)
       (Message ''state marker version is not a supported xsoc Windows state format'')"

record maintenance_invocation =
  mi_command :: string
  mi_program_executable :: string
  mi_diagnostics :: bool

definition maintenance_commands :: "string list" where
  "maintenance_commands =
     [''prepare-install'', ''apply-install'', ''rollback-install'', ''commit-install'', ''preflight-uninstall'',
      ''rollback-uninstall-preflight'', ''preserve-state'', ''rollback-uninstall'', ''commit-uninstall'',
      ''prepare-purge'', ''rollback-purge'', ''commit-purge'']"

definition is_maintenance_command :: "string \<Rightarrow> bool" where
  "is_maintenance_command command \<longleftrightarrow> command \<in> set maintenance_commands"

definition os_to_str :: "string \<Rightarrow> string option" where
  "os_to_str s = (if utf8_valid s then Some s else None)"

text \<open>The first argument and the others: \<open>Iterator::next\<close>.\<close>

definition next_argument :: "string list \<Rightarrow> string option \<times> string list" where
  "next_argument arguments = (case arguments of [] \<Rightarrow> (None, []) | a # rest \<Rightarrow> (Some a, rest))"

definition parse_maintenance_arguments :: "string list \<Rightarrow> maintenance_invocation res" where
  "parse_maintenance_arguments arguments =
     (let (first, arguments) = next_argument arguments in
      bindR (ok_or (Message ''expected one maintenance command'') first) (\<lambda>command.
      bindR (ok_or (Message ''maintenance command must be valid Unicode'') (os_to_str command)) (\<lambda>command.
      bindR (ensureR (is_maintenance_command command) (Message ''unknown maintenance command'')) (\<lambda>_.
      let (second, arguments) = next_argument arguments in
      bindR (ok_or (Message ''maintenance command requires the MSI-resolved program executable path'') second) (\<lambda>program.
      bindR (ok_or (Message ''maintenance program executable path must be valid Unicode'') (os_to_str program)) (\<lambda>program.
      bindR (ensureR (program \<noteq> []) (Message ''maintenance program executable path must not be empty'')) (\<lambda>_.
      let (third, arguments) = next_argument arguments in
      bindR (case third of None \<Rightarrow> Inr False
          | Some value \<Rightarrow> bindR (ensureR (os_to_str value = Some ''1'')
              (Message ''maintenance diagnostics flag must be the exact Unicode value 1'')) (\<lambda>_. Inr True)) (\<lambda>diagnostics.
      bindR (ensureR (fst (next_argument arguments) = None)
          (Message ''maintenance commands accept only the command and optional diagnostics flag'')) (\<lambda>_.
      Inr \<lparr>mi_command = command, mi_program_executable = program, mi_diagnostics = diagnostics\<rparr>)))))))))"

section \<open>Diagnostic record\<close>

record diagnostic_payload =
  dp_bytes :: string
  dp_max_bytes :: nat
  dp_truncated :: bool

definition diagnostic_payload_new :: "nat \<Rightarrow> diagnostic_payload" where
  "diagnostic_payload_new maximum = \<lparr>dp_bytes = [], dp_max_bytes = maximum, dp_truncated = False\<rparr>"

definition write_str :: "string \<Rightarrow> diagnostic_payload \<Rightarrow> diagnostic_payload" where
  "write_str v p =
     (let remaining = dp_max_bytes p - length (dp_bytes p) in
      if remaining = 0 then p\<lparr>dp_truncated := dp_truncated p \<or> v \<noteq> []\<rparr>
      else
        let accepted = floor_boundary v (min (length v) remaining) in
        p\<lparr>dp_bytes := dp_bytes p @ take accepted v, dp_truncated := dp_truncated p \<or> accepted \<noteq> length v\<rparr>)"

definition maintenance_diagnostic_max_bytes :: nat where
  "maintenance_diagnostic_max_bytes = 64 * 1024"

definition maintenance_diagnostic_format :: string where
  "maintenance_diagnostic_format = ''xsoc-maintenance-diagnostic-v1''"

abbreviation newline :: string where "newline \<equiv> [CHR 0x0A]"

record error_text =
  et_chain :: "string list"
  et_root_cause :: "string list"
  et_outer :: "string list"

definition diagnostic_head :: "string \<Rightarrow> string \<Rightarrow> string list" where
  "diagnostic_head version command =
     [''format='', maintenance_diagnostic_format, newline @ ''version='', version, newline @ ''command='', command,
      newline @ ''error-chain='']"

definition full_pieces :: "string \<Rightarrow> string \<Rightarrow> error_text \<Rightarrow> string list" where
  "full_pieces version command e = diagnostic_head version command @ et_chain e @ [newline]"

definition truncated_pieces :: "string \<Rightarrow> string \<Rightarrow> error_text \<Rightarrow> string list" where
  "truncated_pieces version command e =
     diagnostic_head version command @ [''[truncated]'' @ newline @ ''truncated=true'' @ newline @ ''leaf-cause=''] @
     et_root_cause e @ [newline @ ''outer-context=''] @ et_outer e"

definition maintenance_diagnostic_payload :: "string \<Rightarrow> string \<Rightarrow> error_text \<Rightarrow> string" where
  "maintenance_diagnostic_payload version command e =
     (let payload = fold write_str (full_pieces version command e) (diagnostic_payload_new maintenance_diagnostic_max_bytes) in
      if \<not> dp_truncated payload then dp_bytes payload
      else
        let payload = fold write_str (truncated_pieces version command e)
              (diagnostic_payload_new (maintenance_diagnostic_max_bytes - 1)) in
        dp_bytes payload @ newline)"

section \<open>Opened targets\<close>

definition checked_rollback_path_status :: "client_error + bool \<Rightarrow> bool res" where
  "checked_rollback_path_status status =
     (case status of Inl e \<Rightarrow> Inl (Context ''failed to inspect before rollback'' e) | Inr b \<Rightarrow> Inr b)"

record opened_managed_target_facts =
  ot_expected_directory :: bool
  ot_actual_directory :: bool
  ot_is_reparse_point :: bool
  ot_hard_link_count :: nat

definition validate_opened_managed_target_facts :: "opened_managed_target_facts \<Rightarrow> unit res" where
  "validate_opened_managed_target_facts facts =
     bindR (ensureR (\<not> ot_is_reparse_point facts) (Message ''managed target handle refers to a reparse point'')) (\<lambda>_.
     bindR (ensureR (ot_actual_directory facts = ot_expected_directory facts)
       (Message ''managed target changed type while it was being opened'')) (\<lambda>_.
     ensureR (ot_actual_directory facts \<or> ot_hard_link_count facts = 1)
       (Message ''managed target handle refers to a multiply linked file'')))"

definition max_open_mutation_directories :: nat where
  "max_open_mutation_directories = 256"

definition checked_child_directory_depth :: "nat \<Rightarrow> nat \<Rightarrow> nat res" where
  "checked_child_directory_depth parent_depth hard_limit =
     bindR (ok_or (Message ''managed directory depth overflowed'') (checked_add64 parent_depth 1)) (\<lambda>child_depth.
     bindR (ensureR (child_depth \<le> hard_limit) (Message ''managed directory depth exceeds the hard limit'')) (\<lambda>_.
     Inr child_depth))"

section \<open>Rename buffer\<close>

definition checked_mul64 :: "nat \<Rightarrow> nat \<Rightarrow> nat option" where
  "checked_mul64 a b = (if a * b < 2 ^ 64 then Some (a * b) else None)"

definition try_u32 :: "nat \<Rightarrow> nat option" where
  "try_u32 n = (if n < 2 ^ 32 then Some n else None)"

record rename_buffer_plan =
  rb_file_name_bytes :: nat
  rb_buffer_bytes :: nat
  rb_storage_words :: nat

definition checked_rename_buffer_plan :: "nat \<Rightarrow> nat \<Rightarrow> nat \<Rightarrow> nat \<Rightarrow> rename_buffer_plan res" where
  "checked_rename_buffer_plan file_name_utf16_units header_bytes storage_word_bytes hard_limit =
     bindR (ensureR (0 < file_name_utf16_units) (Message ''rename destination must not be empty'')) (\<lambda>_.
     bindR (ensureR (0 < storage_word_bytes) (Message ''rename buffer storage alignment must not be zero'')) (\<lambda>_.
     bindR (ok_or (Message ''rename destination UTF-16 byte count overflowed'') (checked_mul64 file_name_utf16_units 2)) (\<lambda>file_name_bytes.
     bindR (ok_or (Message ''rename information buffer size overflowed'')
       (Option.bind (checked_add64 header_bytes file_name_bytes) (\<lambda>bytes. checked_add64 bytes 2))) (\<lambda>buffer_bytes.
     bindR (ensureR (buffer_bytes \<le> hard_limit) (Message ''rename information exceeds the hard limit'')) (\<lambda>_.
     bindR (ok_or (Message ''rename information storage size overflowed'')
       (map_option (\<lambda>bytes. bytes div storage_word_bytes) (checked_add64 buffer_bytes (storage_word_bytes - 1)))) (\<lambda>storage_words.
     bindR (ok_or (Message ''rename destination byte count does not fit in a DWORD'') (try_u32 file_name_bytes)) (\<lambda>file_name_bytes.
     bindR (ok_or (Message ''rename information buffer size does not fit in a DWORD'') (try_u32 buffer_bytes)) (\<lambda>buffer_bytes.
     Inr \<lparr>rb_file_name_bytes = file_name_bytes, rb_buffer_bytes = buffer_bytes, rb_storage_words = storage_words\<rparr>))))))))"

definition checked_rename_storage_bytes :: "rename_buffer_plan \<Rightarrow> nat \<Rightarrow> nat \<Rightarrow> nat \<Rightarrow> nat res" where
  "checked_rename_storage_bytes plan storage_word_bytes rust_struct_bytes file_name_offset =
     bindR (ok_or (Message ''rename information allocation size overflowed'')
       (checked_mul64 (rb_storage_words plan) storage_word_bytes)) (\<lambda>allocated_bytes.
     let file_name_bytes = rb_file_name_bytes plan in
     bindR (ok_or (Message ''rename information populated size overflowed'')
       (Option.bind (checked_add64 file_name_offset file_name_bytes) (\<lambda>bytes. checked_add64 bytes 2))) (\<lambda>populated_bytes.
     bindR (ok_or (Message ''rename information populated size does not fit in a DWORD'') (try_u32 populated_bytes)) (\<lambda>dword.
     bindR (ensureR (dword = rb_buffer_bytes plan) (Message ''rename information plan is internally inconsistent'')) (\<lambda>_.
     bindR (ensureR (rust_struct_bytes \<le> allocated_bytes)
       (Message ''rename information allocation is smaller than FILE_RENAME_INFO'')) (\<lambda>_.
     bindR (ensureR (populated_bytes \<le> allocated_bytes)
       (Message ''rename information allocation is smaller than its flexible filename tail'')) (\<lambda>_.
     Inr allocated_bytes))))))"

section \<open>Bounded collections\<close>

definition max_maintenance_tree_nodes :: nat where "max_maintenance_tree_nodes = 16 * 1024"
definition max_acl_snapshot_entries :: nat where "max_acl_snapshot_entries = max_maintenance_tree_nodes"
definition max_acl_snapshot_bytes :: nat where "max_acl_snapshot_bytes = 16 * 1024 * 1024"
definition max_maintenance_path_bytes :: nat where "max_maintenance_path_bytes = 32 * 1024 * 1024"
definition maintenance_path_fixed_bytes :: nat where "maintenance_path_fixed_bytes = 64"
definition acl_snapshot_entry_fixed_bytes :: nat where "acl_snapshot_entry_fixed_bytes = 128"

definition checked_acl_snapshot_entry_payload :: "nat \<Rightarrow> nat \<Rightarrow> nat \<Rightarrow> nat \<Rightarrow> nat res" where
  "checked_acl_snapshot_entry_payload accounted_bytes relative_path_utf16_units sddl_bytes hard_limit =
     bindR (ok_or (Message ''ACL snapshot UTF-16 path byte count overflowed'') (checked_mul64 relative_path_utf16_units 2)) (\<lambda>path_bytes.
     bindR (ok_or (Message ''ACL snapshot entry payload byte count overflowed'')
       (Option.bind (checked_add64 acl_snapshot_entry_fixed_bytes path_bytes) (\<lambda>bytes. checked_add64 bytes sddl_bytes))) (\<lambda>entry_bytes.
     bindR (ok_or (Message ''ACL snapshot cumulative payload byte count overflowed'') (checked_add64 accounted_bytes entry_bytes)) (\<lambda>requested.
     bindR (ensureR (requested \<le> hard_limit) (Message ''ACL snapshot entry payload exceeds the cumulative hard limit'')) (\<lambda>_.
     Inr requested))))"

definition try_reserve_bounded :: "(nat \<Rightarrow> bool) \<Rightarrow> 'a list \<Rightarrow> nat \<Rightarrow> nat \<Rightarrow> unit res" where
  "try_reserve_bounded grants_capacity items additional hard_limit =
     bindR (ok_or (Message ''bounded maintenance collection length overflowed'') (checked_add64 (length items) additional)) (\<lambda>requested.
     bindR (ensureR (requested \<le> hard_limit) (Message ''the hard limit of entries was exceeded'')) (\<lambda>_.
     ensureR (grants_capacity requested) (Message ''failed to reserve memory within the hard limit'')))"

definition try_push_bounded_acl_snapshot_entry ::
  "(nat \<Rightarrow> bool) \<Rightarrow> 'a list \<Rightarrow> 'a \<Rightarrow> nat \<Rightarrow> nat \<Rightarrow> nat \<Rightarrow> nat \<Rightarrow> nat \<Rightarrow> ('a list \<times> nat) res" where
  "try_push_bounded_acl_snapshot_entry grants_capacity entries x relative_path_utf16_units sddl_bytes
     accounted_payload_bytes entry_limit payload_byte_limit =
     bindR (checked_acl_snapshot_entry_payload accounted_payload_bytes relative_path_utf16_units sddl_bytes payload_byte_limit) (\<lambda>requested.
     bindR (try_reserve_bounded grants_capacity entries 1 entry_limit) (\<lambda>_.
     Inr (entries @ [x], requested)))"

definition checked_maintenance_path_payload :: "nat \<Rightarrow> nat \<Rightarrow> nat \<Rightarrow> nat res" where
  "checked_maintenance_path_payload accounted_bytes path_utf16_units hard_limit =
     bindR (ok_or (Message ''maintenance UTF-16 path byte count overflowed'') (checked_mul64 path_utf16_units 2)) (\<lambda>path_bytes.
     bindR (ok_or (Message ''maintenance path payload byte count overflowed'')
       (checked_add64 maintenance_path_fixed_bytes path_bytes)) (\<lambda>entry_bytes.
     bindR (ok_or (Message ''maintenance cumulative path byte count overflowed'') (checked_add64 accounted_bytes entry_bytes)) (\<lambda>requested.
     bindR (ensureR (requested \<le> hard_limit) (Message ''the cumulative path hard limit was exceeded'')) (\<lambda>_.
     Inr requested))))"

definition try_push_bounded_path ::
  "(nat \<Rightarrow> bool) \<Rightarrow> 'a list \<Rightarrow> 'a \<Rightarrow> nat \<Rightarrow> nat \<Rightarrow> nat \<Rightarrow> nat \<Rightarrow> ('a list \<times> nat) res" where
  "try_push_bounded_path grants_capacity items x path_utf16_units accounted_path_bytes entry_limit path_byte_limit =
     bindR (checked_maintenance_path_payload accounted_path_bytes path_utf16_units path_byte_limit) (\<lambda>requested.
     bindR (try_reserve_bounded grants_capacity items 1 entry_limit) (\<lambda>_.
     Inr (items @ [x], requested)))"

definition record_bounded_tree_node :: "nat \<Rightarrow> nat \<Rightarrow> nat res" where
  "record_bounded_tree_node discovered hard_limit =
     bindR (ensureR (discovered < hard_limit) (Message ''the hard limit of nodes was exceeded'')) (\<lambda>_.
     Inr (discovered + 1))"

definition enqueue_bounded_tree_path ::
  "(nat \<Rightarrow> bool) \<Rightarrow> 'a list \<Rightarrow> nat \<Rightarrow> 'a \<Rightarrow> nat \<Rightarrow> nat \<Rightarrow> nat \<Rightarrow> nat \<Rightarrow> ('a list \<times> nat \<times> nat) res" where
  "enqueue_bounded_tree_path grants_capacity pending discovered node path_utf16_units accounted_path_bytes
     hard_limit path_byte_limit =
     bindR (ensureR (discovered < hard_limit) (Message ''the hard limit of nodes was exceeded'')) (\<lambda>_.
     bindR (try_push_bounded_path grants_capacity pending node path_utf16_units accounted_path_bytes hard_limit path_byte_limit)
       (\<lambda>(pending, accounted). Inr (pending, discovered + 1, accounted)))"

text \<open>
  \<open>read_file_bounded\<close>: the contents of the file, or the error of opening or reading it, are an
  argument; at most one byte more than the limit is read.
\<close>

definition read_file_bounded :: "client_error + string \<Rightarrow> nat \<Rightarrow> string res" where
  "read_file_bounded file maximum =
     bindR (ok_or (Message ''bounded file read limit overflowed'') (checked_add64 maximum 1)) (\<lambda>read_limit.
     bindR file (\<lambda>contents.
     let bytes = take read_limit contents in
     bindR (ensureR (length bytes \<le> maximum) (Message ''the file exceeds the hard limit'')) (\<lambda>_.
     Inr bytes)))"

end
