(* ===== verification/Windows_Maintenance_Correct.thy ===== *)
theory Windows_Maintenance_Correct
  imports Windows_Maintenance
begin

text \<open>
  The accepted command lines; the diagnostic record is complete or says that it is not, and is
  bounded; a planned rename buffer holds the structure and the name; the budgets of the
  bounded collections are exact.
\<close>

section \<open>Command line\<close>

lemma utf8_commands: "command \<in> set maintenance_commands \<Longrightarrow> utf8_valid command"
  by (auto simp: maintenance_commands_def intro!: utf8_valid_plain simp: plain_byte_def byte_def)

lemma os_to_str_Some: "os_to_str s = Some t \<longleftrightarrow> utf8_valid s \<and> t = s"
  by (auto simp: os_to_str_def)

lemma arguments_accepted:
  "parse_maintenance_arguments arguments = Inr invocation \<longleftrightarrow>
     mi_command invocation \<in> set maintenance_commands \<and>
     utf8_valid (mi_program_executable invocation) \<and> mi_program_executable invocation \<noteq> [] \<and>
     arguments = [mi_command invocation, mi_program_executable invocation] @ (if mi_diagnostics invocation then [''1''] else [])"
    (is "?accepts \<longleftrightarrow> ?form")
proof
  assume ?accepts
  then show ?form
    by (auto simp: parse_maintenance_arguments_def next_argument_def bindR_Inr_iff ensureR_def os_to_str_Some
        is_maintenance_command_def split: list.splits option.splits if_splits prod.splits)
next
  assume form: ?form
  have "utf8_valid ''1''" by (rule utf8_valid_plain) (simp add: plain_byte_def byte_def)
  with form utf8_commands show ?accepts
    by (cases invocation; cases "mi_diagnostics invocation")
      (auto simp: parse_maintenance_arguments_def next_argument_def ensureR_def os_to_str_def is_maintenance_command_def)
qed

section \<open>Diagnostic record\<close>

lemma write_str_max [simp]: "dp_max_bytes (write_str v p) = dp_max_bytes p"
  by (simp add: write_str_def Let_def)

lemma write_str_length:
  "length (dp_bytes p) \<le> dp_max_bytes p \<Longrightarrow> length (dp_bytes (write_str v p)) \<le> dp_max_bytes p"
proof -
  assume "length (dp_bytes p) \<le> dp_max_bytes p"
  moreover have "min (length v) (floor_boundary v (min (length v) (dp_max_bytes p - length (dp_bytes p))))
      \<le> dp_max_bytes p - length (dp_bytes p)"
    using floor_boundary_le [of v "min (length v) (dp_max_bytes p - length (dp_bytes p))"] by linarith
  ultimately show ?thesis
    unfolding write_str_def Let_def by (cases "dp_max_bytes p = length (dp_bytes p)") auto
qed

lemma floor_boundary_length: "floor_boundary s (length s) = length s"
  by (cases "length s") (simp_all add: is_char_boundary_def)

lemma write_str_fits:
  "length (dp_bytes p) + length v \<le> dp_max_bytes p \<Longrightarrow>
     dp_bytes (write_str v p) = dp_bytes p @ v \<and> dp_truncated (write_str v p) = dp_truncated p"
  by (auto simp: write_str_def Let_def min_def floor_boundary_length)

lemma write_str_overflows:
  assumes "dp_max_bytes p < length (dp_bytes p) + length v" "length (dp_bytes p) \<le> dp_max_bytes p"
  shows "dp_truncated (write_str v p)"
proof -
  let ?n = "min (length v) (dp_max_bytes p - length (dp_bytes p))"
  have "floor_boundary v ?n \<le> ?n" by (rule floor_boundary_le)
  moreover have "?n < length v" using assms by auto
  ultimately have "floor_boundary v ?n \<noteq> length v" by linarith
  with assms show ?thesis by (auto simp: write_str_def Let_def)
qed

lemma write_str_truncated: "dp_truncated p \<Longrightarrow> dp_truncated (write_str v p)"
  by (auto simp: write_str_def Let_def)

lemma write_truncated: "dp_truncated p \<Longrightarrow> dp_truncated (fold write_str vs p)"
  by (induction vs arbitrary: p) (auto simp: write_str_truncated)

lemma write_length:
  "length (dp_bytes p) \<le> dp_max_bytes p \<Longrightarrow> length (dp_bytes (fold write_str vs p)) \<le> dp_max_bytes p"
proof (induction vs arbitrary: p)
  case (Cons v vs)
  then show ?case using Cons.IH [of "write_str v p"] write_str_length [of p v] by simp
qed simp

lemma write_fits:
  "length (dp_bytes p) + length (concat vs) \<le> dp_max_bytes p \<Longrightarrow>
     dp_bytes (fold write_str vs p) = dp_bytes p @ concat vs \<and> dp_truncated (fold write_str vs p) = dp_truncated p"
proof (induction vs arbitrary: p)
  case (Cons v vs)
  with write_str_fits [of p v] show ?case by simp
qed simp

lemma write_overflows:
  "dp_max_bytes p < length (dp_bytes p) + length (concat vs) \<Longrightarrow> length (dp_bytes p) \<le> dp_max_bytes p \<Longrightarrow>
     dp_truncated (fold write_str vs p)"
proof (induction vs arbitrary: p)
  case (Cons v vs)
  show ?case
  proof (cases "length (dp_bytes p) + length v \<le> dp_max_bytes p")
    case True
    then show ?thesis using Cons write_str_fits [OF True] by simp
  next
    case False
    then have "dp_truncated (write_str v p)" using Cons.prems write_str_overflows by simp
    then show ?thesis by (simp add: write_truncated)
  qed
qed simp

lemma write_prefix: "\<exists>rest. dp_bytes (fold write_str vs p) = dp_bytes p @ rest"
proof (induction vs arbitrary: p)
  case (Cons v vs)
  moreover have "\<exists>rest. dp_bytes (write_str v p) = dp_bytes p @ rest" by (simp add: write_str_def Let_def)
  ultimately show ?case by (metis append_assoc fold_simps(2))
qed simp

lemma new_payload [simp]:
  "dp_bytes (diagnostic_payload_new n) = []" "dp_max_bytes (diagnostic_payload_new n) = n"
  "\<not> dp_truncated (diagnostic_payload_new n)"
  by (simp_all add: diagnostic_payload_new_def)

definition truncation_notice :: "string \<Rightarrow> string \<Rightarrow> string" where
  "truncation_notice version command =
     concat (diagnostic_head version command) @ ''[truncated]'' @ newline @ ''truncated=true'' @ newline"

lemma diagnostic_complete:
  assumes "length (concat (full_pieces version command e)) \<le> maintenance_diagnostic_max_bytes"
  shows "maintenance_diagnostic_payload version command e = concat (full_pieces version command e)"
  using write_fits [of "diagnostic_payload_new maintenance_diagnostic_max_bytes"] assms
  by (simp add: maintenance_diagnostic_payload_def Let_def)

lemma diagnostic_truncated:
  assumes "maintenance_diagnostic_max_bytes < length (concat (full_pieces version command e))"
  shows "maintenance_diagnostic_payload version command e =
    dp_bytes (fold write_str (truncated_pieces version command e)
      (diagnostic_payload_new (maintenance_diagnostic_max_bytes - 1))) @ newline"
  using write_overflows [of "diagnostic_payload_new maintenance_diagnostic_max_bytes"] assms
  by (simp add: maintenance_diagnostic_payload_def Let_def)

lemma diagnostic_bounded: "length (maintenance_diagnostic_payload version command e) \<le> maintenance_diagnostic_max_bytes"
proof (cases "length (concat (full_pieces version command e)) \<le> maintenance_diagnostic_max_bytes")
  case True
  then show ?thesis by (simp add: diagnostic_complete)
next
  case False
  have "length (dp_bytes (fold write_str (truncated_pieces version command e)
      (diagnostic_payload_new (maintenance_diagnostic_max_bytes - 1)))) \<le> maintenance_diagnostic_max_bytes - 1"
    using write_length [of "diagnostic_payload_new (maintenance_diagnostic_max_bytes - 1)"] by simp
  with False show ?thesis by (simp add: diagnostic_truncated maintenance_diagnostic_max_bytes_def)
qed

lemma diagnostic_keeps_cause:
  assumes "maintenance_diagnostic_max_bytes < length (concat (full_pieces version command e))"
    and "length (truncation_notice version command @ ''leaf-cause='' @ concat (et_root_cause e)) < maintenance_diagnostic_max_bytes"
  shows "\<exists>rest. maintenance_diagnostic_payload version command e =
    truncation_notice version command @ ''leaf-cause='' @ concat (et_root_cause e) @ rest @ newline"
proof -
  define p where "p = diagnostic_payload_new (maintenance_diagnostic_max_bytes - 1)"
  let ?head = "diagnostic_head version command @
    [''[truncated]'' @ newline @ ''truncated=true'' @ newline @ ''leaf-cause=''] @ et_root_cause e"
  let ?tail = "[newline @ ''outer-context=''] @ et_outer e"
  have head: "concat ?head = truncation_notice version command @ ''leaf-cause='' @ concat (et_root_cause e)"
    by (simp add: truncation_notice_def)
  have fits: "length (dp_bytes p) + length (concat ?head) \<le> dp_max_bytes p"
    unfolding head using assms(2) by (simp add: p_def)
  obtain rest where "dp_bytes (fold write_str ?tail (fold write_str ?head p)) = dp_bytes (fold write_str ?head p) @ rest"
    using write_prefix by blast
  moreover have "dp_bytes (fold write_str ?head p) = concat ?head" using write_fits [OF fits] by (simp add: p_def)
  moreover have "fold write_str (truncated_pieces version command e) p = fold write_str ?tail (fold write_str ?head p)"
    by (simp add: truncated_pieces_def)
  ultimately have "maintenance_diagnostic_payload version command e =
      ((truncation_notice version command @ ''leaf-cause='' @ concat (et_root_cause e)) @ rest) @ newline"
    using diagnostic_truncated [OF assms(1)] unfolding head p_def [symmetric] by (simp only:)
  then show ?thesis by (simp only: append_assoc) blast
qed

section \<open>Rename buffer\<close>

lemma checked_add64_iff [simp]: "checked_add64 a b = Some c \<longleftrightarrow> c = a + b \<and> a + b < 2 ^ 64"
  by (auto simp: checked_add64_def)

lemma checked_mul64_iff [simp]: "checked_mul64 a b = Some c \<longleftrightarrow> c = a * b \<and> a * b < 2 ^ 64"
  by (auto simp: checked_mul64_def)

lemma try_u32_iff [simp]: "try_u32 a = Some c \<longleftrightarrow> c = a \<and> a < 2 ^ 32"
  by (auto simp: try_u32_def)

lemma round_up_words:
  assumes "0 < (w::nat)"
  shows "n \<le> (n + (w - 1)) div w * w \<and> (n + (w - 1)) div w * w \<le> n + (w - 1)"
proof
  show "(n + (w - 1)) div w * w \<le> n + (w - 1)" by simp
  have "n + (w - 1) = (n + (w - 1)) div w * w + (n + (w - 1)) mod w" by simp
  moreover have "(n + (w - 1)) mod w \<le> w - 1" using assms mod_less_divisor [of w "n + (w - 1)"] by linarith
  ultimately show "n \<le> (n + (w - 1)) div w * w" by linarith
qed

lemma plan_values:
  assumes "checked_rename_buffer_plan units header word limit = Inr plan"
  shows "0 < units \<and> 0 < word \<and> rb_file_name_bytes plan = 2 * units \<and> rb_buffer_bytes plan = header + 2 * units + 2 \<and>
    rb_buffer_bytes plan \<le> limit \<and> rb_buffer_bytes plan < 2 ^ 32 \<and> rb_buffer_bytes plan + (word - 1) < 2 ^ 64 \<and>
    rb_storage_words plan = (rb_buffer_bytes plan + (word - 1)) div word"
  using assms
  by (auto simp: checked_rename_buffer_plan_def bindR_Inr_iff ensureR_def bind_eq_Some_conv split: if_splits)

lemma storage_bytes_iff:
  "checked_rename_storage_bytes plan word struct_bytes offset = Inr a \<longleftrightarrow>
     a = rb_storage_words plan * word \<and> a < 2 ^ 64 \<and> offset + rb_file_name_bytes plan + 2 < 2 ^ 32 \<and>
     offset + rb_file_name_bytes plan + 2 = rb_buffer_bytes plan \<and> struct_bytes \<le> a \<and>
     offset + rb_file_name_bytes plan + 2 \<le> a"
  by (auto simp: checked_rename_storage_bytes_def bindR_Inr_iff ensureR_def bind_eq_Some_conv split: if_splits)

lemma rename_plan_is_allocated:
  assumes plan: "checked_rename_buffer_plan units header word limit = Inr plan"
    and struct: "struct_bytes \<le> header + 4"
  shows "\<exists>allocated. checked_rename_storage_bytes plan word struct_bytes header = Inr allocated \<and>
    header + 2 * units + 2 \<le> allocated \<and> allocated < header + 2 * units + 2 + word"
proof -
  note v = plan_values [OF plan]
  let ?b = "header + 2 * units + 2"
  let ?a = "rb_storage_words plan * word"
  have b: "rb_buffer_bytes plan = ?b" "?b < 2 ^ 32" using v by auto
  have a: "?b \<le> ?a" "?a \<le> ?b + (word - 1)" using v round_up_words [of word ?b] b by auto
  have "?a < 2 ^ 64" using a(2) v unfolding b(1) by linarith
  have "struct_bytes \<le> ?a" using a(1) struct v by linarith
  with \<open>?a < 2 ^ 64\<close> v b a(1) have "checked_rename_storage_bytes plan word struct_bytes header = Inr ?a"
    by (simp only: storage_bytes_iff simp_thms)
  moreover have "?a < ?b + word" using a(2) v by linarith
  ultimately show ?thesis using a(1) by blast
qed

section \<open>Budgets\<close>

lemma acl_entry_pushed_iff:
  "try_push_bounded_acl_snapshot_entry grants_capacity entries x units sddl accounted limit payload_limit = Inr (entries', accounted') \<longleftrightarrow>
     entries' = entries @ [x] \<and> accounted' = accounted + (128 + units * 2 + sddl) \<and>
     length entries' \<le> limit \<and> accounted' \<le> payload_limit \<and> grants_capacity (length entries') \<and>
     length entries' < 2 ^ 64 \<and> accounted' < 2 ^ 64"
  by (auto simp: try_push_bounded_acl_snapshot_entry_def checked_acl_snapshot_entry_payload_def try_reserve_bounded_def
      bindR_Inr_iff ensureR_def bind_eq_Some_conv acl_snapshot_entry_fixed_bytes_def split: if_splits)

lemma path_pushed_iff:
  "try_push_bounded_path grants_capacity items x units accounted limit path_limit = Inr (items', accounted') \<longleftrightarrow>
     items' = items @ [x] \<and> accounted' = accounted + (64 + units * 2) \<and>
     length items' \<le> limit \<and> accounted' \<le> path_limit \<and> grants_capacity (length items') \<and>
     length items' < 2 ^ 64 \<and> accounted' < 2 ^ 64"
  by (auto simp: try_push_bounded_path_def checked_maintenance_path_payload_def try_reserve_bounded_def
      bindR_Inr_iff ensureR_def bind_eq_Some_conv maintenance_path_fixed_bytes_def split: if_splits)

lemma tree_path_enqueued_iff:
  "enqueue_bounded_tree_path grants_capacity pending discovered x units accounted limit path_limit = Inr (pending', discovered', accounted') \<longleftrightarrow>
     discovered < limit \<and> discovered' = discovered + 1 \<and>
     try_push_bounded_path grants_capacity pending x units accounted limit path_limit = Inr (pending', accounted')"
  by (auto simp: enqueue_bounded_tree_path_def bindR_Inr_iff ensureR_def split: if_splits)

lemma take_one_more: "length (take (m + 1) s) \<le> m \<longleftrightarrow> length s \<le> m"
  by auto

lemma file_read:
  assumes "maximum < 2 ^ 64 - 1"
  shows "read_file_bounded file maximum =
    bindR file (\<lambda>contents. if length contents \<le> maximum then Inr contents else Inl (Message ''the file exceeds the hard limit''))"
proof -
  have bound: "checked_add64 maximum 1 = Some (maximum + 1)" using assms by (simp only: checked_add64_iff) linarith
  have inner: "bindR (ensureR (length (take (maximum + 1) c) \<le> maximum) x) (\<lambda>_. Inr (take (maximum + 1) c)) =
      (if length c \<le> maximum then Inr c else Inl x)" for c x
    unfolding take_one_more by (simp add: ensureR_def)
  show ?thesis unfolding read_file_bounded_def Let_def bound ok_or.simps bindR.simps inner by (rule refl)
qed

end
