(* ===== verification/Windows_Restore.thy ===== *)
theory Windows_Restore
  imports Windows_Maintenance "HOL-Library.List_Lexorder" "HOL-Library.Multiset"
begin

text \<open>
  The plan that restores the descriptors of a managed tree,
  \<open>run_validated_acl_restore_plan\<close> of \<open>src/windows/maintenance/mod.rs\<close>: a path key is its list
  of UTF-16 units in the order of \<open>Vec<u16>\<close>; the callback that applies the descriptor of an
  entry changes a state and may fail. The specification below the code says which manifests
  are accepted and in which order their entries are applied.
\<close>

section \<open>The code\<close>

record acl_snapshot_path_fact =
  sp_path_key :: "16 word list"
  sp_depth :: nat
  sp_valid_relative_path :: bool
  sp_is_directory :: bool

record acl_current_path_fact =
  cp_path_key :: "16 word list"
  cp_is_directory :: bool
  cp_is_regular_file :: bool
  cp_is_reparse_point :: bool
  cp_hard_link_count :: "nat option"

text \<open>\<open>windows(2)\<close> with \<open>all\<close>.\<close>

fun all_pairs :: "('a \<Rightarrow> 'a \<Rightarrow> bool) \<Rightarrow> 'a list \<Rightarrow> bool" where
  "all_pairs P (x # y # xs) \<longleftrightarrow> P x y \<and> all_pairs P (y # xs)"
| "all_pairs P xs \<longleftrightarrow> True"

fun snapshot_indices :: "nat \<Rightarrow> acl_snapshot_path_fact list \<Rightarrow> nat list \<Rightarrow> nat list res" where
  "snapshot_indices index [] order = Inr order"
| "snapshot_indices index (e # es) order =
     bindR (ensureR (sp_valid_relative_path e) (Message ''ACL snapshot contains a non-relative managed path'')) (\<lambda>_.
     snapshot_indices (index + 1) es (order @ [index]))"

fun current_indices :: "nat \<Rightarrow> acl_current_path_fact list \<Rightarrow> nat list \<Rightarrow> nat list res" where
  "current_indices index [] order = Inr order"
| "current_indices index (e # es) order =
     bindR (ensureR (\<not> cp_is_reparse_point e) (Message ''current managed tree contains a reparse point'')) (\<lambda>_.
     bindR (ensureR (cp_is_directory e \<noteq> cp_is_regular_file e)
       (Message ''current managed tree contains a special filesystem object'')) (\<lambda>_.
     bindR (if cp_is_regular_file e
         then ensureR (cp_hard_link_count e = Some 1) (Message ''current managed tree contains a multiply linked file'')
         else Inr ()) (\<lambda>_.
     current_indices (index + 1) es (order @ [index]))))"

fun same_types :: "acl_snapshot_path_fact list \<Rightarrow> acl_current_path_fact list \<Rightarrow> (nat \<times> nat) list \<Rightarrow> unit res" where
  "same_types snapshot current [] = Inr ()"
| "same_types snapshot current ((i, j) # pairs) =
     bindR (ensureR (sp_is_directory (snapshot ! i) = cp_is_directory (current ! j)) (Message ''ACL snapshot target changed type''))
       (\<lambda>_. same_types snapshot current pairs)"

fun apply_all :: "(nat \<Rightarrow> ('s, client_error, unit) tx) \<Rightarrow> nat list \<Rightarrow> ('s, client_error, unit) tx" where
  "apply_all apply_one [] = returnT ()"
| "apply_all apply_one (i # order) = bindT (apply_one i) (\<lambda>_. apply_all apply_one order)"

definition plan_order ::
  "(nat \<Rightarrow> bool) \<Rightarrow> acl_snapshot_path_fact list \<Rightarrow> acl_current_path_fact list \<Rightarrow> nat list res" where
  "plan_order grants_capacity snapshot current =
     bindR (ensureR (snapshot \<noteq> []) (Message ''ACL snapshot is empty'')) (\<lambda>_.
     bindR (ensureR (length snapshot \<le> max_acl_snapshot_entries) (Message ''ACL snapshot exceeds the hard limit'')) (\<lambda>_.
     bindR (ensureR (length current \<le> max_maintenance_tree_nodes) (Message ''current managed tree exceeds the hard limit'')) (\<lambda>_.
     bindR (try_reserve_bounded grants_capacity ([] :: nat list) (length snapshot) max_acl_snapshot_entries) (\<lambda>_.
     bindR (snapshot_indices 0 snapshot []) (\<lambda>snapshot_order.
     let snapshot_order = sort_key (\<lambda>i. sp_path_key (snapshot ! i)) snapshot_order in
     bindR (ensureR (all_pairs (\<lambda>i j. sp_path_key (snapshot ! i) \<noteq> sp_path_key (snapshot ! j)) snapshot_order)
       (Message ''ACL snapshot contains a duplicate path'')) (\<lambda>_.
     bindR (ensureR (\<exists>i \<in> set snapshot_order. sp_path_key (snapshot ! i) = [])
       (Message ''ACL snapshot does not contain its managed root'')) (\<lambda>_.
     bindR (try_reserve_bounded grants_capacity ([] :: nat list) (length current) max_maintenance_tree_nodes) (\<lambda>_.
     bindR (current_indices 0 current []) (\<lambda>current_order.
     let current_order = sort_key (\<lambda>i. cp_path_key (current ! i)) current_order in
     bindR (ensureR (all_pairs (\<lambda>i j. cp_path_key (current ! i) \<noteq> cp_path_key (current ! j)) current_order)
       (Message ''current managed tree contains a duplicate path'')) (\<lambda>_.
     bindR (ensureR (length snapshot_order = length current_order \<and>
         list_all (\<lambda>(i, j). sp_path_key (snapshot ! i) = cp_path_key (current ! j)) (zip snapshot_order current_order))
       (Message ''ACL snapshot path set does not exactly match the current managed tree'')) (\<lambda>_.
     bindR (same_types snapshot current (zip snapshot_order current_order)) (\<lambda>_.
     Inr (sort_key (\<lambda>i. sp_depth (snapshot ! i)) snapshot_order)))))))))))))"

definition run_validated_acl_restore_plan ::
  "(nat \<Rightarrow> bool) \<Rightarrow> acl_snapshot_path_fact list \<Rightarrow> acl_current_path_fact list \<Rightarrow>
     (nat \<Rightarrow> ('s, client_error, unit) tx) \<Rightarrow> ('s, client_error, unit) tx" where
  "run_validated_acl_restore_plan grants_capacity snapshot current apply_one =
     bindT (liftR (plan_order grants_capacity snapshot current)) (apply_all apply_one)"

section \<open>Specification\<close>

text \<open>The manifests a restore may start from.\<close>

definition restorable :: "acl_snapshot_path_fact list \<Rightarrow> acl_current_path_fact list \<Rightarrow> bool" where
  "restorable snapshot current \<longleftrightarrow>
     length snapshot \<le> max_acl_snapshot_entries \<and>
     distinct (map sp_path_key snapshot) \<and> distinct (map cp_path_key current) \<and>
     [] \<in> set (map sp_path_key snapshot) \<and>
     list_all sp_valid_relative_path snapshot \<and>
     list_all (\<lambda>e. \<not> cp_is_reparse_point e \<and> cp_is_directory e \<noteq> cp_is_regular_file e \<and>
       (cp_is_regular_file e \<longrightarrow> cp_hard_link_count e = Some 1)) current \<and>
     set (map (\<lambda>e. (sp_path_key e, sp_is_directory e)) snapshot) = set (map (\<lambda>e. (cp_path_key e, cp_is_directory e)) current)"

text \<open>Parents first, and the entries of one depth in the order of their paths.\<close>

definition restore_order :: "acl_snapshot_path_fact list \<Rightarrow> nat list" where
  "restore_order snapshot =
     sort_key (\<lambda>i. sp_depth (snapshot ! i)) (sort_key (\<lambda>i. sp_path_key (snapshot ! i)) [0..<length snapshot])"

section \<open>The code meets it\<close>

lemma upt_step: "[k..<Suc (k + n)] = k # [Suc k..<Suc (k + n)]"
  by (simp add: upt_conv_Cons del: upt_Suc)

lemma snapshot_indices_result:
  "snapshot_indices k es order = Inr order' \<longleftrightarrow> list_all sp_valid_relative_path es \<and> order' = order @ [k..<k + length es]"
  by (induction es arbitrary: k order) (auto simp: ensureR_def upt_step simp del: upt_Suc)

lemma current_indices_result:
  "current_indices k es order = Inr order' \<longleftrightarrow>
     list_all (\<lambda>e. \<not> cp_is_reparse_point e \<and> cp_is_directory e \<noteq> cp_is_regular_file e \<and>
       (cp_is_regular_file e \<longrightarrow> cp_hard_link_count e = Some 1)) es \<and> order' = order @ [k..<k + length es]"
proof (induction es arbitrary: k order)
  case (Cons e es)
  then show ?case
    by (cases "cp_is_reparse_point e"; cases "cp_is_directory e"; cases "cp_is_regular_file e";
        cases "cp_hard_link_count e = Some 1") (auto simp: ensureR_def upt_step simp del: upt_Suc)
qed auto

lemma same_types_result:
  "same_types snapshot current pairs = Inr u \<longleftrightarrow>
     (\<forall>(i, j) \<in> set pairs. sp_is_directory (snapshot ! i) = cp_is_directory (current ! j))"
  by (induction snapshot current pairs rule: same_types.induct) (auto simp: ensureR_def)

lemma sorted_all_pairs:
  "sorted (map f xs) \<Longrightarrow> all_pairs (\<lambda>i j. f i \<noteq> f j) xs \<longleftrightarrow> distinct (map f xs)"
  by (induction "\<lambda>i j. f i \<noteq> f j" xs rule: all_pairs.induct) auto

lemma distinct_sort_key_map: "distinct (map f (sort_key f xs)) \<longleftrightarrow> distinct (map f xs)"
  by (metis distinct_map distinct_sort set_sort)

lemma map_nth_upt: "map (\<lambda>i. f (xs ! i)) [0..<length xs] = map f xs"
  by (rule nth_equalityI) simp_all


lemma set_map_nth: "set (map f xs) = (\<lambda>i. f (xs ! i)) ` {..<length xs}"
  by (subst map_nth_upt [symmetric]) (simp add: lessThan_atLeast0)

lemma map_sort_key: "map f (sort_key f xs) = sort (map f xs)"
  by (rule sym, rule properties_for_sort) simp_all

lemma keys_match:
  "length xs = length ys \<and> list_all (\<lambda>(i, j). f i = g j) (zip xs ys) \<longleftrightarrow> map f xs = map g ys"
proof (induction xs arbitrary: ys)
  case (Cons x xs)
  then show ?case by (cases ys) auto
qed auto

lemma types_match:
  assumes "map f xs = map g ys" "distinct (map f xs)"
  shows "(\<forall>(i, j) \<in> set (zip xs ys). p i = q j) \<longleftrightarrow> set (map (\<lambda>i. (f i, p i)) xs) = set (map (\<lambda>j. (g j, q j)) ys)"
    (is "?all \<longleftrightarrow> ?sets")
proof
  assume ?all
  with assms(1) have "map (\<lambda>i. (f i, p i)) xs = map (\<lambda>j. (g j, q j)) ys"
  proof (induction xs arbitrary: ys)
    case (Cons x xs)
    then show ?case by (cases ys) auto
  qed simp
  then show ?sets by (rule arg_cong)
next
  assume sets: ?sets
  show ?all
  proof clarify
    fix i j
    assume ij: "(i, j) \<in> set (zip xs ys)"
    then obtain n where n: "n < length xs" "n < length ys" "i = xs ! n" "j = ys ! n"
      by (auto simp: in_set_zip)
    have keys: "f i = g j" using assms(1) n by (metis nth_map)
    have "(g j, q j) \<in> set (map (\<lambda>i. (f i, p i)) xs)" using sets n by auto
    then obtain i' where i': "i' \<in> set xs" "f i' = g j" "p i' = q j" by auto
    have "i' = i" using i' keys n assms(2) by (metis distinct_map inj_on_eq_iff nth_mem)
    with i' show "p i = q j" by simp
  qed
qed


text \<open>The order of the plan, and when there is one.\<close>

definition capacity_granted :: "(nat \<Rightarrow> bool) \<Rightarrow> 'a list \<Rightarrow> bool" where
  "capacity_granted grants_capacity snapshot \<longleftrightarrow> grants_capacity (length snapshot)"

lemma reserve_from_empty:
  "n \<le> limit \<Longrightarrow> limit < 2 ^ 64 \<Longrightarrow> try_reserve_bounded grants_capacity [] n limit = Inr u \<longleftrightarrow> grants_capacity n"
  by (auto simp: try_reserve_bounded_def checked_add64_def ensureR_def)

lemma keys_of_pairs:
  assumes "set (map (\<lambda>e. (k e, d e)) es) = set (map (\<lambda>e. (k' e, d' e)) es')"
  shows "set (map k es) = set (map k' es')"
  using arg_cong [OF assms, of "image fst"] by (simp add: image_image)

lemma plan_steps_iff:
  "bindR (snapshot_indices 0 es []) k1 = Inr y \<longleftrightarrow> list_all sp_valid_relative_path es \<and> k1 [0..<length es] = Inr y"
  "bindR (current_indices 0 cs []) k2 = Inr y \<longleftrightarrow>
     list_all (\<lambda>e. \<not> cp_is_reparse_point e \<and> cp_is_directory e \<noteq> cp_is_regular_file e \<and>
       (cp_is_regular_file e \<longrightarrow> cp_hard_link_count e = Some 1)) cs \<and> k2 [0..<length cs] = Inr y"
  "bindR (same_types snapshot current pairs) k3 = Inr y \<longleftrightarrow>
     (\<forall>(i, j) \<in> set pairs. sp_is_directory (snapshot ! i) = cp_is_directory (current ! j)) \<and> k3 () = Inr y"
  by (simp_all add: bindR_Inr_iff snapshot_indices_result current_indices_result same_types_result)

lemma reserve_steps_iff:
  "n \<le> max_acl_snapshot_entries \<Longrightarrow>
     bindR (try_reserve_bounded grants_capacity [] n max_acl_snapshot_entries) k = Inr y \<longleftrightarrow> grants_capacity n \<and> k () = Inr y"
  "n \<le> max_maintenance_tree_nodes \<Longrightarrow>
     bindR (try_reserve_bounded grants_capacity [] n max_maintenance_tree_nodes) k = Inr y \<longleftrightarrow> grants_capacity n \<and> k () = Inr y"
  by (simp_all add: bindR_Inr_iff reserve_from_empty max_acl_snapshot_entries_def max_maintenance_tree_nodes_def)

lemma conjunct_order:
  assumes "d1 \<Longrightarrow> d2 \<Longrightarrow> (m \<and> t) = same" "m \<Longrightarrow> l2 = l1 \<and> g2 = g1" "r \<Longrightarrow> a"
  shows "(a \<and> l1 \<and> l2 \<and> g1 \<and> v \<and> d1 \<and> r \<and> g2 \<and> c \<and> d2 \<and> m \<and> t \<and> ord) =
    ((l1 \<and> d1 \<and> d2 \<and> r \<and> v \<and> c \<and> same) \<and> g1 \<and> ord)"
  using assms by blast

lemma plan_order_result:
  "plan_order grants_capacity snapshot current = Inr order \<longleftrightarrow>
     restorable snapshot current \<and> capacity_granted grants_capacity snapshot \<and> order = restore_order snapshot"
proof -
  define sk where "sk = (\<lambda>i. sp_path_key (snapshot ! i))"
  define ck where "ck = (\<lambda>j. cp_path_key (current ! j))"
  define so where "so = sort_key sk [0..<length snapshot]"
  define co where "co = sort_key ck [0..<length current]"
  have keys: "map sk so = sort (map sp_path_key snapshot)" "map ck co = sort (map cp_path_key current)"
    by (simp_all add: so_def co_def sk_def ck_def map_sort_key map_nth_upt)
  have pairs: "all_pairs (\<lambda>i j. sk i \<noteq> sk j) so \<longleftrightarrow> distinct (map sp_path_key snapshot)"
      "all_pairs (\<lambda>i j. ck i \<noteq> ck j) co \<longleftrightarrow> distinct (map cp_path_key current)"
    by (subst sorted_all_pairs; simp add: keys)+
  have lens: "length so = length snapshot" "length co = length current" by (simp_all add: so_def co_def)
  have sets: "set so = {..<length snapshot}" "set co = {..<length current}"
    by (auto simp: so_def co_def)
  have root: "(\<exists>i \<in> set so. sk i = []) \<longleftrightarrow> [] \<in> set (map sp_path_key snapshot)"
    unfolding sets sk_def set_map_nth by (simp only: image_iff eq_commute)
  have snap_pairs: "set (map (\<lambda>i. (sk i, sp_is_directory (snapshot ! i))) so) = set (map (\<lambda>e. (sp_path_key e, sp_is_directory e)) snapshot)"
    unfolding set_map_nth [of _ snapshot] by (simp add: sets sk_def)
  have cur_pairs: "set (map (\<lambda>i. (ck i, cp_is_directory (current ! i))) co) = set (map (\<lambda>e. (cp_path_key e, cp_is_directory e)) current)"
    unfolding set_map_nth [of _ current] by (simp add: sets ck_def)
  have keys_equal: "map sk so = map ck co"
    if sets_equal: "set (map (\<lambda>e. (sp_path_key e, sp_is_directory e)) snapshot) = set (map (\<lambda>e. (cp_path_key e, cp_is_directory e)) current)"
      and "distinct (map sp_path_key snapshot)" "distinct (map cp_path_key current)"
  proof -
    from sets_equal have "set (map sp_path_key snapshot) = set (map cp_path_key current)"
      by (rule keys_of_pairs)
    with that(2,3) show ?thesis
      unfolding keys by (intro sorted_distinct_set_unique) simp_all
  qed
  have order: "sort_key (\<lambda>i. sp_depth (snapshot ! i)) so = restore_order snapshot"
    by (simp add: so_def sk_def restore_order_def)
  have code: "plan_order grants_capacity snapshot current = Inr order \<longleftrightarrow>
      snapshot \<noteq> [] \<and> length snapshot \<le> max_acl_snapshot_entries \<and> length current \<le> max_maintenance_tree_nodes \<and>
      grants_capacity (length snapshot) \<and> list_all sp_valid_relative_path snapshot \<and>
      all_pairs (\<lambda>i j. sk i \<noteq> sk j) so \<and> (\<exists>i \<in> set so. sk i = []) \<and> grants_capacity (length current) \<and>
      list_all (\<lambda>e. \<not> cp_is_reparse_point e \<and> cp_is_directory e \<noteq> cp_is_regular_file e \<and>
        (cp_is_regular_file e \<longrightarrow> cp_hard_link_count e = Some 1)) current \<and>
      all_pairs (\<lambda>i j. ck i \<noteq> ck j) co \<and> map sk so = map ck co \<and>
      (\<forall>(i, j) \<in> set (zip so co). sp_is_directory (snapshot ! i) = cp_is_directory (current ! j)) \<and>
      order = restore_order snapshot" (is "_ \<longleftrightarrow> ?code")
    unfolding plan_order_def Let_def
    by (simp only: bindR_ensureR_iff plan_steps_iff reserve_steps_iff sum.inject keys_match so_def [symmetric]
        co_def [symmetric] sk_def [symmetric, THEN fun_cong] ck_def [symmetric, THEN fun_cong] order
        eq_commute [of "restore_order snapshot" order] cong: conj_cong)
  have nonempty: "[] \<in> set (map sp_path_key snapshot) \<Longrightarrow> snapshot \<noteq> []" by auto
  have sizes: "map sk so = map ck co \<Longrightarrow>
      (length current \<le> max_maintenance_tree_nodes) = (length snapshot \<le> max_acl_snapshot_entries) \<and>
      grants_capacity (length current) = grants_capacity (length snapshot)"
    using lens by (metis length_map max_acl_snapshot_entries_def)
  note types = types_match [of sk so ck co "\<lambda>i. sp_is_directory (snapshot ! i)" "\<lambda>j. cp_is_directory (current ! j)",
      unfolded snap_pairs cur_pairs]
  have matched: "map sk so = map ck co \<and>
        (\<forall>(i, j) \<in> set (zip so co). sp_is_directory (snapshot ! i) = cp_is_directory (current ! j)) \<longleftrightarrow>
      set (map (\<lambda>e. (sp_path_key e, sp_is_directory e)) snapshot) = set (map (\<lambda>e. (cp_path_key e, cp_is_directory e)) current)"
    if "distinct (map sp_path_key snapshot)" "distinct (map cp_path_key current)"
  proof -
    have "distinct (map sk so)" using that(1) by (simp only: keys distinct_sort)
    then show ?thesis using types keys_equal [OF _ that] by blast
  qed
  show ?thesis
    unfolding code pairs root restorable_def capacity_granted_def
    by (rule conjunct_order [OF matched sizes nonempty])
qed


lemma restore_meets_specification:
  "\<exists>error. run_validated_acl_restore_plan grants_capacity snapshot current apply_one s =
     (if restorable snapshot current \<and> capacity_granted grants_capacity snapshot
      then apply_all apply_one (restore_order snapshot) s else (Inl error, s))"
proof (cases "plan_order grants_capacity snapshot current")
  case (Inl error)
  then have "\<not> (restorable snapshot current \<and> capacity_granted grants_capacity snapshot)"
    using plan_order_result [of grants_capacity snapshot current "restore_order snapshot"] by simp
  with Inl show ?thesis
    by (intro exI [of _ error]) (simp only: run_validated_acl_restore_plan_def bindT_simps if_False)
next
  case (Inr order)
  with plan_order_result [of grants_capacity snapshot current order] show ?thesis
    by (simp add: run_validated_acl_restore_plan_def bindT_simps)
qed

lemma restore_order_complete:
  "mset (restore_order snapshot) = mset [0..<length snapshot] \<and>
   sorted (map (\<lambda>i. sp_depth (snapshot ! i)) (restore_order snapshot))"
  by (simp add: restore_order_def)

text \<open>What the callback is given: a prefix of the order, all of it when it succeeds.\<close>

definition recording :: "(nat \<Rightarrow> ('s, client_error, unit) tx) \<Rightarrow> nat \<Rightarrow> (nat list \<times> 's, client_error, unit) tx" where
  "recording apply_one i = (\<lambda>(seen, s). case apply_one i s of (r, s) \<Rightarrow> (r, (seen @ [i], s)))"

lemma apply_all_recorded:
  "apply_all (recording apply_one) order (seen, s) = (r, (seen', s')) \<Longrightarrow>
     apply_all apply_one order s = (r, s') \<and> (\<exists>n. seen' = seen @ take n order) \<and> (r = Inr () \<longrightarrow> seen' = seen @ order)"
proof (induction order arbitrary: seen s)
  case (Cons i js)
  obtain s1 r1 where step: "apply_one i s = (r1, s1)" by fastforce
  then have recorded: "recording apply_one i (seen, s) = (r1, (seen @ [i], s1))" by (simp add: recording_def)
  show ?case
  proof (cases r1)
    case (Inl e)
    with Cons.prems recorded have "seen' = seen @ take 1 (i # js)" "s' = s1" "r = Inl e"
      by (simp_all add: bindT_apply)
    with Inl step show ?thesis by (intro conjI exI [of _ 1]) (simp_all add: bindT_apply)
  next
    case (Inr u)
    with Cons.prems recorded have "apply_all (recording apply_one) js (seen @ [i], s1) = (r, (seen', s'))"
      by (simp add: bindT_apply)
    note ih = Cons.IH [OF this]
    then obtain n where "seen' = (seen @ [i]) @ take n js" by blast
    then have "seen' = seen @ take (Suc n) (i # js)" by simp
    with ih Inr step show ?thesis by (intro conjI exI [of _ "Suc n"]) (simp_all add: bindT_apply)
  qed
qed (auto simp: returnT_apply)

end
