(* ===== verification/Windows_Paths.thy ===== *)
theory Windows_Paths
  imports Windows_Maintenance "HOL-Library.Word"
begin

text \<open>
  The operations of \<open>std::path\<close> and \<open>OsStr\<close> that the Windows maintenance program uses, on the
  UTF-16 text of a path. Both slashes separate; a prefix is a drive letter with its colon or a
  share \<open>\\server\share\<close>. The verbatim prefixes \<open>\\?\<close> and \<open>\\.\<close> are not told from a share.
  An \<open>OsStr\<close> is its UTF-16 units, a \<open>str\<close> its UTF-8 bytes.
\<close>

section \<open>Text\<close>

type_synonym wide = "16 word list"

definition wide :: "string \<Rightarrow> wide" where
  "wide s = map (\<lambda>c. of_nat (byte c)) s"

definition utf8_encode :: "nat \<Rightarrow> string" where
  "utf8_encode n = map char_of
     (if n < 0x80 then [n]
      else if n < 0x800 then [0xC0 + n div 0x40, 0x80 + n mod 0x40]
      else if n < 0x10000 then [0xE0 + n div 0x1000, 0x80 + n div 0x40 mod 0x40, 0x80 + n mod 0x40]
      else [0xF0 + n div 0x40000, 0x80 + n div 0x1000 mod 0x40, 0x80 + n div 0x40 mod 0x40, 0x80 + n mod 0x40])"

definition high_surrogate :: "16 word \<Rightarrow> bool" where
  "high_surrogate u \<longleftrightarrow> 0xD800 \<le> u \<and> u < 0xDC00"

definition low_surrogate :: "16 word \<Rightarrow> bool" where
  "low_surrogate u \<longleftrightarrow> 0xDC00 \<le> u \<and> u < 0xE000"

definition surrogate_pair :: "16 word \<Rightarrow> 16 word \<Rightarrow> nat" where
  "surrogate_pair u v = 0x10000 + (unat u - 0xD800) * 0x400 + (unat v - 0xDC00)"

text \<open>The characters of UTF-16 text; \<open>None\<close> is a surrogate that stands alone.\<close>

fun wide_chars :: "wide \<Rightarrow> nat option list" where
  "wide_chars [] = []"
| "wide_chars [u] = [if high_surrogate u \<or> low_surrogate u then None else Some (unat u)]"
| "wide_chars (u # v # us) =
     (if high_surrogate u \<and> low_surrogate v then Some (surrogate_pair u v) # wide_chars us
      else (if high_surrogate u \<or> low_surrogate u then None else Some (unat u)) # wide_chars (v # us))"

text \<open>\<open>OsStr::to_str\<close> and \<open>String::from_utf16\<close>; \<open>to_string_lossy\<close>.\<close>

definition wide_to_str :: "wide \<Rightarrow> string option" where
  "wide_to_str p =
     (if None \<in> set (wide_chars p) then None else Some (concat (map (\<lambda>c. utf8_encode (the c)) (wide_chars p))))"

definition wide_lossy :: "wide \<Rightarrow> string" where
  "wide_lossy p = concat (map (\<lambda>c. utf8_encode (case c of None \<Rightarrow> 0xFFFD | Some n \<Rightarrow> n)) (wide_chars p))"

text \<open>The UTF-16 text of UTF-8 bytes.\<close>

definition utf16_units :: "nat \<Rightarrow> wide" where
  "utf16_units n =
     (if n < 0x10000 then [of_nat n]
      else [of_nat (0xD800 + (n - 0x10000) div 0x400), of_nat (0xDC00 + (n - 0x10000) mod 0x400)])"

fun utf8_chars :: "nat list \<Rightarrow> nat list" where
  "utf8_chars (a # s) =
     (if a < 0x80 then a # utf8_chars s
      else if a < 0xE0 then (case s of b # s \<Rightarrow> ((a - 0xC0) * 0x40 + (b - 0x80)) # utf8_chars s | _ \<Rightarrow> [])
      else if a < 0xF0 then
        (case s of b # c # s \<Rightarrow> ((a - 0xE0) * 0x1000 + (b - 0x80) * 0x40 + (c - 0x80)) # utf8_chars s | _ \<Rightarrow> [])
      else
        (case s of
           b # c # d # s \<Rightarrow> ((a - 0xF0) * 0x40000 + (b - 0x80) * 0x1000 + (c - 0x80) * 0x40 + (d - 0x80)) # utf8_chars s
         | _ \<Rightarrow> []))"
| "utf8_chars [] = []"

definition wide_of :: "string \<Rightarrow> wide" where
  "wide_of s = concat (map utf16_units (utf8_chars (map byte s)))"

definition wide_lower :: "16 word \<Rightarrow> 16 word" where
  "wide_lower u = (if 0x41 \<le> u \<and> u \<le> 0x5A then u + 0x20 else u)"

definition wide_eq_ignore_ascii_case :: "wide \<Rightarrow> wide \<Rightarrow> bool" where
  "wide_eq_ignore_ascii_case p q \<longleftrightarrow> map wide_lower p = map wide_lower q"

section \<open>The parts of a path\<close>

definition sep_unit :: "16 word" where "sep_unit = 0x5C"
definition dot_unit :: "16 word" where "dot_unit = 0x2E"
definition colon_unit :: "16 word" where "colon_unit = 0x3A"

definition is_separator :: "16 word \<Rightarrow> bool" where
  "is_separator u \<longleftrightarrow> u = sep_unit \<or> u = 0x2F"

definition is_letter :: "16 word \<Rightarrow> bool" where
  "is_letter u \<longleftrightarrow> 0x41 \<le> u \<and> u \<le> 0x5A \<or> 0x61 \<le> u \<and> u \<le> 0x7A"

definition has_drive :: "wide \<Rightarrow> bool" where
  "has_drive p \<longleftrightarrow> (case p of a # b # _ \<Rightarrow> is_letter a \<and> b = colon_unit | _ \<Rightarrow> False)"

definition starts_with_separator :: "wide \<Rightarrow> bool" where
  "starts_with_separator p \<longleftrightarrow> p \<noteq> [] \<and> is_separator (hd p)"

definition is_share :: "wide \<Rightarrow> bool" where
  "is_share p \<longleftrightarrow> starts_with_separator p \<and> starts_with_separator (tl p)"

definition until_separator :: "wide \<Rightarrow> wide" where
  "until_separator p = takeWhile (\<lambda>u. \<not> is_separator u) p"

definition prefix_units :: "wide \<Rightarrow> nat" where
  "prefix_units p =
     (if has_drive p then 2
      else if is_share p then
        (let server = until_separator (drop 2 p); share = until_separator (drop (3 + length server) p) in
         min (length p) (3 + length server + length share))
      else 0)"

definition path_prefix :: "wide \<Rightarrow> wide" where
  "path_prefix p = (if has_drive p then map wide_lower (take 2 p) else take (prefix_units p) p)"

definition has_root :: "wide \<Rightarrow> bool" where
  "has_root p \<longleftrightarrow> starts_with_separator (drop (prefix_units p) p) \<or> \<not> has_drive p \<and> is_share p"

text \<open>An absolute path has a drive and a root, or is a share.\<close>

definition wide_is_absolute :: "wide \<Rightarrow> bool" where
  "wide_is_absolute p \<longleftrightarrow> has_root p \<and> 0 < prefix_units p"

definition head_units :: "wide \<Rightarrow> nat" where
  "head_units p = prefix_units p + (if starts_with_separator (drop (prefix_units p) p) then 1 else 0)"

definition path_body :: "wide \<Rightarrow> wide" where
  "path_body p = drop (head_units p) p"

fun wide_split :: "wide \<Rightarrow> wide list" where
  "wide_split [] = [[]]"
| "wide_split (u # us) =
     (if is_separator u then [] # wide_split us
      else (case wide_split us of [] \<Rightarrow> [[u]] | p # ps \<Rightarrow> (u # p) # ps))"

definition names_of :: "wide \<Rightarrow> wide list" where
  "names_of body = filter (\<lambda>n. n \<noteq> [] \<and> n \<noteq> [dot_unit]) (wide_split body)"

definition leading_dot :: "wide \<Rightarrow> bool" where
  "leading_dot p \<longleftrightarrow> prefix_units p = 0 \<and> \<not> has_root p \<and> hd (wide_split p) = [dot_unit]"

definition component_count :: "wide \<Rightarrow> nat" where
  "component_count p =
     (if 0 < prefix_units p then 1 else 0) + (if has_root p then 1 else 0) + (if leading_dot p then 1 else 0) +
     length (names_of (path_body p))"

definition all_normal :: "wide \<Rightarrow> bool" where
  "all_normal p \<longleftrightarrow>
     prefix_units p = 0 \<and> \<not> has_root p \<and> \<not> leading_dot p \<and> [dot_unit, dot_unit] \<notin> set (names_of (path_body p))"

definition path_eq :: "wide \<Rightarrow> wide \<Rightarrow> bool" where
  "path_eq p q \<longleftrightarrow>
     path_prefix p = path_prefix q \<and> has_root p = has_root q \<and> leading_dot p = leading_dot q \<and>
     names_of (path_body p) = names_of (path_body q)"

section \<open>Operations\<close>

definition path_join :: "wide \<Rightarrow> wide \<Rightarrow> wide" where
  "path_join p r =
     (if wide_is_absolute r \<or> 0 < prefix_units r then r
      else if has_root r then take (prefix_units p) p @ r
      else if p = [] \<or> is_separator (last p) \<or> (has_drive p \<and> length p = 2) then p @ r
      else p @ [sep_unit] @ r)"

text \<open>Separators and dots around the components: they belong to none.\<close>

fun skip_left :: "wide \<Rightarrow> wide" where
  "skip_left [] = []"
| "skip_left (u # us) =
     (if is_separator u \<or> u = dot_unit \<and> (us = [] \<or> is_separator (hd us)) then skip_left us else u # us)"

definition skip_right :: "wide \<Rightarrow> wide" where
  "skip_right p = rev (skip_left (rev p))"

definition last_name :: "wide \<Rightarrow> wide" where
  "last_name body = rev (until_separator (rev (skip_right body)))"

definition wide_file_name :: "wide \<Rightarrow> wide option" where
  "wide_file_name p =
     (let n = last_name (path_body p) in
      if n = [] \<or> n = [dot_unit, dot_unit] then None else Some n)"

definition wide_parent :: "wide \<Rightarrow> wide option" where
  "wide_parent p =
     (let body = skip_right (path_body p); n = last_name body in
      if n = [] then None
      else Some (take (head_units p) p @ skip_right (take (length body - length n) body)))"

definition with_extension :: "wide \<Rightarrow> wide \<Rightarrow> wide" where
  "with_extension p extension =
     (case wide_file_name p of
        None \<Rightarrow> p
      | Some n \<Rightarrow>
          (let body = skip_right (path_body p); stem = rev (tl (dropWhile (\<lambda>u. u \<noteq> dot_unit) (rev n))) in
           take (head_units p) p @ take (length body - length n) body @
             (if stem = [] then n else stem) @ (if extension = [] then [] else [dot_unit] @ extension)))"

definition skip_name :: "wide \<Rightarrow> wide" where
  "skip_name body = dropWhile (\<lambda>u. \<not> is_separator u) (skip_left body)"

definition path_strip :: "wide \<Rightarrow> wide \<Rightarrow> wide option" where
  "path_strip root p =
     (let names = names_of (path_body root) in
      if path_prefix p = path_prefix root \<and> has_root p = has_root root \<and> leading_dot p = leading_dot root \<and>
         take (length names) (names_of (path_body p)) = names
      then Some (skip_right (skip_left ((skip_name ^^ length names) (path_body p))))
      else None)"

end
