(* ===== verification/Windows_Calls.thy ===== *)
theory Windows_Calls
  imports Windows_Paths
begin

text \<open>
  What the Windows maintenance program calls, and the data it keeps: the fixed paths and the
  journal records of \<open>src/windows/maintenance/mod.rs\<close>. The file system, the service manager, the
  descriptors and the clock are a state; the calls of \<open>std::fs\<close> and of the SDK read and change
  it, and are the record \<open>maint_ops\<close>. A handle that pins an object is that object's path. The
  JSON of the journals (\<open>serde_json\<close>), the log directory and the service SID (\<open>xcsc\<close>) are
  arguments of the same record. Only the calls and the passing of time change the state.
\<close>

section \<open>Data\<close>

text \<open>The attributes of an object; a link is a reparse point that stands for another name.\<close>

record file_attributes =
  fa_directory :: bool
  fa_reparse :: bool
  fa_link :: bool

definition is_dir :: "file_attributes \<Rightarrow> bool" where
  "is_dir m \<longleftrightarrow> fa_directory m \<and> \<not> fa_link m"

definition is_file :: "file_attributes \<Rightarrow> bool" where
  "is_file m \<longleftrightarrow> \<not> fa_directory m \<and> \<not> fa_link m"

text \<open>\<open>BY_HANDLE_FILE_INFORMATION\<close> of an opened object.\<close>

record opened_facts =
  of_directory :: bool
  of_reparse :: bool
  of_links :: nat

text \<open>A descriptor the SDK has parsed: whether it has an owner and a DACL, and its text.\<close>

record parsed_descriptor =
  pd_owner :: bool
  pd_dacl :: bool
  pd_text :: "io_error + wide option"

text \<open>The buffer of \<open>QueryServiceConfigW\<close>: its address, its units, and the header in front.\<close>

record service_config =
  sc_base :: nat
  sc_units :: wide
  sc_type :: "32 word"
  sc_start :: "32 word"
  sc_path :: nat
  sc_account :: nat

record install_snapshot =
  is_format :: "32 word"
  is_application_version :: string
  is_program_existed :: bool
  is_state_existed :: bool
  is_service_sid_type :: "32 word option"
  is_failure_actions :: "bool option"
  is_service_running :: bool
  is_state_acl_saved :: bool

record uninstall_snapshot =
  us_format :: "32 word"
  us_application_version :: string
  us_state_acl_saved :: bool
  us_service_was_running :: bool

record acl_snapshot_entry =
  ae_relative_path :: wide
  ae_is_directory :: bool
  ae_sddl :: string

record acl_snapshot =
  as_format :: "32 word"
  as_application_version :: string
  as_entries :: "acl_snapshot_entry list"

section \<open>Calls\<close>

text \<open>
  Inspection and enumeration; opened objects; creation, removal and renaming; descriptors; runtime
  logs; the service manager (its size queries return whether they failed, and the size); the
  clock in milliseconds; the process token; what the process is given.
\<close>

record 'w maint_ops =
  mo_metadata :: "wide \<Rightarrow> 'w \<Rightarrow> io_error + file_attributes"
  mo_links :: "wide \<Rightarrow> 'w \<Rightarrow> client_error + nat"
  mo_exists :: "wide \<Rightarrow> 'w \<Rightarrow> bool"
  mo_try_exists :: "wide \<Rightarrow> 'w \<Rightarrow> io_error + bool"
  mo_read_dir :: "wide \<Rightarrow> 'w \<Rightarrow> io_error + (io_error + wide) list"
  mo_read :: "wide \<Rightarrow> 'w \<Rightarrow> io_error + string"
  mo_open :: "wide \<Rightarrow> 32 word \<Rightarrow> bool \<Rightarrow> 'w \<Rightarrow> io_error + unit"
  mo_opened :: "wide \<Rightarrow> 'w \<Rightarrow> io_error + opened_facts"
  mo_create_new :: "wide \<Rightarrow> ('w, io_error, unit) tx"
  mo_write_sync :: "wide \<Rightarrow> string \<Rightarrow> ('w, io_error, unit) tx"
  mo_remove_file :: "wide \<Rightarrow> ('w, io_error, unit) tx"
  mo_delete :: "wide \<Rightarrow> ('w, io_error, unit) tx"
  mo_rename :: "wide \<Rightarrow> wide \<Rightarrow> ('w, io_error, unit) tx"
  mo_move_replace :: "wide \<Rightarrow> wide \<Rightarrow> ('w, io_error, unit) tx"
  mo_create_directory :: "wide \<Rightarrow> parsed_descriptor \<Rightarrow> ('w, io_error, unit) tx"
  mo_create_private :: "wide \<Rightarrow> parsed_descriptor \<Rightarrow> ('w, io_error, unit) tx"
  mo_write_some :: "wide \<Rightarrow> string \<Rightarrow> ('w, io_error, nat) tx"
  mo_flush :: "wide \<Rightarrow> ('w, io_error, unit) tx"
  mo_parse_descriptor :: "string \<Rightarrow> io_error + parsed_descriptor"
  mo_get_security :: "wide \<Rightarrow> 'w \<Rightarrow> io_error + (io_error + wide option)"
  mo_set_security :: "wide \<Rightarrow> parsed_descriptor \<Rightarrow> bool \<Rightarrow> ('w, io_error, unit) tx"
  mo_open_logs :: "wide \<Rightarrow> string \<Rightarrow> string \<Rightarrow> 'w \<Rightarrow> unit res"
  mo_log_files :: "wide \<Rightarrow> nat \<Rightarrow> nat \<Rightarrow> 'w \<Rightarrow> wide list res"
  mo_read_log :: "wide \<Rightarrow> wide \<Rightarrow> nat \<Rightarrow> 'w \<Rightarrow> string res"
  mo_open_manager :: "'w \<Rightarrow> io_error + unit"
  mo_open_service :: "string \<Rightarrow> 32 word \<Rightarrow> 'w \<Rightarrow> (32 word \<times> io_error) + unit"
  mo_config_size :: "'w \<Rightarrow> bool \<times> nat"
  mo_config :: "nat \<Rightarrow> 'w \<Rightarrow> io_error + service_config"
  mo_config2_size :: "nat \<Rightarrow> 'w \<Rightarrow> bool \<times> nat"
  mo_config2 :: "nat \<Rightarrow> nat \<Rightarrow> 'w \<Rightarrow> io_error + 32 word"
  mo_change_config2 :: "nat \<Rightarrow> 32 word \<Rightarrow> ('w, io_error, unit) tx"
  mo_arguments :: "wide \<Rightarrow> wide list option"
  mo_service_state :: "'w \<Rightarrow> io_error + 32 word"
  mo_start_service :: "('w, io_error, unit) tx"
  mo_stop_service :: "('w, io_error, unit) tx"
  mo_now :: "'w \<Rightarrow> nat"
  mo_sleep :: "nat \<Rightarrow> 'w \<Rightarrow> 'w"
  mo_open_token :: "('w, io_error, unit) tx"
  mo_lookup_privilege :: "string \<Rightarrow> 'w \<Rightarrow> io_error + nat"
  mo_adjust_privilege :: "nat \<Rightarrow> ('w, io_error, bool) tx"
  mo_close_token :: "('w, io_error, unit) tx"
  mo_grants :: "nat \<Rightarrow> bool"
  mo_uuid :: "'w \<Rightarrow> string"
  mo_program_data :: "'w \<Rightarrow> io_error + wide"
  mo_service_sid :: string
  mo_version :: string
  mo_default_config :: string
  mo_error_text :: "client_error \<Rightarrow> error_text"
  mo_encode_install :: "install_snapshot \<Rightarrow> string"
  mo_decode_install :: "string \<Rightarrow> install_snapshot option"
  mo_encode_uninstall :: "uninstall_snapshot \<Rightarrow> string"
  mo_decode_uninstall :: "string \<Rightarrow> uninstall_snapshot option"
  mo_encode_acl :: "acl_snapshot \<Rightarrow> string list"
  mo_decode_acl :: "string \<Rightarrow> acl_snapshot option"

definition io_res :: "io_error + 'a \<Rightarrow> 'a res" where
  "io_res = map_err Io"

definition io_tx :: "('w, io_error, 'a) tx \<Rightarrow> ('w, client_error, 'a) tx" where
  "io_tx = map_errT Io"

definition contextT :: "string \<Rightarrow> ('w, client_error, 'a) tx \<Rightarrow> ('w, client_error, 'a) tx" where
  "contextT m = map_errT (Context m)"

text \<open>\<open>let _ = m\<close>, and a result kept for a later decision.\<close>

definition ignoreT :: "('w, 'e, 'a) tx \<Rightarrow> ('w, 'f, unit) tx" where
  "ignoreT m = (\<lambda>w. (Inr (), snd (m w)))"

definition tryT :: "('w, 'e, 'a) tx \<Rightarrow> ('w, 'f, 'e + 'a) tx" where
  "tryT m = (\<lambda>w. (Inr (fst (m w)), snd (m w)))"

lemma io_res_Inr_iff [simp]: "io_res r = Inr x \<longleftrightarrow> r = Inr x"
  by (simp add: io_res_def)

lemma io_tx_ok_iff [simp]: "io_tx m w = (Inr x, w') \<longleftrightarrow> m w = (Inr x, w')"
  by (simp add: io_tx_def map_errT_ok_iff)

lemma contextT_ok_iff [simp]: "contextT c m w = (Inr x, w') \<longleftrightarrow> m w = (Inr x, w')"
  by (simp add: contextT_def map_errT_ok_iff)

lemma keeps_wrapped [keeps_intros]:
  "keeps P m \<Longrightarrow> keeps P (io_tx m)" "keeps P n \<Longrightarrow> keeps P (contextT c n)"
  "keeps P k \<Longrightarrow> keeps P (ignoreT k)" "keeps P k \<Longrightarrow> keeps P (tryT k)"
  by (simp_all add: io_tx_def contextT_def keeps_map_errT) (simp_all add: keeps_def ignoreT_def tryT_def)

section \<open>Fixed names and paths\<close>

definition snapshot_format :: "32 word" where "snapshot_format = 1"
definition state_marker :: string where "state_marker = ''.xsoc-managed-1.0.0''"
definition crlf :: string where "crlf = [CHR 0x0D, CHR 0x0A]"
definition state_marker_content :: string where "state_marker_content = ''xsoc-windows-state-1.0.0'' @ crlf"
definition snapshot_file :: wide where "snapshot_file = wide ''snapshot.json''"
definition state_acl_file :: wide where "state_acl_file = wide ''state-acl.json''"
definition program_acl_file :: wide where "program_acl_file = wide ''program-acl.json''"

definition purge_started_file :: "'w maint_ops \<Rightarrow> wide" where
  "purge_started_file F = wide (''purge-started-v1-'' @ mo_version F)"

definition purge_started_content :: "'w maint_ops \<Rightarrow> string" where
  "purge_started_content F = ''xsoc-purge-started-v1-'' @ mo_version F @ crlf"

definition stop_timeout :: nat where "stop_timeout = 30000"

record fixed_paths =
  fp_program_root :: wide
  fp_state_root :: wide
  fp_journal_root :: wide
  fp_uninstall_journal_root :: wide
  fp_quarantine_root :: wide
  fp_diagnostic_file :: wide
  fp_program_exe :: wide
  fp_config :: wide

definition ensure_absolute_root :: "wide \<Rightarrow> unit res" where
  "ensure_absolute_root path =
     bindR (ensureR (wide_is_absolute path) (Message ''did not resolve to an absolute path'')) (\<lambda>_.
     ensureR (wide_parent path \<noteq> None) (Message ''resolved to a filesystem root''))"

definition known_folder :: "'w maint_ops \<Rightarrow> 'w \<Rightarrow> wide res" where
  "known_folder F w =
     bindR (with_context ''SHGetKnownFolderPath failed'' (io_res (mo_program_data F w))) (\<lambda>path.
     bindR (ok_or (Message ''known folder path is invalid'') (wide_to_str path)) (\<lambda>_.
     Inr path))"

definition discover :: "'w maint_ops \<Rightarrow> wide \<Rightarrow> 'w \<Rightarrow> fixed_paths res" where
  "discover F program_exe w =
     bindR (known_folder F w) (\<lambda>program_data.
     bindR (ensure_absolute_root program_data) (\<lambda>_.
     bindR (ensure_absolute_root program_exe) (\<lambda>_.
     bindR (ensureR (case wide_file_name program_exe of None \<Rightarrow> False
           | Some n \<Rightarrow> wide_eq_ignore_ascii_case n (wide ''xsoc.exe''))
         (Message ''MSI program executable must end in xsoc.exe'')) (\<lambda>_.
     bindR (ok_or (Message ''MSI program executable has no parent directory'') (wide_parent program_exe)) (\<lambda>program_root.
     let state_root = path_join program_data (wide ''xsoc'') in
     Inr \<lparr>fp_program_root = program_root, fp_state_root = state_root,
          fp_journal_root = path_join program_data (wide (''xsoc.install-journal-'' @ mo_version F)),
          fp_uninstall_journal_root = path_join program_data (wide (''xsoc.uninstall-journal-'' @ mo_version F)),
          fp_quarantine_root = path_join program_data (wide (''xsoc.purge-quarantine-'' @ mo_version F)),
          fp_diagnostic_file = path_join program_data (wide (''xsoc.maintenance-diagnostic-'' @ mo_version F @ ''.txt'')),
          fp_program_exe = program_exe, fp_config = path_join state_root (wide ''config.json'')\<rparr>)))))"

end
