(* ===== verification/Windows_Tree.thy ===== *)
theory Windows_Tree
  imports Windows_Calls
begin

text \<open>
  The managed trees of the Windows maintenance program, the first half of
  \<open>src/windows/maintenance/filesystem.rs\<close>: inspection, the bounded traversal, removal by
  handle, the rename of a directory, private files and the diagnostic file. An enumeration
  is the list of its entries when it is opened.
\<close>

section \<open>Inspection\<close>

definition path_units :: "wide \<Rightarrow> nat" where
  "path_units path = length path"

definition validate_real_directory :: "'w maint_ops \<Rightarrow> wide \<Rightarrow> 'w \<Rightarrow> unit res" where
  "validate_real_directory F path w =
     bindR (with_context ''failed to inspect'' (io_res (mo_metadata F path w))) (\<lambda>m.
     bindR (ensureR (is_dir m) (Message ''not a directory'')) (\<lambda>_.
     ensureR (\<not> fa_reparse m) (Message ''a reparse point'')))"

definition validate_optional_root :: "'w maint_ops \<Rightarrow> wide \<Rightarrow> 'w \<Rightarrow> bool res" where
  "validate_optional_root F path w =
     (case mo_metadata F path w of
        Inr _ \<Rightarrow> bindR (validate_real_directory F path w) (\<lambda>_. Inr True)
      | Inl e \<Rightarrow> if io_kind e = NotFound then Inr False else Inl (Context ''failed to inspect'' (Io e)))"

definition validate_regular_single_link :: "'w maint_ops \<Rightarrow> wide \<Rightarrow> 'w \<Rightarrow> unit res" where
  "validate_regular_single_link F path w =
     bindR (with_context ''failed to inspect'' (io_res (mo_metadata F path w))) (\<lambda>m.
     bindR (ensureR (is_file m) (Message ''not a regular file'')) (\<lambda>_.
     bindR (ensureR (\<not> fa_reparse m) (Message ''a reparse point'')) (\<lambda>_.
     bindR (mo_links F path w) (\<lambda>n.
     ensureR (n = 1) (Message ''multiple hard links'')))))"

definition ensure_absent :: "'w maint_ops \<Rightarrow> wide \<Rightarrow> 'w \<Rightarrow> unit res" where
  "ensure_absent F path w =
     (case mo_metadata F path w of
        Inl e \<Rightarrow> if io_kind e = NotFound then Inr () else Inl (Context ''failed to inspect'' (Io e))
      | Inr _ \<Rightarrow> Inl (Message ''already exists''))"

definition rollback_path_exists :: "'w maint_ops \<Rightarrow> wide \<Rightarrow> 'w \<Rightarrow> bool res" where
  "rollback_path_exists F path w = checked_rollback_path_status (io_res (mo_try_exists F path w))"

section \<open>Traversal\<close>

definition child_depth_of :: "nat option \<Rightarrow> nat \<Rightarrow> nat res" where
  "child_depth_of directory_depth_limit directory_depth =
     (case directory_depth_limit of
        Some hard_limit \<Rightarrow> checked_child_directory_depth directory_depth hard_limit
      | None \<Rightarrow> ok_or (Message ''managed directory depth overflowed'') (checked_add64 directory_depth 1))"

definition validate_entry ::
  "'w maint_ops \<Rightarrow> nat option \<Rightarrow> 'w \<Rightarrow> wide \<Rightarrow> nat \<Rightarrow> io_error + wide \<Rightarrow>
     (wide \<times> nat) list \<times> nat \<times> nat \<Rightarrow> ((wide \<times> nat) list \<times> nat \<times> nat) res" where
  "validate_entry F limit w directory depth entry = (\<lambda>(pending, discovered, payload).
     bindR (io_res entry) (\<lambda>name.
     let path = path_join directory name in
     bindR (io_res (mo_metadata F path w)) (\<lambda>m.
     bindR (ensureR (\<not> fa_reparse m) (Message ''managed tree contains a reparse point'')) (\<lambda>_.
     if is_dir m then
       bindR (child_depth_of limit depth) (\<lambda>child_depth.
       enqueue_bounded_tree_path (mo_grants F) pending discovered (path, child_depth) (path_units path) payload
         max_maintenance_tree_nodes max_maintenance_path_bytes)
     else
       bindR (record_bounded_tree_node discovered max_maintenance_tree_nodes) (\<lambda>discovered.
       bindR (ensureR (is_file m) (Message ''managed tree contains a special file'')) (\<lambda>_.
       bindR (mo_links F path w) (\<lambda>n.
       bindR (ensureR (n = 1) (Message ''managed tree contains a multiply-linked file'')) (\<lambda>_.
       Inr (pending, discovered, payload)))))))))"

text \<open>The loop over the entries of a directory, with what it carries.\<close>

fun for_entries :: "('e \<Rightarrow> 'a \<Rightarrow> 'a res) \<Rightarrow> 'e list \<Rightarrow> 'a \<Rightarrow> 'a res" where
  "for_entries visit [] x = Inr x"
| "for_entries visit (entry # entries) x = bindR (visit entry x) (for_entries visit entries)"

definition tree_budget :: "'a list \<times> nat \<times> nat \<Rightarrow> nat" where
  "tree_budget = (\<lambda>(pending, discovered, _). (max_maintenance_tree_nodes - discovered) + length pending)"

lemma enqueued:
  "enqueue_bounded_tree_path g pending discovered x units payload limit path_limit = Inr (pending', discovered', payload') \<Longrightarrow>
     discovered < limit \<and> discovered' = discovered + 1 \<and> pending' = pending @ [x]"
  by (auto simp: enqueue_bounded_tree_path_def try_push_bounded_path_def bindR_Inr_iff)

lemma recorded: "record_bounded_tree_node discovered limit = Inr d \<Longrightarrow> discovered < limit \<and> d = discovered + 1"
  by (auto simp: record_bounded_tree_node_def bindR_Inr_iff)

lemma for_entries_budget:
  assumes "\<And>entry x y. visit entry x = Inr y \<Longrightarrow> tree_budget y \<le> tree_budget x"
  shows "for_entries visit entries x = Inr y \<Longrightarrow> tree_budget y \<le> tree_budget x"
proof (induction entries arbitrary: x)
  case (Cons entry entries)
  then obtain z where z: "visit entry x = Inr z" "for_entries visit entries z = Inr y"
    by (auto simp: bindR_Inr_iff)
  from Cons.IH [OF z(2)] assms [OF z(1)] show ?case by simp
qed simp

lemma validate_entry_budget:
  "validate_entry F limit w directory depth entry x = Inr y \<Longrightarrow> tree_budget y \<le> tree_budget x"
  by (cases x; cases y)
    (auto simp: validate_entry_def tree_budget_def bindR_Inr_iff Let_def split: if_splits dest!: enqueued recorded)

text \<open>The loop over the directories that are left.\<close>

function validate_directories ::
  "'w maint_ops \<Rightarrow> nat option \<Rightarrow> 'w \<Rightarrow> (wide \<times> nat) list \<times> nat \<times> nat \<Rightarrow> unit res" where
  "validate_directories F limit w (pending, discovered, payload) =
     (if pending = [] then Inr ()
      else
        let (directory, depth) = last pending in
        bindR (with_context ''failed to enumerate'' (io_res (mo_read_dir F directory w))) (\<lambda>entries.
        case for_entries (validate_entry F limit w directory depth) entries (butlast pending, discovered, payload) of
          Inl e \<Rightarrow> Inl e
        | Inr x \<Rightarrow> validate_directories F limit w x))"
  by pat_completeness auto
termination
proof (relation "measure (\<lambda>(F, limit, w, x). tree_budget x)", goal_cases)
  case (2 F limit w pending discovered payload)
  note step = this
  then have "tree_budget (butlast pending, discovered, payload) < tree_budget (pending, discovered, payload)"
    by (cases pending) (simp_all add: tree_budget_def)
  with for_entries_budget [OF validate_entry_budget] step show ?case by (fastforce dest: for_entries_budget [OF validate_entry_budget])
qed simp

declare validate_directories.simps [simp del]

definition validate_tree_with_directory_depth_limit :: "'w maint_ops \<Rightarrow> wide \<Rightarrow> nat option \<Rightarrow> 'w \<Rightarrow> unit res" where
  "validate_tree_with_directory_depth_limit F root limit w =
     bindR (validate_real_directory F root w) (\<lambda>_.
     bindR (case limit of
         Some hard_limit \<Rightarrow> ensureR (1 \<le> hard_limit) (Message ''managed directory depth hard limit must include the root'')
       | None \<Rightarrow> Inr ()) (\<lambda>_.
     bindR (enqueue_bounded_tree_path (mo_grants F) [] 0 (root, 1) (path_units root) 0
       max_maintenance_tree_nodes max_maintenance_path_bytes) (\<lambda>x.
     validate_directories F limit w x)))"

definition validate_tree :: "'w maint_ops \<Rightarrow> wide \<Rightarrow> 'w \<Rightarrow> unit res" where
  "validate_tree F root w = validate_tree_with_directory_depth_limit F root None w"

section \<open>Opened objects\<close>

definition delete_access :: "32 word" where "delete_access = 0x00010000"
definition read_attributes :: "32 word" where "read_attributes = 0x80"
definition traverse_access :: "32 word" where "traverse_access = 0x20"

definition open_mutation_target_with_access :: "'w maint_ops \<Rightarrow> wide \<Rightarrow> bool \<Rightarrow> 32 word \<Rightarrow> 'w \<Rightarrow> unit res" where
  "open_mutation_target_with_access F path expected_directory desired_access w =
     bindR (with_context ''failed to open'' (io_res (mo_open F path desired_access expected_directory w))) (\<lambda>_.
     bindR (with_context ''failed to inspect opened mutation target'' (io_res (mo_opened F path w))) (\<lambda>facts.
     with_context ''refusing'' (validate_opened_managed_target_facts
       \<lparr>ot_expected_directory = expected_directory, ot_actual_directory = of_directory facts,
        ot_is_reparse_point = of_reparse facts, ot_hard_link_count = of_links facts\<rparr>)))"

definition open_mutation_target :: "'w maint_ops \<Rightarrow> wide \<Rightarrow> bool \<Rightarrow> 'w \<Rightarrow> unit res" where
  "open_mutation_target F path expected_directory w =
     open_mutation_target_with_access F path expected_directory (delete_access + read_attributes) w"

definition open_rename_parent :: "'w maint_ops \<Rightarrow> wide \<Rightarrow> 'w \<Rightarrow> unit res" where
  "open_rename_parent F path w = open_mutation_target_with_access F path True (traverse_access + read_attributes) w"

definition delete_opened_mutation_target :: "'w maint_ops \<Rightarrow> wide \<Rightarrow> ('w, client_error, unit) tx" where
  "delete_opened_mutation_target F path = contextT ''failed to mark for handle-bound deletion'' (io_tx (mo_delete F path))"

definition remove_empty_directory_by_handle :: "'w maint_ops \<Rightarrow> wide \<Rightarrow> ('w, client_error, unit) tx" where
  "remove_empty_directory_by_handle F path =
     bindT (readT (open_mutation_target F path True)) (\<lambda>_.
     bindT (readT (\<lambda>w. with_context ''failed to inspect whether it is empty'' (io_res (mo_read_dir F path w)))) (\<lambda>entries.
     bindT (liftR (case entries of
         [] \<Rightarrow> Inr ()
       | Inr _ # _ \<Rightarrow> Inl (Message ''not empty'')
       | Inl e # _ \<Rightarrow> Inl (Context ''failed to enumerate'' (Io e)))) (\<lambda>_.
     bindT (delete_opened_mutation_target F path) (\<lambda>_.
     readT (ensure_absent F path)))))"

section \<open>Removal of a tree\<close>

text \<open>A frame is an open directory with the entries that its enumeration still holds.\<close>

type_synonym removal_frame = "wide \<times> (io_error + wide) list"

definition removal_directory_frame :: "'w maint_ops \<Rightarrow> wide \<Rightarrow> 'w \<Rightarrow> removal_frame res" where
  "removal_directory_frame F path w =
     bindR (with_context ''failed to enumerate for removal'' (io_res (mo_read_dir F path w))) (\<lambda>entries.
     Inr (path, entries))"

definition push_frame :: "'w maint_ops \<Rightarrow> removal_frame list \<Rightarrow> removal_frame \<Rightarrow> nat \<Rightarrow> (removal_frame list \<times> nat) res" where
  "push_frame F stack frame payload =
     try_push_bounded_path (mo_grants F) stack frame (path_units (fst frame)) payload
       max_open_mutation_directories max_maintenance_path_bytes"

text \<open>One entry of the directory on the top; \<open>stack\<close> no longer holds the entry.\<close>

definition removal_step ::
  "'w maint_ops \<Rightarrow> wide \<Rightarrow> io_error + wide \<Rightarrow> removal_frame list \<Rightarrow> nat \<Rightarrow> nat \<Rightarrow>
     ('w, client_error, removal_frame list \<times> nat \<times> nat) tx" where
  "removal_step F directory entry stack discovered payload =
     bindT (liftR (io_res entry)) (\<lambda>name.
     let path = path_join directory name in
     bindT (readT (\<lambda>w. with_context ''failed to inspect managed removal target'' (io_res (mo_metadata F path w)))) (\<lambda>m.
     bindT (liftR (ensureR (fa_directory m \<or> is_file m \<or> fa_reparse m) (Message ''managed tree contains a special file''))) (\<lambda>_.
     bindT (liftR (record_bounded_tree_node discovered max_maintenance_tree_nodes)) (\<lambda>discovered.
     bindT (readT (open_mutation_target F path (fa_directory m))) (\<lambda>_.
     if fa_directory m then
       bindT (readT (removal_directory_frame F path)) (\<lambda>frame.
       bindT (liftR (push_frame F stack frame payload)) (\<lambda>(stack, payload).
       returnT (stack, discovered, payload)))
     else
       bindT (delete_opened_mutation_target F path) (\<lambda>_.
       returnT (stack, discovered, payload)))))))"

lemma removal_step_budget:
  "removal_step F directory entry stack discovered payload w = (Inr (stack', discovered', payload'), w') \<Longrightarrow>
     discovered < max_maintenance_tree_nodes \<and> discovered' = discovered + 1"
  by (auto simp: removal_step_def bindT_ok_iff Let_def tx_simps split: if_splits dest!: recorded)

function removal_loop ::
  "'w maint_ops \<Rightarrow> removal_frame list \<Rightarrow> nat \<Rightarrow> nat \<Rightarrow> 'w \<Rightarrow> (client_error + unit) \<times> 'w" where
  "removal_loop F stack discovered payload w =
     (if stack = [] then (Inr (), w)
      else case last stack of
        (path, []) \<Rightarrow>
          (case delete_opened_mutation_target F path w of
             (Inl e, w) \<Rightarrow> (Inl e, w)
           | (Inr _, w) \<Rightarrow> removal_loop F (butlast stack) discovered payload w)
      | (path, entry # entries) \<Rightarrow>
          (case removal_step F path entry (butlast stack @ [(path, entries)]) discovered payload w of
             (Inl e, w) \<Rightarrow> (Inl e, w)
           | (Inr (stack, discovered, payload), w) \<Rightarrow> removal_loop F stack discovered payload w))"
  by pat_completeness auto
termination
  by (relation "measures [\<lambda>(F, stack, discovered, payload, w). max_maintenance_tree_nodes - discovered,
      \<lambda>(F, stack, discovered, payload, w). length stack]")
    (auto dest!: removal_step_budget [OF sym])

declare removal_loop.simps [simp del]

definition remove_tree_no_reparse :: "'w maint_ops \<Rightarrow> wide \<Rightarrow> ('w, client_error, unit) tx" where
  "remove_tree_no_reparse F root =
     bindT (readT (open_mutation_target F root True)) (\<lambda>_.
     bindT (readT (validate_tree_with_directory_depth_limit F root (Some max_open_mutation_directories))) (\<lambda>_.
     bindT (readT (removal_directory_frame F root)) (\<lambda>root_frame.
     bindT (liftR (record_bounded_tree_node 0 max_maintenance_tree_nodes)) (\<lambda>discovered.
     bindT (liftR (push_frame F [] root_frame 0)) (\<lambda>(stack, payload).
     bindT (removal_loop F stack discovered payload) (\<lambda>_.
     readT (ensure_absent F root)))))))"

section \<open>Renaming\<close>

text \<open>The sizes of \<open>FILE_RENAME_INFO\<close> and of a storage word on a 64-bit target.\<close>

definition rename_name_offset :: nat where "rename_name_offset = 20"
definition rename_struct_bytes :: nat where "rename_struct_bytes = 24"
definition rename_struct_alignment :: nat where "rename_struct_alignment = 8"
definition usize_bytes :: nat where "usize_bytes = 8"

fun count_name_units :: "wide \<Rightarrow> nat \<Rightarrow> nat res" where
  "count_name_units [] n = Inr n"
| "count_name_units (u # us) n =
     bindR (ensureR (u \<noteq> 0) (Message ''rename destination contains an embedded NUL'')) (\<lambda>_.
     bindR (ok_or (Message ''rename destination length overflowed'') (checked_add64 n 1)) (count_name_units us))"

text \<open>The buffer for a destination: its plan, after every check before the call of the SDK.\<close>

definition rename_information :: "'w maint_ops \<Rightarrow> wide \<Rightarrow> rename_buffer_plan res" where
  "rename_information F destination =
     bindR (count_name_units destination 0) (\<lambda>file_name_utf16_units.
     bindR (checked_rename_buffer_plan file_name_utf16_units rename_name_offset usize_bytes max_maintenance_path_bytes) (\<lambda>plan.
     bindR (ensureR (rename_struct_alignment \<le> usize_bytes) (Message ''FILE_RENAME_INFO requires unsupported storage alignment'')) (\<lambda>_.
     bindR (ensureR (mo_grants F (rb_storage_words plan)) (Message ''failed to reserve the bounded rename buffer'')) (\<lambda>_.
     bindR (checked_rename_storage_bytes plan usize_bytes rename_struct_bytes rename_name_offset) (\<lambda>allocated_bytes.
     bindR (ok_or (Message ''rename information Vec size overflowed'') (checked_mul64 (rb_storage_words plan) usize_bytes)) (\<lambda>vec_bytes.
     bindR (ensureR (vec_bytes = allocated_bytes) (Message ''rename information allocation does not match its checked plan'')) (\<lambda>_.
     Inr plan)))))))"

definition rename_managed_directory_by_handle :: "'w maint_ops \<Rightarrow> wide \<Rightarrow> wide \<Rightarrow> ('w, client_error, unit) tx" where
  "rename_managed_directory_by_handle F source destination =
     bindT (liftR (ensureR (wide_is_absolute source) (Message ''managed rename source is not absolute''))) (\<lambda>_.
     bindT (liftR (ensureR (wide_is_absolute destination) (Message ''managed rename destination is not absolute''))) (\<lambda>_.
     bindT (liftR (ensureR (\<not> path_eq source destination) (Message ''managed rename source and destination are identical''))) (\<lambda>_.
     bindT (liftR (ok_or (Message ''managed rename source has no parent directory'') (wide_parent source))) (\<lambda>source_parent.
     bindT (liftR (ensureR (case wide_parent destination of None \<Rightarrow> False | Some p \<Rightarrow> path_eq p source_parent)
       (Message ''managed rename destination must share the source parent directory''))) (\<lambda>_.
     bindT (liftR (ok_or (Message ''managed rename destination has no file name'') (wide_file_name destination))) (\<lambda>name.
     bindT (liftR (ensureR (all_normal name \<and> component_count name = 1)
       (Message ''managed rename destination file name is not a single normal component''))) (\<lambda>_.
     bindT (liftR (ensureR (colon_unit \<notin> set name) (Message ''managed rename destination contains an alternate-stream separator''))) (\<lambda>_.
     bindT (readT (open_rename_parent F source_parent)) (\<lambda>_.
     bindT (readT (ensure_absent F destination)) (\<lambda>_.
     bindT (readT (open_mutation_target F source True)) (\<lambda>_.
     bindT (liftR (rename_information F destination)) (\<lambda>_.
     bindT (contextT ''failed to rename to fixed destination'' (io_tx (mo_rename F source destination))) (\<lambda>_.
     bindT (readT (ensure_absent F source)) (\<lambda>_.
     readT (validate_real_directory F destination)))))))))))))))"

section \<open>Private files\<close>

definition write_new_private :: "'w maint_ops \<Rightarrow> wide \<Rightarrow> string \<Rightarrow> ('w, client_error, unit) tx" where
  "write_new_private F path bytes =
     bindT (io_tx (mo_create_new F path)) (\<lambda>_.
     bindT (tryT (mo_write_sync F path bytes)) (\<lambda>result.
     case result of
       Inl error \<Rightarrow> bindT (ignoreT (mo_remove_file F path)) (\<lambda>_. failT (Context ''failed to write'' (Io error)))
     | Inr _ \<Rightarrow> returnT ()))"

definition replace_private :: "'w maint_ops \<Rightarrow> wide \<Rightarrow> string \<Rightarrow> ('w, client_error, unit) tx" where
  "replace_private F path bytes =
     (let replacement = with_extension path (wide ''replacement'') in
      bindT (readT (ensure_absent F replacement)) (\<lambda>_.
      bindT (write_new_private F replacement bytes) (\<lambda>_.
      bindT (tryT (mo_move_replace F replacement path)) (\<lambda>replaced.
      case replaced of
        Inl error \<Rightarrow> bindT (ignoreT (mo_remove_file F replacement)) (\<lambda>_. failT (Context ''failed to replace'' (Io error)))
      | Inr _ \<Rightarrow> returnT ()))))"

section \<open>The diagnostic file\<close>

definition maintenance_diagnostic_sddl :: string where
  "maintenance_diagnostic_sddl = ''O:SYD:P(A;;FA;;;SY)(A;;FA;;;BA)''"

definition rename_diagnostic_to_final :: "'w maint_ops \<Rightarrow> wide \<Rightarrow> wide \<Rightarrow> ('w, client_error, unit) tx" where
  "rename_diagnostic_to_final F staging destination =
     bindT (liftR (ensureR (wide_is_absolute destination) (Message ''maintenance diagnostic destination is not absolute''))) (\<lambda>_.
     bindT (liftR (rename_information F destination)) (\<lambda>_.
     contextT ''failed to publish the first complete maintenance diagnostic'' (io_tx (mo_rename F staging destination))))"

text \<open>The loop that writes what remains; every turn must make progress.\<close>

function write_remaining :: "'w maint_ops \<Rightarrow> wide \<Rightarrow> string \<Rightarrow> 'w \<Rightarrow> (client_error + unit) \<times> 'w" where
  "write_remaining F staging remaining w =
     (if remaining = [] then (Inr (), w)
      else case mo_write_some F staging remaining w of
        (Inl e, w) \<Rightarrow> (Inl (Context ''failed to write the maintenance diagnostic'' (Io e)), w)
      | (Inr written, w) \<Rightarrow>
          if written = 0 then (Inl (Message ''maintenance diagnostic write made no progress''), w)
          else if length remaining < written then (Inl (Message ''maintenance diagnostic write exceeded its input buffer''), w)
          else write_remaining F staging (drop written remaining) w)"
  by pat_completeness auto
termination
  by (relation "measure (\<lambda>(F, staging, remaining, w). length remaining)") auto

declare write_remaining.simps [simp del]

text \<open>The staging file is deleted when its handle is dropped before the diagnostic is published.\<close>

definition cleanup_on_error :: "'w maint_ops \<Rightarrow> wide \<Rightarrow> ('w, client_error, unit) tx \<Rightarrow> ('w, client_error, unit) tx" where
  "cleanup_on_error F staging m =
     bindT (tryT m) (\<lambda>result.
     case result of
       Inl e \<Rightarrow> bindT (ignoreT (mo_delete F staging)) (\<lambda>_. failT e)
     | Inr _ \<Rightarrow> returnT ())"

definition write_first_maintenance_diagnostic ::
  "'w maint_ops \<Rightarrow> wide \<Rightarrow> string \<Rightarrow> client_error \<Rightarrow> ('w, client_error, unit) tx" where
  "write_first_maintenance_diagnostic F path command error =
     (let payload = maintenance_diagnostic_payload (mo_version F) command (mo_error_text F error) in
      bindT (liftR (ensureR (length payload \<le> maintenance_diagnostic_max_bytes)
        (Message ''maintenance diagnostic payload exceeded its hard limit''))) (\<lambda>_.
      bindT (liftR (with_context ''failed to build the maintenance diagnostic security descriptor''
        (io_res (mo_parse_descriptor F maintenance_diagnostic_sddl)))) (\<lambda>descriptor.
      bindT (readT (\<lambda>w. Inr (with_extension path (wide (mo_uuid F w @ ''.pending''))))) (\<lambda>staging.
      bindT (contextT ''failed to create a private maintenance diagnostic staging file''
        (io_tx (mo_create_private F staging descriptor))) (\<lambda>_.
      cleanup_on_error F staging
        (bindT (write_remaining F staging payload) (\<lambda>_.
         bindT (contextT ''failed to flush the maintenance diagnostic'' (io_tx (mo_flush F staging))) (\<lambda>_.
         rename_diagnostic_to_final F staging path))))))))"

end
