(* ===== verification/Windows_Descriptors.thy ===== *)
theory Windows_Descriptors
  imports Windows_Tree Windows_Restore
begin

text \<open>
  Owners and access lists of the managed trees, \<open>src/windows/maintenance/acl.rs\<close>: reading and
  setting the descriptor of one opened object, the managed and the program templates over a
  whole tree, the snapshot of the descriptors of a tree and its restoration. What SDDL text
  an object or a descriptor has is the SDK's; the grammar of that text is in \<open>Windows_Acl\<close>. The
  JSON of a snapshot is the list of the pieces in which \<open>serde_json\<close> writes it.
\<close>

section \<open>One object\<close>

definition read_control :: "32 word" where "read_control = 0x00020000"
definition write_dac :: "32 word" where "write_dac = 0x00040000"
definition write_owner :: "32 word" where "write_owner = 0x00080000"

definition open_acl_target :: "'w maint_ops \<Rightarrow> wide \<Rightarrow> 32 word \<Rightarrow> 'w \<Rightarrow> bool res" where
  "open_acl_target F path desired_access w =
     bindR (with_context ''failed to inspect ACL target'' (io_res (mo_metadata F path w))) (\<lambda>m.
     let expected_directory = fa_directory m in
     bindR (ensureR (expected_directory \<or> is_file m \<or> fa_reparse m)
       (Message ''ACL target is neither a directory nor a regular file'')) (\<lambda>_.
     bindR (with_context ''failed to open'' (io_res (mo_open F path desired_access expected_directory w))) (\<lambda>_.
     bindR (with_context ''failed to inspect opened ACL target'' (io_res (mo_opened F path w))) (\<lambda>facts.
     bindR (with_context ''refusing ACL access'' (validate_opened_managed_target_facts
       \<lparr>ot_expected_directory = expected_directory, ot_actual_directory = of_directory facts,
        ot_is_reparse_point = of_reparse facts, ot_hard_link_count = of_links facts\<rparr>)) (\<lambda>_.
     Inr (of_directory facts))))))"

definition security_descriptor_to_sddl :: "io_error + wide option \<Rightarrow> string res" where
  "security_descriptor_to_sddl conversion =
     bindR (with_context ''failed to convert the security descriptor to SDDL'' (io_res conversion)) (\<lambda>units.
     bindR (ok_or (Message ''security descriptor conversion returned no text'') units) (\<lambda>units.
     bindR (ensureR (0 < length units \<and> length units \<le> max_maintenance_path_bytes)
       (Message ''security descriptor text exceeds its limit'')) (\<lambda>_.
     ok_or (Message ''security descriptor is not valid UTF-16'') (wide_to_str (takeWhile (\<lambda>u. u \<noteq> 0) units)))))"

definition security_descriptor_sddl_from_handle :: "'w maint_ops \<Rightarrow> wide \<Rightarrow> 'w \<Rightarrow> string res" where
  "security_descriptor_sddl_from_handle F path w =
     bindR (with_context ''GetSecurityInfo failed'' (io_res (mo_get_security F path w))) security_descriptor_to_sddl"

definition security_descriptor_sddl_with_target_type :: "'w maint_ops \<Rightarrow> wide \<Rightarrow> 'w \<Rightarrow> (string \<times> bool) res" where
  "security_descriptor_sddl_with_target_type F path w =
     bindR (open_acl_target F path read_control w) (\<lambda>directory.
     bindR (security_descriptor_sddl_from_handle F path w) (\<lambda>sddl.
     Inr (sddl, directory)))"

definition security_descriptor_sddl :: "'w maint_ops \<Rightarrow> wide \<Rightarrow> 'w \<Rightarrow> string res" where
  "security_descriptor_sddl F path w = map_ok fst (security_descriptor_sddl_with_target_type F path w)"

definition saved_dacl_is_protected :: "string \<Rightarrow> bool res" where
  "saved_dacl_is_protected sddl =
     bindR (ok_or (Message ''saved security descriptor has no DACL'') (map_option snd (split_once_text ''D:'' sddl))) (\<lambda>dacl.
     Inr (CHR ''P'' \<in> set (before_first CHR ''('' dacl)))"

definition parse_administrative_security_descriptor :: "'w maint_ops \<Rightarrow> string \<Rightarrow> parsed_descriptor res" where
  "parse_administrative_security_descriptor F sddl =
     with_context ''failed to parse the administrative security descriptor'' (io_res (mo_parse_descriptor F sddl))"

definition administrative_descriptor_access :: "parsed_descriptor \<Rightarrow> unit res" where
  "administrative_descriptor_access descriptor =
     ensureR (pd_owner descriptor \<and> pd_dacl descriptor)
       (Message ''administrative descriptor requires an owner and a non-NULL DACL'')"

definition validate_saved_security_descriptor :: "'w maint_ops \<Rightarrow> string \<Rightarrow> unit res" where
  "validate_saved_security_descriptor F sddl =
     bindR (saved_dacl_is_protected sddl) (\<lambda>_.
     bindR (parse_administrative_security_descriptor F sddl) administrative_descriptor_access)"

definition set_security_descriptor :: "'w maint_ops \<Rightarrow> wide \<Rightarrow> string \<Rightarrow> bool \<Rightarrow> bool \<Rightarrow> ('w, client_error, unit) tx" where
  "set_security_descriptor F path sddl protected managed_template =
     bindT (readT (open_acl_target F path (read_control + write_dac + write_owner))) (\<lambda>directory.
     let target_sddl = if managed_template then managed_security_descriptor_for_target sddl directory else sddl in
     bindT (liftR (parse_administrative_security_descriptor F target_sddl)) (\<lambda>descriptor.
     bindT (liftR (administrative_descriptor_access descriptor)) (\<lambda>_.
     bindT (liftR (security_descriptor_to_sddl (pd_text descriptor))) (\<lambda>expected.
     bindT (contextT ''SetSecurityInfo failed'' (io_tx (mo_set_security F path descriptor protected))) (\<lambda>_.
     bindT (readT (security_descriptor_sddl_from_handle F path)) (\<lambda>actual.
     bindT (liftR (saved_dacl_is_protected actual)) (\<lambda>actual_protected.
     bindT (liftR (ensureR (actual_protected = protected) (Message ''administrative ACL protection postcondition failed''))) (\<lambda>_.
     bindT (liftR (security_descriptor_access_parts actual)) (\<lambda>actual_parts.
     bindT (liftR (security_descriptor_access_parts expected)) (\<lambda>expected_parts.
     liftR (ensureR (actual_parts = expected_parts)
       (Message ''administrative owner and exact ACL postcondition failed''))))))))))))"

definition set_managed_security_descriptor :: "'w maint_ops \<Rightarrow> wide \<Rightarrow> string \<Rightarrow> ('w, client_error, unit) tx" where
  "set_managed_security_descriptor F path sddl = set_security_descriptor F path sddl True True"

definition restore_security_descriptor :: "'w maint_ops \<Rightarrow> wide \<Rightarrow> string \<Rightarrow> ('w, client_error, unit) tx" where
  "restore_security_descriptor F path sddl =
     bindT (liftR (saved_dacl_is_protected sddl)) (\<lambda>protected. set_security_descriptor F path sddl protected False)"

definition validate_managed_dacl :: "'w maint_ops \<Rightarrow> wide \<Rightarrow> bool \<Rightarrow> 'w \<Rightarrow> unit res" where
  "validate_managed_dacl F path require_service_access w =
     bindR (security_descriptor_sddl_with_target_type F path w) (\<lambda>(sddl, directory).
     parse_managed_dacl sddl (mo_service_sid F) require_service_access directory)"

definition validate_program_dacl :: "'w maint_ops \<Rightarrow> wide \<Rightarrow> 'w \<Rightarrow> unit res" where
  "validate_program_dacl F path w =
     bindR (security_descriptor_sddl_with_target_type F path w) (\<lambda>(sddl, directory).
     parse_program_dacl sddl (mo_service_sid F) directory)"

section \<open>Runtime logs\<close>

definition logs_of :: "wide \<Rightarrow> wide" where
  "logs_of path = path_join path (wide ''logs'')"

definition validate_runtime_log_account_owner :: "'w maint_ops \<Rightarrow> wide \<Rightarrow> bool \<Rightarrow> 'w \<Rightarrow> unit res" where
  "validate_runtime_log_account_owner F path directory w =
     bindR (security_descriptor_sddl_with_target_type F path w) (\<lambda>(sddl, is_directory).
     let owner = (if starts_with ''O:'' sddl then
           (case split_once_text ''G:'' (drop 2 sddl) of
              Some (owner, _) \<Rightarrow> Some owner
            | None \<Rightarrow> map_option fst (split_once_text ''D:'' (drop 2 sddl)))
         else None) in
     ensureR (is_directory = directory \<and> owner \<in> {Some ''LS'', Some ''S-1-5-19''})
       (Message ''Runtime log object does not have the declared service account owner''))"

definition runtime_log_names :: "string list" where
  "runtime_log_names =
     [''.xsoc.jsonl.writer.lock'', ''xsoc.jsonl'', ''xsoc.jsonl.1'', ''xsoc.jsonl.2'', ''xsoc.jsonl.3'', ''xsoc.jsonl.4'']"

definition validate_log_file :: "'w maint_ops \<Rightarrow> wide \<Rightarrow> 'w \<Rightarrow> wide \<Rightarrow> unit \<Rightarrow> unit res" where
  "validate_log_file F directory w file u =
     bindR (ok_or (Message ''Invalid runtime log entry'') (wide_to_str file)) (\<lambda>name.
     bindR (ensureR (name \<in> set runtime_log_names) (Message ''Unrecognized runtime log entry'')) (\<lambda>_.
     bindR (validate_runtime_log_account_owner F (path_join directory file) False w) (\<lambda>_.
     bindR (mo_read_log F directory file (8 * 1024 * 1024) w) (\<lambda>_. Inr ()))))"

definition validate_runtime_log_files :: "'w maint_ops \<Rightarrow> wide \<Rightarrow> 'w \<Rightarrow> unit res" where
  "validate_runtime_log_files F directory w =
     bindR (validate_runtime_log_account_owner F directory True w) (\<lambda>_.
     bindR (mo_log_files F directory 6 (40 * 1024 * 1024 + 1024) w) (\<lambda>files.
     for_entries (validate_log_file F directory w) files ()))"

definition existing_runtime_logs :: "'w maint_ops \<Rightarrow> wide \<Rightarrow> 'w \<Rightarrow> wide option res" where
  "existing_runtime_logs F path w =
     (case mo_metadata F (logs_of path) w of
        Inr _ \<Rightarrow>
          bindR (mo_open_logs F (logs_of path) (mo_service_sid F) ''S-1-5-19'' w) (\<lambda>_.
          bindR (validate_runtime_log_files F (logs_of path) w) (\<lambda>_.
          Inr (Some (logs_of path))))
      | Inl e \<Rightarrow> if io_kind e = NotFound then Inr None else Inl (Io e))"

section \<open>Descriptors of a tree\<close>

definition push_target :: "'w maint_ops \<Rightarrow> wide option \<Rightarrow> wide \<Rightarrow> io_error + wide \<Rightarrow> wide list \<times> nat \<Rightarrow> (wide list \<times> nat) res" where
  "push_target F excluded current entry = (\<lambda>(targets, payload).
     bindR (io_res entry) (\<lambda>name.
     let target = path_join current name in
     if excluded = Some target then Inr (targets, payload)
     else try_push_bounded_path (mo_grants F) targets target (path_units target) payload
       max_maintenance_tree_nodes max_maintenance_path_bytes))"

lemma path_pushed:
  "try_push_bounded_path g items x units payload limit path_limit = Inr (items', payload') \<Longrightarrow>
     length items + 1 \<le> limit \<and> items' = items @ [x]"
  by (auto simp: try_push_bounded_path_def try_reserve_bounded_def bindR_Inr_iff checked_add64_def split: if_splits)

lemma push_target_budget:
  "push_target F excluded current entry (targets, payload) = Inr (targets', payload') \<Longrightarrow>
     length targets' \<le> max max_maintenance_tree_nodes (length targets)"
  by (auto simp: push_target_def bindR_Inr_iff Let_def split: if_splits dest!: path_pushed)

lemma push_targets_budget:
  "for_entries (push_target F excluded current) entries (targets, payload) = Inr (targets', payload') \<Longrightarrow>
     length targets' \<le> max max_maintenance_tree_nodes (length targets)"
proof (induction entries arbitrary: targets payload)
  case (Cons entry entries)
  then obtain targets1 payload1 where
    "push_target F excluded current entry (targets, payload) = Inr (targets1, payload1)"
    "for_entries (push_target F excluded current) entries (targets1, payload1) = Inr (targets', payload')"
    by (auto simp: bindR_Inr_iff)
  with Cons.IH push_target_budget show ?case by fastforce
qed simp

text \<open>The targets from \<open>index\<close> on are still to be opened; the list grows at its end.\<close>

function collect_targets :: "'w maint_ops \<Rightarrow> wide option \<Rightarrow> 'w \<Rightarrow> nat \<Rightarrow> wide list \<Rightarrow> nat \<Rightarrow> wide list res" where
  "collect_targets F excluded w index targets payload =
     (if index < length targets then
        let current = targets ! index in
        case io_res (mo_metadata F current w) of
          Inl e \<Rightarrow> Inl e
        | Inr m \<Rightarrow>
            if is_dir m then
              (case bindR (io_res (mo_read_dir F current w))
                  (\<lambda>entries. for_entries (push_target F excluded current) entries (targets, payload)) of
                 Inl e \<Rightarrow> Inl e
               | Inr (targets, payload) \<Rightarrow> collect_targets F excluded w (index + 1) targets payload)
            else collect_targets F excluded w (index + 1) targets payload
      else Inr targets)"
  by pat_completeness auto
termination
proof (relation "measure (\<lambda>(F, excluded, w, index, targets, payload). max max_maintenance_tree_nodes (length targets) - index)",
    goal_cases)
  case (2 F excluded w index targets payload current m x targets' payload')
  note step = this
  from step(5,6) obtain entries where
    "for_entries (push_target F excluded (targets ! index)) entries (targets, payload) = Inr (targets', payload')"
    by (auto simp: bindR_Inr_iff step(2))
  from push_targets_budget [OF this] step(1) show ?case by (auto simp: max_def split: if_splits)
qed auto

declare collect_targets.simps [simp del]

fun apply_targets :: "'w maint_ops \<Rightarrow> string \<Rightarrow> wide option \<Rightarrow> wide list \<Rightarrow> ('w, client_error, unit) tx" where
  "apply_targets F descriptor anchor [] = returnT ()"
| "apply_targets F descriptor anchor (target # targets) =
     (if (case anchor of None \<Rightarrow> False | Some path \<Rightarrow> path_eq target path) then apply_targets F descriptor anchor targets
      else bindT (set_managed_security_descriptor F target descriptor) (\<lambda>_. apply_targets F descriptor anchor targets))"

definition first_target :: "'w maint_ops \<Rightarrow> wide \<Rightarrow> (wide list \<times> nat) res" where
  "first_target F path =
     try_push_bounded_path (mo_grants F) [] path (path_units path) 0 max_maintenance_tree_nodes max_maintenance_path_bytes"

definition apply_descriptor_recursively :: "'w maint_ops \<Rightarrow> wide \<Rightarrow> string \<Rightarrow> ('w, client_error, unit) tx" where
  "apply_descriptor_recursively F path descriptor =
     bindT (readT (validate_tree F path)) (\<lambda>_.
     bindT (liftR (first_target F path)) (\<lambda>(targets, payload).
     bindT (readT (\<lambda>w. collect_targets F None w 0 targets payload)) (\<lambda>targets.
     apply_targets F descriptor None (rev targets))))"

definition apply_exact_acl_inner ::
  "'w maint_ops \<Rightarrow> wide \<Rightarrow> string option \<Rightarrow> bool \<Rightarrow> wide option \<Rightarrow> bool \<Rightarrow> ('w, client_error, unit) tx" where
  "apply_exact_acl_inner F path service_sid recursive excluded preserve_log_anchor =
     (let descriptor = managed_state_security_descriptor service_sid in
      bindT (liftR (first_target F path)) (\<lambda>(targets, payload).
      bindT (if recursive
          then bindT (readT (validate_tree F path)) (\<lambda>_. readT (\<lambda>w. collect_targets F excluded w 0 targets payload))
          else returnT targets) (\<lambda>targets.
      apply_targets F descriptor (if preserve_log_anchor then Some path else None) (rev targets))))"

definition apply_exact_acl :: "'w maint_ops \<Rightarrow> wide \<Rightarrow> string option \<Rightarrow> bool \<Rightarrow> ('w, client_error, unit) tx" where
  "apply_exact_acl F path service_sid recursive = apply_exact_acl_inner F path service_sid recursive None False"

definition secure_state_acl :: "'w maint_ops \<Rightarrow> wide \<Rightarrow> string option \<Rightarrow> ('w, client_error, unit) tx" where
  "secure_state_acl F path service_sid =
     bindT (readT (existing_runtime_logs F path)) (\<lambda>runtime_logs.
     bindT (if runtime_logs \<noteq> None then readT (validate_managed_dacl F path True) else returnT ()) (\<lambda>_.
     bindT (apply_exact_acl_inner F path service_sid True (Some (logs_of path)) (runtime_logs \<noteq> None)) (\<lambda>_.
     case runtime_logs of
       None \<Rightarrow> returnT ()
     | Some directory \<Rightarrow>
         bindT (readT (validate_managed_dacl F path True)) (\<lambda>_.
         readT (validate_runtime_log_files F directory)))))"

definition secure_system_admin_only :: "'w maint_ops \<Rightarrow> wide \<Rightarrow> bool \<Rightarrow> ('w, client_error, unit) tx" where
  "secure_system_admin_only F path recursive =
     (if recursive then secure_state_acl F path None else apply_exact_acl F path None False)"

definition secure_state_for_service :: "'w maint_ops \<Rightarrow> wide \<Rightarrow> ('w, client_error, unit) tx" where
  "secure_state_for_service F path = secure_state_acl F path (Some (mo_service_sid F))"

definition secure_program_for_service :: "'w maint_ops \<Rightarrow> wide \<Rightarrow> ('w, client_error, unit) tx" where
  "secure_program_for_service F path = apply_descriptor_recursively F path (program_security_descriptor (mo_service_sid F))"

section \<open>Walks of a tree\<close>

text \<open>
  The loop that \<open>validate_program_tree\<close>, \<open>save_acl\<close> and \<open>collect_current_acl_path_facts\<close> share: the
  last directory or file is taken, \<open>look\<close> looks at it and says whether its children are put
  behind the others, \<open>leave\<close> follows when they are.
\<close>

definition enqueue_child :: "'w maint_ops \<Rightarrow> wide \<Rightarrow> io_error + wide \<Rightarrow> wide list \<times> nat \<times> nat \<Rightarrow> (wide list \<times> nat \<times> nat) res" where
  "enqueue_child F directory entry = (\<lambda>(pending, discovered, payload).
     bindR (io_res entry) (\<lambda>name.
     let child = path_join directory name in
     enqueue_bounded_tree_path (mo_grants F) pending discovered child (path_units child) payload
       max_maintenance_tree_nodes max_maintenance_path_bytes))"

lemma enqueue_child_budget: "enqueue_child F directory entry x = Inr y \<Longrightarrow> tree_budget y \<le> tree_budget x"
  by (cases x; cases y) (auto simp: enqueue_child_def tree_budget_def bindR_Inr_iff Let_def dest!: enqueued)

lemma enqueue_entries_budget:
  "for_entries (enqueue_child F directory) entries x = Inr y \<Longrightarrow> tree_budget y \<le> tree_budget x"
  by (erule for_entries_budget [rotated], rule enqueue_child_budget)

definition enqueue_children ::
  "'w maint_ops \<Rightarrow> wide \<Rightarrow> bool \<Rightarrow> wide list \<times> nat \<times> nat \<Rightarrow> 'w \<Rightarrow> (wide list \<times> nat \<times> nat) res" where
  "enqueue_children F target descend x w =
     (if descend then
        bindR (with_context ''failed to enumerate'' (io_res (mo_read_dir F target w))) (\<lambda>entries.
        for_entries (enqueue_child F target) entries x)
      else Inr x)"

lemma enqueue_children_budget: "enqueue_children F target descend x w = Inr y \<Longrightarrow> tree_budget y \<le> tree_budget x"
  by (auto simp: enqueue_children_def bindR_Inr_iff split: if_splits
      dest: enqueue_entries_budget)

function walk_tree ::
  "'w maint_ops \<Rightarrow> 'w \<Rightarrow> (wide \<Rightarrow> nat \<Rightarrow> 'a \<Rightarrow> (bool \<times> nat \<times> 'a) res) \<Rightarrow> (wide \<Rightarrow> bool \<Rightarrow> 'a \<Rightarrow> 'a res) \<Rightarrow>
     wide list \<times> nat \<times> nat \<Rightarrow> 'a \<Rightarrow> 'a res" where
  "walk_tree F w look leave (pending, discovered, payload) acc =
     (if pending = [] then Inr acc
      else
        let target = last pending in
        case look target payload acc of
          Inl e \<Rightarrow> Inl e
        | Inr (descend, payload, acc) \<Rightarrow>
            (case enqueue_children F target descend (butlast pending, discovered, payload) w of
               Inl e \<Rightarrow> Inl e
             | Inr x \<Rightarrow>
                 (case leave target descend acc of
                    Inl e \<Rightarrow> Inl e
                  | Inr acc \<Rightarrow> walk_tree F w look leave x acc)))"
  by pat_completeness auto
termination
proof (relation "measure (\<lambda>(F, w, look, leave, x, acc). tree_budget x)", goal_cases)
  case (2 F w look leave pending discovered payload acc target y descend z payload' acc' x acc'')
  then have "tree_budget (butlast pending, discovered, payload') < tree_budget (pending, discovered, payload)"
    by (cases pending) (simp_all add: tree_budget_def)
  moreover have "tree_budget x \<le> tree_budget (butlast pending, discovered, payload')"
    using 2 by (blast dest: enqueue_children_budget)
  ultimately show ?case by simp
qed simp

declare walk_tree.simps [simp del]

text \<open>The walk of a whole tree, from its root.\<close>

definition walk_from ::
  "'w maint_ops \<Rightarrow> wide \<Rightarrow> 'w \<Rightarrow> (wide \<Rightarrow> nat \<Rightarrow> 'a \<Rightarrow> (bool \<times> nat \<times> 'a) res) \<Rightarrow> (wide \<Rightarrow> bool \<Rightarrow> 'a \<Rightarrow> 'a res) \<Rightarrow> 'a \<Rightarrow> 'a res" where
  "walk_from F root w look leave acc =
     bindR (enqueue_bounded_tree_path (mo_grants F) [] 0 root (path_units root) 0
       max_maintenance_tree_nodes max_maintenance_path_bytes) (\<lambda>x.
     walk_tree F w look leave x acc)"

definition program_before :: "'w maint_ops \<Rightarrow> 'w \<Rightarrow> wide \<Rightarrow> nat \<Rightarrow> unit \<Rightarrow> (bool \<times> nat \<times> unit) res" where
  "program_before F w target payload u =
     bindR (validate_program_dacl F target w) (\<lambda>_.
     bindR (io_res (mo_metadata F target w)) (\<lambda>m.
     Inr (is_dir m, payload, ())))"

definition validate_program_tree :: "'w maint_ops \<Rightarrow> wide \<Rightarrow> 'w \<Rightarrow> unit res" where
  "validate_program_tree F path w =
     bindR (validate_tree F path w) (\<lambda>_.
     walk_from F path w (program_before F w) (\<lambda>target descend u. Inr ()) ())"

section \<open>Snapshot\<close>

definition save_before :: "'w maint_ops \<Rightarrow> 'w \<Rightarrow> wide \<Rightarrow> nat \<Rightarrow> 'a \<Rightarrow> (bool \<times> nat \<times> 'a) res" where
  "save_before F w target payload acc =
     bindR (io_res (mo_metadata F target w)) (\<lambda>m. Inr (is_dir m, payload, acc))"

definition relative_to :: "wide \<Rightarrow> wide \<Rightarrow> wide res" where
  "relative_to root target = ok_or (Message ''escaped the fixed managed root'') (path_strip root target)"

definition save_after ::
  "'w maint_ops \<Rightarrow> wide \<Rightarrow> 'w \<Rightarrow> wide \<Rightarrow> bool \<Rightarrow> acl_snapshot_entry list \<times> nat \<Rightarrow> (acl_snapshot_entry list \<times> nat) res" where
  "save_after F root w target directory = (\<lambda>(entries, payload_bytes).
     bindR (relative_to root target) (\<lambda>relative.
     bindR (security_descriptor_sddl F target w) (\<lambda>sddl.
     try_push_bounded_acl_snapshot_entry (mo_grants F) entries
       \<lparr>ae_relative_path = relative, ae_is_directory = directory, ae_sddl = sddl\<rparr>
       (length relative) (length sddl) payload_bytes max_acl_snapshot_entries max_acl_snapshot_bytes)))"

definition snapshot_entries :: "'w maint_ops \<Rightarrow> wide \<Rightarrow> 'w \<Rightarrow> acl_snapshot_entry list res" where
  "snapshot_entries F root w =
     bindR (validate_tree F root w) (\<lambda>_.
     bindR (walk_from F root w (save_before F w) (save_after F root w) ([], 0)) (\<lambda>(entries, payload_bytes).
     Inr (sort_key ae_relative_path entries)))"

text \<open>\<open>BoundedAclSnapshotWriter::write\<close>: one piece of the text.\<close>

definition write_snapshot_piece :: "'w maint_ops \<Rightarrow> string \<Rightarrow> string \<Rightarrow> string res" where
  "write_snapshot_piece F input bytes =
     bindR (ok_or (Message ''ACL snapshot size overflowed'') (checked_add64 (length bytes) (length input))) (\<lambda>requested.
     bindR (ensureR (requested \<le> max_acl_snapshot_bytes) (Message ''ACL snapshot exceeds the hard limit'')) (\<lambda>_.
     bindR (ensureR (mo_grants F requested) (Message ''failed to reserve ACL snapshot bytes within the hard limit'')) (\<lambda>_.
     Inr (bytes @ input))))"

definition serialize_acl_snapshot_bounded :: "'w maint_ops \<Rightarrow> acl_snapshot \<Rightarrow> string res" where
  "serialize_acl_snapshot_bounded F snapshot =
     with_context ''failed to serialize bounded ACL snapshot'' (for_entries (write_snapshot_piece F) (mo_encode_acl F snapshot) [])"

definition save_acl :: "'w maint_ops \<Rightarrow> wide \<Rightarrow> wide \<Rightarrow> ('w, client_error, unit) tx" where
  "save_acl F root destination =
     bindT (readT (snapshot_entries F root)) (\<lambda>entries.
     bindT (liftR (serialize_acl_snapshot_bounded F
       \<lparr>as_format = snapshot_format, as_application_version = mo_version F, as_entries = entries\<rparr>)) (\<lambda>bytes.
     write_new_private F destination bytes))"

section \<open>Restoration\<close>

definition current_before ::
  "'w maint_ops \<Rightarrow> wide \<Rightarrow> 'w \<Rightarrow> wide \<Rightarrow> nat \<Rightarrow> acl_current_path_fact list \<Rightarrow> (bool \<times> nat \<times> acl_current_path_fact list) res" where
  "current_before F root w target payload facts =
     bindR (with_context ''failed to inspect ACL restore target'' (io_res (mo_metadata F target w))) (\<lambda>m.
     bindR (if is_file m \<and> \<not> fa_reparse m then map_ok Some (mo_links F target w) else Inr None) (\<lambda>hard_link_count.
     bindR (relative_to root target) (\<lambda>path_key.
     bindR (try_push_bounded_path (mo_grants F) facts
       \<lparr>cp_path_key = path_key, cp_is_directory = is_dir m, cp_is_regular_file = is_file m,
        cp_is_reparse_point = fa_reparse m, cp_hard_link_count = hard_link_count\<rparr>
       (length path_key) payload max_maintenance_tree_nodes max_maintenance_path_bytes) (\<lambda>(facts, payload).
     Inr (is_dir m \<and> \<not> fa_reparse m, payload, facts)))))"

definition collect_current_acl_path_facts :: "'w maint_ops \<Rightarrow> wide \<Rightarrow> 'w \<Rightarrow> acl_current_path_fact list res" where
  "collect_current_acl_path_facts F root w = walk_from F root w (current_before F root w) (\<lambda>target descend facts. Inr facts) []"

type_synonym restore_lists = "acl_snapshot_path_fact list \<times> (wide \<times> string) list \<times> nat"

definition restore_target :: "wide \<Rightarrow> wide \<Rightarrow> wide" where
  "restore_target root relative = (if relative = [] then root else path_join root relative)"

definition restore_entry :: "'w maint_ops \<Rightarrow> wide \<Rightarrow> acl_snapshot_entry \<Rightarrow> restore_lists \<Rightarrow> restore_lists res" where
  "restore_entry F root entry = (\<lambda>(facts, targets, payload).
     let relative = ae_relative_path entry; target = restore_target root relative in
     bindR (validate_saved_security_descriptor F (ae_sddl entry)) (\<lambda>_.
     bindR (try_push_bounded_path (mo_grants F) facts
       \<lparr>sp_path_key = relative, sp_depth = component_count relative, sp_valid_relative_path = all_normal relative,
        sp_is_directory = ae_is_directory entry\<rparr>
       (length relative) payload max_acl_snapshot_entries max_maintenance_path_bytes) (\<lambda>(facts, payload).
     bindR (try_push_bounded_path (mo_grants F) targets (target, ae_sddl entry)
       (path_units target) payload max_acl_snapshot_entries max_maintenance_path_bytes) (\<lambda>(targets, payload).
     Inr (facts, targets, payload)))))"

definition read_acl_snapshot :: "'w maint_ops \<Rightarrow> wide \<Rightarrow> 'w \<Rightarrow> acl_snapshot_entry list res" where
  "read_acl_snapshot F source w =
     bindR (read_file_bounded (io_res (mo_read F source w)) max_acl_snapshot_bytes) (\<lambda>bytes.
     bindR (ok_or (Message ''malformed ACL snapshot'') (mo_decode_acl F bytes)) (\<lambda>snapshot.
     bindR (ensureR (as_format snapshot = snapshot_format \<and> as_application_version snapshot = mo_version F)
       (Message ''unsupported ACL snapshot version'')) (\<lambda>_.
     bindR (ensureR (length (as_entries snapshot) \<le> max_acl_snapshot_entries)
       (Message ''ACL snapshot exceeds the hard limit'')) (\<lambda>_.
     Inr (as_entries snapshot)))))"

definition restore_lists_of :: "'w maint_ops \<Rightarrow> wide \<Rightarrow> acl_snapshot_entry list \<Rightarrow> restore_lists res" where
  "restore_lists_of F root entries =
     bindR (try_reserve_bounded (mo_grants F) ([] :: acl_snapshot_path_fact list) (length entries) max_acl_snapshot_entries) (\<lambda>_.
     bindR (try_reserve_bounded (mo_grants F) ([] :: (wide \<times> string) list) (length entries) max_acl_snapshot_entries) (\<lambda>_.
     for_entries (restore_entry F root) entries ([], [], 0)))"

definition restore_one :: "'w maint_ops \<Rightarrow> (wide \<times> string) list \<Rightarrow> nat \<Rightarrow> ('w, client_error, unit) tx" where
  "restore_one F targets index =
     (let (target, sddl) = targets ! index in
      bindT (restore_security_descriptor F target sddl) (\<lambda>_.
      bindT (readT (security_descriptor_sddl F target)) (\<lambda>actual.
      liftR (ensureR (actual = sddl) (Message ''restored owner/DACL did not verify'')))))"

definition restore_acl :: "'w maint_ops \<Rightarrow> wide \<Rightarrow> wide \<Rightarrow> ('w, client_error, unit) tx" where
  "restore_acl F root source =
     bindT (readT (read_acl_snapshot F source)) (\<lambda>entries.
     bindT (liftR (restore_lists_of F root entries)) (\<lambda>(snapshot_facts, restore_entries, _).
     bindT (readT (collect_current_acl_path_facts F root)) (\<lambda>current_facts.
     run_validated_acl_restore_plan (mo_grants F) snapshot_facts current_facts (restore_one F restore_entries))))"

end
