(* ===== verification/Windows_Service.thy ===== *)
theory Windows_Service
  imports Windows_Descriptors
begin

text \<open>
  The service manager, \<open>src/windows/maintenance/service.rs\<close>: the checks that the registered
  service is the product's, its SID type and its policy after failures, and the bounded
  waits for its state. Time passes in \<open>mo_sleep\<close>. The waits take fuel: a turn sleeps a quarter
  of a second, so 121 turns outlast the thirty seconds.
\<close>

section \<open>The registered service\<close>

definition service_query_config :: "32 word" where "service_query_config = 0x0001"
definition service_change_config :: "32 word" where "service_change_config = 0x0002"
definition service_query_status :: "32 word" where "service_query_status = 0x0004"
definition service_start_access :: "32 word" where "service_start_access = 0x0010"
definition service_stop_access :: "32 word" where "service_stop_access = 0x0020"

definition windows_service_name :: string where "windows_service_name = ''xsoc''"

definition hresult_from_win32 :: "32 word \<Rightarrow> 32 word" where
  "hresult_from_win32 code = or 0x80070000 code"

definition error_service_does_not_exist :: "32 word" where "error_service_does_not_exist = 1060"

text \<open>Whether there is a service to hold a handle of.\<close>

definition open_client_service :: "'w maint_ops \<Rightarrow> 32 word \<Rightarrow> 'w \<Rightarrow> bool res" where
  "open_client_service F desired_access w =
     bindR (with_context ''failed to open the Service Control Manager'' (io_res (mo_open_manager F w))) (\<lambda>_.
     case mo_open_service F windows_service_name desired_access w of
       Inr _ \<Rightarrow> Inr True
     | Inl (code, e) \<Rightarrow>
         if code = hresult_from_win32 error_service_does_not_exist then Inr False
         else Inl (Context ''failed to open xsoc service'' (Io e)))"

definition service_config_header :: nat where "service_config_header = 64"

definition query_service_config :: "'w maint_ops \<Rightarrow> 'w \<Rightarrow> service_config res" where
  "query_service_config F w =
     (let (failed, needed) = mo_config_size F w in
      bindR (ensureR (failed \<and> service_config_header \<le> needed \<and> needed \<le> 8192)
        (Message ''could not determine xsoc configuration size'')) (\<lambda>_.
      io_res (mo_config F ((needed + 7) div 8 * 8) w)))"

text \<open>A string of the buffer, by its address: inside the buffer, aligned and terminated there.\<close>

definition service_config_string :: "nat \<Rightarrow> wide \<Rightarrow> nat \<Rightarrow> string res" where
  "service_config_string base buffer pointer =
     bindR (ok_or (Message ''service config bounds overflow'') (checked_add64 base (2 * length buffer))) (\<lambda>end_address.
     bindR (ensureR (base \<le> pointer \<and> pointer < end_address \<and> even pointer)
       (Message ''service config string is outside its returned buffer'')) (\<lambda>_.
     let units = take ((end_address - pointer) div 2) (drop ((pointer - base) div 2) buffer) in
     bindR (ensureR (0 \<in> set units) (Message ''service config string is not terminated'')) (\<lambda>_.
     ok_or (Message ''service config string is invalid UTF-16'') (wide_to_str (takeWhile (\<lambda>u. u \<noteq> 0) units)))))"

definition collect_text :: "wide \<Rightarrow> string list \<Rightarrow> string list res" where
  "collect_text units texts =
     bindR (ok_or (Message ''invalid UTF-16'') (wide_to_str units)) (\<lambda>s. Inr (texts @ [s]))"

definition split_windows_command_line :: "'w maint_ops \<Rightarrow> string \<Rightarrow> string list res" where
  "split_windows_command_line F command_line =
     bindR (ensureR (length (wide_of command_line) \<le> 8192) (Message ''service ImagePath exceeds its limit'')) (\<lambda>_.
     bindR (ok_or (Message ''failed to parse service ImagePath'') (mo_arguments F (wide_of command_line))) (\<lambda>arguments.
     bindR (ensureR (1 \<le> length arguments \<and> length arguments \<le> 128)
       (Message ''service ImagePath argument count exceeds its limit'')) (\<lambda>_.
     for_entries collect_text arguments [])))"

definition is_local_service_name :: "string \<Rightarrow> bool" where
  "is_local_service_name name \<longleftrightarrow>
     map to_ascii_lower (trim name) \<in> set [''s-1-5-19'', ''localservice'',
       ''nt authority'' @ [CHR 0x5C] @ ''localservice'', ''nt authority'' @ [CHR 0x5C] @ ''local service'']"

definition service_win32_own_process :: "32 word" where "service_win32_own_process = 0x10"

definition service_startup_types :: "32 word list" where
  "service_startup_types = [2, 3, 4]"

definition client_command_line :: "fixed_paths \<Rightarrow> string list \<Rightarrow> bool" where
  "client_command_line paths arguments \<longleftrightarrow>
     eq_ignore_ascii_case (arguments ! 0) (wide_lossy (fp_program_exe paths)) \<and>
     arguments ! 1 = ''--windows-service'' \<and> arguments ! 2 = ''run'' \<and> arguments ! 3 = ''--config'' \<and>
     eq_ignore_ascii_case (arguments ! 4) (wide_lossy (fp_config paths))"

definition validate_client_service :: "'w maint_ops \<Rightarrow> fixed_paths \<Rightarrow> 'w \<Rightarrow> unit res" where
  "validate_client_service F paths w =
     bindR (query_service_config F w) (\<lambda>config.
     bindR (ensureR (sc_type config = service_win32_own_process) (Message ''xsoc is not an own-process service'')) (\<lambda>_.
     bindR (ensureR (sc_start config \<in> set service_startup_types)
       (Message ''xsoc has an unsupported service startup type'')) (\<lambda>_.
     bindR (service_config_string (sc_base config) (sc_units config) (sc_path config)) (\<lambda>image_path.
     bindR (split_windows_command_line F image_path) (\<lambda>arguments.
     bindR (ensureR (length arguments = 5) (Message ''xsoc ImagePath argument count is invalid'')) (\<lambda>_.
     bindR (ensureR (client_command_line paths arguments)
       (Message ''xsoc ImagePath does not match the fixed executable and arguments'')) (\<lambda>_.
     bindR (service_config_string (sc_base config) (sc_units config) (sc_account config)) (\<lambda>start_name.
     ensureR (is_local_service_name start_name) (Message ''xsoc does not run as LOCAL SERVICE'')))))))))"

section \<open>SID type and failure policy\<close>

definition service_config_failure_actions_flag :: nat where "service_config_failure_actions_flag = 4"
definition service_config_service_sid_info :: nat where "service_config_service_sid_info = 5"
definition service_sid_type_unrestricted :: "32 word" where "service_sid_type_unrestricted = 1"

text \<open>Both information structures are one DWORD.\<close>

definition query_service_sid_type :: "'w maint_ops \<Rightarrow> 'w \<Rightarrow> 32 word res" where
  "query_service_sid_type F w =
     (let (failed, needed) = mo_config2_size F service_config_service_sid_info w in
      bindR (ensureR (failed \<and> 4 \<le> needed) (Message ''could not size service SID query'')) (\<lambda>_.
      io_res (mo_config2 F service_config_service_sid_info needed w)))"

definition set_service_sid_type :: "'w maint_ops \<Rightarrow> 32 word \<Rightarrow> ('w, client_error, unit) tx" where
  "set_service_sid_type F sid_type =
     contextT ''failed to configure the xsoc service SID'' (io_tx (mo_change_config2 F service_config_service_sid_info sid_type))"

definition query_failure_actions_on_non_crash :: "'w maint_ops \<Rightarrow> 'w \<Rightarrow> bool res" where
  "query_failure_actions_on_non_crash F w =
     (let (failed, needed) = mo_config2_size F service_config_failure_actions_flag w in
      bindR (ensureR (failed \<and> 4 \<le> needed) (Message ''could not size the non-crash failure policy query'')) (\<lambda>_.
      bindR (io_res (mo_config2 F service_config_failure_actions_flag needed w)) (\<lambda>flag.
      Inr (flag \<noteq> 0))))"

definition set_failure_actions_on_non_crash :: "'w maint_ops \<Rightarrow> bool \<Rightarrow> ('w, client_error, unit) tx" where
  "set_failure_actions_on_non_crash F enabled =
     contextT ''failed to configure non-crash xsoc recovery''
       (io_tx (mo_change_config2 F service_config_failure_actions_flag (if enabled then 1 else 0)))"

section \<open>State\<close>

definition service_stopped :: "32 word" where "service_stopped = 1"
definition service_start_pending :: "32 word" where "service_start_pending = 2"
definition service_stop_pending :: "32 word" where "service_stop_pending = 3"
definition service_running :: "32 word" where "service_running = 4"

definition query_service_status :: "'w maint_ops \<Rightarrow> 'w \<Rightarrow> 32 word res" where
  "query_service_status F w = with_context ''failed to query xsoc service status'' (io_res (mo_service_state F w))"

definition service_is_active :: "'w maint_ops \<Rightarrow> 'w \<Rightarrow> bool res" where
  "service_is_active F w =
     bindR (query_service_status F w) (\<lambda>state.
     if state = service_running then Inr True
     else if state = service_stopped then Inr False
     else Inl (Message ''xsoc is not in a stable running/stopped state''))"

text \<open>
  The loop of both waits: \<open>accept\<close> ends it, a state that is not \<open>allowed\<close> and the deadline fail.
  \<open>None\<close> is fuel that has run out.
\<close>

fun wait_loop ::
  "'w maint_ops \<Rightarrow> (32 word \<Rightarrow> bool) \<Rightarrow> (32 word \<Rightarrow> bool) \<Rightarrow> nat \<Rightarrow> nat \<Rightarrow> 'w \<Rightarrow> ((client_error + 32 word) \<times> 'w) option" where
  "wait_loop F accept allowed deadline 0 w = None"
| "wait_loop F accept allowed deadline (Suc fuel) w =
     (case query_service_status F w of
        Inl e \<Rightarrow> Some (Inl e, w)
      | Inr state \<Rightarrow>
          if accept state then Some (Inr state, w)
          else if \<not> allowed state then Some (Inl (Message ''xsoc entered unsupported rollback state''), w)
          else if \<not> mo_now F w < deadline then Some (Inl (Message ''xsoc did not reach the state within 30 seconds''), w)
          else wait_loop F accept allowed deadline fuel (mo_sleep F 250 w))"

definition wait_fuel :: nat where "wait_fuel = 121"

definition wait_for :: "'w maint_ops \<Rightarrow> (32 word \<Rightarrow> bool) \<Rightarrow> (32 word \<Rightarrow> bool) \<Rightarrow> ('w, client_error, 32 word) tx" where
  "wait_for F accept allowed w =
     (case wait_loop F accept allowed (mo_now F w + stop_timeout) wait_fuel w of
        Some r \<Rightarrow> r
      | None \<Rightarrow> (Inl (Panic ''the wait ran out of fuel''), w))"

definition wait_for_stable_service_state :: "'w maint_ops \<Rightarrow> ('w, client_error, 32 word) tx" where
  "wait_for_stable_service_state F =
     wait_for F (\<lambda>state. state = service_running \<or> state = service_stopped)
       (\<lambda>state. state = service_start_pending \<or> state = service_stop_pending)"

definition wait_for_service_state :: "'w maint_ops \<Rightarrow> 32 word \<Rightarrow> ('w, client_error, unit) tx" where
  "wait_for_service_state F expected =
     bindT (wait_for F (\<lambda>state. state = expected) (\<lambda>state. True)) (\<lambda>_. returnT ())"

definition stop_client_service :: "'w maint_ops \<Rightarrow> ('w, client_error, unit) tx" where
  "stop_client_service F =
     bindT (wait_for_stable_service_state F) (\<lambda>state.
     bindT (if state \<noteq> service_stopped
         then contextT ''failed to stop xsoc for maintenance'' (io_tx (mo_stop_service F)) else returnT ()) (\<lambda>_.
     wait_for_service_state F service_stopped))"

datatype program_acl_restore = Preserve_Snapshot | Secure_Current

definition restore_service_state ::
  "'w maint_ops \<Rightarrow> fixed_paths \<Rightarrow> 32 word \<Rightarrow> bool \<Rightarrow> bool \<Rightarrow> program_acl_restore \<Rightarrow> ('w, client_error, unit) tx" where
  "restore_service_state F paths sid_type failure_actions_on_non_crash should_be_running program_acl =
     bindT (readT (open_client_service F
       (service_change_config + service_query_config + service_query_status + service_start_access + service_stop_access))) (\<lambda>present.
     bindT (liftR (ensureR present (Message ''the rollback xsoc service is not present''))) (\<lambda>_.
     bindT (readT (validate_client_service F paths)) (\<lambda>_.
     bindT (case program_acl of
         Preserve_Snapshot \<Rightarrow> readT (validate_program_tree F (fp_program_root paths))
       | Secure_Current \<Rightarrow>
           bindT (secure_program_for_service F (fp_program_root paths)) (\<lambda>_.
           readT (validate_program_tree F (fp_program_root paths)))) (\<lambda>_.
     bindT (set_service_sid_type F sid_type) (\<lambda>_.
     bindT (readT (query_service_sid_type F)) (\<lambda>actual.
     bindT (liftR (ensureR (actual = sid_type) (Message ''restored service SID type did not verify''))) (\<lambda>_.
     bindT (set_failure_actions_on_non_crash F failure_actions_on_non_crash) (\<lambda>_.
     bindT (readT (query_failure_actions_on_non_crash F)) (\<lambda>actual.
     bindT (liftR (ensureR (actual = failure_actions_on_non_crash) (Message ''restored non-crash failure policy did not verify''))) (\<lambda>_.
     bindT (wait_for_stable_service_state F) (\<lambda>current.
     if should_be_running then
       bindT (if current = service_stopped
           then contextT ''failed to restart the rollback xsoc service'' (io_tx (mo_start_service F)) else returnT ()) (\<lambda>_.
       wait_for_service_state F service_running)
     else stop_client_service F)))))))))))"

end
