(* ===== verification/Windows_Journal.thy ===== *)
theory Windows_Journal
  imports Windows_Descriptors
begin

text \<open>
  Journals and the marker of the state directory, the second half of
  \<open>src/windows/maintenance/filesystem.rs\<close>.
\<close>

section \<open>Journals\<close>

definition read_snapshot :: "'w maint_ops \<Rightarrow> fixed_paths \<Rightarrow> 'w \<Rightarrow> install_snapshot res" where
  "read_snapshot F paths w =
     bindR (validate_real_directory F (fp_journal_root paths) w) (\<lambda>_.
     bindR (validate_tree F (fp_journal_root paths) w) (\<lambda>_.
     bindR (validate_managed_dacl F (fp_journal_root paths) False w) (\<lambda>_.
     bindR (io_res (mo_read F (path_join (fp_journal_root paths) snapshot_file) w)) (\<lambda>bytes.
     bindR (ok_or (Message ''malformed install journal'') (mo_decode_install F bytes)) (\<lambda>snapshot.
     bindR (ensureR (is_format snapshot = snapshot_format \<and> is_application_version snapshot = mo_version F)
       (Message ''unsupported maintenance journal version'')) (\<lambda>_.
     Inr snapshot))))))"

definition purge_started :: "'w maint_ops \<Rightarrow> fixed_paths \<Rightarrow> 'w \<Rightarrow> bool res" where
  "purge_started F paths w =
     (case mo_read F (path_join (fp_uninstall_journal_root paths) (purge_started_file F)) w of
        Inr content \<Rightarrow>
          bindR (ensureR (content = purge_started_content F)
            (Message ''purge transaction marker does not belong to the current package'')) (\<lambda>_. Inr True)
      | Inl e \<Rightarrow> if io_kind e = NotFound then Inr False else Inl (Context ''failed to read purge transaction marker'' (Io e)))"

definition read_uninstall_snapshot :: "'w maint_ops \<Rightarrow> fixed_paths \<Rightarrow> 'w \<Rightarrow> uninstall_snapshot res" where
  "read_uninstall_snapshot F paths w =
     bindR (validate_real_directory F (fp_uninstall_journal_root paths) w) (\<lambda>_.
     bindR (validate_tree F (fp_uninstall_journal_root paths) w) (\<lambda>_.
     bindR (validate_managed_dacl F (fp_uninstall_journal_root paths) False w) (\<lambda>_.
     bindR (io_res (mo_read F (path_join (fp_uninstall_journal_root paths) snapshot_file) w)) (\<lambda>bytes.
     bindR (ok_or (Message ''malformed uninstall journal'') (mo_decode_uninstall F bytes)) (\<lambda>snapshot.
     bindR (ensureR (us_format snapshot = snapshot_format \<and> us_application_version snapshot = mo_version F)
       (Message ''unsupported uninstall journal version'')) (\<lambda>_.
     bindR (purge_started F paths w) (\<lambda>_.
     Inr snapshot)))))))"

definition create_system_admin_only_directory :: "'w maint_ops \<Rightarrow> wide \<Rightarrow> ('w, client_error, unit) tx" where
  "create_system_admin_only_directory F path =
     bindT (liftR (with_context ''failed to build the protected directory security descriptor''
       (io_res (mo_parse_descriptor F protected_directory_security_descriptor)))) (\<lambda>descriptor.
     bindT (contextT ''failed to create protected'' (io_tx (mo_create_directory F path descriptor))) (\<lambda>_.
     bindT (tryT (bindT (readT (validate_real_directory F path)) (\<lambda>_. readT (validate_managed_dacl F path False)))) (\<lambda>result.
     case result of
       Inr _ \<Rightarrow> returnT ()
     | Inl error \<Rightarrow>
         bindT (tryT (remove_tree_no_reparse F path)) (\<lambda>cleanup.
         case cleanup of
           Inr _ \<Rightarrow> failT (Context ''failed to verify protected directory'' error)
         | Inl _ \<Rightarrow> failT (Context ''failed to verify protected directory; cleanup also failed'' error)))))"

definition create_protected_journal :: "'w maint_ops \<Rightarrow> wide \<Rightarrow> ('w, client_error, unit) tx" where
  "create_protected_journal F path = create_system_admin_only_directory F path"

section \<open>The marker\<close>

definition marker_prefix :: string where "marker_prefix = ''.xsoc-managed-''"

definition validate_marker_file :: "'w maint_ops \<Rightarrow> wide \<Rightarrow> 'w \<Rightarrow> unit res" where
  "validate_marker_file F marker w =
     bindR (with_context ''missing trusted state marker'' (io_res (mo_metadata F marker w))) (\<lambda>m.
     bindR (ensureR (is_file m) (Message ''state marker is not a regular file'')) (\<lambda>_.
     bindR (ensureR (\<not> fa_reparse m) (Message ''state marker is a reparse point'')) (\<lambda>_.
     bindR (mo_links F marker w) (\<lambda>n.
     bindR (ensureR (n = 1) (Message ''state marker has multiple hard links'')) (\<lambda>_.
     bindR (ok_or (Message ''state marker name is not valid Unicode'')
       (Option.bind (wide_file_name marker) wide_to_str)) (\<lambda>name.
     bindR (ok_or (Message ''state marker name is invalid'')
       (if starts_with marker_prefix name then Some (drop (length marker_prefix) name) else None)) (\<lambda>version.
     bindR (validate_windows_state_marker_version version) (\<lambda>_.
     ensureR (mo_read F marker w = Inr (''xsoc-windows-state-'' @ version @ crlf))
       (Message ''state marker content is invalid'')))))))))"

definition find_marker :: "'w maint_ops \<Rightarrow> wide \<Rightarrow> 'w \<Rightarrow> io_error + wide \<Rightarrow> wide option \<Rightarrow> wide option res" where
  "find_marker F state_root w entry found =
     bindR (io_res entry) (\<lambda>entry_name.
     let marker = path_join state_root entry_name in
     case Option.bind (wide_file_name marker) wide_to_str of
       None \<Rightarrow> Inr found
     | Some name \<Rightarrow>
         if starts_with marker_prefix name then
           bindR (validate_marker_file F marker w) (\<lambda>_.
           bindR (ensureR (found = None) (Message ''multiple conflicting state ownership markers'')) (\<lambda>_.
           Inr (Some marker)))
         else Inr found)"

definition existing_state_marker :: "'w maint_ops \<Rightarrow> fixed_paths \<Rightarrow> 'w \<Rightarrow> wide option res" where
  "existing_state_marker F paths w =
     bindR (with_context ''failed to enumerate state markers'' (io_res (mo_read_dir F (fp_state_root paths) w))) (\<lambda>entries.
     for_entries (find_marker F (fp_state_root paths) w) entries None)"

definition write_or_validate_state_marker :: "'w maint_ops \<Rightarrow> fixed_paths \<Rightarrow> ('w, client_error, unit) tx" where
  "write_or_validate_state_marker F paths =
     bindT (readT (validate_real_directory F (fp_state_root paths))) (\<lambda>_.
     bindT (readT (existing_state_marker F paths)) (\<lambda>found.
     let marker = (case found of Some marker \<Rightarrow> marker | None \<Rightarrow> path_join (fp_state_root paths) (wide state_marker)) in
     bindT (readT (\<lambda>w. Inr (mo_exists F marker w))) (\<lambda>present.
     if present then readT (validate_marker_file F marker)
     else
       bindT (write_new_private F marker state_marker_content) (\<lambda>_.
       bindT (tryT (bindT (apply_exact_acl F marker (Some (mo_service_sid F)) False)
         (\<lambda>_. readT (validate_managed_dacl F marker True)))) (\<lambda>result.
       case result of
         Inr _ \<Rightarrow> returnT ()
       | Inl error \<Rightarrow>
           bindT (ignoreT (mo_remove_file F marker)) (\<lambda>_.
           failT (Context ''failed to secure the new state marker'' error)))))))"

definition validate_state_marker :: "'w maint_ops \<Rightarrow> fixed_paths \<Rightarrow> bool \<Rightarrow> 'w \<Rightarrow> unit res" where
  "validate_state_marker F paths require_service_access w =
     bindR (existing_state_marker F paths w) (\<lambda>found.
     bindR (ok_or (Message ''missing trusted state ownership marker'') found) (\<lambda>marker.
     bindR (validate_marker_file F marker w) (\<lambda>_.
     bindR (if require_service_access then Inr None else existing_runtime_logs F (fp_state_root paths) w) (\<lambda>retained_logs.
     bindR (validate_managed_dacl F (fp_state_root paths) (require_service_access \<or> retained_logs \<noteq> None) w) (\<lambda>_.
     validate_managed_dacl F marker require_service_access w)))))"

end
