(* ===== verification/Windows_Transaction.thy ===== *)
theory Windows_Transaction
  imports Windows_Service Windows_Journal
begin

text \<open>
  The twelve commands of the Windows installer, \<open>src/windows/maintenance/transaction.rs\<close>, and their
  dispatch, \<open>run\<close> of \<open>src/windows/maintenance/mod.rs\<close>. A command keeps what it did before an
  error: the state of an \<open>Inl\<close> is the one at the point of the failure.
\<close>

section \<open>Installation\<close>

definition optional_service :: "bool \<Rightarrow> ('w \<Rightarrow> 'a res) \<Rightarrow> 'w \<Rightarrow> 'a option res" where
  "optional_service present query w = (if present then map_ok Some (query w) else Inr None)"

text \<open>The service that exists before an installation, and whether its SID type is to come back.\<close>

definition inspect_existing_service :: "'w maint_ops \<Rightarrow> fixed_paths \<Rightarrow> bool \<Rightarrow> bool \<Rightarrow> 'w \<Rightarrow> 32 word option res" where
  "inspect_existing_service F paths program_existed state_existed w =
     bindR (validate_client_service F paths w) (\<lambda>_.
     bindR (if state_existed \<and> \<not> is_ok (validate_state_marker F paths True w) then
         bindR (service_is_active F w) (\<lambda>active.
         bindR (ensureR (\<not> active) (Message ''running service state must retain service access'')) (\<lambda>_.
         validate_state_marker F paths False w))
       else Inr ()) (\<lambda>_.
     bindR (query_service_sid_type F w) (\<lambda>sid_type.
     Inr (if program_existed \<and> state_existed then Some sid_type else None))))"

text \<open>The part of \<open>prepare_install\<close> that only looks; it gives the record of the journal.\<close>

definition inspect_for_install :: "'w maint_ops \<Rightarrow> fixed_paths \<Rightarrow> 'w \<Rightarrow> (install_snapshot \<times> bool) res" where
  "inspect_for_install F paths w =
     bindR (ensure_absent F (fp_journal_root paths) w) (\<lambda>_.
     bindR (ensure_absent F (fp_uninstall_journal_root paths) w) (\<lambda>_.
     bindR (ensure_absent F (fp_quarantine_root paths) w) (\<lambda>_.
     bindR (validate_optional_root F (fp_program_root paths) w) (\<lambda>program_existed.
     bindR (if program_existed then validate_tree F (fp_program_root paths) w else Inr ()) (\<lambda>_.
     bindR (validate_optional_root F (fp_state_root paths) w) (\<lambda>state_existed.
     bindR (open_client_service F (service_query_config + service_query_status + service_stop_access) w) (\<lambda>existing_service.
     bindR (if program_existed then validate_program_tree F (fp_program_root paths) w else Inr ()) (\<lambda>_.
     bindR (if existing_service then inspect_existing_service F paths program_existed state_existed w else Inr None)
       (\<lambda>original_service_sid_type.
     bindR (optional_service existing_service (service_is_active F) w) (\<lambda>running.
     bindR (optional_service existing_service (query_failure_actions_on_non_crash F) w) (\<lambda>original_failure_actions.
     bindR (if state_existed \<and> \<not> existing_service then validate_state_marker F paths False w else Inr ()) (\<lambda>_.
     Inr (\<lparr>is_format = snapshot_format, is_application_version = mo_version F,
           is_program_existed = program_existed, is_state_existed = state_existed,
           is_service_sid_type = original_service_sid_type, is_failure_actions = original_failure_actions,
           is_service_running = (case running of Some b \<Rightarrow> b | None \<Rightarrow> False), is_state_acl_saved = state_existed\<rparr>,
          existing_service)))))))))))))"

definition prepare_install :: "'w maint_ops \<Rightarrow> fixed_paths \<Rightarrow> ('w, client_error, unit) tx" where
  "prepare_install F paths =
     bindT (readT (inspect_for_install F paths)) (\<lambda>(snapshot, existing_service).
     bindT (create_protected_journal F (fp_journal_root paths)) (\<lambda>_.
     bindT (tryT
       (bindT (write_new_private F (path_join (fp_journal_root paths) snapshot_file) (mo_encode_install F snapshot)) (\<lambda>_.
        readT (validate_tree F (fp_journal_root paths))))) (\<lambda>result.
     case result of
       Inl error \<Rightarrow> bindT (ignoreT (remove_tree_no_reparse F (fp_journal_root paths))) (\<lambda>_. failT error)
     | Inr _ \<Rightarrow>
         bindT (if existing_service then stop_client_service F else returnT ()) (\<lambda>_.
         bindT (if is_state_existed snapshot
             then save_acl F (fp_state_root paths) (path_join (fp_journal_root paths) state_acl_file) else returnT ()) (\<lambda>_.
         bindT (if is_program_existed snapshot
             then save_acl F (fp_program_root paths) (path_join (fp_journal_root paths) program_acl_file) else returnT ()) (\<lambda>_.
         readT (validate_tree F (fp_journal_root paths))))))))"

definition apply_state_root :: "'w maint_ops \<Rightarrow> fixed_paths \<Rightarrow> bool \<Rightarrow> ('w, client_error, unit) tx" where
  "apply_state_root F paths state_existed =
     (if state_existed then
        bindT (readT (validate_optional_root F (fp_state_root paths))) (\<lambda>present.
        bindT (liftR (ensureR present (Message ''the pre-existing Client state root disappeared before apply''))) (\<lambda>_.
        readT (validate_tree F (fp_state_root paths))))
      else
        bindT (readT (ensure_absent F (fp_state_root paths))) (\<lambda>_.
        bindT (create_system_admin_only_directory F (fp_state_root paths)) (\<lambda>_.
        write_new_private F (fp_config paths) (mo_default_config F))))"

definition apply_install :: "'w maint_ops \<Rightarrow> fixed_paths \<Rightarrow> ('w, client_error, unit) tx" where
  "apply_install F paths =
     bindT (readT (read_snapshot F paths)) (\<lambda>snapshot.
     bindT (readT (validate_optional_root F (fp_program_root paths))) (\<lambda>present.
     bindT (liftR (ensureR present (Message ''MSI did not create the program root''))) (\<lambda>_.
     bindT (readT (validate_tree F (fp_program_root paths))) (\<lambda>_.
     bindT (readT (validate_regular_single_link F (fp_program_exe paths))) (\<lambda>_.
     bindT (apply_state_root F paths (is_state_existed snapshot)) (\<lambda>_.
     bindT (readT (open_client_service F (service_query_config + service_change_config))) (\<lambda>service.
     bindT (liftR (ensureR service (Message ''MSI did not install the xsoc service''))) (\<lambda>_.
     bindT (readT (validate_client_service F paths)) (\<lambda>_.
     bindT (set_service_sid_type F service_sid_type_unrestricted) (\<lambda>_.
     bindT (readT (query_service_sid_type F)) (\<lambda>sid_type.
     bindT (liftR (ensureR (sid_type = service_sid_type_unrestricted)
       (Message ''xsoc service SID type verification failed''))) (\<lambda>_.
     bindT (set_failure_actions_on_non_crash F True) (\<lambda>_.
     bindT (readT (query_failure_actions_on_non_crash F)) (\<lambda>restarts.
     bindT (liftR (ensureR restarts (Message ''xsoc non-crash failure restart policy did not verify''))) (\<lambda>_.
     bindT (secure_program_for_service F (fp_program_root paths)) (\<lambda>_.
     bindT (readT (validate_program_tree F (fp_program_root paths))) (\<lambda>_.
     bindT (write_or_validate_state_marker F paths) (\<lambda>_.
     bindT (readT (validate_tree F (fp_state_root paths))) (\<lambda>_.
     bindT (secure_state_for_service F (fp_state_root paths)) (\<lambda>_.
     readT (validate_state_marker F paths True)))))))))))))))))))))"

text \<open>A step of a rollback whose failure is noted; the conditions before it are read in order.\<close>

definition note_failure :: "('w, client_error, unit) tx \<Rightarrow> ('w, client_error, client_error list) tx" where
  "note_failure m = bindT (tryT m) (\<lambda>result. returnT (case result of Inl e \<Rightarrow> [e] | Inr _ \<Rightarrow> []))"

definition when_noted :: "('w \<Rightarrow> bool res) \<Rightarrow> ('w, client_error, unit) tx \<Rightarrow> ('w, client_error, client_error list) tx" where
  "when_noted condition m = bindT (readT condition) (\<lambda>b. if b then note_failure m else returnT [])"

fun all_exist :: "'w maint_ops \<Rightarrow> bool \<Rightarrow> wide list \<Rightarrow> 'w \<Rightarrow> bool res" where
  "all_exist F b [] w = Inr b"
| "all_exist F b (path # paths) w =
     (if b then bindR (rollback_path_exists F path w) (\<lambda>b. all_exist F b paths w) else Inr False)"

definition remove_fresh_install_state :: "'w maint_ops \<Rightarrow> fixed_paths \<Rightarrow> ('w, client_error, unit) tx" where
  "remove_fresh_install_state F paths =
     (let root = fp_state_root paths; marker = path_join root (wide state_marker) in
      bindT (readT (validate_real_directory F root)) (\<lambda>_.
      bindT (readT (validate_tree F root)) (\<lambda>_.
      bindT (readT (\<lambda>w. Inr (mo_metadata F marker w))) (\<lambda>inspected.
      case inspected of
        Inr _ \<Rightarrow>
          bindT (readT (validate_marker_file F marker)) (\<lambda>_.
          bindT (readT (validate_managed_dacl F marker True)) (\<lambda>_.
          bindT (readT (\<lambda>w. if is_ok (validate_managed_dacl F root False w) then Inr ()
            else with_context ''fresh-install state root matches neither exact rollback-safe ACL mode''
              (validate_managed_dacl F root True w))) (\<lambda>_.
          remove_tree_no_reparse F root)))
      | Inl e \<Rightarrow>
          if io_kind e = NotFound then
            bindT (readT (\<lambda>w. Inr (is_ok (validate_managed_dacl F root False w)))) (\<lambda>exact.
            if exact then remove_tree_no_reparse F root
            else contextT ''failed to remove the empty fresh-install state root by handle''
              (remove_empty_directory_by_handle F root))
          else failT (Context ''failed to inspect the fresh-install state marker'' (Io e))))))"

definition rollback_install :: "'w maint_ops \<Rightarrow> fixed_paths \<Rightarrow> ('w, client_error, unit) tx" where
  "rollback_install F paths =
     bindT (readT (rollback_path_exists F (fp_journal_root paths))) (\<lambda>pending.
     if \<not> pending then returnT ()
     else
       bindT (readT (validate_real_directory F (fp_journal_root paths))) (\<lambda>_.
       bindT (readT (validate_tree F (fp_journal_root paths))) (\<lambda>_.
       bindT (readT (read_snapshot F paths)) (\<lambda>snapshot.
       let state_acl = path_join (fp_journal_root paths) state_acl_file;
           program_acl = path_join (fp_journal_root paths) program_acl_file in
       bindT (when_noted (all_exist F (is_state_acl_saved snapshot) [state_acl, fp_state_root paths])
         (restore_acl F (fp_state_root paths) state_acl)) (\<lambda>failures1.
       bindT (when_noted (all_exist F (is_program_existed snapshot) [program_acl, fp_program_root paths])
         (restore_acl F (fp_program_root paths) program_acl)) (\<lambda>failures2.
       bindT (case is_service_sid_type snapshot of
           None \<Rightarrow> returnT []
         | Some sid_type \<Rightarrow> note_failure (restore_service_state F paths sid_type
             (case is_failure_actions snapshot of Some b \<Rightarrow> b | None \<Rightarrow> True) (is_service_running snapshot) Preserve_Snapshot))
         (\<lambda>failures3.
       bindT (when_noted (all_exist F (\<not> is_state_existed snapshot) [fp_state_root paths])
         (remove_fresh_install_state F paths)) (\<lambda>failures4.
       if failures1 @ failures2 @ failures3 @ failures4 = [] then remove_tree_no_reparse F (fp_journal_root paths)
       else failT (Message ''rollback was incomplete; the protected journal was retained'')))))))))"

definition commit_install :: "'w maint_ops \<Rightarrow> fixed_paths \<Rightarrow> ('w, client_error, unit) tx" where
  "commit_install F paths =
     bindT (readT (\<lambda>w. Inr (mo_exists F (fp_journal_root paths) w))) (\<lambda>pending.
     if \<not> pending then returnT ()
     else
       bindT (readT (validate_real_directory F (fp_journal_root paths))) (\<lambda>_.
       bindT (readT (validate_tree F (fp_journal_root paths))) (\<lambda>_.
       bindT (readT (read_snapshot F paths)) (\<lambda>_.
       remove_tree_no_reparse F (fp_journal_root paths)))))"

section \<open>Removal of the product\<close>

definition inspect_for_uninstall :: "'w maint_ops \<Rightarrow> fixed_paths \<Rightarrow> 'w \<Rightarrow> bool res" where
  "inspect_for_uninstall F paths w =
     bindR (ensure_absent F (fp_uninstall_journal_root paths) w) (\<lambda>_.
     bindR (validate_optional_root F (fp_program_root paths) w) (\<lambda>present.
     bindR (ensureR present (Message ''installed program root is missing'')) (\<lambda>_.
     bindR (validate_regular_single_link F (fp_program_exe paths) w) (\<lambda>_.
     bindR (validate_program_tree F (fp_program_root paths) w) (\<lambda>_.
     bindR (open_client_service F (service_query_config + service_query_status) w) (\<lambda>service.
     bindR (ensureR service (Message ''the installed xsoc service is missing'')) (\<lambda>_.
     bindR (validate_client_service F paths w) (\<lambda>_.
     bindR (query_service_sid_type F w) (\<lambda>sid_type.
     bindR (ensureR (sid_type = service_sid_type_unrestricted)
       (Message ''the installed xsoc service SID type is not unrestricted'')) (\<lambda>_.
     bindR (query_failure_actions_on_non_crash F w) (\<lambda>restarts.
     bindR (ensureR restarts (Message ''the installed xsoc service does not restart after reported failures'')) (\<lambda>_.
     bindR (validate_optional_root F (fp_state_root paths) w) (\<lambda>state.
     bindR (if state then bindR (validate_tree F (fp_state_root paths) w) (\<lambda>_. validate_state_marker F paths True w)
       else Inr ()) (\<lambda>_.
     service_is_active F w))))))))))))))"

definition preflight_uninstall :: "'w maint_ops \<Rightarrow> fixed_paths \<Rightarrow> ('w, client_error, unit) tx" where
  "preflight_uninstall F paths =
     bindT (readT (inspect_for_uninstall F paths)) (\<lambda>service_was_running.
     bindT (create_protected_journal F (fp_uninstall_journal_root paths)) (\<lambda>_.
     bindT (tryT (write_new_private F (path_join (fp_uninstall_journal_root paths) snapshot_file)
       (mo_encode_uninstall F \<lparr>us_format = snapshot_format, us_application_version = mo_version F,
          us_state_acl_saved = False, us_service_was_running = service_was_running\<rparr>))) (\<lambda>result.
     case result of
       Inl error \<Rightarrow> bindT (ignoreT (remove_tree_no_reparse F (fp_uninstall_journal_root paths))) (\<lambda>_. failT error)
     | Inr _ \<Rightarrow> returnT ())))"

definition rollback_uninstall_preflight :: "'w maint_ops \<Rightarrow> fixed_paths \<Rightarrow> ('w, client_error, unit) tx" where
  "rollback_uninstall_preflight F paths =
     bindT (readT (rollback_path_exists F (fp_uninstall_journal_root paths))) (\<lambda>pending.
     if \<not> pending then returnT ()
     else
       bindT (readT (read_uninstall_snapshot F paths)) (\<lambda>snapshot.
       bindT (if us_state_acl_saved snapshot then returnT True else readT (purge_started F paths)) (\<lambda>owned.
       if owned then returnT () else remove_tree_no_reparse F (fp_uninstall_journal_root paths))))"

text \<open>The change of \<open>preserve_state\<close>, and its way back.\<close>

definition retire_state :: "'w maint_ops \<Rightarrow> fixed_paths \<Rightarrow> uninstall_snapshot \<Rightarrow> ('w, client_error, unit) tx" where
  "retire_state F paths snapshot =
     bindT (save_acl F (fp_state_root paths) (path_join (fp_uninstall_journal_root paths) state_acl_file)) (\<lambda>_.
     bindT (replace_private F (path_join (fp_uninstall_journal_root paths) snapshot_file)
       (mo_encode_uninstall F (snapshot\<lparr>us_state_acl_saved := True\<rparr>))) (\<lambda>_.
     bindT (secure_system_admin_only F (fp_state_root paths) True) (\<lambda>_.
     readT (validate_state_marker F paths False))))"

definition reinstate_acl :: "'w maint_ops \<Rightarrow> fixed_paths \<Rightarrow> ('w, client_error, unit) tx" where
  "reinstate_acl F paths =
     (let acl_snapshot = path_join (fp_uninstall_journal_root paths) state_acl_file in
      bindT (readT (rollback_path_exists F acl_snapshot)) (\<lambda>snapshot_exists.
      if snapshot_exists then restore_acl F (fp_state_root paths) acl_snapshot else returnT ()))"

definition preserve_state :: "'w maint_ops \<Rightarrow> fixed_paths \<Rightarrow> ('w, client_error, unit) tx" where
  "preserve_state F paths =
     bindT (readT (\<lambda>w. Inr (mo_exists F (fp_state_root paths) w))) (\<lambda>present.
     if \<not> present then returnT ()
     else
       bindT (readT (read_uninstall_snapshot F paths)) (\<lambda>snapshot.
       bindT (readT (validate_real_directory F (fp_state_root paths))) (\<lambda>_.
       bindT (readT (validate_tree F (fp_state_root paths))) (\<lambda>_.
       bindT (readT (open_client_service F service_query_config)) (\<lambda>service.
       bindT (liftR (ensureR service (Message ''xsoc service disappeared during uninstall''))) (\<lambda>_.
       bindT (readT (validate_client_service F paths)) (\<lambda>_.
       bindT (readT (validate_state_marker F paths True)) (\<lambda>_.
       bindT (tryT (retire_state F paths snapshot)) (\<lambda>result.
       case result of
         Inr _ \<Rightarrow> returnT ()
       | Inl error \<Rightarrow>
           bindT (tryT (reinstate_acl F paths)) (\<lambda>rollback.
           case rollback of
             Inr _ \<Rightarrow>
               bindT (ignoreT (remove_tree_no_reparse F (fp_uninstall_journal_root paths))) (\<lambda>_.
               failT (Context ''state preservation failed; the original ACL was restored'' error))
           | Inl _ \<Rightarrow> failT (Context ''state preservation and ACL rollback failed; the protected uninstall journal was retained'' error)))))))))))"

definition rollback_uninstall :: "'w maint_ops \<Rightarrow> fixed_paths \<Rightarrow> ('w, client_error, unit) tx" where
  "rollback_uninstall F paths =
     bindT (readT (rollback_path_exists F (fp_uninstall_journal_root paths))) (\<lambda>pending.
     if \<not> pending then returnT ()
     else
       bindT (readT (read_uninstall_snapshot F paths)) (\<lambda>snapshot.
       bindT (readT (all_exist F (us_state_acl_saved snapshot) [fp_state_root paths])) (\<lambda>restore.
       bindT (if restore
           then bindT (readT (validate_tree F (fp_state_root paths))) (\<lambda>_.
             restore_acl F (fp_state_root paths) (path_join (fp_uninstall_journal_root paths) state_acl_file))
           else returnT ()) (\<lambda>_.
       bindT (restore_service_state F paths service_sid_type_unrestricted True (us_service_was_running snapshot) Secure_Current) (\<lambda>_.
       remove_tree_no_reparse F (fp_uninstall_journal_root paths))))))"

definition commit_uninstall :: "'w maint_ops \<Rightarrow> fixed_paths \<Rightarrow> ('w, client_error, unit) tx" where
  "commit_uninstall F paths =
     bindT (readT (\<lambda>w. Inr (mo_exists F (fp_uninstall_journal_root paths) w))) (\<lambda>pending.
     if \<not> pending then returnT ()
     else
       bindT (readT (read_uninstall_snapshot F paths)) (\<lambda>_.
       remove_tree_no_reparse F (fp_uninstall_journal_root paths)))"

section \<open>Purge\<close>

definition prepare_purge :: "'w maint_ops \<Rightarrow> fixed_paths \<Rightarrow> ('w, client_error, unit) tx" where
  "prepare_purge F paths =
     bindT (readT (read_uninstall_snapshot F paths)) (\<lambda>_.
     bindT (readT (ensure_absent F (fp_quarantine_root paths))) (\<lambda>_.
     bindT (readT (\<lambda>w. Inr (mo_exists F (fp_state_root paths) w))) (\<lambda>present.
     if \<not> present then returnT ()
     else
       bindT (readT (validate_real_directory F (fp_state_root paths))) (\<lambda>_.
       bindT (readT (validate_tree F (fp_state_root paths))) (\<lambda>_.
       bindT (readT (open_client_service F service_query_config)) (\<lambda>service.
       bindT (liftR (ensureR service (Message ''xsoc service disappeared during purge''))) (\<lambda>_.
       bindT (readT (validate_client_service F paths)) (\<lambda>_.
       bindT (readT (validate_state_marker F paths True)) (\<lambda>_.
       bindT (write_new_private F (path_join (fp_uninstall_journal_root paths) (purge_started_file F))
         (purge_started_content F)) (\<lambda>_.
       rename_managed_directory_by_handle F (fp_state_root paths) (fp_quarantine_root paths)))))))))))"

definition restore_quarantine :: "'w maint_ops \<Rightarrow> fixed_paths \<Rightarrow> ('w, client_error, unit) tx" where
  "restore_quarantine F paths =
     bindT (readT (rollback_path_exists F (fp_quarantine_root paths))) (\<lambda>quarantined.
     if quarantined then
       bindT (readT (validate_real_directory F (fp_quarantine_root paths))) (\<lambda>_.
       bindT (readT (validate_tree F (fp_quarantine_root paths))) (\<lambda>_.
       bindT (readT (ensure_absent F (fp_state_root paths))) (\<lambda>_.
       contextT ''failed to restore quarantined Client state''
         (rename_managed_directory_by_handle F (fp_quarantine_root paths) (fp_state_root paths)))))
     else returnT ())"

definition rollback_purge :: "'w maint_ops \<Rightarrow> fixed_paths \<Rightarrow> ('w, client_error, unit) tx" where
  "rollback_purge F paths =
     bindT (readT (rollback_path_exists F (fp_uninstall_journal_root paths))) (\<lambda>pending.
     if \<not> pending then returnT ()
     else
       bindT (readT (read_uninstall_snapshot F paths)) (\<lambda>snapshot.
       bindT (restore_quarantine F paths) (\<lambda>_.
       bindT (restore_service_state F paths service_sid_type_unrestricted True (us_service_was_running snapshot) Secure_Current) (\<lambda>_.
       remove_tree_no_reparse F (fp_uninstall_journal_root paths)))))"

definition delete_quarantine :: "'w maint_ops \<Rightarrow> fixed_paths \<Rightarrow> ('w, client_error, unit) tx" where
  "delete_quarantine F paths =
     bindT (readT (\<lambda>w. Inr (mo_exists F (fp_quarantine_root paths) w))) (\<lambda>present.
     if present then
       contextT ''purge was committed but protected quarantine remains; reboot and remove that fixed directory as Administrator''
         (bindT (readT (validate_real_directory F (fp_quarantine_root paths))) (\<lambda>_.
          bindT (readT (validate_tree F (fp_quarantine_root paths))) (\<lambda>_.
          remove_tree_no_reparse F (fp_quarantine_root paths))))
     else returnT ())"

definition commit_purge :: "'w maint_ops \<Rightarrow> fixed_paths \<Rightarrow> ('w, client_error, unit) tx" where
  "commit_purge F paths =
     bindT (readT (\<lambda>w. Inr (mo_exists F (fp_uninstall_journal_root paths) w))) (\<lambda>journal_existed.
     bindT (if journal_existed then bindT (readT (read_uninstall_snapshot F paths)) (\<lambda>_. returnT ()) else returnT ()) (\<lambda>_.
     bindT (tryT (delete_quarantine F paths)) (\<lambda>deletion.
     bindT (tryT (if journal_existed then remove_tree_no_reparse F (fp_uninstall_journal_root paths) else returnT ())) (\<lambda>journal_cleanup.
     liftR (bindR deletion (\<lambda>_. journal_cleanup))))))"

section \<open>Dispatch\<close>

fun enable_privileges :: "'w maint_ops \<Rightarrow> string list \<Rightarrow> ('w, client_error, unit) tx" where
  "enable_privileges F [] = returnT ()"
| "enable_privileges F (name # names) =
     bindT (readT (\<lambda>w. with_context ''failed to resolve the privilege'' (io_res (mo_lookup_privilege F name w)))) (\<lambda>luid.
     bindT (contextT ''failed to enable the privilege'' (io_tx (mo_adjust_privilege F luid))) (\<lambda>assigned.
     bindT (liftR (ensureR assigned (Message ''maintenance token does not hold the privilege''))) (\<lambda>_.
     enable_privileges F names)))"

definition enable_restore_privileges :: "'w maint_ops \<Rightarrow> ('w, client_error, unit) tx" where
  "enable_restore_privileges F =
     bindT (contextT ''failed to open the maintenance process token'' (io_tx (mo_open_token F))) (\<lambda>_.
     bindT (tryT (enable_privileges F [''SeRestorePrivilege'', ''SeTakeOwnershipPrivilege''])) (\<lambda>result.
     bindT (tryT (contextT ''failed to close process token'' (io_tx (mo_close_token F)))) (\<lambda>close.
     liftR (bindR result (\<lambda>_. close)))))"

definition maintenance_command :: "'w maint_ops \<Rightarrow> fixed_paths \<Rightarrow> string \<Rightarrow> ('w, client_error, unit) tx" where
  "maintenance_command F paths command =
     (if command = ''prepare-install'' then prepare_install F paths
      else if command = ''apply-install'' then apply_install F paths
      else if command = ''rollback-install'' then rollback_install F paths
      else if command = ''commit-install'' then commit_install F paths
      else if command = ''preflight-uninstall'' then preflight_uninstall F paths
      else if command = ''rollback-uninstall-preflight'' then rollback_uninstall_preflight F paths
      else if command = ''preserve-state'' then preserve_state F paths
      else if command = ''rollback-uninstall'' then rollback_uninstall F paths
      else if command = ''commit-uninstall'' then commit_uninstall F paths
      else if command = ''prepare-purge'' then prepare_purge F paths
      else if command = ''rollback-purge'' then rollback_purge F paths
      else if command = ''commit-purge'' then commit_purge F paths
      else failT (Message ''unknown maintenance command''))"

definition run_maintenance :: "'w maint_ops \<Rightarrow> string list \<Rightarrow> ('w, client_error, unit) tx" where
  "run_maintenance F arguments =
     bindT (liftR (parse_maintenance_arguments arguments)) (\<lambda>invocation.
     bindT (readT (discover F (wide_of (mi_program_executable invocation)))) (\<lambda>paths.
     bindT (tryT (bindT (enable_restore_privileges F) (\<lambda>_. maintenance_command F paths (mi_command invocation)))) (\<lambda>result.
     case result of
       Inr _ \<Rightarrow> returnT ()
     | Inl error \<Rightarrow>
         bindT (if mi_diagnostics invocation
           then ignoreT (write_first_maintenance_diagnostic F (fp_diagnostic_file paths) (mi_command invocation) error)
           else returnT ()) (\<lambda>_.
         failT error))))"

end
