(* ===== verification/Windows_Steady.thy ===== *)
theory Windows_Steady
  imports Windows_Transaction
begin

text \<open>
  What the maintenance commands leave alone. The paths below a directory, the interface
  \<open>steady\<close> of a predicate that the single calls preserve on given paths, and its consequence for
  every operation built from them.
\<close>

section \<open>Paths below a directory\<close>

definition plain_name :: "wide \<Rightarrow> bool" where
  "plain_name n \<longleftrightarrow> n \<noteq> [] \<and> n \<noteq> [dot_unit] \<and> n \<noteq> [dot_unit, dot_unit] \<and> list_all (\<lambda>u. \<not> is_separator u \<and> u \<noteq> colon_unit) n"

definition good_root :: "wide \<Rightarrow> bool" where
  "good_root r \<longleftrightarrow> 2 < length r \<and> \<not> is_separator (last r)"

definition inside :: "wide \<Rightarrow> wide \<Rightarrow> bool" where
  "inside r p \<longleftrightarrow> (\<exists>s. p = r @ sep_unit # s)"

definition tree_of :: "wide \<Rightarrow> wide set" where
  "tree_of r = {p. p = r \<or> inside r p}"

definition good_tree :: "wide \<Rightarrow> wide set" where
  "good_tree r = {p \<in> tree_of r. good_root p}"

definition join_closed :: "wide set \<Rightarrow> bool" where
  "join_closed T \<longleftrightarrow> (\<forall>p \<in> T. \<forall>n. plain_name n \<longrightarrow> path_join p n \<in> T)"

lemma sep_is_separator [simp]: "is_separator sep_unit"
  by (simp add: is_separator_def)

lemma plain_not_separator: "plain_name n \<Longrightarrow> u \<in> set n \<Longrightarrow> \<not> is_separator u"
  by (auto simp: plain_name_def list_all_iff)

lemma plain_no_colon: "plain_name n \<Longrightarrow> colon_unit \<notin> set n"
  by (auto simp: plain_name_def list_all_iff)

lemma plain_nonempty: "plain_name n \<Longrightarrow> n \<noteq> []"
  by (simp add: plain_name_def)

lemma plain_relative:
  assumes "plain_name n"
  shows "\<not> has_drive n" "\<not> starts_with_separator n" "\<not> is_share n" "prefix_units n = 0" "\<not> has_root n" "\<not> wide_is_absolute n"
proof -
  show drive: "\<not> has_drive n"
    using plain_no_colon [OF assms] by (auto simp: has_drive_def split: list.splits)
  show start: "\<not> starts_with_separator n"
    using plain_not_separator [OF assms, of "hd n"] by (auto simp: starts_with_separator_def)
  then show share: "\<not> is_share n" by (simp add: is_share_def)
  with drive show prefix: "prefix_units n = 0" by (simp add: prefix_units_def)
  with start share show "\<not> has_root n" by (simp add: has_root_def)
  then show "\<not> wide_is_absolute n" by (simp add: wide_is_absolute_def)
qed

lemma join_plain: "good_root r \<Longrightarrow> plain_name n \<Longrightarrow> path_join r n = r @ sep_unit # n"
  by (auto simp: path_join_def plain_relative good_root_def)

lemma good_root_join: "good_root r \<Longrightarrow> plain_name n \<Longrightarrow> good_root (r @ sep_unit # n)"
  using plain_nonempty plain_not_separator [of n "last n"] by (auto simp: good_root_def)

lemma good_tree_closed: "join_closed (good_tree r)"
  unfolding join_closed_def good_tree_def tree_of_def inside_def
  by (auto simp: join_plain good_root_join)

lemma good_tree_root: "good_root r \<Longrightarrow> r \<in> good_tree r"
  by (simp add: good_tree_def tree_of_def)

lemma inside_join: "good_root r \<Longrightarrow> plain_name n \<Longrightarrow> inside r (path_join r n)"
  by (auto simp: join_plain inside_def)

text \<open>Siblings have disjoint trees.\<close>

lemma plain_prefix:
  assumes "plain_name n" "plain_name m" "n @ sep_unit # s = m @ t" "t = [] \<or> hd t = sep_unit"
  shows "n = m"
proof -
  have "takeWhile (\<lambda>u. \<not> is_separator u) (n @ sep_unit # s) = n"
    using plain_not_separator [OF assms(1)] by (simp add: takeWhile_append2)
  moreover have "takeWhile (\<lambda>u. \<not> is_separator u) (m @ t) = m"
    using plain_not_separator [OF assms(2)] assms(4) by (cases t) (simp_all add: takeWhile_append2)
  ultimately show ?thesis using assms(3) by simp
qed

lemma siblings_disjoint:
  assumes "plain_name n" "plain_name m" "n \<noteq> m"
  shows "tree_of (base @ n) \<inter> tree_of (base @ m) = {}"
proof -
  have "p \<notin> tree_of (base @ m)" if p: "p \<in> tree_of (base @ n)" for p
  proof
    assume "p \<in> tree_of (base @ m)"
    with p consider "base @ n = base @ m" | s where "base @ n @ sep_unit # s = base @ m"
      | s where "base @ m @ sep_unit # s = base @ n" | s t where "base @ n @ sep_unit # s = base @ m @ sep_unit # t"
      by (auto simp: tree_of_def inside_def)
    then show False
    proof cases
      case (2 s)
      with plain_prefix [OF assms(1,2), of s "[]"] assms(3) show False by simp
    next
      case (3 s)
      with plain_prefix [OF assms(2,1), of s "[]"] assms(3) show False by simp
    next
      case (4 s t)
      with plain_prefix [OF assms(1,2), of s "sep_unit # t"] assms(3) show False by simp
    qed (use assms(3) in simp)
  qed
  then show ?thesis by blast
qed

section \<open>Rules for transactions\<close>

lemma keeps_readT_bind:
  "(\<And>w x. P w \<Longrightarrow> f w = Inr x \<Longrightarrow> keeps P (k x)) \<Longrightarrow> keeps P (bindT (readT f) k)"
  by (fastforce simp: keeps_def bindT_readT split: sum.splits)

lemma keeps_liftR_bind: "(\<And>x. r = Inr x \<Longrightarrow> keeps P (k x)) \<Longrightarrow> keeps P (bindT (liftR r) k)"
  by (cases r) (auto simp: keeps_def bindT_liftR)

lemma keeps_sum [keeps_intros]:
  "(\<And>e. r = Inl e \<Longrightarrow> keeps P (f e)) \<Longrightarrow> (\<And>x. r = Inr x \<Longrightarrow> keeps P (g x)) \<Longrightarrow>
     keeps P (case r of Inl e \<Rightarrow> f e | Inr x \<Rightarrow> g x)"
  by (cases r) auto

lemma keeps_option [keeps_intros]:
  "keeps P f \<Longrightarrow> (\<And>x. r = Some x \<Longrightarrow> keeps P (g x)) \<Longrightarrow> keeps P (case r of None \<Rightarrow> f | Some x \<Rightarrow> g x)"
  by (cases r) auto

lemma keeps_prod [keeps_intros]: "(\<And>a b. keeps P (f a b)) \<Longrightarrow> keeps P (case r of (a, b) \<Rightarrow> f a b)"
  by (cases r) auto

lemma keeps_let [keeps_intros]: "keeps P (f a) \<Longrightarrow> keeps P (let x = a in f x)"
  by (simp add: Let_def)

lemmas keeps_attempts = keeps_wrapped(3,4)

section \<open>Steady predicates\<close>

text \<open>
  \<open>P\<close> survives the removal of a path of \<open>D\<close>, the creation and writing of a path of \<open>A\<close>, new
  directories, descriptors, the service manager, the passing of time and the process token.
\<close>

locale steady =
  fixes F :: "'w maint_ops" and P :: "'w \<Rightarrow> bool" and D A :: "wide set"
  assumes entries_plain: "mo_read_dir F p w = Inr es \<Longrightarrow> Inr n \<in> set es \<Longrightarrow> plain_name n"
    and delete_steady: "p \<in> D \<Longrightarrow> keeps P (mo_delete F p)"
    and remove_steady: "p \<in> A \<Longrightarrow> keeps P (mo_remove_file F p)"
    and create_steady: "p \<in> A \<Longrightarrow> keeps P (mo_create_new F p)"
    and write_steady: "p \<in> A \<Longrightarrow> keeps P (mo_write_sync F p bytes)"
    and replace_steady: "p \<in> A \<Longrightarrow> q \<in> A \<Longrightarrow> keeps P (mo_move_replace F p q)"
    and directory_steady: "keeps P (mo_create_directory F p d)"
    and security_steady: "keeps P (mo_set_security F p d protected)"
    and change_steady: "keeps P (mo_change_config2 F level v)"
    and start_steady: "keeps P (mo_start_service F)"
    and stop_steady: "keeps P (mo_stop_service F)"
    and sleep_steady: "P w \<Longrightarrow> P (mo_sleep F k w)"
    and token_steady: "keeps P (mo_open_token F)" "keeps P (mo_adjust_privilege F luid)" "keeps P (mo_close_token F)"
begin

lemma delete_keeps: "p \<in> D \<Longrightarrow> keeps P (delete_opened_mutation_target F p)"
  unfolding delete_opened_mutation_target_def by (intro keeps_intros delete_steady)

definition sound_stack :: "wide set \<Rightarrow> removal_frame list \<Rightarrow> bool" where
  "sound_stack T stack \<longleftrightarrow> (\<forall>p es. (p, es) \<in> set stack \<longrightarrow> p \<in> T \<and> (\<forall>n. Inr n \<in> set es \<longrightarrow> plain_name n))"

lemma opened_frame:
  "removal_directory_frame F p w = Inr (q, es) \<Longrightarrow> q = p \<and> (\<forall>n. Inr n \<in> set es \<longrightarrow> plain_name n)"
  using entries_plain by (auto simp: removal_directory_frame_def bindR_Inr_iff)

lemma sound_append: "sound_stack T (xs @ ys) \<longleftrightarrow> sound_stack T xs \<and> sound_stack T ys"
  by (auto simp: sound_stack_def)

lemma push_frame_result: "push_frame F stack frame payload = Inr (stack', payload') \<Longrightarrow> stack' = stack @ [frame]"
  by (auto simp: push_frame_def dest!: path_pushed)

lemma removal_step_steady:
  assumes "sound_stack T (stack @ [(directory, entry # entries)])" "join_closed T" "T \<subseteq> D" "P w"
    and "removal_step F directory entry (stack @ [(directory, entries)]) discovered payload w = (r, w')"
  shows "P w' \<and> (\<forall>stack' discovered' payload'. r = Inr (stack', discovered', payload') \<longrightarrow> sound_stack T stack')"
proof -
  have rest: "sound_stack T (stack @ [(directory, entries)])" and here: "directory \<in> T" "\<And>n. entry = Inr n \<Longrightarrow> plain_name n"
    using assms(1) by (auto simp: sound_append sound_stack_def)
  have target: "io_res entry = Inr n \<Longrightarrow> path_join directory n \<in> D" for n
    using here assms(2,3) by (auto simp: join_closed_def)
  have "keeps P (removal_step F directory entry (stack @ [(directory, entries)]) discovered payload)"
    unfolding removal_step_def Let_def
    by (auto intro!: keeps_liftR_bind keeps_readT_bind keeps_if keeps_bindT keeps_returnT keeps_prod delete_keeps target)
  moreover have "sound_stack T stack'" if "r = Inr (stack', discovered', payload')" for stack' discovered' payload'
    using assms(5) that rest here assms(2)
    by (auto simp: removal_step_def bindT_ok_iff Let_def tx_simps join_closed_def sound_stack_def
        dest!: push_frame_result opened_frame split: if_splits)
  ultimately show ?thesis using assms(4,5) by (force dest: keepsD)
qed

lemma removal_loop_steady:
  assumes "join_closed T" "T \<subseteq> D"
  shows "G = F \<Longrightarrow> sound_stack T stack \<Longrightarrow> P w \<Longrightarrow> P (snd (removal_loop G stack discovered payload w))"
proof (induction G stack discovered payload w rule: removal_loop.induct)
  case (1 G stack discovered payload w)
  show ?case
  proof (cases "stack = []")
    case True
    with "1.prems" show ?thesis by (simp add: removal_loop.simps)
  next
    case False
    obtain directory es where top: "last stack = (directory, es)" by fastforce
    with False have stack: "stack = butlast stack @ [(directory, es)]" by (metis append_butlast_last_id)
    have sound: "sound_stack T (butlast stack @ [(directory, es)])" using "1.prems"(2) stack by simp
    show ?thesis
    proof (cases es)
      case Nil
      obtain r w1 where del: "delete_opened_mutation_target F directory w = (r, w1)" by fastforce
      have "directory \<in> D" using sound assms(2) by (auto simp: sound_stack_def)
      with del "1.prems"(3) have "P w1" by (metis delete_keeps keepsD snd_conv)
      with False top Nil del "1.prems"(1) sound "1.IH"(1) show ?thesis
        by (cases r) (auto simp: removal_loop.simps [of F stack] sound_append)
    next
      case (Cons entry entries)
      obtain r w1 where step: "removal_step F directory entry (butlast stack @ [(directory, entries)]) discovered payload w = (r, w1)"
        by fastforce
      from removal_step_steady [OF _ assms "1.prems"(3) this] sound Cons
      have "P w1" and next_stack: "r = Inr (stack', discovered', payload') \<Longrightarrow> sound_stack T stack'" for stack' discovered' payload'
        by auto
      with False top Cons step "1.prems"(1) "1.IH"(2) show ?thesis
        by (cases r) (auto simp: removal_loop.simps [of F stack])
    qed
  qed
qed

lemma remove_tree_keeps:
  assumes "good_root root" "tree_of root \<subseteq> D"
  shows "keeps P (remove_tree_no_reparse F root)"
proof -
  have "keeps P (removal_loop F stack discovered payload)"
    if "sound_stack (good_tree root) stack" for stack discovered payload
    using removal_loop_steady [OF good_tree_closed _ refl that] assms(2)
    by (auto intro!: keepsI simp: good_tree_def)
  moreover have "sound_stack (good_tree root) stack"
    if "removal_directory_frame F root w = Inr frame" "push_frame F [] frame 0 = Inr (stack, payload)" for w frame stack payload
    using that good_tree_root [OF assms(1)] by (cases frame) (auto simp: sound_stack_def dest!: push_frame_result opened_frame)
  ultimately show ?thesis
    unfolding remove_tree_no_reparse_def
    by (auto intro!: keeps_liftR_bind keeps_readT_bind keeps_bindT keeps_prod keeps_readT)
qed

lemma remove_empty_keeps: "root \<in> D \<Longrightarrow> keeps P (remove_empty_directory_by_handle F root)"
  unfolding remove_empty_directory_by_handle_def by (intro keeps_intros delete_keeps)

lemma write_new_private_keeps: "p \<in> A \<Longrightarrow> keeps P (write_new_private F p bytes)"
  unfolding write_new_private_def by (intro keeps_intros create_steady write_steady remove_steady)

lemma replace_private_keeps:
  "p \<in> A \<Longrightarrow> with_extension p (wide ''replacement'') \<in> A \<Longrightarrow> keeps P (replace_private F p bytes)"
  unfolding replace_private_def Let_def
  by (intro keeps_intros write_new_private_keeps replace_steady remove_steady)

lemma set_descriptor_keeps: "keeps P (set_security_descriptor F p sddl protected managed)"
  unfolding set_security_descriptor_def Let_def by (intro keeps_intros security_steady)

lemma apply_targets_keeps: "keeps P (apply_targets F descriptor anchor targets)"
  by (induction targets) (auto intro!: keeps_intros set_descriptor_keeps simp: set_managed_security_descriptor_def)

lemma exact_acl_keeps: "keeps P (apply_exact_acl_inner F p sid recursive excluded preserve)"
  unfolding apply_exact_acl_inner_def Let_def by (intro keeps_intros apply_targets_keeps)

lemma descriptors_keep:
  "keeps P (apply_exact_acl F p sid recursive)" "keeps P (secure_state_acl F p sid)"
  "keeps P (secure_system_admin_only F p recursive)" "keeps P (secure_state_for_service F p)"
  "keeps P (secure_program_for_service F p)"
proof -
  show *: "keeps P (apply_exact_acl F p sid recursive)" for p sid recursive
    unfolding apply_exact_acl_def by (rule exact_acl_keeps)
  show **: "keeps P (secure_state_acl F p sid)" for p sid
    unfolding secure_state_acl_def by (intro keeps_intros exact_acl_keeps)
  show "keeps P (secure_system_admin_only F p recursive)" "keeps P (secure_state_for_service F p)"
    by (simp_all add: secure_system_admin_only_def secure_state_for_service_def * **)
  show "keeps P (secure_program_for_service F p)"
    unfolding secure_program_for_service_def apply_descriptor_recursively_def by (intro keeps_intros apply_targets_keeps)
qed

lemma apply_all_keeps: "(\<And>i. keeps P (f i)) \<Longrightarrow> keeps P (apply_all f order)"
  by (induction order) (auto intro: keeps_intros)

lemma restore_acl_keeps: "keeps P (restore_acl F root source)"
proof -
  have "keeps P (restore_one F targets i)" for targets i
    unfolding restore_one_def restore_security_descriptor_def Let_def by (intro keeps_intros set_descriptor_keeps)
  then show ?thesis
    unfolding restore_acl_def run_validated_acl_restore_plan_def by (intro keeps_intros apply_all_keeps)
qed

lemma save_acl_keeps: "destination \<in> A \<Longrightarrow> keeps P (save_acl F root destination)"
  unfolding save_acl_def by (intro keeps_intros write_new_private_keeps)

lemma wait_loop_steady: "wait_loop F accept allowed deadline fuel w = Some (r, w') \<Longrightarrow> P w \<Longrightarrow> P w'"
proof (induction fuel arbitrary: w)
  case (Suc fuel)
  then show ?case by (auto split: sum.splits if_splits intro: sleep_steady)
qed simp

lemma wait_for_keeps: "keeps P (wait_for F accept allowed)"
  by (rule keepsI) (auto simp: wait_for_def split: option.splits dest: wait_loop_steady)

lemma service_keeps:
  "keeps P (set_service_sid_type F sid)" "keeps P (set_failure_actions_on_non_crash F b)"
  "keeps P (stop_client_service F)" "keeps P (wait_for_service_state F state)" "keeps P (wait_for_stable_service_state F)"
proof -
  show "keeps P (set_service_sid_type F sid)" "keeps P (set_failure_actions_on_non_crash F b)"
    unfolding set_service_sid_type_def set_failure_actions_on_non_crash_def by (intro keeps_intros change_steady)+
  show stable: "keeps P (wait_for_stable_service_state F)"
    by (simp add: wait_for_stable_service_state_def wait_for_keeps)
  show waits: "keeps P (wait_for_service_state F state)" for state
    unfolding wait_for_service_state_def by (intro keeps_intros wait_for_keeps)
  show "keeps P (stop_client_service F)"
    unfolding stop_client_service_def by (intro keeps_intros stable waits stop_steady)
qed

lemma restore_service_keeps: "keeps P (restore_service_state F paths sid failure running acl)"
  unfolding restore_service_state_def
  by (cases acl) (simp_all, (intro keeps_intros service_keeps descriptors_keep start_steady)+)

lemma privileges_keep: "keeps P (enable_restore_privileges F)"
proof -
  have "keeps P (enable_privileges F names)" for names
    by (induction names) (auto intro!: keeps_intros token_steady)
  then show ?thesis
    unfolding enable_restore_privileges_def by (intro keeps_intros token_steady)
qed

lemma protected_directory_keeps:
  "good_root p \<Longrightarrow> tree_of p \<subseteq> D \<Longrightarrow> keeps P (create_system_admin_only_directory F p)"
  unfolding create_system_admin_only_directory_def
  by (intro keeps_intros directory_steady remove_tree_keeps)

end

end
