(* ===== verification/Windows_Kept.thy ===== *)
theory Windows_Kept
  imports Windows_Steady
begin

text \<open>
  The state outlives the commands of the installer. The interface \<open>steady_commands\<close> says of a
  predicate what it must bear so that every command but \<open>commit-purge\<close> keeps it.
\<close>

definition marker_path :: "fixed_paths \<Rightarrow> wide \<Rightarrow> bool" where
  "marker_path paths m \<longleftrightarrow>
     m = path_join (fp_state_root paths) (wide state_marker) \<or>
     inside (fp_state_root paths) m \<and> Option.bind (wide_file_name m) wide_to_str = Some state_marker"

lemma validated_marker:
  "validate_marker_file F m w = Inr u \<Longrightarrow> Option.bind (wide_file_name m) wide_to_str = Some state_marker"
  by (auto simp: validate_marker_file_def bindR_Inr_iff validate_windows_state_marker_version_def
      windows_state_format_version_def state_marker_def marker_prefix_def starts_with_def split: if_splits option.splits)
    (metis append_take_drop_id append.simps)

locale steady_commands = steady +
  fixes paths :: fixed_paths
  assumes journal_trees: "tree_of (fp_journal_root paths) \<subseteq> D" "tree_of (fp_uninstall_journal_root paths) \<subseteq> D"
    and roots: "good_root (fp_journal_root paths)" "good_root (fp_uninstall_journal_root paths)" "good_root (fp_state_root paths)"
    and journal_files: "path_join (fp_journal_root paths) state_acl_file \<in> A"
      "path_join (fp_journal_root paths) program_acl_file \<in> A"
    and uninstall_files: "path_join (fp_uninstall_journal_root paths) snapshot_file \<in> A"
      "with_extension (path_join (fp_uninstall_journal_root paths) snapshot_file) (wide ''replacement'') \<in> A"
      "path_join (fp_uninstall_journal_root paths) state_acl_file \<in> A"
      "path_join (fp_uninstall_journal_root paths) (purge_started_file F) \<in> A"
    and markers: "marker_path paths m \<Longrightarrow> m \<in> A"
    and journal_says: "P w \<Longrightarrow> read_snapshot F paths w = Inr snapshot \<Longrightarrow> is_state_existed snapshot"
    and inspection_says: "P w \<Longrightarrow> inspect_for_install F paths w = Inr (snapshot, present) \<Longrightarrow> is_state_existed snapshot"
    and journal_written: "is_state_existed snapshot \<Longrightarrow>
        keeps P (write_new_private F (path_join (fp_journal_root paths) snapshot_file) (mo_encode_install F snapshot))"
    and quarantined: "keeps P (rename_managed_directory_by_handle F (fp_state_root paths) (fp_quarantine_root paths))"
    and reinstated: "keeps P (rename_managed_directory_by_handle F (fp_quarantine_root paths) (fp_state_root paths))"
begin

lemmas journal_removed = remove_tree_keeps [OF roots(1) journal_trees(1)] remove_tree_keeps [OF roots(2) journal_trees(2)]
lemmas journal_created = protected_directory_keeps [OF roots(1) journal_trees(1)] protected_directory_keeps [OF roots(2) journal_trees(2)]

lemma found_marker:
  assumes "existing_state_marker F paths w = Inr (Some m)"
  shows "marker_path paths m"
proof -
  obtain es where es: "mo_read_dir F (fp_state_root paths) w = Inr es"
    and run: "for_entries (find_marker F (fp_state_root paths) w) es None = Inr (Some m)"
    using assms by (auto simp: existing_state_marker_def bindR_Inr_iff)
  have "marker_path paths m" if "for_entries (find_marker F (fp_state_root paths) w) es' found = Inr (Some m)"
      "set es' \<subseteq> set es" "\<And>m. found = Some m \<Longrightarrow> marker_path paths m" for es' found
    using that
  proof (induction es' arbitrary: found)
    case (Cons entry es')
    obtain found' where step: "find_marker F (fp_state_root paths) w entry found = Inr found'"
      and rest: "for_entries (find_marker F (fp_state_root paths) w) es' found' = Inr (Some m)"
      using Cons.prems(1) by (auto simp: bindR_Inr_iff)
    have "marker_path paths m'" if "found' = Some m'" for m'
    proof (cases "found' = found")
      case False
      with step that obtain n where "entry = Inr n" "m' = path_join (fp_state_root paths) n" "validate_marker_file F m' w = Inr ()"
        by (auto simp: find_marker_def bindR_Inr_iff Let_def split: option.splits if_splits)
      moreover from this have "plain_name n" using Cons.prems(2) entries_plain [OF es] by auto
      ultimately show ?thesis
        by (auto simp: marker_path_def dest: validated_marker inside_join [OF roots(3)])
    qed (use Cons.prems(3) that in simp)
    with Cons.IH [OF rest] Cons.prems(2) show ?case by auto
  qed simp
  from this [OF run] show ?thesis by simp
qed

lemma secured_marker_keeps:
  assumes "m \<in> A" "keeps P secure"
  shows "keeps P (bindT (write_new_private F m bytes) (\<lambda>_. bindT (tryT secure) (\<lambda>result.
    case result of Inr _ \<Rightarrow> returnT () | Inl e \<Rightarrow> bindT (ignoreT (mo_remove_file F m)) (\<lambda>_. failT (Context c e)))))"
  by (intro keeps_intros write_new_private_keeps remove_steady assms)

lemma marker_keeps: "keeps P (write_or_validate_state_marker F paths)"
proof -
  have chosen: "(case found of Some m \<Rightarrow> m | None \<Rightarrow> path_join (fp_state_root paths) (wide state_marker)) \<in> A"
    if "existing_state_marker F paths w = Inr found" for w found
    using that found_marker by (auto simp: marker_path_def intro!: markers split: option.split)
  show ?thesis
    unfolding write_or_validate_state_marker_def Let_def
    by (intro keeps_readT_bind keeps_if keeps_readT secured_marker_keeps)
      (erule chosen, intro keeps_intros descriptors_keep)
qed

lemma install_keeps:
  "keeps P (prepare_install F paths)" "keeps P (apply_install F paths)"
  "keeps P (rollback_install F paths)" "keeps P (commit_install F paths)"
proof -
  show "keeps P (prepare_install F paths)"
    unfolding prepare_install_def create_protected_journal_def
    by (rule keeps_readT_bind)
      (auto intro!: keeps_intros journal_created journal_written journal_removed service_keeps save_acl_keeps journal_files
        dest: inspection_says)
  show "keeps P (apply_install F paths)"
    unfolding apply_install_def
    by (rule keeps_readT_bind, drule (1) journal_says)
      (intro keeps_intros service_keeps descriptors_keep marker_keeps, auto simp: apply_state_root_def intro!: keeps_intros)
  show "keeps P (commit_install F paths)"
    unfolding commit_install_def by (intro keeps_intros journal_removed)
  have noted: "keeps P m \<Longrightarrow> keeps P (note_failure m)" "keeps P m \<Longrightarrow> keeps P (when_noted b m)" for m b
    unfolding note_failure_def when_noted_def by (auto intro!: keeps_intros)
  have never: "keeps P (when_noted (all_exist F False ps) m)" for ps m
    by (cases ps) (auto simp: when_noted_def keeps_def bindT_readT tx_simps)
  show "keeps P (rollback_install F paths)"
    unfolding rollback_install_def Let_def
    by (intro keeps_if keeps_returnT keeps_readT_bind keeps_bindT [OF keeps_readT]; drule (1) journal_says)
      (auto intro!: keeps_intros noted never restore_acl_keeps restore_service_keeps journal_removed)
qed

lemma uninstall_keeps:
  "keeps P (preflight_uninstall F paths)" "keeps P (rollback_uninstall_preflight F paths)"
  "keeps P (preserve_state F paths)" "keeps P (rollback_uninstall F paths)" "keeps P (commit_uninstall F paths)"
proof -
  show "keeps P (preflight_uninstall F paths)"
    unfolding preflight_uninstall_def create_protected_journal_def
    by (intro keeps_intros journal_created journal_removed write_new_private_keeps uninstall_files)
  show "keeps P (rollback_uninstall_preflight F paths)"
    unfolding rollback_uninstall_preflight_def by (intro keeps_intros journal_removed)
  have "keeps P (retire_state F paths s)" for s
    unfolding retire_state_def by (intro keeps_intros save_acl_keeps replace_private_keeps descriptors_keep uninstall_files)
  moreover have "keeps P (reinstate_acl F paths)"
    unfolding reinstate_acl_def Let_def by (intro keeps_intros restore_acl_keeps)
  ultimately show "keeps P (preserve_state F paths)"
    unfolding preserve_state_def by (intro keeps_intros journal_removed)
  show "keeps P (rollback_uninstall F paths)"
    unfolding rollback_uninstall_def by (intro keeps_intros restore_acl_keeps restore_service_keeps journal_removed)
  show "keeps P (commit_uninstall F paths)"
    unfolding commit_uninstall_def by (intro keeps_intros journal_removed)
qed

lemma purge_keeps: "keeps P (prepare_purge F paths)" "keeps P (rollback_purge F paths)"
proof -
  show "keeps P (prepare_purge F paths)"
    unfolding prepare_purge_def by (intro keeps_intros write_new_private_keeps uninstall_files quarantined)
  show "keeps P (rollback_purge F paths)"
    unfolding rollback_purge_def restore_quarantine_def by (intro keeps_intros reinstated restore_service_keeps journal_removed)
qed

lemma command_keeps: "command \<noteq> ''commit-purge'' \<Longrightarrow> keeps P (maintenance_command F paths command)"
  unfolding maintenance_command_def by (auto intro!: install_keeps uninstall_keeps purge_keeps keeps_failT)

end

end
