(* ===== verification/Windows_Files.thy ===== *)
theory Windows_Files
  imports Windows_Kept
begin

text \<open>
  The file system that the maintenance program relies on, as the interface \<open>managed_files\<close>, and
  what follows for the files of the state: whatever commands run, in whatever order and however
  they fail, a file of the state keeps its content until \<open>commit-purge\<close>. The content of a file is
  an observation of the state; the running service may itself write the files of \<open>service_file\<close>.
\<close>

section \<open>The file system\<close>

locale managed_files =
  fixes F :: "'w maint_ops" and content :: "wide \<Rightarrow> 'w \<Rightarrow> string option" and service_file :: "wide \<Rightarrow> bool"
  assumes plain_entries: "mo_read_dir F p w = Inr es \<Longrightarrow> Inr name \<in> set es \<Longrightarrow> plain_name name"
    and absent_tree: "mo_metadata F p w = Inl e \<Longrightarrow> io_kind e = NotFound \<Longrightarrow> inside p q \<Longrightarrow> content q w = None"
    and missing_tree: "mo_try_exists F p w = Inr False \<Longrightarrow> inside p q \<Longrightarrow> content q w = None"
    and read_content: "mo_read F p w = Inr bytes \<Longrightarrow> content p w = Some bytes"
    and delete_frame: "q \<noteq> p \<Longrightarrow> content q (snd (mo_delete F p w)) = content q w"
    and delete_self: "content p (snd (mo_delete F p w)) \<in> {None, content p w}"
    and remove_frame: "q \<noteq> p \<Longrightarrow> content q (snd (mo_remove_file F p w)) = content q w"
    and remove_self: "content p (snd (mo_remove_file F p w)) \<in> {None, content p w}"
    and create_frame: "q \<noteq> p \<Longrightarrow> content q (snd (mo_create_new F p w)) = content q w"
    and create_self: "mo_create_new F p w = (Inr u, w') \<Longrightarrow> content p w' = Some []"
    and create_fails: "mo_create_new F p w = (Inl e, w') \<Longrightarrow> content p w' = content p w"
    and write_frame: "q \<noteq> p \<Longrightarrow> content q (snd (mo_write_sync F p bytes w)) = content q w"
    and write_self: "content p w = Some [] \<Longrightarrow>
        content p (snd (mo_write_sync F p bytes w)) = None \<or> (\<exists>n. content p (snd (mo_write_sync F p bytes w)) = Some (take n bytes))"
    and replace_frame: "q \<noteq> p \<Longrightarrow> q \<noteq> p' \<Longrightarrow> content q (snd (mo_move_replace F p p' w)) = content q w"
    and directory_frame: "content q (snd (mo_create_directory F p d w)) = content q w"
    and security_frame: "content q (snd (mo_set_security F p d protected w)) = content q w"
    and change_frame: "content q (snd (mo_change_config2 F level v w)) = content q w"
    and start_frame: "\<not> service_file q \<Longrightarrow> content q (snd (mo_start_service F w)) = content q w"
    and stop_frame: "\<not> service_file q \<Longrightarrow> content q (snd (mo_stop_service F w)) = content q w"
    and sleep_frame: "\<not> service_file q \<Longrightarrow> content q (mo_sleep F k w) = content q w"
    and token_frame: "content q (snd (mo_open_token F w)) = content q w"
      "content q (snd (mo_adjust_privilege F luid w)) = content q w" "content q (snd (mo_close_token F w)) = content q w"
    and rename_fails: "mo_rename F a b w = (Inl e, w') \<Longrightarrow> content q w' = content q w"
    and rename_moves: "mo_rename F a b w = (Inr u, w') \<Longrightarrow> content (b @ sep_unit # s) w' = content (a @ sep_unit # s) w"
    and rename_frame: "mo_rename F a b w = (Inr u, w') \<Longrightarrow> q \<notin> tree_of a \<Longrightarrow> q \<notin> tree_of b \<Longrightarrow> content q w' = content q w"
    and journal_text: "mo_decode_install F (take n (mo_encode_install F snapshot)) = Some snapshot' \<Longrightarrow> snapshot' = snapshot"
    and plain_version: "list_all (\<lambda>u. \<not> is_separator u \<and> u \<noteq> colon_unit) (wide (mo_version F))"

section \<open>The fixed paths\<close>

definition roots_of :: "fixed_paths \<Rightarrow> wide list" where
  "roots_of paths =
     [fp_state_root paths, fp_journal_root paths, fp_uninstall_journal_root paths, fp_quarantine_root paths]"

definition root_names :: "string \<Rightarrow> wide list" where
  "root_names version =
     map wide [''xsoc'', ''xsoc.install-journal-'' @ version, ''xsoc.uninstall-journal-'' @ version, ''xsoc.purge-quarantine-'' @ version]"

lemma wide_append [simp]: "wide (a @ b) = wide a @ wide b"
  by (simp add: wide_def)

lemma wide_plain:
  "list_all (\<lambda>u. \<not> is_separator u \<and> u \<noteq> colon_unit) (wide v) \<Longrightarrow> n \<in> set (root_names v) \<Longrightarrow> plain_name n \<and> 3 < length n"
  by (auto simp: root_names_def plain_name_def wide_def byte_def is_separator_def sep_unit_def colon_unit_def dot_unit_def)

lemma root_names_distinct: "distinct (root_names v)"
  by (simp add: root_names_def wide_def byte_def)

lemma join_same_base:
  assumes "p \<noteq> []"
  obtains base where "\<And>n. plain_name n \<Longrightarrow> path_join p n = base @ n"
  using that [of p] that [of "p @ [sep_unit]"] assms by (fastforce simp: path_join_def plain_relative)

lemma discovered_roots:
  assumes "discover F exe w = Inr paths" "list_all (\<lambda>u. \<not> is_separator u \<and> u \<noteq> colon_unit) (wide (mo_version F))"
  obtains base where "roots_of paths = map ((@) base) (root_names (mo_version F))"
proof -
  obtain pd where pd: "wide_is_absolute pd"
    and roots: "roots_of paths = map (path_join pd) (root_names (mo_version F))"
    using assms(1) by (auto simp: discover_def bindR_Inr_iff ensure_absolute_root_def Let_def roots_of_def root_names_def)
  have "pd \<noteq> []" using pd by (auto simp: wide_is_absolute_def has_root_def starts_with_separator_def is_share_def)
  then obtain base where base: "\<And>n. plain_name n \<Longrightarrow> path_join pd n = base @ n" by (rule join_same_base) blast
  have "roots_of paths = map ((@) base) (root_names (mo_version F))"
    unfolding roots by (rule map_cong [OF refl]) (use base wide_plain [OF assms(2)] in auto)
  then show ?thesis by (rule that)
qed

definition disjoint_roots :: "fixed_paths \<Rightarrow> bool" where
  "disjoint_roots paths \<longleftrightarrow>
     list_all good_root (roots_of paths) \<and>
     (\<forall>i < 4. \<forall>j < 4. i \<noteq> j \<longrightarrow> tree_of (roots_of paths ! i) \<inter> tree_of (roots_of paths ! j) = {})"

lemma discovered_disjoint:
  assumes "discover F exe w = Inr paths" "list_all (\<lambda>u. \<not> is_separator u \<and> u \<noteq> colon_unit) (wide (mo_version F))"
  shows "disjoint_roots paths"
proof -
  obtain base where base: "roots_of paths = map ((@) base) (root_names (mo_version F))"
    using assms by (rule discovered_roots)
  have good: "good_root (base @ n)" if "n \<in> set (root_names (mo_version F))" for n
  proof -
    have "plain_name n" "n \<noteq> []" "3 < length n" using wide_plain [OF assms(2) that] by auto
    moreover from this have "\<not> is_separator (last n)" by (simp add: plain_not_separator)
    ultimately show ?thesis by (simp add: good_root_def)
  qed
  moreover have "length (root_names (mo_version F)) = 4" by (simp add: root_names_def)
  moreover have "tree_of (base @ root_names (mo_version F) ! i) \<inter> tree_of (base @ root_names (mo_version F) ! j) = {}"
    if "i < 4" "j < 4" "i \<noteq> j" for i j
    using that calculation(2) root_names_distinct [of "mo_version F"] wide_plain [OF assms(2)]
    by (intro siblings_disjoint) (simp_all add: nth_eq_iff_index_eq)
  ultimately show ?thesis by (auto simp: disjoint_roots_def base list_all_iff)
qed

lemma disjoint_rootsD:
  assumes "disjoint_roots paths"
  shows "good_root (fp_state_root paths)" "good_root (fp_journal_root paths)"
    "good_root (fp_uninstall_journal_root paths)" "good_root (fp_quarantine_root paths)"
    "tree_of (fp_state_root paths) \<inter> tree_of (fp_journal_root paths) = {}"
    "tree_of (fp_state_root paths) \<inter> tree_of (fp_uninstall_journal_root paths) = {}"
    "tree_of (fp_state_root paths) \<inter> tree_of (fp_quarantine_root paths) = {}"
    "tree_of (fp_journal_root paths) \<inter> tree_of (fp_uninstall_journal_root paths) = {}"
    "tree_of (fp_journal_root paths) \<inter> tree_of (fp_quarantine_root paths) = {}"
    "tree_of (fp_uninstall_journal_root paths) \<inter> tree_of (fp_quarantine_root paths) = {}"
proof -
  note d = assms [unfolded disjoint_roots_def]
  show "good_root (fp_state_root paths)" "good_root (fp_journal_root paths)"
    "good_root (fp_uninstall_journal_root paths)" "good_root (fp_quarantine_root paths)"
    using d by (auto simp: roots_of_def)
  have pair: "tree_of (roots_of paths ! i) \<inter> tree_of (roots_of paths ! j) = {}" if "i < 4" "j < 4" "i \<noteq> j" for i j
    using d that by blast
  show "tree_of (fp_state_root paths) \<inter> tree_of (fp_journal_root paths) = {}"
    using pair [of 0 1] by (simp add: roots_of_def)
  show "tree_of (fp_state_root paths) \<inter> tree_of (fp_uninstall_journal_root paths) = {}"
    using pair [of 0 2] by (simp add: roots_of_def)
  show "tree_of (fp_state_root paths) \<inter> tree_of (fp_quarantine_root paths) = {}"
    using pair [of 0 3] by (simp add: roots_of_def)
  show "tree_of (fp_journal_root paths) \<inter> tree_of (fp_uninstall_journal_root paths) = {}"
    using pair [of 1 2] by (simp add: roots_of_def)
  show "tree_of (fp_journal_root paths) \<inter> tree_of (fp_quarantine_root paths) = {}"
    using pair [of 1 3] by (simp add: roots_of_def)
  show "tree_of (fp_uninstall_journal_root paths) \<inter> tree_of (fp_quarantine_root paths) = {}"
    using pair [of 2 3] by (simp add: roots_of_def)
qed

text \<open>An extension is changed in the directory of the file.\<close>

lemma extension_inside:
  assumes "plain_name n" "last n \<noteq> dot_unit"
  shows "inside r (with_extension (r @ sep_unit # n) extension)"
proof (cases "wide_file_name (r @ sep_unit # n)")
  case None
  then show ?thesis by (simp add: with_extension_def inside_def)
next
  case (Some m)
  define p where "p = r @ sep_unit # n"
  define body where "body = path_body p"
  from Some have m: "m = last_name body" "m \<noteq> []"
    by (auto simp: wide_file_name_def Let_def p_def body_def split: if_splits)
  then have "body \<noteq> []" by (auto simp: last_name_def skip_right_def until_separator_def)
  then have h: "head_units p < length p" by (simp add: body_def path_body_def)
  have last: "last p = last n" "last body = last n"
    using plain_nonempty [OF assms(1)] h by (simp_all add: p_def body_def path_body_def)
  have "\<not> is_separator (last n)"
    using plain_not_separator [OF assms(1)] plain_nonempty [OF assms(1)] by simp
  then have skip: "skip_right body = body"
    using \<open>body \<noteq> []\<close> last assms(2) by (cases "rev body") (auto simp: skip_right_def)
  have "rev body = take (length p - head_units p) (rev n @ sep_unit # rev r)"
    by (simp only: body_def path_body_def rev_drop) (simp only: p_def rev_append rev.simps append_assoc append.simps)
  moreover have "length (takeWhile (\<lambda>u. \<not> is_separator u) (take k (rev n @ sep_unit # s))) \<le> length n" for k s
    by (cases "k \<le> length n") (auto simp: length_takeWhile_le le_trans [OF length_takeWhile_le] take_Cons' takeWhile_append)
  ultimately have len: "length m \<le> length n"
    by (simp only: m last_name_def skip until_separator_def length_rev)
  have "length m \<le> length body"
    using length_takeWhile_le [of "\<lambda>u. \<not> is_separator u" "rev body"] by (simp add: m(1) last_name_def skip until_separator_def)
  then have "head_units p + (length body - length m) = length p - length m"
    using h by (simp add: body_def path_body_def)
  then have "take (head_units p) p @ take (length body - length m) body = take (length p - length m) p"
    by (metis body_def path_body_def take_add)
  moreover have "take (length p - length m) p = r @ sep_unit # take (length n - length m) n"
    using len by (simp add: p_def take_Cons')
  moreover have "\<exists>x. with_extension p extension = (take (head_units p) p @ take (length body - length m) body) @ x"
    using Some by (simp add: with_extension_def Let_def p_def [symmetric] body_def [symmetric] skip split del: if_split)
  ultimately show ?thesis by (auto simp: inside_def p_def [symmetric])
qed


section \<open>A file of the state\<close>

text \<open>
  The file \<open>relative\<close> of the state has the content \<open>x\<close>, in the state directory or in the
  quarantine of a purge, and an install journal says that there was state.
\<close>

definition state_kept :: "'w maint_ops \<Rightarrow> (wide \<Rightarrow> 'w \<Rightarrow> string option) \<Rightarrow> fixed_paths \<Rightarrow> wide \<Rightarrow> string \<Rightarrow> 'w \<Rightarrow> bool" where
  "state_kept F content paths relative x w \<longleftrightarrow>
     (content (fp_state_root paths @ sep_unit # relative) w = Some x \<or>
      content (fp_quarantine_root paths @ sep_unit # relative) w = Some x) \<and>
     (\<forall>bytes snapshot. content (path_join (fp_journal_root paths) snapshot_file) w = Some bytes \<longrightarrow>
        mo_decode_install F bytes = Some snapshot \<longrightarrow> is_state_existed snapshot)"

text \<open>The files this is about: neither the marker nor what the service writes.\<close>

definition own_file :: "fixed_paths \<Rightarrow> (wide \<Rightarrow> bool) \<Rightarrow> wide \<Rightarrow> bool" where
  "own_file paths service_file relative \<longleftrightarrow>
     \<not> marker_path paths (fp_state_root paths @ sep_unit # relative) \<and>
     \<not> service_file (fp_state_root paths @ sep_unit # relative) \<and>
     \<not> service_file (fp_quarantine_root paths @ sep_unit # relative) \<and>
     \<not> service_file (path_join (fp_journal_root paths) snapshot_file)"

lemma rename_effect:
  "rename_managed_directory_by_handle F a b w = (r, w') \<Longrightarrow>
     w' = w \<or> (ensure_absent F b w = Inr () \<and> w' = snd (mo_rename F a b w))"
  unfolding rename_managed_directory_by_handle_def
  by (auto simp: bindT_apply tx_simps contextT_def io_tx_def split: sum.splits prod.splits)

locale kept_file = managed_files +
  fixes paths :: fixed_paths and relative :: wide and x :: string
  assumes disjoint: "disjoint_roots paths" and own: "own_file paths service_file relative"
begin

abbreviation "here \<equiv> fp_state_root paths @ sep_unit # relative"
abbreviation "there \<equiv> fp_quarantine_root paths @ sep_unit # relative"
abbreviation "journal \<equiv> path_join (fp_journal_root paths) snapshot_file"
abbreviation "P \<equiv> state_kept F content paths relative x"

lemma unchanged_keeps:
  "content here w' = content here w \<Longrightarrow> content there w' = content there w \<Longrightarrow>
     content journal w' \<in> {None, content journal w} \<Longrightarrow> P w \<Longrightarrow> P w'"
  by (auto simp: state_kept_def)

lemma journal_plain: "plain_name snapshot_file" "plain_name state_acl_file" "plain_name program_acl_file"
    "last snapshot_file \<noteq> dot_unit" "snapshot_file \<noteq> state_acl_file" "snapshot_file \<noteq> program_acl_file"
  by (simp_all add: plain_name_def wide_def byte_def is_separator_def sep_unit_def colon_unit_def dot_unit_def
      snapshot_file_def state_acl_file_def program_acl_file_def)

lemma trees:
  "here \<in> tree_of (fp_state_root paths)" "there \<in> tree_of (fp_quarantine_root paths)"
  "journal \<in> tree_of (fp_journal_root paths)"
  using disjoint_rootsD(2) [OF disjoint] journal_plain(1)
  by (auto simp: tree_of_def inside_def join_plain)

definition "deletable = {p. p \<noteq> here \<and> p \<noteq> there}"
definition "writable = deletable - {journal}"

lemma outside:
  "tree_of (fp_journal_root paths) \<subseteq> deletable" "tree_of (fp_uninstall_journal_root paths) \<subseteq> deletable"
  "q \<in> tree_of (fp_uninstall_journal_root paths) \<Longrightarrow> q \<in> writable"
  "q \<in> tree_of (fp_journal_root paths) \<Longrightarrow> q \<noteq> journal \<Longrightarrow> q \<in> writable"
  using disjoint_rootsD(5-10) [OF disjoint] trees by (auto simp: deletable_def writable_def)

lemma journal_names:
  "n \<in> {state_acl_file, program_acl_file} \<Longrightarrow> path_join (fp_journal_root paths) n \<in> writable"
  using disjoint_rootsD(2) [OF disjoint] journal_plain
  by (intro outside(4)) (auto simp: join_plain tree_of_def inside_def)

lemma purge_name_plain: "plain_name (purge_started_file F)"
  using plain_version
  by (auto simp: plain_name_def purge_started_file_def wide_def byte_def is_separator_def sep_unit_def colon_unit_def dot_unit_def)

lemma uninstall_names:
  "n \<in> {snapshot_file, state_acl_file, purge_started_file F} \<Longrightarrow> path_join (fp_uninstall_journal_root paths) n \<in> writable"
  "with_extension (path_join (fp_uninstall_journal_root paths) snapshot_file) (wide ''replacement'') \<in> writable"
  using disjoint_rootsD(3) [OF disjoint] journal_plain purge_name_plain extension_inside [OF journal_plain(1,4)]
  by (auto simp: join_plain tree_of_def inside_def intro!: outside(3))

lemma marker_writable: "marker_path paths m \<Longrightarrow> m \<in> writable"
proof -
  assume m: "marker_path paths m"
  have "plain_name (wide state_marker)"
    by (simp add: plain_name_def wide_def byte_def is_separator_def sep_unit_def colon_unit_def dot_unit_def state_marker_def)
  then have "m \<in> tree_of (fp_state_root paths)"
    using m disjoint_rootsD(1) [OF disjoint] by (auto simp: marker_path_def tree_of_def inside_def join_plain)
  moreover have "m \<noteq> here" using m own by (auto simp: own_file_def)
  ultimately show ?thesis
    using disjoint_rootsD(5,7) [OF disjoint] trees by (auto simp: deletable_def writable_def)
qed

lemma file_frames:
  "p \<in> deletable \<Longrightarrow> keeps P (mo_delete F p)"
  "p \<in> writable \<Longrightarrow> keeps P (mo_remove_file F p)"
  "p \<in> writable \<Longrightarrow> keeps P (mo_create_new F p)"
  "p \<in> writable \<Longrightarrow> keeps P (mo_write_sync F p bytes)"
  "p \<in> writable \<Longrightarrow> p' \<in> writable \<Longrightarrow> keeps P (mo_move_replace F p p')"
proof -
  assume p: "p \<in> deletable"
  show "keeps P (mo_delete F p)"
  proof (rule keepsI)
    fix w
    assume "P w"
    then show "P (snd (mo_delete F p w))"
      using p delete_self [of p w] delete_frame [of journal p w]
      by (cases "p = journal") (auto simp: deletable_def delete_frame intro: unchanged_keeps)
  qed
qed (auto intro!: keepsI elim!: unchanged_keeps [rotated -1]
    simp: writable_def deletable_def remove_frame create_frame write_frame replace_frame)

lemma quiet_frames:
  "keeps P (mo_create_directory F p d)" "keeps P (mo_set_security F p d protected)" "keeps P (mo_change_config2 F level v)"
  "keeps P (mo_start_service F)" "keeps P (mo_stop_service F)" "P w \<Longrightarrow> P (mo_sleep F k w)"
  "keeps P (mo_open_token F)" "keeps P (mo_adjust_privilege F luid)" "keeps P (mo_close_token F)"
  using own
  by (auto intro!: keepsI elim!: unchanged_keeps [rotated -1] simp: own_file_def directory_frame security_frame
      change_frame start_frame stop_frame sleep_frame token_frame)

text \<open>What the journal says, and what is put into it.\<close>

lemma journal_read: "P w \<Longrightarrow> read_snapshot F paths w = Inr snapshot \<Longrightarrow> is_state_existed snapshot"
  by (auto simp: read_snapshot_def bindR_Inr_iff state_kept_def dest!: read_content)

lemma absent_here: "ensure_absent F (fp_state_root paths) w = Inr u \<Longrightarrow> content here w = None"
  by (auto simp: ensure_absent_def inside_def split: sum.splits if_splits intro!: absent_tree)

lemma absent_there: "ensure_absent F (fp_quarantine_root paths) w = Inr u \<Longrightarrow> content there w = None"
  by (auto simp: ensure_absent_def inside_def split: sum.splits if_splits intro!: absent_tree)

lemma inspection: "P w \<Longrightarrow> inspect_for_install F paths w = Inr (snapshot, present) \<Longrightarrow> is_state_existed snapshot"
proof -
  assume P: "P w" and inspect: "inspect_for_install F paths w = Inr (snapshot, present)"
  then have "content there w = None" and state: "validate_optional_root F (fp_state_root paths) w = Inr (is_state_existed snapshot)"
    by (auto simp: inspect_for_install_def bindR_Inr_iff dest: absent_there)
  with P have "content here w = Some x" by (simp add: state_kept_def)
  with state absent_tree [of "fp_state_root paths" w _ here] show ?thesis
    by (auto simp: validate_optional_root_def inside_def bindR_Inr_iff split: sum.splits if_splits)
qed

lemma journal_entry:
  "is_state_existed snapshot \<Longrightarrow> keeps P (write_new_private F journal (mo_encode_install F snapshot))"
proof (rule keepsI)
  fix w
  assume existed: "is_state_existed snapshot" and P: "P w"
  define bytes where "bytes = mo_encode_install F snapshot"
  define Q where "Q = (\<lambda>w. (content here w = Some x \<or> content there w = Some x) \<and>
    (content journal w = None \<or> (\<exists>n. content journal w = Some (take n bytes))))"
  have distinct: "here \<noteq> journal" "there \<noteq> journal"
    using disjoint_rootsD(5,9) [OF disjoint] trees by auto
  have Q: "Q w' \<Longrightarrow> P w'" for w'
    using existed by (auto simp: Q_def state_kept_def bytes_def dest: journal_text)
  obtain r w1 where create: "mo_create_new F journal w = (r, w1)" by fastforce
  have others: "content here w1 = content here w" "content there w1 = content there w"
    using create_frame [of here journal w] create_frame [of there journal w] distinct create by simp_all
  show "P (snd (write_new_private F journal (mo_encode_install F snapshot) w))"
  proof (cases r)
    case (Inl e)
    with create others create_fails [of journal w e w1] P show ?thesis
      by (auto simp: write_new_private_def bindT_apply io_tx_def tx_simps intro: unchanged_keeps)
  next
    case (Inr u)
    with create create_self have empty: "content journal w1 = Some []" by blast
    obtain r2 w2 where written: "mo_write_sync F journal bytes w1 = (r2, w2)" by fastforce
    have "Q w2"
      using P others write_frame [of here journal bytes w1] write_frame [of there journal bytes w1] write_self [OF empty, of bytes] distinct written
      by (auto simp: Q_def state_kept_def)
    moreover have "Q w2 \<Longrightarrow> Q (snd (mo_remove_file F journal w2))"
      using remove_frame [of here journal w2] remove_frame [of there journal w2] remove_self [of journal w2] distinct
      by (auto simp: Q_def)
    ultimately show ?thesis
      using create Inr written Q
      by (cases r2) (auto simp: write_new_private_def bindT_apply io_tx_def tx_simps tryT_def ignoreT_def bytes_def)
  qed
qed

lemma moves:
  "keeps P (rename_managed_directory_by_handle F (fp_state_root paths) (fp_quarantine_root paths))"
  "keeps P (rename_managed_directory_by_handle F (fp_quarantine_root paths) (fp_state_root paths))"
proof -
  have out: "journal \<notin> tree_of (fp_state_root paths)" "journal \<notin> tree_of (fp_quarantine_root paths)"
    using disjoint_rootsD(5,9) [OF disjoint] trees by auto
  have move: "P (snd (mo_rename F a b w))"
    if "P w" "{a, b} = {fp_state_root paths, fp_quarantine_root paths}" "content (b @ sep_unit # relative) w = None" for a b w
  proof (cases "mo_rename F a b w")
    case (Pair r w')
    show ?thesis
    proof (cases r)
      case (Inl e)
      with Pair that(1) rename_fails [of a b w e w'] show ?thesis by (auto simp: state_kept_def)
    next
      case (Inr u)
      note success = Pair [unfolded Inr]
      from that out have "journal \<notin> tree_of a" "journal \<notin> tree_of b" by (auto simp: doubleton_eq_iff)
      with that rename_frame [OF success] rename_moves [OF success, of relative] show ?thesis
        by (auto simp: Pair state_kept_def doubleton_eq_iff)
    qed
  qed
  have "P (snd (rename_managed_directory_by_handle F a b w))"
    if "P w" "{a, b} = {fp_state_root paths, fp_quarantine_root paths}" for a b w
    using rename_effect [of F a b w] that move [OF that] absent_here [of w] absent_there [of w]
    by (cases "rename_managed_directory_by_handle F a b w") (auto simp: doubleton_eq_iff)
  then show "keeps P (rename_managed_directory_by_handle F (fp_state_root paths) (fp_quarantine_root paths))"
    "keeps P (rename_managed_directory_by_handle F (fp_quarantine_root paths) (fp_state_root paths))"
    by (simp_all add: keeps_def insert_commute)
qed

end

sublocale kept_file \<subseteq> steady_commands F P deletable writable paths
  by unfold_locales
    (use plain_entries file_frames quiet_frames outside(1,2) disjoint_rootsD(1-3) [OF disjoint] journal_names uninstall_names
      marker_writable journal_read inspection journal_entry moves in simp_all)

text \<open>Commands one after another, each from the state the one before left, failed or not.\<close>

definition run_commands :: "'w maint_ops \<Rightarrow> fixed_paths \<Rightarrow> string list \<Rightarrow> 'w \<Rightarrow> 'w" where
  "run_commands F paths commands w = fold (\<lambda>command w. snd (maintenance_command F paths command w)) commands w"

context kept_file
begin

lemma commands_keep: "''commit-purge'' \<notin> set commands \<Longrightarrow> P w \<Longrightarrow> P (run_commands F paths commands w)"
proof (induction commands arbitrary: w)
  case (Cons command commands)
  then have "P (snd (maintenance_command F paths command w))"
    by (intro keepsD [OF command_keeps]) auto
  with Cons show ?case by (simp add: run_commands_def)
qed (simp add: run_commands_def)

end

section \<open>One file\<close>

locale single_file = managed_files +
  fixes q :: wide and c :: "string option"
  assumes not_of_service: "\<not> service_file q"

sublocale single_file \<subseteq> steady F "\<lambda>w. content q w = c" "- {q}" "- {q}"
  by unfold_locales
    (auto simp: keeps_def delete_frame remove_frame create_frame write_frame replace_frame directory_frame security_frame
      change_frame start_frame stop_frame sleep_frame token_frame not_of_service intro: plain_entries)

context single_file
begin

lemma purge_keeps_others:
  assumes "disjoint_roots paths" "q \<notin> tree_of (fp_quarantine_root paths)" "q \<notin> tree_of (fp_uninstall_journal_root paths)"
  shows "keeps (\<lambda>w. content q w = c) (commit_purge F paths)"
  unfolding commit_purge_def delete_quarantine_def
  using disjoint_rootsD(3,4) [OF assms(1)] assms(2,3)
  by (intro keeps_intros remove_tree_keeps) auto

text \<open>After the file is back in its place, the rest of the rollback of a purge leaves it there.\<close>

lemma service_then_journal_keeps:
  assumes "disjoint_roots paths" "q \<notin> tree_of (fp_uninstall_journal_root paths)"
  shows "keeps (\<lambda>w. content q w = c) (bindT (restore_service_state F paths sid failure running acl)
    (\<lambda>_. remove_tree_no_reparse F (fp_uninstall_journal_root paths)))"
  using disjoint_rootsD(3) [OF assms(1)] assms(2)
  by (intro keeps_intros restore_service_keeps remove_tree_keeps) auto

end

section \<open>Rollback of a purge\<close>

lemma rollback_path_exists_iff: "rollback_path_exists F p w = Inr b \<longleftrightarrow> mo_try_exists F p w = Inr b"
  by (cases "mo_try_exists F p w") (auto simp: rollback_path_exists_def checked_rollback_path_status_def io_res_def)

lemma rename_succeeds:
  "rename_managed_directory_by_handle F a b w = (Inr u, w') \<Longrightarrow> mo_rename F a b w = (Inr (), w')"
  unfolding rename_managed_directory_by_handle_def
  by (auto simp: bindT_ok_iff tx_simps)

lemma restore_quarantine_ok:
  "restore_quarantine F paths w = (Inr u, w') \<Longrightarrow>
     mo_try_exists F (fp_quarantine_root paths) w = Inr True \<and> ensure_absent F (fp_state_root paths) w = Inr () \<and>
       mo_rename F (fp_quarantine_root paths) (fp_state_root paths) w = (Inr (), w') \<or>
     mo_try_exists F (fp_quarantine_root paths) w = Inr False \<and> w' = w"
  by (auto simp: restore_quarantine_def bindT_ok_iff tx_simps rollback_path_exists_iff split: if_splits dest!: rename_succeeds)

context kept_file
begin

lemma single: "single_file F content service_file here"
  using own by unfold_locales (simp add: own_file_def)

lemma rollback_brings_back:
  assumes P: "P w" and pending: "mo_try_exists F (fp_uninstall_journal_root paths) w = Inr True"
    and run: "rollback_purge F paths w = (Inr u, w')"
  shows "content here w' = Some x"
proof -
  obtain snapshot :: uninstall_snapshot and w1 where quarantine: "restore_quarantine F paths w = (Inr (), w1)"
    and rest: "bindT (restore_service_state F paths service_sid_type_unrestricted True (us_service_was_running snapshot) Secure_Current)
        (\<lambda>_. remove_tree_no_reparse F (fp_uninstall_journal_root paths)) w1 = (Inr u, w')"
    using run pending
    by (auto simp: rollback_purge_def bindT_ok_iff [of "readT _"] bindT_ok_iff [of "restore_quarantine _ _"] tx_simps
        rollback_path_exists_iff split: if_splits)
  from restore_quarantine_ok [OF quarantine] have "content here w1 = Some x"
  proof (elim disjE conjE)
    assume "mo_rename F (fp_quarantine_root paths) (fp_state_root paths) w = (Inr (), w1)" "ensure_absent F (fp_state_root paths) w = Inr ()"
    with absent_here P rename_moves [of "fp_quarantine_root paths" "fp_state_root paths" w "()" w1 relative]
    show ?thesis by (auto simp: state_kept_def)
  next
    assume "mo_try_exists F (fp_quarantine_root paths) w = Inr False" "w1 = w"
    with missing_tree [of "fp_quarantine_root paths" w there] P show ?thesis
      by (auto simp: state_kept_def inside_def)
  qed
  moreover have "here \<notin> tree_of (fp_uninstall_journal_root paths)"
    using disjoint_rootsD(6) [OF disjoint] trees by auto
  ultimately show ?thesis
    using keepsD [OF single_file.service_then_journal_keeps [OF single disjoint]] rest by (metis snd_conv)
qed

end

end
