(* ===== verification/Windows_Memory.thy ===== *)
theory Windows_Memory
  imports Windows_Files
begin

text \<open>
  The interface \<open>managed_files\<close> on a machine in memory: paths with their nodes, one service, a clock.
  Descriptors are kept as their text, and journals are written in a self-delimiting code of numbers.
\<close>

section \<open>Journal text\<close>

definition unary :: "nat \<Rightarrow> string" where
  "unary n = replicate n (CHR ''1'') @ ''0''"

definition numbers_text :: "nat list \<Rightarrow> string" where
  "numbers_text ns = concat (map unary ns)"

fun text_numbers :: "nat \<Rightarrow> string \<Rightarrow> nat list option" where
  "text_numbers n [] = (if n = 0 then Some [] else None)"
| "text_numbers n (c # s) =
     (if c = CHR ''1'' then text_numbers (n + 1) s
      else if c = CHR ''0'' then map_option ((#) n) (text_numbers 0 s)
      else None)"

definition sized :: "nat list \<Rightarrow> nat list" where
  "sized ns = length ns # ns"

definition bit :: "bool \<Rightarrow> nat" where "bit b = (if b then 1 else 0)"

definition option_number :: "('a \<Rightarrow> nat) \<Rightarrow> 'a option \<Rightarrow> nat" where
  "option_number f x = (case x of None \<Rightarrow> 0 | Some y \<Rightarrow> Suc (f y))"

definition number_option :: "(nat \<Rightarrow> 'a) \<Rightarrow> nat \<Rightarrow> 'a option" where
  "number_option f n = (if n = 0 then None else Some (f (n - 1)))"

definition install_numbers :: "install_snapshot \<Rightarrow> nat list" where
  "install_numbers s =
     length (is_application_version s) #
     [unat (is_format s), bit (is_program_existed s), bit (is_state_existed s), option_number unat (is_service_sid_type s),
      option_number bit (is_failure_actions s), bit (is_service_running s), bit (is_state_acl_saved s)] @
     map of_char (is_application_version s)"

fun install_of :: "nat list \<Rightarrow> install_snapshot option" where
  "install_of (n # a # b # c # d # e # f # g # cs) =
     (if length cs = n
      then Some \<lparr>is_format = of_nat a, is_application_version = map char_of cs, is_program_existed = (b = 1),
        is_state_existed = (c = 1), is_service_sid_type = number_option of_nat d,
        is_failure_actions = number_option (\<lambda>n. n = 1) e, is_service_running = (f = 1), is_state_acl_saved = (g = 1)\<rparr>
      else None)"
| "install_of _ = None"

definition uninstall_numbers :: "uninstall_snapshot \<Rightarrow> nat list" where
  "uninstall_numbers s =
     [unat (us_format s), bit (us_state_acl_saved s), bit (us_service_was_running s)] @
     map of_char (us_application_version s)"

fun uninstall_of :: "nat list \<Rightarrow> uninstall_snapshot option" where
  "uninstall_of (a # b # c # cs) =
     Some \<lparr>us_format = of_nat a, us_application_version = map char_of cs, us_state_acl_saved = (b = 1),
       us_service_was_running = (c = 1)\<rparr>"
| "uninstall_of _ = None"

definition entry_numbers :: "acl_snapshot_entry \<Rightarrow> nat list" where
  "entry_numbers e =
     bit (ae_is_directory e) # sized (map unat (ae_relative_path e)) @ sized (map of_char (ae_sddl e))"

definition acl_numbers :: "acl_snapshot \<Rightarrow> nat list" where
  "acl_numbers s =
     unat (as_format s) # sized (map of_char (as_application_version s)) @ concat (map entry_numbers (as_entries s))"

fun take_sized :: "nat list \<Rightarrow> (nat list \<times> nat list) option" where
  "take_sized [] = None"
| "take_sized (n # ns) = (if n \<le> length ns then Some (take n ns, drop n ns) else None)"

lemma take_sized_shorter: "take_sized ns = Some (a, b) \<Longrightarrow> length b < length ns"
  by (cases ns) (auto split: if_splits)

function entries_of :: "nat list \<Rightarrow> acl_snapshot_entry list option" where
  "entries_of [] = Some []"
| "entries_of (d # ns) =
     (case take_sized ns of
        None \<Rightarrow> None
      | Some (path, ns) \<Rightarrow>
          (case take_sized ns of
             None \<Rightarrow> None
           | Some (sddl, ns) \<Rightarrow>
               map_option ((#) \<lparr>ae_relative_path = map of_nat path, ae_is_directory = (d = 1), ae_sddl = map char_of sddl\<rparr>)
                 (entries_of ns)))"
  by pat_completeness auto

termination
  by (relation "measure length") (auto dest!: take_sized_shorter)

fun acl_of :: "nat list \<Rightarrow> acl_snapshot option" where
  "acl_of [] = None"
| "acl_of (f # ns) =
     (case take_sized ns of
        None \<Rightarrow> None
      | Some (version, ns) \<Rightarrow>
          map_option (\<lambda>entries. \<lparr>as_format = of_nat f, as_application_version = map char_of version, as_entries = entries\<rparr>)
            (entries_of ns))"

lemma text_numbers_unary:
  "text_numbers k (replicate n CHR ''1'' @ s) = text_numbers (k + n) s"
  by (induction n arbitrary: k) simp_all

lemma text_numbers_prefix:
  "text_numbers 0 (take k (numbers_text ns)) = Some ms \<Longrightarrow> \<exists>j. ms = take j ns"
proof (induction ns arbitrary: k ms)
  case (Cons n ns)
  have split: "take k (numbers_text (n # ns)) = take k (replicate n CHR ''1'') @ take (k - n) (CHR ''0'' # numbers_text ns)"
    by (simp add: numbers_text_def unary_def)
  show ?case
  proof (cases "k \<le> n")
    case True
    with split have "take k (numbers_text (n # ns)) = replicate k CHR ''1''" by (simp add: take_replicate min_def)
    with Cons.prems text_numbers_unary [of 0 k "[]"] show ?thesis by (intro exI [of _ 0]) (simp split: if_splits)
  next
    case False
    then obtain m where m: "k = n + Suc m" by (metis add_Suc_right less_imp_Suc_add not_le)
    with split Cons.prems text_numbers_unary [of 0 n "CHR ''0'' # take m (numbers_text ns)"]
    obtain ms' where "text_numbers 0 (take m (numbers_text ns)) = Some ms'" "ms = n # ms'"
      by (auto simp: take_replicate)
    with Cons.IH obtain j where "ms = n # take j ns" by blast
    then show ?thesis by (intro exI [of _ "Suc j"]) simp
  qed
qed (simp add: numbers_text_def)

lemma of_char_id: "map char_of (map of_char s) = (s :: string)"
  by (induction s) simp_all

lemma install_numbers_back: "install_of (install_numbers s) = Some s"
  by (cases s)
    (simp add: install_numbers_def bit_def option_number_def number_option_def of_char_id o_def split: option.split)

lemma install_of_take:
  assumes "install_of (take j (install_numbers s)) = Some s'"
  shows "s' = s"
proof -
  have "8 \<le> j" using assms by (cases "take j (install_numbers s)" rule: install_of.cases)
    (auto simp: install_numbers_def take_Cons' split: if_splits)
  then obtain i where "j = 8 + i" by (metis le_add_diff_inverse)
  with assms have "length (is_application_version s) \<le> i"
    by (auto simp: install_numbers_def numeral_eq_Suc split: if_splits)
  with \<open>j = 8 + i\<close> have "take j (install_numbers s) = install_numbers s" by (simp add: install_numbers_def)
  with assms install_numbers_back show ?thesis by simp
qed

definition decode_with :: "(nat list \<Rightarrow> 'a option) \<Rightarrow> string \<Rightarrow> 'a option" where
  "decode_with f s = Option.bind (text_numbers 0 s) f"

lemma decode_install_prefix: "decode_with install_of (take n (numbers_text (install_numbers s))) = Some s' \<Longrightarrow> s' = s"
  by (auto simp: decode_with_def bind_eq_Some_conv dest!: text_numbers_prefix install_of_take)

text \<open>An ACL snapshot is read back as it was written.\<close>

lemma text_numbers_back: "text_numbers 0 (numbers_text ns) = Some ns"
  by (induction ns) (simp_all add: numbers_text_def unary_def text_numbers_unary)

lemma take_sized_back [simp]: "take_sized (sized ns @ ms) = Some (ns, ms)"
  by (simp add: sized_def)

lemma of_unat_id: "map (of_nat \<circ> unat) ws = (ws :: wide)"
  by (induction ws) simp_all

lemma entries_back: "entries_of (concat (map entry_numbers es)) = Some es"
proof (induction es)
  case (Cons e es)
  then show ?case by (cases e) (simp add: entry_numbers_def of_unat_id of_char_id bit_def)
qed simp

lemma decode_acl_back: "decode_with acl_of (numbers_text (acl_numbers s)) = Some s"
  by (cases s) (simp add: decode_with_def text_numbers_back acl_numbers_def entries_back of_char_id)

section \<open>The machine\<close>

datatype mem_node = Mem_Directory wide | Mem_File string wide

record mem_world =
  mw_nodes :: "(wide \<times> mem_node) list"
  mw_sid :: "32 word"
  mw_flag :: "32 word"
  mw_service :: "32 word"
  mw_clock :: nat

definition inside_test :: "wide \<Rightarrow> wide \<Rightarrow> bool" where
  "inside_test p q \<longleftrightarrow> take (Suc (length p)) q = p @ [sep_unit]"

lemma inside_test_iff: "inside_test p q \<longleftrightarrow> inside p q"
proof
  assume "inside_test p q"
  then have "q = (p @ [sep_unit]) @ drop (Suc (length p)) q" by (metis inside_test_def append_take_drop_id)
  then show "inside p q" by (auto simp: inside_def)
qed (auto simp: inside_test_def inside_def)

declare inside_test_iff [symmetric, code]

definition mem_node_at :: "wide \<Rightarrow> mem_world \<Rightarrow> mem_node option" where
  "mem_node_at p w = map_of (mw_nodes w) p"

definition mem_occupied :: "wide \<Rightarrow> mem_world \<Rightarrow> bool" where
  "mem_occupied p w \<longleftrightarrow> list_ex (\<lambda>(q, _). q = p \<or> inside_test p q) (mw_nodes w)"

definition mem_content :: "wide \<Rightarrow> mem_world \<Rightarrow> string option" where
  "mem_content p w = (case mem_node_at p w of Some (Mem_File c _) \<Rightarrow> Some c | _ \<Rightarrow> None)"

definition mem_is_file :: "wide \<Rightarrow> mem_world \<Rightarrow> bool" where
  "mem_is_file p w \<longleftrightarrow> (case mem_node_at p w of Some (Mem_File _ _) \<Rightarrow> True | _ \<Rightarrow> False)"

abbreviation not_found :: io_error where "not_found \<equiv> Io_Error NotFound ''not found''"
abbreviation refused :: io_error where "refused \<equiv> Io_Error OtherKind ''refused''"

definition mem_metadata :: "wide \<Rightarrow> mem_world \<Rightarrow> io_error + file_attributes" where
  "mem_metadata p w =
     (if mem_is_file p w then Inr \<lparr>fa_directory = False, fa_reparse = False, fa_link = False\<rparr>
      else if mem_occupied p w then Inr \<lparr>fa_directory = True, fa_reparse = False, fa_link = False\<rparr>
      else Inl not_found)"

definition mem_read_dir :: "wide \<Rightarrow> mem_world \<Rightarrow> io_error + (io_error + wide) list" where
  "mem_read_dir p w =
     Inr (map Inr (filter plain_name (map (\<lambda>(q, _). drop (Suc (length p)) q)
       (filter (\<lambda>(q, _). inside_test p q) (mw_nodes w)))))"

definition mem_drop :: "wide \<Rightarrow> mem_world \<Rightarrow> mem_world" where
  "mem_drop p w = w\<lparr>mw_nodes := filter (\<lambda>(q, _). q \<noteq> p) (mw_nodes w)\<rparr>"

definition mem_put :: "wide \<Rightarrow> mem_node \<Rightarrow> mem_world \<Rightarrow> mem_world" where
  "mem_put p n w = w\<lparr>mw_nodes := (p, n) # filter (\<lambda>(q, _). q \<noteq> p) (mw_nodes w)\<rparr>"

definition mem_create :: "wide \<Rightarrow> mem_node \<Rightarrow> (mem_world, io_error, unit) tx" where
  "mem_create p n w = (if mem_occupied p w then (Inl refused, w) else (Inr (), mem_put p n w))"

definition mem_write :: "wide \<Rightarrow> string \<Rightarrow> (mem_world, io_error, unit) tx" where
  "mem_write p bytes w =
     (case mem_node_at p w of
        Some (Mem_File c d) \<Rightarrow> (Inr (), mem_put p (Mem_File (c @ bytes) d) w)
      | _ \<Rightarrow> (Inl refused, w))"

definition mem_remove_file :: "wide \<Rightarrow> (mem_world, io_error, unit) tx" where
  "mem_remove_file p w = (if mem_is_file p w then (Inr (), mem_drop p w) else (Inl not_found, w))"

definition mem_delete :: "wide \<Rightarrow> (mem_world, io_error, unit) tx" where
  "mem_delete p w =
     (if list_ex (\<lambda>(q, _). inside_test p q) (mw_nodes w) then (Inl refused, w) else (Inr (), mem_drop p w))"

definition mem_moved :: "wide \<Rightarrow> wide \<Rightarrow> wide \<Rightarrow> wide" where
  "mem_moved a b q = (if q = a \<or> inside_test a q then b @ drop (length a) q else q)"

definition mem_rename :: "wide \<Rightarrow> wide \<Rightarrow> (mem_world, io_error, unit) tx" where
  "mem_rename a b w =
     (if mem_occupied b w \<or> \<not> mem_occupied a w then (Inl refused, w)
      else (Inr (), w\<lparr>mw_nodes := map (\<lambda>(q, n). (mem_moved a b q, n)) (mw_nodes w)\<rparr>))"

definition mem_move_replace :: "wide \<Rightarrow> wide \<Rightarrow> (mem_world, io_error, unit) tx" where
  "mem_move_replace a b w =
     (case mem_node_at a w of
        Some (Mem_File c d) \<Rightarrow> (Inr (), mem_put b (Mem_File c d) (mem_drop a w))
      | _ \<Rightarrow> (Inl refused, w))"

definition descriptor_text :: "parsed_descriptor \<Rightarrow> wide" where
  "descriptor_text d = (case pd_text d of Inr (Some t) \<Rightarrow> t | _ \<Rightarrow> [])"

definition mem_descriptor :: "wide \<Rightarrow> mem_world \<Rightarrow> wide option" where
  "mem_descriptor p w = map_option (case_mem_node (\<lambda>d. d) (\<lambda>c d. d)) (mem_node_at p w)"

definition described :: "wide \<Rightarrow> mem_node \<Rightarrow> mem_node" where
  "described t n = (case n of Mem_Directory _ \<Rightarrow> Mem_Directory t | Mem_File c _ \<Rightarrow> Mem_File c t)"

definition mem_set_security :: "wide \<Rightarrow> parsed_descriptor \<Rightarrow> bool \<Rightarrow> (mem_world, io_error, unit) tx" where
  "mem_set_security p d protected w =
     (if mem_node_at p w = None then (Inl not_found, w)
      else (Inr (), w\<lparr>mw_nodes := map (\<lambda>(q, n). (q, if q = p then described (descriptor_text d) n else n)) (mw_nodes w)\<rparr>))"

definition mem_parse :: "string \<Rightarrow> io_error + parsed_descriptor" where
  "mem_parse sddl = Inr \<lparr>pd_owner = starts_with ''O:'' sddl, pd_dacl = contains_text ''D:'' sddl, pd_text = Inr (Some (wide sddl))\<rparr>"

definition mem_program_data :: wide where
  "mem_program_data = wide (''C:'' @ [CHR 0x5C] @ ''ProgramData'')"

definition mem_program_exe :: wide where
  "mem_program_exe = wide (''C:'' @ [CHR 0x5C] @ ''xsoc'' @ [CHR 0x5C] @ ''xsoc.exe'')"

definition mem_config_file :: wide where
  "mem_config_file = mem_program_data @ wide ([CHR 0x5C] @ ''xsoc'' @ [CHR 0x5C] @ ''config.json'')"

definition mem_account :: wide where "mem_account = wide ''LocalService''"

definition mem_service_config :: service_config where
  "mem_service_config =
     \<lparr>sc_base = 0, sc_units = mem_program_exe @ [0] @ mem_account @ [0], sc_type = service_win32_own_process, sc_start = 2,
      sc_path = 0, sc_account = 2 * (length mem_program_exe + 1)\<rparr>"

definition mem_arguments :: "wide list" where
  "mem_arguments = [mem_program_exe, wide ''--windows-service'', wide ''run'', wide ''--config'', mem_config_file]"

definition machine_ops :: "mem_world maint_ops" where
  "machine_ops =
     \<lparr>mo_metadata = mem_metadata, mo_links = (\<lambda>p w. Inr 1), mo_exists = mem_occupied,
      mo_try_exists = (\<lambda>p w. Inr (mem_occupied p w)), mo_read_dir = mem_read_dir,
      mo_read = (\<lambda>p w. case mem_content p w of Some c \<Rightarrow> Inr c | None \<Rightarrow> Inl not_found),
      mo_open = (\<lambda>p access directory w. if mem_occupied p w then Inr () else Inl not_found),
      mo_opened = (\<lambda>p w. Inr \<lparr>of_directory = \<not> mem_is_file p w, of_reparse = False, of_links = 1\<rparr>),
      mo_create_new = (\<lambda>p. mem_create p (Mem_File [] [])), mo_write_sync = mem_write, mo_remove_file = mem_remove_file,
      mo_delete = mem_delete, mo_rename = mem_rename, mo_move_replace = mem_move_replace,
      mo_create_directory = (\<lambda>p d. mem_create p (Mem_Directory (descriptor_text d))),
      mo_create_private = (\<lambda>p d. mem_create p (Mem_File [] (descriptor_text d))),
      mo_write_some = (\<lambda>p bytes w. case mem_write p bytes w of (r, w') \<Rightarrow> (map_ok (\<lambda>_. length bytes) r, w')),
      mo_flush = (\<lambda>p. returnT ()), mo_parse_descriptor = mem_parse,
      mo_get_security = (\<lambda>p w. Inr (Inr (mem_descriptor p w))), mo_set_security = mem_set_security,
      mo_open_logs = (\<lambda>p sid account w. Inr ()), mo_log_files = (\<lambda>p entries bytes w. Inr []),
      mo_read_log = (\<lambda>p name limit w. Inr []), mo_open_manager = (\<lambda>w. Inr ()), mo_open_service = (\<lambda>name access w. Inr ()),
      mo_config_size = (\<lambda>w. (True, 256)), mo_config = (\<lambda>n w. Inr mem_service_config),
      mo_config2_size = (\<lambda>level w. (True, 4)), mo_config2 = (\<lambda>level n w. Inr (if level = 5 then mw_sid w else mw_flag w)),
      mo_change_config2 = (\<lambda>level v w. (Inr (), if level = 5 then w\<lparr>mw_sid := v\<rparr> else w\<lparr>mw_flag := v\<rparr>)),
      mo_arguments = (\<lambda>line. Some mem_arguments), mo_service_state = (\<lambda>w. Inr (mw_service w)),
      mo_start_service = (\<lambda>w. (Inr (), w\<lparr>mw_service := service_running\<rparr>)),
      mo_stop_service = (\<lambda>w. (Inr (), w\<lparr>mw_service := service_stopped\<rparr>)), mo_now = mw_clock,
      mo_sleep = (\<lambda>n w. w\<lparr>mw_clock := mw_clock w + n\<rparr>), mo_open_token = returnT (),
      mo_lookup_privilege = (\<lambda>name w. Inr 0), mo_adjust_privilege = (\<lambda>luid. returnT True), mo_close_token = returnT (),
      mo_grants = (\<lambda>n. True), mo_uuid = (\<lambda>w. ''0''), mo_program_data = (\<lambda>w. Inr mem_program_data),
      mo_service_sid = ''S-1-5-80-1'', mo_version = ''1.0.0'', mo_default_config = ''{}'',
      mo_error_text = (\<lambda>e. \<lparr>et_chain = [''error''], et_root_cause = [''error''], et_outer = []\<rparr>),
      mo_encode_install = (\<lambda>s. numbers_text (install_numbers s)), mo_decode_install = decode_with install_of,
      mo_encode_uninstall = (\<lambda>s. numbers_text (uninstall_numbers s)), mo_decode_uninstall = decode_with uninstall_of,
      mo_encode_acl = (\<lambda>s. [numbers_text (acl_numbers s)]), mo_decode_acl = decode_with acl_of\<rparr>"

section \<open>It meets the interface\<close>

lemma machine_ops_simps [simp]:
  "mo_metadata machine_ops = mem_metadata" "mo_links machine_ops = (\<lambda>p w. Inr 1)" "mo_exists machine_ops = mem_occupied"
  "mo_try_exists machine_ops = (\<lambda>p w. Inr (mem_occupied p w))" "mo_read_dir machine_ops = mem_read_dir"
  "mo_read machine_ops = (\<lambda>p w. case mem_content p w of Some c \<Rightarrow> Inr c | None \<Rightarrow> Inl not_found)"
  "mo_create_new machine_ops = (\<lambda>p. mem_create p (Mem_File [] []))" "mo_write_sync machine_ops = mem_write"
  "mo_remove_file machine_ops = mem_remove_file" "mo_delete machine_ops = mem_delete" "mo_rename machine_ops = mem_rename"
  "mo_move_replace machine_ops = mem_move_replace"
  "mo_create_directory machine_ops = (\<lambda>p d. mem_create p (Mem_Directory (descriptor_text d)))"
  "mo_set_security machine_ops = mem_set_security"
  "mo_change_config2 machine_ops = (\<lambda>level v w. (Inr (), if level = 5 then w\<lparr>mw_sid := v\<rparr> else w\<lparr>mw_flag := v\<rparr>))"
  "mo_start_service machine_ops = (\<lambda>w. (Inr (), w\<lparr>mw_service := service_running\<rparr>))"
  "mo_stop_service machine_ops = (\<lambda>w. (Inr (), w\<lparr>mw_service := service_stopped\<rparr>))"
  "mo_sleep machine_ops = (\<lambda>n w. w\<lparr>mw_clock := mw_clock w + n\<rparr>)" "mo_now machine_ops = mw_clock"
  "mo_open_token machine_ops = returnT ()" "mo_adjust_privilege machine_ops = (\<lambda>luid. returnT True)" "mo_close_token machine_ops = returnT ()"
  "mo_version machine_ops = ''1.0.0''"
  "mo_encode_install machine_ops = (\<lambda>s. numbers_text (install_numbers s))" "mo_decode_install machine_ops = decode_with install_of"
  "mo_program_data machine_ops = (\<lambda>w. Inr mem_program_data)" "mo_service_state machine_ops = (\<lambda>w. Inr (mw_service w))"
  by (simp_all add: machine_ops_def)

lemma map_of_filter_key: "map_of (filter (\<lambda>(q, _). q \<noteq> p) xs) q = (if q = p then None else map_of xs q)"
  by (induction xs) auto

lemma mem_node_simps [simp]:
  "mem_node_at q (mem_drop p w) = (if q = p then None else mem_node_at q w)"
  "mem_node_at q (mem_put p n w) = (if q = p then Some n else mem_node_at q w)"
  by (auto simp: mem_node_at_def mem_drop_def mem_put_def map_of_filter_key)

lemma mem_described [simp]:
  "mem_node_at q (snd (mem_set_security p d protected w)) =
     (if q = p then map_option (described (descriptor_text d)) (mem_node_at q w) else mem_node_at q w)"
proof -
  have "map_of (map (\<lambda>(q, n). (q, if q = p then f n else n)) xs) q = (if q = p then map_option f (map_of xs q) else map_of xs q)"
    for f :: "mem_node \<Rightarrow> mem_node" and xs
    by (induction xs) auto
  then show ?thesis by (auto simp: mem_set_security_def mem_node_at_def)
qed

lemma mem_node_other [simp]:
  "mem_node_at q (w\<lparr>mw_sid := v\<rparr>) = mem_node_at q w" "mem_node_at q (w\<lparr>mw_flag := v\<rparr>) = mem_node_at q w"
  "mem_node_at q (w\<lparr>mw_service := v\<rparr>) = mem_node_at q w" "mem_node_at q (w\<lparr>mw_clock := n\<rparr>) = mem_node_at q w"
  by (simp_all add: mem_node_at_def)

lemma mem_unoccupied: "\<not> mem_occupied p w \<Longrightarrow> q = p \<or> inside p q \<Longrightarrow> mem_node_at q w = None"
  by (auto simp: mem_occupied_def mem_node_at_def list_ex_iff inside_test_iff map_of_eq_None_iff)

lemma mem_node_occupied: "mem_node_at p w = Some n \<Longrightarrow> mem_occupied p w"
  using mem_unoccupied [of p w p] by auto

lemma take_whole: "\<exists>n. bytes = take n bytes"
  by (rule exI [of _ "length bytes"]) simp

lemma map_of_moved:
  assumes "\<And>q n. (q, n) \<in> set xs \<Longrightarrow> q \<noteq> b \<and> \<not> inside b q"
  shows "map_of (map (\<lambda>(q, n). (mem_moved a b q, n)) xs) (b @ sep_unit # s) = map_of xs (a @ sep_unit # s)"
  using assms
proof (induction xs)
  case (Cons x xs)
  obtain q n where x: "x = (q, n)" by fastforce
  have "mem_moved a b q = b @ sep_unit # s \<longleftrightarrow> q = a @ sep_unit # s"
    using Cons.prems [of q n] x by (auto simp: mem_moved_def inside_test_iff inside_def)
  with Cons x show ?case by auto
qed simp

lemma map_of_not_moved:
  "q \<notin> tree_of a \<Longrightarrow> q \<notin> tree_of b \<Longrightarrow> map_of (map (\<lambda>(q, n). (mem_moved a b q, n)) xs) q = map_of xs q"
proof (induction xs)
  case (Cons x xs)
  obtain p n where x: "x = (p, n)" by fastforce
  have "mem_moved a b p = q \<longleftrightarrow> p = q"
    using Cons.prems by (auto simp: mem_moved_def inside_test_iff tree_of_def inside_def)
  with Cons x show ?case by auto
qed simp

lemma mem_rename_cases:
  "mem_rename a b w = (r, w') \<Longrightarrow>
     r = Inl refused \<and> w' = w \<or>
     r = Inr () \<and> \<not> mem_occupied b w \<and> w' = w\<lparr>mw_nodes := map (\<lambda>(q, n). (mem_moved a b q, n)) (mw_nodes w)\<rparr>"
  by (auto simp: mem_rename_def split: if_splits)

lemma mem_content_node: "mem_node_at q w = mem_node_at p w' \<Longrightarrow> mem_content q w = mem_content p w'"
  by (simp add: mem_content_def)

interpretation machine: managed_files machine_ops mem_content "\<lambda>q. False"
proof
  show "mo_read_dir machine_ops p w = Inr es \<Longrightarrow> Inr name \<in> set es \<Longrightarrow> plain_name name" for p w es name
    by (auto simp: mem_read_dir_def)
  show "mo_rename machine_ops a b w = (Inr u, w') \<Longrightarrow> mem_content (b @ sep_unit # s) w' = mem_content (a @ sep_unit # s) w"
    for a b w u w' s
    by (auto dest!: mem_rename_cases simp: mem_occupied_def list_ex_iff inside_test_iff mem_node_at_def
        intro!: mem_content_node map_of_moved)
  show "mo_rename machine_ops a b w = (Inr u, w') \<Longrightarrow> q \<notin> tree_of a \<Longrightarrow> q \<notin> tree_of b \<Longrightarrow> mem_content q w' = mem_content q w"
    for a b w u w' q
    by (auto dest!: mem_rename_cases simp: mem_node_at_def map_of_not_moved intro!: mem_content_node)
  show "mo_rename machine_ops a b w = (Inl e, w') \<Longrightarrow> mem_content q w' = mem_content q w" for a b w e w' q
    by (auto dest!: mem_rename_cases)
  show "mo_decode_install machine_ops (take n (mo_encode_install machine_ops snapshot)) = Some snapshot' \<Longrightarrow> snapshot' = snapshot"
    for n snapshot snapshot'
    by (simp add: decode_install_prefix)
  show "list_all (\<lambda>u. \<not> is_separator u \<and> u \<noteq> colon_unit) (wide (mo_version machine_ops))"
    by (simp add: wide_def byte_def is_separator_def sep_unit_def colon_unit_def)
qed (auto simp: mem_content_def mem_metadata_def mem_create_def mem_write_def mem_remove_file_def mem_delete_def
    mem_move_replace_def described_def returnT_def mem_is_file_def
    split: option.splits mem_node.splits if_splits dest: mem_unoccupied intro: mem_node_occupied take_whole)

end
