(* ===== verification/Windows_Relative.thy ===== *)
theory Windows_Relative
  imports Windows_Steady
begin

text \<open>
  The paths of a tree whose root is on a drive: the text relative to the root, its number of
  components, and the way back, as \<open>save_acl\<close> and \<open>restore_acl\<close> use them.
\<close>

section \<open>The text of a path below a root\<close>

definition drive_root :: "wide \<Rightarrow> bool" where
  "drive_root r \<longleftrightarrow> good_root r \<and> has_drive r \<and> starts_with_separator (drop 2 r)"

definition below :: "wide \<Rightarrow> wide list \<Rightarrow> wide" where
  "below r ns = r @ concat (map ((#) sep_unit) ns)"

definition relative_text :: "wide list \<Rightarrow> wide" where
  "relative_text ns = tl (concat (map ((#) sep_unit) ns))"

lemma below_Nil [simp]: "below r [] = r" and below_snoc: "below r (ns @ [n]) = below r ns @ sep_unit # n"
  by (simp_all add: below_def)

lemma split_nonempty [simp]: "wide_split s \<noteq> []"
  by (induction s rule: wide_split.induct) (auto split: list.splits)

lemma split_append: "wide_split (b @ sep_unit # s) = wide_split b @ wide_split s"
  by (induction b rule: wide_split.induct) (auto split: list.splits)

lemma split_plain: "list_all (\<lambda>u. \<not> is_separator u) n \<Longrightarrow> wide_split n = [n]"
  by (induction n rule: wide_split.induct) auto

lemma names_separator [simp]: "is_separator u \<Longrightarrow> names_of (u # us) = names_of us"
  by (simp add: names_of_def)

lemma names_append: "names_of (b @ sep_unit # s) = names_of b @ names_of s"
  by (simp add: names_of_def split_append)

lemma names_plain: "plain_name n \<Longrightarrow> names_of n = [n]"
  by (auto simp: names_of_def split_plain plain_name_def list_all_iff)

lemma names_concat:
  "list_all plain_name ns \<Longrightarrow> names_of (b @ concat (map ((#) sep_unit) ns)) = names_of b @ ns"
proof (induction ns arbitrary: b)
  case (Cons n ns)
  with Cons.IH [of "b @ sep_unit # n"] show ?case by (simp add: names_append names_plain)
qed simp

text \<open>Skipping the names of a prefix.\<close>

definition stops :: "wide \<Rightarrow> bool" where
  "stops t \<longleftrightarrow> t = [] \<or> is_separator (hd t)"

lemma skip_left_blank: "names_of b = [] \<Longrightarrow> stops t \<Longrightarrow> skip_left (b @ t) = skip_left t"
proof (induction b rule: length_induct)
  case (1 b)
  show ?case
  proof (cases b)
    case (Cons u us)
    show ?thesis
    proof (cases "is_separator u")
      case True
      with 1 Cons have "names_of us = []" by (simp add: names_of_def)
      with 1 Cons True show ?thesis by simp
    next
      case False
      obtain p ps where split: "wide_split us = p # ps" by (cases "wide_split us") auto
      with 1(2) Cons False have "u # p = [dot_unit]" by (auto simp: names_of_def split: if_splits)
      then have u: "u = dot_unit" "p = []" by auto
      with split have "us = [] \<or> is_separator (hd us)" by (cases us) (auto split: if_splits list.splits)
      moreover have "names_of us = []" using 1(2) Cons False split u by (auto simp: names_of_def split: if_splits)
      ultimately show ?thesis using 1(1) 1(3) Cons u by (cases us) (auto simp: stops_def)
    qed
  qed simp
qed

lemma skip_left_names:
  "names_of b \<noteq> [] \<Longrightarrow> stops t \<Longrightarrow> \<exists>c. skip_left (b @ t) = c @ t \<and> names_of c = names_of b \<and>
     c \<noteq> [] \<and> \<not> is_separator (hd c) \<and> \<not> (hd c = dot_unit \<and> (tl c = [] \<or> is_separator (hd (tl c))))"
proof (induction b rule: length_induct)
  case (1 b)
  show ?case
  proof (cases b)
    case Nil
    with 1(2) show ?thesis by (simp add: names_of_def)
  next
    case (Cons u us)
    show ?thesis
    proof (cases "is_separator u")
      case True
      with Cons have eq: "names_of b = names_of us" and skip: "skip_left (b @ t) = skip_left (us @ t)" by simp_all
      show ?thesis unfolding skip eq by (rule 1(1) [rule_format]) (use 1(2,3) Cons eq in simp_all)
    next
      case plain: False
      show ?thesis
      proof (cases "u = dot_unit \<and> (us = [] \<or> is_separator (hd us))")
        case True
        then have eq: "names_of b = names_of us" and skip: "skip_left (b @ t) = skip_left (us @ t)"
          using plain Cons 1(3) by (cases us; auto simp: names_of_def stops_def)+
        show ?thesis unfolding skip eq by (rule 1(1) [rule_format]) (use 1(2,3) Cons eq in simp_all)
      next
        case False
        with plain Cons show ?thesis by (intro exI [of _ b]) (cases us; cases t; auto simp: stops_def)
      qed
    qed
  qed
qed

lemma skip_name_step:
  assumes "names_of b = n # ns" "stops t"
  shows "\<exists>c. skip_name (b @ t) = c @ t \<and> names_of c = ns"
proof -
  obtain c where c: "skip_left (b @ t) = c @ t" "names_of c = n # ns" "c \<noteq> []"
    "\<not> is_separator (hd c)" "\<not> (hd c = dot_unit \<and> (tl c = [] \<or> is_separator (hd (tl c))))"
    using skip_left_names [of b t] assms by auto
  define first where "first = takeWhile (\<lambda>u. \<not> is_separator u) c"
  define rest where "rest = dropWhile (\<lambda>u. \<not> is_separator u) c"
  have split: "c = first @ rest" by (simp add: first_def rest_def)
  have skip: "skip_name (b @ t) = rest @ t"
  proof -
    have "dropWhile (\<lambda>u. \<not> is_separator u) t = t" using assms(2) by (cases t) (simp_all add: stops_def)
    then show ?thesis
      unfolding skip_name_def c(1) rest_def
      by (cases "\<forall>u \<in> set c. \<not> is_separator u") (auto simp: dropWhile_append2 dropWhile_append1 dropWhile_eq_Nil_conv [THEN iffD2])
  qed
  have first: "first \<noteq> []" using c(3,4) by (cases c) (auto simp: first_def)
  have "list_all (\<lambda>u. \<not> is_separator u) first" by (auto simp: first_def list_all_iff dest: set_takeWhileD)
  note alone = split_plain [OF this]
  have "first \<noteq> [dot_unit]"
  proof
    assume "first = [dot_unit]"
    with split have "c = dot_unit # rest" by simp
    moreover have "rest = [] \<or> is_separator (hd rest)" using hd_dropWhile rest_def by blast
    ultimately show False using c(5) by simp
  qed
  then have one: "names_of first = [first]" using first alone by (simp add: names_of_def)
  show ?thesis
  proof (cases rest)
    case Nil
    with split one c(2) have "ns = []" by simp
    with skip Nil show ?thesis by (intro exI [of _ "[]"]) (simp add: names_of_def)
  next
    case (Cons u us)
    then have u: "is_separator u" using rest_def by (metis dropWhile_eq_Cons_conv)
    have "wide_split (first @ u # us) = first # wide_split us"
      using alone u by (induction first) (auto split: if_splits list.splits)
    with split Cons first \<open>first \<noteq> [dot_unit]\<close> have "names_of c = first # names_of us" by (simp add: names_of_def)
    moreover have "names_of rest = names_of us" using Cons u by (simp add: names_of_def)
    ultimately show ?thesis using skip c(2) by auto
  qed
qed

lemma skip_names:
  "length (names_of b) = k \<Longrightarrow> stops t \<Longrightarrow> skip_left ((skip_name ^^ k) (b @ t)) = skip_left t"
proof (induction k arbitrary: b)
  case 0
  then show ?case by (simp add: skip_left_blank)
next
  case (Suc k)
  then obtain n ns where "names_of b = n # ns" by (cases "names_of b") auto
  with skip_name_step [of b n ns t] Suc(3) obtain c where c: "skip_name (b @ t) = c @ t" "names_of c = ns" by blast
  with Suc \<open>names_of b = n # ns\<close> show ?case
    by (simp add: funpow_Suc_right del: funpow.simps)
qed

text \<open>The text of a path relative to its root, and back.\<close>

lemma drive_root_parts:
  assumes "drive_root r"
  shows "prefix_units (r @ s) = 2" "path_prefix (r @ s) = path_prefix r" "has_root (r @ s)" "\<not> leading_dot (r @ s)"
    "path_body (r @ s) = path_body r @ s"
proof -
  obtain x y t where xy: "r = x # y # t" "is_letter x" "y = colon_unit"
    using assms by (auto simp: drive_root_def has_drive_def split: list.splits)
  with assms have "t \<noteq> []" "is_separator (hd t)" by (auto simp: drive_root_def starts_with_separator_def)
  with xy obtain a b c r' where r: "r = a # b # c # r'" "is_letter a" "b = colon_unit" "is_separator c" by (cases t) auto
  show two: "prefix_units (r @ s) = 2" by (simp add: r prefix_units_def has_drive_def)
  show "path_prefix (r @ s) = path_prefix r" by (simp add: r path_prefix_def has_drive_def)
  show "has_root (r @ s)" by (simp add: has_root_def two) (simp add: r starts_with_separator_def)
  then show "\<not> leading_dot (r @ s)" by (simp add: leading_dot_def)
  have two': "prefix_units r = 2" by (simp add: r prefix_units_def has_drive_def)
  show "path_body (r @ s) = path_body r @ s"
    by (simp add: path_body_def head_units_def two two') (simp add: r starts_with_separator_def)
qed

lemma good_below: "good_root r \<Longrightarrow> list_all plain_name ns \<Longrightarrow> good_root (below r ns)"
proof (induction ns rule: rev_induct)
  case (snoc n ns)
  then show ?case by (simp add: below_snoc good_root_join)
qed simp

lemma join_below: "good_root r \<Longrightarrow> list_all plain_name ns \<Longrightarrow> plain_name n \<Longrightarrow> path_join (below r ns) n = below r (ns @ [n])"
  by (simp add: below_snoc join_plain good_below)

lemma plain_dot: "plain_name n \<Longrightarrow> \<not> (hd n = dot_unit \<and> (tl n = [] \<or> is_separator (hd (tl n))))"
  by (cases n; cases "tl n") (auto simp: plain_name_def)

lemma skip_left_plain: "plain_name n \<Longrightarrow> s = [] \<or> is_separator (hd s) \<Longrightarrow> skip_left (n @ s) = n @ s"
  using plain_dot [of n] plain_not_separator [of n "hd n"]
  by (cases n; cases "tl n"; cases s) (auto simp: plain_name_def)

lemma plain_rev: "plain_name n \<Longrightarrow> plain_name (rev n)"
  by (auto simp: plain_name_def rev_swap)

lemma skip_right_plain: "plain_name n \<Longrightarrow> s = [] \<or> is_separator (last s) \<Longrightarrow> skip_right (s @ n) = s @ n"
  using skip_left_plain [OF plain_rev, of n "rev s"] by (auto simp: skip_right_def hd_rev)

lemma relative_text_snoc:
  "relative_text (ns @ [n]) = (if ns = [] then n else relative_text ns @ sep_unit # n)"
  by (cases ns) (simp_all add: relative_text_def)

lemma strip_below:
  assumes "drive_root r" "list_all plain_name ns"
  shows "path_strip r (below r ns) = Some (relative_text ns)"
proof -
  have good: "good_root r" using assms(1) by (simp add: drive_root_def)
  note parts = drive_root_parts [OF assms(1)] drive_root_parts [OF assms(1), of "[]", simplified]
  let ?t = "concat (map ((#) sep_unit) ns)"
  have "names_of (path_body r @ ?t) = names_of (path_body r) @ ns" by (rule names_concat) (rule assms(2))
  moreover have "stops ?t" by (cases ns) (simp_all add: stops_def)
  then have "skip_left ((skip_name ^^ length (names_of (path_body r))) (path_body r @ ?t)) = skip_left ?t" by (intro skip_names) simp_all
  moreover have "skip_left ?t = relative_text ns"
  proof (cases ns)
    case (Cons n ms)
    with assms(2) skip_left_plain [of n "concat (map ((#) sep_unit) ms)"] show ?thesis
      by (cases ms) (simp_all add: relative_text_def)
  qed (simp add: relative_text_def)
  moreover have "skip_right (relative_text ns) = relative_text ns"
  proof (cases ns rule: rev_cases)
    case (snoc ms n)
    with assms(2) skip_right_plain [of n "relative_text ms @ [sep_unit]"] skip_right_plain [of n "[]"] show ?thesis
      by (auto simp: relative_text_snoc)
  qed (simp add: relative_text_def skip_right_def)
  ultimately show ?thesis by (simp add: path_strip_def below_def parts)
qed

lemma relative_text_relative:
  assumes "list_all plain_name ns" "ns \<noteq> []"
  shows "\<not> has_drive (relative_text ns)" "\<not> starts_with_separator (relative_text ns)" "hd (wide_split (relative_text ns)) \<noteq> [dot_unit]"
    "names_of (relative_text ns) = ns" "relative_text ns \<noteq> []"
proof -
  obtain n ms where ns: "ns = n # ms" using assms(2) by (cases ns) auto
  have n: "plain_name n" and ms: "list_all plain_name ms" using assms(1) ns by simp_all
  have shape: "relative_text ns = n @ concat (map ((#) sep_unit) ms)" by (simp add: relative_text_def ns)
  show "names_of (relative_text ns) = ns" unfolding shape by (simp add: names_concat [OF ms] names_plain [OF n] ns)
  show "relative_text ns \<noteq> []" using plain_nonempty [OF n] by (simp add: shape)
  show "\<not> starts_with_separator (relative_text ns)"
    using plain_relative(2) [OF n] plain_nonempty [OF n] by (simp add: shape starts_with_separator_def)
  obtain u us where u: "n = u # us" using plain_nonempty [OF n] by (cases n) auto
  have "sep_unit \<noteq> colon_unit" by (simp add: sep_unit_def colon_unit_def)
  then show "\<not> has_drive (relative_text ns)"
    using plain_no_colon [OF n] by (cases us; cases ms) (auto simp: shape u has_drive_def)
  have "wide_split (relative_text ns) = n # (case ms of [] \<Rightarrow> [] | m # ms' \<Rightarrow> wide_split (m @ concat (map ((#) sep_unit) ms')))"
    using n by (cases ms) (simp_all add: shape split_append split_plain plain_name_def list_all_iff)
  with n show "hd (wide_split (relative_text ns)) \<noteq> [dot_unit]" by (simp add: plain_name_def)
qed

lemma relative_count:
  assumes "list_all plain_name ns"
  shows "component_count (relative_text ns) = length ns"
proof (cases "ns = []")
  case True
  then show ?thesis
    by (simp add: relative_text_def component_count_def prefix_units_def has_root_def leading_dot_def has_drive_def is_share_def
        starts_with_separator_def path_body_def names_of_def)
next
  case False
  note rel = relative_text_relative [OF assms False]
  then have p: "prefix_units (relative_text ns) = 0" "\<not> is_share (relative_text ns)" by (simp_all add: prefix_units_def is_share_def)
  with rel show ?thesis
    by (simp add: component_count_def has_root_def leading_dot_def path_body_def head_units_def)
qed

lemma restore_below:
  assumes "drive_root r" "list_all plain_name ns"
  shows "restore_target r (relative_text ns) = below r ns"
proof (cases "ns = []")
  case True
  then show ?thesis by (simp add: relative_text_def restore_target_def)
next
  case False
  note rel = relative_text_relative [OF assms(2) False]
  then have p: "prefix_units (relative_text ns) = 0" "\<not> is_share (relative_text ns)" by (simp_all add: prefix_units_def is_share_def)
  have "path_join r (relative_text ns) = r @ sep_unit # relative_text ns"
    using assms(1) p rel by (auto simp: path_join_def drive_root_def good_root_def wide_is_absolute_def has_root_def)
  moreover have "sep_unit # relative_text ns = concat (map ((#) sep_unit) ns)"
    using False by (cases ns) (simp_all add: relative_text_def)
  ultimately show ?thesis using rel(5) by (simp add: restore_target_def below_def)
qed

lemma below_covers:
  assumes "drive_root r" "list_all plain_name ns" "list_all plain_name ms" "below r ns \<in> tree_of (below r ms)"
  shows "ns = ms \<or> length ms < length ns"
proof -
  note body = drive_root_parts(5) [OF assms(1)]
  have names: "names_of (path_body (below r ns)) = names_of (path_body r) @ ns" if "list_all plain_name ns" for ns
    by (simp add: below_def body names_concat [OF that])
  from assms(4) consider "below r ns = below r ms" | s where "below r ns = below r ms @ sep_unit # s"
    by (auto simp: tree_of_def inside_def)
  then show ?thesis
  proof cases
    case 1
    then have "names_of (path_body r) @ ns = names_of (path_body r) @ ms"
      using names [OF assms(2)] names [OF assms(3)] by metis
    then show ?thesis by simp
  next
    case (2 s)
    have "names_of (path_body (below r ns)) = names_of (path_body (below r ms) @ sep_unit # s)"
      unfolding 2 by (simp add: below_def body)
    then have ns: "ns = ms @ names_of s"
      unfolding names_append names [OF assms(2)] names [OF assms(3)] by simp
    from ns have "length ns = length ms + length (names_of s)" by (metis length_append)
    with ns show ?thesis by (cases "names_of s") simp_all
  qed
qed

end
