(* ===== verification/Windows_Checks.thy ===== *)
theory Windows_Checks
  imports Windows_Transaction Windows_Maintenance_Correct
begin

text \<open>
  What the inspections and waits of the maintenance program establish: a tree that validates is
  plain to its last object; a wait for the service ends, and ends in the state it waits for; a
  diagnostic is published whole, and only when there is none.
\<close>

section \<open>Validated trees\<close>

inductive tree_object :: "'w maint_ops \<Rightarrow> 'w \<Rightarrow> wide \<Rightarrow> wide \<Rightarrow> bool" for F w root where
  tree_root: "tree_object F w root root"
| tree_child: "tree_object F w root p \<Longrightarrow> mo_metadata F p w = Inr m \<Longrightarrow> is_dir m \<Longrightarrow>
    mo_read_dir F p w = Inr entries \<Longrightarrow> Inr n \<in> set entries \<Longrightarrow> tree_object F w root (path_join p n)"

definition plain_object :: "'w maint_ops \<Rightarrow> 'w \<Rightarrow> wide \<Rightarrow> bool" where
  "plain_object F w p \<longleftrightarrow>
     (\<exists>m. mo_metadata F p w = Inr m \<and> \<not> fa_reparse m \<and> (is_dir m \<or> is_file m \<and> mo_links F p w = Inr 1))"

definition plain_tree :: "'w maint_ops \<Rightarrow> 'w \<Rightarrow> wide \<Rightarrow> bool" where
  "plain_tree F w root \<longleftrightarrow> (\<forall>p. tree_object F w root p \<longrightarrow> plain_object F w p)"

definition plain_directory :: "'w maint_ops \<Rightarrow> 'w \<Rightarrow> wide \<Rightarrow> bool" where
  "plain_directory F w p \<longleftrightarrow> (\<exists>m. mo_metadata F p w = Inr m \<and> \<not> fa_reparse m \<and> is_dir m)"

lemma tree_object_step:
  "tree_object F w root p \<Longrightarrow>
     p = root \<or> (\<exists>m entries n. mo_metadata F root w = Inr m \<and> is_dir m \<and> mo_read_dir F root w = Inr entries \<and>
       Inr n \<in> set entries \<and> tree_object F w (path_join root n) p)"
proof (induction rule: tree_object.induct)
  case (tree_child p m entries n)
  then show ?case by (metis tree_object.intros)
qed simp

lemma plain_treeI:
  assumes "plain_object F w root"
    and "\<And>m entries n. mo_metadata F root w = Inr m \<Longrightarrow> is_dir m \<Longrightarrow> mo_read_dir F root w = Inr entries \<Longrightarrow>
      Inr n \<in> set entries \<Longrightarrow> plain_tree F w (path_join root n)"
  shows "plain_tree F w root"
  using assms tree_object_step unfolding plain_tree_def by metis

lemma plain_file_tree:
  "mo_metadata F p w = Inr m \<Longrightarrow> \<not> fa_reparse m \<Longrightarrow> is_file m \<Longrightarrow> mo_links F p w = Inr 1 \<Longrightarrow> plain_tree F w p"
  by (rule plain_treeI) (auto simp: plain_object_def is_file_def is_dir_def)

lemma validated_entry:
  "validate_entry F limit w directory depth entry (pending, discovered, payload) = Inr (pending', discovered', payload') \<Longrightarrow>
     \<exists>n. entry = Inr n \<and>
       (pending' = pending \<and> plain_tree F w (path_join directory n) \<or>
        (\<exists>d. pending' = pending @ [(path_join directory n, d)]) \<and> plain_directory F w (path_join directory n))"
  by (auto simp: validate_entry_def bindR_Inr_iff Let_def plain_directory_def split: if_splits dest!: enqueued
      intro: plain_file_tree)

lemma validated_entries:
  "for_entries (validate_entry F limit w directory depth) entries (pending, discovered, payload) = Inr (pending', discovered', payload') \<Longrightarrow>
     set pending \<subseteq> set pending' \<and>
     (\<forall>(p, d) \<in> set pending' - set pending. plain_directory F w p) \<and>
     (\<forall>entry \<in> set entries. \<exists>n. entry = Inr n \<and>
       (plain_tree F w (path_join directory n) \<or> path_join directory n \<in> fst ` set pending'))"
proof (induction entries arbitrary: pending discovered payload)
  case (Cons entry entries)
  then obtain p1 d1 y1 where step: "validate_entry F limit w directory depth entry (pending, discovered, payload) = Inr (p1, d1, y1)"
    and rest: "for_entries (validate_entry F limit w directory depth) entries (p1, d1, y1) = Inr (pending', discovered', payload')"
    by (auto simp: bindR_Inr_iff)
  from validated_entry [OF step] Cons.IH [OF rest] show ?case by (elim exE conjE disjE) force+
qed simp

lemma validated_directories:
  "validate_directories F limit w x = Inr u \<Longrightarrow> \<forall>(p, d) \<in> set (fst x). plain_directory F w p \<Longrightarrow>
     \<forall>(p, d) \<in> set (fst x). plain_tree F w p"
proof (induction F limit w x rule: validate_directories.induct)
  case (1 F limit w pending discovered payload)
  show ?case
  proof (cases "pending = []")
    case False
    obtain directory depth where top: "last pending = (directory, depth)" by fastforce
    with False have pending: "pending = butlast pending @ [(directory, depth)]" by (metis append_butlast_last_id)
    obtain entries where dir: "mo_read_dir F directory w = Inr entries"
      and run: "(case for_entries (validate_entry F limit w directory depth) entries (butlast pending, discovered, payload) of
        Inl e \<Rightarrow> Inl e | Inr x \<Rightarrow> validate_directories F limit w x) = Inr u"
      using 1(2) False top by (auto simp: validate_directories.simps [of F limit w pending] bindR_Inr_iff)
    then obtain p1 d1 y1 where
        step: "for_entries (validate_entry F limit w directory depth) entries (butlast pending, discovered, payload) = Inr (p1, d1, y1)"
      and rest: "validate_directories F limit w (p1, d1, y1) = Inr u"
      by (cases "for_entries (validate_entry F limit w directory depth) entries (butlast pending, discovered, payload)") auto
    note facts = validated_entries [OF step]
    have here: "plain_directory F w directory" and others: "\<forall>(p, d) \<in> set (butlast pending). plain_directory F w p"
      using 1(3) by (subst (asm) pending, auto)+
    have "\<forall>(p, d) \<in> set p1. plain_directory F w p" using facts others by auto
    with 1(1) [OF False top [symmetric]] dir step rest have trees: "\<forall>(p, d) \<in> set p1. plain_tree F w p" by auto
    have "plain_tree F w directory"
    proof (rule plain_treeI)
      show "plain_object F w directory" using here by (auto simp: plain_directory_def plain_object_def)
    qed (use facts trees dir in fastforce)
    with trees facts pending show ?thesis by (metis (no_types, lifting) Un_iff case_prodI2 case_prodD empty_iff empty_set fst_conv
          insert_iff list.simps(15) set_append subsetD)
  qed simp
qed

lemma validated_tree:
  assumes "validate_tree F root w = Inr u"
  shows "plain_tree F w root"
proof -
  obtain x where "validate_real_directory F root w = Inr ()" "fst x = [(root, 1)]" "validate_directories F None w x = Inr u"
    using assms
    by (fastforce simp: validate_tree_def validate_tree_with_directory_depth_limit_def bindR_Inr_iff dest!: enqueued)
  with validated_directories [of F None w x] show ?thesis
    by (auto simp: validate_real_directory_def bindR_Inr_iff plain_directory_def)
qed

section \<open>Waits\<close>

locale clocked =
  fixes F :: "'w maint_ops"
  assumes clock: "mo_now F w + k \<le> mo_now F (mo_sleep F k w)"
begin

lemma wait_loop_ends:
  "deadline + 250 \<le> mo_now F w + 250 * fuel \<Longrightarrow> wait_loop F accept allowed deadline fuel w = None \<Longrightarrow> fuel = 0"
proof (induction fuel arbitrary: w)
  case (Suc fuel)
  then have now: "mo_now F w < deadline"
    and rest: "wait_loop F accept allowed deadline fuel (mo_sleep F 250 w) = None"
    by (auto split: sum.splits if_splits)
  from Suc.prems(1) clock [of w 250] have "deadline + 250 \<le> mo_now F (mo_sleep F 250 w) + 250 * fuel" by simp
  with Suc.IH rest have "fuel = 0" by blast
  with now Suc.prems(1) show ?case by simp
qed simp

lemma wait_ends:
  "wait_loop F accept allowed (mo_now F w + stop_timeout) wait_fuel w \<noteq> None"
proof
  assume none: "wait_loop F accept allowed (mo_now F w + stop_timeout) wait_fuel w = None"
  have "wait_fuel = 0" by (rule wait_loop_ends [OF _ none]) (simp add: stop_timeout_def wait_fuel_def)
  then show False by (simp add: wait_fuel_def)
qed

end

lemma wait_loop_result:
  "wait_loop F accept allowed deadline fuel w = Some (r, w') \<Longrightarrow>
     (\<forall>e m. r = Inl e \<longrightarrow> e \<noteq> Panic m) \<and> (\<forall>state. r = Inr state \<longrightarrow> accept state \<and> mo_service_state F w' = Inr state)"
proof (induction fuel arbitrary: w)
  case (Suc fuel)
  then show ?case
    by (cases "mo_service_state F w") (auto simp: query_service_status_def with_context_def io_res_def split: if_splits)
qed simp

context clocked
begin

lemma wait_for_result:
  "wait_for F accept allowed w = (r, w') \<Longrightarrow>
     (\<forall>e m. r = Inl e \<longrightarrow> e \<noteq> Panic m) \<and> (\<forall>state. r = Inr state \<longrightarrow> accept state \<and> mo_service_state F w' = Inr state)"
  using wait_ends [of accept allowed w] wait_loop_result
  by (fastforce simp: wait_for_def split: option.splits)

lemma stop_result:
  assumes "stop_client_service F w = (r, w')"
  shows "(\<forall>e m. r = Inl e \<longrightarrow> e \<noteq> Panic m) \<and> (r = Inr () \<longrightarrow> mo_service_state F w' = Inr service_stopped)"
  using assms
  by (auto simp: stop_client_service_def wait_for_stable_service_state_def wait_for_service_state_def bindT_apply tx_simps
      contextT_def io_tx_def map_err_Inl_iff split: prod.splits sum.splits if_splits dest!: wait_for_result)

end

section \<open>The diagnostic\<close>

text \<open>The files as the diagnostic needs them; a rename never replaces.\<close>

locale diagnostic_files =
  fixes F :: "'w maint_ops" and content :: "wide \<Rightarrow> 'w \<Rightarrow> string option"
  assumes private_frame: "q \<noteq> p \<Longrightarrow> content q (snd (mo_create_private F p d w)) = content q w"
    and private_empty: "mo_create_private F p d w = (Inr u, w') \<Longrightarrow> content p w' = Some []"
    and some_frame: "q \<noteq> p \<Longrightarrow> content q (snd (mo_write_some F p bytes w)) = content q w"
    and some_written: "mo_write_some F p bytes w = (Inr n, w') \<Longrightarrow> content p w = Some c \<Longrightarrow> n \<le> length bytes \<Longrightarrow>
        content p w' = Some (c @ take n bytes)"
    and flush_frame: "content q (snd (mo_flush F p w)) = content q w"
    and delete_other: "q \<noteq> p \<Longrightarrow> content q (snd (mo_delete F p w)) = content q w"
    and publish_fails: "mo_rename F a b w = (Inl e, w') \<Longrightarrow> content q w' = content q w"
    and publish: "mo_rename F a b w = (Inr u, w') \<Longrightarrow> content b w = None \<and> content b w' = content a w"
begin

lemma write_remaining_result:
  "G = F \<Longrightarrow> staging \<noteq> q \<Longrightarrow> content staging w = Some c \<Longrightarrow> write_remaining G staging remaining w = (r, w') \<Longrightarrow>
     content q w' = content q w \<and> (r = Inr () \<longrightarrow> content staging w' = Some (c @ remaining))"
proof (induction G staging remaining w arbitrary: c rule: write_remaining.induct)
  case (1 G staging remaining w)
  show ?case
  proof (cases "remaining = []")
    case True
    with 1 show ?thesis by (auto simp: write_remaining.simps)
  next
    case False
    obtain s w1 where one: "mo_write_some F staging remaining w = (s, w1)" by fastforce
    have frame: "content q w1 = content q w"
      using some_frame [of q staging remaining w] one 1(3) by auto
    show ?thesis
    proof (cases s)
      case (Inl e)
      with 1 one False frame show ?thesis by (auto simp: write_remaining.simps [of F staging remaining])
    next
      case (Inr n)
      show ?thesis
      proof (cases "n = 0 \<or> length remaining < n")
        case True
        with 1 one False frame Inr show ?thesis
          by (auto simp: write_remaining.simps [of F staging remaining] split: if_splits)
      next
        case bounds: False
        with some_written [of staging remaining w n w1 c] one Inr 1(4)
        have "content staging w1 = Some (c @ take n remaining)" by simp
        with 1 one False frame Inr bounds show ?thesis
          by (auto simp: write_remaining.simps [of F staging remaining])
      qed
    qed
  qed
qed

lemma diagnostic_result:
  assumes staging: "with_extension path (wide (mo_uuid F w @ ''.pending'')) \<noteq> path"
    and run: "write_first_maintenance_diagnostic F path command error w = (r, w')"
  shows "case r of Inl _ \<Rightarrow> content path w' = content path w
    | Inr _ \<Rightarrow> content path w = None \<and>
        content path w' = Some (maintenance_diagnostic_payload (mo_version F) command (mo_error_text F error))"
proof -
  define st where "st = with_extension path (wide (mo_uuid F w @ ''.pending''))"
  define payload where "payload = maintenance_diagnostic_payload (mo_version F) command (mo_error_text F error)"
  define publish_it where "publish_it = bindT (write_remaining F st payload) (\<lambda>_.
    bindT (contextT ''failed to flush the maintenance diagnostic'' (io_tx (mo_flush F st))) (\<lambda>_. rename_diagnostic_to_final F st path))"
  have fits: "length payload \<le> maintenance_diagnostic_max_bytes" by (simp add: payload_def diagnostic_bounded)
  have st: "st \<noteq> path" using staging by (simp add: st_def)
  have published: "case r2 of Inl _ \<Rightarrow> content path w2 = content path w1
      | Inr _ \<Rightarrow> content path w1 = None \<and> content path w2 = Some payload"
    if "publish_it w1 = (r2, w2)" "content st w1 = Some []" for w1 r2 w2
  proof -
    obtain r3 w3 where written: "write_remaining F st payload w1 = (r3, w3)" by fastforce
    note result = write_remaining_result [OF refl st that(2) written]
    obtain r4 w4 where flushed: "mo_flush F st w3 = (r4, w4)" by fastforce
    then have same: "content q w4 = content q w3" for q using flush_frame [of q st w3] by simp
    obtain r5 w5 where renamed: "mo_rename F st path w4 = (r5, w5)" by fastforce
    show ?thesis
      using that(1) written flushed renamed result same publish_fails [of st path w4 _ w5 path] publish [of st path w4 "()" w5]
      by (cases r5) (auto simp: publish_it_def rename_diagnostic_to_final_def bindT_apply tx_simps contextT_def io_tx_def
          split: sum.splits)
  qed
  have cleaned: "case r2 of Inl _ \<Rightarrow> content path w2 = content path w1
      | Inr _ \<Rightarrow> content path w1 = None \<and> content path w2 = Some payload"
    if "cleanup_on_error F st publish_it w1 = (r2, w2)" "content st w1 = Some []" for w1 r2 w2
  proof -
    obtain r3 w3 where inner: "publish_it w1 = (r3, w3)" by fastforce
    from that(1) inner published [OF inner that(2)] delete_other [OF st [symmetric], of w3] show ?thesis
      by (cases r3) (auto simp: cleanup_on_error_def tryT_def ignoreT_def bindT_apply tx_simps)
  qed
  obtain d r1 w1 where created: "mo_create_private F st d w = (r1, w1)" and
    cases: "w' = w \<and> (\<exists>e. r = Inl e) \<or> w' = w1 \<and> (\<exists>e. r = Inl e) \<or> r1 = Inr () \<and> cleanup_on_error F st publish_it w1 = (r, w')"
  proof (cases "mo_parse_descriptor F maintenance_diagnostic_sddl")
    case (Inl e)
    with run show ?thesis
      by (intro that [of undefined "fst (mo_create_private F st undefined w)" "snd (mo_create_private F st undefined w)"])
        (auto simp: write_first_maintenance_diagnostic_def Let_def diagnostic_bounded bindT_liftR io_res_def with_context_def split: sum.splits)
  next
    case (Inr d)
    obtain r1 w1 where created: "mo_create_private F st d w = (r1, w1)" by fastforce
    with run Inr show ?thesis
      by (intro that [OF created], cases r1)
        (auto simp: write_first_maintenance_diagnostic_def Let_def fits bindT_apply tx_simps contextT_def io_tx_def io_res_def
          st_def [symmetric] payload_def [symmetric] publish_it_def with_context_def)
  qed
  have "content path w1 = content path w" using private_frame [OF st [symmetric], of d w] created by simp
  with cases cleaned [of w1 r w'] private_empty [of st d w _ w1] created show ?thesis
    by (auto simp: payload_def split: sum.splits)
qed

end

end
