(* ===== verification/Windows_Restored.thy ===== *)
theory Windows_Restored
  imports Windows_Relative Windows_Checks
begin

text \<open>
  A restoration of descriptors that succeeds leaves every saved descriptor in force: parents are
  set before their children, and a descriptor that is set reaches only the object and what is
  below it. The interface \<open>descriptor_store\<close> states the latter for the objects of one tree.
\<close>

section \<open>The walk\<close>

lemma enqueued_children:
  "for_entries (enqueue_child F directory) entries (pending, discovered, payload) = Inr (pending', discovered', payload') \<Longrightarrow>
     p \<in> set pending' \<Longrightarrow> p \<in> set pending \<or> (\<exists>n. Inr n \<in> set entries \<and> p = path_join directory n)"
proof (induction entries arbitrary: pending discovered payload)
  case (Cons entry entries)
  then obtain p1 d1 y1 where step: "enqueue_child F directory entry (pending, discovered, payload) = Inr (p1, d1, y1)"
    and rest: "for_entries (enqueue_child F directory) entries (p1, d1, y1) = Inr (pending', discovered', payload')"
    by (auto simp: bindR_Inr_iff)
  have "p1 = pending \<or> (\<exists>n. entry = Inr n \<and> p1 = pending @ [path_join directory n])"
    using step by (auto simp: enqueue_child_def bindR_Inr_iff Let_def dest!: enqueued)
  with Cons.IH [OF rest Cons.prems(2)] show ?case by (elim disjE exE conjE) auto
qed simp

lemma walk_invariant:
  assumes before: "\<And>p payload acc descend payload' acc'. T p \<Longrightarrow> Q acc \<Longrightarrow>
      before p payload acc = Inr (descend, payload', acc') \<Longrightarrow>
      Q acc' \<and> (descend \<longrightarrow> (\<forall>entries n. mo_read_dir F p w = Inr entries \<longrightarrow> Inr n \<in> set entries \<longrightarrow> T (path_join p n)))"
    and after: "\<And>p descend acc acc'. T p \<Longrightarrow> Q acc \<Longrightarrow> after p descend acc = Inr acc' \<Longrightarrow> Q acc'"
  shows "G = F \<Longrightarrow> v = w \<Longrightarrow> b = before \<Longrightarrow> a = after \<Longrightarrow> walk_tree G v b a x acc = Inr result \<Longrightarrow> \<forall>p \<in> set (fst x). T p \<Longrightarrow> Q acc \<Longrightarrow> Q result"
proof (induction G v b a x acc rule: walk_tree.induct)
  case (1 G v b a pending discovered payload acc)
  show ?case
  proof (cases "pending = []")
    case True
    with 1 show ?thesis by (simp add: walk_tree.simps)
  next
    case False
    define p where "p = last pending"
    have p: "T p" and others: "\<forall>q \<in> set (butlast pending). T q"
      using False 1(7) by (auto simp: p_def dest: in_set_butlastD)
    obtain descend payload' acc' where one: "before p payload acc = Inr (descend, payload', acc')"
      using 1(2-6) False by (auto simp: walk_tree.simps [of F w before] p_def Let_def split: sum.splits prod.splits)
    obtain x' where two: "enqueue_children F p descend (butlast pending, discovered, payload') w = Inr x'"
      using 1(2-6) False one by (auto simp: walk_tree.simps [of F w before] p_def Let_def split: sum.splits prod.splits)
    obtain acc'' where three: "after p descend acc' = Inr acc''"
      using 1(2-6) False one two by (auto simp: walk_tree.simps [of F w before] p_def Let_def split: sum.splits prod.splits)
    have rest: "walk_tree F w before after x' acc'' = Inr result"
      using 1(2-6) False one two three by (auto simp: walk_tree.simps [of F w before] p_def Let_def)
    have facts: "Q acc'" "descend \<Longrightarrow> mo_read_dir F p w = Inr entries \<Longrightarrow> Inr n \<in> set entries \<Longrightarrow> T (path_join p n)" for entries n
      using before [OF p 1(8) one] by blast+
    have "\<forall>q \<in> set (fst x'). T q"
      using two others facts(2)
      by (cases x') (auto simp: enqueue_children_def bindR_Inr_iff split: if_splits dest!: enqueued_children)
    moreover have "Q acc''" by (rule after [OF p facts(1) three])
    ultimately show ?thesis
      using 1(1) [of p "(descend, payload', acc')" descend "(payload', acc')" payload' acc' x' acc''] False one two three rest 1(2-5)
      by (auto simp: p_def)
  qed
qed

section \<open>Objects of a tree\<close>

locale descriptor_store =
  fixes F :: "'w maint_ops"
  assumes listed_plain: "mo_read_dir F p w = Inr es \<Longrightarrow> Inr name \<in> set es \<Longrightarrow> plain_name name"
    and set_metadata: "mo_metadata F q (snd (mo_set_security F p d protected w)) = mo_metadata F q w"
    and set_links: "mo_links F q (snd (mo_set_security F p d protected w)) = mo_links F q w"
    and set_read_dir: "mo_read_dir F q (snd (mo_set_security F p d protected w)) = mo_read_dir F q w"
    and set_others: "tree_object F w root p \<Longrightarrow> plain_object F w p \<Longrightarrow> tree_object F w root q \<Longrightarrow> q \<notin> tree_of p \<Longrightarrow>
        security_descriptor_sddl F q (snd (mo_set_security F p d protected w)) = security_descriptor_sddl F q w"
begin

lemma object_below:
  assumes "drive_root root" "tree_object F w root p"
  shows "\<exists>ns. list_all plain_name ns \<and> p = below root ns"
  using assms(2)
proof induction
  case (tree_child p m entries n)
  then obtain ns where ns: "list_all plain_name ns" "p = below root ns" by blast
  moreover have "plain_name n" using tree_child by (blast intro: listed_plain)
  moreover have "good_root root" using assms(1) by (simp add: drive_root_def)
  ultimately have "path_join p n = below root (ns @ [n])" "list_all plain_name (ns @ [n])"
    by (simp_all add: join_below)
  then show ?case by blast
qed (auto intro: exI [of _ "[]"])

text \<open>Every fact that is collected is about an object of the tree, as it is found there.\<close>

definition fact_of :: "'w \<Rightarrow> wide \<Rightarrow> acl_current_path_fact \<Rightarrow> bool" where
  "fact_of w root f \<longleftrightarrow> (\<exists>p m. tree_object F w root p \<and> path_strip root p = Some (cp_path_key f) \<and> mo_metadata F p w = Inr m \<and>
     cp_is_directory f = is_dir m \<and> cp_is_regular_file f = is_file m \<and> cp_is_reparse_point f = fa_reparse m \<and>
     (\<forall>n. cp_hard_link_count f = Some n \<longrightarrow> mo_links F p w = Inr n))"

lemma collected_facts:
  assumes "collect_current_acl_path_facts F root w = Inr facts"
  shows "list_all (fact_of w root) facts"
proof -
  obtain x where x: "fst x = [root]" and walk: "walk_tree F w (current_before F root w) (\<lambda>target descend facts. Inr facts) x [] = Inr facts"
    using assms
    by (fastforce simp: collect_current_acl_path_facts_def walk_from_def bindR_Inr_iff dest!: enqueued)
  show ?thesis
  proof (rule walk_invariant [OF _ _ refl refl refl refl walk, where T = "tree_object F w root"])
    fix p payload acc descend payload' acc'
    assume p: "tree_object F w root p" and acc: "list_all (fact_of w root) acc"
      and run: "current_before F root w p payload acc = Inr (descend, payload', acc')"
    obtain m where m: "mo_metadata F p w = Inr m" using run by (auto simp: current_before_def bindR_Inr_iff)
    obtain key where key: "path_strip root p = Some key" using run by (auto simp: current_before_def relative_to_def bindR_Inr_iff)
    have descend: "descend \<longrightarrow> is_dir m" using run m by (auto simp: current_before_def bindR_Inr_iff)
    obtain hard_links facts' payload'' where pushed: "try_push_bounded_path (mo_grants F) acc
       \<lparr>cp_path_key = key, cp_is_directory = is_dir m, cp_is_regular_file = is_file m,
        cp_is_reparse_point = fa_reparse m, cp_hard_link_count = hard_links\<rparr>
       (length key) payload max_maintenance_tree_nodes max_maintenance_path_bytes = Inr (facts', payload'')" and acc': "acc' = facts'"
      and links: "\<forall>n. hard_links = Some n \<longrightarrow> mo_links F p w = Inr n"
      using run key m by (auto simp: current_before_def relative_to_def bindR_Inr_iff map_ok_Inr_iff split: if_splits)
    have "fact_of w root \<lparr>cp_path_key = key, cp_is_directory = is_dir m, cp_is_regular_file = is_file m,
        cp_is_reparse_point = fa_reparse m, cp_hard_link_count = hard_links\<rparr>"
      using p key m links by (auto simp: fact_of_def)
    with path_pushed [OF pushed] acc acc' have "list_all (fact_of w root) acc'" by simp
    moreover have "tree_object F w root (path_join p n)" if "descend" "mo_read_dir F p w = Inr entries" "Inr n \<in> set entries" for entries n
      using that descend m p by (blast intro: tree_child)
    ultimately     show "list_all (fact_of w root) acc' \<and>
      (descend \<longrightarrow> (\<forall>entries n. mo_read_dir F p w = Inr entries \<longrightarrow> Inr n \<in> set entries \<longrightarrow> tree_object F w root (path_join p n)))"
      by blast
  qed (auto simp: x intro: tree_root)
qed

end

section \<open>The restoration\<close>

lemma set_descriptor_effect:
  "set_security_descriptor F p sddl protected managed w = (r, w') \<Longrightarrow>
     w' = w \<or> (\<exists>d. w' = snd (mo_set_security F p d protected w))"
  unfolding set_security_descriptor_def Let_def
  by (auto simp: bindT_apply tx_simps contextT_def io_tx_def split: sum.splits prod.splits)

lemma restore_one_effect:
  "restore_one F targets i w = (Inr u, w') \<Longrightarrow>
     (w' = w \<or> (\<exists>d protected. w' = snd (mo_set_security F (fst (targets ! i)) d protected w))) \<and>
     security_descriptor_sddl F (fst (targets ! i)) w' = Inr (snd (targets ! i))"
  by (cases "targets ! i")
    (auto simp: restore_one_def restore_security_descriptor_def bindT_ok_iff tx_simps dest!: set_descriptor_effect)

lemma restore_lists_aligned:
  "for_entries (restore_entry F root) entries (facts, targets, payload) = Inr (facts', targets', payload') \<Longrightarrow>
     map (\<lambda>f. (sp_path_key f, sp_depth f)) facts' =
       map (\<lambda>f. (sp_path_key f, sp_depth f)) facts @ map (\<lambda>e. (ae_relative_path e, component_count (ae_relative_path e))) entries \<and>
     targets' = targets @ map (\<lambda>e. (restore_target root (ae_relative_path e), ae_sddl e)) entries"
proof (induction entries arbitrary: facts targets payload)
  case (Cons entry entries)
  then obtain f1 t1 p1 where step: "restore_entry F root entry (facts, targets, payload) = Inr (f1, t1, p1)"
    and rest: "for_entries (restore_entry F root) entries (f1, t1, p1) = Inr (facts', targets', payload')"
    by (auto simp: bindR_Inr_iff)
  from step Cons.IH [OF rest] show ?case
    by (auto simp: restore_entry_def Let_def bindR_Inr_iff dest!: path_pushed)
qed simp

context descriptor_store
begin

lemma plain_kept: "plain_object F (snd (mo_set_security F p d protected w)) q \<longleftrightarrow> plain_object F w q"
  by (simp add: plain_object_def set_metadata set_links)

lemma object_kept:
  "tree_object F (snd (mo_set_security F p d protected w)) root q \<longleftrightarrow> tree_object F w root q"
proof
  show "tree_object F w root q" if "tree_object F (snd (mo_set_security F p d protected w)) root q"
    using that by induction (auto simp: set_metadata set_read_dir intro: tree_object.intros)
  show "tree_object F (snd (mo_set_security F p d protected w)) root q" if "tree_object F w root q"
    using that by induction (auto simp: set_metadata set_read_dir intro!: tree_object.intros(2) tree_root)
qed

lemma applied_in_force:
  assumes "\<forall>i \<in> set order. tree_object F w root (fst (targets ! i)) \<and> plain_object F w (fst (targets ! i))"
    and "distinct order"
    and "\<forall>k < length order. \<forall>j < length order. k < j \<longrightarrow> fst (targets ! (order ! k)) \<notin> tree_of (fst (targets ! (order ! j)))"
    and "apply_all (restore_one F targets) order w = (Inr u, w')"
  shows "\<forall>i \<in> set order. security_descriptor_sddl F (fst (targets ! i)) w' = Inr (snd (targets ! i))"
  using assms
proof (induction order arbitrary: w)
  case (Cons i order)
  define t where "t = fst (targets ! i)"
  obtain w1 where one: "restore_one F targets i w = (Inr (), w1)" and rest: "apply_all (restore_one F targets) order w1 = (Inr u, w')"
    using Cons.prems(4) by (auto simp: bindT_ok_iff)
  from restore_one_effect [OF one] have force: "security_descriptor_sddl F t w1 = Inr (snd (targets ! i))"
    and kept: "w1 = w \<or> (\<exists>d protected. w1 = snd (mo_set_security F t d protected w))"
    by (auto simp: t_def)
  from kept object_kept plain_kept have objects: "tree_object F w1 root q \<longleftrightarrow> tree_object F w root q"
      "plain_object F w1 q \<longleftrightarrow> plain_object F w q" for q by auto
  have apart: "\<forall>j \<in> set order. t \<notin> tree_of (fst (targets ! j))"
    using Cons.prems(3) by (force simp: t_def in_set_conv_nth)
  have tail: "\<forall>k < length order. \<forall>j < length order. k < j \<longrightarrow> fst (targets ! (order ! k)) \<notin> tree_of (fst (targets ! (order ! j)))"
  proof (intro allI impI)
    fix k j
    assume "k < length order" "j < length order" "k < j"
    then show "fst (targets ! (order ! k)) \<notin> tree_of (fst (targets ! (order ! j)))"
      using Cons.prems(3) [rule_format, of "Suc k" "Suc j"] by simp
  qed
  have rest_kept: "security_descriptor_sddl F t w'' = security_descriptor_sddl F t w1"
    if "apply_all (restore_one F targets) js w1' = (Inr u, w'')" "set js \<subseteq> set order"
      "\<forall>q. (tree_object F w1' root q \<longleftrightarrow> tree_object F w root q) \<and> (plain_object F w1' q \<longleftrightarrow> plain_object F w q)" "security_descriptor_sddl F t w1' = security_descriptor_sddl F t w1"
    for js w1' w''
    using that
  proof (induction js arbitrary: w1')
    case Nil
    then show ?case by (simp add: returnT_def)
  next
    case (Cons j js)
    obtain w2 where step: "restore_one F targets j w1' = (Inr (), w2)" and more: "apply_all (restore_one F targets) js w2 = (Inr u, w'')"
      using Cons.prems(1) by (auto simp: bindT_ok_iff)
    have j: "tree_object F w1' root (fst (targets ! j))" "plain_object F w1' (fst (targets ! j))" "tree_object F w1' root t" "t \<notin> tree_of (fst (targets ! j))"
      using Cons.prems(2,3) \<open>\<forall>i\<in>set (i # order). tree_object F w root (fst (targets ! i)) \<and> plain_object F w (fst (targets ! i))\<close> apart by (auto simp: t_def)
    from restore_one_effect [OF step] set_others [OF j] object_kept plain_kept Cons.prems(3,4)
    have "\<forall>q. (tree_object F w2 root q \<longleftrightarrow> tree_object F w root q) \<and> (plain_object F w2 q \<longleftrightarrow> plain_object F w q)" "security_descriptor_sddl F t w2 = security_descriptor_sddl F t w1"
      by auto
    with Cons.IH [OF more] Cons.prems(2) show ?case by simp
  qed
  have "security_descriptor_sddl F t w' = security_descriptor_sddl F t w1"
    by (rule rest_kept [OF rest]) (use objects in auto)
  moreover have "\<forall>j \<in> set order. security_descriptor_sddl F (fst (targets ! j)) w' = Inr (snd (targets ! j))"
    by (rule Cons.IH [OF _ _ tail rest]) (use Cons.prems(1,2) objects in auto)
  ultimately show ?case using force by (simp add: t_def)
qed simp

text \<open>A saved path of the tree: its target and its depth.\<close>

lemma collected_target:
  assumes "drive_root root" "list_all (fact_of w root) facts" "key \<in> set (map cp_path_key facts)"
    "list_all (\<lambda>e. \<not> cp_is_reparse_point e \<and> cp_is_directory e \<noteq> cp_is_regular_file e \<and>
       (cp_is_regular_file e \<longrightarrow> cp_hard_link_count e = Some 1)) facts"
  obtains ns where "list_all plain_name ns" "key = relative_text ns" "restore_target root key = below root ns"
    "component_count key = length ns" "tree_object F w root (below root ns)" "plain_object F w (below root ns)"
proof -
  obtain p where p: "tree_object F w root p" "path_strip root p = Some key" "plain_object F w p"
    using assms(2-4) by (fastforce simp: list_all_iff fact_of_def plain_object_def)
  from object_below [OF assms(1) p(1)] obtain ns where ns: "list_all plain_name ns" "p = below root ns" by blast
  with p(2) strip_below [OF assms(1) ns(1)] have "key = relative_text ns" by simp
  with ns p(1,3) assms(1) show ?thesis by (intro that [of ns]) (simp_all add: restore_below relative_count)
qed

lemma plan_in_force:
  assumes root: "drive_root root" and current: "list_all (fact_of w root) current"
    and lists: "restore_lists_of F root entries = Inr (saved, targets, payload)"
    and run: "run_validated_acl_restore_plan grants saved current (restore_one F targets) w = (Inr u, w')"
  shows "\<forall>e \<in> set entries. security_descriptor_sddl F (restore_target root (ae_relative_path e)) w' = Inr (ae_sddl e)"
proof -
  have aligned: "map (\<lambda>f. (sp_path_key f, sp_depth f)) saved = map (\<lambda>e. (ae_relative_path e, component_count (ae_relative_path e))) entries"
    and targets: "targets = map (\<lambda>e. (restore_target root (ae_relative_path e), ae_sddl e)) entries"
    using lists by (auto simp: restore_lists_of_def bindR_Inr_iff dest!: restore_lists_aligned)
  have len: "length saved = length entries" using arg_cong [OF aligned, of length] by simp
  have entry: "sp_path_key (saved ! i) = ae_relative_path (entries ! i)"
      "sp_depth (saved ! i) = component_count (ae_relative_path (entries ! i))"
      "targets ! i = (restore_target root (ae_relative_path (entries ! i)), ae_sddl (entries ! i))" if "i < length entries" for i
    using that len targets arg_cong [OF aligned, of "\<lambda>xs. xs ! i"] by simp_all
  from run have restorable: "restorable saved current"
    and applied: "apply_all (restore_one F targets) (restore_order saved) w = (Inr u, w')"
    by (auto simp: run_validated_acl_restore_plan_def bindT_ok_iff tx_simps plan_order_result)
  have indices: "set (restore_order saved) = {..<length entries}" "distinct (restore_order saved)"
    by (auto simp: restore_order_def len)
  have object: "\<exists>ns. list_all plain_name ns \<and> ae_relative_path (entries ! i) = relative_text ns \<and>
      fst (targets ! i) = below root ns \<and> sp_depth (saved ! i) = length ns \<and> tree_object F w root (below root ns) \<and> plain_object F w (below root ns)"
    if i: "i < length entries" for i
  proof -
    have "sp_path_key (saved ! i) \<in> set (map cp_path_key current)"
      using restorable i len keys_of_pairs [of sp_path_key sp_is_directory saved cp_path_key cp_is_directory current]
      by (auto simp: restorable_def)
    then have "ae_relative_path (entries ! i) \<in> set (map cp_path_key current)" by (simp add: entry(1) [OF i])
    moreover have "list_all (\<lambda>e. \<not> cp_is_reparse_point e \<and> cp_is_directory e \<noteq> cp_is_regular_file e \<and>
       (cp_is_regular_file e \<longrightarrow> cp_hard_link_count e = Some 1)) current"
      using restorable by (simp add: restorable_def)
    ultimately obtain ns where "list_all plain_name ns" "ae_relative_path (entries ! i) = relative_text ns"
        "restore_target root (ae_relative_path (entries ! i)) = below root ns"
        "component_count (ae_relative_path (entries ! i)) = length ns" "tree_object F w root (below root ns)"
        "plain_object F w (below root ns)"
      by (rule collected_target [OF root current])
    then show ?thesis by (intro exI [of _ ns]) (simp add: entry(2,3) [OF i])
  qed
  have keys: "distinct (map ae_relative_path entries)"
    using restorable arg_cong [OF aligned, of "map fst"] by (simp add: restorable_def comp_def)
  have "\<forall>i \<in> set (restore_order saved). security_descriptor_sddl F (fst (targets ! i)) w' = Inr (snd (targets ! i))"
  proof (rule applied_in_force [OF _ indices(2) _ applied])
    show "\<forall>i \<in> set (restore_order saved). tree_object F w root (fst (targets ! i)) \<and> plain_object F w (fst (targets ! i))"
      using object indices(1) by fastforce
    show "\<forall>k < length (restore_order saved). \<forall>j < length (restore_order saved). k < j \<longrightarrow>
        fst (targets ! (restore_order saved ! k)) \<notin> tree_of (fst (targets ! (restore_order saved ! j)))"
    proof (intro allI impI notI)
      fix k j
      assume kj: "k < length (restore_order saved)" "j < length (restore_order saved)" "k < j"
        and inside: "fst (targets ! (restore_order saved ! k)) \<in> tree_of (fst (targets ! (restore_order saved ! j)))"
      let ?a = "restore_order saved ! k" and ?b = "restore_order saved ! j"
      have bound: "?a < length entries" "?b < length entries" using kj indices(1) nth_mem by blast+
      obtain ns ms where ns: "list_all plain_name ns" "ae_relative_path (entries ! ?a) = relative_text ns"
          "fst (targets ! ?a) = below root ns" "sp_depth (saved ! ?a) = length ns"
        and ms: "list_all plain_name ms" "ae_relative_path (entries ! ?b) = relative_text ms"
          "fst (targets ! ?b) = below root ms" "sp_depth (saved ! ?b) = length ms"
        using object [OF bound(1)] object [OF bound(2)] by blast
      have "sorted (map (\<lambda>i. sp_depth (saved ! i)) (restore_order saved))" by (simp add: restore_order_def)
      with kj have "sp_depth (saved ! ?a) \<le> sp_depth (saved ! ?b)" by (auto simp: sorted_iff_nth_mono)
      with below_covers [OF root ns(1) ms(1)] inside ns ms have "ns = ms" by auto
      with ns(2) ms(2) keys bound have "?a = ?b" by (metis distinct_conv_nth length_map nth_map)
      with kj indices(2) show False by (simp add: nth_eq_iff_index_eq)
    qed
  qed
  then show ?thesis using indices(1) entry(3) by (auto simp: in_set_conv_nth)
qed

lemma restored_in_force:
  assumes "drive_root root" "restore_acl F root source w = (Inr u, w')"
  shows "\<exists>entries. read_acl_snapshot F source w = Inr entries \<and>
    (\<forall>e \<in> set entries. security_descriptor_sddl F (restore_target root (ae_relative_path e)) w' = Inr (ae_sddl e))"
proof -
  obtain entries saved targets payload current where snapshot: "read_acl_snapshot F source w = Inr entries"
    and lists: "restore_lists_of F root entries = Inr (saved, targets, payload)"
    and current: "collect_current_acl_path_facts F root w = Inr current"
    and run: "run_validated_acl_restore_plan (mo_grants F) saved current (restore_one F targets) w = (Inr u, w')"
    using assms(2) by (auto simp: restore_acl_def bindT_ok_iff tx_simps)
  with plan_in_force [OF assms(1) collected_facts [OF current] lists run] show ?thesis by blast
qed

end

end
