(* ===== verification/Windows_Machine.thy ===== *)
theory Windows_Machine
  imports Windows_Memory Windows_Restored
begin

text \<open>
  The interfaces of the maintenance transactions on the machine in memory: its fixed paths, a file of
  its state that outlives the commands, its clock, its diagnostic and its descriptors.
\<close>

section \<open>Its paths\<close>

definition mem_child :: "string \<Rightarrow> wide" where
  "mem_child name = mem_program_data @ sep_unit # wide name"

definition mem_paths :: fixed_paths where
  "mem_paths =
     \<lparr>fp_program_root = wide (''C:'' @ [CHR 0x5C] @ ''xsoc''), fp_state_root = mem_child ''xsoc'',
      fp_journal_root = mem_child ''xsoc.install-journal-1.0.0'',
      fp_uninstall_journal_root = mem_child ''xsoc.uninstall-journal-1.0.0'',
      fp_quarantine_root = mem_child ''xsoc.purge-quarantine-1.0.0'',
      fp_diagnostic_file = mem_child ''xsoc.maintenance-diagnostic-1.0.0.txt'',
      fp_program_exe = mem_program_exe, fp_config = mem_config_file\<rparr>"

lemma mem_discover: "discover machine_ops mem_program_exe w = Inr mem_paths"
proof -
  have "path_join mem_program_data (wide ''xsoc'') = mem_child ''xsoc''"
    "path_join mem_program_data (wide (''xsoc.install-journal-'' @ ''1.0.0'')) = mem_child ''xsoc.install-journal-1.0.0''"
    "path_join mem_program_data (wide (''xsoc.uninstall-journal-'' @ ''1.0.0'')) = mem_child ''xsoc.uninstall-journal-1.0.0''"
    "path_join mem_program_data (wide (''xsoc.purge-quarantine-'' @ ''1.0.0'')) = mem_child ''xsoc.purge-quarantine-1.0.0''"
    "path_join mem_program_data (wide (''xsoc.maintenance-diagnostic-'' @ ''1.0.0'' @ ''.txt'')) =
       mem_child ''xsoc.maintenance-diagnostic-1.0.0.txt''"
    "path_join (mem_child ''xsoc'') (wide ''config.json'') = mem_config_file"
    "wide_to_str mem_program_data \<noteq> None" "ensure_absolute_root mem_program_data = Inr ()"
    "ensure_absolute_root mem_program_exe = Inr ()" "wide_parent mem_program_exe = Some (wide (''C:'' @ [CHR 0x5C] @ ''xsoc''))"
    "wide_file_name mem_program_exe = Some (wide ''xsoc.exe'')" "wide_eq_ignore_ascii_case (wide ''xsoc.exe'') (wide ''xsoc.exe'')"
    by code_simp+
  then show ?thesis
    by (auto simp: discover_def known_folder_def bindR_Inr_iff with_context_def io_res_def Let_def mem_paths_def
        simp del: wide_append split: option.splits)
qed

lemma mem_disjoint: "disjoint_roots mem_paths"
  by (rule discovered_disjoint [OF mem_discover machine.plain_version])

section \<open>Its interfaces\<close>

definition mem_file :: wide where "mem_file = wide ''spool''"

lemma mem_own: "own_file mem_paths (\<lambda>q. False) mem_file"
  by code_simp

interpretation mem_state: kept_file machine_ops mem_content "\<lambda>q. False" mem_paths mem_file "''queue''"
  by unfold_locales (rule mem_disjoint, rule mem_own)

interpretation mem_single: single_file machine_ops mem_content "\<lambda>q. False" mem_config_file "Some ''{}''"
  by unfold_locales simp

interpretation mem_clock: clocked machine_ops
  by unfold_locales simp

lemma mem_rename_here:
  assumes "\<And>q n. (q, n) \<in> set xs \<Longrightarrow> q \<noteq> b"
  shows "map_of (map (\<lambda>(q, n). (mem_moved a b q, n)) xs) b = map_of xs a"
  using assms
proof (induction xs)
  case (Cons x xs)
  obtain q n where x: "x = (q, n)" by fastforce
  have "mem_moved a b q = b \<longleftrightarrow> q = a"
    using Cons.prems [of q n] x by (auto simp: mem_moved_def inside_test_iff inside_def)
  with Cons x show ?case by auto
qed simp

lemma mem_private:
  "mo_create_private machine_ops = (\<lambda>p d. mem_create p (Mem_File [] (descriptor_text d)))"
  "mo_write_some machine_ops = (\<lambda>p bytes w. case mem_write p bytes w of (r, w') \<Rightarrow> (map_ok (\<lambda>_. length bytes) r, w'))"
  "mo_flush machine_ops = (\<lambda>p. returnT ())"
  by (simp_all add: machine_ops_def)

interpretation mem_diagnostic: diagnostic_files machine_ops mem_content
proof
  show "mem_content b w = None \<and> mem_content b w' = mem_content a w"
    if "mo_rename machine_ops a b w = (Inr u, w')" for a b w u w'
  proof -
    have free: "\<not> mem_occupied b w"
      and moved: "w' = w\<lparr>mw_nodes := map (\<lambda>(q, n). (mem_moved a b q, n)) (mw_nodes w)\<rparr>"
      using that by (auto dest!: mem_rename_cases)
    from free have "mem_node_at b w = None" by (simp add: mem_unoccupied)
    moreover have "q \<noteq> b" if "(q, n) \<in> set (mw_nodes w)" for q n
      using free that by (auto simp: mem_occupied_def list_ex_iff)
    then have "mem_node_at b w' = mem_node_at a w"
      unfolding moved by (simp add: mem_node_at_def mem_rename_here)
    ultimately show ?thesis by (simp add: mem_content_def)
  qed
  show "mo_rename machine_ops a b w = (Inl e, w') \<Longrightarrow> mem_content q w' = mem_content q w" for a b w e w' q
    by (auto dest!: mem_rename_cases)
  show "q \<noteq> p \<Longrightarrow> mem_content q (snd (mo_create_private machine_ops p d w)) = mem_content q w" for p q d w
    by (simp add: mem_private mem_create_def mem_content_def)
  show "mo_create_private machine_ops p d w = (Inr u, w') \<Longrightarrow> mem_content p w' = Some []" for p d w u w'
    by (auto simp: mem_private mem_create_def mem_content_def split: if_splits)
  show "q \<noteq> p \<Longrightarrow> mem_content q (snd (mo_write_some machine_ops p bytes w)) = mem_content q w" for p q bytes w
    by (simp add: mem_private mem_write_def mem_content_def split: option.split mem_node.split)
  show "mo_write_some machine_ops p bytes w = (Inr n, w') \<Longrightarrow> mem_content p w = Some c \<Longrightarrow> n \<le> length bytes \<Longrightarrow>
      mem_content p w' = Some (c @ take n bytes)" for p bytes w n w' c
    by (auto simp: mem_private mem_write_def mem_content_def split: option.splits mem_node.splits)
  show "mem_content q (snd (mo_flush machine_ops p w)) = mem_content q w" for p q w
    by (simp add: mem_private returnT_def)
  show "q \<noteq> p \<Longrightarrow> mem_content q (snd (mo_delete machine_ops p w)) = mem_content q w" for p q w
    by (rule machine.delete_frame)
qed

lemma mem_described_world:
  "mem_occupied q (snd (mem_set_security p d protected w)) = mem_occupied q w"
  "mem_is_file q (snd (mem_set_security p d protected w)) = mem_is_file q w"
  "mem_read_dir q (snd (mem_set_security p d protected w)) = mem_read_dir q w"
proof -
  have keys: "map fst (mw_nodes (snd (mem_set_security p d protected w))) = map fst (mw_nodes w)"
    by (auto simp: mem_set_security_def)
  have occupied: "mem_occupied q w = list_ex (\<lambda>r. r = q \<or> inside_test q r) (map fst (mw_nodes w))" for w :: mem_world
    by (simp add: mem_occupied_def list_ex_iff case_prod_beta)
  have listed: "mem_read_dir q w = Inr (map Inr (filter plain_name (map (drop (Suc (length q))) (filter (inside_test q) (map fst (mw_nodes w))))))" for w :: mem_world
    by (simp add: mem_read_dir_def filter_map comp_def case_prod_beta)
  show "mem_occupied q (snd (mem_set_security p d protected w)) = mem_occupied q w" unfolding occupied keys ..
  show "mem_read_dir q (snd (mem_set_security p d protected w)) = mem_read_dir q w" unfolding listed keys ..
  show "mem_is_file q (snd (mem_set_security p d protected w)) = mem_is_file q w"
    by (auto simp: mem_is_file_def described_def split: option.splits mem_node.splits)
qed

interpretation mem_descriptors: descriptor_store machine_ops
proof
  show "mo_read_dir machine_ops p w = Inr es \<Longrightarrow> Inr name \<in> set es \<Longrightarrow> plain_name name" for p w es name
    by (rule machine.plain_entries)
  show "security_descriptor_sddl machine_ops q (snd (mo_set_security machine_ops p d protected w)) = security_descriptor_sddl machine_ops q w"
    if "q \<notin> tree_of p" for p q d protected w
  proof -
    have "q \<noteq> p" using that by (auto simp: tree_of_def)
    then have "mem_descriptor q (snd (mem_set_security p d protected w)) = mem_descriptor q w" by (simp add: mem_descriptor_def)
    moreover have "mo_get_security machine_ops = (\<lambda>p w. Inr (Inr (mem_descriptor p w)))"
      "mo_open machine_ops = (\<lambda>p access directory w. if mem_occupied p w then Inr () else Inl not_found)"
      "mo_opened machine_ops = (\<lambda>p w. Inr \<lparr>of_directory = \<not> mem_is_file p w, of_reparse = False, of_links = 1\<rparr>)"
      by (simp_all add: machine_ops_def)
    ultimately show ?thesis
      by (simp add: security_descriptor_sddl_def security_descriptor_sddl_with_target_type_def
          security_descriptor_sddl_from_handle_def open_acl_target_def mem_metadata_def mem_described_world)
  qed
qed (simp_all add: mem_metadata_def mem_described_world)

end
