(* ===== verification/Windows_Example.thy ===== *)
theory Windows_Example
  imports Windows_Machine
begin

text \<open>
  A machine whose one managed tree has a file, with the snapshot of its old descriptors: the tree
  validates, and the restoration of the snapshot succeeds. A second machine is in the middle of a
  purge.
\<close>

section \<open>Descriptors that are restored\<close>

definition old_sddl :: string where "old_sddl = ''O:BAD:P(A;;FA;;;SY)''"
definition new_sddl :: string where "new_sddl = ''O:BAD:P(A;;FA;;;WD)''"

definition mem_root :: wide where "mem_root = wide (''C:'' @ [CHR 0x5C] @ ''r'')"
definition mem_leaf :: wide where "mem_leaf = wide (''C:'' @ [CHR 0x5C] @ ''r'' @ [CHR 0x5C] @ ''a'')"
definition mem_saved :: wide where "mem_saved = wide (''C:'' @ [CHR 0x5C] @ ''s'')"

definition mem_entries :: "acl_snapshot_entry list" where
  "mem_entries =
     [\<lparr>ae_relative_path = [], ae_is_directory = True, ae_sddl = old_sddl\<rparr>,
      \<lparr>ae_relative_path = wide ''a'', ae_is_directory = False, ae_sddl = old_sddl\<rparr>]"

definition mem_snapshot :: string where
  "mem_snapshot = numbers_text (acl_numbers
     \<lparr>as_format = snapshot_format, as_application_version = ''1.0.0'', as_entries = mem_entries\<rparr>)"

definition mem_machine :: "string \<Rightarrow> string \<Rightarrow> mem_world" where
  "mem_machine a b =
     \<lparr>mw_nodes = [(mem_root, Mem_Directory (wide a)), (mem_leaf, Mem_File ''{}'' (wide b)), (mem_saved, Mem_File mem_snapshot [])],
      mw_sid = 1, mw_flag = 1, mw_service = 4, mw_clock = 0\<rparr>"

lemma mem_shape:
  "mem_root = [67, 58, 92, 114]" "mem_leaf = [67, 58, 92, 114, 92, 97]" "mem_saved = [67, 58, 92, 115]"
  by code_simp+

lemma numbers_text_length: "length (numbers_text ns) = sum_list ns + length ns"
  by (induction ns) (simp_all add: numbers_text_def unary_def)

lemma machine_snapshot_read: "read_acl_snapshot machine_ops mem_saved (mem_machine a b) = Inr mem_entries"
proof -
  have "mem_content mem_saved (mem_machine a b) = Some mem_snapshot"
    by (simp add: mem_content_def mem_node_at_def mem_machine_def mem_shape)
  moreover have "length mem_snapshot \<le> max_acl_snapshot_bytes"
    by (simp add: mem_snapshot_def numbers_text_length acl_numbers_def mem_entries_def entry_numbers_def sized_def old_sddl_def
        wide_def byte_def snapshot_format_def max_acl_snapshot_bytes_def bit_def)
  moreover have "mo_decode_acl machine_ops = decode_with acl_of" by (simp add: machine_ops_def)
  then have "mo_decode_acl machine_ops mem_snapshot = Some \<lparr>as_format = snapshot_format, as_application_version = ''1.0.0'', as_entries = mem_entries\<rparr>"
    by (simp add: mem_snapshot_def decode_acl_back)
  moreover have "read_file_bounded (Inr s) max_acl_snapshot_bytes = Inr s" if "length s \<le> max_acl_snapshot_bytes" for s
    using that by (simp add: read_file_bounded_def checked_add64_def max_acl_snapshot_bytes_def ensureR_def)
  moreover have "length mem_entries \<le> max_acl_snapshot_entries"
    by (simp add: mem_entries_def max_acl_snapshot_entries_def max_maintenance_tree_nodes_def)
  ultimately show ?thesis by (simp add: read_acl_snapshot_def io_res_def)
qed

lemma machine_granted [simp]: "mo_grants machine_ops = (\<lambda>n. True)"
  by (simp add: machine_ops_def)

lemmas machine_bounds = max_maintenance_tree_nodes_def max_acl_snapshot_entries_def max_maintenance_path_bytes_def
  maintenance_path_fixed_bytes_def

lemma pushed_here:
  "length items < max_maintenance_tree_nodes \<Longrightarrow> payload + maintenance_path_fixed_bytes + 2 * units \<le> max_maintenance_path_bytes \<Longrightarrow>
     try_push_bounded_path (\<lambda>n. True) items x units payload max_maintenance_tree_nodes max_maintenance_path_bytes =
       Inr (items @ [x], payload + maintenance_path_fixed_bytes + 2 * units)"
  by (simp add: try_push_bounded_path_def checked_maintenance_path_payload_def checked_add64_def checked_mul64_def
      try_reserve_bounded_def ensureR_def machine_bounds)

lemma enqueued_here:
  "discovered < max_maintenance_tree_nodes \<Longrightarrow> length items < max_maintenance_tree_nodes \<Longrightarrow>
     payload + maintenance_path_fixed_bytes + 2 * units \<le> max_maintenance_path_bytes \<Longrightarrow>
     enqueue_bounded_tree_path (\<lambda>n. True) items discovered x units payload max_maintenance_tree_nodes max_maintenance_path_bytes =
       Inr (items @ [x], discovered + 1, payload + maintenance_path_fixed_bytes + 2 * units)"
  by (simp add: enqueue_bounded_tree_path_def pushed_here ensureR_def)

lemma machine_looks:
  "mem_metadata mem_root (mem_machine a b) = Inr \<lparr>fa_directory = True, fa_reparse = False, fa_link = False\<rparr>"
  "mem_metadata mem_leaf (mem_machine a b) = Inr \<lparr>fa_directory = False, fa_reparse = False, fa_link = False\<rparr>"
  "mem_read_dir mem_root (mem_machine a b) = Inr [Inr (wide ''a'')]"
  "mem_occupied mem_root (mem_machine a b)" "mem_occupied mem_leaf (mem_machine a b)"
  "mem_is_file mem_leaf (mem_machine a b)" "\<not> mem_is_file mem_root (mem_machine a b)"
  by (simp_all add: mem_metadata_def mem_is_file_def mem_occupied_def mem_read_dir_def mem_node_at_def mem_machine_def mem_shape
      inside_test_def sep_unit_def plain_name_def is_separator_def dot_unit_def colon_unit_def wide_def byte_def)

lemma machine_paths:
  "path_join mem_root (wide ''a'') = mem_leaf" "path_strip mem_root mem_root = Some []" "path_strip mem_root mem_leaf = Some (wide ''a'')"
  "component_count [] = 0" "component_count (wide ''a'') = 1" "all_normal []" "all_normal (wide ''a'')" "wide ''a'' \<noteq> []"
  "length (wide ''a'') = 1" "length mem_root = 4" "length mem_leaf = 6"
  by code_simp+

lemma machine_facts:
  "collect_current_acl_path_facts machine_ops mem_root (mem_machine a b) =
     Inr [\<lparr>cp_path_key = [], cp_is_directory = True, cp_is_regular_file = False, cp_is_reparse_point = False, cp_hard_link_count = None\<rparr>,
       \<lparr>cp_path_key = wide ''a'', cp_is_directory = False, cp_is_regular_file = True, cp_is_reparse_point = False,
        cp_hard_link_count = Some 1\<rparr>]"
  by (simp add: collect_current_acl_path_facts_def walk_from_def walk_tree.simps current_before_def enqueue_children_def enqueue_child_def
      enqueued_here [simplified machine_bounds, simplified] pushed_here [simplified machine_bounds, simplified] machine_bounds machine_looks machine_paths path_units_def io_res_def relative_to_def is_dir_def is_file_def
      with_context_def)

lemma machine_saved: "validate_saved_security_descriptor machine_ops old_sddl = Inr ()"
  by code_simp

lemma machine_lists:
  "\<exists>payload. restore_lists_of machine_ops mem_root mem_entries =
     Inr ([\<lparr>sp_path_key = [], sp_depth = 0, sp_valid_relative_path = True, sp_is_directory = True\<rparr>,
       \<lparr>sp_path_key = wide ''a'', sp_depth = 1, sp_valid_relative_path = True, sp_is_directory = False\<rparr>],
       [(mem_root, old_sddl), (mem_leaf, old_sddl)], payload)"
  by (simp add: restore_lists_of_def restore_entry_def mem_entries_def Let_def restore_target_def machine_paths machine_saved
      try_reserve_bounded_def checked_add64_def ensureR_def pushed_here [simplified machine_bounds, simplified] path_units_def
      machine_bounds)

lemma machine_plan:
  "plan_order (\<lambda>n. True)
     [\<lparr>sp_path_key = [], sp_depth = 0, sp_valid_relative_path = True, sp_is_directory = True\<rparr>,
      \<lparr>sp_path_key = wide ''a'', sp_depth = 1, sp_valid_relative_path = True, sp_is_directory = False\<rparr>]
     [\<lparr>cp_path_key = [], cp_is_directory = True, cp_is_regular_file = False, cp_is_reparse_point = False, cp_hard_link_count = None\<rparr>,
      \<lparr>cp_path_key = wide ''a'', cp_is_directory = False, cp_is_regular_file = True, cp_is_reparse_point = False,
       cp_hard_link_count = Some 1\<rparr>] = Inr [0, 1]"
  unfolding plan_order_result
  by (simp add: restorable_def capacity_granted_def restore_order_def machine_bounds machine_paths machine_paths(8) [symmetric] sort_key_def upt_rec [of 0]
      upt_rec [of "Suc 0"])

lemma machine_opened:
  "p \<in> {mem_root, mem_leaf} \<Longrightarrow> open_acl_target machine_ops p rights (mem_machine a b) = Inr (p = mem_root)"
proof -
  have "mo_open machine_ops = (\<lambda>p access directory w. if mem_occupied p w then Inr () else Inl not_found)"
    "mo_opened machine_ops = (\<lambda>p w. Inr \<lparr>of_directory = \<not> mem_is_file p w, of_reparse = False, of_links = 1\<rparr>)"
    "mem_leaf \<noteq> mem_root"
    by (simp_all add: machine_ops_def mem_shape)
  then show "p \<in> {mem_root, mem_leaf} \<Longrightarrow> open_acl_target machine_ops p rights (mem_machine a b) = Inr (p = mem_root)"
    by (auto simp: open_acl_target_def machine_looks with_context_def io_res_def is_file_def Let_def ensureR_def
        validate_opened_managed_target_facts_def)
qed

lemma machine_text:
  "wide_to_str (wide old_sddl) = Some old_sddl" "saved_dacl_is_protected old_sddl = Inr True"
  "mem_parse old_sddl = Inr \<lparr>pd_owner = True, pd_dacl = True, pd_text = Inr (Some (wide old_sddl))\<rparr>"
  "is_ok (security_descriptor_access_parts old_sddl)" "takeWhile (\<lambda>u. u \<noteq> 0) (wide old_sddl) = wide old_sddl"
  "length (wide old_sddl) = 19" "wide old_sddl \<noteq> []"
  by code_simp+

lemma machine_converted: "security_descriptor_to_sddl (Inr (Some (wide old_sddl))) = Inr old_sddl"
  by (simp add: security_descriptor_to_sddl_def io_res_def with_context_def machine_text ensureR_def machine_bounds)

lemma machine_set:
  "mem_set_security mem_root \<lparr>pd_owner = True, pd_dacl = True, pd_text = Inr (Some (wide old_sddl))\<rparr> protected (mem_machine a b) =
     (Inr (), mem_machine old_sddl b)"
  "mem_set_security mem_leaf \<lparr>pd_owner = True, pd_dacl = True, pd_text = Inr (Some (wide old_sddl))\<rparr> protected (mem_machine a b) =
     (Inr (), mem_machine a old_sddl)"
  "mem_descriptor mem_root (mem_machine a b) = Some (wide a)" "mem_descriptor mem_leaf (mem_machine a b) = Some (wide b)"
  by (simp_all add: mem_set_security_def mem_descriptor_def mem_node_at_def mem_machine_def mem_shape described_def descriptor_text_def)

lemma machine_restored:
  "restore_one machine_ops [(mem_root, old_sddl), (mem_leaf, old_sddl)] 0 (mem_machine a b) = (Inr (), mem_machine old_sddl b)"
  "restore_one machine_ops [(mem_root, old_sddl), (mem_leaf, old_sddl)] 1 (mem_machine a b) = (Inr (), mem_machine a old_sddl)"
proof -
  obtain parts where parts: "security_descriptor_access_parts old_sddl = Inr parts"
    using machine_text(4) by (cases "security_descriptor_access_parts old_sddl") auto
  have calls: "mo_get_security machine_ops = (\<lambda>p w. Inr (Inr (mem_descriptor p w)))" "mo_parse_descriptor machine_ops = mem_parse"
    by (simp_all add: machine_ops_def)
  note steps = restore_one_def restore_security_descriptor_def set_security_descriptor_def bindT_simps tx_simps machine_opened machine_text
    machine_converted machine_set calls parse_administrative_security_descriptor_def administrative_descriptor_access_def
    security_descriptor_sddl_from_handle_def security_descriptor_sddl_def security_descriptor_sddl_with_target_type_def io_tx_def
    contextT_def io_res_def with_context_def ensureR_def parts Let_def map_errT_apply bindT_apply
  show "restore_one machine_ops [(mem_root, old_sddl), (mem_leaf, old_sddl)] 0 (mem_machine a b) = (Inr (), mem_machine old_sddl b)"
    "restore_one machine_ops [(mem_root, old_sddl), (mem_leaf, old_sddl)] 1 (mem_machine a b) = (Inr (), mem_machine a old_sddl)"
    by (simp_all add: steps)
qed

lemma machine_restore: "restore_acl machine_ops mem_root mem_saved (mem_machine a b) = (Inr (), mem_machine old_sddl old_sddl)"
proof -
  obtain payload where lists: "restore_lists_of machine_ops mem_root mem_entries =
     Inr ([\<lparr>sp_path_key = [], sp_depth = 0, sp_valid_relative_path = True, sp_is_directory = True\<rparr>,
       \<lparr>sp_path_key = wide ''a'', sp_depth = 1, sp_valid_relative_path = True, sp_is_directory = False\<rparr>],
       [(mem_root, old_sddl), (mem_leaf, old_sddl)], payload)"
    using machine_lists by blast
  show ?thesis
    unfolding restore_acl_def run_validated_acl_restore_plan_def bindT_apply readT_apply machine_snapshot_read lists machine_facts liftR_apply
    by (simp add: machine_snapshot_read lists machine_facts machine_plan [simplified] machine_restored [simplified] bindT_apply tx_simps)
qed

lemma machine_valid: "validate_tree machine_ops mem_root (mem_machine a b) = Inr ()"
  by (simp add: validate_tree_def validate_tree_with_directory_depth_limit_def validate_real_directory_def validate_directories.simps
      validate_entry_def enqueued_here [simplified machine_bounds, simplified] record_bounded_tree_node_def machine_bounds machine_looks
      machine_paths path_units_def io_res_def with_context_def is_dir_def is_file_def ensureR_def Let_def)

lemma machine_leaf: "tree_object machine_ops (mem_machine a b) mem_root mem_leaf"
  using tree_child [OF tree_root, of machine_ops mem_root "mem_machine a b" _ "[Inr (wide ''a'')]" "wide ''a''"]
  by (simp add: machine_looks machine_paths is_dir_def)

section \<open>A purge under way\<close>

definition mem_purge :: mem_world where
  "mem_purge =
     \<lparr>mw_nodes = [(fp_quarantine_root mem_paths, Mem_Directory []), (fp_quarantine_root mem_paths @ sep_unit # mem_file, Mem_File ''queue'' []),
        (fp_uninstall_journal_root mem_paths, Mem_Directory []), (mem_program_exe, Mem_File ''xsoc'' [])],
      mw_sid = 1, mw_flag = 1, mw_service = 4, mw_clock = 0\<rparr>"

lemma purge_keeps_state: "state_kept machine_ops mem_content mem_paths mem_file ''queue'' mem_purge"
proof -
  have "mem_content (fp_quarantine_root mem_paths @ sep_unit # mem_file) mem_purge = Some ''queue''"
    "mem_content (path_join (fp_journal_root mem_paths) snapshot_file) mem_purge = None"
    by code_simp+
  then show ?thesis by (simp add: state_kept_def)
qed

lemma purge_pending:
  "mo_try_exists machine_ops (fp_uninstall_journal_root mem_paths) mem_purge = Inr True"
  "mem_content mem_program_exe mem_purge = Some ''xsoc''"
  by code_simp+

end
