(* ===== verification/Spec2Isabelle.thy ===== *)
theory Spec2Isabelle
  imports Example_Data Example_Delivery Example_Report Config_Correct Otlp_Correct
    Sampling_Correct Smbios_Correct Windows_Acl_Correct Windows_Maintenance_Correct Windows_Restore Windows_Example
begin

text \<open>
  A verification development for \<open>xsoc\<close>, the host monitoring client: a program that pairs a host with a
  management server, samples the host, keeps its reports in a durable queue and delivers them. All
  names of files are those under \<open>src/\<close>.

  Parts and how they interact. \<open>config.rs\<close> makes the configuration from the command line, a file and
  the environment. \<open>state_store.rs\<close> gives locked access to five small files, on which
  \<open>client_identity.rs\<close> and \<open>pairing/*\<close> build the account: a journal of the pairing in progress, the
  identity of the host, a bearer token, the binding in force and an authorization mark. The pairing
  flows talk to the server between their locked sections. \<open>collectors/mod.rs\<close> makes a report from
  what the operating system shows, \<open>report_contract.rs\<close> bounds it to the contract of the server,
  \<open>spool.rs\<close> queues it, \<open>transport.rs\<close> sends it and classifies the answer, \<open>monitor_app/delivery/*\<close>
  decides what an answer means for the queue and for the credential, and \<open>otlp.rs\<close> exports the same
  report to a collector. \<open>windows/maintenance/*\<close> serves the Windows installer: twelve commands, each a
  transaction with a protected journal that its rollback reads.

  Theories and what they model.
  \<^item> \<open>Prelude\<close>: results as sums, transactions as functions from a state to a result and a state, Hoare
    triples for them, Rust strings as UTF-8 byte strings.
  \<^item> \<open>Config\<close>, \<open>Config_Load\<close> (\<open>config.rs\<close>, \<open>pairing_input.rs\<close>, \<open>secret_io.rs\<close>): the configuration record, its
    endpoints, the command line, the environment, validation, load and durable save, for Linux.
    \<open>Config_Correct\<close> shows that validation accepts exactly the well-formed configurations, where the
    endpoint comes from, when \<open>status\<close> starts, and that a saved configuration is the loaded one.
  \<^item> \<open>State_Store\<close> (\<open>state_store.rs\<close>), \<open>Credentials\<close>, \<open>Pairing_State\<close>, \<open>Pairing_Client\<close>, \<open>Pairing_Flow\<close>,
    \<open>Pairing_Local\<close> (\<open>client_identity.rs\<close>, \<open>pairing/*.rs\<close>): documents, their reading and writing, the commit
    journal and its recovery, create, poll, activate, and the local operations. \<open>Account\<close> reads the five
    files as one abstract account, \<open>Account_Steps\<close> and \<open>Recovery\<close> show how the operations change it,
    \<open>Flow_Safety\<close>, \<open>Flow_Correct\<close> and \<open>Local_Correct\<close> what each flow guarantees while other processes
    act between its locked sections.
  \<^item> \<open>Http\<close>, \<open>Transport\<close> (\<open>transport.rs\<close>, \<open>tls_input.rs\<close>): bounded exchange, client construction, headers,
    report delivery and the classification of answers; \<open>Transport_Correct\<close> their effect.
  \<^item> \<open>Report\<close>, \<open>Report_Contract\<close>, \<open>Report_Text\<close> (\<open>report_contract.rs\<close>): the report and its bounding.
    \<open>Report_Limits\<close> shows that the result is within the limits, \<open>Report_Settled\<close>, \<open>Report_Canonical\<close> and
    \<open>Report_Equal\<close> that a bounded report is not changed again, \<open>Report_Fit\<close> that fitting ends,
    \<open>Report_Peaks\<close> that the peaks survive, \<open>Report_Correct\<close> the properties of the whole.
  \<^item> \<open>Float64\<close>, \<open>Float_Arith\<close>: an \<open>f64\<close> is its 64-bit pattern; comparison, and the four operations by exact
    rational arithmetic and one rounding to nearest even. \<open>Float_Exact\<close> shows when they are exact.
  \<^item> \<open>Spool\<close> (\<open>spool.rs\<close>), \<open>Delivery\<close> (\<open>monitor_app/delivery/*.rs\<close>) and \<open>Delivery_Correct\<close>: the queue, the
    one-shot delivery, the sampling turn, the batch adapter and the delivery driver.
  \<^item> \<open>Otlp\<close>, \<open>Otlp_Correct\<close> (\<open>otlp.rs\<close>): the metrics are the data points of the report, grouped.
  \<^item> \<open>Sampling\<close>, \<open>Sampling_Correct\<close> (\<open>collectors/mod.rs\<close>, \<open>collectors/disk_rates.rs\<close>): the sampler and its rates;
    \<open>Smbios\<close>, \<open>Smbios_Correct\<close> (\<open>collectors/inventory/smbios.rs\<close>): the parser of memory modules.
  \<^item> \<open>Windows_Acl\<close>, \<open>Windows_Maintenance\<close>, \<open>Windows_Restore\<close> and their \<open>_Correct\<close> theories
    (\<open>windows/maintenance/mod.rs\<close>): descriptors, arguments, diagnostics, budgets and the ACL restore.
  \<^item> \<open>Windows_Paths\<close> (the paths of \<open>std\<close> on UTF-16), \<open>Windows_Calls\<close> (the data of \<open>mod.rs\<close> and the calls),
    \<open>Windows_Tree\<close> and \<open>Windows_Journal\<close> (\<open>filesystem.rs\<close>), \<open>Windows_Descriptors\<close> (\<open>acl.rs\<close>), \<open>Windows_Service\<close>
    (\<open>service.rs\<close>), \<open>Windows_Transaction\<close> (\<open>transaction.rs\<close>, \<open>run\<close>): the maintenance program. \<open>Windows_Steady\<close>
    and \<open>Windows_Kept\<close> give rules by which an operation and a command keep a predicate, \<open>Windows_Files\<close> what
    the commands do to a file of the state, \<open>Windows_Checks\<close> what validations, waits and the diagnostic
    establish, \<open>Windows_Relative\<close> and \<open>Windows_Restored\<close> that restored descriptors are in force.
    \<open>Windows_Memory\<close>, \<open>Windows_Machine\<close> and \<open>Windows_Example\<close> interpret their interfaces on a machine in memory.
  \<^item> \<open>Memory_Directory\<close>, \<open>Memory_Queue\<close>, \<open>Reference_Env\<close>: the interfaces interpreted on a directory, a queue
    and an environment in memory, whose calls can fail; \<open>Example_*\<close>: the concrete inputs of the witnesses.

  Interfaces. What the program calls outside its sources is a record of functions, and what it relies
  on is a locale: \<open>private_directory\<close> for the file system of the \<open>xcsc\<close> crate, \<open>pairing_env\<close> for the JSON
  codecs, identifiers and hashes of the pairing, \<open>record_queue\<close> for the record store of \<open>xcsc\<close>,
  \<open>config_files\<close> for its configuration directory, \<open>managed_files\<close>, \<open>diagnostic_files\<close>, \<open>descriptor_store\<close> and
  \<open>clocked\<close> for files, descriptors and the clock of Windows. URL parsing, HTTP, TLS, gzip, Protocol Buffers, the
  clock, the random source and the contract constants of the wire crate are parameters as well.
  \<open>serde_json\<close> without its exact float option need not read back every \<open>f64\<close> it prints, so that an
  encoded report decodes to itself is a hypothesis where it is used.

  Conventions. A function that writes is a transaction; an error or a crash at any call ends it, and a
  crash is the failing of every later call. Interference of other processes is an arbitrary step of
  theirs between two locked sections. Error values keep what the program decides on and shorten what it
  only prints; a handle of Windows that pins an object is its path, a directory is listed when it is
  opened, and a path is its units, so that two spellings of one name are two paths. \<open>debug_assert\<close> is not modelled; \<open>expect\<close> is the value \<open>Panic\<close>. For \<open>f64\<close>, \<open>max\<close> of two
  zeros returns its first argument and every NaN result has one payload; the product of the shrink
  ratio of \<open>fit_body\<close> is a parameter. Log output and the runtime status page are not state.

  Bounds and fuel. Loops are recursions on their data, with a measure where it is not structural:
  bytes left (\<open>trim\<close>, UTF-8, SMBIOS), items left to remove (\<open>fit_body\<close>), records left (\<open>oldest\<close>), arguments
  left (\<open>parse_arguments\<close>). The lock-free \<open>local_status\<close> reads at most as often as the code, and the
  attempts of \<open>run_once\<close> are the records of the queue. The walks of a managed tree are bounded by its budget
  of nodes, and the waits for the service by 121 turns of 250 milliseconds, more than their 30 seconds. The rounding of a quotient is exact for any two
  naturals, so no bound on them is needed.

  Not modelled. The calls of the Windows SDK themselves, the terminal front end (\<open>cli.rs\<close>), process and service hosts
  (\<open>monitor_app/mod.rs\<close>, \<open>systemd.rs\<close>, \<open>service.rs\<close>, \<open>mobile.rs\<close>), the rendering of diagnostics, and the
  collectors that read the operating system or vendor libraries, whose readings are inputs of the
  sampler. The select loop and the worker threads around the delivery driver are the sequences of its
  steps.
\<close>

section \<open>Pairing: the account\<close>



text \<open>
  C2. The commit of a pairing is all or nothing across failures: whichever write of
  \<open>recover_activating\<close> fails, the account still carries the Activating journal or is completely
  committed; success means that it is committed and that the reported pairing is the journal's.
\<close>

theorem commit_all_or_nothing:
  assumes "pairing_env E files" and "ac_state (acct E files d) = Present j"
    and "j = Activating v g r au ex pi i pe re bs" and "recover_activating E c k t1 t2 d = (res, d')"
  shows "journal_or_committed E j (acct E files d') \<and>
    (is_ok res \<longrightarrow> res = Inr (P_Active g r i re) \<and> committed_for E j (acct E files d'))"
proof (cases res)
  case (Inl e)
  with triple_err [OF pairing_env.recover_triple [OF assms(1,3)] assms(2)] assms(4) show ?thesis
    by simp
next
  case (Inr p)
  with triple_ok [OF pairing_env.recover_triple [OF assms(1,3)] assms(2)] assms(4) show ?thesis
    by (simp add: journal_or_committed_def)
qed

theorem commit_all_or_nothing_witness:
  "journal_or_committed ref_env ex_journal (acct ref_env mem_files (snd (recover_activating ref_env ex_config
     ex_journal 5 6 (ex_dir [(Pairing, document state_fields ex_journal)] [Proceed, Proceed, Proceed, Proceed, Fail_Before]))))"
  by (rule commit_all_or_nothing [OF ref.pairing_env_axioms _ ex_journal_def prod.collapse [symmetric],
        THEN conjunct1]) (simp add: ex_acct_plan)

text \<open>
  C3. Recovery ends: in a directory whose calls succeed, an interrupted commit with a valid
  journal is always completed, whatever the interruption left in the other files.
\<close>

theorem recovery_completes:
  assumes "healthy_pairing_env E files healthy" and "j = Activating v g r au ex pi i pe re bs"
    and "healthy d" and "slot files d Pairing = Some b" and "encode_state E j = Some b"
    and "length b \<le> max_bytes Pairing" and "committable E c t1 t2 j"
  shows "\<exists>d'. recover_activating E c j t1 t2 d = (Inr (P_Active g r i re), d') \<and>
    committed_for E j (acct E files d')"
  using healthy_pairing_env.recover_completes [OF assms] by blast

theorem recovery_completes_witness:
  "\<exists>d'. recover_activating ref_env ex_config ex_journal 5 6 (ex_state_dir ex_journal) = (Inr (P_Active 1 2 3 ex_endpoint), d') \<and>
    committed_for ref_env ex_journal (acct ref_env mem_files d')"
proof (rule recovery_completes [OF ref.healthy_pairing_env_axioms ex_journal_def])
  show "mem_healthy (ex_state_dir ex_journal)" by simp
  show "slot mem_files (ex_state_dir ex_journal) Pairing =
      Some (fields_text (persisted_state_format # state_fields ex_journal))"
    by (simp add: slot_def ex_state_dir_def ex_dir_def ex_journal_fits)
  show "encode_state ref_env ex_journal = Some (fields_text (persisted_state_format # state_fields ex_journal))"
    by (simp add: ex_journal_fits)
  show "length (fields_text (persisted_state_format # state_fields ex_journal)) \<le> max_bytes Pairing"
    by (rule ex_journal_fits)
  show "committable ref_env ex_config 5 6 ex_journal" by (rule ex_committable)
qed

text \<open>
  Starting or resuming a pairing keeps the account intact on every path, errors and lost
  answers included, as long as the other processes do.
\<close>

theorem start_or_resume_keeps_account:
  assumes "pairing_env E files" and "\<And>n. respectful (\<lambda>d. intact E (acct E files d)) (w n)"
    and "intact E (acct E files d)"
  shows "intact E (acct E files (snd (start_or_resume_with_mode E c host mode w d)))"
  using triple_any [OF pairing_env.start_or_resume_intact [OF assms(1,2)] assms(3)] .

theorem start_or_resume_keeps_account_witness:
  "intact ref_env (acct ref_env mem_files (snd (start_or_resume_with_mode ref_env ex_config
     (ref_host\<lparr>hi_id := ref_uuid_text 3\<rparr>) Fresh (\<lambda>n. ex_inputs (ex_net 500 [])) (ex_state_dir ex_creating))))"
  by (rule start_or_resume_keeps_account [OF ref.pairing_env_axioms ex_respectful])
    (simp add: ex_intact_state ex_creating_def)



text \<open>
  C5. An unexpired pending request is never replaced without \<open>replace_pending_pairing\<close>: it is
  resumed for the same server and refused for another one, and the account stays as it is.
\<close>

theorem pending_request_is_resumed:
  assumes "pairing_env E files" and "prepare_start E c host I d = (res, d')"
    and "ac_state (acct E files (in_before I d)) = Present (Pending v g r au ex pi pe re bs ps)"
    and "\<not> replace_pending_pairing c" and "in_now I < ex"
  shows "acct E files d' = acct E files (in_before I d) \<and>
    (res = Inr (Start_Waiting \<lparr>ps_generation = g, ps_request_id = r, ps_activation_url = au,
                  ps_expires_at = ex, ps_poll_interval = pi\<rparr>) \<and>
       pairing_endpoints_match E c pe re = Inr True \<or> \<not> is_ok res)"
  using pairing_env.prepare_start_resumes [OF assms] .

theorem pending_request_is_resumed_witness:
  "acct ref_env mem_files (snd (prepare_start ref_env ex_config ref_host (ex_inputs (ex_net 500 [])) (ex_state_dir ex_pending)))
     = empty_account\<lparr>ac_state := Present ex_pending\<rparr>"
  using pending_request_is_resumed [OF ref.pairing_env_axioms prod.collapse [symmetric], where d = "ex_state_dir ex_pending"
      and I = "ex_inputs (ex_net 500 [])" and c = ex_config and host = ref_host]
  by (simp add: ex_acct_state ex_pending_def ex_inputs_def ex_config_def)

text \<open>
  C6. One poll changes the account only for its own transaction, still pending under the lock,
  and only on an answer that says so: a final status of the contract, or the strict error
  envelope that names this request as unknown or expired.
\<close>

theorem poll_changes_only_its_transaction:
  assumes "pairing_env E files" and "poll_pending E c (Pending v g r au ex pi pe re bs ps) I d = (res, d')"
    and "acct E files d' \<noteq> acct E files d" and "acct E files d' \<noteq> acct E files (in_during I d)"
  shows "still_pending g r pe re ps (acct E files (in_during I d)) \<and>
    (\<exists>target hs response. pairing_status_endpoint E pe r = Inr target \<and>
       post_bounded (env_http E) (in_net I) (u_text target) hs [] = Inr response \<and>
       (ended_by E r response \<and> acct E files d' = (acct E files (in_during I d))\<lparr>ac_state :=
           Present (Expired Pairing_State_Version g r au re (in_now I))\<rparr> \<or>
        answered E S_Expired response \<and> acct E files d' = (acct E files (in_during I d))\<lparr>ac_state :=
           Present (Expired Pairing_State_Version g r au re (in_now I))\<rparr> \<or>
        answered E S_Denied response \<and> acct E files d' = (acct E files (in_during I d))\<lparr>ac_state :=
           Present (Denied Pairing_State_Version g r au re (in_now I))\<rparr> \<or>
        answered E S_Active response))"
  by (rule pairing_env.poll_pending_effect [OF assms])

theorem poll_changes_only_its_transaction_witness:
  "\<exists>a. still_pending 1 2 ex_pairing_endpoint ex_endpoint ex_polling a"
proof -
  obtain d' where run: "poll_pending ref_env ex_config ex_pending
      (ex_inputs (ex_net 200 (fields_text [''expired'', ''-'']))) (ex_state_dir ex_pending) =
      (Inr (P_Expired 1 2 ex_activation_url), d')"
    and after: "acct ref_env mem_files d' = empty_account\<lparr>ac_state := Present ex_expired\<rparr>"
    by (rule ex_poll_run)
  have "acct ref_env mem_files d' \<noteq> acct ref_env mem_files (ex_state_dir ex_pending)"
    by (simp add: after ex_acct_state ex_expired_def ex_pending_def empty_account_def)
  then show ?thesis
    using poll_changes_only_its_transaction [OF ref.pairing_env_axioms run [unfolded ex_pending_def]]
    by (auto simp: ex_inputs_def ex_pending_def)
qed

text \<open>
  The session returned for a new request is the pending journal on disk, of the generation
  whose secrets were posted, with a poll interval between 1 and 300 seconds.
\<close>

theorem created_session_is_on_disk:
  assumes "pairing_env E files" and "finish_create_request E c s I d = (Inr session, d')"
  shows "\<exists>v g pe re h bs ps. s = Creating v g pe re h bs ps \<and>
    ac_state (acct E files d') = Present (Pending Pairing_State_Version g (ps_request_id session)
      (ps_activation_url session) (ps_expires_at session) (ps_poll_interval session) pe re bs ps) \<and>
    ps_generation session = g \<and> 1 \<le> unat (ps_poll_interval session) \<and> unat (ps_poll_interval session) \<le> 300"
  by (rule pairing_env.finish_create_on_disk [OF assms])

theorem created_session_is_on_disk_witness:
  "\<exists>d' (session :: pairing_session). ac_state (acct ref_env mem_files d') = Present (Pending Pairing_State_Version 1 (ps_request_id session)
      (ps_activation_url session) (ps_expires_at session) (ps_poll_interval session)
      ex_pairing_endpoint ex_endpoint ex_token ex_polling) \<and> ps_request_id session = 2"
proof -
  obtain session d' where run: "finish_create_request ref_env ex_config ex_creating
      (ex_inputs (ex_net 201 ex_created_body)) (ex_state_dir ex_creating) = (Inr session, d')"
    and "ps_request_id session = 2"
    by (rule ex_create_run)
  with created_session_is_on_disk [OF ref.pairing_env_axioms run] show ?thesis
    by (intro exI [of _ d'] exI [of _ session]) (simp add: ex_creating_def)
qed

text \<open>
  C7. Activation by code reports an instance only for the transaction the caller selected: the
  journal is still its pending one, or it is committing or committed with that very instance.
\<close>

theorem activation_reports_own_transaction:
  assumes "pairing_env E files" and "activate_pending_with_code E c g r code I d = (Inr (Some i), d')"
  shows "\<exists>s. ac_state (acct E files d') = Present s \<and>
     (same_transaction g r s = Some i \<or> (\<exists>v au ex pi pe re bs ps. s = Pending v g r au ex pi pe re bs ps))"
  by (rule pairing_env.activate_result [OF assms])

theorem activation_reports_own_transaction_witness:
  "\<exists>s. ac_state (acct ref_env mem_files (ex_locked (ex_state_dir ex_active))) = Present s \<and>
     (same_transaction 1 2 s = Some 3 \<or>
      (\<exists>v au ex pi pe re bs ps. s = Pending v 1 2 au ex pi pe re bs ps))"
  by (rule activation_reports_own_transaction [OF ref.pairing_env_axioms ex_activate_run])



text \<open>
  The activation endpoint is on the trusted HTTPS origin of the stored pairing endpoint: its
  URL with the last path segment replaced and without query and fragment.
\<close>

theorem activation_endpoint_same_origin:
  assumes "activation_endpoint U pe = Inr ep"
  shows "trusted_https U pe \<and> (\<exists>u base. url_parse U pe = Some u \<and>
    trim_end_matches CHR ''/'' (u_path u) = base @ ''/pairing-requests'' \<and>
    ep = url_set_fragment U None (url_set_query U None (url_set_path U (base @ ''/activate'') u)))"
  using assms by (rule activation_endpoint_trusted) blast

theorem activation_endpoint_same_origin_witness:
  "trusted_https ref_urls ex_pairing_endpoint"
  using activation_endpoint_same_origin [of ref_urls ex_pairing_endpoint] ex_activation_endpoint by auto

section \<open>Pairing: local operations\<close>



text \<open>
  The reporter handed out after a completed pairing is that pairing's: its endpoint, its
  revision, its instance, the token on disk, and the configuration follows the same endpoint.
\<close>

theorem activated_reporter_is_the_pairing:
  assumes "pairing_env E files" and "activate_reporter_snapshot E c g r i re d = (Inr (c', host, rp), d')"
  shows "endpoint c' = re \<and> pairing_endpoint_field c' = None \<and> rp_endpoint rp = re \<and>
    rp_credential_revision rp = (g, r) \<and> hi_id host = uuid_text E i \<and>
    ci_instance_id (rp_identity rp) = uuid_text E i \<and> ac_token (acct E files d') = Some (rp_token rp) \<and>
    trusted_https (env_url E) re"
  by (rule pairing_env.activate_snapshot_coherent [OF assms])

theorem activated_reporter_is_the_pairing_witness:
  "ac_token (acct ref_env mem_files (ex_locked (ex_paired_dir ex_active))) = Some (rp_token ex_reporter)"
  using activated_reporter_is_the_pairing [OF ref.pairing_env_axioms ex_activate_snapshot_run] by blast

text \<open>
  C12. A refused credential is invalidated only if it is still the one in force: for any other
  revision the account is untouched and the answer is negative.
\<close>

theorem stale_rejection_changes_nothing:
  assumes "pairing_env E files" and "mark_reauth_required_if_current E c k reason now d = (res, d')"
    and "ac_binding (acct E files d) = Present b" and "(ab_generation b, ab_request_id b) \<noteq> k"
  shows "acct E files d' = acct E files d \<and> res \<noteq> Inr True"
  by (rule pairing_env.mark_reauth_other [OF assms])

theorem stale_rejection_changes_nothing_witness:
  "fst (mark_reauth_required_if_current ref_env ex_config (9, 2) ''rejected'' 7 (ex_paired_dir ex_active)) \<noteq> Inr True"
  using stale_rejection_changes_nothing [OF ref.pairing_env_axioms prod.collapse [symmetric], where d = "ex_paired_dir ex_active"
      and b = ex_binding and k = "(9, 2)"]
  by (simp add: ex_acct_paired ex_binding_def)

text \<open>
  C13. After a credential has been invalidated, no credential can be loaded for a report until
  the account is authorized again.
\<close>

theorem invalidated_credential_is_unusable:
  assumes "pairing_env E files" and "mark_reauth_required_if_current E c k reason now d = (Inr True, d')"
  shows "for_existing_credential E c' d' \<noteq> Inr (Some rp)"
  by (rule pairing_env.unauthorized_no_reporter(1) [OF assms(1) pairing_env.mark_reauth_applied [OF assms]])

theorem invalidated_credential_is_unusable_witness:
  "\<exists>d'. for_existing_credential ref_env ex_config d' \<noteq> Inr (Some ex_reporter)"
proof -
  obtain d' where "mark_reauth_required_if_current ref_env ex_config (1, 2) ''rejected'' 7 (ex_paired_dir ex_active)
      = (Inr True, d')"
    by (rule ex_reauth_run)
  from invalidated_credential_is_unusable [OF ref.pairing_env_axioms this] show ?thesis by blast
qed

text \<open>
  The lock-free status never shows an endpoint that mixes two pairings: some attempt saw the
  same Active journal before and after it read exactly that journal's binding, whatever other
  processes wrote between the reads.
\<close>

theorem status_is_consistent:
  assumes "pairing_env E files" and "local_status E c d disk = Inr st"
    and "ls_active_report_endpoint st = Some e"
  shows "\<exists>j b s s'. j < max_snapshot_attempts \<and> ab_report_endpoint b = e \<and>
    ac_state (acct E files (disk j 0)) = Present s \<and> binding_from_active_state s = Inr b \<and>
    ac_binding (acct E files (disk j 1)) = Present b \<and>
    ac_state (acct E files (disk j 2)) = Present s' \<and> binding_from_active_state s' = Inr b \<and>
    ls_progress st = Some (progress_from_terminal s)"
proof -
  from assms(2,3) have "local_status_attempts E c disk 0 max_snapshot_attempts = Inr st"
    by (auto simp: local_status_def split: sum.splits if_splits)
  from pairing_env.local_status_attempts_consistent [OF assms(1) this assms(3)] show ?thesis by simp
qed

theorem status_is_consistent_witness:
  "\<exists>j b. j < max_snapshot_attempts \<and> ab_report_endpoint (b :: active_binding) = ex_endpoint"
proof -
  have "ls_active_report_endpoint \<lparr>ls_progress = Some (progress_from_terminal ex_active),
      ls_active_report_endpoint = Some ex_endpoint\<rparr> = Some ex_endpoint" by simp
  from status_is_consistent [OF ref.pairing_env_axioms ex_local_status this] show ?thesis by blast
qed

section \<open>Pairing: archiving\<close>

text \<open>
  Archiving one state file never loses its bytes: whichever call fails, the file or the
  archive entry holds them.
\<close>

theorem archive_keeps_bytes:
  assumes "private_directory D files" and "n \<noteq> file_name f" and "files d (file_name f) = Some bytes"
  shows "held_somewhere files f n bytes (snd (archive_file D f n d))"
  by (rule private_directory.archive_never_loses [OF assms])

theorem archive_keeps_bytes_witness:
  "held_somewhere mem_files Credential ''old'' ex_token
     (snd (archive_file mem_ops Credential ''old'' (ex_dir [(Credential, Some ex_token)] [Fail_After])))"
  by (rule archive_keeps_bytes [OF mem.private_directory_axioms]) (simp_all add: ex_dir_def)

text \<open>
  Archiving an incompatible account keeps it intact at every point when no commit is in
  progress, and a complete archive leaves nothing but the identity.
\<close>

theorem archive_account_clean:
  assumes "pairing_env E files" and "intact E (acct E files d)" and "\<not> is_activating (ac_state (acct E files d))"
    and "archive_incompatible_account_state E n d = (res, d')"
  shows "intact E (acct E files d') \<and>
    (is_ok res \<longrightarrow> acct E files d' = empty_account\<lparr>ac_identity := ac_identity (acct E files d)\<rparr>)"
proof -
  have "intact E (acct E files d')"
    using triple_any [OF pairing_env.archive_intact [OF assms(1)], of d n] assms(2-4) by simp
  moreover have "acct E files d' = empty_account\<lparr>ac_identity := ac_identity (acct E files d)\<rparr>" if "res = Inr x" for x
  proof (rule triple_ok [OF pairing_env.archive_account_triple [OF assms(1), where P = "\<lambda>a. True" and F = "\<lambda>a. True"]])
    show "archive_incompatible_account_state E n d = (Inr x, d')" using assms(4) that by simp
  qed simp_all
  ultimately show ?thesis by (auto simp: is_ok_iff)
qed

theorem archive_account_clean_witness:
  "intact ref_env (acct ref_env mem_files (snd (archive_incompatible_account_state ref_env ''x'' (ex_state_dir ex_pending))))"
  by (rule archive_account_clean [OF ref.pairing_env_axioms _ _ prod.collapse [symmetric], THEN conjunct1])
    (rule ex_intact_state, simp_all add: ex_acct_state ex_pending_def)

section \<open>Wire\<close>

text \<open>
  C14. A rejection ends a pairing transaction only with the strict envelope of the contract: JSON,
  not retryable, status 404 or 410 with the code that belongs to it, naming exactly this request,
  and never as the answer to a create request.
\<close>

theorem only_strict_envelope_ends_transaction:
  assumes "ensure_pairing_response H parse status ct body allowed opn = Inl e"
    and "downcast_http e = Some h" and "transaction_ended_for h r"
  shows "opn \<noteq> Create_Op \<and> status \<notin> set allowed \<and>
    pairing_content_type_for_diagnostics ct = ''application/json'' \<and>
    (\<exists>ev. parse_envelope H body = Some ev \<and> \<not> ee_retryable ev \<and>
       (status = 404 \<and> ee_code ev = ''pairing_transaction_not_found'' \<or>
        status = 410 \<and> ee_code ev = ''pairing_transaction_expired'') \<and>
       Option.bind (Option.bind (ee_details ev ''request_id'') as_str) parse = Some r)"
  by (rule ensure_pairing_response_ended [OF assms])

theorem only_strict_envelope_ends_transaction_witness:
  "\<exists>ev. parse_envelope ref_http (fields_text [''pairing_transaction_expired'', ''false'', ref_uuid_text 2]) = Some ev
     \<and> \<not> ee_retryable ev"
proof -
  let ?b = "fields_text [''pairing_transaction_expired'', ''false'', ref_uuid_text 2]"
  let ?h = "\<lparr>he_operation = Poll_Op, he_status = 410, he_code = Some ''pairing_transaction_expired'',
     he_received = None, he_supported = [], he_request_id = Some 2\<rparr>"
  have "ensure_pairing_response ref_http ref_uuid_parse 410 ''application/json'' ?b [200] Poll_Op = Inl (Http_Rejected ?h)"
    by (simp add: ensure_pairing_response_def ex_json ref_http_def ref_envelope_def unsupported_protocol_def
        ended_request_id_def trusted_code_def ref_uuid_round)
  from only_strict_envelope_ends_transaction [OF this, of ?h 2] show ?thesis
    by (auto simp: transaction_ended_for_def transaction_expired_def)
qed

text \<open>
  C15. An exchange that succeeds respects every limit: the response body, the response headers and
  the request body are within their budgets.
\<close>

theorem exchange_respects_limits:
  assumes "execute_bounded net request maximum = Inr r"
  shows "length (hs_body r) \<le> maximum \<and>
    sum_list (map (\<lambda>(a, b). length a + length b) (hs_headers r)) \<le> max_header_bytes \<and>
    (\<forall>b. rq_body request = Some (Body_Bytes b) \<longrightarrow> length b \<le> max_request_bytes)"
  by (rule execute_bounded_limits [OF assms])

theorem exchange_respects_limits_witness:
  "length (hs_body \<lparr>hs_status = 200, hs_headers = [], hs_body = ''ab''\<rparr>) \<le> (2::nat)"
proof -
  have "execute_bounded (\<lambda>rq. Inr \<lparr>rr_status = 200, rr_headers = [], rr_content_length = None, rr_chunks = [Inr ''a'', Inr ''b'']\<rparr>)
      \<lparr>rq_method = ''POST'', rq_url = ''u'', rq_headers = [], rq_body = None\<rparr> 2
    = Inr \<lparr>hs_status = 200, hs_headers = [], hs_body = ''ab''\<rparr>"
    by (simp add: execute_bounded_def checked_add64_def)
  from exchange_respects_limits [OF this] show ?thesis by blast
qed

text \<open>
  A body within the limit is delivered whole and in order, however it is cut into chunks.
\<close>

theorem body_is_complete:
  assumes "length (concat cs) \<le> maximum" and "maximum < 2 ^ 64"
  shows "collect_body maximum [] (map Inr cs) = Inr (concat cs)"
  using collect_body_complete [of "[]" cs maximum] assms by simp

theorem body_is_complete_witness:
  "collect_body 3 [] (map Inr [''a'', ''bc'']) = Inr ''abc''"
  using body_is_complete [of "[''a'', ''bc'']" 3] by simp

text \<open>
  A generated secret is a well-formed token: 64 lowercase hexadecimal digits for 32 bytes of
  entropy, so that what pairing stores is what every later read accepts.
\<close>

theorem generated_secret_is_token:
  assumes "random_secret (Some bytes) = Inr s" and "length bytes = 32"
  shows "validate_current_token s = Inr () \<and> trim s = s"
  using random_secret_token [OF assms] by (simp add: token_trim)

theorem generated_secret_is_token_witness:
  "trim (hex (replicate 32 CHR ''k'')) = hex (replicate 32 CHR ''k'')"
  using generated_secret_is_token [of "replicate 32 CHR ''k''"] by (simp add: random_secret_def)

text \<open>
  \<open>pair --server\<close> accepts only an HTTPS origin, and then the stored pairing endpoint is the
  one that the report endpoint implies, so that dropping the former after pairing changes
  nothing.
\<close>

theorem server_option_is_consistent:
  assumes "server_override c = Some server" and "apply_pair_options U X c = Inr c'"
  shows "(\<exists>u. url_parse U (trim server) = Some u \<and> u_scheme u = ''https'' \<and> u_path u = ''/'' \<and>
      u_username u = [] \<and> u_password u = None) \<and>
    pairing_endpoint U X (c'\<lparr>pairing_endpoint_field := None\<rparr>) = pairing_endpoint U X c'"
proof -
  from assms obtain s where "validate_server_base U server = Inr s"
    by (auto simp: apply_pair_options_def bindR_Inr_iff split: if_splits)
  then have "\<exists>u. url_parse U (trim server) = Some u \<and> u_scheme u = ''https'' \<and> u_path u = ''/'' \<and>
      u_username u = [] \<and> u_password u = None"
    by (rule validate_server_base_https) blast
  with apply_pair_options_consistent [OF assms] show ?thesis by blast
qed

theorem server_option_is_consistent_witness:
  "pairing_endpoint ref_urls ref_protocol (ex_config\<lparr>server_override := Some ''https://a'',
     endpoint := ''https://a/api/v1/xsoc/report'', pairing_endpoint_field := None\<rparr>)
   = Inr ''https://a/api/v1/xsoc/pairing-requests''"
proof -
  let ?c = "ex_config\<lparr>server_override := Some ''https://a''\<rparr>"
  have trimmed: "trim ''https://a'' = ''https://a''"
    by (rule trim_id) (simp add: blank_edge_def whitespace_encodings_def starts_with_def char_of_def)
  have parsed: "ref_url_parse ''https://a'' = Some (ref_url ''a'' ''/'')"
    by (simp add: ref_url_parse_def starts_with_def)
  have "apply_pair_options ref_urls ref_protocol ?c = Inr (?c\<lparr>endpoint := ''https://a/api/v1/xsoc/report'',
      pairing_endpoint_field := Some ''https://a/api/v1/xsoc/pairing-requests''\<rparr>)"
    by (simp add: apply_pair_options_def validate_server_base_def ex_config_def trimmed parsed
        with_context_def ref_protocol_def trim_end_matches_def)
  from server_option_is_consistent [OF _ this] show ?thesis
    by (simp add: pairing_endpoint_def)
qed

section \<open>The report contract\<close>

text \<open>
  C16. The queue round trip: the bytes of a bounded report are canonical. Bounding and encoding
  the report that was encoded, as the queue does with what it stored, gives the same report and
  the same bytes.
\<close>

theorem queued_report_round_trip:
  assumes "report_limits_ok R" and "marker_is_unique R report"
    and "encode_report_body R now report = Inr (b, body)"
  shows "canonical_spool_report R b = Inr (b, body)"
  using assms unfolding encode_report_body_def by (rule encoded_is_canonical)

theorem queued_report_round_trip_witness:
  "canonical_spool_report ref_ops ex_bounded = Inr (ex_bounded, report_text ex_bounded)"
  by (rule queued_report_round_trip [OF ref_limits_ok _ ex_encoded]) (simp add: marker_is_unique_def ex_report_def)

text \<open>
  An encoded report meets the server's contract: text within its limits, without controls
  and not blank where required, numbers finite and in range, used amounts within totals,
  identities distinct, every list and the body within the limits, and still the report of the
  same host with the same identity.
\<close>

theorem encoded_report_admissible:
  assumes "report_limits_ok R" and "limits_positive (ro_text R)" and "marker_is_unique R report"
    and "encode_report_body R now report = Inr (b, body)"
  shows "admissible R b \<and> length body \<le> ro_max_body R \<and> rep_id b = rep_id report \<and>
    hi_id (rep_host b) = hi_id (rep_host report)"
proof -
  have b: "b = fst (bound_report_with_time_policy R now True report)" and "length body \<le> ro_max_body R"
    using assms(4) by (auto simp: encode_report_body_def encode_report_body_inner_def bindR_Inr_iff Let_def)
  moreover have "admissible R b"
    unfolding b by (rule canonical_admissible [OF assms(1,2) bound_report_canonical [OF assms(1,3)]])
  ultimately show ?thesis using bound_report_identity [OF b] by simp
qed

theorem encoded_report_admissible_witness:
  "admissible ref_ops ex_bounded \<and> length (report_text ex_bounded) \<le> 4096"
  using encoded_report_admissible [OF ref_limits_ok ref_limits_positive _ ex_encoded]
  by (simp add: marker_is_unique_def ex_report_def ref_ops_def)

text \<open>
  C17. Fitting the body ends: the shrinking loop makes at most as many passes as there are
  removable items, and the result fits the body limit unless nothing is left to remove.
\<close>

theorem fitting_ends:
  "(\<exists>k \<le> removable m r. fit_shrink R m r = (shrink_pass R m ^^ k) r) \<and>
   (serialized_len R (fit_body R a b c d r) \<le> ro_max_body R \<or> exhausted (fit_body R a b c d r))"
proof -
  obtain k where "k \<le> removable m r" and "fit_shrink R m r = (shrink_pass R m ^^ k) r"
    by (rule fit_shrink_passes)
  then show ?thesis using fit_body_ends by blast
qed

text \<open>
  A report that lost information says so: its first capability is the truncation marker,
  and its error counter grew by one exactly when it was not marked before.
\<close>

theorem changed_report_is_marked:
  assumes "marker_fits R" and "0 < cl_capabilities (ro_count R)"
    and "bound_report R now report = (b, True)"
  shows "marker_first b \<and> ch_collector_errors (rep_client b) =
    (if is_marked report then ch_collector_errors (rep_client report)
     else saturating_add64 (ch_collector_errors (rep_client report)) 1)"
  using assms unfolding bound_report_def by (rule change_is_marked)

theorem changed_report_is_marked_witness:
  "marker_first ex_bounded \<and> ch_collector_errors (rep_client ex_bounded) = 1"
  using changed_report_is_marked [OF ref_marker _ ex_bound [folded bound_report_def]]
  by (simp add: ref_ops_def ref_count_limits_def is_marked_def ex_report_def saturating_add64_def)

text \<open>
  C18. Cutting a list keeps the summary peaks: when the limit is at least the number of metrics,
  for each metric an element with the largest value of all is kept, and nothing is invented.
\<close>

theorem summary_peaks_survive:
  assumes "metric \<in> set metrics" and "length metrics \<le> maximum" and "x \<in> set xs" and "metric x = Some w"
  shows "\<exists>p v. p \<in> set (fst (prioritize json metrics maximum xs)) \<and> p \<in> set xs \<and> metric p = Some v \<and>
    total_key w \<le> total_key v"
proof -
  obtain p v where p: "p \<in> set (fst (prioritize json metrics maximum xs))" "metric p = Some v" "total_key w \<le> total_key v"
    using prioritize_keeps_peaks [OF assms(1,3,4,2), of "serialized_key json"] by auto
  moreover have "p \<in> set xs" using p(1) by (auto simp: set_prioritize dest!: in_set_takeD)
  ultimately show ?thesis by blast
qed

theorem summary_peaks_survive_witness:
  "\<exists>p v. p \<in> set (fst (prioritize (ro_network_json ref_ops) network_metrics 2 (sys_networks (rep_system ex_report)))) \<and>
     p \<in> set (sys_networks (rep_system ex_report)) \<and> net_transmitted_per_second p = v \<and> total_key f64_1000 \<le> total_key v"
  using summary_peaks_survive [of "\<lambda>n. Some (net_transmitted_per_second n)" network_metrics 2 "ex_network ''c'' 0 f64_1000"
      "sys_networks (rep_system ex_report)" f64_1000 "ro_network_json ref_ops"]
  by (simp add: network_metrics_def ex_report_def ex_network_def)

text \<open>
  Encoding a fresh report and checking a queued one are the same function, except for a
  report more than five minutes ahead of the clock.
\<close>

theorem fresh_encoding_is_queue_check:
  assumes "rep_collected_at report - now \<le> 5 * 60 * 1000000000"
  shows "encode_report_body R now report = canonical_spool_report R report"
  using assms
  by (simp add: encode_report_body_def canonical_spool_report_def encode_report_body_inner_def bound_not_future)

theorem fresh_encoding_is_queue_check_witness:
  "canonical_spool_report ref_ops ex_report = Inr (ex_bounded, report_text ex_bounded)"
  using fresh_encoding_is_queue_check [of ex_report 5 ref_ops] ex_encoded by (simp add: ex_report_def)

text \<open>
  Encoding fails only for a report of another schema version, for a report the serializer
  refuses, or for one that is still too large when hardware and every removable item are gone.
\<close>

theorem encoding_errors:
  assumes "encode_report_body R now report = Inl e" and "b = fst (bound_report R now report)"
  shows "rep_schema_version report \<noteq> ro_schema_version R \<or> ro_encode R b = None
    \<or> (ro_max_body R < serialized_len R b \<and> exhausted b)"
  using assms unfolding encode_report_body_def bound_report_def by (rule encode_error)

theorem encoding_errors_witness:
  "encode_report_body ref_ops 5 (ex_report\<lparr>rep_schema_version := 2\<rparr>) = Inl (Message ''unsupported Client report schema_version'')
    \<and> rep_schema_version (ex_report\<lparr>rep_schema_version := 2\<rparr>) \<noteq> ro_schema_version ref_ops"
proof
  let ?r = "ex_report\<lparr>rep_schema_version := 2\<rparr>"
  show failed: "encode_report_body ref_ops 5 ?r = Inl (Message ''unsupported Client report schema_version'')"
    by (simp add: encode_report_body_def encode_report_body_inner_def ref_ops_def ensureR_def)
  show "rep_schema_version ?r \<noteq> ro_schema_version ref_ops"
    by (rule disjE [OF encoding_errors [OF failed refl]]) (simp_all add: ref_ops_def)
qed

section \<open>The queue and the delivery\<close>



text \<open>
  Looking for the oldest report ends, isolates only records that are not acceptable, with
  their bytes, hands out a pending record whose payload is acceptable, and says that there is
  nothing to send only when nothing is pending.
\<close>

theorem oldest_isolates_only_rejected:
  assumes "record_queue Q pending isolated"
  shows "\<exists>res q'. oldest R Q q = Some (res, q') \<and>
    (\<forall>i rec. pending q i = Some rec \<longrightarrow> pending q' i = Some rec \<or>
       accepted_report R Q rec = None \<and> isolated q' i = Some (rec, Quarantine_Corrupt)) \<and>
    (\<forall>p. res = Inr (Some p) \<longrightarrow> (\<exists>rec. pending q' (pr_record_id p) = Some rec \<and>
       accepted_report R Q rec = Some (pr_report p) \<and> pr_body p = sr_payload rec)) \<and>
    (res = Inr None \<longrightarrow> pending q' = Map.empty)"
proof -
  obtain res q' where o: "oldest R Q q = Some (res, q')"
    using record_queue.oldest_ends [OF assms, of R q] by fastforce
  show ?thesis
    using record_queue.oldest_spec [OF assms o] o
    unfolding record_queue.only_rejected_isolated_def [OF assms] by blast
qed

theorem oldest_isolates_only_rejected_witness:
  "\<exists>res q'. oldest ref_ops ref_queue ex_foreign_queue = Some (res, q') \<and>
     (mem_pending q' 1 = Some ex_foreign \<or> mem_isolated q' 1 = Some (ex_foreign, Quarantine_Corrupt))"
proof -
  obtain res q' where "oldest ref_ops ref_queue ex_foreign_queue = Some (res, q')"
    and "\<forall>i rec. mem_pending ex_foreign_queue i = Some rec \<longrightarrow> mem_pending q' i = Some rec \<or>
       accepted_report ref_ops ref_queue rec = None \<and> mem_isolated q' i = Some (rec, Quarantine_Corrupt)"
    using oldest_isolates_only_rejected [OF memory_records.record_queue_axioms, of ref_ops ref_schema ex_foreign_queue]
    by blast
  moreover have "mem_pending ex_foreign_queue 1 = Some ex_foreign" by (simp add: ex_foreign_pending)
  ultimately show ?thesis by blast
qed

text \<open>
  C20. What the queue hands out is well formed: a report of the current schema without NaN, the
  decoding of the stored bytes, equal to its own canonical form; the sender accepts exactly
  these bytes for it.
\<close>

theorem handed_out_report_is_well_formed:
  assumes "report_queue Q pending isolated X" and "oldest (tp_report X) Q q = Some (Inr (Some p), q')"
  shows "rep_schema_version (pr_report p) = ro_schema_version (tp_report X) \<and> \<not> has_nan (pr_report p) \<and>
    ro_decode (tp_report X) (pr_body p) = Some (pr_report p) \<and> length (pr_body p) \<le> ro_max_body (tp_report X) \<and>
    prepare_report_body X t (pr_report p) (Some (pr_body p)) = Inr (pr_report p, pr_body p)"
proof -
  let ?R = "tp_report X"
  have rq: "record_queue Q pending isolated" using assms(1) by (simp add: report_queue_def)
  obtain rec where at: "pending q' (pr_record_id p) = Some rec" and acc: "accepted_report ?R Q rec = Some (pr_report p)"
    and body: "pr_body p = sr_payload rec"
    using record_queue.oldest_spec [OF rq assms(2)] by blast
  then have handed: "handed_out X Q pending q' p" by (auto simp: handed_out_def)
  show ?thesis
    using report_queue.handed_sendable [OF assms(1) handed] report_queue.bounded_payload [OF assms(1) at]
      accepted_well_formed [OF acc] unfolding body by blast
qed

theorem handed_out_report_is_well_formed_witness:
  "\<not> has_nan ex_bounded \<and> prepare_report_body ref_transport 0 ex_bounded (Some ex_body) = Inr (ex_bounded, ex_body)"
  using handed_out_report_is_well_formed [OF memory_reports.report_queue_axioms, of ref_schema ex_stored_queue ex_queued ex_stored_queue 0]
  by (simp add: ex_oldest) (simp add: ex_queued_def)

text \<open>
  C21. What the sampler stores the delivery accepts: after a successful enqueue the new record
  carries the bounded report's bytes, and the queue hands it out as that report and never
  isolates it. The JSON codec is assumed to read back the values it wrote in this report.
\<close>

theorem enqueued_report_is_accepted:
  assumes "report_queue Q pending isolated X" and "report_limits_ok (tp_report X)" and "marker_is_unique (tp_report X) report"
    and "contract_new E host_report_contract = Some host_report_contract"
    and "\<And>b body. encode_report_body (tp_report X) now report = Inr (b, body) \<Longrightarrow>
      ro_decode (tp_report X) body = Some b \<and> \<not> has_nan b \<and> \<not> foreign_schema (tp_report X) Q body"
    and "enqueue E (tp_report X) Q now report q = (Inr u, q')"
  shows "\<exists>i rec b. pending q i = None \<and> pending q' = (pending q)(i \<mapsto> rec) \<and>
    encode_report_body (tp_report X) now report = Inr (b, sr_payload rec) \<and> accepted_report (tp_report X) Q rec = Some b"
proof -
  obtain b body i c where enc: "encode_report_body (tp_report X) now report = Inr (b, body)"
    and c: "contract_new E host_report_contract = Some c" and "pending q i = None"
    and "pending q' = (pending q)(i \<mapsto> \<lparr>sr_id = i, sr_contract = c,
      sr_created = timestamp_micros (rep_collected_at b), sr_payload = body\<rparr>)"
    by (rule report_queue.enqueue_stores [OF assms(1,6)])
  moreover have "accepted_report (tp_report X) Q \<lparr>sr_id = i, sr_contract = c,
      sr_created = timestamp_micros (rep_collected_at b), sr_payload = body\<rparr> = Some b"
    by (rule encoded_accepted [OF assms(2,3) enc]) (use assms(4) assms(5) [OF enc] c in simp_all)
  ultimately show ?thesis by (intro exI conjI) (assumption | simp)+
qed

theorem enqueued_report_is_accepted_witness:
  "\<exists>i rec. mem_pending ex_stored_queue = [i \<mapsto> rec] \<and> accepted_report ref_ops ref_queue rec = Some ex_bounded"
proof -
  have ex: "contract_new ref_env host_report_contract = Some host_report_contract" "marker_is_unique ref_ops ex_report"
    "report_limits_ok (tp_report ref_transport)"
    using ref_limits_ok by (simp_all add: ref_env_def marker_is_unique_def ex_report_def)
  have "\<exists>i rec b. mem_pending ex_empty_queue i = None \<and> mem_pending ex_stored_queue = (mem_pending ex_empty_queue)(i \<mapsto> rec) \<and>
      encode_report_body (tp_report ref_transport) 5 ex_report = Inr (b, sr_payload rec) \<and>
      accepted_report (tp_report ref_transport) ref_queue rec = Some b"
  proof (rule enqueued_report_is_accepted [OF memory_reports.report_queue_axioms])
    show "enqueue ref_env (tp_report ref_transport) ref_queue 5 ex_report ex_empty_queue = (Inr (), ex_stored_queue)"
      using ex_enqueue by simp
    show "ro_decode (tp_report ref_transport) body = Some b \<and> \<not> has_nan b \<and> \<not> foreign_schema (tp_report ref_transport) ref_queue body"
      if "encode_report_body (tp_report ref_transport) 5 ex_report = Inr (b, body)" for b body
      using that ex_decoded ex_bounded_numbers ex_own_schema by (simp add: ex_encoded [folded ex_body_def])
  qed (use ex in simp_all)
  then show ?thesis by (auto simp: ex_empty_pending ex_encoded)
qed



text \<open>
  C23. A report of the queue is given up as invalid, or its credential as refused, only when the
  server answered the request with these bytes by the strict envelope: JSON, not retryable, with
  the code of its status; the credential only by 401.
\<close>

theorem only_strict_envelope_ends_report:
  assumes "accepted_report (tp_report X) Q rec = Some report" and "length (sr_payload rec) \<le> ro_max_body (tp_report X)"
    and "fst (send_queued_xsos E X net t1 t2 r report (sr_payload rec)) = Inl e" and "is_permanent e \<or> is_unauthorized e"
  shows "\<exists>response. report_answered E net r (sr_payload rec) response \<and>
    strict_rejection (env_http E) (hs_status response) (content_type_of (env_http E) response) (hs_body response) \<and>
    (is_unauthorized e \<longleftrightarrow> hs_status response = 401)"
  using sendable_verdict [OF accepted_sendable [OF assms(1,2) refl] assms(3,4)] by metis

theorem only_strict_envelope_ends_report_witness:
  "\<exists>response. report_answered ref_env (ex_net 409 (ex_refusal ''conflict'')) ex_reporter ex_body response \<and> hs_status response \<noteq> 401"
  using only_strict_envelope_ends_report [of ref_transport ref_queue ex_record ex_bounded ref_env
      "ex_net 409 (ex_refusal ''conflict'')" 0 0 ex_reporter "Permanent ''conflict''"]
    ex_accepted ex_body_size ex_refused
  by (auto simp: ex_record_def ref_max_body mem_budget_def)

text \<open>
  C24. A report counts as delivered only on status 202 with a JSON acknowledgement that names this
  host and this report, for the request with the queued bytes, and only when the report's host is
  the one the credential belongs to.
\<close>

theorem delivered_only_by_own_acknowledgement:
  assumes "fst (send_queued_xsos E X net t1 t2 r report body) = Inr u"
  shows "\<exists>response. report_answered E net r body response \<and>
    acknowledged_by X (hs_status response) (content_type_of (env_http E) response) (hs_body response) report \<and>
    (\<exists>i. for_instance E (hi_id (rep_host report)) = Inr i \<and> identity_matches E (rp_identity r) i)"
  using send_acknowledged [OF assms] by metis

theorem delivered_only_by_own_acknowledgement_witness:
  "\<exists>response. report_answered ref_env (ex_net 202 ex_ack) ex_reporter ex_body response \<and> hs_status response = 202"
proof -
  have "fst (send_queued_xsos ref_env ref_transport (ex_net 202 ex_ack) 0 0 ex_reporter ex_bounded ex_body) = Inr ()"
    using ex_acknowledged by (simp add: ex_sent [OF ex_ack_size] ack_exact)
  from delivered_only_by_own_acknowledgement [OF this] show ?thesis by (auto simp: acknowledged_by_def)
qed

text \<open>
  C25. Sending a queued report makes one request, with exactly the queued bytes, the report
  endpoint and the bearer of the reporter: networks that agree on it give the same outcome.
\<close>

theorem queued_report_sent_once:
  assumes "net1 (report_request r body) = net2 (report_request r body)"
  shows "send_queued_xsos E X net1 t1 t2 r report body = send_queued_xsos E X net2 t1 t2 r report body"
  using assms by (rule send_queued_one_request)

theorem queued_report_sent_once_witness:
  "fst (send_queued_xsos ref_env ref_transport (\<lambda>rq. if rq = report_request ex_reporter ex_body then ex_net 202 ex_ack rq
      else ex_net 500 [] rq) 0 0 ex_reporter ex_bounded ex_body) = Inr ()"
proof -
  have "fst (send_queued_xsos ref_env ref_transport (ex_net 202 ex_ack) 0 0 ex_reporter ex_bounded ex_body) = Inr ()"
    using ex_acknowledged by (simp add: ex_sent [OF ex_ack_size] ack_exact)
  then show ?thesis
    using queued_report_sent_once [of "ex_net 202 ex_ack" ex_reporter ex_body "\<lambda>rq. if rq = report_request ex_reporter ex_body
      then ex_net 202 ex_ack rq else ex_net 500 [] rq" ref_env ref_transport 0 0 ex_bounded] by simp
qed

text \<open>
  The sender waits only after a refusal with status 429 or 503, and then between one second
  and five minutes.
\<close>

theorem retry_sleep_is_bounded:
  assumes "dt_sleep (snd (send_xsos_inner E X net t1 t2 r report queued)) = Some n"
  shows "1 \<le> n \<and> n \<le> 300 \<and> \<not> is_ok (fst (send_xsos_inner E X net t1 t2 r report queued)) \<and>
    (\<exists>target headers body response. post_bounded (env_http E) net target headers body = Inr response \<and>
       (hs_status response = 429 \<or> hs_status response = 503))"
  using assms
  by (auto simp: send_xsos_inner_def send_failed_def Let_def dest!: answer_sleep_bounds split: sum.splits prod.splits)

theorem retry_sleep_is_bounded_witness: "1 \<le> (300::nat) \<and> \<not> is_ok (fst (send_xsos_inner ref_env ref_transport ex_busy_net 0 0 ex_reporter ex_bounded (Some ex_body)))"
  using retry_sleep_is_bounded [OF ex_busy] by blast

text \<open>
  C26. The sampling cadence: after a successful turn the deadline is in the future; it keeps the
  phase of the previous one when that is possible, and otherwise starts anew one interval from
  now, so a delay is never followed by a burst.
\<close>

theorem sampling_keeps_cadence:
  assumes "sampling_turn E R Q S L st = (Inr (), st')" and "li_jittered L = Inr interval" and "0 < interval"
  shows "li_after L < lp_deadline st' \<and> lp_deadline st' - li_after L \<le> max interval (lp_deadline st + interval - li_after L) \<and>
    (li_after L < lp_deadline st + interval \<longrightarrow> lp_deadline st' = lp_deadline st + interval) \<and>
    (lp_deadline st + interval \<le> li_after L \<longrightarrow> lp_deadline st' = li_after L + interval) \<and> \<not> lp_first_report st'"
proof -
  obtain n st1 st2 where store: "store_sample E R Q S L n st1 = (Inr (), st2)"
    and len: "queue_length Q S st = (Inr n, st1)" and st': "st' = st2\<lparr>lp_deadline := schedule_next interval (li_after L) (lp_deadline st2)\<rparr>"
    using assms(1,2) by (auto simp: sampling_turn_def bindT_ok_iff liftR_def)
  have "lp_deadline st1 = lp_deadline st"
    using len by (auto simp: queue_length_def split: prod.splits sum.splits)
  moreover have "lp_deadline st2 = lp_deadline st1 \<and> \<not> lp_first_report st2"
    using store by (auto simp: store_sample_def advertise_first_sampling_cadence_def split: prod.splits if_splits)
  ultimately show ?thesis using assms(3) by (simp add: st' schedule_next_def Let_def)
qed

theorem sampling_keeps_cadence_witness:
  "105 < (110::int) \<and> sampling_turn ref_env ref_ops ref_queue ex_streak ex_turn ex_loop =
    (Inr (), ex_loop\<lparr>lp_read_health := 0, lp_write_health := 0, lp_deadline := 110, lp_queue := ex_stored_queue\<rparr>)"
proof -
  have "li_jittered ex_turn = Inr 10" "(0::int) < 10" "li_after ex_turn = 105" by (simp_all add: ex_turn_def)
  with sampling_keeps_cadence [OF ex_sampled] ex_sampled show ?thesis by fastforce
qed

section \<open>Configuration\<close>













section \<open>Export to a collector\<close>

text \<open>
  C30. The OTLP metrics of a report are its data points grouped by name, unit and kind in the
  order in which they first occur: no name occurs twice in the scope, no metric is empty, and no
  data point is lost or repeated.
\<close>

theorem otlp_metrics_are_grouped:
  "report_metrics r = collect_metrics (report_emissions r) \<and> distinct (map mt_name (report_metrics r)) \<and>
   list_all (\<lambda>m. points_of m \<noteq> []) (report_metrics r) \<and>
   sum_list (map (\<lambda>m. length (points_of m)) (report_metrics r)) = length (report_emissions r)"
  using names_distinct [of r] points_nonempty points_total
  by (auto simp: report_metrics_reference list_all_iff)

section \<open>Measurements\<close>

text \<open>
  C31. A 64-bit counter is converted to a rate by halves of 32 bits, and the result is the
  nearest f64 to the counter: the two roundings of the halves never differ from one.
\<close>

theorem counter_rounds_once:
  "u64_as_f64 v = f64_of_u64 v \<and> per_second v t = f64_div (f64_of_u64 v) (f64_max f64_zero t f64_milli)"
  by (simp add: u64_rounds_once per_second_def)

text \<open>
  The rates of a volume are those between its last observation in the previous sample and
  this one; a volume that was absent then, or one of whose counters went back, has the rate zero,
  whatever was observed before.
\<close>

theorem disk_rates_of_two_samples:
  "fst (disk_rates_update (snd (disk_rates_update previous ds0 t0)) ds t) =
     map (\<lambda>d. case observed ds0 (disk_id d) of
        Some (r, w) \<Rightarrow>
          (if r \<le> dsk_read_total d \<and> w \<le> dsk_written_total d
           then d\<lparr>dsk_read_per_second := per_second (dsk_read_total d - r) t,
                  dsk_written_per_second := per_second (dsk_written_total d - w) t\<rparr>
           else d\<lparr>dsk_read_per_second := f64_zero, dsk_written_per_second := f64_zero\<rparr>)
      | None \<Rightarrow> d\<lparr>dsk_read_per_second := f64_zero, dsk_written_per_second := f64_zero\<rparr>) ds"
  by (simp only: two_observations zero_rate)

text \<open>
  C32. The SMBIOS parser reads a table that is encoded as the standard says record by record,
  each with its own strings; and for any bytes it returns at most the limit of modules, in the
  order of their ids, without a repeated id.
\<close>

theorem smbios_table_is_read:
  assumes "list_all well_formed_structure structures" and "0 < limit"
  shows "smbios_parse maximum limit (encode_table structures) =
      (case read_structures maximum limit structures [] None of
         (modules, failure) \<Rightarrow> (dedup_by mem_id (sort_key mem_id modules), failure)) \<and>
    length (fst (smbios_parse maximum limit bytes)) \<le> limit \<and>
    sorted_wrt (<) (map mem_id (fst (smbios_parse maximum limit bytes)))"
  using assms parse_modules [of limit maximum bytes]
  by (simp add: smbios_parse_def table_read list_all_iff split: prod.splits)

text \<open>Text without white space, control characters or bytes above 127.\<close>

lemma lossy_plain: "list_all plain_byte s \<Longrightarrow> from_utf8_lossy s = s"
  by (induction s) (simp_all add: Let_def accepted_bytes_def sequence_length_def plain_byte_def)

lemma firmware_plain:
  assumes "list_all plain_byte s" "list_all (\<lambda>c. byte c \<noteq> 127) s" "s \<noteq> []" "length s \<le> n"
    and "map to_ascii_lower s \<notin> set placeholder_texts"
  shows "firmware_text n (from_utf8_lossy s) = Some s"
  using assms clean_plain [of s] plain_text_edges [of s]
  by (simp add: firmware_text_def hardware_text_def lossy_plain trim_id clean_def truncate_utf8_def)

definition ex_device :: string where
  "ex_device = map char_of [17, 0x15, 0x34, 0x12, 0, 0, 0, 0, 0, 0, 0, 0, 0, 2, 9, 0, 1, 0, 0x1a, 0, (0::nat)]"

theorem smbios_table_is_read_witness:
  "map mem_locator (fst (smbios_parse 256 64 (encode_table [(ex_device, [''DIMM0''])]))) = [Some ''DIMM0''] \<and>
   length (fst (smbios_parse 256 64 (encode_table [(ex_device, [''DIMM0''])]))) \<le> 64"
proof -
  have wf: "list_all well_formed_structure [(ex_device, [''DIMM0''])]"
    by (simp add: well_formed_structure_def ex_device_def byte_def)
  have "firmware_text 256 (from_utf8_lossy ''DIMM0'') = Some ''DIMM0''"
    by (rule firmware_plain) (simp_all add: plain_byte_def byte_def placeholder_texts_def to_ascii_lower_def char_of_def)
  then have "smbios_string 256 ex_device [''DIMM0''] 0x10 = Some ''DIMM0''"
    by (simp add: smbios_string_def ex_device_def byte_def Let_def)
  moreover have "populated ex_device" "byte (ex_device ! 0) = 17" "length ex_device = 0x15"
    by (simp_all add: populated_def smbios_word_def smbios_field_def ex_device_def byte_def)
  ultimately show ?thesis
    using smbios_table_is_read [OF wf, of 64 256 "encode_table [(ex_device, [''DIMM0''])]"]
    by (simp add: smbios_module_def)
qed

section \<open>Windows maintenance\<close>

text \<open>
  C38. The ACL restore is all or nothing before the first change: the callback is called only
  when the snapshot names exactly the current tree, with the same types, no repeated path, no
  reparse point, no special or multiply linked file; then with a prefix of the entries ordered
  by depth, so a parent before its children, and with every entry once when the restore succeeds.
\<close>

theorem restore_needs_exact_manifest:
  assumes "run_validated_acl_restore_plan grants_capacity snapshot current (recording apply_one) ([], s) = (r, (seen, s'))"
  shows "(if restorable snapshot current \<and> capacity_granted grants_capacity snapshot
      then (\<exists>n. seen = take n (restore_order snapshot)) \<and> (r = Inr () \<longrightarrow> seen = restore_order snapshot)
      else seen = [] \<and> s' = s \<and> \<not> is_ok r) \<and>
    mset (restore_order snapshot) = mset [0..<length snapshot] \<and>
    sorted (map (\<lambda>i. sp_depth (snapshot ! i)) (restore_order snapshot))"
proof -
  obtain error where code: "run_validated_acl_restore_plan grants_capacity snapshot current (recording apply_one) ([], s) =
     (if restorable snapshot current \<and> capacity_granted grants_capacity snapshot
      then apply_all (recording apply_one) (restore_order snapshot) ([], s) else (Inl error, ([], s)))"
    using restore_meets_specification [of grants_capacity snapshot current "recording apply_one" "([], s)"] by (elim exE)
  show ?thesis
  proof (cases "restorable snapshot current \<and> capacity_granted grants_capacity snapshot")
    case True
    with code assms have "apply_all (recording apply_one) (restore_order snapshot) ([], s) = (r, (seen, s'))" by simp
    from apply_all_recorded [OF this] True restore_order_complete [of snapshot] show ?thesis by simp
  next
    case False
    with code assms restore_order_complete [of snapshot] show ?thesis by auto
  qed
qed

definition ex_snapshot :: "acl_snapshot_path_fact list" where
  "ex_snapshot =
     [\<lparr>sp_path_key = [115], sp_depth = 1, sp_valid_relative_path = True, sp_is_directory = False\<rparr>,
      \<lparr>sp_path_key = [], sp_depth = 0, sp_valid_relative_path = True, sp_is_directory = True\<rparr>]"

definition ex_tree :: "acl_current_path_fact list" where
  "ex_tree =
     [\<lparr>cp_path_key = [], cp_is_directory = True, cp_is_regular_file = False, cp_is_reparse_point = False,
       cp_hard_link_count = None\<rparr>,
      \<lparr>cp_path_key = [115], cp_is_directory = False, cp_is_regular_file = True, cp_is_reparse_point = False,
       cp_hard_link_count = Some 1\<rparr>]"

theorem restore_needs_exact_manifest_witness:
  "restorable ex_snapshot ex_tree \<and> restore_order ex_snapshot = [1, 0] \<and>
   run_validated_acl_restore_plan (\<lambda>_. True) ex_snapshot ex_tree (recording (\<lambda>i. returnT ())) ([], 7::nat) = (Inr (), ([1, 0], 7))"
proof -
  have order: "restore_order ex_snapshot = [1, 0]"
    by (simp add: restore_order_def ex_snapshot_def upt_rec)
  have ok: "restorable ex_snapshot ex_tree"
    by (simp add: restorable_def ex_snapshot_def ex_tree_def max_acl_snapshot_entries_def max_maintenance_tree_nodes_def insert_commute)
  obtain r seen s' where run: "run_validated_acl_restore_plan (\<lambda>_. True) ex_snapshot ex_tree (recording (\<lambda>i. returnT ())) ([], 7::nat)
      = (r, (seen, s'))" by (metis prod.exhaust)
  then have "r = Inr () \<and> s' = 7"
    using restore_meets_specification [of "\<lambda>_. True" ex_snapshot ex_tree "recording (\<lambda>i. returnT ())" "([], 7::nat)"] ok order
    by (auto simp: capacity_granted_def recording_def bindT_apply returnT_apply)
  with run ok order restore_needs_exact_manifest [OF run] show ?thesis by (simp add: capacity_granted_def)
qed

text \<open>
  C39. A descriptor of managed state that the parser accepts is owned by SYSTEM and consists of
  exactly the allow entries of SYSTEM, the administrators and OWNER RIGHTS, and of the service
  exactly when it should have access; of a program directory it is those of SYSTEM, the
  administrators, the users and the service: no other trustee and no other right.
\<close>

theorem accepted_descriptors_are_exact:
  assumes "parse_managed_dacl sddl sid access dir = Inr ()" and "parse_program_dacl sddl' sid dir = Inr ()"
  shows "starts_with ''O:SY'' sddl \<and> length (dacl_entries sddl) = (if access then 4 else 3) \<and>
    list_all (\<lambda>f. grants dir system_sid full_access f \<or> grants dir admins_sid full_access f \<or>
       grants dir owner_sid {''RC''} f \<or> access \<and> grants dir {sid} modify_access f) (dacl_entries sddl) \<and>
    starts_with ''O:SY'' sddl' \<and> length (dacl_entries sddl') = 4 \<and>
    list_all (\<lambda>f. grants dir system_sid full_access f \<or> grants dir admins_sid full_access f \<or>
       grants dir users_sid read_execute f \<or> grants dir {sid} read_execute f) (dacl_entries sddl')"
  using managed_dacl_exact [OF assms(1)] program_dacl_exact [OF assms(2)] unfolding list_all_iff by blast

definition ex_sid :: string where "ex_sid = ''S-1-5-80-1-2-3-4-5''"

lemma ex_sid_plain: "plain_sid ex_sid"
  by (simp add: plain_sid_def ex_sid_def)

theorem accepted_descriptors_are_exact_witness:
  "length (dacl_entries (managed_security_descriptor_for_target (managed_state_security_descriptor (Some ex_sid)) True)) = 4 \<and>
   length (dacl_entries (managed_security_descriptor_for_target (program_security_descriptor ex_sid) True)) = 4"
  using accepted_descriptors_are_exact [OF managed_template_accepted [OF ex_sid_plain, of True] program_template_accepted [OF ex_sid_plain]]
  by simp

text \<open>
  The descriptors the maintenance sets are those it accepts: for a directory and for a file,
  with the service, without it, and for the program; and state that grants the service access
  is never taken for preserved state.
\<close>

theorem own_descriptors_are_accepted:
  assumes "plain_sid sid"
  shows "parse_managed_dacl (managed_security_descriptor_for_target (managed_state_security_descriptor (Some sid)) dir) sid True dir = Inr () \<and>
    parse_managed_dacl (managed_security_descriptor_for_target protected_directory_security_descriptor dir) sid' False dir = Inr () \<and>
    parse_program_dacl (managed_security_descriptor_for_target (program_security_descriptor sid) dir) sid dir = Inr () \<and>
    \<not> is_ok (parse_managed_dacl (managed_security_descriptor_for_target (managed_state_security_descriptor (Some sid)) dir) sid False dir)"
proof -
  have no: "\<not> is_ok (parse_managed_dacl sddl sid False dir)" if "parse_managed_dacl sddl sid True dir = Inr ()" for sddl
    using managed_dacl_exact [OF that] managed_dacl_exact [of sddl sid False dir]
    by (cases "parse_managed_dacl sddl sid False dir") auto
  show ?thesis
    using managed_template_accepted [OF assms] preserved_template_accepted program_template_accepted [OF assms] no by blast
qed

theorem own_descriptors_are_accepted_witness:
  "parse_program_dacl (managed_security_descriptor_for_target (program_security_descriptor ex_sid) False) ex_sid False = Inr ()"
  using own_descriptors_are_accepted [OF ex_sid_plain, of False] by blast




section \<open>The transactions of the Windows installer\<close>

text \<open>
  C9. A file of the state keeps its content through any sequence of commands of the installer that
  has no \<open>commit-purge\<close>, each run to its end or to its failure: it is in the state directory or in
  the quarantine of a purge, and an install journal never says that there was no state.\<close>

theorem state_outlives_commands:
  assumes files: "managed_files F content service_file"
    and paths: "discover F program_exe w0 = Inr paths"
    and own: "own_file paths service_file relative"
    and there: "state_kept F content paths relative x w"
    and commands: "''commit-purge'' \<notin> set commands"
  shows "state_kept F content paths relative x (run_commands F paths commands w)"
proof -
  have "kept_file F content service_file paths relative"
    using files discovered_disjoint [OF paths managed_files.plain_version [OF files]] own
    by (simp add: kept_file_def kept_file_axioms_def)
  then show ?thesis using commands there by (rule kept_file.commands_keep)
qed

theorem state_outlives_commands_witness:
  "state_kept machine_ops mem_content mem_paths mem_file ''queue''
     (run_commands machine_ops mem_paths [''prepare-install'', ''rollback-purge'', ''rollback-install'', ''prepare-purge''] mem_purge)"
  by (rule state_outlives_commands [OF machine.managed_files_axioms mem_discover mem_own purge_keeps_state]) simp


text \<open>
  C34. The last step of a purge deletes nothing but the quarantine and its own journal, whether it
  succeeds or fails.\<close>

theorem purge_deletes_only_quarantine:
  assumes files: "managed_files F content service_file"
    and paths: "discover F program_exe w0 = Inr paths"
    and q: "\<not> service_file q" "q \<notin> tree_of (fp_quarantine_root paths)" "q \<notin> tree_of (fp_uninstall_journal_root paths)"
  shows "content q (snd (commit_purge F paths w)) = content q w"
proof -
  have "single_file F content service_file q"
    using files q(1) by (simp add: single_file_def single_file_axioms_def)
  from single_file.purge_keeps_others [OF this discovered_disjoint [OF paths managed_files.plain_version [OF files]] q(2,3)]
  show ?thesis by (auto dest: keepsD)
qed

theorem purge_deletes_only_quarantine_witness:
  "mem_content mem_program_exe (snd (commit_purge machine_ops mem_paths mem_purge)) = Some ''xsoc''"
proof -
  have "mem_program_exe \<noteq> fp_quarantine_root mem_paths" "\<not> inside_test (fp_quarantine_root mem_paths) mem_program_exe"
    "mem_program_exe \<noteq> fp_uninstall_journal_root mem_paths" "\<not> inside_test (fp_uninstall_journal_root mem_paths) mem_program_exe"
    by code_simp+
  then have out: "mem_program_exe \<notin> tree_of (fp_quarantine_root mem_paths)"
    "mem_program_exe \<notin> tree_of (fp_uninstall_journal_root mem_paths)"
    by (simp_all add: tree_of_def inside_test_iff)
  show ?thesis
    unfolding purge_pending(2) [symmetric]
    by (rule purge_deletes_only_quarantine [OF machine.managed_files_axioms mem_discover _ out]) simp
qed


text \<open>
  C10. The rollback of a purge that has a journal brings the state back: when it succeeds the file is
  in the state directory, when it fails the file is still in one of the two places.\<close>

theorem rollback_returns_state:
  assumes files: "managed_files F content service_file"
    and paths: "discover F program_exe w0 = Inr paths"
    and own: "own_file paths service_file relative"
    and there: "state_kept F content paths relative x w"
    and pending: "mo_try_exists F (fp_uninstall_journal_root paths) w = Inr True"
  shows "case rollback_purge F paths w of
    (Inr _, w') \<Rightarrow> content (fp_state_root paths @ sep_unit # relative) w' = Some x
  | (Inl _, w') \<Rightarrow> state_kept F content paths relative x w'"
proof -
  have kept: "kept_file F content service_file paths relative"
    using files discovered_disjoint [OF paths managed_files.plain_version [OF files]] own
    by (simp add: kept_file_def kept_file_axioms_def)
  have "state_kept F content paths relative x (snd (rollback_purge F paths w))"
    using kept_file.commands_keep [OF kept, of "[''rollback-purge'']"] there
    by (simp add: run_commands_def maintenance_command_def)
  with kept_file.rollback_brings_back [OF kept there pending] show ?thesis
    by (auto split: prod.split sum.split)
qed

theorem rollback_returns_state_witness:
  "case rollback_purge machine_ops mem_paths mem_purge of
    (Inr _, w') \<Rightarrow> mem_content (fp_state_root mem_paths @ sep_unit # mem_file) w' = Some ''queue''
  | (Inl _, w') \<Rightarrow> state_kept machine_ops mem_content mem_paths mem_file ''queue'' w'"
  by (rule rollback_returns_state [OF machine.managed_files_axioms mem_discover mem_own purge_keeps_state purge_pending(1)])


text \<open>
  C37. Stopping the service ends: the fuel of its waits of 30 seconds suffices on a clock that a sleep
  advances by at least its length, and success means that the service is stopped.\<close>

theorem stopping_is_bounded:
  assumes "clocked F"
  shows "wait_loop F accept allowed (mo_now F w + stop_timeout) wait_fuel w \<noteq> None \<and>
    (case stop_client_service F w of
      (Inl e, w') \<Rightarrow> \<forall>m. e \<noteq> Panic m
    | (Inr _, w') \<Rightarrow> mo_service_state F w' = Inr service_stopped)"
  using clocked.wait_ends [OF assms, of accept allowed w] clocked.stop_result [OF assms, of w]
  by (cases "stop_client_service F w"; cases "fst (stop_client_service F w)") auto

theorem stopping_is_bounded_witness:
  "case stop_client_service machine_ops mem_purge of
    (Inl e, w') \<Rightarrow> \<forall>m. e \<noteq> Panic m
  | (Inr _, w') \<Rightarrow> mo_service_state machine_ops w' = Inr service_stopped"
  by (rule stopping_is_bounded [OF mem_clock.clocked_axioms, THEN conjunct2])

text \<open>
  C35. Every object of a tree that validates, at any depth, is a directory or a file with a single
  link, and none is a reparse point.\<close>

theorem validated_tree_is_plain:
  assumes "validate_tree F root w = Inr u" and "tree_object F w root p"
  shows "plain_object F w p"
  using validated_tree [OF assms(1)] assms(2) by (simp add: plain_tree_def)

theorem validated_tree_is_plain_witness: "plain_object machine_ops (mem_machine new_sddl new_sddl) mem_leaf"
  by (rule validated_tree_is_plain [OF machine_valid machine_leaf])





text \<open>
  C33. After a restoration of descriptors that succeeds, every descriptor of the snapshot is the one in
  force on its object: setting the descriptor of a directory later does not overwrite that of an
  object below it.\<close>

theorem restored_descriptors_are_in_force:
  assumes "descriptor_store F" and "drive_root root" and "restore_acl F root source w = (Inr u, w')"
  shows "\<exists>entries. read_acl_snapshot F source w = Inr entries \<and>
    (\<forall>e \<in> set entries. security_descriptor_sddl F (restore_target root (ae_relative_path e)) w' = Inr (ae_sddl e))"
  using descriptor_store.restored_in_force [OF assms(1-3)] by blast

theorem restored_descriptors_are_in_force_witness:
  "security_descriptor_sddl machine_ops mem_root (snd (restore_acl machine_ops mem_root mem_saved (mem_machine new_sddl new_sddl))) =
     Inr old_sddl \<and>
   security_descriptor_sddl machine_ops mem_leaf (snd (restore_acl machine_ops mem_root mem_saved (mem_machine new_sddl new_sddl))) =
     Inr old_sddl"
proof -
  have "drive_root mem_root" by code_simp
  from restored_descriptors_are_in_force [OF mem_descriptors.descriptor_store_axioms this machine_restore, of new_sddl new_sddl]
  show ?thesis
    by (simp add: machine_snapshot_read machine_restore mem_entries_def restore_target_def machine_paths)
qed

end
